(* ===== verification/Prelude.thy ===== *)
theory Prelude
  imports Main "HOL-Library.Multiset" "HOL-Library.List_Lexorder" "HOL-Library.Char_ord"
begin

text \<open>
  The parts of the Go language and of its standard library that the modelled sources use:
  times and durations, 64-bit integer results, strings as byte lists with \<open>TrimSpace\<close>,
  \<open>ToLower\<close>, \<open>Contains\<close> and \<open>Split\<close>, maps with their zero value on a missing key and
  their unspecified iteration order, and \<open>sort.Slice\<close>. The generic lemmas the
  components share are collected here.
\<close>

named_theorems store_defs \<open>definitions of the operations of the in-memory store\<close>
named_theorems frame_simps \<open>fields an operation leaves alone\<close>

section \<open>Times, durations and 64-bit integers\<close>

text \<open>
  A \<open>time.Time\<close> is the number of nanoseconds since the zero time, so the zero value is 0,
  \<open>a.After(b)\<close> is \<open>b < a\<close> and \<open>a.Before(b)\<close> is \<open>a < b\<close>; a \<open>time.Duration\<close> is a number
  of nanoseconds. A pointer to a time is an option. Sums and products of values that come
  from outside the program wrap at 64 bits through \<open>wrap64\<close>; counters that one operation
  raises by one are unbounded integers, since a wrap needs \<open>2^63\<close> operations.
\<close>

type_synonym gtime = int
type_synonym duration = int

definition is_zero_time :: "gtime \<Rightarrow> bool" where
  "is_zero_time t \<longleftrightarrow> t = 0"

definition after :: "gtime \<Rightarrow> gtime \<Rightarrow> bool" where
  "after a b \<longleftrightarrow> b < a"

definition before :: "gtime \<Rightarrow> gtime \<Rightarrow> bool" where
  "before a b \<longleftrightarrow> a < b"

text \<open>\<open>t.Sub(u)\<close> saturates at the bounds of a \<open>Duration\<close>.\<close>

definition time_sub :: "gtime \<Rightarrow> gtime \<Rightarrow> duration" where
  "time_sub t u = min (2 ^ 63 - 1) (max (- (2 ^ 63)) (t - u))"

definition milliseconds :: "duration \<Rightarrow> int" where
  "milliseconds d = (if d < 0 then - (- d div 1000000) else d div 1000000)"

lemmas time_defs = is_zero_time_def after_def before_def

definition time_second :: duration where "time_second = 1000000000"
definition time_minute :: duration where "time_minute = 60 * time_second"
definition time_hour :: duration where "time_hour = 60 * time_minute"

lemmas duration_defs = time_hour_def time_minute_def time_second_def

definition wrap64 :: "int \<Rightarrow> int" where
  "wrap64 x = (x + 2 ^ 63) mod 2 ^ 64 - 2 ^ 63"

lemma wrap64_bounds: "- (2 ^ 63) \<le> wrap64 x" "wrap64 x < 2 ^ 63"
  by (simp_all add: wrap64_def)

lemma wrap64_id: "- (2 ^ 63) \<le> x \<Longrightarrow> x < 2 ^ 63 \<Longrightarrow> wrap64 x = x"
  by (simp add: wrap64_def)

lemma wrap64_add_left [simp]: "wrap64 (wrap64 x + y) = wrap64 (x + y)"
proof -
  have "(wrap64 x + y + 2 ^ 63) mod 2 ^ 64 = ((x + 2 ^ 63) mod 2 ^ 64 + y) mod 2 ^ 64"
    by (simp add: wrap64_def)
  also have "\<dots> = ((x + 2 ^ 63) + y) mod 2 ^ 64"
    by (rule mod_add_left_eq)
  also have "\<dots> = (x + y + 2 ^ 63) mod 2 ^ 64"
    by (simp add: ac_simps)
  finally show ?thesis by (simp only: wrap64_def)
qed

lemma wrap64_add_right [simp]: "wrap64 (x + wrap64 y) = wrap64 (x + y)"
  by (metis add.commute wrap64_add_left)

lemma wrap64_idem [simp]: "wrap64 (wrap64 x) = wrap64 x"
  by (simp add: wrap64_def)

section \<open>Strings\<close>

text \<open>
  A Go string is a sequence of bytes, here the character list of its UTF-8 encoding;
  \<open>len\<close> counts bytes. \<open>strings.TrimSpace\<close> removes the runes of Unicode's White_Space
  at both ends: \<open>white_space\<close> lists their encodings.
\<close>

definition bytes :: "nat list \<Rightarrow> string" where
  "bytes ns = map char_of ns"

definition white_space :: "string list" where
  "white_space =
     map bytes
       [[9], [10], [11], [12], [13], [32], [194, 133], [194, 160], [225, 154, 128],
        [226, 128, 128], [226, 128, 129], [226, 128, 130], [226, 128, 131],
        [226, 128, 132], [226, 128, 133], [226, 128, 134], [226, 128, 135],
        [226, 128, 136], [226, 128, 137], [226, 128, 138], [226, 128, 168],
        [226, 128, 169], [226, 128, 175], [226, 129, 159], [227, 128, 128]]"

fun starts_with :: "string \<Rightarrow> string \<Rightarrow> bool" where
  "starts_with s [] = True"
| "starts_with [] (p # ps) = False"
| "starts_with (c # cs) (p # ps) = (c = p \<and> starts_with cs ps)"

fun leading_space :: "string list \<Rightarrow> string \<Rightarrow> nat" where
  "leading_space [] s = 0"
| "leading_space (w # ws) s = (if starts_with s w then length w else leading_space ws s)"

function trim_left :: "string list \<Rightarrow> string \<Rightarrow> string" where
  "trim_left ws s =
     (let n = leading_space ws s
      in if n = 0 \<or> s = [] then s else trim_left ws (drop n s))"
  by pat_completeness auto
termination
  by (relation "measure (\<lambda>(ws, s). length s)") (auto simp: Let_def)

declare trim_left.simps [simp del]

definition trim_space :: "string \<Rightarrow> string" where
  "trim_space s = rev (trim_left (map rev white_space) (rev (trim_left white_space s)))"

text \<open>
  \<open>strings.ToLower\<close>: the ASCII letters, and the two other letters whose lower case is
  ASCII (the dotted capital I and the Kelvin sign), so that a comparison of the result
  with an ASCII word is exact. Other letters outside ASCII are left as they are.
\<close>

definition lower_char :: "char \<Rightarrow> char" where
  "lower_char c =
     (let n = (of_char c :: nat) in if 65 \<le> n \<and> n \<le> 90 then char_of (n + 32) else c)"

function to_lower :: "string \<Rightarrow> string" where
  "to_lower s =
     (if s = [] then []
      else if starts_with s (bytes [196, 176]) then CHR ''i'' # to_lower (drop 2 s)
      else if starts_with s (bytes [226, 132, 170]) then CHR ''k'' # to_lower (drop 3 s)
      else lower_char (hd s) # to_lower (tl s))"
  by pat_completeness auto
termination
  by (relation "measure length") auto

declare to_lower.simps [simp del]

text \<open>
  Trimming and lower-casing are idempotent, and a lower-cased trimmed string is still
  trimmed: a key made of normalised parts is the key of the parts as they were given.
\<close>

lemma starts_with_iff: "starts_with s p \<longleftrightarrow> (\<exists>r. s = p @ r)"
  by (induction s p rule: starts_with.induct) auto

lemma leading_space_0:
  "[] \<notin> set ws \<Longrightarrow> leading_space ws s = 0 \<longleftrightarrow> (\<forall>w \<in> set ws. \<not> starts_with s w)"
  by (induction ws) auto

lemma leading_space_trim_left: "trim_left ws s = [] \<or> leading_space ws (trim_left ws s) = 0"
proof (induction ws s rule: trim_left.induct)
  case (1 ws s)
  then show ?case by (subst (1 2) trim_left.simps) (auto simp: Let_def)
qed

lemma trim_left_fix: "s = [] \<or> leading_space ws s = 0 \<Longrightarrow> trim_left ws s = s"
  by (subst trim_left.simps) (auto simp: Let_def)

lemma trim_left_idem [simp]: "trim_left ws (trim_left ws s) = trim_left ws s"
  using leading_space_trim_left trim_left_fix by blast

lemma trim_left_suffix: "\<exists>p. s = p @ trim_left ws s"
proof (induction ws s rule: trim_left.induct)
  case (1 ws s)
  show ?case
  proof (cases "leading_space ws s = 0 \<or> s = []")
    case False
    then obtain p where "drop (leading_space ws s) s = p @ trim_left ws (drop (leading_space ws s) s)"
      using 1 by blast
    then have "s = (take (leading_space ws s) s @ p) @ trim_left ws (drop (leading_space ws s) s)"
      by (metis append.assoc append_take_drop_id)
    moreover have "trim_left ws s = trim_left ws (drop (leading_space ws s) s)"
      using False by (subst trim_left.simps) (simp add: Let_def)
    ultimately show ?thesis by (metis (no_types))
  qed (auto simp: trim_left_fix)
qed

lemma white_space_not_Nil: "[] \<notin> set white_space" "[] \<notin> set (map rev white_space)"
  by (simp_all add: white_space_def bytes_def)

definition trimmed :: "string \<Rightarrow> bool" where
  "trimmed s \<longleftrightarrow> (\<forall>w \<in> set white_space. \<forall>r. s \<noteq> w @ r \<and> s \<noteq> r @ w)"

lemma trim_space_id: "trimmed s \<Longrightarrow> trim_space s = s"
proof -
  assume s: "trimmed s"
  then have "leading_space white_space s = 0"
    by (auto simp: leading_space_0 white_space_not_Nil starts_with_iff trimmed_def)
  moreover have "rev s \<noteq> rev w @ r" if "w \<in> set white_space" for w r
  proof
    assume "rev s = rev w @ r"
    then have "s = rev r @ w" by (metis rev_append rev_rev_ident)
    with s that show False by (auto simp: trimmed_def)
  qed
  then have "leading_space (map rev white_space) (rev s) = 0"
    unfolding leading_space_0 [OF white_space_not_Nil(2)] by (auto simp: starts_with_iff)
  ultimately show ?thesis by (simp add: trim_space_def trim_left_fix)
qed

lemma trimmed_trim_space: "trimmed (trim_space s)"
proof (cases "trim_space s = []")
  case True
  then show ?thesis using white_space_not_Nil by (auto simp: trimmed_def)
next
  case False
  let ?u = "trim_left white_space s" and ?v = "trim_left (map rev white_space) (rev (trim_left white_space s))"
  have t: "trim_space s = rev ?v" by (simp add: trim_space_def)
  obtain p where p: "rev ?u = p @ ?v" using trim_left_suffix by blast
  then have u: "?u = rev ?v @ rev p" by (metis rev_append rev_rev_ident)
  have "?u \<noteq> []" "?v \<noteq> []" using False t u by auto
  then have u0: "leading_space white_space ?u = 0" and v0: "leading_space (map rev white_space) ?v = 0"
    using leading_space_trim_left by blast+
  show ?thesis
    unfolding trimmed_def
  proof (intro ballI allI conjI notI)
    fix w r assume w: "w \<in> set white_space"
    { assume "trim_space s = w @ r"
      then have "?u = w @ r @ rev p" using u t by simp
      with u0 w show False
        by (auto simp: leading_space_0 white_space_not_Nil starts_with_iff) }
    { assume "trim_space s = r @ w"
      then have "?v = rev w @ rev r" using t by (metis rev_append rev_rev_ident)
      with v0 w show False
        unfolding leading_space_0 [OF white_space_not_Nil(2)] by (auto simp: starts_with_iff) }
  qed
qed

lemma trim_space_idem [simp]: "trim_space (trim_space s) = trim_space s"
  by (rule trim_space_id) (rule trimmed_trim_space)

text \<open>A string whose first and last bytes are visible ASCII characters is trimmed.\<close>

definition visible_char :: "char \<Rightarrow> bool" where
  "visible_char c \<longleftrightarrow> 33 \<le> (of_char c :: nat) \<and> (of_char c :: nat) \<le> 126"

lemma white_space_ends:
  "w \<in> set white_space \<Longrightarrow> w \<noteq> [] \<and> \<not> visible_char (hd w) \<and> \<not> visible_char (last w)"
  by (auto simp: white_space_def bytes_def visible_char_def)

lemma trim_space_visible:
  assumes "visible_char (hd s)" "visible_char (last s)"
  shows "trim_space s = s"
proof (rule trim_space_id, unfold trimmed_def, intro ballI allI conjI notI)
  fix w r assume w: "w \<in> set white_space"
  { assume "s = w @ r" then show False using assms(1) white_space_ends [OF w] by simp }
  { assume "s = r @ w" then show False using assms(2) white_space_ends [OF w] by simp }
qed

lemma trim_space_Nil [simp]: "trim_space [] = []"
  by (rule trim_space_id) (use white_space_not_Nil in \<open>auto simp: trimmed_def\<close>)

text \<open>On ASCII strings the case mappings work byte by byte.\<close>

definition ascii :: "string \<Rightarrow> bool" where
  "ascii s \<longleftrightarrow> list_all (\<lambda>c. (of_char c :: nat) < 128) s"

lemma ascii_start: "ascii (c # s) \<Longrightarrow> 128 \<le> n mod 256 \<Longrightarrow> \<not> starts_with (c # s) (bytes (n # p))"
  by (auto simp: ascii_def bytes_def of_char_of)

lemma to_lower_map: "ascii s \<Longrightarrow> to_lower s = map lower_char s"
proof (induction s)
  case (Cons c s)
  then have "\<not> starts_with (c # s) (bytes [196, 176])" "\<not> starts_with (c # s) (bytes [226, 132, 170])"
    by (simp_all add: ascii_start)
  with Cons show ?case by (simp add: to_lower.simps [of "c # s"] ascii_def)
qed (simp add: to_lower.simps)

text \<open>Bytes that are not lower-case letters come out of \<open>to_lower\<close> only as they went in.\<close>

definition lower_letter :: "char \<Rightarrow> bool" where
  "lower_letter c \<longleftrightarrow> (let n = (of_char c :: nat) in 97 \<le> n \<and> n \<le> 122)"

lemma lower_char_fix: "\<not> lower_letter (lower_char c) \<Longrightarrow> lower_char c = c"
  by (auto simp: lower_letter_def lower_char_def Let_def split: if_splits)

lemma to_lower_Nil [simp]: "to_lower [] = []"
  by (subst to_lower.simps) simp

lemma to_lower_eq_Nil [simp]: "to_lower s = [] \<longleftrightarrow> s = []"
  by (subst to_lower.simps) simp

lemma lower_letter_ik: "lower_letter CHR ''i''" "lower_letter CHR ''k''"
  by (simp_all add: lower_letter_def)

lemma to_lower_prefix:
  "\<forall>c \<in> set w. \<not> lower_letter c \<Longrightarrow> to_lower s = w @ r \<Longrightarrow> \<exists>r'. s = w @ r'"
proof (induction w arbitrary: s)
  case (Cons c w)
  then have s: "s \<noteq> []" by auto
  have "\<not> starts_with s (bytes [196, 176])" "\<not> starts_with s (bytes [226, 132, 170])"
    using Cons.prems s lower_letter_ik by (auto simp: to_lower.simps [of s] split: if_splits)
  then have low: "lower_char (hd s) # to_lower (tl s) = c # w @ r"
    using Cons.prems s by (simp add: to_lower.simps [of s])
  then have "hd s = c" using Cons.prems lower_char_fix by fastforce
  moreover obtain r' where "tl s = w @ r'" using Cons low by auto
  ultimately show ?case using s by (metis append_Cons list.collapse)
qed simp

lemma lower_char_out:
  "\<not> (65 \<le> (of_char c :: nat) \<and> (of_char c :: nat) \<le> 90) \<Longrightarrow> lower_char c = c"
  unfolding lower_char_def Let_def by (rule if_not_P)

lemma lower_char_in:
  "65 \<le> (of_char c :: nat) \<and> (of_char c :: nat) \<le> 90 \<Longrightarrow>
   lower_char c = char_of ((of_char c :: nat) + 32)"
  unfolding lower_char_def Let_def by (rule if_P)

lemma lower_char_idem [simp]: "lower_char (lower_char c) = lower_char c"
proof (cases "65 \<le> (of_char c :: nat) \<and> (of_char c :: nat) \<le> 90")
  case True
  have "(of_char (char_of ((of_char c :: nat) + 32)) :: nat) = of_char c + 32"
    unfolding of_char_of by (rule mod_less) (use True in linarith)
  then have "(of_char (lower_char c) :: nat) = of_char c + 32"
    by (simp only: lower_char_in [OF True])
  with True show ?thesis by (intro lower_char_out) linarith
next
  case False
  then show ?thesis by (simp only: lower_char_out not_False_eq_True)
qed

lemma to_lower_not_start:
  "\<forall>c \<in> set w. \<not> lower_letter c \<Longrightarrow> \<not> starts_with s w \<Longrightarrow> \<not> starts_with (to_lower s) w"
  unfolding starts_with_iff using to_lower_prefix by blast

lemma special_no_letter:
  "\<forall>c \<in> set (bytes [196, 176]). \<not> lower_letter c"
  "\<forall>c \<in> set (bytes [226, 132, 170]). \<not> lower_letter c"
  by (simp_all add: bytes_def lower_letter_def)

lemma to_lower_ascii:
  "\<not> starts_with (c # s) (bytes [196, 176]) \<Longrightarrow> \<not> starts_with (c # s) (bytes [226, 132, 170]) \<Longrightarrow>
   to_lower (c # s) = lower_char c # to_lower s"
  by (simp add: to_lower.simps [of "c # s"])

lemma to_lower_ik [simp]:
  "to_lower (CHR ''i'' # s) = CHR ''i'' # to_lower s"
  "to_lower (CHR ''k'' # s) = CHR ''k'' # to_lower s"
  by (subst to_lower_ascii; simp add: bytes_def char_of_def lower_char_def)+

lemma to_lower_idem [simp]: "to_lower (to_lower s) = to_lower s"
proof (induction s rule: to_lower.induct)
  case (1 s)
  consider "s = []"
    | (i) "s \<noteq> []" "starts_with s (bytes [196, 176])"
    | (k) "s \<noteq> []" "\<not> starts_with s (bytes [196, 176])" "starts_with s (bytes [226, 132, 170])"
    | (plain) "s \<noteq> []" "\<not> starts_with s (bytes [196, 176])" "\<not> starts_with s (bytes [226, 132, 170])"
    by blast
  then show ?case
  proof cases
    case i
    then have "to_lower s = CHR ''i'' # to_lower (drop 2 s)" by (simp add: to_lower.simps [of s])
    with 1(1) i show ?thesis by simp
  next
    case k
    then have "to_lower s = CHR ''k'' # to_lower (drop 3 s)" by (simp add: to_lower.simps [of s])
    with 1(2) k show ?thesis by simp
  next
    case plain
    then have s: "to_lower s = lower_char (hd s) # to_lower (tl s)"
      by (simp add: to_lower.simps [of s])
    have "\<not> starts_with (to_lower s) (bytes [196, 176])"
      "\<not> starts_with (to_lower s) (bytes [226, 132, 170])"
      using plain to_lower_not_start special_no_letter by blast+
    with 1(3) plain s show ?thesis by (simp add: to_lower_ascii)
  qed simp
qed

lemma to_lower_suffix:
  "w \<noteq> [] \<Longrightarrow> \<forall>c \<in> set w. \<not> lower_letter c \<Longrightarrow> to_lower s = p @ w \<Longrightarrow> \<exists>p'. s = p' @ w"
proof (induction s arbitrary: p rule: to_lower.induct)
  case (1 s)
  have s: "s \<noteq> []" using "1.prems" by auto
  show ?case
  proof (cases p)
    case Nil
    then obtain r' where r': "s = w @ r'" using to_lower_prefix "1.prems" by (metis append.right_neutral append_Nil)
    have "length r' = 0"
    proof (rule ccontr)
      assume "length r' \<noteq> 0"
      have low: "\<forall>c \<in> set v. \<not> lower_letter c \<Longrightarrow> to_lower (v @ r') = v \<Longrightarrow> r' = []" for v
      proof (induction v)
        case (Cons c v)
        have "\<not> starts_with (c # v @ r') (bytes [196, 176])"
          "\<not> starts_with (c # v @ r') (bytes [226, 132, 170])"
          using Cons.prems lower_letter_ik
          by (auto simp: to_lower.simps [of "c # v @ r'"] split: if_splits)
        then have "to_lower (v @ r') = v"
          using Cons.prems by (simp add: to_lower.simps [of "c # v @ r'"])
        then show ?case using Cons by simp
      qed simp
      from low [of w] "1.prems" Nil r' \<open>length r' \<noteq> 0\<close> show False by simp
    qed
    with r' show ?thesis by simp
  next
    case (Cons c p')
    consider (i) "starts_with s (bytes [196, 176])" "to_lower (drop 2 s) = p' @ w"
      | (k) "\<not> starts_with s (bytes [196, 176])" "starts_with s (bytes [226, 132, 170])"
        "to_lower (drop 3 s) = p' @ w"
      | (plain) "\<not> starts_with s (bytes [196, 176])" "\<not> starts_with s (bytes [226, 132, 170])"
        "to_lower (tl s) = p' @ w"
      using "1.prems"(3) s Cons by (auto simp: to_lower.simps [of s] split: if_splits)
    then obtain q n where "drop n s = q @ w"
    proof cases
      case i
      with "1.IH"(1) s "1.prems" that show ?thesis by blast
    next
      case k
      with "1.IH"(2) s "1.prems" that show ?thesis by blast
    next
      case plain
      with "1.IH"(3) s "1.prems" that [of 1] show ?thesis by (metis drop0 drop_Suc One_nat_def)
    qed
    then have "s = (take n s @ q) @ w" by (metis append.assoc append_take_drop_id)
    then show ?thesis by blast
  qed
qed

lemma white_space_no_letter: "w \<in> set white_space \<Longrightarrow> c \<in> set w \<Longrightarrow> \<not> lower_letter c"
  by (auto simp: white_space_def bytes_def lower_letter_def)

lemma trimmed_to_lower: "trimmed s \<Longrightarrow> trimmed (to_lower s)"
  unfolding trimmed_def
  by (metis to_lower_prefix to_lower_suffix white_space_no_letter white_space_not_Nil(1))

lemma trim_space_to_lower_trim [simp]:
  "trim_space (to_lower (trim_space s)) = to_lower (trim_space s)"
  by (simp add: trim_space_id trimmed_to_lower trimmed_trim_space)

text \<open>
  \<open>strings.ToUpper\<close>: the ASCII letters, and the two other letters whose upper case is
  ASCII (the dotless i and the long s).
\<close>

definition upper_char :: "char \<Rightarrow> char" where
  "upper_char c =
     (let n = (of_char c :: nat) in if 97 \<le> n \<and> n \<le> 122 then char_of (n - 32) else c)"

function to_upper :: "string \<Rightarrow> string" where
  "to_upper s =
     (if s = [] then []
      else if starts_with s (bytes [196, 177]) then CHR ''I'' # to_upper (drop 2 s)
      else if starts_with s (bytes [197, 191]) then CHR ''S'' # to_upper (drop 2 s)
      else upper_char (hd s) # to_upper (tl s))"
  by pat_completeness auto
termination
  by (relation "measure length") auto

declare to_upper.simps [simp del]

lemma to_upper_map: "ascii s \<Longrightarrow> to_upper s = map upper_char s"
proof (induction s)
  case (Cons c s)
  then have "\<not> starts_with (c # s) (bytes [196, 177])" "\<not> starts_with (c # s) (bytes [197, 191])"
    by (simp_all add: ascii_start)
  with Cons show ?case by (simp add: to_upper.simps [of "c # s"] ascii_def)
qed (simp add: to_upper.simps)

fun contains :: "string \<Rightarrow> string \<Rightarrow> bool" where
  "contains [] sub = (sub = [])"
| "contains (c # cs) sub = (starts_with (c # cs) sub \<or> contains cs sub)"

text \<open>\<open>strings.Split(s, "\x00")\<close>: the pieces between the separators.\<close>

definition nul :: char where "nul = char_of (0::nat)"

fun split_nul :: "string \<Rightarrow> string list" where
  "split_nul [] = [[]]"
| "split_nul (c # cs) =
     (if c = nul then [] # split_nul cs
      else (case split_nul cs of [] \<Rightarrow> [[c]] | p # ps \<Rightarrow> (c # p) # ps))"

lemma split_nul_not_Nil [simp]: "split_nul s \<noteq> []"
  by (induction s) (auto split: list.splits)

lemma split_nul_plain: "nul \<notin> set s \<Longrightarrow> split_nul s = [s]"
  by (induction s) auto

lemma split_nul_append:
  "nul \<notin> set s \<Longrightarrow> split_nul (s @ nul # t) = s # split_nul t"
  by (induction s) auto

text \<open>\<open>firstNonEmpty(values...)\<close> of store.go and \<open>nonEmpty(value, fallback)\<close> of app/runs.go.\<close>

fun first_non_empty :: "string list \<Rightarrow> string" where
  "first_non_empty [] = ''''"
| "first_non_empty (v # vs) = (if v \<noteq> '''' then v else first_non_empty vs)"

lemma first_non_empty_eq_Nil: "first_non_empty vs = '''' \<longleftrightarrow> (\<forall>v \<in> set vs. v = '''')"
  by (induction vs) auto

lemma first_non_empty_mem: "first_non_empty vs \<noteq> '''' \<Longrightarrow> first_non_empty vs \<in> set vs"
  by (induction vs) auto

section \<open>Maps\<close>

text \<open>
  A Go map is a partial function. Reading a missing key gives the zero value of the
  element type (\<open>map_get\<close>). A \<open>range\<close> loop visits every entry once in an order the
  runtime picks anew each time: the operations that loop over a map take that order as an
  argument, a list of keys, and \<open>enumerates order m\<close> says that it is one the runtime can
  pick.
\<close>

definition map_get :: "'v \<Rightarrow> ('k \<rightharpoonup> 'v) \<Rightarrow> 'k \<Rightarrow> 'v" where
  "map_get z m k = (case m k of None \<Rightarrow> z | Some v \<Rightarrow> v)"

lemma map_get_simps [simp]:
  "m k = None \<Longrightarrow> map_get z m k = z" "m k = Some v \<Longrightarrow> map_get z m k = v"
  by (simp_all add: map_get_def)

lemma map_get_upd [simp]: "map_get z (m(k \<mapsto> v)) j = (if j = k then v else map_get z m j)"
  by (simp add: map_get_def)

definition enumerates :: "'k list \<Rightarrow> ('k \<rightharpoonup> 'v) \<Rightarrow> bool" where
  "enumerates order m \<longleftrightarrow> distinct order \<and> set order = dom m"

fun range_vals :: "('k \<rightharpoonup> 'v) \<Rightarrow> 'k list \<Rightarrow> 'v list" where
  "range_vals m [] = []"
| "range_vals m (k # ks) =
     (case m k of None \<Rightarrow> range_vals m ks | Some v \<Rightarrow> v # range_vals m ks)"

lemma set_range_vals: "set (range_vals m ks) = {v. \<exists>k \<in> set ks. m k = Some v}"
  by (induction ks) (auto split: option.splits)

lemma set_range_vals_enum: "enumerates ks m \<Longrightarrow> set (range_vals m ks) = ran m"
  by (auto simp: set_range_vals enumerates_def ran_def)

lemma mset_range_vals:
  "mset (range_vals m ks) = image_mset (\<lambda>k. the (m k)) (filter_mset (\<lambda>k. m k \<noteq> None) (mset ks))"
  by (induction ks) (auto split: option.splits)

text \<open>Two orders of the same map visit the same entries the same number of times.\<close>

lemma range_vals_perm:
  assumes "enumerates ks m" and "enumerates ls m"
  shows "mset (range_vals m ks) = mset (range_vals m ls)"
proof -
  have "mset ks = mset ls"
    using assms by (metis enumerates_def set_eq_iff_mset_eq_distinct)
  then show ?thesis by (simp add: mset_range_vals)
qed

lemma length_range_vals: "set ks \<subseteq> dom m \<Longrightarrow> length (range_vals m ks) = length ks"
  by (induction ks) auto

lemma enumerates_finite: "enumerates ks m \<Longrightarrow> finite (dom m)"
  by (metis List.finite_set enumerates_def)

section \<open>\<open>sort.Slice\<close>\<close>

text \<open>
  \<open>sort.Slice(xs, less)\<close> permutes \<open>xs\<close> so that no later element is less than an earlier
  one; the order of equal elements is unspecified. The slices sorted in the sources are
  filled by a \<open>range\<close> loop over a map, whose order is arbitrary, so a stable sort over
  every iteration order covers every result.
\<close>

fun insert_slice :: "('a \<Rightarrow> 'a \<Rightarrow> bool) \<Rightarrow> 'a \<Rightarrow> 'a list \<Rightarrow> 'a list" where
  "insert_slice lt x [] = [x]"
| "insert_slice lt x (y # ys) =
     (if lt y x then y # insert_slice lt x ys else x # y # ys)"

fun sort_slice :: "('a \<Rightarrow> 'a \<Rightarrow> bool) \<Rightarrow> 'a list \<Rightarrow> 'a list" where
  "sort_slice lt [] = []"
| "sort_slice lt (x # xs) = insert_slice lt x (sort_slice lt xs)"

lemma mset_insert_slice [simp]: "mset (insert_slice lt x xs) = add_mset x (mset xs)"
  by (induction xs) auto

lemma mset_sort_slice [simp]: "mset (sort_slice lt xs) = mset xs"
  by (induction xs) auto

lemma set_insert_slice [simp]: "set (insert_slice lt x xs) = insert x (set xs)"
  by (induction xs) auto

lemma set_sort_slice [simp]: "set (sort_slice lt xs) = set xs"
  by (induction xs) auto

lemma length_sort_slice [simp]: "length (sort_slice lt xs) = length xs"
  by (metis mset_sort_slice size_mset)

locale sort_less =
  fixes lt :: "'a \<Rightarrow> 'a \<Rightarrow> bool"
  assumes asym: "lt a b \<Longrightarrow> \<not> lt b a"
    and ntrans: "\<not> lt a b \<Longrightarrow> \<not> lt b c \<Longrightarrow> \<not> lt a c"
begin

lemma insert_sorted:
  "sorted_wrt (\<lambda>a b. \<not> lt b a) xs \<Longrightarrow> sorted_wrt (\<lambda>a b. \<not> lt b a) (insert_slice lt x xs)"
proof (induction xs)
  case (Cons y ys)
  then show ?case by (auto dest: asym ntrans [of _ y x])
qed simp

lemma sorted: "sorted_wrt (\<lambda>a b. \<not> lt b a) (sort_slice lt xs)"
  by (induction xs) (auto intro: insert_sorted)

end

end
