(* ===== verification/Protocol.thy ===== *)
theory Protocol
  imports Prelude Complex_Main
begin

text \<open>
  The data the services exchange: the structs and enumerations of
  \<open>packages/common/protocol\<close>, the errors and option structs of
  \<open>services/control-plane/internal/app\<close>, with the pure functions that sit beside them.
  A struct is a record whose field names carry a prefix for the struct; a string-typed
  enumeration is a datatype with its constants, and with a constructor for any other
  string where one can arrive from outside. \<open>float64\<close> values are exact rationals; the
  rounding of an operation on them is an argument of the operation.
\<close>

section \<open>Errors (app/external.go)\<close>

datatype app_error =
    ErrExternalAdapterNotImplemented
  | ErrNotFound
  | ErrClosed
  | ErrAttemptMismatch
  | ErrInvalidInput
  | ErrIdentityConflict
  | ErrMessage string

text \<open>\<open>ErrMessage\<close> is an error made on the spot with \<open>errors.New\<close> or \<open>fmt.Errorf\<close>, by its text.\<close>

type_synonym 'a result = "app_error + 'a"

section \<open>Users, identities, projects, members (identity.go)\<close>

record user =
  usr_id :: string
  usr_email :: string
  usr_name :: string
  usr_status :: string
  usr_created_at :: gtime

record user_identity =
  uid_id :: string
  uid_user_id :: string
  uid_provider :: string
  uid_issuer :: string
  uid_subject :: string
  uid_email :: string
  uid_name :: string
  uid_created_at :: gtime
  uid_updated_at :: gtime

record project =
  prj_id :: string
  prj_organization_id :: string
  prj_name :: string
  prj_created_at :: gtime

record organization_member =
  omb_id :: string
  omb_user_id :: string
  omb_organization_id :: string
  omb_role :: string
  omb_email :: string
  omb_name :: string
  omb_created_at :: gtime
  omb_updated_at :: gtime

record member_input =
  min_user_id :: string
  min_email :: string
  min_name :: string
  min_role :: string

record project_member =
  pmb_id :: string
  pmb_user_id :: string
  pmb_project_id :: string
  pmb_role :: string
  pmb_email :: string
  pmb_name :: string
  pmb_created_at :: gtime
  pmb_updated_at :: gtime

section \<open>Invitations and their e-mail (identity.go)\<close>

datatype invitation_status = InvitationPending | InvitationAccepted | InvitationExpired

record invitation =
  inv_id :: string
  inv_token :: string
  inv_organization_id :: string
  inv_project_id :: string
  inv_email :: string
  inv_role :: string
  inv_status :: invitation_status
  inv_invited_by_user_id :: string
  inv_accepted_by_user_id :: string
  inv_created_at :: gtime
  inv_expires_at :: gtime
  inv_accepted_at :: "gtime option"

record invitation_input =
  ivi_email :: string
  ivi_role :: string
  ivi_project_id :: string
  ivi_expires_in_hours :: int

datatype delivery_status =
    InvitationEmailPending
  | InvitationEmailSending
  | InvitationEmailSent
  | InvitationEmailFailed
  | InvitationEmailBounced

record delivery =
  dlv_id :: string
  dlv_invitation_id :: string
  dlv_invitation :: invitation
  dlv_status :: delivery_status
  dlv_attempts :: int
  dlv_max_attempts :: int
  dlv_next_attempt_at :: gtime
  dlv_locked_by :: string
  dlv_locked_until :: "gtime option"
  dlv_last_error :: string
  dlv_sent_at :: "gtime option"
  dlv_created_at :: gtime
  dlv_updated_at :: gtime

datatype email_event_type =
    EmailEventDelivered
  | EmailEventBounced
  | EmailEventComplaint
  | EmailEventDropped

record suppression =
  sup_id :: string
  sup_organization_id :: string
  sup_email :: string
  sup_reason :: string
  sup_source_event_id :: string
  sup_provider :: string
  sup_provider_message_id :: string
  sup_created_at :: gtime
  sup_updated_at :: gtime

section \<open>Chats and messages (chat.go)\<close>

record chat_session =
  cht_id :: string
  cht_user_id :: string
  cht_project_id :: string
  cht_title :: string
  cht_archived :: bool
  cht_last_run_id :: string
  cht_created_at :: gtime
  cht_updated_at :: gtime
  cht_message_count :: nat

datatype message_role = RoleSystem | RoleUser | RoleAssistant | RoleTool

record message =
  msg_id :: string
  msg_chat_id :: string
  msg_run_id :: string
  msg_role :: message_role
  msg_content :: string
  msg_created_at :: gtime

section \<open>Runs and their usage (run.go, quota.go)\<close>

datatype run_status =
    RunQueued
  | RunRunning
  | RunWaitingForApproval
  | RunSucceeded
  | RunFailed
  | RunCanceled

record run_usage =
  usg_provider :: string
  usg_model :: string
  usg_input_tokens :: int
  usg_output_tokens :: int
  usg_reasoning_tokens :: int
  usg_cached_tokens :: int
  usg_total_tokens :: int
  usg_estimated :: bool
  usg_token_estimator :: string
  usg_cost :: rat
  usg_currency :: string
  usg_latency_millis :: int
  usg_retry_count :: int
  usg_fallback_from :: string
  usg_fallback_to :: string
  usg_error_class :: string
  usg_tool_calls :: int
  usg_tool_errors :: int
  usg_sandbox_commands :: int
  usg_sandbox_duration_millis :: int
  usg_sandbox_output_bytes :: int
  usg_sandbox_cpu_millis :: int
  usg_sandbox_memory_max_bytes :: int
  usg_artifact_count :: int
  usg_artifact_bytes :: int

record run =
  run_id :: string
  run_chat_id :: string
  run_user_id :: string
  run_workspace_id :: string
  run_attempt_id :: string
  run_claimed_by :: string
  run_lease_expires_at :: "gtime option"
  run_attempt_count :: int
  run_status :: run_status
  run_error :: string
  run_usage :: run_usage
  run_created_at :: gtime
  run_updated_at :: gtime
  run_started_at :: "gtime option"
  run_finished_at :: "gtime option"

definition zero_run_usage :: run_usage where
  "zero_run_usage = \<lparr>usg_provider = '''', usg_model = '''', usg_input_tokens = 0,
     usg_output_tokens = 0, usg_reasoning_tokens = 0, usg_cached_tokens = 0,
     usg_total_tokens = 0, usg_estimated = False, usg_token_estimator = '''', usg_cost = 0,
     usg_currency = '''', usg_latency_millis = 0, usg_retry_count = 0,
     usg_fallback_from = '''', usg_fallback_to = '''', usg_error_class = '''',
     usg_tool_calls = 0, usg_tool_errors = 0, usg_sandbox_commands = 0,
     usg_sandbox_duration_millis = 0, usg_sandbox_output_bytes = 0,
     usg_sandbox_cpu_millis = 0, usg_sandbox_memory_max_bytes = 0, usg_artifact_count = 0,
     usg_artifact_bytes = 0\<rparr>"

definition normalize_run_usage :: "run_usage \<Rightarrow> run_usage" where
  "normalize_run_usage u =
     (if usg_total_tokens u = 0
      then u\<lparr>usg_total_tokens := wrap64 (usg_input_tokens u + usg_output_tokens u)\<rparr>
      else u)"

definition is_zero_run_usage :: "run_usage \<Rightarrow> bool" where
  "is_zero_run_usage u \<longleftrightarrow>
     usg_provider u = '''' \<and> usg_model u = '''' \<and> usg_input_tokens u = 0 \<and>
     usg_output_tokens u = 0 \<and> usg_reasoning_tokens u = 0 \<and> usg_cached_tokens u = 0 \<and>
     usg_total_tokens u = 0 \<and> \<not> usg_estimated u \<and> usg_token_estimator u = '''' \<and>
     usg_cost u = 0 \<and> usg_currency u = '''' \<and> usg_latency_millis u = 0 \<and>
     usg_retry_count u = 0 \<and> usg_fallback_from u = '''' \<and> usg_fallback_to u = '''' \<and>
     usg_error_class u = '''' \<and> usg_tool_calls u = 0 \<and> usg_tool_errors u = 0 \<and>
     usg_sandbox_commands u = 0 \<and> usg_sandbox_duration_millis u = 0 \<and>
     usg_sandbox_output_bytes u = 0 \<and> usg_sandbox_cpu_millis u = 0 \<and>
     usg_sandbox_memory_max_bytes u = 0 \<and> usg_artifact_count u = 0 \<and>
     usg_artifact_bytes u = 0"

lemma is_zero_run_usage_iff: "is_zero_run_usage u \<longleftrightarrow> u = zero_run_usage"
  by (cases u) (auto simp: is_zero_run_usage_def zero_run_usage_def)

lemma normalize_run_usage_idem [simp]:
  "normalize_run_usage (normalize_run_usage u) = normalize_run_usage u"
  by (cases u) (simp add: normalize_run_usage_def)

record usage_bucket =
  bkt_provider :: string
  bkt_model :: string
  bkt_currency :: string
  bkt_estimated :: bool
  bkt_token_estimator :: string
  bkt_run_count :: int
  bkt_input_tokens :: int
  bkt_output_tokens :: int
  bkt_reasoning_tokens :: int
  bkt_cached_tokens :: int
  bkt_total_tokens :: int
  bkt_cost :: rat
  bkt_latency_millis :: int
  bkt_retry_count :: int
  bkt_tool_calls :: int
  bkt_tool_errors :: int
  bkt_sandbox_commands :: int
  bkt_sandbox_duration_millis :: int
  bkt_sandbox_output_bytes :: int
  bkt_sandbox_cpu_millis :: int
  bkt_sandbox_memory_max_bytes :: int
  bkt_artifact_count :: int
  bkt_artifact_bytes :: int

section \<open>Workspaces and artifacts (workspace.go)\<close>

record workspace =
  wsp_id :: string
  wsp_user_id :: string
  wsp_project_id :: string
  wsp_chat_id :: string
  wsp_run_id :: string
  wsp_root_path :: string
  wsp_created_at :: gtime

record artifact =
  art_id :: string
  art_run_id :: string
  art_chat_id :: string
  art_user_id :: string
  art_project_id :: string
  art_workspace_id :: string
  art_path :: string
  art_name :: string
  art_mime_type :: string
  art_size_bytes :: int
  art_sha256 :: string
  art_storage_backend :: string
  art_storage_key :: string
  art_created_at :: gtime
  art_expires_at :: "gtime option"
  art_deleted_at :: "gtime option"

text \<open>
  A value of type \<open>any\<close>: what \<open>encoding/json\<close> decodes to, the integers the code puts
  into payloads itself, and the artifact an \<open>artifact.created\<close> event carries. A
  \<open>map[string]any\<close> is an association list with one entry per key.
\<close>

datatype goval =
    VNil
  | VBool bool
  | VInt int
  | VFloat rat
  | VStr string
  | VList "goval list"
  | VMap "(string \<times> goval) list"
  | VArtifact artifact

type_synonym metadata = "(string \<times> goval) list"

section \<open>Run events (event.go)\<close>

datatype run_event_type =
    EventRunQueued
  | EventRunStarted
  | EventModelToken
  | EventToolStarted
  | EventToolOutput
  | EventToolFinished
  | EventApprovalNeeded
  | EventArtifactCreated
  | EventRunSucceeded
  | EventRunFailed
  | EventRunCanceled
  | EventOther string

record run_event =
  evt_id :: string
  evt_run_id :: string
  evt_chat_id :: string
  evt_seq :: int
  evt_type :: run_event_type
  evt_message :: string
  evt_payload :: goval
  evt_created_at :: gtime

record email_event_input =
  emi_invitation_id :: string
  emi_delivery_id :: string
  emi_provider :: string
  emi_provider_message_id :: string
  emi_type :: string
  emi_reason :: string
  emi_payload :: metadata
  emi_occurred_at :: "gtime option"

record email_event =
  eme_id :: string
  eme_invitation_id :: string
  eme_delivery_id :: string
  eme_provider :: string
  eme_provider_message_id :: string
  eme_type :: email_event_type
  eme_reason :: string
  eme_payload :: metadata
  eme_occurred_at :: gtime
  eme_created_at :: gtime

section \<open>Quota and runtime policies (quota.go, runtime_policy.go)\<close>

record quota_policy =
  qpl_project_id :: string
  qpl_max_concurrent_runs :: int
  qpl_max_runs_per_hour :: int
  qpl_max_model_tokens_per_day :: int
  qpl_max_tool_calls_per_day :: int
  qpl_max_sandbox_seconds_per_day :: int
  qpl_created_at :: gtime
  qpl_updated_at :: gtime

record quota_policy_input =
  qpi_max_concurrent_runs :: int
  qpi_max_runs_per_hour :: int
  qpi_max_model_tokens_per_day :: int
  qpi_max_tool_calls_per_day :: int
  qpi_max_sandbox_seconds_per_day :: int

record runtime_policy =
  rpl_project_id :: string
  rpl_skill_risk_policy :: string
  rpl_created_at :: gtime
  rpl_updated_at :: gtime

definition SkillRiskPolicyAllow :: string where "SkillRiskPolicyAllow = ''allow''"
definition SkillRiskPolicyBlockHigh :: string where "SkillRiskPolicyBlockHigh = ''block-high''"
definition SkillRiskPolicyBlockDestructive :: string where
  "SkillRiskPolicyBlockDestructive = ''block-destructive''"
definition SkillRiskPolicyReadOnly :: string where "SkillRiskPolicyReadOnly = ''read-only''"

lemmas risk_policy_names = SkillRiskPolicyAllow_def SkillRiskPolicyBlockHigh_def
  SkillRiskPolicyBlockDestructive_def SkillRiskPolicyReadOnly_def

definition normalize_skill_risk_policy :: "string \<Rightarrow> string" where
  "normalize_skill_risk_policy raw =
     (let policy = trim_space raw
      in if policy = '''' \<or> policy = SkillRiskPolicyAllow then SkillRiskPolicyAllow
         else if policy = SkillRiskPolicyBlockHigh then SkillRiskPolicyBlockHigh
         else if policy = SkillRiskPolicyBlockDestructive then SkillRiskPolicyBlockDestructive
         else if policy = SkillRiskPolicyReadOnly then SkillRiskPolicyReadOnly
         else '''')"

section \<open>Skills, invocations, audit (skill.go, skill_invocation.go, audit.go)\<close>

datatype skill_risk = SkillRiskLow | SkillRiskMedium | SkillRiskHigh
datatype skill_scope = SkillScopeSystem | SkillScopeUser
datatype skill_kind = SkillKindBuiltin | SkillKindHTTP | SkillKindMCP
datatype skill_status = SkillStatusEnabled | SkillStatusDisabled | SkillStatusArchived

record skill =
  skl_id :: string
  skl_slug :: string
  skl_scope :: skill_scope
  skl_kind :: skill_kind
  skl_owner_user_id :: string
  skl_project_id :: string
  skl_status :: skill_status
  skl_current_version_id :: string
  skl_name :: string
  skl_version :: string
  skl_description :: string
  skl_risk :: skill_risk
  skl_requires_auth :: bool
  skl_input_schema :: string
  skl_output_schema :: string
  skl_annotations :: string
  skl_runtime_config :: string
  skl_enabled :: bool

record runtime_secret =
  sec_encrypted_value :: string
  sec_secret_ref :: string

record runtime_skill =
  rsk_skill :: skill
  rsk_secrets :: "string \<rightharpoonup> string"
  rsk_secret_materials :: "string \<rightharpoonup> runtime_secret"

definition secret_material :: "runtime_skill \<Rightarrow> string \<Rightarrow> runtime_secret" where
  "secret_material s key =
     (case rsk_secret_materials s key of
        Some material \<Rightarrow> material
      | None \<Rightarrow>
          (let value = map_get '''' (rsk_secrets s) key
           in if value \<noteq> '''' then \<lparr>sec_encrypted_value = value, sec_secret_ref = ''''\<rparr>
              else \<lparr>sec_encrypted_value = '''', sec_secret_ref = ''''\<rparr>))"

record http_skill_input =
  hsi_name :: string
  hsi_description :: string
  hsi_method :: string
  hsi_url :: string
  hsi_input_schema :: string
  hsi_output_schema :: string
  hsi_timeout_seconds :: int
  hsi_retry_max_attempts :: int
  hsi_rate_limit_per_minute :: int
  hsi_auth_type :: string
  hsi_bearer_token :: string
  hsi_bearer_token_secret_ref :: string

datatype invocation_status =
    SkillInvocationStarted
  | SkillInvocationSucceeded
  | SkillInvocationFailed

datatype audit_decision = AuditDecisionAllow | AuditDecisionDeny

record invocation_record =
  ivk_id :: string
  ivk_run_id :: string
  ivk_chat_id :: string
  ivk_user_id :: string
  ivk_project_id :: string
  ivk_skill_id :: string
  ivk_tool_name :: string
  ivk_status :: invocation_status
  ivk_decision :: audit_decision
  ivk_reason :: string
  ivk_request_id :: string
  ivk_trace_id :: string
  ivk_started_event_id :: string
  ivk_started_event_seq :: int
  ivk_finished_event_id :: string
  ivk_finished_event_seq :: int
  ivk_duration_ms :: int
  ivk_metadata :: metadata
  ivk_started_at :: gtime
  ivk_finished_at :: "gtime option"
  ivk_updated_at :: gtime

text \<open>In the input structs an empty status or decision string is \<open>None\<close>.\<close>

record invocation_input =
  ivn_run_id :: string
  ivn_chat_id :: string
  ivn_user_id :: string
  ivn_project_id :: string
  ivn_skill_id :: string
  ivn_tool_name :: string
  ivn_status :: "invocation_status option"
  ivn_decision :: "audit_decision option"
  ivn_reason :: string
  ivn_request_id :: string
  ivn_trace_id :: string
  ivn_started_event_id :: string
  ivn_started_event_seq :: int
  ivn_finished_event_id :: string
  ivn_finished_event_seq :: int
  ivn_duration_ms :: int
  ivn_metadata :: metadata
  ivn_event_created_at :: gtime

record audit_event =
  aud_id :: string
  aud_actor_user_id :: string
  aud_actor_project_id :: string
  aud_actor_org_id :: string
  aud_action :: string
  aud_resource_type :: string
  aud_resource_id :: string
  aud_decision :: audit_decision
  aud_reason :: string
  aud_request_id :: string
  aud_trace_id :: string
  aud_run_id :: string
  aud_ip :: string
  aud_user_agent :: string
  aud_metadata :: metadata
  aud_created_at :: gtime

record audit_input =
  aui_actor_user_id :: string
  aui_actor_project_id :: string
  aui_actor_org_id :: string
  aui_action :: string
  aui_resource_type :: string
  aui_resource_id :: string
  aui_decision :: "audit_decision option"
  aui_reason :: string
  aui_request_id :: string
  aui_trace_id :: string
  aui_run_id :: string
  aui_ip :: string
  aui_user_agent :: string
  aui_metadata :: metadata

section \<open>Actors and list options (app/interfaces.go)\<close>

record actor_context =
  act_user_id :: string
  act_email :: string
  act_name :: string
  act_identity_provider :: string
  act_identity_issuer :: string
  act_identity_subject :: string
  act_project_id :: string
  act_org_id :: string
  act_roles :: "string list"

record audit_list_options =
  alo_limit :: int
  alo_request_id :: string
  alo_run_id :: string
  alo_action :: string
  alo_resource_id :: string

record invocation_list_options =
  ilo_limit :: int
  ilo_run_id :: string
  ilo_skill_id :: string
  ilo_status :: string

record oidc_session =
  ois_id :: string
  ois_user_id :: string
  ois_project_id :: string
  ois_refresh_token_hash :: string
  ois_created_at :: gtime
  ois_updated_at :: gtime
  ois_expires_at :: gtime
  ois_revoked_at :: "gtime option"

record email_event_list_options =
  elo_invitation_id :: string
  elo_delivery_id :: string
  elo_limit :: int

section \<open>Redaction (platform/redact.go)\<close>

definition sensitive_key_fragments :: "string list" where
  "sensitive_key_fragments =
     [''api_key'', ''apikey'', ''authorization'', ''bearer'', ''cookie'', ''password'',
      ''secret'', ''token'']"

definition is_sensitive_key :: "string \<Rightarrow> bool" where
  "is_sensitive_key key =
     list_ex (\<lambda>fragment. contains (to_lower (trim_space key)) fragment) sensitive_key_fragments"

fun redact_value :: "goval \<Rightarrow> goval"
and redact_map :: "metadata \<Rightarrow> metadata"
and redact_list :: "goval list \<Rightarrow> goval list" where
  "redact_value (VMap m) = VMap (redact_map m)"
| "redact_value (VList xs) = VList (redact_list xs)"
| "redact_value v = v"
| "redact_map [] = []"
| "redact_map ((key, v) # m) =
     (if is_sensitive_key key then (key, VStr ''[redacted]'') # redact_map m
      else (key, redact_value v) # redact_map m)"
| "redact_list [] = []"
| "redact_list (x # xs) = redact_value x # redact_list xs"

text \<open>Every entry under a sensitive key, at any depth, is the replacement text.\<close>

fun value_clean :: "goval \<Rightarrow> bool"
and map_clean :: "metadata \<Rightarrow> bool"
and list_clean :: "goval list \<Rightarrow> bool" where
  "value_clean (VMap m) = map_clean m"
| "value_clean (VList xs) = list_clean xs"
| "value_clean v = True"
| "map_clean [] = True"
| "map_clean ((key, v) # m) =
     ((if is_sensitive_key key then v = VStr ''[redacted]'' else value_clean v) \<and> map_clean m)"
| "list_clean [] = True"
| "list_clean (x # xs) = (value_clean x \<and> list_clean xs)"

lemma redact_clean:
  "value_clean (redact_value v)" "map_clean (redact_map m)" "list_clean (redact_list xs)"
  by (induction v and m and xs rule: redact_value_redact_map_redact_list.induct) auto

lemma redact_fix:
  "value_clean v \<Longrightarrow> redact_value v = v"
  "map_clean m \<Longrightarrow> redact_map m = m"
  "list_clean xs \<Longrightarrow> redact_list xs = xs"
  by (induction v and m and xs rule: redact_value_redact_map_redact_list.induct)
    (auto split: if_splits)

lemma redact_map_keys: "map fst (redact_map m) = map fst m"
  by (induction m) auto

lemma redact_map_append: "redact_map (m @ n) = redact_map m @ redact_map n"
  by (induction m) auto

end
