(* ===== verification/Store_State.thy ===== *)
theory Store_State
  imports Protocol
begin

text \<open>
  The state of the in-memory store (\<open>Store\<close> and \<open>NewStore\<close> of
  services/control-plane/internal/repository/store.go) and the key functions of its maps.
  Every operation holds the store's mutex for its whole body, so an operation is one
  state transformer. What it takes from outside is an argument: the clock reading and the
  identifiers drawn from \<open>platform.NewID\<close> come in an \<open>env\<close>, one draw for each prefix.
  \<open>s_channels\<close> is the part of the Go heap that holds the subscribers' channels: the
  buffered, not yet received events of each.
\<close>

record env =
  e_now :: gtime
  e_id :: "string \<Rightarrow> string"

record store =
  s_users :: "string \<rightharpoonup> user"
  s_identities :: "string \<rightharpoonup> user_identity"
  s_user_identities :: "string \<rightharpoonup> string"
  s_oidc_sessions :: "string \<rightharpoonup> oidc_session"
  s_projects :: "string \<rightharpoonup> project"
  s_chats :: "string \<rightharpoonup> chat_session"
  s_messages :: "string \<rightharpoonup> message list"
  s_runs :: "string \<rightharpoonup> run"
  s_run_usage :: "string \<rightharpoonup> run_usage"
  s_events :: "string \<rightharpoonup> run_event list"
  s_audit_events :: "audit_event list"
  s_skill_invocations :: "invocation_record list"
  s_workspaces :: "string \<rightharpoonup> workspace"
  s_artifacts :: "string \<rightharpoonup> artifact"
  s_invitations :: "string \<rightharpoonup> invitation"
  s_email_deliveries :: "string \<rightharpoonup> delivery"
  s_email_events :: "email_event list"
  s_email_suppressions :: "string \<rightharpoonup> suppression"
  s_skills :: "string \<rightharpoonup> skill"
  s_skill_grants :: "string \<rightharpoonup> string list"
  s_skill_secrets :: "string \<rightharpoonup> (string \<rightharpoonup> runtime_secret)"
  s_org_roles :: "string \<rightharpoonup> string list"
  s_project_roles :: "string \<rightharpoonup> string list"
  s_quota_policies :: "string \<rightharpoonup> quota_policy"
  s_runtime_policies :: "string \<rightharpoonup> runtime_policy"
  s_subscribers :: "string \<rightharpoonup> nat set"
  s_seq :: "string \<rightharpoonup> int"
  s_channels :: "nat \<rightharpoonup> run_event list"

section \<open>Keys\<close>

text \<open>The keys of the role, grant and identity maps join their parts with a NUL byte.\<close>

definition skill_grant_key :: "string \<Rightarrow> string \<Rightarrow> string" where
  "skill_grant_key user project = user @ nul # project"

definition identity_key :: "string \<Rightarrow> string \<Rightarrow> string \<Rightarrow> string" where
  "identity_key provider issuer subject = provider @ nul # issuer @ nul # subject"

definition user_identity_key :: "string \<Rightarrow> string \<Rightarrow> string" where
  "user_identity_key provider user = provider @ nul # user"

definition org_role_key :: "string \<Rightarrow> string \<Rightarrow> string" where
  "org_role_key user org = user @ nul # org"

definition split_org_role_key :: "string \<Rightarrow> (string \<times> string) option" where
  "split_org_role_key key =
     (case split_nul key of [a, b] \<Rightarrow> Some (a, b) | _ \<Rightarrow> None)"

definition project_role_key :: "string \<Rightarrow> string \<Rightarrow> string" where
  "project_role_key user project = user @ nul # project"

definition split_project_role_key :: "string \<Rightarrow> (string \<times> string) option" where
  "split_project_role_key key =
     (case split_nul key of [a, b] \<Rightarrow> Some (a, b) | _ \<Rightarrow> None)"

lemmas key_defs = skill_grant_key_def identity_key_def user_identity_key_def
  org_role_key_def project_role_key_def

text \<open>
  What the users of a two-part key rely on: it can be split again, so it determines its
  parts. The law holds for parts without a NUL byte.
\<close>

locale pair_key =
  fixes join :: "string \<Rightarrow> string \<Rightarrow> string"
    and split :: "string \<Rightarrow> (string \<times> string) option"
  assumes split_join: "nul \<notin> set a \<Longrightarrow> nul \<notin> set b \<Longrightarrow> split (join a b) = Some (a, b)"
    and split_sound: "split k = Some (a, b) \<Longrightarrow> k = join a b \<and> nul \<notin> set a \<and> nul \<notin> set b"
begin

lemma inj:
  assumes "nul \<notin> set a" "nul \<notin> set b" "nul \<notin> set c" "nul \<notin> set d"
  shows "join a b = join c d \<longleftrightarrow> a = c \<and> b = d"
  using assms split_join by (metis option.inject prod.inject)

lemma split_iff:
  "split k = Some (a, b) \<longleftrightarrow> k = join a b \<and> nul \<notin> set a \<and> nul \<notin> set b"
  using split_join split_sound by blast

lemma split_range:
  "{k. \<exists>a. split k = Some (a, b)} = {join a b |a. nul \<notin> set a \<and> nul \<notin> set b}"
  by (auto simp: split_iff)

end

lemma split_nul_pieces: "p \<in> set (split_nul s) \<Longrightarrow> nul \<notin> set p"
proof (induction s arbitrary: p)
  case (Cons c cs)
  then show ?case
    by (auto split: if_splits list.splits)
qed simp

lemma split_nul_pair: "split_nul s = [a, b] \<Longrightarrow> s = a @ nul # b"
proof (induction s arbitrary: a)
  case (Cons c cs)
  show ?case
  proof (cases "c = nul")
    case True
    with Cons.prems have a: "a = []" and tail: "split_nul cs = [b]" by auto
    have "cs = b"
      using tail
    proof (induction cs arbitrary: b)
      case (Cons d ds)
      then show ?case by (auto split: if_splits list.splits)
    qed simp
    with a True show ?thesis by simp
  next
    case False
    with Cons.prems obtain p ps where "split_nul cs = p # ps" and "a = c # p" and "ps = [b]"
      by (auto split: list.splits)
    with Cons.IH show ?thesis by auto
  qed
qed simp

lemma split_nul_pairD:
  assumes "split_nul s = [a, b]"
  shows "s = a @ nul # b \<and> nul \<notin> set a \<and> nul \<notin> set b"
  using assms split_nul_pair [OF assms] split_nul_pieces [of a s] split_nul_pieces [of b s]
  by simp

lemma split_nul_pairI:
  "nul \<notin> set a \<Longrightarrow> nul \<notin> set b \<Longrightarrow> split_nul (a @ nul # b) = [a, b]"
  by (simp add: split_nul_append split_nul_plain)

interpretation org_key: pair_key org_role_key split_org_role_key
proof unfold_locales
  fix a b :: string
  assume "nul \<notin> set a" "nul \<notin> set b"
  then show "split_org_role_key (org_role_key a b) = Some (a, b)"
    by (simp add: split_org_role_key_def org_role_key_def split_nul_pairI)
next
  fix k a b
  assume "split_org_role_key k = Some (a, b)"
  then have "split_nul k = [a, b]"
    by (auto simp: split_org_role_key_def split: list.splits)
  then show "k = org_role_key a b \<and> nul \<notin> set a \<and> nul \<notin> set b"
    by (simp add: org_role_key_def split_nul_pairD)
qed

interpretation project_key: pair_key project_role_key split_project_role_key
proof unfold_locales
  fix a b :: string
  assume "nul \<notin> set a" "nul \<notin> set b"
  then show "split_project_role_key (project_role_key a b) = Some (a, b)"
    by (simp add: split_project_role_key_def project_role_key_def split_nul_pairI)
next
  fix k a b
  assume "split_project_role_key k = Some (a, b)"
  then have "split_nul k = [a, b]"
    by (auto simp: split_project_role_key_def split: list.splits)
  then show "k = project_role_key a b \<and> nul \<notin> set a \<and> nul \<notin> set b"
    by (simp add: project_role_key_def split_nul_pairD)
qed

section \<open>The initial store\<close>

definition cli_exec_skill :: skill where
  \<open>cli_exec_skill = \<lparr>skl_id = ''cli.exec'', skl_slug = ''cli.exec'',
     skl_scope = SkillScopeSystem, skl_kind = SkillKindBuiltin, skl_owner_user_id = '''',
     skl_project_id = '''', skl_status = SkillStatusEnabled, skl_current_version_id = '''',
     skl_name = ''System CLI'', skl_version = ''0.1.0'',
     skl_description = ''Fetch external information through a read-only sandboxed CLI.'',
     skl_risk = SkillRiskMedium, skl_requires_auth = False,
     skl_input_schema = ''{"type":"object","required":["command"],"properties":{"command":{"type":"array","items":{"type":"string"}}}}'',
     skl_output_schema = '''',
     skl_annotations = ''{"readOnlyHint":true,"destructiveHint":false,"idempotentHint":false,"openWorldHint":true}'',
     skl_runtime_config = ''{"type":"builtin","executor":"sandbox"}'',
     skl_enabled = True\<rparr>\<close>

definition workspace_read_skill :: skill where
  \<open>workspace_read_skill = \<lparr>skl_id = ''workspace.read'', skl_slug = ''workspace.read'',
     skl_scope = SkillScopeSystem, skl_kind = SkillKindBuiltin, skl_owner_user_id = '''',
     skl_project_id = '''', skl_status = SkillStatusEnabled, skl_current_version_id = '''',
     skl_name = ''Workspace Reader'', skl_version = ''0.1.0'',
     skl_description = ''Inspect files and artifacts attached to a run workspace.'',
     skl_risk = SkillRiskLow, skl_requires_auth = False,
     skl_input_schema = ''{"type":"object","properties":{"action":{"type":"string","enum":["summary","list","read"],"description":"summary returns workspace artifact metadata; list returns artifacts; read returns text artifact content"},"artifact_id":{"type":"string"},"max_bytes":{"type":"integer","minimum":1,"maximum":262144}}}'',
     skl_output_schema = '''',
     skl_annotations = ''{"readOnlyHint":true,"destructiveHint":false,"idempotentHint":true,"openWorldHint":false}'',
     skl_runtime_config = ''{"type":"builtin"}'',
     skl_enabled = True\<rparr>\<close>

definition new_store :: "gtime \<Rightarrow> store" where
  "new_store now =
     \<lparr>s_users = [''demo-user'' \<mapsto>
        \<lparr>usr_id = ''demo-user'', usr_email = ''demo@niceagent.local'',
         usr_name = ''Demo User'', usr_status = ''active'', usr_created_at = now\<rparr>],
      s_identities = Map.empty,
      s_user_identities = Map.empty,
      s_oidc_sessions = Map.empty,
      s_projects = [''demo-project'' \<mapsto>
        \<lparr>prj_id = ''demo-project'', prj_organization_id = ''demo-org'',
         prj_name = ''Demo Project'', prj_created_at = now\<rparr>],
      s_chats = Map.empty,
      s_messages = Map.empty,
      s_runs = Map.empty,
      s_run_usage = Map.empty,
      s_events = Map.empty,
      s_audit_events = [],
      s_skill_invocations = [],
      s_workspaces = Map.empty,
      s_artifacts = Map.empty,
      s_invitations = Map.empty,
      s_email_deliveries = Map.empty,
      s_email_events = [],
      s_email_suppressions = Map.empty,
      s_skills = [''cli.exec'' \<mapsto> cli_exec_skill, ''workspace.read'' \<mapsto> workspace_read_skill],
      s_skill_grants =
        [skill_grant_key ''demo-user'' ''demo-project'' \<mapsto> [''cli.exec'', ''workspace.read'']],
      s_skill_secrets = Map.empty,
      s_org_roles = [org_role_key ''demo-user'' ''demo-org'' \<mapsto> [''owner'']],
      s_project_roles = [project_role_key ''demo-user'' ''demo-project'' \<mapsto> [''owner'']],
      s_quota_policies = Map.empty,
      s_runtime_policies = Map.empty,
      s_subscribers = Map.empty,
      s_seq = Map.empty,
      s_channels = Map.empty\<rparr>"

text \<open>Lists of strings used as sets (\<open>appendUnique\<close>), and the zero user of a map miss.\<close>

definition append_unique :: "string list \<Rightarrow> string \<Rightarrow> string list" where
  "append_unique values next = (if next \<in> set values then values else values @ [next])"

lemma set_append_unique [simp]: "set (append_unique vs x) = insert x (set vs)"
  by (auto simp: append_unique_def)

lemma distinct_append_unique [simp]: "distinct (append_unique vs x) = distinct vs"
  by (auto simp: append_unique_def)

definition zero_user :: user where
  "zero_user = \<lparr>usr_id = '''', usr_email = '''', usr_name = '''', usr_status = '''',
     usr_created_at = 0\<rparr>"

end
