(* ===== verification/Chat_Store.thy ===== *)
theory Chat_Store
  imports Store_State
begin

text \<open>
  Chats and messages of the in-memory store: \<open>ListChats\<close>, \<open>CreateChat\<close>, \<open>GetChat\<close>,
  \<open>SetChatArchived\<close>, \<open>AddUserMessage\<close>, \<open>AddAssistantMessage\<close> and \<open>LatestUserMessage\<close>
  of services/control-plane/internal/repository/store.go. \<open>add_user_message\<close> is where a
  run and its workspace are born.
\<close>

definition title_from_content :: "string \<Rightarrow> string" where
  "title_from_content content =
     (if length content \<le> 42 then content else take 42 content @ ''...'')"

lemma length_title_from_content: "length (title_from_content c) \<le> 45"
  by (simp add: title_from_content_def)

definition chat_messages :: "store \<Rightarrow> string \<Rightarrow> message list" where
  "chat_messages s chat = map_get [] (s_messages s) chat"

definition updated_later :: "chat_session \<Rightarrow> chat_session \<Rightarrow> bool" where
  "updated_later a b = after (cht_updated_at a) (cht_updated_at b)"

interpretation chats_by_update: sort_less updated_later
  by unfold_locales (auto simp: updated_later_def after_def)

definition chat_listed ::
  "string \<Rightarrow> string \<Rightarrow> string \<Rightarrow> bool \<Rightarrow> chat_session \<Rightarrow> bool" where
  "chat_listed user project query include_archived chat \<longleftrightarrow>
     \<not> (cht_user_id chat \<noteq> user \<or> cht_project_id chat \<noteq> project) \<and>
     \<not> (cht_archived chat \<and> \<not> include_archived) \<and>
     \<not> (query \<noteq> '''' \<and> \<not> contains (to_lower (cht_title chat)) query)"

definition list_chats ::
  "string list \<Rightarrow> string \<Rightarrow> string \<Rightarrow> string \<Rightarrow> bool \<Rightarrow> store \<Rightarrow> chat_session list" where
  "list_chats order user project opt_query opt_include_archived s =
     (let query = to_lower (trim_space opt_query);
          chats = filter (chat_listed user project query opt_include_archived)
                    (range_vals (s_chats s) order)
      in sort_slice updated_later
           (map (\<lambda>chat. chat\<lparr>cht_message_count := length (chat_messages s (cht_id chat))\<rparr>) chats))"

definition create_chat ::
  "env \<Rightarrow> string \<Rightarrow> string \<Rightarrow> string \<Rightarrow> store \<Rightarrow> chat_session result \<times> store" where
  "create_chat e user project title s =
     (let chat = \<lparr>cht_id = e_id e ''chat'', cht_user_id = user, cht_project_id = project,
            cht_title = (if title = '''' then ''New chat'' else title), cht_archived = False,
            cht_last_run_id = '''', cht_created_at = e_now e, cht_updated_at = e_now e,
            cht_message_count = 0\<rparr>
      in (Inr chat, s\<lparr>s_chats := (s_chats s)(cht_id chat \<mapsto> chat)\<rparr>))"

definition get_chat :: "string \<Rightarrow> store \<Rightarrow> (chat_session \<times> message list) result" where
  "get_chat chat_id s =
     (case s_chats s chat_id of
        None \<Rightarrow> Inl ErrNotFound
      | Some chat \<Rightarrow>
          (let msgs = chat_messages s chat_id
           in Inr (chat\<lparr>cht_message_count := length msgs\<rparr>, msgs)))"

definition set_chat_archived ::
  "env \<Rightarrow> string \<Rightarrow> string \<Rightarrow> bool \<Rightarrow> store \<Rightarrow> chat_session result \<times> store" where
  "set_chat_archived e chat_id user archived s =
     (case s_chats s chat_id of
        None \<Rightarrow> (Inl ErrNotFound, s)
      | Some chat \<Rightarrow>
          if cht_user_id chat \<noteq> user then (Inl ErrNotFound, s)
          else
            (let chat' = chat\<lparr>cht_archived := archived, cht_updated_at := e_now e,
                   cht_message_count := length (chat_messages s (cht_id chat))\<rparr>
             in (Inr chat', s\<lparr>s_chats := (s_chats s)(chat_id \<mapsto> chat')\<rparr>)))"

definition queued_run :: "env \<Rightarrow> string \<Rightarrow> string \<Rightarrow> run" where
  "queued_run e chat_id user =
     \<lparr>run_id = e_id e ''run'', run_chat_id = chat_id, run_user_id = user,
      run_workspace_id = e_id e ''ws'', run_attempt_id = '''', run_claimed_by = '''',
      run_lease_expires_at = None, run_attempt_count = 0, run_status = RunQueued,
      run_error = '''', run_usage = zero_run_usage, run_created_at = e_now e,
      run_updated_at = e_now e, run_started_at = None, run_finished_at = None\<rparr>"

definition add_user_message ::
  "env \<Rightarrow> string \<Rightarrow> string \<Rightarrow> string \<Rightarrow> store \<Rightarrow> (message \<times> run) result \<times> store" where
  "add_user_message e chat_id user content s =
     (case s_chats s chat_id of
        None \<Rightarrow> (Inl ErrNotFound, s)
      | Some chat \<Rightarrow>
          if cht_user_id chat \<noteq> user then (Inl ErrNotFound, s)
          else
            (let r = queued_run e chat_id user;
                 msg = \<lparr>msg_id = e_id e ''msg'', msg_chat_id = chat_id, msg_run_id = run_id r,
                   msg_role = RoleUser, msg_content = content, msg_created_at = e_now e\<rparr>;
                 chat1 = chat\<lparr>cht_last_run_id := run_id r, cht_updated_at := e_now e\<rparr>;
                 chat2 = (if cht_title chat1 = ''New chat'' \<and> content \<noteq> ''''
                          then chat1\<lparr>cht_title := title_from_content content\<rparr> else chat1);
                 ws = \<lparr>wsp_id = run_workspace_id r, wsp_user_id = user,
                   wsp_project_id = cht_project_id chat, wsp_chat_id = chat_id,
                   wsp_run_id = run_id r, wsp_root_path = run_workspace_id r,
                   wsp_created_at = e_now e\<rparr>
             in (Inr (msg, r),
                 s\<lparr>s_messages := (s_messages s)(chat_id \<mapsto> chat_messages s chat_id @ [msg]),
                   s_chats := (s_chats s)(chat_id \<mapsto> chat2),
                   s_runs := (s_runs s)(run_id r \<mapsto> r),
                   s_workspaces := (s_workspaces s)(run_workspace_id r \<mapsto> ws)\<rparr>)))"

definition add_assistant_message ::
  "env \<Rightarrow> string \<Rightarrow> string \<Rightarrow> string \<Rightarrow> store \<Rightarrow> message result \<times> store" where
  "add_assistant_message e chat_id rid content s =
     (let msg = \<lparr>msg_id = e_id e ''msg'', msg_chat_id = chat_id, msg_run_id = rid,
            msg_role = RoleAssistant, msg_content = content, msg_created_at = e_now e\<rparr>
      in case s_chats s chat_id of
           None \<Rightarrow> (Inl ErrNotFound, s)
         | Some chat \<Rightarrow>
             (Inr msg,
              s\<lparr>s_messages := (s_messages s)(chat_id \<mapsto> chat_messages s chat_id @ [msg]),
                s_chats := (s_chats s)(chat_id \<mapsto> chat\<lparr>cht_updated_at := msg_created_at msg\<rparr>)\<rparr>))"

text \<open>The loop of \<open>LatestUserMessage\<close> runs backwards over the chat's messages.\<close>

fun last_user_message :: "message list \<Rightarrow> message option" where
  "last_user_message [] = None"
| "last_user_message (m # ms) = (if msg_role m = RoleUser then Some m else last_user_message ms)"

definition latest_user_message :: "string \<Rightarrow> store \<Rightarrow> message option" where
  "latest_user_message chat_id s = last_user_message (rev (chat_messages s chat_id))"

lemmas chat_write_defs = create_chat_def set_chat_archived_def add_user_message_def
  add_assistant_message_def queued_run_def

section \<open>Lemmas\<close>

lemma set_list_chats:
  assumes "enumerates order (s_chats s)"
  shows "set (list_chats order user project q arch s) =
    (\<lambda>c. c\<lparr>cht_message_count := length (chat_messages s (cht_id c))\<rparr>) `
      {c \<in> ran (s_chats s). chat_listed user project (to_lower (trim_space q)) arch c}"
  using assms by (auto simp: list_chats_def Let_def set_range_vals_enum)

lemma length_list_chats:
  assumes "enumerates order (s_chats s)"
  shows "length (list_chats order user project q arch s) =
    length (filter (chat_listed user project (to_lower (trim_space q)) arch)
      (range_vals (s_chats s) order))"
  by (simp add: list_chats_def Let_def)

lemma sorted_list_chats:
  "sorted_wrt (\<lambda>a b. cht_updated_at b \<le> cht_updated_at a) (list_chats order user project q arch s)"
proof -
  have "(\<lambda>a b. \<not> updated_later b a) = (\<lambda>a b. cht_updated_at b \<le> cht_updated_at a)"
    by (simp add: updated_later_def after_def fun_eq_iff not_less)
  then show ?thesis
    using chats_by_update.sorted by (auto simp: list_chats_def Let_def)
qed

lemma add_user_message_Inr:
  assumes "add_user_message e chat_id user content s = (Inr (m, r), s')"
  obtains chat where "s_chats s chat_id = Some chat" "cht_user_id chat = user"
    "r = queued_run e chat_id user" "msg_run_id m = run_id r" "msg_role m = RoleUser"
    "msg_content m = content" "s_runs s' = (s_runs s)(run_id r \<mapsto> r)"
    "chat_messages s' chat_id = chat_messages s chat_id @ [m]"
  using assms
  by (auto simp: add_user_message_def Let_def chat_messages_def split: option.splits if_splits)

lemma latest_user_message_after_add:
  assumes "add_user_message e chat_id user content s = (Inr (m, r), s')"
  shows "latest_user_message chat_id s' = Some m"
  using assms by (elim add_user_message_Inr) (simp add: latest_user_message_def)

lemma last_user_message_append:
  "last_user_message (xs @ ys) =
     (case last_user_message xs of None \<Rightarrow> last_user_message ys | Some m \<Rightarrow> Some m)"
  by (induction xs) auto

end
