(* ===== verification/Run_Store.thy ===== *)
theory Run_Store
  imports Store_State
begin

text \<open>
  Runs and their events in the in-memory store: \<open>GetRun\<close>, \<open>CountActiveRuns\<close>,
  \<open>CountRunsCreatedSince\<close>, \<open>ClaimRunAttempt\<close>, \<open>CheckRunAttempt\<close>, \<open>UpdateRunStatus\<close>,
  \<open>SaveRunUsage\<close>, \<open>GetRunUsage\<close>, \<open>AddEvent\<close>, \<open>ListEvents\<close> and \<open>Subscribe\<close> of
  services/control-plane/internal/repository/store.go, with the status predicates they
  use. \<open>AddEvent\<close> appends to the log under the lock and hands the event to the
  subscribers after it has released it, so it is two definitions, \<open>add_event_locked\<close>
  and \<open>send_event\<close>, and their composition.
\<close>

section \<open>Status predicates\<close>

definition is_terminal_run_status :: "run_status \<Rightarrow> bool" where
  "is_terminal_run_status st \<longleftrightarrow> st = RunSucceeded \<or> st = RunFailed \<or> st = RunCanceled"

definition is_active_run_status :: "run_status \<Rightarrow> bool" where
  "is_active_run_status st \<longleftrightarrow> st = RunQueued \<or> st = RunRunning \<or> st = RunWaitingForApproval"

lemma active_iff_not_terminal: "is_active_run_status st \<longleftrightarrow> \<not> is_terminal_run_status st"
  by (cases st) (auto simp: is_active_run_status_def is_terminal_run_status_def)

lemma terminal_simps [simp]:
  "\<not> is_terminal_run_status RunQueued" "\<not> is_terminal_run_status RunRunning"
  "\<not> is_terminal_run_status RunWaitingForApproval" "is_terminal_run_status RunSucceeded"
  "is_terminal_run_status RunFailed" "is_terminal_run_status RunCanceled"
  by (simp_all add: is_terminal_run_status_def)

section \<open>Reading runs\<close>

definition get_run :: "string \<Rightarrow> store \<Rightarrow> run result" where
  "get_run rid s =
     (case s_runs s rid of
        None \<Rightarrow> Inl ErrNotFound
      | Some r \<Rightarrow> Inr (r\<lparr>run_usage := map_get zero_run_usage (s_run_usage s) rid\<rparr>))"

definition chat_in_project :: "store \<Rightarrow> string \<Rightarrow> string \<Rightarrow> bool" where
  "chat_in_project s chat_id project =
     (case s_chats s chat_id of None \<Rightarrow> False | Some chat \<Rightarrow> cht_project_id chat = project)"

fun count_loop :: "(run \<Rightarrow> bool) \<Rightarrow> (run \<Rightarrow> bool) \<Rightarrow> run list \<Rightarrow> int \<Rightarrow> int" where
  "count_loop skip hit [] acc = acc"
| "count_loop skip hit (r # rs) acc =
     (if skip r then count_loop skip hit rs acc
      else if hit r then count_loop skip hit rs (acc + 1)
      else count_loop skip hit rs acc)"

definition count_active_runs :: "string list \<Rightarrow> string \<Rightarrow> string \<Rightarrow> store \<Rightarrow> int" where
  "count_active_runs order user project s =
     count_loop (\<lambda>r. run_user_id r \<noteq> user \<or> \<not> is_active_run_status (run_status r))
       (\<lambda>r. chat_in_project s (run_chat_id r) project) (range_vals (s_runs s) order) 0"

definition count_runs_created_since ::
  "string list \<Rightarrow> string \<Rightarrow> string \<Rightarrow> gtime \<Rightarrow> store \<Rightarrow> int" where
  "count_runs_created_since order user project since s =
     count_loop (\<lambda>r. run_user_id r \<noteq> user \<or> before (run_created_at r) since)
       (\<lambda>r. chat_in_project s (run_chat_id r) project) (range_vals (s_runs s) order) 0"

section \<open>Attempts and leases\<close>

definition lease_blocks :: "gtime option \<Rightarrow> gtime \<Rightarrow> bool" where
  "lease_blocks lease now = (case lease of None \<Rightarrow> True | Some l \<Rightarrow> after l now)"

definition claim_run_attempt ::
  "env \<Rightarrow> string \<Rightarrow> string \<Rightarrow> string \<Rightarrow> gtime \<Rightarrow> store \<Rightarrow> run result \<times> store" where
  "claim_run_attempt e rid attempt claimed_by lease s =
     (case s_runs s rid of
        None \<Rightarrow> (Inl ErrNotFound, s)
      | Some r \<Rightarrow>
          if is_terminal_run_status (run_status r) then (Inr r, s)
          else if attempt = '''' then (Inl ErrAttemptMismatch, s)
          else if run_attempt_id r \<noteq> '''' \<and> run_attempt_id r \<noteq> attempt \<and>
                  lease_blocks (run_lease_expires_at r) (e_now e)
          then (Inl ErrAttemptMismatch, s)
          else
            (let r1 = (if run_attempt_id r \<noteq> attempt
                       then r\<lparr>run_attempt_count := run_attempt_count r + 1\<rparr> else r);
                 r2 = r1\<lparr>run_attempt_id := attempt, run_claimed_by := claimed_by,
                         run_lease_expires_at := Some lease, run_status := RunRunning\<rparr>;
                 r3 = (if run_started_at r2 = None
                       then r2\<lparr>run_started_at := Some (e_now e)\<rparr> else r2);
                 r4 = r3\<lparr>run_updated_at := e_now e\<rparr>
             in (Inr r4, s\<lparr>s_runs := (s_runs s)(rid \<mapsto> r4)\<rparr>)))"

definition check_run_attempt :: "string \<Rightarrow> string \<Rightarrow> store \<Rightarrow> run result" where
  "check_run_attempt rid attempt s =
     (case s_runs s rid of
        None \<Rightarrow> Inl ErrNotFound
      | Some r \<Rightarrow>
          if run_attempt_id r = '''' then
            (if attempt = '''' then Inr r else Inl ErrAttemptMismatch)
          else if attempt \<noteq> run_attempt_id r then Inl ErrAttemptMismatch
          else Inr r)"

definition update_run_status ::
  "env \<Rightarrow> string \<Rightarrow> run_status \<Rightarrow> string \<Rightarrow> store \<Rightarrow> run result \<times> store" where
  "update_run_status e rid status err s =
     (case s_runs s rid of
        None \<Rightarrow> (Inl ErrNotFound, s)
      | Some r \<Rightarrow>
          if is_terminal_run_status (run_status r) \<and> run_status r \<noteq> status then (Inr r, s)
          else
            (let r1 = (if status = RunRunning \<and> run_started_at r = None
                       then r\<lparr>run_started_at := Some (e_now e)\<rparr> else r);
                 r2 = (if status = RunSucceeded \<or> status = RunFailed \<or> status = RunCanceled
                       then r1\<lparr>run_finished_at := Some (e_now e)\<rparr> else r1);
                 r3 = r2\<lparr>run_status := status, run_error := err, run_updated_at := e_now e\<rparr>
             in (Inr r3, s\<lparr>s_runs := (s_runs s)(rid \<mapsto> r3)\<rparr>)))"

definition save_run_usage :: "string \<Rightarrow> run_usage \<Rightarrow> store \<Rightarrow> run_usage result \<times> store" where
  "save_run_usage rid usage s =
     (case s_runs s rid of
        None \<Rightarrow> (Inl ErrNotFound, s)
      | Some r \<Rightarrow>
          (let u = normalize_run_usage usage
           in (Inr u, s\<lparr>s_run_usage := (s_run_usage s)(rid \<mapsto> u),
                        s_runs := (s_runs s)(rid \<mapsto> r\<lparr>run_usage := u\<rparr>)\<rparr>)))"

definition get_run_usage :: "string \<Rightarrow> store \<Rightarrow> run_usage result" where
  "get_run_usage rid s =
     (case s_runs s rid of
        None \<Rightarrow> Inl ErrNotFound
      | Some r \<Rightarrow> Inr (map_get zero_run_usage (s_run_usage s) rid))"

section \<open>Events and subscribers\<close>

definition channel_capacity :: nat where "channel_capacity = 32"

definition run_log :: "store \<Rightarrow> string \<Rightarrow> run_event list" where
  "run_log s rid = map_get [] (s_events s) rid"

definition subscribers_of :: "store \<Rightarrow> string \<Rightarrow> nat set" where
  "subscribers_of s rid = map_get {} (s_subscribers s) rid"

definition add_event_locked ::
  "env \<Rightarrow> string \<Rightarrow> run_event_type \<Rightarrow> string \<Rightarrow> goval \<Rightarrow> store
     \<Rightarrow> (run_event \<times> nat set) result \<times> store" where
  "add_event_locked e rid typ text payload s =
     (case s_runs s rid of
        None \<Rightarrow> (Inl ErrNotFound, s)
      | Some r \<Rightarrow>
          (let n = map_get 0 (s_seq s) rid + 1;
               ev = \<lparr>evt_id = e_id e ''evt'', evt_run_id = rid, evt_chat_id = run_chat_id r,
                 evt_seq = n, evt_type = typ, evt_message = text, evt_payload = payload,
                 evt_created_at = e_now e\<rparr>
           in (Inr (ev, subscribers_of s rid),
               s\<lparr>s_seq := (s_seq s)(rid \<mapsto> n),
                 s_events := (s_events s)(rid \<mapsto> run_log s rid @ [ev])\<rparr>)))"

text \<open>The send does not block: a full channel drops the event.\<close>

definition offer :: "run_event \<Rightarrow> run_event list \<Rightarrow> run_event list" where
  "offer ev buf = (if length buf < channel_capacity then buf @ [ev] else buf)"

definition send_event :: "run_event \<Rightarrow> nat set \<Rightarrow> store \<Rightarrow> store" where
  "send_event ev chans s =
     s\<lparr>s_channels := (\<lambda>ch. if ch \<in> chans then map_option (offer ev) (s_channels s ch)
                            else s_channels s ch)\<rparr>"

definition add_event ::
  "env \<Rightarrow> string \<Rightarrow> run_event_type \<Rightarrow> string \<Rightarrow> goval \<Rightarrow> store
     \<Rightarrow> run_event result \<times> store" where
  "add_event e rid typ text payload s =
     (case add_event_locked e rid typ text payload s of
        (Inl err, s1) \<Rightarrow> (Inl err, s1)
      | (Inr (ev, chans), s1) \<Rightarrow> (Inr ev, send_event ev chans s1))"

definition list_events :: "string \<Rightarrow> int \<Rightarrow> store \<Rightarrow> run_event list" where
  "list_events rid after_seq s = filter (\<lambda>ev. evt_seq ev > after_seq) (run_log s rid)"

text \<open>\<open>ch\<close> is the channel that \<open>make(chan, 32)\<close> allocates; \<open>subscribe_cancel\<close> is the
  function \<open>Subscribe\<close> returns, and \<open>receive\<close> a receive on the channel.\<close>

definition subscribe :: "nat \<Rightarrow> string \<Rightarrow> store \<Rightarrow> store" where
  "subscribe ch rid s =
     s\<lparr>s_channels := (s_channels s)(ch \<mapsto> []),
       s_subscribers := (s_subscribers s)(rid \<mapsto> insert ch (subscribers_of s rid))\<rparr>"

definition subscribe_cancel :: "nat \<Rightarrow> string \<Rightarrow> store \<Rightarrow> store" where
  "subscribe_cancel ch rid s =
     (if ch \<in> subscribers_of s rid
      then s\<lparr>s_subscribers := (s_subscribers s)(rid \<mapsto> subscribers_of s rid - {ch})\<rparr>
      else s)"

definition receive :: "nat \<Rightarrow> store \<Rightarrow> run_event option \<times> store" where
  "receive ch s =
     (case s_channels s ch of
        Some (ev # buf) \<Rightarrow> (Some ev, s\<lparr>s_channels := (s_channels s)(ch \<mapsto> buf)\<rparr>)
      | _ \<Rightarrow> (None, s))"

lemmas run_write_defs = claim_run_attempt_def update_run_status_def save_run_usage_def
  add_event_def add_event_locked_def send_event_def
lemmas subscriber_defs = subscribe_def subscribe_cancel_def receive_def

section \<open>Lemmas: counting\<close>

lemma count_loop_eq:
  "count_loop skip hit rs c = c + int (length (filter (\<lambda>r. \<not> skip r \<and> hit r) rs))"
  by (induction rs arbitrary: c) auto

lemma length_filter_range_vals:
  "distinct ks \<Longrightarrow>
   length (filter P (range_vals m ks)) = card {k \<in> set ks. \<exists>v. m k = Some v \<and> P v}"
proof (induction ks)
  case (Cons k ks)
  let ?S = "\<lambda>xs. {k \<in> set xs. \<exists>v. m k = Some v \<and> P v}"
  have "k \<notin> ?S ks" using Cons.prems by simp
  moreover have "?S (k # ks) = (if \<exists>v. m k = Some v \<and> P v then insert k (?S ks) else ?S ks)"
    by auto
  ultimately show ?case using Cons by (auto split: option.splits)
qed simp

lemma length_filter_range_enum:
  "enumerates ks m \<Longrightarrow>
   length (filter P (range_vals m ks)) = card {k. \<exists>v. m k = Some v \<and> P v}"
  by (auto simp: length_filter_range_vals enumerates_def dom_def intro: arg_cong [where f = card])

section \<open>Lemmas: the outcomes of an operation on a run\<close>

lemma claim_Inr_cases:
  assumes "claim_run_attempt e rid attempt by lease s = (Inr r', s')"
  obtains (terminal) "s_runs s rid = Some r'" "is_terminal_run_status (run_status r')" "s' = s"
  | (claimed) r where "s_runs s rid = Some r" "\<not> is_terminal_run_status (run_status r)"
      "attempt \<noteq> ''''"
      "run_attempt_id r = '''' \<or> run_attempt_id r = attempt \<or>
       \<not> lease_blocks (run_lease_expires_at r) (e_now e)"
      "s' = s\<lparr>s_runs := (s_runs s)(rid \<mapsto> r')\<rparr>"
      "run_attempt_id r' = attempt" "run_lease_expires_at r' = Some lease"
      "run_status r' = RunRunning" "run_started_at r' \<noteq> None"
      "run_id r' = run_id r" "run_chat_id r' = run_chat_id r"
      "run_finished_at r' = run_finished_at r"
  using assms
  by (auto simp: claim_run_attempt_def Let_def split: option.splits if_splits)

lemma claim_Inl:
  "claim_run_attempt e rid attempt by lease s = (Inl err, s') \<Longrightarrow> s' = s"
  by (auto simp: claim_run_attempt_def Let_def split: option.splits if_splits)

lemma check_run_attempt_Inr:
  "check_run_attempt rid attempt s = Inr r \<longleftrightarrow>
     s_runs s rid = Some r \<and> run_attempt_id r = attempt"
  by (auto simp: check_run_attempt_def split: option.splits)

lemma update_Inr_cases:
  assumes "update_run_status e rid status err s = (Inr r', s')"
  obtains (absorbed) "s_runs s rid = Some r'" "is_terminal_run_status (run_status r')"
      "run_status r' \<noteq> status" "s' = s"
  | (written) r where "s_runs s rid = Some r"
      "is_terminal_run_status (run_status r) \<Longrightarrow> run_status r = status"
      "s' = s\<lparr>s_runs := (s_runs s)(rid \<mapsto> r')\<rparr>" "run_status r' = status"
      "run_id r' = run_id r" "run_chat_id r' = run_chat_id r"
      "run_attempt_id r' = run_attempt_id r"
      "run_lease_expires_at r' = run_lease_expires_at r"
  using assms
  by (auto simp: update_run_status_def Let_def split: option.splits if_splits)

section \<open>Lemmas: the event log\<close>

lemma run_log_upd [simp]:
  "run_log (s\<lparr>s_events := (s_events s)(rid \<mapsto> l)\<rparr>) q = (if q = rid then l else run_log s q)"
  by (simp add: run_log_def)

lemma run_log_cong: "s_events s = s_events t \<Longrightarrow> run_log s = run_log t"
  by (rule ext) (simp add: run_log_def)

text \<open>The numbers 1, 2, ..., n, as a log with no gap has them.\<close>

definition dense_seqs :: "run_event list \<Rightarrow> bool" where
  "dense_seqs evs \<longleftrightarrow> map evt_seq evs = map int [1..<length evs + 1]"

lemma dense_seqs_Nil [simp]: "dense_seqs []"
  by (simp add: dense_seqs_def)

lemma dense_seqs_snoc:
  "dense_seqs (evs @ [ev]) \<longleftrightarrow> dense_seqs evs \<and> evt_seq ev = int (length evs) + 1"
  by (auto simp: dense_seqs_def)

lemma dense_seqs_nth:
  assumes "dense_seqs evs" and "i < length evs"
  shows "evt_seq (evs ! i) = int i + 1"
proof -
  from assms(1) have "map evt_seq evs ! i = map int [1..<length evs + 1] ! i"
    by (simp only: dense_seqs_def)
  with assms(2) show ?thesis by (simp del: upt_Suc)
qed

text \<open>Replaying a dense log from a sequence number is dropping that many events.\<close>

lemma dense_filter_drop:
  assumes "dense_seqs evs"
  shows "filter (\<lambda>ev. evt_seq ev > int n) evs = drop n evs"
  using assms
proof (induction evs rule: rev_induct)
  case (snoc ev evs)
  then have "dense_seqs evs" "evt_seq ev = int (length evs) + 1"
    by (simp_all add: dense_seqs_snoc)
  with snoc.IH show ?case by auto
qed simp

lemma list_events_dense:
  "dense_seqs (run_log s rid) \<Longrightarrow> list_events rid (int n) s = drop n (run_log s rid)"
  by (simp add: list_events_def dense_filter_drop)

lemma send_event_simps [simp]:
  "s_runs (send_event ev C s) = s_runs s" "s_events (send_event ev C s) = s_events s"
  "s_seq (send_event ev C s) = s_seq s" "s_subscribers (send_event ev C s) = s_subscribers s"
  "s_chats (send_event ev C s) = s_chats s"
  by (simp_all add: send_event_def)

lemma add_event_Inr:
  assumes "add_event e rid typ text payload s = (Inr ev, s')"
  obtains r where "s_runs s rid = Some r" "evt_run_id ev = rid"
    "evt_seq ev = map_get 0 (s_seq s) rid + 1" "evt_type ev = typ" "evt_payload ev = payload"
    "evt_message ev = text" "evt_chat_id ev = run_chat_id r"
    "s_events s' = (s_events s)(rid \<mapsto> run_log s rid @ [ev])"
    "s_seq s' = (s_seq s)(rid \<mapsto> evt_seq ev)" "s_runs s' = s_runs s" "s_chats s' = s_chats s"
  using assms
  by (auto simp: add_event_def add_event_locked_def Let_def split: option.splits)

end
