(* ===== verification/Usage_Store.thy ===== *)
theory Usage_Store
  imports Run_Store "HOL-Library.Product_Lexorder"
begin

text \<open>
  Usage accounting over the runs of the in-memory store: \<open>SumRunUsageSince\<close>,
  \<open>SumRunUsageTokensSince\<close> and \<open>ListRunUsageBucketsSince\<close> of
  services/control-plane/internal/repository/store.go with \<open>usageBucketKey\<close>,
  \<open>addUsageToBucket\<close> and \<open>sortRunUsageBuckets\<close>. The loops range over the map of run
  usages in the order \<open>order\<close>; \<open>rnd\<close> is the rounding of a float64 addition. The integer
  sums are shown to be the same for every order; the cost is a floating-point sum, which
  no law makes independent of it.
\<close>

section \<open>The sums\<close>

definition add_usage :: "(rat \<Rightarrow> rat) \<Rightarrow> run_usage \<Rightarrow> run_usage \<Rightarrow> run_usage" where
  "add_usage rnd tot n =
     tot\<lparr>
       usg_input_tokens := wrap64 (usg_input_tokens tot + usg_input_tokens n),
       usg_output_tokens := wrap64 (usg_output_tokens tot + usg_output_tokens n),
       usg_reasoning_tokens := wrap64 (usg_reasoning_tokens tot + usg_reasoning_tokens n),
       usg_cached_tokens := wrap64 (usg_cached_tokens tot + usg_cached_tokens n),
       usg_total_tokens := wrap64 (usg_total_tokens tot + usg_total_tokens n),
       usg_cost := rnd (usg_cost tot + usg_cost n),
       usg_latency_millis := wrap64 (usg_latency_millis tot + usg_latency_millis n),
       usg_retry_count := wrap64 (usg_retry_count tot + usg_retry_count n),
       usg_tool_calls := wrap64 (usg_tool_calls tot + usg_tool_calls n),
       usg_tool_errors := wrap64 (usg_tool_errors tot + usg_tool_errors n),
       usg_sandbox_commands := wrap64 (usg_sandbox_commands tot + usg_sandbox_commands n),
       usg_sandbox_duration_millis :=
         wrap64 (usg_sandbox_duration_millis tot + usg_sandbox_duration_millis n),
       usg_sandbox_output_bytes :=
         wrap64 (usg_sandbox_output_bytes tot + usg_sandbox_output_bytes n),
       usg_sandbox_cpu_millis := wrap64 (usg_sandbox_cpu_millis tot + usg_sandbox_cpu_millis n),
       usg_sandbox_memory_max_bytes :=
         (if usg_sandbox_memory_max_bytes n > usg_sandbox_memory_max_bytes tot
          then usg_sandbox_memory_max_bytes n else usg_sandbox_memory_max_bytes tot),
       usg_artifact_count := wrap64 (usg_artifact_count tot + usg_artifact_count n),
       usg_artifact_bytes := wrap64 (usg_artifact_bytes tot + usg_artifact_bytes n)\<rparr>"

definition usage_skipped :: "store \<Rightarrow> string \<Rightarrow> string \<Rightarrow> gtime \<Rightarrow> string \<Rightarrow> bool" where
  "usage_skipped s user project since rid =
     (case s_runs s rid of
        None \<Rightarrow> True
      | Some r \<Rightarrow>
          if run_user_id r \<noteq> user \<or> before (run_created_at r) since then True
          else (case s_chats s (run_chat_id r) of
                  None \<Rightarrow> True
                | Some chat \<Rightarrow> cht_project_id chat \<noteq> project))"

fun sum_usage_loop ::
  "(rat \<Rightarrow> rat) \<Rightarrow> store \<Rightarrow> (string \<Rightarrow> bool) \<Rightarrow> string list \<Rightarrow> run_usage \<Rightarrow> run_usage" where
  "sum_usage_loop rnd s skip [] tot = tot"
| "sum_usage_loop rnd s skip (rid # rids) tot =
     (case s_run_usage s rid of
        None \<Rightarrow> sum_usage_loop rnd s skip rids tot
      | Some usage \<Rightarrow>
          if skip rid then sum_usage_loop rnd s skip rids tot
          else sum_usage_loop rnd s skip rids
                 (add_usage rnd tot (normalize_run_usage usage)))"

definition sum_run_usage_since ::
  "(rat \<Rightarrow> rat) \<Rightarrow> string list \<Rightarrow> string \<Rightarrow> string \<Rightarrow> gtime \<Rightarrow> store \<Rightarrow> run_usage" where
  "sum_run_usage_since rnd order user project since s =
     sum_usage_loop rnd s (usage_skipped s user project since) order zero_run_usage"

definition sum_run_usage_tokens_since ::
  "(rat \<Rightarrow> rat) \<Rightarrow> string list \<Rightarrow> string \<Rightarrow> string \<Rightarrow> gtime \<Rightarrow> store \<Rightarrow> int" where
  "sum_run_usage_tokens_since rnd order user project since s =
     usg_total_tokens (sum_run_usage_since rnd order user project since s)"

section \<open>The buckets\<close>

definition format_bool :: "bool \<Rightarrow> string" where
  "format_bool v = (if v then ''true'' else ''false'')"

definition usage_bucket_key :: "run_usage \<Rightarrow> string" where
  "usage_bucket_key u =
     usg_provider u @ nul # usg_model u @ nul # usg_currency u @ nul #
     format_bool (usg_estimated u) @ nul # usg_token_estimator u"

definition new_bucket :: "run_usage \<Rightarrow> usage_bucket" where
  "new_bucket u = \<lparr>bkt_provider = usg_provider u, bkt_model = usg_model u,
     bkt_currency = usg_currency u, bkt_estimated = usg_estimated u,
     bkt_token_estimator = usg_token_estimator u, bkt_run_count = 0, bkt_input_tokens = 0,
     bkt_output_tokens = 0, bkt_reasoning_tokens = 0, bkt_cached_tokens = 0,
     bkt_total_tokens = 0, bkt_cost = 0, bkt_latency_millis = 0, bkt_retry_count = 0,
     bkt_tool_calls = 0, bkt_tool_errors = 0, bkt_sandbox_commands = 0,
     bkt_sandbox_duration_millis = 0, bkt_sandbox_output_bytes = 0, bkt_sandbox_cpu_millis = 0,
     bkt_sandbox_memory_max_bytes = 0, bkt_artifact_count = 0, bkt_artifact_bytes = 0\<rparr>"

definition add_usage_to_bucket ::
  "(rat \<Rightarrow> rat) \<Rightarrow> usage_bucket \<Rightarrow> run_usage \<Rightarrow> usage_bucket" where
  "add_usage_to_bucket rnd b u =
     b\<lparr>
       bkt_run_count := bkt_run_count b + 1,
       bkt_input_tokens := wrap64 (bkt_input_tokens b + usg_input_tokens u),
       bkt_output_tokens := wrap64 (bkt_output_tokens b + usg_output_tokens u),
       bkt_reasoning_tokens := wrap64 (bkt_reasoning_tokens b + usg_reasoning_tokens u),
       bkt_cached_tokens := wrap64 (bkt_cached_tokens b + usg_cached_tokens u),
       bkt_total_tokens := wrap64 (bkt_total_tokens b + usg_total_tokens u),
       bkt_cost := rnd (bkt_cost b + usg_cost u),
       bkt_latency_millis := wrap64 (bkt_latency_millis b + usg_latency_millis u),
       bkt_retry_count := wrap64 (bkt_retry_count b + usg_retry_count u),
       bkt_tool_calls := wrap64 (bkt_tool_calls b + usg_tool_calls u),
       bkt_tool_errors := wrap64 (bkt_tool_errors b + usg_tool_errors u),
       bkt_sandbox_commands := wrap64 (bkt_sandbox_commands b + usg_sandbox_commands u),
       bkt_sandbox_duration_millis :=
         wrap64 (bkt_sandbox_duration_millis b + usg_sandbox_duration_millis u),
       bkt_sandbox_output_bytes :=
         wrap64 (bkt_sandbox_output_bytes b + usg_sandbox_output_bytes u),
       bkt_sandbox_cpu_millis := wrap64 (bkt_sandbox_cpu_millis b + usg_sandbox_cpu_millis u),
       bkt_sandbox_memory_max_bytes :=
         (if usg_sandbox_memory_max_bytes u > bkt_sandbox_memory_max_bytes b
          then usg_sandbox_memory_max_bytes u else bkt_sandbox_memory_max_bytes b),
       bkt_artifact_count := wrap64 (bkt_artifact_count b + usg_artifact_count u),
       bkt_artifact_bytes := wrap64 (bkt_artifact_bytes b + usg_artifact_bytes u)\<rparr>"

definition bucket_less :: "usage_bucket \<Rightarrow> usage_bucket \<Rightarrow> bool" where
  "bucket_less a b =
     (if bkt_provider a \<noteq> bkt_provider b then bkt_provider a < bkt_provider b
      else if bkt_model a \<noteq> bkt_model b then bkt_model a < bkt_model b
      else if bkt_currency a \<noteq> bkt_currency b then bkt_currency a < bkt_currency b
      else if bkt_estimated a \<noteq> bkt_estimated b then \<not> bkt_estimated a
      else bkt_token_estimator a < bkt_token_estimator b)"

definition bucket_skipped :: "store \<Rightarrow> string \<Rightarrow> gtime \<Rightarrow> string \<Rightarrow> bool" where
  "bucket_skipped s project since rid =
     (case s_runs s rid of
        None \<Rightarrow> True
      | Some r \<Rightarrow>
          if before (run_created_at r) since then True
          else (case s_chats s (run_chat_id r) of
                  None \<Rightarrow> True
                | Some chat \<Rightarrow> cht_project_id chat \<noteq> project))"

fun bucket_loop ::
  "(rat \<Rightarrow> rat) \<Rightarrow> store \<Rightarrow> (string \<Rightarrow> bool) \<Rightarrow> string list
     \<Rightarrow> (string \<rightharpoonup> usage_bucket) \<Rightarrow> (string \<rightharpoonup> usage_bucket)" where
  "bucket_loop rnd s skip [] by_key = by_key"
| "bucket_loop rnd s skip (rid # rids) by_key =
     (case s_run_usage s rid of
        None \<Rightarrow> bucket_loop rnd s skip rids by_key
      | Some usage \<Rightarrow>
          if skip rid then bucket_loop rnd s skip rids by_key
          else
            (let u = normalize_run_usage usage;
                 key = usage_bucket_key u;
                 b = map_get (new_bucket u) by_key key
             in bucket_loop rnd s skip rids (by_key(key \<mapsto> add_usage_to_bucket rnd b u))))"

definition buckets_by_key ::
  "(rat \<Rightarrow> rat) \<Rightarrow> string list \<Rightarrow> string \<Rightarrow> gtime \<Rightarrow> store \<Rightarrow> (string \<rightharpoonup> usage_bucket)" where
  "buckets_by_key rnd order project since s =
     bucket_loop rnd s (bucket_skipped s project since) order Map.empty"

definition list_run_usage_buckets_since ::
  "(rat \<Rightarrow> rat) \<Rightarrow> string list \<Rightarrow> string list \<Rightarrow> string \<Rightarrow> gtime \<Rightarrow> store \<Rightarrow> usage_bucket list" where
  "list_run_usage_buckets_since rnd order key_order project since s =
     sort_slice bucket_less (range_vals (buckets_by_key rnd order project since s) key_order)"

section \<open>Lemmas: sums\<close>

text \<open>The runs a sum counts, and the sum of one integer field over them.\<close>

definition counted_runs :: "store \<Rightarrow> (string \<Rightarrow> bool) \<Rightarrow> string set" where
  "counted_runs s skip = {rid \<in> dom (s_run_usage s). \<not> skip rid}"

definition usage_of :: "store \<Rightarrow> string \<Rightarrow> run_usage" where
  "usage_of s rid = normalize_run_usage (map_get zero_run_usage (s_run_usage s) rid)"

definition additive :: "(run_usage \<Rightarrow> int) \<Rightarrow> bool" where
  "additive f \<longleftrightarrow> f zero_run_usage = 0 \<and>
     (\<forall>rnd a b. f (add_usage rnd a b) = wrap64 (f a + f b))"

lemma additive_fields:
  "additive usg_input_tokens" "additive usg_output_tokens" "additive usg_reasoning_tokens"
  "additive usg_cached_tokens" "additive usg_total_tokens" "additive usg_latency_millis"
  "additive usg_retry_count" "additive usg_tool_calls" "additive usg_tool_errors"
  "additive usg_sandbox_commands" "additive usg_sandbox_duration_millis"
  "additive usg_sandbox_output_bytes" "additive usg_sandbox_cpu_millis"
  "additive usg_artifact_count" "additive usg_artifact_bytes"
  by (simp_all add: additive_def add_usage_def zero_run_usage_def)

lemma wrap64_sum_step: "wrap64 (wrap64 (a + b) + c) = wrap64 (a + (b + c))"
  by (simp add: algebra_simps)

lemma sum_usage_loop_field:
  assumes f: "additive f" and "distinct rids"
  shows "wrap64 (f (sum_usage_loop rnd s skip rids tot)) =
     wrap64 (f tot + (\<Sum>rid \<in> set rids \<inter> counted_runs s skip. f (usage_of s rid)))"
  using assms(2)
proof (induction rids arbitrary: tot)
  case (Cons rid rids)
  let ?C = "counted_runs s skip"
  show ?case
  proof (cases "rid \<in> ?C")
    case True
    then obtain u where u: "s_run_usage s rid = Some u" "\<not> skip rid"
      by (auto simp: counted_runs_def)
    have "set (rid # rids) \<inter> ?C = insert rid (set rids \<inter> ?C)" using True by auto
    then have "(\<Sum>x \<in> set (rid # rids) \<inter> ?C. f (usage_of s x)) =
        f (usage_of s rid) + (\<Sum>x \<in> set rids \<inter> ?C. f (usage_of s x))"
      using Cons.prems by simp
    with Cons u f show ?thesis
      by (simp add: usage_of_def additive_def wrap64_sum_step del: wrap64_add_left)
  next
    case False
    then have "set (rid # rids) \<inter> ?C = set rids \<inter> ?C" by auto
    with False Cons show ?thesis by (auto simp: counted_runs_def split: option.splits)
  qed
qed simp

lemma sum_usage_loop_bounded:
  assumes "additive f" and "wrap64 (f tot) = f tot"
  shows "wrap64 (f (sum_usage_loop rnd s skip rids tot)) = f (sum_usage_loop rnd s skip rids tot)"
  using assms(2)
proof (induction rids arbitrary: tot)
  case (Cons rid rids)
  then show ?case using assms(1) by (auto simp: additive_def split: option.splits)
qed simp

lemma sum_run_usage_field:
  assumes f: "additive f" and order: "enumerates order (s_run_usage s)"
  shows "f (sum_run_usage_since rnd order user project since s) =
    wrap64 (\<Sum>rid \<in> counted_runs s (usage_skipped s user project since). f (usage_of s rid))"
proof -
  let ?skip = "usage_skipped s user project since"
  have "set order \<inter> counted_runs s ?skip = counted_runs s ?skip"
    using order by (auto simp: enumerates_def counted_runs_def)
  moreover have "distinct order" using order by (simp add: enumerates_def)
  moreover have "f zero_run_usage = 0" "wrap64 (f zero_run_usage) = f zero_run_usage"
    using f by (simp_all add: additive_def wrap64_id)
  ultimately show ?thesis
    using sum_usage_loop_field [OF f, of order rnd s ?skip zero_run_usage]
      sum_usage_loop_bounded [OF f, of zero_run_usage rnd s ?skip order]
    by (simp add: sum_run_usage_since_def)
qed

section \<open>Lemmas: buckets\<close>

definition bucket_rank :: "usage_bucket \<Rightarrow> string \<times> string \<times> string \<times> bool \<times> string" where
  "bucket_rank b = (bkt_provider b, bkt_model b, bkt_currency b, bkt_estimated b,
     bkt_token_estimator b)"

lemma bucket_less_rank: "bucket_less a b \<longleftrightarrow> bucket_rank a < bucket_rank b"
  by (auto simp: bucket_less_def bucket_rank_def less_prod_simp)

interpretation buckets_sorted: sort_less bucket_less
  by unfold_locales (auto simp: bucket_less_rank not_less dest: order_trans)

definition bucket_runs :: "store \<Rightarrow> (string \<Rightarrow> bool) \<Rightarrow> string \<Rightarrow> string set" where
  "bucket_runs s skip key = {rid \<in> counted_runs s skip. usage_bucket_key (usage_of s rid) = key}"

lemma bucket_loop_skip [simp]:
  "rid \<notin> counted_runs s skip \<Longrightarrow>
   bucket_loop rnd s skip (rid # rids) M = bucket_loop rnd s skip rids M"
  by (auto simp: counted_runs_def split: option.split)

lemma bucket_loop_hit [simp]:
  "rid \<in> counted_runs s skip \<Longrightarrow>
   bucket_loop rnd s skip (rid # rids) M = bucket_loop rnd s skip rids
     (M(usage_bucket_key (usage_of s rid) \<mapsto> add_usage_to_bucket rnd
          (map_get (new_bucket (usage_of s rid)) M (usage_bucket_key (usage_of s rid)))
          (usage_of s rid)))"
  by (auto simp: counted_runs_def usage_of_def Let_def)

declare bucket_loop.simps(2) [simp del]

text \<open>
  The loop adds to the bucket of a key the runs with that key, one at a time. The lemma
  is stated for one integer field \<open>f\<close> of a bucket and the amount \<open>g\<close> a run adds to it.
\<close>

lemma bucket_loop_field:
  assumes f: "\<And>b u. f (add_usage_to_bucket rnd b u) = f b + g u"
    and z: "\<And>u. f (new_bucket u) = (0 :: int)" and "distinct rids"
  shows "(case bucket_loop rnd s skip rids M key of None \<Rightarrow> 0 | Some b \<Rightarrow> f b) =
    (case M key of None \<Rightarrow> 0 | Some b \<Rightarrow> f b) +
    (\<Sum>rid \<in> set rids \<inter> bucket_runs s skip key. g (usage_of s rid))"
  using assms(3)
proof (induction rids arbitrary: M)
  case (Cons rid rids)
  let ?B = "bucket_runs s skip key"
  show ?case
  proof (cases "rid \<in> counted_runs s skip")
    case True
    let ?u = "usage_of s rid"
    show ?thesis
    proof (cases "usage_bucket_key ?u = key")
      case True
      then have B: "set (rid # rids) \<inter> ?B = insert rid (set rids \<inter> ?B)"
        using \<open>rid \<in> counted_runs s skip\<close> by (auto simp: bucket_runs_def)
      have "f (map_get (new_bucket ?u) M key) = (case M key of None \<Rightarrow> 0 | Some b \<Rightarrow> f b)"
        by (simp add: map_get_def z split: option.split)
      with Cons True B \<open>rid \<in> counted_runs s skip\<close> show ?thesis by (simp add: f)
    next
      case False
      then have "set (rid # rids) \<inter> ?B = set rids \<inter> ?B" by (auto simp: bucket_runs_def)
      with Cons False \<open>rid \<in> counted_runs s skip\<close> show ?thesis by simp
    qed
  next
    case False
    then have "set (rid # rids) \<inter> ?B = set rids \<inter> ?B" by (auto simp: bucket_runs_def)
    with False Cons show ?thesis by simp
  qed
qed simp

lemma dom_bucket_loop:
  "dom (bucket_loop rnd s skip rids M) =
     dom M \<union> (\<lambda>rid. usage_bucket_key (usage_of s rid)) ` (set rids \<inter> counted_runs s skip)"
proof (induction rids arbitrary: M)
  case (Cons rid rids)
  then show ?case
    by (cases "rid \<in> counted_runs s skip") (simp_all add: dom_fun_upd del: fun_upd_apply)
qed simp

lemma buckets_run_count:
  assumes order: "enumerates order (s_run_usage s)"
    and b: "buckets_by_key rnd order project since s key = Some b"
  shows "bkt_run_count b = int (card (bucket_runs s (bucket_skipped s project since) key))"
proof -
  let ?skip = "bucket_skipped s project since"
  have "set order \<inter> bucket_runs s ?skip key = bucket_runs s ?skip key"
    using order by (auto simp: enumerates_def bucket_runs_def counted_runs_def)
  moreover have "distinct order" using order by (simp add: enumerates_def)
  moreover have "bkt_run_count (add_usage_to_bucket rnd b u) = bkt_run_count b + 1"
    "bkt_run_count (new_bucket u) = 0" for b u
    by (simp_all add: add_usage_to_bucket_def new_bucket_def)
  ultimately show ?thesis
    using b bucket_loop_field [of bkt_run_count rnd "\<lambda>_. 1" order s ?skip Map.empty key]
    by (simp add: buckets_by_key_def)
qed

text \<open>The buckets split the counted runs: their run counts add up to the number of runs.\<close>

lemma sum_list_range_vals:
  assumes "enumerates ks m"
  shows "sum_list (map f (range_vals m ks)) = (\<Sum>k \<in> dom m. f (the (m k)))"
proof -
  have "sum_list (map f (range_vals m ks)) = (\<Sum>k \<in> set ks. f (the (m k)))"
    if "distinct ks" "set ks \<subseteq> dom m" for ks
    using that by (induction ks) auto
  then show ?thesis using assms by (simp add: enumerates_def)
qed

lemma sum_bucket_counts:
  assumes order: "enumerates order (s_run_usage s)"
    and keys: "enumerates key_order (buckets_by_key rnd order project since s)"
  shows "sum_list (map bkt_run_count (list_run_usage_buckets_since rnd order key_order project since s)) =
    int (card (counted_runs s (bucket_skipped s project since)))"
proof -
  let ?C = "counted_runs s (bucket_skipped s project since)" and ?B = "buckets_by_key rnd order project since s"
  let ?key = "\<lambda>rid. usage_bucket_key (usage_of s rid)"
  have fin: "finite ?C"
    using enumerates_finite [OF order] by (rule finite_subset [rotated]) (auto simp: counted_runs_def)
  have "set order \<inter> ?C = ?C" using order by (auto simp: enumerates_def counted_runs_def)
  then have dom: "dom ?B = ?key ` ?C" by (simp add: buckets_by_key_def dom_bucket_loop)
  have "mset (list_run_usage_buckets_since rnd order key_order project since s) =
      mset (range_vals ?B key_order)"
    by (simp add: list_run_usage_buckets_since_def)
  then have "sum_list (map bkt_run_count (list_run_usage_buckets_since rnd order key_order project since s)) =
      sum_list (map bkt_run_count (range_vals ?B key_order))"
    by (metis mset_map sum_mset_sum_list)
  also have "\<dots> = (\<Sum>k \<in> dom ?B. bkt_run_count (the (?B k)))" by (rule sum_list_range_vals [OF keys])
  also have "\<dots> = (\<Sum>k \<in> dom ?B. int (card {rid \<in> ?C. ?key rid = k}))"
    using buckets_run_count [OF order] by (intro sum.cong refl) (auto simp: bucket_runs_def)
  also have "\<dots> = int (card ?C)"
    unfolding dom using sum.image_gen [OF fin, of "\<lambda>_. 1 :: int" ?key] by simp
  finally show ?thesis .
qed

end
