(* ===== verification/Identity_Store.thy ===== *)
theory Identity_Store
  imports Store_State
begin

text \<open>
  Identities, browser sessions, members, roles and project policies of the in-memory store:
  \<open>ProjectBelongsToOrganization\<close>, \<open>BindUserIdentity\<close>, the three \<open>OIDCBrowserSession\<close>
  operations, \<open>ListOrganizationRoles\<close>, \<open>ListProjectRoles\<close>, the member operations,
  the quota and runtime policies and the role setters of
  services/control-plane/internal/repository/store.go.
\<close>

definition project_belongs_to_organization :: "string \<Rightarrow> string \<Rightarrow> store \<Rightarrow> bool" where
  "project_belongs_to_organization project org s =
     (case s_projects s project of None \<Rightarrow> False | Some p \<Rightarrow> prj_organization_id p = org)"

section \<open>Identities\<close>

text \<open>\<open>touch_user\<close> is the block that creates or completes the user a write refers to.\<close>

definition touch_user :: "env \<Rightarrow> string \<Rightarrow> string \<Rightarrow> string \<Rightarrow> store \<Rightarrow> user" where
  "touch_user e uid email name s =
     (let u = map_get zero_user (s_users s) uid;
          u1 = u\<lparr>usr_id := uid,
                 usr_email := first_non_empty [email, usr_email u, uid @ ''@niceagent.local''],
                 usr_name := first_non_empty [name, usr_name u, uid],
                 usr_status := first_non_empty [usr_status u, ''active'']\<rparr>
      in if is_zero_time (usr_created_at u1) then u1\<lparr>usr_created_at := e_now e\<rparr> else u1)"

definition trim_identity :: "user_identity \<Rightarrow> user_identity" where
  "trim_identity i =
     i\<lparr>uid_provider := to_lower (trim_space (uid_provider i)),
       uid_issuer := trim_space (uid_issuer i),
       uid_subject := trim_space (uid_subject i),
       uid_user_id := trim_space (uid_user_id i),
       uid_email := to_lower (trim_space (uid_email i)),
       uid_name := trim_space (uid_name i)\<rparr>"

definition bind_user_identity ::
  "env \<Rightarrow> user_identity \<Rightarrow> store \<Rightarrow> user_identity result \<times> store" where
  "bind_user_identity e raw s =
     (let i = trim_identity raw;
          key = identity_key (uid_provider i) (uid_issuer i) (uid_subject i);
          user_key = user_identity_key (uid_provider i) (uid_user_id i)
      in if uid_provider i = '''' \<or> uid_issuer i = '''' \<or> uid_subject i = '''' \<or>
            uid_user_id i = '''' then (Inl ErrInvalidInput, s)
         else case s_identities s key of
           Some existing \<Rightarrow>
             if uid_user_id existing \<noteq> uid_user_id i then (Inl ErrIdentityConflict, s)
             else
               (let ex = existing\<lparr>
                      uid_email := first_non_empty [uid_email i, uid_email existing],
                      uid_name := first_non_empty [uid_name i, uid_name existing],
                      uid_updated_at := e_now e\<rparr>
                in (Inr ex, s\<lparr>s_identities := (s_identities s)(key \<mapsto> ex)\<rparr>))
         | None \<Rightarrow>
             if (case s_user_identities s user_key of None \<Rightarrow> False | Some k \<Rightarrow> k \<noteq> key)
             then (Inl ErrIdentityConflict, s)
             else
               (let u = touch_user e (uid_user_id i) (uid_email i) (uid_name i) s;
                    i1 = i\<lparr>uid_id := e_id e ''uid'', uid_created_at := e_now e,
                           uid_updated_at := e_now e\<rparr>
                in (Inr i1,
                    s\<lparr>s_users := (s_users s)(uid_user_id i \<mapsto> u),
                      s_identities := (s_identities s)(key \<mapsto> i1),
                      s_user_identities := (s_user_identities s)(user_key \<mapsto> key)\<rparr>)))"

section \<open>Browser sessions\<close>

definition upsert_oidc_session :: "env \<Rightarrow> oidc_session \<Rightarrow> store \<Rightarrow> unit result \<times> store" where
  "upsert_oidc_session e raw s =
     (let ses = raw\<lparr>ois_id := trim_space (ois_id raw),
            ois_user_id := trim_space (ois_user_id raw),
            ois_project_id := trim_space (ois_project_id raw),
            ois_refresh_token_hash := trim_space (ois_refresh_token_hash raw)\<rparr>
      in if ois_id ses = '''' \<or> ois_user_id ses = '''' \<or> ois_project_id ses = '''' \<or>
            is_zero_time (ois_expires_at ses) then (Inl ErrInvalidInput, s)
         else
           (let existing_created =
                  (case s_oidc_sessions s (ois_id ses) of
                     None \<Rightarrow> 0 | Some ex \<Rightarrow> ois_created_at ex);
                s1 = (if is_zero_time (ois_created_at ses)
                      then ses\<lparr>ois_created_at := existing_created\<rparr> else ses);
                s2 = (if is_zero_time (ois_created_at s1)
                      then s1\<lparr>ois_created_at := e_now e\<rparr> else s1);
                s3 = (if is_zero_time (ois_updated_at s2)
                      then s2\<lparr>ois_updated_at := e_now e\<rparr> else s2)
            in (Inr (), s\<lparr>s_oidc_sessions := (s_oidc_sessions s)(ois_id ses \<mapsto> s3)\<rparr>)))"

definition revoke_oidc_session ::
  "env \<Rightarrow> string \<Rightarrow> gtime \<Rightarrow> store \<Rightarrow> unit result \<times> store" where
  "revoke_oidc_session e raw_id raw_at s =
     (let sid = trim_space raw_id;
          revoked_at = (if is_zero_time raw_at then e_now e else raw_at)
      in if sid = '''' then (Inl ErrInvalidInput, s)
         else case s_oidc_sessions s sid of
                None \<Rightarrow> (Inr (), s)
              | Some ses \<Rightarrow>
                  (Inr (), s\<lparr>s_oidc_sessions := (s_oidc_sessions s)(sid \<mapsto>
                     ses\<lparr>ois_revoked_at := Some revoked_at, ois_updated_at := revoked_at\<rparr>)\<rparr>))"

definition is_oidc_session_active ::
  "env \<Rightarrow> string \<Rightarrow> string \<Rightarrow> gtime \<Rightarrow> store \<Rightarrow> bool" where
  "is_oidc_session_active e raw_id raw_user raw_now s =
     (let sid = trim_space raw_id; user = trim_space raw_user;
          now = (if is_zero_time raw_now then e_now e else raw_now)
      in if sid = '''' \<or> user = '''' then False
         else case s_oidc_sessions s sid of
                None \<Rightarrow> False
              | Some ses \<Rightarrow> ois_user_id ses = user \<and> ois_revoked_at ses = None \<and>
                             before now (ois_expires_at ses))"

section \<open>Roles and members\<close>

definition normalize_member_role :: "string \<Rightarrow> string" where
  "normalize_member_role role =
     (let r = to_lower (trim_space role)
      in if r \<in> set [''owner'', ''admin'', ''member'', ''editor'', ''writer'', ''viewer''] then r
         else '''')"

definition list_organization_roles :: "string \<Rightarrow> string \<Rightarrow> store \<Rightarrow> string list" where
  "list_organization_roles user org s = map_get [] (s_org_roles s) (org_role_key user org)"

definition list_project_roles :: "string \<Rightarrow> string \<Rightarrow> store \<Rightarrow> string list" where
  "list_project_roles user project s =
     map_get [] (s_project_roles s) (project_role_key user project)"

definition org_member :: "env \<Rightarrow> string \<Rightarrow> string \<Rightarrow> string \<Rightarrow> store \<Rightarrow> organization_member" where
  "org_member e user org role s =
     (let email = (case s_users s user of None \<Rightarrow> '''' | Some u \<Rightarrow> usr_email u);
          name = (case s_users s user of None \<Rightarrow> '''' | Some u \<Rightarrow> usr_name u)
      in \<lparr>omb_id = ''orgmem_'' @ user @ ''_'' @ org, omb_user_id = user,
          omb_organization_id = org, omb_role = role, omb_email = email, omb_name = name,
          omb_created_at = e_now e, omb_updated_at = e_now e\<rparr>)"

fun org_members_loop ::
  "env \<Rightarrow> string \<Rightarrow> store \<Rightarrow> string list \<Rightarrow> organization_member list" where
  "org_members_loop e org s [] = []"
| "org_members_loop e org s (key # keys) =
     (case s_org_roles s key of
        None \<Rightarrow> org_members_loop e org s keys
      | Some roles \<Rightarrow>
          (case split_org_role_key key of
             None \<Rightarrow> org_members_loop e org s keys
           | Some (user, member_org) \<Rightarrow>
               (case roles of
                  [] \<Rightarrow> org_members_loop e org s keys
                | role # _ \<Rightarrow>
                    if member_org \<noteq> org then org_members_loop e org s keys
                    else org_member e user org role s # org_members_loop e org s keys)))"

definition org_member_less :: "organization_member \<Rightarrow> organization_member \<Rightarrow> bool" where
  "org_member_less a b =
     (if omb_role a = omb_role b then omb_user_id a < omb_user_id b
      else omb_role a < omb_role b)"

definition list_organization_members ::
  "env \<Rightarrow> string list \<Rightarrow> string \<Rightarrow> store \<Rightarrow> organization_member list" where
  "list_organization_members e order org s =
     sort_slice org_member_less (org_members_loop e org s order)"

definition upsert_organization_member ::
  "env \<Rightarrow> string \<Rightarrow> member_input \<Rightarrow> store \<Rightarrow> organization_member result \<times> store" where
  "upsert_organization_member e org input s =
     (let uid = trim_space (min_user_id input);
          role = normalize_member_role (min_role input)
      in if uid = '''' \<or> role = '''' then (Inl ErrInvalidInput, s)
         else
           (let u = touch_user e uid (trim_space (min_email input)) (trim_space (min_name input)) s
            in (Inr \<lparr>omb_id = ''orgmem_'' @ uid @ ''_'' @ org, omb_user_id = uid,
                     omb_organization_id = org, omb_role = role, omb_email = usr_email u,
                     omb_name = usr_name u, omb_created_at = e_now e, omb_updated_at = e_now e\<rparr>,
                s\<lparr>s_users := (s_users s)(uid \<mapsto> u),
                  s_org_roles := (s_org_roles s)(org_role_key uid org \<mapsto> [role])\<rparr>)))"

definition remove_organization_member ::
  "env \<Rightarrow> string \<Rightarrow> string \<Rightarrow> store \<Rightarrow> organization_member result \<times> store" where
  "remove_organization_member e org user s =
     (let key = org_role_key user org
      in case map_get [] (s_org_roles s) key of
           [] \<Rightarrow> (Inl ErrNotFound, s)
         | role # _ \<Rightarrow>
             (Inr (org_member e user org role s),
              s\<lparr>s_org_roles := (s_org_roles s)(key := None)\<rparr>))"

definition prj_member :: "env \<Rightarrow> string \<Rightarrow> string \<Rightarrow> string \<Rightarrow> store \<Rightarrow> project_member" where
  "prj_member e user project role s =
     (let email = (case s_users s user of None \<Rightarrow> '''' | Some u \<Rightarrow> usr_email u);
          name = (case s_users s user of None \<Rightarrow> '''' | Some u \<Rightarrow> usr_name u)
      in \<lparr>pmb_id = ''prjmem_'' @ user @ ''_'' @ project, pmb_user_id = user,
          pmb_project_id = project, pmb_role = role, pmb_email = email, pmb_name = name,
          pmb_created_at = e_now e, pmb_updated_at = e_now e\<rparr>)"

fun project_members_loop ::
  "env \<Rightarrow> string \<Rightarrow> store \<Rightarrow> string list \<Rightarrow> project_member list" where
  "project_members_loop e project s [] = []"
| "project_members_loop e project s (key # keys) =
     (case s_project_roles s key of
        None \<Rightarrow> project_members_loop e project s keys
      | Some roles \<Rightarrow>
          (case split_project_role_key key of
             None \<Rightarrow> project_members_loop e project s keys
           | Some (user, member_project) \<Rightarrow>
               (case roles of
                  [] \<Rightarrow> project_members_loop e project s keys
                | role # _ \<Rightarrow>
                    if member_project \<noteq> project then project_members_loop e project s keys
                    else prj_member e user project role s
                           # project_members_loop e project s keys)))"

definition project_member_less :: "project_member \<Rightarrow> project_member \<Rightarrow> bool" where
  "project_member_less a b =
     (if pmb_role a = pmb_role b then pmb_user_id a < pmb_user_id b
      else pmb_role a < pmb_role b)"

definition list_project_members ::
  "env \<Rightarrow> string list \<Rightarrow> string \<Rightarrow> store \<Rightarrow> project_member list" where
  "list_project_members e order project s =
     sort_slice project_member_less (project_members_loop e project s order)"

definition upsert_project_member ::
  "env \<Rightarrow> string \<Rightarrow> member_input \<Rightarrow> store \<Rightarrow> project_member result \<times> store" where
  "upsert_project_member e project input s =
     (let uid = trim_space (min_user_id input);
          role = normalize_member_role (min_role input)
      in if uid = '''' \<or> role = '''' then (Inl ErrInvalidInput, s)
         else
           (let u = touch_user e uid (trim_space (min_email input)) (trim_space (min_name input)) s
            in (Inr \<lparr>pmb_id = ''prjmem_'' @ uid @ ''_'' @ project, pmb_user_id = uid,
                     pmb_project_id = project, pmb_role = role, pmb_email = usr_email u,
                     pmb_name = usr_name u, pmb_created_at = e_now e, pmb_updated_at = e_now e\<rparr>,
                s\<lparr>s_users := (s_users s)(uid \<mapsto> u),
                  s_project_roles :=
                    (s_project_roles s)(project_role_key uid project \<mapsto> [role])\<rparr>)))"

definition remove_project_member ::
  "env \<Rightarrow> string \<Rightarrow> string \<Rightarrow> store \<Rightarrow> project_member result \<times> store" where
  "remove_project_member e project user s =
     (let key = project_role_key user project
      in case map_get [] (s_project_roles s) key of
           [] \<Rightarrow> (Inl ErrNotFound, s)
         | role # _ \<Rightarrow>
             (Inr (prj_member e user project role s),
              s\<lparr>s_project_roles := (s_project_roles s)(key := None)\<rparr>))"

definition set_project_role :: "string \<Rightarrow> string \<Rightarrow> string \<Rightarrow> store \<Rightarrow> store" where
  "set_project_role user project role s =
     s\<lparr>s_project_roles := (s_project_roles s)(project_role_key user project \<mapsto> [role])\<rparr>"

definition set_organization_role :: "string \<Rightarrow> string \<Rightarrow> string \<Rightarrow> store \<Rightarrow> store" where
  "set_organization_role user org role s =
     s\<lparr>s_org_roles := (s_org_roles s)(org_role_key user org \<mapsto> [role])\<rparr>"

definition zero_project :: project where
  "zero_project = \<lparr>prj_id = '''', prj_organization_id = '''', prj_name = '''', prj_created_at = 0\<rparr>"

definition set_project_organization :: "env \<Rightarrow> string \<Rightarrow> string \<Rightarrow> store \<Rightarrow> store" where
  "set_project_organization e project org s =
     (let p = map_get zero_project (s_projects s) project;
          p1 = p\<lparr>prj_id := project, prj_organization_id := org,
                 prj_name := first_non_empty [prj_name p, project]\<rparr>;
          p2 = (if is_zero_time (prj_created_at p1) then p1\<lparr>prj_created_at := e_now e\<rparr> else p1)
      in s\<lparr>s_projects := (s_projects s)(project \<mapsto> p2)\<rparr>)"

section \<open>Project policies\<close>

definition get_project_quota_policy :: "string \<Rightarrow> store \<Rightarrow> quota_policy option" where
  "get_project_quota_policy project s = s_quota_policies s project"

definition zero_quota_policy :: quota_policy where
  "zero_quota_policy = \<lparr>qpl_project_id = '''', qpl_max_concurrent_runs = 0,
     qpl_max_runs_per_hour = 0, qpl_max_model_tokens_per_day = 0, qpl_max_tool_calls_per_day = 0,
     qpl_max_sandbox_seconds_per_day = 0, qpl_created_at = 0, qpl_updated_at = 0\<rparr>"

definition set_project_quota_policy ::
  "env \<Rightarrow> string \<Rightarrow> quota_policy_input \<Rightarrow> store \<Rightarrow> quota_policy result \<times> store" where
  "set_project_quota_policy e project input s =
     (if qpi_max_concurrent_runs input < 0 \<or> qpi_max_runs_per_hour input < 0 \<or>
         qpi_max_model_tokens_per_day input < 0 \<or> qpi_max_tool_calls_per_day input < 0 \<or>
         qpi_max_sandbox_seconds_per_day input < 0 then (Inl ErrInvalidInput, s)
      else
        (let p = map_get zero_quota_policy (s_quota_policies s) project;
             p1 = (if is_zero_time (qpl_created_at p) then p\<lparr>qpl_created_at := e_now e\<rparr> else p);
             p2 = p1\<lparr>qpl_project_id := project,
                     qpl_max_concurrent_runs := qpi_max_concurrent_runs input,
                     qpl_max_runs_per_hour := qpi_max_runs_per_hour input,
                     qpl_max_model_tokens_per_day := qpi_max_model_tokens_per_day input,
                     qpl_max_tool_calls_per_day := qpi_max_tool_calls_per_day input,
                     qpl_max_sandbox_seconds_per_day := qpi_max_sandbox_seconds_per_day input,
                     qpl_updated_at := e_now e\<rparr>
         in (Inr p2, s\<lparr>s_quota_policies := (s_quota_policies s)(project \<mapsto> p2)\<rparr>)))"

definition get_project_runtime_policy :: "string \<Rightarrow> store \<Rightarrow> runtime_policy option" where
  "get_project_runtime_policy project s = s_runtime_policies s project"

definition zero_runtime_policy :: runtime_policy where
  "zero_runtime_policy = \<lparr>rpl_project_id = '''', rpl_skill_risk_policy = '''',
     rpl_created_at = 0, rpl_updated_at = 0\<rparr>"

definition set_project_runtime_policy ::
  "env \<Rightarrow> string \<Rightarrow> string \<Rightarrow> store \<Rightarrow> runtime_policy result \<times> store" where
  "set_project_runtime_policy e project input_policy s =
     (let risk = normalize_skill_risk_policy (trim_space input_policy)
      in if risk = '''' then (Inl ErrInvalidInput, s)
         else
           (let p = map_get zero_runtime_policy (s_runtime_policies s) project;
                p1 = (if is_zero_time (rpl_created_at p) then p\<lparr>rpl_created_at := e_now e\<rparr> else p);
                p2 = p1\<lparr>rpl_project_id := project, rpl_skill_risk_policy := risk,
                        rpl_updated_at := e_now e\<rparr>
            in (Inr p2, s\<lparr>s_runtime_policies := (s_runtime_policies s)(project \<mapsto> p2)\<rparr>)))"

lemmas session_write_defs = upsert_oidc_session_def revoke_oidc_session_def
lemmas member_write_defs = upsert_organization_member_def remove_organization_member_def
  upsert_project_member_def remove_project_member_def set_project_role_def
  set_organization_role_def set_project_organization_def
lemmas policy_write_defs = set_project_quota_policy_def set_project_runtime_policy_def

section \<open>Lemmas: roles\<close>

lemma normalize_member_role_cases:
  "normalize_member_role r \<in> {'''', ''owner'', ''admin'', ''member'', ''editor'', ''writer'', ''viewer''}"
  by (auto simp: normalize_member_role_def Let_def)

interpretation org_members_sorted: sort_less org_member_less
  by unfold_locales (auto simp: org_member_less_def split: if_splits)

interpretation project_members_sorted: sort_less project_member_less
  by unfold_locales (auto simp: project_member_less_def split: if_splits)

lemma touch_user_simps [simp]:
  "usr_id (touch_user e uid email name s) = uid"
  "usr_status (touch_user e uid email name s) \<noteq> ''''"
  by (simp_all add: touch_user_def Let_def)

text \<open>Membership as the access checks read it: the first role of the entry.\<close>

definition org_role_of :: "store \<Rightarrow> string \<Rightarrow> string \<Rightarrow> string option" where
  "org_role_of s user org =
     (case list_organization_roles user org s of [] \<Rightarrow> None | r # _ \<Rightarrow> Some r)"

definition project_role_of :: "store \<Rightarrow> string \<Rightarrow> string \<Rightarrow> string option" where
  "project_role_of s user project =
     (case list_project_roles user project s of [] \<Rightarrow> None | r # _ \<Rightarrow> Some r)"

lemma org_member_simps [simp]:
  "omb_user_id (org_member e user org role s) = user"
  "omb_role (org_member e user org role s) = role"
  "omb_organization_id (org_member e user org role s) = org"
  by (simp_all add: org_member_def Let_def)

lemma org_members_loop_roles:
  "(\<lambda>m. (omb_user_id m, omb_role m)) ` set (org_members_loop e org s keys) =
     {(user, role). \<exists>key \<in> set keys. \<exists>rest.
        s_org_roles s key = Some (role # rest) \<and> split_org_role_key key = Some (user, org)}"
  by (induction keys) (auto split: option.split list.split)

lemma org_role_of_iff:
  "org_role_of s user org = Some role \<longleftrightarrow>
     (\<exists>rest. s_org_roles s (org_role_key user org) = Some (role # rest))"
  by (auto simp: org_role_of_def list_organization_roles_def map_get_def
      split: option.splits list.splits)

lemma project_role_of_iff:
  "project_role_of s user project = Some role \<longleftrightarrow>
     (\<exists>rest. s_project_roles s (project_role_key user project) = Some (role # rest))"
  by (auto simp: project_role_of_def list_project_roles_def map_get_def
      split: option.splits list.splits)

lemma org_members_loop_sound:
  assumes order: "enumerates order (s_org_roles s)"
    and plain: "nul \<notin> set user" "nul \<notin> set org"
  shows "(user, role) \<in> (\<lambda>m. (omb_user_id m, omb_role m)) ` set (org_members_loop e org s order) \<longleftrightarrow>
         org_role_of s user org = Some role"
proof -
  have "split_org_role_key key = Some (user, org) \<longleftrightarrow> key = org_role_key user org" for key
    using plain org_key.split_iff by auto
  moreover have "s_org_roles s key = Some v \<Longrightarrow> key \<in> set order" for key v
    using order by (auto simp: enumerates_def)
  ultimately show ?thesis
    unfolding org_members_loop_roles org_role_of_iff by auto
qed

section \<open>Lemmas: identities\<close>

text \<open>
  The two identity maps point at each other: every stored identity is filed under its own
  key, its user's entry is that key, and every user entry leads to such an identity. So a
  subject has one user, and a user has one subject per provider.
\<close>

definition identity_inv :: "store \<Rightarrow> bool" where
  "identity_inv s \<longleftrightarrow>
     (\<forall>k i. s_identities s k = Some i \<longrightarrow>
        k = identity_key (uid_provider i) (uid_issuer i) (uid_subject i) \<and>
        s_user_identities s (user_identity_key (uid_provider i) (uid_user_id i)) = Some k) \<and>
     (\<forall>u k. s_user_identities s u = Some k \<longrightarrow>
        (\<exists>i. s_identities s k = Some i \<and>
             u = user_identity_key (uid_provider i) (uid_user_id i)))"

lemma identity_inv_new_store: "identity_inv (new_store now)"
  by (simp add: identity_inv_def new_store_def)

lemma identity_inv_cong:
  "s_identities t = s_identities s \<Longrightarrow> s_user_identities t = s_user_identities s \<Longrightarrow>
   identity_inv t = identity_inv s"
  by (simp add: identity_inv_def)

lemma identity_one_user:
  assumes "identity_inv s" "s_identities s k = Some i" "s_identities s l = Some j"
    and "uid_provider i = uid_provider j" "uid_user_id i = uid_user_id j"
  shows "k = l"
  using assms unfolding identity_inv_def by (metis option.inject)

end
