(* ===== verification/Invitation_Store.thy ===== *)
theory Invitation_Store
  imports Identity_Store
begin

text \<open>
  Invitations and their e-mail outbox in the in-memory store: \<open>ListInvitations\<close>,
  \<open>CreateInvitation\<close>, \<open>AcceptInvitation\<close>, the outbox operations (enqueue, requeue,
  claim, mark sent, mark failed), the provider events and the suppression list of
  services/control-plane/internal/repository/store.go. \<open>invitationByID\<close> and the loops
  over the deliveries range over maps, in the orders given as arguments; where the ids are
  unique the result does not depend on them (\<open>invitation_by_id_unique\<close>).
\<close>

section \<open>Invitations\<close>

definition invitation_newer :: "invitation \<Rightarrow> invitation \<Rightarrow> bool" where
  "invitation_newer a b = after (inv_created_at a) (inv_created_at b)"

interpretation invitations_by_age: sort_less invitation_newer
  by unfold_locales (auto simp: invitation_newer_def after_def)

definition shown_invitation :: "gtime \<Rightarrow> invitation \<Rightarrow> invitation" where
  "shown_invitation now i =
     (let i1 = i\<lparr>inv_token := ''''\<rparr>
      in if inv_status i1 = InvitationPending \<and> \<not> after (inv_expires_at i1) now
         then i1\<lparr>inv_status := InvitationExpired\<rparr> else i1)"

definition list_invitations :: "env \<Rightarrow> string list \<Rightarrow> string \<Rightarrow> store \<Rightarrow> invitation list" where
  "list_invitations e order org s =
     sort_slice invitation_newer
       (map (shown_invitation (e_now e))
         (filter (\<lambda>i. \<not> inv_organization_id i \<noteq> org) (range_vals (s_invitations s) order)))"

definition create_invitation ::
  "env \<Rightarrow> string \<Rightarrow> string \<Rightarrow> invitation_input \<Rightarrow> store \<Rightarrow> invitation result \<times> store" where
  "create_invitation e org invited_by input s =
     (let email = to_lower (trim_space (ivi_email input));
          role = normalize_member_role (ivi_role input);
          project = trim_space (ivi_project_id input);
          hours = (if ivi_expires_in_hours input \<le> 0 then 168 else ivi_expires_in_hours input)
      in if email = '''' \<or> \<not> contains email ''@'' \<or> role = '''' then (Inl ErrInvalidInput, s)
         else if hours > 24 * 30 then (Inl ErrInvalidInput, s)
         else if project \<noteq> '''' \<and> \<not> project_belongs_to_organization project org s
         then (Inl ErrInvalidInput, s)
         else
           (let i = \<lparr>inv_id = e_id e ''inv'', inv_token = e_id e ''invite_token'',
                  inv_organization_id = org, inv_project_id = project, inv_email = email,
                  inv_role = role, inv_status = InvitationPending,
                  inv_invited_by_user_id = invited_by, inv_accepted_by_user_id = '''',
                  inv_created_at = e_now e, inv_expires_at = e_now e + hours * time_hour,
                  inv_accepted_at = None\<rparr>
            in (Inr i, s\<lparr>s_invitations := (s_invitations s)(inv_token i \<mapsto> i)\<rparr>)))"

text \<open>An expired invitation is marked as such on the way to the error.\<close>

definition grant_invited_role :: "string \<Rightarrow> invitation \<Rightarrow> store \<Rightarrow> store" where
  "grant_invited_role user i s =
     (if inv_project_id i \<noteq> ''''
      then s\<lparr>s_project_roles :=
               (s_project_roles s)(project_role_key user (inv_project_id i) \<mapsto> [inv_role i])\<rparr>
      else s\<lparr>s_org_roles :=
               (s_org_roles s)(org_role_key user (inv_organization_id i) \<mapsto> [inv_role i])\<rparr>)"

definition invited_user :: "env \<Rightarrow> string \<Rightarrow> string \<Rightarrow> invitation \<Rightarrow> store \<Rightarrow> user" where
  "invited_user e uid raw_name i s =
     (let u = map_get zero_user (s_users s) uid;
          u1 = u\<lparr>usr_id := uid, usr_email := inv_email i,
                 usr_name := first_non_empty [trim_space raw_name, usr_name u, uid],
                 usr_status := first_non_empty [usr_status u, ''active'']\<rparr>
      in if is_zero_time (usr_created_at u1) then u1\<lparr>usr_created_at := e_now e\<rparr> else u1)"

definition accept_invitation ::
  "env \<Rightarrow> string \<Rightarrow> string \<Rightarrow> string \<Rightarrow> string \<Rightarrow> store \<Rightarrow> invitation result \<times> store" where
  "accept_invitation e raw_token raw_user raw_email name s =
     (let token = trim_space raw_token; user = trim_space raw_user;
          email = to_lower (trim_space raw_email)
      in if token = '''' \<or> user = '''' \<or> email = '''' then (Inl ErrInvalidInput, s)
         else case s_invitations s token of
           None \<Rightarrow> (Inl ErrNotFound, s)
         | Some i \<Rightarrow>
             if inv_status i \<noteq> InvitationPending then (Inl ErrInvalidInput, s)
             else if \<not> after (inv_expires_at i) (e_now e) then
               (Inl ErrInvalidInput,
                s\<lparr>s_invitations :=
                    (s_invitations s)(token \<mapsto> i\<lparr>inv_status := InvitationExpired\<rparr>)\<rparr>)
             else if email \<noteq> inv_email i then (Inl ErrInvalidInput, s)
             else
               (let s1 = s\<lparr>s_users := (s_users s)(user \<mapsto> invited_user e user name i s)\<rparr>;
                    s2 = grant_invited_role user i s1;
                    i1 = i\<lparr>inv_status := InvitationAccepted, inv_accepted_by_user_id := user,
                           inv_accepted_at := Some (e_now e)\<rparr>;
                    s3 = s2\<lparr>s_invitations := (s_invitations s2)(token \<mapsto> i1)\<rparr>
                in (Inr (i1\<lparr>inv_token := ''''\<rparr>), s3)))"

definition invitation_by_id ::
  "string list \<Rightarrow> (string \<rightharpoonup> invitation) \<Rightarrow> string \<Rightarrow> invitation option" where
  "invitation_by_id order invs iid = List.find (\<lambda>i. inv_id i = iid) (range_vals invs order)"

section \<open>Suppressions\<close>

definition suppression_key :: "string \<Rightarrow> string \<Rightarrow> string" where
  "suppression_key org email = trim_space org @ nul # to_lower (trim_space email)"

definition is_suppressed_locked ::
  "(string \<rightharpoonup> suppression) \<Rightarrow> string \<Rightarrow> string \<Rightarrow> bool" where
  "is_suppressed_locked sups org email =
     (if trim_space org = '''' \<or> trim_space email = '''' then False
      else (case sups (suppression_key org email) of None \<Rightarrow> False | Some x \<Rightarrow> True))"

definition is_invitation_email_suppressed :: "string \<Rightarrow> string \<Rightarrow> store \<Rightarrow> bool" where
  "is_invitation_email_suppressed org email s =
     is_suppressed_locked (s_email_suppressions s) org email"

definition suppresses_invitation_email :: "email_event_type \<Rightarrow> bool" where
  "suppresses_invitation_email t \<longleftrightarrow>
     t = EmailEventBounced \<or> t = EmailEventComplaint \<or> t = EmailEventDropped"

definition email_event_type_string :: "email_event_type \<Rightarrow> string" where
  "email_event_type_string t =
     (case t of EmailEventDelivered \<Rightarrow> ''delivered'' | EmailEventBounced \<Rightarrow> ''bounced''
      | EmailEventComplaint \<Rightarrow> ''complaint'' | EmailEventDropped \<Rightarrow> ''dropped'')"

definition normalize_email_event_type :: "string \<Rightarrow> email_event_type option" where
  "normalize_email_event_type raw =
     (let t = to_lower (trim_space raw)
      in if t = ''delivered'' then Some EmailEventDelivered
         else if t = ''bounced'' then Some EmailEventBounced
         else if t = ''complaint'' then Some EmailEventComplaint
         else if t = ''dropped'' then Some EmailEventDropped
         else None)"

definition zero_suppression :: suppression where
  "zero_suppression = \<lparr>sup_id = '''', sup_organization_id = '''', sup_email = '''',
     sup_reason = '''', sup_source_event_id = '''', sup_provider = '''',
     sup_provider_message_id = '''', sup_created_at = 0, sup_updated_at = 0\<rparr>"

definition record_suppression_locked ::
  "env \<Rightarrow> string \<Rightarrow> string \<Rightarrow> email_event \<Rightarrow> (string \<rightharpoonup> suppression) \<Rightarrow> (string \<rightharpoonup> suppression)" where
  "record_suppression_locked e raw_org raw_email ev sups =
     (let org = trim_space raw_org; email = to_lower (trim_space raw_email)
      in if org = '''' \<or> email = '''' then sups
         else
           (let key = suppression_key org email;
                p = map_get zero_suppression sups key;
                p1 = (if sup_id p = ''''
                      then p\<lparr>sup_id := e_id e ''invmailsup'', sup_organization_id := org,
                             sup_email := email, sup_created_at := e_now e\<rparr> else p);
                p2 = p1\<lparr>sup_reason :=
                          first_non_empty [eme_reason ev, email_event_type_string (eme_type ev)],
                        sup_source_event_id := eme_id ev, sup_provider := eme_provider ev,
                        sup_provider_message_id := eme_provider_message_id ev,
                        sup_updated_at := e_now e\<rparr>
            in sups(key \<mapsto> p2)))"

definition suppression_later :: "suppression \<Rightarrow> suppression \<Rightarrow> bool" where
  "suppression_later a b = after (sup_updated_at a) (sup_updated_at b)"

interpretation suppressions_by_update: sort_less suppression_later
  by unfold_locales (auto simp: suppression_later_def after_def)

definition list_email_suppressions ::
  "string list \<Rightarrow> string \<Rightarrow> int \<Rightarrow> store \<Rightarrow> suppression list" where
  "list_email_suppressions order raw_org raw_limit s =
     (let org = trim_space raw_org; limit = (if raw_limit \<le> 0 then 100 else raw_limit);
          sups = sort_slice suppression_later
            (filter (\<lambda>p. sup_organization_id p = org) (range_vals (s_email_suppressions s) order))
      in if int (length sups) > limit then take (nat limit) sups else sups)"

fun find_suppression ::
  "(string \<rightharpoonup> suppression) \<Rightarrow> string \<Rightarrow> string \<Rightarrow> string list \<Rightarrow> (string \<times> suppression) option" where
  "find_suppression sups org sid [] = None"
| "find_suppression sups org sid (key # keys) =
     (case sups key of
        None \<Rightarrow> find_suppression sups org sid keys
      | Some p \<Rightarrow> if sup_id p = sid \<and> sup_organization_id p = org then Some (key, p)
                  else find_suppression sups org sid keys)"

definition delete_email_suppression ::
  "string list \<Rightarrow> string \<Rightarrow> string \<Rightarrow> store \<Rightarrow> suppression result \<times> store" where
  "delete_email_suppression order raw_org raw_id s =
     (let org = trim_space raw_org; sid = trim_space raw_id
      in if org = '''' \<or> sid = '''' then (Inl ErrInvalidInput, s)
         else case find_suppression (s_email_suppressions s) org sid order of
                None \<Rightarrow> (Inl ErrNotFound, s)
              | Some (key, p) \<Rightarrow>
                  (Inr p, s\<lparr>s_email_suppressions := (s_email_suppressions s)(key := None)\<rparr>))"

section \<open>The outbox\<close>

definition enqueue_invitation_email ::
  "env \<Rightarrow> string list \<Rightarrow> invitation \<Rightarrow> int \<Rightarrow> store \<Rightarrow> delivery result \<times> store" where
  "enqueue_invitation_email e order i raw_max s =
     (if trim_space (inv_id i) = '''' then (Inl ErrInvalidInput, s)
      else
        (let max_attempts = (if raw_max \<le> 0 then 1 else raw_max)
         in if is_suppressed_locked (s_email_suppressions s) (inv_organization_id i) (inv_email i)
            then (Inl ErrInvalidInput, s)
            else case List.find (\<lambda>d. dlv_invitation_id d = inv_id i)
                        (range_vals (s_email_deliveries s) order) of
                Some existing \<Rightarrow> (Inr (existing\<lparr>dlv_invitation := i\<rparr>), s)
              | None \<Rightarrow>
                  (let d = \<lparr>dlv_id = e_id e ''invmail'', dlv_invitation_id = inv_id i,
                         dlv_invitation = i, dlv_status = InvitationEmailPending,
                         dlv_attempts = 0, dlv_max_attempts = max_attempts,
                         dlv_next_attempt_at = e_now e, dlv_locked_by = '''',
                         dlv_locked_until = None, dlv_last_error = '''', dlv_sent_at = None,
                         dlv_created_at = e_now e, dlv_updated_at = e_now e\<rparr>
                   in (Inr d, s\<lparr>s_email_deliveries := (s_email_deliveries s)(dlv_id d \<mapsto> d)\<rparr>))))"

definition fresh_delivery :: "env \<Rightarrow> invitation \<Rightarrow> delivery" where
  "fresh_delivery e i = \<lparr>dlv_id = e_id e ''invmail'', dlv_invitation_id = inv_id i,
     dlv_invitation = i, dlv_status = InvitationEmailPending, dlv_attempts = 0,
     dlv_max_attempts = 0, dlv_next_attempt_at = 0, dlv_locked_by = '''',
     dlv_locked_until = None, dlv_last_error = '''', dlv_sent_at = None,
     dlv_created_at = e_now e, dlv_updated_at = 0\<rparr>"

definition requeue_invitation_email ::
  "env \<Rightarrow> string list \<Rightarrow> string list \<Rightarrow> string \<Rightarrow> string \<Rightarrow> int \<Rightarrow> store
     \<Rightarrow> delivery result \<times> store" where
  "requeue_invitation_email e inv_order order raw_org raw_id raw_max s =
     (let org = trim_space raw_org; iid = trim_space raw_id;
          max_attempts = (if raw_max \<le> 0 then 1 else raw_max)
      in if org = '''' \<or> iid = '''' then (Inl ErrInvalidInput, s)
         else case invitation_by_id inv_order (s_invitations s) iid of
           None \<Rightarrow> (Inl ErrNotFound, s)
         | Some i \<Rightarrow>
             if inv_organization_id i \<noteq> org then (Inl ErrNotFound, s)
             else if inv_status i \<noteq> InvitationPending \<or> \<not> after (inv_expires_at i) (e_now e)
             then (Inl ErrInvalidInput, s)
             else if is_suppressed_locked (s_email_suppressions s) (inv_organization_id i) (inv_email i)
             then (Inl ErrInvalidInput, s)
             else
               (let d = (case List.find (\<lambda>d. dlv_invitation_id d = inv_id i)
                                (range_vals (s_email_deliveries s) order) of
                           Some existing \<Rightarrow>
                             if dlv_id existing = '''' then fresh_delivery e i else existing
                         | None \<Rightarrow> fresh_delivery e i);
                    d1 = d\<lparr>dlv_invitation := i, dlv_status := InvitationEmailPending,
                           dlv_attempts := 0, dlv_max_attempts := max_attempts,
                           dlv_next_attempt_at := e_now e, dlv_locked_by := '''',
                           dlv_locked_until := None, dlv_last_error := '''',
                           dlv_sent_at := None, dlv_updated_at := e_now e\<rparr>
                in (Inr d1, s\<lparr>s_email_deliveries := (s_email_deliveries s)(dlv_id d1 \<mapsto> d1)\<rparr>)))"

text \<open>
  The body of the claim loop for one delivery: \<open>None\<close> leaves it alone, \<open>Some (d, b)\<close>
  writes \<open>d\<close> back, and hands it to the caller when \<open>b\<close>.
\<close>

definition claim_delivery ::
  "env \<Rightarrow> string list \<Rightarrow> string \<Rightarrow> gtime \<Rightarrow> store \<Rightarrow> delivery \<Rightarrow> (delivery \<times> bool) option" where
  "claim_delivery e inv_order locked_by lock_until s d =
     (if dlv_status d \<noteq> InvitationEmailPending \<and> dlv_status d \<noteq> InvitationEmailSending then None
      else if after (dlv_next_attempt_at d) (e_now e) then None
      else if (case dlv_locked_until d of None \<Rightarrow> False | Some l \<Rightarrow> after l (e_now e)) then None
      else if dlv_attempts d \<ge> dlv_max_attempts d then
        Some (d\<lparr>dlv_status := InvitationEmailFailed,
                dlv_last_error := first_non_empty [dlv_last_error d, ''max attempts reached''],
                dlv_locked_by := '''', dlv_locked_until := None, dlv_updated_at := e_now e\<rparr>, False)
      else case invitation_by_id inv_order (s_invitations s) (dlv_invitation_id d) of
        None \<Rightarrow>
          Some (d\<lparr>dlv_status := InvitationEmailFailed, dlv_last_error := ''invitation not found'',
                  dlv_updated_at := e_now e\<rparr>, False)
      | Some i \<Rightarrow>
          if is_suppressed_locked (s_email_suppressions s) (inv_organization_id i) (inv_email i) then
            Some (d\<lparr>dlv_status := InvitationEmailFailed,
                    dlv_last_error := ''invitation email suppressed'',
                    dlv_locked_by := '''', dlv_locked_until := None, dlv_updated_at := e_now e\<rparr>,
                  False)
          else
            Some (d\<lparr>dlv_status := InvitationEmailSending, dlv_attempts := dlv_attempts d + 1,
                    dlv_locked_by := locked_by, dlv_locked_until := Some lock_until,
                    dlv_invitation := i, dlv_updated_at := e_now e\<rparr>, True))"

fun claim_loop ::
  "env \<Rightarrow> string list \<Rightarrow> int \<Rightarrow> string \<Rightarrow> gtime \<Rightarrow> string list \<Rightarrow> delivery list \<Rightarrow> store
     \<Rightarrow> delivery list \<times> store" where
  "claim_loop e inv_order limit locked_by lock_until [] acc s = (acc, s)"
| "claim_loop e inv_order limit locked_by lock_until (key # keys) acc s =
     (case s_email_deliveries s key of
        None \<Rightarrow> claim_loop e inv_order limit locked_by lock_until keys acc s
      | Some d \<Rightarrow>
          if int (length acc) \<ge> limit then (acc, s)
          else
            (case claim_delivery e inv_order locked_by lock_until s d of
               None \<Rightarrow> claim_loop e inv_order limit locked_by lock_until keys acc s
             | Some (d', claimed) \<Rightarrow>
                 claim_loop e inv_order limit locked_by lock_until keys
                   (if claimed then acc @ [d'] else acc)
                   (s\<lparr>s_email_deliveries := (s_email_deliveries s)(key \<mapsto> d')\<rparr>)))"

definition claim_due_invitation_emails ::
  "env \<Rightarrow> string list \<Rightarrow> string list \<Rightarrow> int \<Rightarrow> string \<Rightarrow> gtime \<Rightarrow> store
     \<Rightarrow> delivery list \<times> store" where
  "claim_due_invitation_emails e inv_order order raw_limit raw_locked_by raw_lock_until s =
     (let limit = (if raw_limit \<le> 0 then 1 else raw_limit);
          trimmed = trim_space raw_locked_by;
          locked_by = (if trimmed = '''' then ''control-plane'' else trimmed);
          lock_until = (if \<not> after raw_lock_until (e_now e) then e_now e + time_minute
                        else raw_lock_until)
      in claim_loop e inv_order limit locked_by lock_until order [] s)"

definition mark_invitation_email_sent :: "env \<Rightarrow> string \<Rightarrow> store \<Rightarrow> unit result \<times> store" where
  "mark_invitation_email_sent e raw_id s =
     (let did = trim_space raw_id
      in if did = '''' then (Inl ErrInvalidInput, s)
         else case s_email_deliveries s did of
           None \<Rightarrow> (Inl ErrNotFound, s)
         | Some d \<Rightarrow>
             (Inr (), s\<lparr>s_email_deliveries := (s_email_deliveries s)(did \<mapsto>
                d\<lparr>dlv_status := InvitationEmailSent, dlv_locked_by := '''',
                  dlv_locked_until := None, dlv_last_error := '''',
                  dlv_sent_at := Some (e_now e), dlv_updated_at := e_now e\<rparr>)\<rparr>))"

definition mark_invitation_email_failed ::
  "env \<Rightarrow> string \<Rightarrow> string \<Rightarrow> gtime option \<Rightarrow> bool \<Rightarrow> store \<Rightarrow> unit result \<times> store" where
  "mark_invitation_email_failed e raw_id last_error next_attempt terminal s =
     (let did = trim_space raw_id
      in if did = '''' then (Inl ErrInvalidInput, s)
         else case s_email_deliveries s did of
           None \<Rightarrow> (Inl ErrNotFound, s)
         | Some d \<Rightarrow>
             (let d1 = d\<lparr>dlv_status := (if terminal then InvitationEmailFailed
                                         else InvitationEmailPending),
                         dlv_locked_by := '''', dlv_locked_until := None,
                         dlv_last_error := trim_space last_error\<rparr>;
                  d2 = (case next_attempt of None \<Rightarrow> d1
                        | Some t \<Rightarrow> d1\<lparr>dlv_next_attempt_at := t\<rparr>);
                  d3 = d2\<lparr>dlv_updated_at := e_now e\<rparr>
              in (Inr (), s\<lparr>s_email_deliveries := (s_email_deliveries s)(did \<mapsto> d3)\<rparr>)))"

section \<open>Provider events\<close>

definition apply_email_event :: "env \<Rightarrow> gtime \<Rightarrow> email_event \<Rightarrow> delivery \<Rightarrow> delivery" where
  "apply_email_event e occurred_at ev d =
     (let d1 = (case eme_type ev of
            EmailEventDelivered \<Rightarrow>
              d\<lparr>dlv_status := InvitationEmailSent, dlv_last_error := '''',
                dlv_locked_by := '''', dlv_locked_until := None,
                dlv_sent_at := Some occurred_at\<rparr>
          | _ \<Rightarrow>
              d\<lparr>dlv_status := InvitationEmailBounced,
                dlv_last_error :=
                  first_non_empty [eme_reason ev, email_event_type_string (eme_type ev)],
                dlv_locked_by := '''', dlv_locked_until := None\<rparr>)
      in d1\<lparr>dlv_updated_at := e_now e\<rparr>)"

definition record_invitation_email_event ::
  "env \<Rightarrow> string list \<Rightarrow> email_event_input \<Rightarrow> store \<Rightarrow> email_event result \<times> store" where
  "record_invitation_email_event e inv_order input s =
     (case normalize_email_event_type (emi_type input) of
        None \<Rightarrow> (Inl ErrInvalidInput, s)
      | Some typ \<Rightarrow>
          (let iid0 = trim_space (emi_invitation_id input);
               did = trim_space (emi_delivery_id input);
               occurred_at = (case emi_occurred_at input of
                                None \<Rightarrow> e_now e
                              | Some t \<Rightarrow> if is_zero_time t then e_now e else t)
           in if iid0 = '''' \<and> did \<noteq> '''' \<and> s_email_deliveries s did = None
              then (Inl ErrNotFound, s)
              else
                (let iid = (if iid0 = '''' \<and> did \<noteq> ''''
                            then (case s_email_deliveries s did of
                                    None \<Rightarrow> '''' | Some d \<Rightarrow> dlv_invitation_id d)
                            else iid0)
                 in if iid = '''' then (Inl ErrInvalidInput, s)
                    else case invitation_by_id inv_order (s_invitations s) iid of
                      None \<Rightarrow> (Inl ErrNotFound, s)
                    | Some i \<Rightarrow>
                        if did \<noteq> '''' \<and>
                           (case s_email_deliveries s did of
                              None \<Rightarrow> True | Some d \<Rightarrow> dlv_invitation_id d \<noteq> iid)
                        then (Inl ErrNotFound, s)
                        else
                          (let ev = \<lparr>eme_id = e_id e ''invmailevt'', eme_invitation_id = iid,
                                 eme_delivery_id = did, eme_provider = trim_space (emi_provider input),
                                 eme_provider_message_id = trim_space (emi_provider_message_id input),
                                 eme_type = typ, eme_reason = trim_space (emi_reason input),
                                 eme_payload = emi_payload input, eme_occurred_at = occurred_at,
                                 eme_created_at = e_now e\<rparr>;
                               s1 = s\<lparr>s_email_events := s_email_events s @ [ev]\<rparr>;
                               s2 = (if did \<noteq> '''' then
                                       (case s_email_deliveries s1 did of
                                          None \<Rightarrow> s1
                                        | Some d \<Rightarrow> s1\<lparr>s_email_deliveries :=
                                            (s_email_deliveries s1)(did \<mapsto>
                                              apply_email_event e occurred_at ev d)\<rparr>)
                                     else s1);
                               s3 = (if suppresses_invitation_email typ
                                     then s2\<lparr>s_email_suppressions :=
                                            record_suppression_locked e (inv_organization_id i)
                                              (inv_email i) ev (s_email_suppressions s2)\<rparr>
                                     else s2)
                           in (Inr ev, s3)))))"

fun email_events_loop ::
  "string list \<Rightarrow> (string \<rightharpoonup> invitation) \<Rightarrow> string \<Rightarrow> string \<Rightarrow> string \<Rightarrow> int
     \<Rightarrow> email_event list \<Rightarrow> email_event list \<Rightarrow> email_event list" where
  "email_events_loop order invs org iid did limit [] acc = acc"
| "email_events_loop order invs org iid did limit (ev # evs) acc =
     (if \<not> int (length acc) < limit then acc
      else case invitation_by_id order invs (eme_invitation_id ev) of
        None \<Rightarrow> email_events_loop order invs org iid did limit evs acc
      | Some i \<Rightarrow>
          if inv_organization_id i \<noteq> org \<or> (iid \<noteq> '''' \<and> eme_invitation_id ev \<noteq> iid) \<or>
             (did \<noteq> '''' \<and> eme_delivery_id ev \<noteq> did)
          then email_events_loop order invs org iid did limit evs acc
          else email_events_loop order invs org iid did limit evs (acc @ [ev]))"

definition list_invitation_email_events ::
  "string list \<Rightarrow> string \<Rightarrow> email_event_list_options \<Rightarrow> store \<Rightarrow> email_event list" where
  "list_invitation_email_events order raw_org opts s =
     email_events_loop order (s_invitations s) (trim_space raw_org)
       (trim_space (elo_invitation_id opts)) (trim_space (elo_delivery_id opts))
       (if elo_limit opts \<le> 0 then 100 else elo_limit opts) (rev (s_email_events s)) []"

lemmas invitation_write_defs = create_invitation_def accept_invitation_def
  grant_invited_role_def invited_user_def
lemmas outbox_write_defs = enqueue_invitation_email_def requeue_invitation_email_def
  claim_due_invitation_emails_def mark_invitation_email_sent_def
  mark_invitation_email_failed_def record_invitation_email_event_def
  delete_email_suppression_def

section \<open>Lemmas\<close>

lemma find_range_vals_unique:
  assumes order: "enumerates order m" and v: "m k = Some v" "P v"
    and unique: "\<And>j w. m j = Some w \<Longrightarrow> P w \<Longrightarrow> w = v"
  shows "List.find P (range_vals m order) = Some v"
proof -
  have mem: "v \<in> set (range_vals m order)"
    using v order by (auto simp: set_range_vals enumerates_def)
  then obtain w where w: "List.find P (range_vals m order) = Some w"
    using v(2) by (cases "List.find P (range_vals m order)") (auto simp: find_None_iff)
  then have "P w" "w \<in> set (range_vals m order)"
    by (auto simp: find_Some_iff)
  then have "w = v" using unique by (auto simp: set_range_vals)
  with w show ?thesis by simp
qed

text \<open>Invitations are filed under their token, and their ids are unique.\<close>

definition invitation_inv :: "store \<Rightarrow> bool" where
  "invitation_inv s \<longleftrightarrow>
     (\<forall>t i. s_invitations s t = Some i \<longrightarrow> inv_token i = t) \<and>
     (\<forall>t i u j. s_invitations s t = Some i \<longrightarrow> s_invitations s u = Some j \<longrightarrow>
        inv_id i = inv_id j \<longrightarrow> t = u)"

lemma invitation_by_id_unique:
  assumes "invitation_inv s" "enumerates order (s_invitations s)"
    and "s_invitations s t = Some i" "inv_id i = iid"
  shows "invitation_by_id order (s_invitations s) iid = Some i"
  unfolding invitation_by_id_def
  by (rule find_range_vals_unique [OF assms(2,3)])
    (use assms in \<open>auto simp: invitation_inv_def\<close>, metis option.inject)

lemma invitation_by_id_Some:
  "invitation_by_id order invs iid = Some i \<Longrightarrow> inv_id i = iid \<and> (\<exists>t. invs t = Some i)"
  by (auto simp: invitation_by_id_def find_Some_iff set_range_vals dest!: nth_mem)

lemma accept_Inr:
  assumes "accept_invitation e raw_token raw_user raw_email name s = (Inr i', s')"
  obtains i where
    "s_invitations s (trim_space raw_token) = Some i" "inv_status i = InvitationPending"
    "e_now e < inv_expires_at i" "inv_email i = to_lower (trim_space raw_email)"
    "s_invitations s' = (s_invitations s)(trim_space raw_token \<mapsto>
       i\<lparr>inv_status := InvitationAccepted, inv_accepted_by_user_id := trim_space raw_user,
         inv_accepted_at := Some (e_now e)\<rparr>)"
    "inv_token i' = ''''" "inv_status i' = InvitationAccepted"
    "s_org_roles s' = (if inv_project_id i = ''''
       then (s_org_roles s)(org_role_key (trim_space raw_user) (inv_organization_id i) \<mapsto> [inv_role i])
       else s_org_roles s)"
    "s_project_roles s' = (if inv_project_id i \<noteq> ''''
       then (s_project_roles s)(project_role_key (trim_space raw_user) (inv_project_id i) \<mapsto> [inv_role i])
       else s_project_roles s)"
  using assms
  by (auto simp: accept_invitation_def grant_invited_role_def Let_def after_def not_le
      split: option.splits if_splits)

lemma accept_Inl:
  assumes "accept_invitation e raw_token raw_user raw_email name s = (Inl err, s')"
  shows "s' = s \<or> (\<exists>t i. s_invitations s t = Some i \<and> inv_expires_at i \<le> e_now e \<and>
    s' = s\<lparr>s_invitations := (s_invitations s)(t \<mapsto> i\<lparr>inv_status := InvitationExpired\<rparr>)\<rparr>)"
  using assms
  by (auto simp: accept_invitation_def Let_def after_def not_less
      split: option.splits if_splits)

lemma suppression_recorded:
  assumes "trim_space org \<noteq> ''''" "trim_space email \<noteq> ''''"
  shows "is_suppressed_locked (record_suppression_locked e org email ev sups) org email"
  using assms
  by (auto simp: record_suppression_locked_def is_suppressed_locked_def suppression_key_def Let_def)

lemma record_event_suppresses:
  assumes "record_invitation_email_event e io inp s = (Inr ev, t)"
    and "suppresses_invitation_email (eme_type ev)"
    and "invitation_by_id io (s_invitations s) (eme_invitation_id ev) = Some i"
  shows "\<exists>sups. s_email_suppressions t =
    record_suppression_locked e (inv_organization_id i) (inv_email i) ev sups"
  using assms
  by (auto simp: record_invitation_email_event_def Let_def split: option.splits if_splits)

end
