(* ===== verification/Artifact_Store.thy ===== *)
theory Artifact_Store
  imports Run_Store
begin

text \<open>
  Workspaces and artifacts of the in-memory store: \<open>AddWorkspace\<close>, \<open>GetWorkspace\<close>,
  \<open>AddArtifact\<close>, \<open>ListArtifacts\<close>, \<open>GetArtifact\<close>, \<open>DeleteExpiredArtifacts\<close> and
  \<open>artifactVisibleAt\<close> of services/control-plane/internal/repository/store.go.
\<close>

definition add_workspace :: "env \<Rightarrow> workspace \<Rightarrow> store \<Rightarrow> workspace result \<times> store" where
  "add_workspace e raw s =
     (let w1 = (if wsp_id raw = '''' then raw\<lparr>wsp_id := e_id e ''ws''\<rparr> else raw);
          w2 = (if is_zero_time (wsp_created_at w1) then w1\<lparr>wsp_created_at := e_now e\<rparr> else w1)
      in (Inr w2, s\<lparr>s_workspaces := (s_workspaces s)(wsp_id w2 \<mapsto> w2)\<rparr>))"

definition get_workspace :: "string \<Rightarrow> store \<Rightarrow> workspace result" where
  "get_workspace wid s =
     (case s_workspaces s wid of None \<Rightarrow> Inl ErrNotFound | Some w \<Rightarrow> Inr w)"

definition artifact_visible_at :: "artifact \<Rightarrow> gtime \<Rightarrow> bool" where
  "artifact_visible_at a now =
     (if art_deleted_at a \<noteq> None then False
      else (case art_expires_at a of None \<Rightarrow> True | Some x \<Rightarrow> after x now))"

text \<open>\<open>complete_artifact\<close> is the block that fills the owner fields from the run and its chat.\<close>

definition complete_artifact :: "store \<Rightarrow> artifact \<Rightarrow> artifact" where
  "complete_artifact s a =
     (if art_run_id a = '''' then a
      else case s_runs s (art_run_id a) of
        None \<Rightarrow> a
      | Some r \<Rightarrow>
          (let a1 = a\<lparr>art_chat_id := first_non_empty [art_chat_id a, run_chat_id r],
                      art_user_id := first_non_empty [art_user_id a, run_user_id r],
                      art_workspace_id := first_non_empty [art_workspace_id a, run_workspace_id r]\<rparr>
           in case s_chats s (run_chat_id r) of
                None \<Rightarrow> a1
              | Some chat \<Rightarrow>
                  a1\<lparr>art_project_id := first_non_empty [art_project_id a1, cht_project_id chat]\<rparr>))"

definition add_artifact :: "env \<Rightarrow> artifact \<Rightarrow> store \<Rightarrow> artifact result \<times> store" where
  "add_artifact e raw s =
     (let a1 = (if art_id raw = '''' then raw\<lparr>art_id := e_id e ''art''\<rparr> else raw);
          a2 = (if is_zero_time (art_created_at a1) then a1\<lparr>art_created_at := e_now e\<rparr> else a1);
          a3 = complete_artifact s a2
      in (Inr a3, s\<lparr>s_artifacts := (s_artifacts s)(art_id a3 \<mapsto> a3)\<rparr>))"

definition artifact_less :: "artifact \<Rightarrow> artifact \<Rightarrow> bool" where
  "artifact_less a b = before (art_created_at a) (art_created_at b)"

interpretation artifacts_by_age: sort_less artifact_less
  by unfold_locales (auto simp: artifact_less_def before_def)

definition list_artifacts :: "env \<Rightarrow> string list \<Rightarrow> string \<Rightarrow> store \<Rightarrow> artifact list" where
  "list_artifacts e order rid s =
     sort_slice artifact_less
       (filter (\<lambda>a. art_run_id a = rid \<and> artifact_visible_at a (e_now e))
          (range_vals (s_artifacts s) order))"

definition get_artifact :: "env \<Rightarrow> string \<Rightarrow> store \<Rightarrow> artifact result" where
  "get_artifact e aid s =
     (case s_artifacts s aid of
        None \<Rightarrow> Inl ErrNotFound
      | Some a \<Rightarrow> if \<not> artifact_visible_at a (e_now e) then Inl ErrNotFound else Inr a)"

fun expire_loop ::
  "gtime \<Rightarrow> int \<Rightarrow> string list \<Rightarrow> artifact list \<Rightarrow> (string \<rightharpoonup> artifact)
     \<Rightarrow> artifact list \<times> (string \<rightharpoonup> artifact)" where
  "expire_loop now limit [] expired m = (expired, m)"
| "expire_loop now limit (aid # ids) expired m =
     (case m aid of
        None \<Rightarrow> expire_loop now limit ids expired m
      | Some a \<Rightarrow>
          if int (length expired) \<ge> limit then (expired, m)
          else if art_deleted_at a \<noteq> None \<or>
                  (case art_expires_at a of None \<Rightarrow> True | Some x \<Rightarrow> after x now)
          then expire_loop now limit ids expired m
          else
            (let a' = a\<lparr>art_deleted_at := Some now\<rparr>
             in expire_loop now limit ids (expired @ [a']) (m(aid \<mapsto> a'))))"

definition delete_expired_artifacts ::
  "env \<Rightarrow> string list \<Rightarrow> gtime \<Rightarrow> int \<Rightarrow> store \<Rightarrow> artifact list result \<times> store" where
  "delete_expired_artifacts e order raw_now raw_limit s =
     (let now = (if is_zero_time raw_now then e_now e else raw_now);
          limit = (if raw_limit \<le> 0 then 100 else raw_limit);
          (expired, m) = expire_loop now limit order [] (s_artifacts s)
      in (Inr (sort_slice artifact_less expired), s\<lparr>s_artifacts := m\<rparr>))"

lemmas artifact_write_defs = add_workspace_def add_artifact_def complete_artifact_def
  delete_expired_artifacts_def

section \<open>Lemmas\<close>

text \<open>Artifacts are filed under their own id.\<close>

definition artifacts_keyed :: "(string \<rightharpoonup> artifact) \<Rightarrow> bool" where
  "artifacts_keyed m \<longleftrightarrow> (\<forall>k a. m k = Some a \<longrightarrow> art_id a = k)"

text \<open>The artifacts an expiry sweep at \<open>now\<close> has to mark.\<close>

definition artifact_due :: "gtime \<Rightarrow> artifact \<Rightarrow> bool" where
  "artifact_due now a \<longleftrightarrow>
     art_deleted_at a = None \<and> (\<exists>x. art_expires_at a = Some x \<and> x \<le> now)"

lemma artifact_due_invisible: "artifact_due now a \<Longrightarrow> \<not> artifact_visible_at a now"
  by (auto simp: artifact_due_def artifact_visible_at_def after_def)

lemma due_iff:
  "artifact_due now a \<longleftrightarrow>
     \<not> (art_deleted_at a \<noteq> None \<or> (case art_expires_at a of None \<Rightarrow> True | Some x \<Rightarrow> after x now))"
  by (auto simp: artifact_due_def after_def not_less split: option.splits)

definition mark_deleted :: "gtime \<Rightarrow> artifact \<Rightarrow> artifact" where
  "mark_deleted now a = a\<lparr>art_deleted_at := Some now\<rparr>"

lemma mark_deleted_not_due [simp]: "\<not> artifact_due now (mark_deleted t a)"
  by (simp add: artifact_due_def mark_deleted_def)

lemma mark_deleted_invisible [simp]: "\<not> artifact_visible_at (mark_deleted t a) now"
  by (simp add: artifact_visible_at_def mark_deleted_def)

text \<open>The body of the loop, by what it does with one key.\<close>

lemma expire_loop_step:
  "expire_loop now limit (aid # ids) expired m =
     (case m aid of
        None \<Rightarrow> expire_loop now limit ids expired m
      | Some a \<Rightarrow>
          if int (length expired) \<ge> limit then (expired, m)
          else if artifact_due now a
          then expire_loop now limit ids (expired @ [mark_deleted now a])
                 (m(aid \<mapsto> mark_deleted now a))
          else expire_loop now limit ids expired m)"
  by (simp add: due_iff mark_deleted_def Let_def split: option.split)

declare expire_loop.simps(2) [simp del]

text \<open>
  What a sweep does: the first \<open>limit\<close> due artifacts, in the order of the loop, are marked
  and returned, and the others are left alone.
\<close>

definition due_key :: "gtime \<Rightarrow> (string \<rightharpoonup> artifact) \<Rightarrow> string \<Rightarrow> bool" where
  "due_key now m k = (case m k of None \<Rightarrow> False | Some a \<Rightarrow> artifact_due now a)"

definition swept :: "gtime \<Rightarrow> int \<Rightarrow> string list \<Rightarrow> (string \<rightharpoonup> artifact) \<Rightarrow> string list" where
  "swept now room ids m = take (nat room) (filter (due_key now m) ids)"

definition mark_keys :: "gtime \<Rightarrow> string set \<Rightarrow> (string \<rightharpoonup> artifact) \<Rightarrow> (string \<rightharpoonup> artifact)" where
  "mark_keys now K m = (\<lambda>k. if k \<in> K then map_option (mark_deleted now) (m k) else m k)"

lemma swept_Cons:
  "swept now room (k # ks) m =
     (if due_key now m k
      then (if room \<le> 0 then [] else k # swept now (room - 1) ks m)
      else swept now room ks m)"
  by (auto simp: swept_def take_Cons' nat_diff_distrib)

lemma swept_upd: "k \<notin> set ks \<Longrightarrow> swept now room ks (m(k \<mapsto> v)) = swept now room ks m"
  unfolding swept_def by (rule arg_cong [of _ _ "take _"], rule filter_cong) (auto simp: due_key_def)

lemma swept_full: "room \<le> 0 \<Longrightarrow> swept now room ks m = []"
  by (simp add: swept_def)

lemma swept_subset: "set (swept now room ks m) \<subseteq> {k \<in> set ks. due_key now m k}"
  by (auto simp: swept_def dest: in_set_takeD)

lemma mark_keys_simps [simp]:
  "mark_keys now {} m = m"
  "m k = Some a \<Longrightarrow> mark_keys now (insert k K) m = mark_keys now K (m(k \<mapsto> mark_deleted now a))"
  by (auto simp: mark_keys_def fun_eq_iff mark_deleted_def)

lemma mark_keys_apply:
  "mark_keys now K m k = (if k \<in> K then map_option (mark_deleted now) (m k) else m k)"
  by (simp add: mark_keys_def)

lemma map_mark_upd:
  "k \<notin> set ks \<Longrightarrow> map (\<lambda>j. mark_deleted now (the ((m(k \<mapsto> v)) j))) ks =
     map (\<lambda>j. mark_deleted now (the (m j))) ks"
  by (rule map_cong) auto

lemma expire_loop_eq:
  assumes "distinct ids"
  shows "expire_loop now limit ids acc m =
    (let ks = swept now (limit - int (length acc)) ids m
     in (acc @ map (\<lambda>k. mark_deleted now (the (m k))) ks, mark_keys now (set ks) m))"
  using assms
proof (induction ids arbitrary: acc m)
  case Nil
  then show ?case by (simp add: swept_def)
next
  case (Cons k ks)
  show ?case
  proof (cases "int (length acc) < limit \<and> due_key now m k")
    case True
    then obtain a where a: "m k = Some a" "artifact_due now a"
      by (auto simp: due_key_def split: option.splits)
    let ?room = "limit - (int (length acc) + 1)"
    have k: "k \<notin> set (swept now ?room ks m)"
      using Cons.prems swept_subset by fastforce
    have "swept now (limit - int (length acc)) (k # ks) m = k # swept now ?room ks m"
      using True by (simp add: swept_Cons algebra_simps)
    moreover have "expire_loop now limit (k # ks) acc m =
        expire_loop now limit ks (acc @ [mark_deleted now a]) (m(k \<mapsto> mark_deleted now a))"
      using True a by (simp add: expire_loop_step)
    ultimately show ?thesis
      using Cons a k by (simp add: Let_def swept_upd map_mark_upd algebra_simps)
  next
    case False
    then show ?thesis
      using Cons
      by (auto simp: expire_loop_step swept_Cons swept_full due_key_def Let_def not_less
          split: option.split)
  qed
qed

lemma set_list_artifacts:
  assumes "enumerates order (s_artifacts s)"
  shows "set (list_artifacts e order rid s) =
    {a \<in> ran (s_artifacts s). art_run_id a = rid \<and> artifact_visible_at a (e_now e)}"
  using assms by (auto simp: list_artifacts_def set_range_vals_enum)

lemma sorted_list_artifacts:
  "sorted_wrt (\<lambda>a b. art_created_at a \<le> art_created_at b) (list_artifacts e order rid s)"
proof -
  have "(\<lambda>a b. \<not> artifact_less b a) = (\<lambda>a b. art_created_at a \<le> art_created_at b)"
    by (simp add: artifact_less_def before_def fun_eq_iff not_less)
  then show ?thesis
    using artifacts_by_age.sorted by (auto simp: list_artifacts_def)
qed

text \<open>A sweep, by the keys it marks.\<close>

definition sweep_keys :: "env \<Rightarrow> string list \<Rightarrow> gtime \<Rightarrow> int \<Rightarrow> store \<Rightarrow> string list" where
  "sweep_keys e order now limit s =
     swept (if is_zero_time now then e_now e else now) (if limit \<le> 0 then 100 else limit)
       order (s_artifacts s)"

lemma delete_expired_eq:
  assumes "distinct order"
  shows "delete_expired_artifacts e order now limit s =
    (let t = (if is_zero_time now then e_now e else now); ks = sweep_keys e order now limit s
     in (Inr (sort_slice artifact_less (map (\<lambda>k. mark_deleted t (the (s_artifacts s k))) ks)),
         s\<lparr>s_artifacts := mark_keys t (set ks) (s_artifacts s)\<rparr>))"
  using assms by (simp add: delete_expired_artifacts_def expire_loop_eq sweep_keys_def Let_def)

lemma mark_keys_keyed: "artifacts_keyed m \<Longrightarrow> artifacts_keyed (mark_keys now K m)"
  by (auto simp: artifacts_keyed_def mark_keys_apply mark_deleted_def split: if_splits)

text \<open>A sweep at \<open>now\<close> hides nothing that a reader at that time or later could see.\<close>

lemma filter_mark_keys:
  assumes "\<forall>k \<in> K. due_key now m k" "now \<le> later" "\<And>a. P a \<Longrightarrow> artifact_visible_at a later"
  shows "filter P (range_vals (mark_keys now K m) ks) = filter P (range_vals m ks)"
proof (induction ks)
  case (Cons k ks)
  show ?case
  proof (cases "k \<in> K")
    case True
    then obtain a where a: "m k = Some a" "artifact_due now a"
      using assms(1) by (auto simp: due_key_def split: option.splits)
    then have "\<not> artifact_visible_at a later"
      using assms(2) by (auto simp: artifact_due_def artifact_visible_at_def after_def)
    then have "\<not> P a" "\<not> P (mark_deleted now a)" using assms(3) mark_deleted_invisible by blast+
    with True a Cons show ?thesis by (simp add: mark_keys_apply)
  next
    case False
    with Cons show ?thesis by (auto simp: mark_keys_apply split: option.split)
  qed
qed simp

lemma sweep_keys_due:
  "k \<in> set (sweep_keys e order now limit s) \<Longrightarrow>
   due_key (if is_zero_time now then e_now e else now) (s_artifacts s) k"
  using swept_subset by (fastforce simp: sweep_keys_def)

lemma sweep_keys_all:
  assumes "int (length (sweep_keys e order now limit s)) < (if limit \<le> 0 then 100 else limit)"
    and "k \<in> set order" "due_key (if is_zero_time now then e_now e else now) (s_artifacts s) k"
  shows "k \<in> set (sweep_keys e order now limit s)"
  using assms by (auto simp: sweep_keys_def swept_def split: if_splits)

lemma length_sweep_keys:
  "int (length (sweep_keys e order now limit s)) \<le> (if limit \<le> 0 then 100 else limit)"
  by (auto simp: sweep_keys_def swept_def)

end
