(* ===== verification/Skill_Config.thy ===== *)
theory Skill_Config
  imports Protocol
begin

text \<open>
  The runtime configuration of HTTP skills and the checks on a skill's input
  (packages/common/skillmanifest/http_config.go). What the checks take from \<open>net/url\<close>,
  \<open>encoding/json\<close> and the JSON schema package comes in a \<open>manifest_lib\<close>: \<open>url.Parse\<close> with
  the parts of its result that are read, the text of the error of \<open>ValidateJSONSchema\<close>
  (\<open>None\<close> is no error), \<open>json.Compact\<close>, and the JSON text of a configuration.
\<close>

record url_parts =
  url_scheme :: string
  url_host :: string
  url_user :: bool

record http_retry_config =
  rtc_max_attempts :: int
  rtc_base_delay_ms :: int
  rtc_max_delay_ms :: int

record http_config =
  hcf_type :: string
  hcf_method :: string
  hcf_url :: string
  hcf_timeout_seconds :: int
  hcf_auth_type :: string
  hcf_retry :: http_retry_config
  hcf_requests_per_minute :: int

record manifest_lib =
  lib_parse_url :: "string \<Rightarrow> url_parts option"
  lib_schema_error :: "string \<Rightarrow> string option"
  lib_compact :: "string \<Rightarrow> string option"
  lib_config_json :: "http_config \<Rightarrow> string"

definition DefaultHTTPSkillTimeoutSeconds :: int where "DefaultHTTPSkillTimeoutSeconds = 15"
definition MaxHTTPSkillTimeoutSeconds :: int where "MaxHTTPSkillTimeoutSeconds = 60"
definition DefaultHTTPRetryBaseDelayMS :: int where "DefaultHTTPRetryBaseDelayMS = 200"
definition DefaultHTTPRetryMaxDelayMS :: int where "DefaultHTTPRetryMaxDelayMS = 2000"
definition MaxHTTPRetryAttempts :: int where "MaxHTTPRetryAttempts = 5"
definition MaxHTTPRetryDelayMS :: int where "MaxHTTPRetryDelayMS = 10000"
definition MaxHTTPRateLimitPerMinute :: int where "MaxHTTPRateLimitPerMinute = 600"

lemmas http_limits = DefaultHTTPSkillTimeoutSeconds_def MaxHTTPSkillTimeoutSeconds_def
  DefaultHTTPRetryBaseDelayMS_def DefaultHTTPRetryMaxDelayMS_def MaxHTTPRetryAttempts_def
  MaxHTTPRetryDelayMS_def MaxHTTPRateLimitPerMinute_def

definition normalize_http_retry_config :: "http_retry_config \<Rightarrow> http_retry_config" where
  "normalize_http_retry_config cfg =
     (let c1 = (if rtc_max_attempts cfg \<le> 0 then cfg\<lparr>rtc_max_attempts := 1\<rparr> else cfg)
      in if rtc_max_attempts c1 > 1 then
           (let c2 = (if rtc_base_delay_ms c1 \<le> 0
                      then c1\<lparr>rtc_base_delay_ms := DefaultHTTPRetryBaseDelayMS\<rparr> else c1)
            in if rtc_max_delay_ms c2 \<le> 0
               then c2\<lparr>rtc_max_delay_ms := DefaultHTTPRetryMaxDelayMS\<rparr> else c2)
         else c1)"

definition validate_http_config :: "manifest_lib \<Rightarrow> http_config \<Rightarrow> string option" where
  "validate_http_config lib c =
     (if hcf_type c \<noteq> '''' \<and> hcf_type c \<noteq> ''http'' then Some ''runtime_config.type must be http''
      else if hcf_method c \<noteq> ''GET'' \<and> hcf_method c \<noteq> ''POST''
      then Some ''method must be GET or POST''
      else case lib_parse_url lib (hcf_url c) of
        None \<Rightarrow> Some ''valid url is required''
      | Some parsed \<Rightarrow>
          if url_scheme parsed = '''' \<or> url_host parsed = '''' then Some ''valid url is required''
          else if url_scheme parsed \<noteq> ''https'' then Some ''url scheme must be https''
          else if url_user parsed then Some ''url must not include credentials''
          else if hcf_timeout_seconds c \<le> 0 \<or> hcf_timeout_seconds c > MaxHTTPSkillTimeoutSeconds
          then Some ''timeout_seconds must be between 1 and 60''
          else if hcf_auth_type c \<noteq> ''none'' \<and> hcf_auth_type c \<noteq> ''bearer''
          then Some ''auth_type must be none or bearer''
          else if rtc_max_attempts (hcf_retry c) \<le> 0 \<or>
                  rtc_max_attempts (hcf_retry c) > MaxHTTPRetryAttempts
          then Some ''retry.max_attempts must be between 1 and 5''
          else if rtc_base_delay_ms (hcf_retry c) < 0 \<or>
                  rtc_base_delay_ms (hcf_retry c) > MaxHTTPRetryDelayMS
          then Some ''retry.base_delay_ms must be between 0 and 10000''
          else if rtc_max_delay_ms (hcf_retry c) < 0 \<or>
                  rtc_max_delay_ms (hcf_retry c) > MaxHTTPRetryDelayMS
          then Some ''retry.max_delay_ms must be between 0 and 10000''
          else if rtc_max_delay_ms (hcf_retry c) > 0 \<and>
                  rtc_base_delay_ms (hcf_retry c) > rtc_max_delay_ms (hcf_retry c)
          then Some ''retry.base_delay_ms must be less than or equal to retry.max_delay_ms''
          else if hcf_requests_per_minute c < 0 \<or>
                  hcf_requests_per_minute c > MaxHTTPRateLimitPerMinute
          then Some ''rate_limit.requests_per_minute must be between 0 and 600''
          else None)"

text \<open>The defaults that both \<open>NewHTTPSkillRuntimeConfig\<close> and \<open>ParseHTTPSkillRuntimeConfig\<close> set.\<close>

definition default_http_config :: "http_config \<Rightarrow> http_config" where
  "default_http_config cfg =
     (let c1 = (if hcf_method cfg = '''' then cfg\<lparr>hcf_method := ''POST''\<rparr> else cfg);
          c2 = (if hcf_timeout_seconds c1 \<le> 0
                then c1\<lparr>hcf_timeout_seconds := DefaultHTTPSkillTimeoutSeconds\<rparr> else c1);
          c3 = (if hcf_auth_type c2 = '''' then c2\<lparr>hcf_auth_type := ''none''\<rparr> else c2)
      in c3\<lparr>hcf_retry := normalize_http_retry_config (hcf_retry c3)\<rparr>)"

definition new_http_config :: "manifest_lib \<Rightarrow> http_skill_input \<Rightarrow> string + http_config" where
  "new_http_config lib input =
     (let cfg = default_http_config
            \<lparr>hcf_type = ''http'', hcf_method = to_upper (trim_space (hsi_method input)),
             hcf_url = trim_space (hsi_url input),
             hcf_timeout_seconds = hsi_timeout_seconds input,
             hcf_auth_type = trim_space (hsi_auth_type input),
             hcf_retry = \<lparr>rtc_max_attempts = hsi_retry_max_attempts input,
               rtc_base_delay_ms = 0, rtc_max_delay_ms = 0\<rparr>,
             hcf_requests_per_minute = hsi_rate_limit_per_minute input\<rparr>
      in case validate_http_config lib cfg of Some err \<Rightarrow> Inl err | None \<Rightarrow> Inr cfg)"

text \<open>\<open>decoded\<close> is what \<open>json.Unmarshal\<close> makes of the text, or the text of its error.\<close>

definition parse_http_config ::
  "manifest_lib \<Rightarrow> (string \<Rightarrow> string + http_config) \<Rightarrow> string \<Rightarrow> string + http_config" where
  "parse_http_config lib decoded raw =
     (if trim_space raw = '''' then Inl ''runtime_config is required''
      else case decoded raw of
        Inl err \<Rightarrow> Inl (''invalid runtime_config json: '' @ err)
      | Inr c \<Rightarrow>
          (let cfg = default_http_config
                 (c\<lparr>hcf_method := to_upper (trim_space (hcf_method c)),
                    hcf_url := trim_space (hcf_url c),
                    hcf_auth_type := trim_space (hcf_auth_type c)\<rparr>)
           in case validate_http_config lib cfg of Some err \<Rightarrow> Inl err | None \<Rightarrow> Inr cfg))"

text \<open>The \<open>firstNonEmpty\<close> of this package compares the trimmed values.\<close>

fun first_non_blank :: "string list \<Rightarrow> string" where
  "first_non_blank [] = ''''"
| "first_non_blank (v # vs) = (if trim_space v \<noteq> '''' then v else first_non_blank vs)"

definition open_schema :: string where
  \<open>open_schema = ''{"type":"object","additionalProperties":true}''\<close>

definition validate_http_skill_input :: "manifest_lib \<Rightarrow> http_skill_input \<Rightarrow> string option" where
  "validate_http_skill_input lib input =
     (if trim_space (hsi_name input) = '''' then Some ''name is required''
      else case new_http_config lib input of
        Inl err \<Rightarrow> Some err
      | Inr _ \<Rightarrow>
          (case lib_schema_error lib (first_non_blank [hsi_input_schema input, open_schema]) of
             Some err \<Rightarrow> Some (''input_schema '' @ err)
           | None \<Rightarrow>
               (case (if trim_space (hsi_output_schema input) \<noteq> ''''
                      then lib_schema_error lib (hsi_output_schema input) else None) of
                  Some err \<Rightarrow> Some (''output_schema '' @ err)
                | None \<Rightarrow>
                    if trim_space (hsi_bearer_token input) \<noteq> '''' \<and>
                       trim_space (hsi_bearer_token_secret_ref input) \<noteq> ''''
                    then Some ''bearer_token and bearer_token_secret_ref cannot both be set''
                    else None)))"

text \<open>The text of \<open>NormalizeJSON\<close>'s result: empty when \<open>json.Compact\<close> fails.\<close>

definition normalize_json :: "manifest_lib \<Rightarrow> string \<Rightarrow> string" where
  "normalize_json lib raw =
     (if trim_space raw = '''' then ''''
      else (case lib_compact lib (trim_space raw) of None \<Rightarrow> '''' | Some out \<Rightarrow> out))"

section \<open>Lemmas\<close>

text \<open>The limits a valid configuration keeps.\<close>

definition http_config_bounds :: "http_config \<Rightarrow> bool" where
  "http_config_bounds c \<longleftrightarrow>
     (hcf_method c = ''GET'' \<or> hcf_method c = ''POST'') \<and>
     (hcf_auth_type c = ''none'' \<or> hcf_auth_type c = ''bearer'') \<and>
     0 < hcf_timeout_seconds c \<and> hcf_timeout_seconds c \<le> 60 \<and>
     0 < rtc_max_attempts (hcf_retry c) \<and> rtc_max_attempts (hcf_retry c) \<le> 5 \<and>
     0 \<le> rtc_base_delay_ms (hcf_retry c) \<and> rtc_base_delay_ms (hcf_retry c) \<le> 10000 \<and>
     0 \<le> rtc_max_delay_ms (hcf_retry c) \<and> rtc_max_delay_ms (hcf_retry c) \<le> 10000 \<and>
     0 \<le> hcf_requests_per_minute c \<and> hcf_requests_per_minute c \<le> 600"

definition https_target :: "manifest_lib \<Rightarrow> http_config \<Rightarrow> bool" where
  "https_target lib c \<longleftrightarrow>
     (\<exists>p. lib_parse_url lib (hcf_url c) = Some p \<and> url_scheme p = ''https'' \<and>
        url_host p \<noteq> '''' \<and> \<not> url_user p)"

lemma validate_http_config_None:
  "validate_http_config lib c = None \<Longrightarrow> http_config_bounds c \<and> https_target lib c"
  by (auto simp: validate_http_config_def http_config_bounds_def https_target_def http_limits
      not_less not_le split: if_splits option.splits)

lemma normalize_http_retry_idem [simp]:
  "normalize_http_retry_config (normalize_http_retry_config c) = normalize_http_retry_config c"
  by (cases c) (auto simp: normalize_http_retry_config_def Let_def http_limits)

lemma normalize_http_retry_attempts: "0 < rtc_max_attempts (normalize_http_retry_config c)"
  by (auto simp: normalize_http_retry_config_def Let_def)

lemma default_http_config_idem [simp]:
  "default_http_config (default_http_config c) = default_http_config c"
  by (cases c) (auto simp: default_http_config_def Let_def http_limits)

lemma new_http_config_Inr:
  "new_http_config lib input = Inr c \<Longrightarrow>
     validate_http_config lib c = None \<and> default_http_config c = c"
  by (auto simp: new_http_config_def Let_def split: option.splits)

end
