(* ===== verification/Skill_Store.thy ===== *)
theory Skill_Store
  imports Store_State Skill_Config
begin

text \<open>
  Skills, skill invocations and audit events of the in-memory store:
  \<open>ListSkillsForUser\<close>, \<open>ListRuntimeSkillsForUser\<close>, \<open>CreateHTTPSkill\<close>, \<open>CreateMCPSkill\<close>,
  \<open>UpdateHTTPSkill\<close>, \<open>SetSkillEnabled\<close>, \<open>RecordSkillInvocation\<close>,
  \<open>ListSkillInvocations\<close>, \<open>AddAuditEvent\<close> and \<open>ListAuditEvents\<close> of
  services/control-plane/internal/repository/store.go, with their helpers.
\<close>

section \<open>Listing skills\<close>

definition skill_less :: "skill \<Rightarrow> skill \<Rightarrow> bool" where
  "skill_less a b = (skl_id a < skl_id b)"

interpretation skills_by_id: sort_less skill_less
  by unfold_locales (auto simp: skill_less_def)

text \<open>\<open>redactSkill\<close> returns its argument.\<close>

definition redact_skill :: "skill \<Rightarrow> skill" where
  "redact_skill s = s"

fun granted_skills :: "(string \<rightharpoonup> skill) \<Rightarrow> string list \<Rightarrow> skill list" where
  "granted_skills m [] = []"
| "granted_skills m (i # ids) =
     (case m i of
        None \<Rightarrow> granted_skills m ids
      | Some k \<Rightarrow>
          if skl_status k = SkillStatusArchived then granted_skills m ids
          else if skl_scope k = SkillScopeSystem \<and> \<not> skl_enabled k then granted_skills m ids
          else redact_skill k # granted_skills m ids)"

definition list_skills_for_user :: "string \<Rightarrow> string \<Rightarrow> store \<Rightarrow> skill list" where
  "list_skills_for_user user project s =
     (if user = '''' \<or> project = '''' then []
      else sort_slice skill_less
             (granted_skills (s_skills s)
                (map_get [] (s_skill_grants s) (skill_grant_key user project))))"

definition runtime_skill_of :: "store \<Rightarrow> skill \<Rightarrow> runtime_skill" where
  "runtime_skill_of s k =
     (let materials = map_get Map.empty (s_skill_secrets s) (skl_id k)
      in \<lparr>rsk_skill = k,
          rsk_secrets = (\<lambda>key. case materials key of
             None \<Rightarrow> None
           | Some m \<Rightarrow> if sec_encrypted_value m \<noteq> '''' then Some (sec_encrypted_value m) else None),
          rsk_secret_materials = materials\<rparr>)"

definition list_runtime_skills_for_user :: "string \<Rightarrow> string \<Rightarrow> store \<Rightarrow> runtime_skill list" where
  "list_runtime_skills_for_user user project s =
     map (runtime_skill_of s)
       (filter (\<lambda>k. \<not> (skl_status k \<noteq> SkillStatusEnabled \<or> \<not> skl_enabled k))
          (list_skills_for_user user project s))"

section \<open>Writing skills\<close>

definition zero_secret :: runtime_secret where
  "zero_secret = \<lparr>sec_encrypted_value = '''', sec_secret_ref = ''''\<rparr>"

text \<open>\<open>bearer_secret\<close> is the choice both builders make between the two token fields.\<close>

definition bearer_secret :: "string \<Rightarrow> string \<Rightarrow> runtime_secret" where
  "bearer_secret token ref =
     (let secret = zero_secret\<lparr>sec_encrypted_value := trim_space token\<rparr>
      in if sec_encrypted_value secret = '''' then secret\<lparr>sec_secret_ref := trim_space ref\<rparr>
         else secret)"

definition has_secret :: "runtime_secret \<Rightarrow> bool" where
  "has_secret m \<longleftrightarrow> sec_encrypted_value m \<noteq> '''' \<or> sec_secret_ref m \<noteq> ''''"

definition http_skill_annotations :: string where
  \<open>http_skill_annotations =
     ''{"readOnlyHint":false,"destructiveHint":false,"idempotentHint":false,"openWorldHint":true}''\<close>

definition http_skill_from_input ::
  "manifest_lib \<Rightarrow> string \<Rightarrow> string \<Rightarrow> string \<Rightarrow> string \<Rightarrow> string \<Rightarrow> http_skill_input
     \<Rightarrow> string + (skill \<times> runtime_secret \<times> bool)" where
  "http_skill_from_input lib skill_id version_id user project version input =
     (case validate_http_skill_input lib input of
        Some err \<Rightarrow> Inl err
      | None \<Rightarrow>
          (case new_http_config lib input of
             Inl err \<Rightarrow> Inl err
           | Inr config \<Rightarrow>
               (let trimmed = trim_space (hsi_input_schema input);
                    input_schema = normalize_json lib
                      (if trimmed = '''' then open_schema else trimmed);
                    output_schema = normalize_json lib (hsi_output_schema input);
                    described = trim_space (hsi_description input);
                    description = (if described = '''' then ''User-provided HTTP skill.''
                                   else described);
                    k = \<lparr>skl_id = skill_id, skl_slug = skill_id, skl_scope = SkillScopeUser,
                         skl_kind = SkillKindHTTP, skl_owner_user_id = user,
                         skl_project_id = project, skl_status = SkillStatusEnabled,
                         skl_current_version_id = version_id,
                         skl_name = trim_space (hsi_name input), skl_version = version,
                         skl_description = description, skl_risk = SkillRiskMedium,
                         skl_requires_auth = False, skl_input_schema = input_schema,
                         skl_output_schema = output_schema,
                         skl_annotations = http_skill_annotations,
                         skl_runtime_config = lib_config_json lib config, skl_enabled = True\<rparr>;
                    secret = bearer_secret (hsi_bearer_token input)
                               (hsi_bearer_token_secret_ref input)
                in Inr (k, secret, has_secret secret))))"

text \<open>\<open>install_skill\<close> is the locked part the two create operations share.\<close>

definition install_skill ::
  "string \<Rightarrow> string \<Rightarrow> skill \<Rightarrow> runtime_secret \<Rightarrow> bool \<Rightarrow> store \<Rightarrow> store" where
  "install_skill user project k secret with_secret s =
     (let s1 = s\<lparr>s_skills := (s_skills s)(skl_id k \<mapsto> k)\<rparr>;
          s2 = (if with_secret
                then s1\<lparr>s_skill_secrets :=
                       (s_skill_secrets s1)(skl_id k \<mapsto> [''bearer_token'' \<mapsto> secret])\<rparr>
                else s1);
          key = skill_grant_key user project
      in s2\<lparr>s_skill_grants := (s_skill_grants s2)(key \<mapsto>
              append_unique (map_get [] (s_skill_grants s2) key) (skl_id k))\<rparr>)"

definition create_http_skill ::
  "manifest_lib \<Rightarrow> env \<Rightarrow> string \<Rightarrow> string \<Rightarrow> http_skill_input \<Rightarrow> store \<Rightarrow> skill result \<times> store" where
  "create_http_skill lib e user project input s =
     (case http_skill_from_input lib (e_id e ''skill'') (e_id e ''skv'') user project ''1.0.0''
             input of
        Inl err \<Rightarrow> (Inl (ErrMessage err), s)
      | Inr (k, secret, with_secret) \<Rightarrow>
          (let k' = k\<lparr>skl_enabled := True, skl_status := SkillStatusEnabled\<rparr>
           in (Inr (redact_skill k'), install_skill user project k' secret with_secret s)))"

text \<open>\<open>built\<close> is the result of \<open>skillmanifest.BuildMCPSkillInput\<close> on the operation's input.\<close>

definition create_mcp_skill ::
  "env \<Rightarrow> string \<Rightarrow> string \<Rightarrow> string + (skill \<times> runtime_secret \<times> bool) \<Rightarrow> store
     \<Rightarrow> skill result \<times> store" where
  "create_mcp_skill e user project built s =
     (case built of
        Inl err \<Rightarrow> (Inl (ErrMessage err), s)
      | Inr (k, secret, with_secret) \<Rightarrow>
          (let k' = k\<lparr>skl_id := e_id e ''skill'', skl_slug := e_id e ''skill'',
                 skl_scope := SkillScopeUser, skl_kind := SkillKindMCP,
                 skl_owner_user_id := user, skl_project_id := project,
                 skl_status := SkillStatusEnabled, skl_current_version_id := e_id e ''skv'',
                 skl_enabled := True\<rparr>
           in (Inr (redact_skill k'), install_skill user project k' secret with_secret s)))"

definition update_http_skill ::
  "manifest_lib \<Rightarrow> env \<Rightarrow> string \<Rightarrow> string \<Rightarrow> http_skill_input \<Rightarrow> store \<Rightarrow> skill result \<times> store" where
  "update_http_skill lib e user skill_id input s =
     (case s_skills s skill_id of
        None \<Rightarrow> (Inl ErrNotFound, s)
      | Some current \<Rightarrow>
          if skl_owner_user_id current \<noteq> user \<or> skl_kind current \<noteq> SkillKindHTTP
          then (Inl ErrNotFound, s)
          else case http_skill_from_input lib skill_id (e_id e ''skv'') user
                      (skl_project_id current) (skl_version current) input of
            Inl err \<Rightarrow> (Inl (ErrMessage err), s)
          | Inr (k, secret, with_secret) \<Rightarrow>
              (let k' = k\<lparr>skl_enabled := skl_enabled current, skl_status := skl_status current\<rparr>;
                   s1 = s\<lparr>s_skills := (s_skills s)(skill_id \<mapsto> k')\<rparr>;
                   s2 = (if with_secret
                         then s1\<lparr>s_skill_secrets := (s_skill_secrets s1)(skill_id \<mapsto>
                                (map_get Map.empty (s_skill_secrets s1) skill_id)
                                  (''bearer_token'' \<mapsto> secret))\<rparr>
                         else s1)
               in (Inr (redact_skill k'), s2)))"

definition set_skill_enabled ::
  "string \<Rightarrow> string \<Rightarrow> bool \<Rightarrow> store \<Rightarrow> skill result \<times> store" where
  "set_skill_enabled user skill_id enabled s =
     (case s_skills s skill_id of
        None \<Rightarrow> (Inl ErrNotFound, s)
      | Some k \<Rightarrow>
          if skl_owner_user_id k \<noteq> user \<or> skl_scope k \<noteq> SkillScopeUser
          then (Inl ErrNotFound, s)
          else
            (let k' = k\<lparr>skl_enabled := enabled,
                   skl_status := (if enabled then SkillStatusEnabled else SkillStatusDisabled)\<rparr>
             in (Inr (redact_skill k'), s\<lparr>s_skills := (s_skills s)(skill_id \<mapsto> k')\<rparr>)))"

section \<open>Invocations\<close>

definition skill_invocation_from_input :: "env \<Rightarrow> invocation_input \<Rightarrow> invocation_record" where
  "skill_invocation_from_input e i =
     (let event_time = (if is_zero_time (ivn_event_created_at i) then e_now e
                        else ivn_event_created_at i);
          status = (case ivn_status i of None \<Rightarrow> SkillInvocationStarted | Some st \<Rightarrow> st);
          decision = (case ivn_decision i of None \<Rightarrow> AuditDecisionAllow | Some d \<Rightarrow> d)
      in \<lparr>ivk_id = e_id e ''skillinv'', ivk_run_id = ivn_run_id i, ivk_chat_id = ivn_chat_id i,
          ivk_user_id = ivn_user_id i, ivk_project_id = ivn_project_id i,
          ivk_skill_id = ivn_skill_id i, ivk_tool_name = ivn_tool_name i, ivk_status = status,
          ivk_decision = decision, ivk_reason = ivn_reason i,
          ivk_request_id = ivn_request_id i, ivk_trace_id = ivn_trace_id i,
          ivk_started_event_id = ivn_started_event_id i,
          ivk_started_event_seq = ivn_started_event_seq i,
          ivk_finished_event_id = ivn_finished_event_id i,
          ivk_finished_event_seq = ivn_finished_event_seq i,
          ivk_duration_ms = ivn_duration_ms i, ivk_metadata = redact_map (ivn_metadata i),
          ivk_started_at = event_time,
          ivk_finished_at =
            (if status \<noteq> SkillInvocationStarted then Some event_time else None),
          ivk_updated_at = e_now e\<rparr>)"

text \<open>
  The entries of \<open>next\<close> replace those of \<open>base\<close> with the same key.
\<close>

definition merge_metadata :: "metadata \<Rightarrow> metadata \<Rightarrow> metadata" where
  "merge_metadata base next =
     redact_map (filter (\<lambda>(k, v). k \<notin> set (map fst next)) base @ next)"

definition max_int64 :: "int \<Rightarrow> int \<Rightarrow> int" where
  "max_int64 a b = (if a > b then a else b)"

definition invocation_open_for :: "invocation_record \<Rightarrow> invocation_record \<Rightarrow> bool" where
  "invocation_open_for r cur \<longleftrightarrow>
     \<not> (ivk_run_id cur \<noteq> ivk_run_id r \<or> ivk_skill_id cur \<noteq> ivk_skill_id r \<or>
        ivk_finished_at cur \<noteq> None) \<and>
     \<not> (ivk_tool_name r \<noteq> '''' \<and> ivk_tool_name cur \<noteq> '''' \<and> ivk_tool_name r \<noteq> ivk_tool_name cur)"

definition finish_invocation :: "invocation_record \<Rightarrow> invocation_record \<Rightarrow> invocation_record" where
  "finish_invocation r cur =
     cur\<lparr>ivk_status := ivk_status r, ivk_decision := ivk_decision r, ivk_reason := ivk_reason r,
         ivk_finished_event_id := ivk_finished_event_id r,
         ivk_finished_event_seq := ivk_finished_event_seq r,
         ivk_duration_ms :=
           (case ivk_finished_at r of
              Some t \<Rightarrow> if ivk_duration_ms r = 0
                then max_int64 0 (milliseconds (time_sub t (ivk_started_at cur)))
                else ivk_duration_ms r
            | None \<Rightarrow> ivk_duration_ms r),
         ivk_finished_at := ivk_finished_at r, ivk_updated_at := ivk_updated_at r,
         ivk_metadata := merge_metadata (ivk_metadata cur) (ivk_metadata r)\<rparr>"

text \<open>The loop runs from the newest invocation back; \<open>finish_newest\<close> takes the list reversed.\<close>

fun finish_newest ::
  "invocation_record \<Rightarrow> invocation_record list \<Rightarrow> (invocation_record \<times> invocation_record list) option" where
  "finish_newest r [] = None"
| "finish_newest r (cur # older) =
     (if invocation_open_for r cur
      then Some (finish_invocation r cur, finish_invocation r cur # older)
      else (case finish_newest r older of
              None \<Rightarrow> None | Some (fin, older') \<Rightarrow> Some (fin, cur # older')))"

definition record_skill_invocation ::
  "env \<Rightarrow> invocation_input \<Rightarrow> store \<Rightarrow> invocation_record result \<times> store" where
  "record_skill_invocation e input s =
     (let r = skill_invocation_from_input e input;
          appended = (Inr r, s\<lparr>s_skill_invocations := s_skill_invocations s @ [r]\<rparr>)
      in if ivk_status r = SkillInvocationStarted then appended
         else case finish_newest r (rev (s_skill_invocations s)) of
                None \<Rightarrow> appended
              | Some (fin, reversed) \<Rightarrow>
                  (Inr fin, s\<lparr>s_skill_invocations := rev reversed\<rparr>))"

definition invocation_status_string :: "invocation_status \<Rightarrow> string" where
  "invocation_status_string st =
     (case st of SkillInvocationStarted \<Rightarrow> ''started'' | SkillInvocationSucceeded \<Rightarrow> ''succeeded''
      | SkillInvocationFailed \<Rightarrow> ''failed'')"

definition skill_invocation_matches :: "invocation_record \<Rightarrow> invocation_list_options \<Rightarrow> bool" where
  "skill_invocation_matches r opts =
     (if ilo_run_id opts \<noteq> '''' \<and> ivk_run_id r \<noteq> ilo_run_id opts then False
      else if ilo_skill_id opts \<noteq> '''' \<and> ivk_skill_id r \<noteq> ilo_skill_id opts then False
      else if ilo_status opts \<noteq> '''' \<and>
              invocation_status_string (ivk_status r) \<noteq> ilo_status opts then False
      else True)"

text \<open>The two listings walk back from the newest entry until \<open>limit\<close> entries are found.\<close>

fun newest_loop :: "('a \<Rightarrow> bool) \<Rightarrow> int \<Rightarrow> 'a list \<Rightarrow> 'a list \<Rightarrow> 'a list" where
  "newest_loop keep limit [] acc = acc"
| "newest_loop keep limit (x # xs) acc =
     (if \<not> int (length acc) < limit then acc
      else if keep x then newest_loop keep limit xs (acc @ [x])
      else newest_loop keep limit xs acc)"

definition list_limit :: "int \<Rightarrow> int" where
  "list_limit n = (if n \<le> 0 \<or> n > 100 then 100 else n)"

definition list_skill_invocations ::
  "actor_context \<Rightarrow> invocation_list_options \<Rightarrow> store \<Rightarrow> invocation_record list" where
  "list_skill_invocations actor opts s =
     newest_loop (\<lambda>r. \<not> (ivk_user_id r \<noteq> act_user_id actor \<or>
                         ivk_project_id r \<noteq> act_project_id actor) \<and>
                      skill_invocation_matches r opts)
       (list_limit (ilo_limit opts)) (rev (s_skill_invocations s)) []"

section \<open>Audit\<close>

definition audit_event_from_input :: "env \<Rightarrow> audit_input \<Rightarrow> audit_event" where
  "audit_event_from_input e i =
     \<lparr>aud_id = e_id e ''audit'', aud_actor_user_id = aui_actor_user_id i,
      aud_actor_project_id = aui_actor_project_id i, aud_actor_org_id = aui_actor_org_id i,
      aud_action = aui_action i, aud_resource_type = aui_resource_type i,
      aud_resource_id = aui_resource_id i,
      aud_decision = (case aui_decision i of None \<Rightarrow> AuditDecisionAllow | Some d \<Rightarrow> d),
      aud_reason = aui_reason i, aud_request_id = aui_request_id i,
      aud_trace_id = aui_trace_id i, aud_run_id = aui_run_id i, aud_ip = aui_ip i,
      aud_user_agent = aui_user_agent i, aud_metadata = redact_map (aui_metadata i),
      aud_created_at = e_now e\<rparr>"

definition add_audit_event ::
  "env \<Rightarrow> audit_input \<Rightarrow> store \<Rightarrow> audit_event result \<times> store" where
  "add_audit_event e input s =
     (let ev = audit_event_from_input e input
      in (Inr ev, s\<lparr>s_audit_events := s_audit_events s @ [ev]\<rparr>))"

definition audit_event_matches :: "audit_event \<Rightarrow> audit_list_options \<Rightarrow> bool" where
  "audit_event_matches ev opts =
     (if alo_request_id opts \<noteq> '''' \<and> aud_request_id ev \<noteq> alo_request_id opts then False
      else if alo_run_id opts \<noteq> '''' \<and> aud_run_id ev \<noteq> alo_run_id opts then False
      else if alo_action opts \<noteq> '''' \<and> aud_action ev \<noteq> alo_action opts then False
      else if alo_resource_id opts \<noteq> '''' \<and> aud_resource_id ev \<noteq> alo_resource_id opts then False
      else True)"

definition list_audit_events ::
  "actor_context \<Rightarrow> audit_list_options \<Rightarrow> store \<Rightarrow> audit_event list" where
  "list_audit_events actor opts s =
     newest_loop (\<lambda>ev. \<not> (aud_actor_user_id ev \<noteq> act_user_id actor \<or>
                          aud_actor_project_id ev \<noteq> act_project_id actor) \<and>
                       audit_event_matches ev opts)
       (list_limit (alo_limit opts)) (rev (s_audit_events s)) []"

lemmas skill_write_defs = create_http_skill_def create_mcp_skill_def update_http_skill_def
  set_skill_enabled_def install_skill_def record_skill_invocation_def add_audit_event_def

section \<open>Lemmas\<close>

lemma newest_loop_take:
  "newest_loop keep limit xs acc = acc @ take (nat (limit - int (length acc))) (filter keep xs)"
proof (induction xs arbitrary: acc)
  case (Cons x xs)
  have "nat (limit - int (length acc)) = Suc (nat (limit - int (length (acc @ [x]))))"
    if "int (length acc) < limit"
    using that by simp
  with Cons show ?case by (auto simp del: of_nat_Suc)
qed simp

lemma list_limit_bounds: "0 < list_limit n" "list_limit n \<le> 100"
  by (simp_all add: list_limit_def)

lemma set_granted_skills:
  "set (granted_skills m ids) =
     {k. \<exists>i \<in> set ids. m i = Some k \<and> skl_status k \<noteq> SkillStatusArchived \<and>
          \<not> (skl_scope k = SkillScopeSystem \<and> \<not> skl_enabled k)}"
  by (induction ids) (auto simp: redact_skill_def split: option.splits)

lemma set_list_skills:
  "set (list_skills_for_user user project s) =
     (if user = '''' \<or> project = '''' then {}
      else {k. \<exists>i \<in> set (map_get [] (s_skill_grants s) (skill_grant_key user project)).
               s_skills s i = Some k \<and> skl_status k \<noteq> SkillStatusArchived \<and>
               \<not> (skl_scope k = SkillScopeSystem \<and> \<not> skl_enabled k)})"
  by (simp add: list_skills_for_user_def set_granted_skills)

text \<open>Skills are filed under their own id, and the users' grants have no duplicates.\<close>

definition skills_inv :: "store \<Rightarrow> bool" where
  "skills_inv s \<longleftrightarrow>
     (\<forall>k v. s_skills s k = Some v \<longrightarrow> skl_id v = k) \<and>
     (\<forall>g ids. s_skill_grants s g = Some ids \<longrightarrow> distinct ids)"

lemma http_skill_from_input_Inr:
  assumes "http_skill_from_input lib sid vid user project version input = Inr (k, secret, w)"
  shows "skl_id k = sid" "skl_owner_user_id k = user" "skl_project_id k = project"
    "skl_kind k = SkillKindHTTP" "skl_scope k = SkillScopeUser" "skl_version k = version"
    "skl_status k = SkillStatusEnabled" "skl_enabled k"
    "skl_current_version_id k = vid" "skl_slug k = sid"
  using assms by (auto simp: http_skill_from_input_def Let_def split: option.splits sum.splits)

lemma http_skill_never_both_secrets:
  assumes "http_skill_from_input lib sid vid user project version input = Inr (k, secret, w)"
  shows "sec_encrypted_value secret = '''' \<or> sec_secret_ref secret = ''''"
    and "w \<longleftrightarrow> has_secret secret"
proof -
  have s: "secret = bearer_secret (hsi_bearer_token input) (hsi_bearer_token_secret_ref input)"
    and w: "w = has_secret secret"
    using assms by (auto simp: http_skill_from_input_def Let_def split: option.splits sum.splits)
  show "sec_encrypted_value secret = '''' \<or> sec_secret_ref secret = ''''"
    unfolding s by (simp add: bearer_secret_def zero_secret_def Let_def)
  show "w \<longleftrightarrow> has_secret secret" by (simp add: w)
qed

lemma install_skill_inv:
  "skills_inv s \<Longrightarrow> skills_inv (install_skill user project k secret w s)"
  by (auto simp: skills_inv_def install_skill_def Let_def map_get_def split: option.splits)

lemma skill_ops_inv:
  assumes "skills_inv s"
  shows "skills_inv (snd (create_http_skill lib e user project input s))"
    and "skills_inv (snd (create_mcp_skill e user project built s))"
    and "skills_inv (snd (update_http_skill lib e user skill_id input s))"
    and "skills_inv (snd (set_skill_enabled user skill_id enabled s))"
proof -
  show "skills_inv (snd (create_http_skill lib e user project input s))"
    using assms
    by (auto simp: create_http_skill_def install_skill_inv Let_def split: sum.split prod.split)
  show "skills_inv (snd (create_mcp_skill e user project built s))"
    using assms
    by (auto simp: create_mcp_skill_def install_skill_inv Let_def split: sum.split prod.split)
  show "skills_inv (snd (update_http_skill lib e user skill_id input s))"
    using assms
    by (auto simp: update_http_skill_def skills_inv_def Let_def
        split: sum.split prod.split option.split dest: http_skill_from_input_Inr)
  show "skills_inv (snd (set_skill_enabled user skill_id enabled s))"
    using assms
    by (auto simp: set_skill_enabled_def skills_inv_def Let_def split: option.split)
qed

text \<open>Finishing an invocation touches one record, the newest that is open for it.\<close>

lemma finish_newest_Some:
  "finish_newest r xs = Some (fin, ys) \<Longrightarrow>
   \<exists>new cur old. xs = new @ cur # old \<and> ys = new @ fin # old \<and> invocation_open_for r cur \<and>
     (\<forall>x \<in> set new. \<not> invocation_open_for r x) \<and> fin = finish_invocation r cur"
proof (induction xs arbitrary: ys)
  case (Cons x xs)
  show ?case
  proof (cases "invocation_open_for r x")
    case True
    with Cons.prems show ?thesis by (intro exI [of _ "[]"]) auto
  next
    case False
    with Cons.prems obtain ys' where "finish_newest r xs = Some (fin, ys')" and ys: "ys = x # ys'"
      by (auto split: option.splits)
    with Cons.IH obtain new cur old where
      "xs = new @ cur # old" "ys' = new @ fin # old" "invocation_open_for r cur"
      "\<forall>x \<in> set new. \<not> invocation_open_for r x" "fin = finish_invocation r cur"
      by blast
    with False ys show ?thesis by (intro exI [of _ "x # new"]) auto
  qed
qed simp

lemma finish_newest_None:
  "finish_newest r xs = None \<longleftrightarrow> (\<forall>x \<in> set xs. \<not> invocation_open_for r x)"
  by (induction xs) (auto split: option.splits)

lemma merge_metadata_clean: "map_clean (merge_metadata a b)"
  by (simp add: merge_metadata_def redact_clean)

text \<open>What is stored about invocations and audited actions holds no sensitive value.\<close>

definition records_clean :: "store \<Rightarrow> bool" where
  "records_clean s \<longleftrightarrow>
     (\<forall>r \<in> set (s_skill_invocations s). map_clean (ivk_metadata r)) \<and>
     (\<forall>ev \<in> set (s_audit_events s). map_clean (aud_metadata ev))"

lemma add_audit_event_clean:
  "records_clean s \<Longrightarrow> records_clean (snd (add_audit_event e input s))"
  by (simp add: records_clean_def add_audit_event_def audit_event_from_input_def redact_clean Let_def)

lemma record_skill_invocation_clean:
  assumes "records_clean s"
  shows "records_clean (snd (record_skill_invocation e input s))"
proof -
  let ?r = "skill_invocation_from_input e input"
  have r: "map_clean (ivk_metadata ?r)"
    by (simp add: skill_invocation_from_input_def redact_clean Let_def)
  show ?thesis
  proof (cases "finish_newest ?r (rev (s_skill_invocations s))")
    case None
    with assms r show ?thesis by (auto simp: record_skill_invocation_def records_clean_def Let_def)
  next
    case (Some p)
    then obtain fin ys where p: "finish_newest ?r (rev (s_skill_invocations s)) = Some (fin, ys)"
      by (cases p) auto
    then obtain new cur old where xs: "rev (s_skill_invocations s) = new @ cur # old"
      and ys: "ys = new @ fin # old" and d: "fin = finish_invocation ?r cur"
      using finish_newest_Some by blast
    have "set (s_skill_invocations s) = set new \<union> insert cur (set old)"
      using arg_cong [OF xs, of set] by simp
    with assms r p ys d show ?thesis
      by (auto simp: record_skill_invocation_def records_clean_def finish_invocation_def
          merge_metadata_clean Let_def)
  qed
qed

end
