(* ===== verification/Store_Machine.thy ===== *)
theory Store_Machine
  imports Chat_Store Usage_Store Invitation_Store Artifact_Store Skill_Store
begin

text \<open>
  The in-memory store as one state machine. \<open>store_op\<close> groups a constructor for every
  operation that writes, with the operation's arguments; \<open>op_effect\<close> is the store after
  it. Every operation holds the lock for its whole body, so an execution of the program is
  a sequence of these steps. The state is cut into parts, and \<open>op_frame\<close> says which part
  an operation can write; the invariants of the parts are then carried along any sequence.
\<close>

section \<open>Operations\<close>

datatype chat_op =
    OpCreateChat env string string string
  | OpSetChatArchived env string string bool
  | OpAddUserMessage env string string string
  | OpAddAssistantMessage env string string string

datatype run_op =
    OpClaimRunAttempt env string string string gtime
  | OpUpdateRunStatus env string run_status string
  | OpSaveRunUsage string run_usage
  | OpAddEvent env string run_event_type string goval

datatype subscriber_op =
    OpSubscribe nat string
  | OpSubscribeCancel nat string
  | OpReceive nat

datatype identity_op =
    OpBindUserIdentity env user_identity
  | OpUpsertOIDCSession env oidc_session
  | OpRevokeOIDCSession env string gtime

datatype project_op =
    OpUpsertOrganizationMember env string member_input
  | OpRemoveOrganizationMember env string string
  | OpUpsertProjectMember env string member_input
  | OpRemoveProjectMember env string string
  | OpSetProjectRole string string string
  | OpSetOrganizationRole string string string
  | OpSetProjectOrganization env string string
  | OpSetProjectQuotaPolicy env string quota_policy_input
  | OpSetProjectRuntimePolicy env string string

datatype invitation_op =
    OpCreateInvitation env string string invitation_input
  | OpAcceptInvitation env string string string string

datatype outbox_op =
    OpEnqueueInvitationEmail env "string list" invitation int
  | OpRequeueInvitationEmail env "string list" "string list" string string int
  | OpClaimDueInvitationEmails env "string list" "string list" int string gtime
  | OpMarkInvitationEmailSent env string
  | OpMarkInvitationEmailFailed env string string "gtime option" bool
  | OpRecordInvitationEmailEvent env "string list" email_event_input
  | OpDeleteEmailSuppression "string list" string string

datatype artifact_op =
    OpAddWorkspace env workspace
  | OpAddArtifact env artifact
  | OpDeleteExpiredArtifacts env "string list" gtime int

datatype skill_op =
    OpCreateHTTPSkill manifest_lib env string string http_skill_input
  | OpCreateMCPSkill env string string "string + (skill \<times> runtime_secret \<times> bool)"
  | OpUpdateHTTPSkill manifest_lib env string string http_skill_input
  | OpSetSkillEnabled string string bool

datatype record_op =
    OpRecordSkillInvocation env invocation_input
  | OpAddAuditEvent env audit_input

datatype store_op =
    ChatOp chat_op
  | RunOp run_op
  | SubscriberOp subscriber_op
  | IdentityOp identity_op
  | ProjectOp project_op
  | InvitationOp invitation_op
  | OutboxOp outbox_op
  | ArtifactOp artifact_op
  | SkillOp skill_op
  | RecordOp record_op

fun chat_effect :: "chat_op \<Rightarrow> store \<Rightarrow> store" where
  "chat_effect (OpCreateChat e user project title) s = snd (create_chat e user project title s)"
| "chat_effect (OpSetChatArchived e chat user b) s = snd (set_chat_archived e chat user b s)"
| "chat_effect (OpAddUserMessage e chat user txt) s = snd (add_user_message e chat user txt s)"
| "chat_effect (OpAddAssistantMessage e chat rid txt) s =
     snd (add_assistant_message e chat rid txt s)"

fun run_effect :: "run_op \<Rightarrow> store \<Rightarrow> store" where
  "run_effect (OpClaimRunAttempt e rid attempt worker lease) s =
     snd (claim_run_attempt e rid attempt worker lease s)"
| "run_effect (OpUpdateRunStatus e rid st err) s = snd (update_run_status e rid st err s)"
| "run_effect (OpSaveRunUsage rid u) s = snd (save_run_usage rid u s)"
| "run_effect (OpAddEvent e rid typ txt payload) s = snd (add_event e rid typ txt payload s)"

fun subscriber_effect :: "subscriber_op \<Rightarrow> store \<Rightarrow> store" where
  "subscriber_effect (OpSubscribe ch rid) s = subscribe ch rid s"
| "subscriber_effect (OpSubscribeCancel ch rid) s = subscribe_cancel ch rid s"
| "subscriber_effect (OpReceive ch) s = snd (receive ch s)"

fun identity_effect :: "identity_op \<Rightarrow> store \<Rightarrow> store" where
  "identity_effect (OpBindUserIdentity e i) s = snd (bind_user_identity e i s)"
| "identity_effect (OpUpsertOIDCSession e ses) s = snd (upsert_oidc_session e ses s)"
| "identity_effect (OpRevokeOIDCSession e sid t) s = snd (revoke_oidc_session e sid t s)"

fun project_effect :: "project_op \<Rightarrow> store \<Rightarrow> store" where
  "project_effect (OpUpsertOrganizationMember e org m) s = snd (upsert_organization_member e org m s)"
| "project_effect (OpRemoveOrganizationMember e org user) s =
     snd (remove_organization_member e org user s)"
| "project_effect (OpUpsertProjectMember e p m) s = snd (upsert_project_member e p m s)"
| "project_effect (OpRemoveProjectMember e p user) s = snd (remove_project_member e p user s)"
| "project_effect (OpSetProjectRole user p role) s = set_project_role user p role s"
| "project_effect (OpSetOrganizationRole user org role) s = set_organization_role user org role s"
| "project_effect (OpSetProjectOrganization e p org) s = set_project_organization e p org s"
| "project_effect (OpSetProjectQuotaPolicy e p q) s = snd (set_project_quota_policy e p q s)"
| "project_effect (OpSetProjectRuntimePolicy e p q) s = snd (set_project_runtime_policy e p q s)"

fun invitation_effect :: "invitation_op \<Rightarrow> store \<Rightarrow> store" where
  "invitation_effect (OpCreateInvitation e org by input) s = snd (create_invitation e org by input s)"
| "invitation_effect (OpAcceptInvitation e token user email name) s =
     snd (accept_invitation e token user email name s)"

fun outbox_effect :: "outbox_op \<Rightarrow> store \<Rightarrow> store" where
  "outbox_effect (OpEnqueueInvitationEmail e order i n) s =
     snd (enqueue_invitation_email e order i n s)"
| "outbox_effect (OpRequeueInvitationEmail e io order org iid n) s =
     snd (requeue_invitation_email e io order org iid n s)"
| "outbox_effect (OpClaimDueInvitationEmails e io order n worker t) s =
     snd (claim_due_invitation_emails e io order n worker t s)"
| "outbox_effect (OpMarkInvitationEmailSent e did) s = snd (mark_invitation_email_sent e did s)"
| "outbox_effect (OpMarkInvitationEmailFailed e did err t b) s =
     snd (mark_invitation_email_failed e did err t b s)"
| "outbox_effect (OpRecordInvitationEmailEvent e io ev) s =
     snd (record_invitation_email_event e io ev s)"
| "outbox_effect (OpDeleteEmailSuppression order org sid) s =
     snd (delete_email_suppression order org sid s)"

fun artifact_effect :: "artifact_op \<Rightarrow> store \<Rightarrow> store" where
  "artifact_effect (OpAddWorkspace e w) s = snd (add_workspace e w s)"
| "artifact_effect (OpAddArtifact e a) s = snd (add_artifact e a s)"
| "artifact_effect (OpDeleteExpiredArtifacts e order t n) s =
     snd (delete_expired_artifacts e order t n s)"

fun skill_effect :: "skill_op \<Rightarrow> store \<Rightarrow> store" where
  "skill_effect (OpCreateHTTPSkill lib e user p input) s =
     snd (create_http_skill lib e user p input s)"
| "skill_effect (OpCreateMCPSkill e user p built) s = snd (create_mcp_skill e user p built s)"
| "skill_effect (OpUpdateHTTPSkill lib e user k input) s =
     snd (update_http_skill lib e user k input s)"
| "skill_effect (OpSetSkillEnabled user k b) s = snd (set_skill_enabled user k b s)"

fun record_effect :: "record_op \<Rightarrow> store \<Rightarrow> store" where
  "record_effect (OpRecordSkillInvocation e input) s = snd (record_skill_invocation e input s)"
| "record_effect (OpAddAuditEvent e input) s = snd (add_audit_event e input s)"

fun op_effect :: "store_op \<Rightarrow> store \<Rightarrow> store" where
  "op_effect (ChatOp op) s = chat_effect op s"
| "op_effect (RunOp op) s = run_effect op s"
| "op_effect (SubscriberOp op) s = subscriber_effect op s"
| "op_effect (IdentityOp op) s = identity_effect op s"
| "op_effect (ProjectOp op) s = project_effect op s"
| "op_effect (InvitationOp op) s = invitation_effect op s"
| "op_effect (OutboxOp op) s = outbox_effect op s"
| "op_effect (ArtifactOp op) s = artifact_effect op s"
| "op_effect (SkillOp op) s = skill_effect op s"
| "op_effect (RecordOp op) s = record_effect op s"

fun run_ops :: "store_op list \<Rightarrow> store \<Rightarrow> store" where
  "run_ops [] s = s"
| "run_ops (op # ops) s = run_ops ops (op_effect op s)"

lemma run_ops_append [simp]: "run_ops (xs @ ys) s = run_ops ys (run_ops xs s)"
  by (induction xs arbitrary: s) auto

section \<open>Parts of the state\<close>

datatype store_part =
    RunPart | IdentityPart | InvitationPart | OutboxPart | SkillPart | RecordPart | ArtifactPart

fun same_part :: "store_part \<Rightarrow> store \<Rightarrow> store \<Rightarrow> bool" where
  "same_part RunPart s t \<longleftrightarrow>
     s_chats t = s_chats s \<and> s_messages t = s_messages s \<and> s_runs t = s_runs s \<and>
     s_run_usage t = s_run_usage s \<and> s_events t = s_events s \<and> s_seq t = s_seq s"
| "same_part IdentityPart s t \<longleftrightarrow>
     s_identities t = s_identities s \<and> s_user_identities t = s_user_identities s"
| "same_part InvitationPart s t \<longleftrightarrow> s_invitations t = s_invitations s"
| "same_part OutboxPart s t \<longleftrightarrow> s_email_deliveries t = s_email_deliveries s"
| "same_part SkillPart s t \<longleftrightarrow> s_skills t = s_skills s \<and> s_skill_grants t = s_skill_grants s"
| "same_part RecordPart s t \<longleftrightarrow>
     s_skill_invocations t = s_skill_invocations s \<and> s_audit_events t = s_audit_events s"
| "same_part ArtifactPart s t \<longleftrightarrow> s_artifacts t = s_artifacts s"

lemma same_part_refl [simp]: "same_part p s s"
  by (cases p) auto

text \<open>The tracked part an operation can write; the other fields are in no part.\<close>

fun writes :: "store_op \<Rightarrow> store_part option" where
  "writes (ChatOp _) = Some RunPart"
| "writes (RunOp _) = Some RunPart"
| "writes (SubscriberOp _) = None"
| "writes (IdentityOp _) = Some IdentityPart"
| "writes (ProjectOp _) = None"
| "writes (InvitationOp _) = Some InvitationPart"
| "writes (OutboxOp _) = Some OutboxPart"
| "writes (ArtifactOp _) = Some ArtifactPart"
| "writes (SkillOp _) = Some SkillPart"
| "writes (RecordOp _) = Some RecordPart"

section \<open>Frames\<close>

lemma chat_frames [frame_simps]:
  "p \<noteq> RunPart \<Longrightarrow> same_part p s (snd (create_chat e user project title s))"
  "p \<noteq> RunPart \<Longrightarrow> same_part p s (snd (set_chat_archived e chat user b s))"
  "p \<noteq> RunPart \<Longrightarrow> same_part p s (snd (add_user_message e chat user txt s))"
  "p \<noteq> RunPart \<Longrightarrow> same_part p s (snd (add_assistant_message e chat rid txt s))"
  by (cases p; auto simp: chat_write_defs Let_def split: option.split)+

lemma run_frames [frame_simps]:
  "p \<noteq> RunPart \<Longrightarrow> same_part p s (snd (claim_run_attempt e rid attempt worker lease s))"
  "p \<noteq> RunPart \<Longrightarrow> same_part p s (snd (update_run_status e rid st err s))"
  "p \<noteq> RunPart \<Longrightarrow> same_part p s (snd (save_run_usage rid u s))"
  "p \<noteq> RunPart \<Longrightarrow> same_part p s (snd (add_event e rid typ txt payload s))"
  by (cases p; auto simp: run_write_defs Let_def split: option.split)+

lemma subscriber_frames [frame_simps]:
  "same_part p s (subscribe ch rid s)"
  "same_part p s (subscribe_cancel ch rid s)"
  "same_part p s (snd (receive ch s))"
  by (cases p; auto simp: subscriber_defs split: option.split list.split)+

lemma identity_frames [frame_simps]:
  "p \<noteq> IdentityPart \<Longrightarrow> same_part p s (snd (bind_user_identity e i s))"
  "same_part p s (snd (upsert_oidc_session e ses s))"
  "same_part p s (snd (revoke_oidc_session e sid t s))"
  by (cases p; auto simp: bind_user_identity_def session_write_defs Let_def split: option.split)+

lemma member_frames [frame_simps]:
  "same_part p s (snd (upsert_organization_member e org m s))"
  "same_part p s (snd (remove_organization_member e org user s))"
  "same_part p s (snd (upsert_project_member e prj m s))"
  "same_part p s (snd (remove_project_member e prj user s))"
  "same_part p s (set_project_role user prj role s)"
  "same_part p s (set_organization_role user org role s)"
  "same_part p s (set_project_organization e prj org s)"
  by (cases p; auto simp: member_write_defs Let_def split: list.split)+

lemma policy_frames [frame_simps]:
  "same_part p s (snd (set_project_quota_policy e prj q s))"
  "same_part p s (snd (set_project_runtime_policy e prj risk s))"
  by (cases p; auto simp: policy_write_defs Let_def)+

lemma invitation_frames [frame_simps]:
  "p \<noteq> InvitationPart \<Longrightarrow> same_part p s (snd (create_invitation e org by input s))"
  "p \<noteq> InvitationPart \<Longrightarrow> same_part p s (snd (accept_invitation e token user email name s))"
  by (cases p; auto simp: invitation_write_defs Let_def split: option.split)+

lemma claim_loop_frame:
  "p \<noteq> OutboxPart \<Longrightarrow> same_part p s (snd (claim_loop e io limit worker t keys acc s))"
proof (induction keys arbitrary: acc s)
  case (Cons key keys)
  have "same_part p s t'" if "same_part p (s\<lparr>s_email_deliveries := m\<rparr>) t'" for t' m
    using that Cons.prems by (cases p) auto
  with Cons show ?case by (auto split: option.split prod.split)
qed simp

lemma outbox_frames [frame_simps]:
  "p \<noteq> OutboxPart \<Longrightarrow> same_part p s (snd (enqueue_invitation_email e order i n s))"
  "p \<noteq> OutboxPart \<Longrightarrow> same_part p s (snd (requeue_invitation_email e io order org iid n s))"
  "p \<noteq> OutboxPart \<Longrightarrow> same_part p s (snd (claim_due_invitation_emails e io order n worker t s))"
  "p \<noteq> OutboxPart \<Longrightarrow> same_part p s (snd (mark_invitation_email_sent e did s))"
  "p \<noteq> OutboxPart \<Longrightarrow> same_part p s (snd (mark_invitation_email_failed e did err nt b s))"
  "p \<noteq> OutboxPart \<Longrightarrow> same_part p s (snd (record_invitation_email_event e io ev s))"
  "same_part p s (snd (delete_email_suppression order org sid s))"
        apply (cases p; auto simp: enqueue_invitation_email_def Let_def split: option.split)
       apply (cases p; auto simp: requeue_invitation_email_def Let_def split: option.split)
      apply (simp add: claim_due_invitation_emails_def Let_def claim_loop_frame)
     apply (cases p; auto simp: mark_invitation_email_sent_def Let_def split: option.split)
    apply (cases p; auto simp: mark_invitation_email_failed_def Let_def split: option.split)
   apply (cases p; auto simp: record_invitation_email_event_def Let_def split: option.split)
  apply (cases p; auto simp: delete_email_suppression_def Let_def split: option.split)
  done

lemma artifact_frames [frame_simps]:
  "same_part p s (snd (add_workspace e w s))"
  "p \<noteq> ArtifactPart \<Longrightarrow> same_part p s (snd (add_artifact e a s))"
  "p \<noteq> ArtifactPart \<Longrightarrow> same_part p s (snd (delete_expired_artifacts e order t n s))"
  by (cases p; auto simp: artifact_write_defs Let_def split: option.split prod.split)+

lemma skill_frames [frame_simps]:
  "p \<noteq> SkillPart \<Longrightarrow> same_part p s (snd (create_http_skill lib e user prj input s))"
  "p \<noteq> SkillPart \<Longrightarrow> same_part p s (snd (create_mcp_skill e user prj built s))"
  "p \<noteq> SkillPart \<Longrightarrow> same_part p s (snd (update_http_skill lib e user k input s))"
  "p \<noteq> SkillPart \<Longrightarrow> same_part p s (snd (set_skill_enabled user k b s))"
  by (cases p; auto simp: create_http_skill_def create_mcp_skill_def update_http_skill_def
      set_skill_enabled_def install_skill_def Let_def split: option.split sum.split prod.split)+

lemma record_frames [frame_simps]:
  "p \<noteq> RecordPart \<Longrightarrow> same_part p s (snd (record_skill_invocation e ri s))"
  "p \<noteq> RecordPart \<Longrightarrow> same_part p s (snd (add_audit_event e ra s))"
  by (cases p; auto simp: record_skill_invocation_def add_audit_event_def Let_def
      split: option.split prod.split)+

lemma chat_effect_frame: "p \<noteq> RunPart \<Longrightarrow> same_part p s (chat_effect op s)"
  by (cases op) (simp_all add: frame_simps)

lemma run_effect_frame: "p \<noteq> RunPart \<Longrightarrow> same_part p s (run_effect op s)"
  by (cases op) (simp_all add: frame_simps)

lemma subscriber_effect_frame: "same_part p s (subscriber_effect op s)"
  by (cases op) (simp_all add: frame_simps)

lemma identity_effect_frame: "p \<noteq> IdentityPart \<Longrightarrow> same_part p s (identity_effect op s)"
  by (cases op) (simp_all add: frame_simps)

lemma project_effect_frame: "same_part p s (project_effect op s)"
  by (cases op) (simp_all add: frame_simps)

lemma invitation_effect_frame: "p \<noteq> InvitationPart \<Longrightarrow> same_part p s (invitation_effect op s)"
  by (cases op) (simp_all add: frame_simps)

lemma outbox_effect_frame: "p \<noteq> OutboxPart \<Longrightarrow> same_part p s (outbox_effect op s)"
  by (cases op) (simp_all add: frame_simps)

lemma artifact_effect_frame: "p \<noteq> ArtifactPart \<Longrightarrow> same_part p s (artifact_effect op s)"
  by (cases op) (simp_all add: frame_simps)

lemma skill_effect_frame: "p \<noteq> SkillPart \<Longrightarrow> same_part p s (skill_effect op s)"
  by (cases op) (simp_all add: frame_simps)

lemma record_effect_frame: "p \<noteq> RecordPart \<Longrightarrow> same_part p s (record_effect op s)"
  by (cases op) (simp_all add: frame_simps)

lemmas effect_frames = chat_effect_frame run_effect_frame subscriber_effect_frame
  identity_effect_frame project_effect_frame invitation_effect_frame outbox_effect_frame
  artifact_effect_frame skill_effect_frame record_effect_frame

lemma op_frame: "writes op \<noteq> Some p \<Longrightarrow> same_part p s (op_effect op s)"
  by (cases op) (auto simp: effect_frames)

end
