(* ===== verification/Store_Invariants.thy ===== *)
theory Store_Invariants
  imports Store_Machine
begin

text \<open>
  What holds of every reachable store, and what an execution can never undo. \<open>op_ok\<close> is
  the environment's side: the identifiers an operation draws are new, and the loops over
  maps follow an order the runtime can pick. A \<open>part_invariant\<close> is a property of one part
  of the state that the operations writing it keep; a \<open>part_relation\<close> is what they
  preserve from one state to a later one. Both are interpreted on each part in the theories
  that import this one.
\<close>

section \<open>Executions\<close>

fun op_ok :: "store_op \<Rightarrow> store \<Rightarrow> bool" where
  "op_ok (ChatOp (OpCreateChat e _ _ _)) s \<longleftrightarrow> s_chats s (e_id e ''chat'') = None"
| "op_ok (ChatOp (OpAddUserMessage e _ _ _)) s \<longleftrightarrow> s_runs s (e_id e ''run'') = None"
| "op_ok (InvitationOp (OpCreateInvitation e _ _ _)) s \<longleftrightarrow>
     s_invitations s (e_id e ''invite_token'') = None \<and>
     e_id e ''inv'' \<notin> inv_id ` ran (s_invitations s)"
| "op_ok (OutboxOp (OpEnqueueInvitationEmail e order _ _)) s \<longleftrightarrow>
     enumerates order (s_email_deliveries s) \<and> e_id e ''invmail'' \<noteq> '''' \<and>
     s_email_deliveries s (e_id e ''invmail'') = None"
| "op_ok (OutboxOp (OpRequeueInvitationEmail e _ order _ _ _)) s \<longleftrightarrow>
     enumerates order (s_email_deliveries s) \<and> e_id e ''invmail'' \<noteq> '''' \<and>
     s_email_deliveries s (e_id e ''invmail'') = None"
| "op_ok (OutboxOp (OpClaimDueInvitationEmails _ _ order _ _ _)) s \<longleftrightarrow>
     enumerates order (s_email_deliveries s)"
| "op_ok (ArtifactOp (OpDeleteExpiredArtifacts _ order _ _)) s \<longleftrightarrow>
     enumerates order (s_artifacts s)"
| "op_ok _ s \<longleftrightarrow> True"

fun ops_ok :: "store_op list \<Rightarrow> store \<Rightarrow> bool" where
  "ops_ok [] s \<longleftrightarrow> True"
| "ops_ok (op # ops) s \<longleftrightarrow> op_ok op s \<and> ops_ok ops (op_effect op s)"

inductive reachable :: "store \<Rightarrow> bool" where
  reach_new: "reachable (new_store now)"
| reach_op: "reachable s \<Longrightarrow> op_ok op s \<Longrightarrow> reachable (op_effect op s)"

lemma reachable_ops: "reachable s \<Longrightarrow> ops_ok ops s \<Longrightarrow> reachable (run_ops ops s)"
  by (induction ops arbitrary: s) (auto intro: reach_op)

lemma reachable_iff: "reachable s \<longleftrightarrow> (\<exists>now ops. ops_ok ops (new_store now) \<and> s = run_ops ops (new_store now))"
proof
  have snoc: "ops_ok (ops @ [op]) s \<longleftrightarrow> ops_ok ops s \<and> op_ok op (run_ops ops s)" for ops op s
    by (induction ops arbitrary: s) auto
  show "reachable s \<Longrightarrow> \<exists>now ops. ops_ok ops (new_store now) \<and> s = run_ops ops (new_store now)"
  proof (induction rule: reachable.induct)
    case (reach_new now)
    then show ?case by (intro exI [of _ now] exI [of _ "[]"]) simp
  next
    case (reach_op s op)
    then obtain now ops where "ops_ok ops (new_store now)" "s = run_ops ops (new_store now)" by blast
    with reach_op.hyps show ?case
      by (intro exI [of _ now] exI [of _ "ops @ [op]"]) (simp add: snoc)
  qed
qed (auto intro: reachable_ops reach_new)

section \<open>Invariants and lasting facts of a part\<close>

locale part_invariant =
  fixes I :: "store \<Rightarrow> bool" and p :: store_part
  assumes cong: "same_part p s t \<Longrightarrow> I s \<Longrightarrow> I t"
    and new: "I (new_store now)"
    and own_step: "I s \<Longrightarrow> op_ok op s \<Longrightarrow> writes op = Some p \<Longrightarrow> I (op_effect op s)"
begin

lemma step: "I s \<Longrightarrow> op_ok op s \<Longrightarrow> I (op_effect op s)"
  using own_step cong op_frame by blast

lemma reach: "reachable s \<Longrightarrow> I s"
  by (induction rule: reachable.induct) (auto intro: new step)

lemma run: "I s \<Longrightarrow> ops_ok ops s \<Longrightarrow> I (run_ops ops s)"
  by (induction ops arbitrary: s) (auto intro: step)

end

locale part_relation = part_invariant +
  fixes R :: "store \<Rightarrow> store \<Rightarrow> bool"
  assumes frame: "same_part p s t \<Longrightarrow> R s t"
    and rel_trans: "R s t \<Longrightarrow> R t u \<Longrightarrow> R s u"
    and rel_step: "I s \<Longrightarrow> op_ok op s \<Longrightarrow> writes op = Some p \<Longrightarrow> R s (op_effect op s)"
begin

lemma rel_op: "I s \<Longrightarrow> op_ok op s \<Longrightarrow> R s (op_effect op s)"
  using rel_step frame op_frame by blast

lemma lasting: "I s \<Longrightarrow> ops_ok ops s \<Longrightarrow> R s (run_ops ops s)"
proof (induction ops arbitrary: s)
  case Nil
  then show ?case by (simp add: frame)
next
  case (Cons op ops)
  then have "R s (op_effect op s)" "R (op_effect op s) (run_ops ops (op_effect op s))"
    using rel_op step by auto
  then show ?case using rel_trans by simp
qed

lemma lasting_reachable: "reachable s \<Longrightarrow> ops_ok ops s \<Longrightarrow> R s (run_ops ops s)"
  using reach lasting by blast

end

lemma writes_cases:
  "writes op = Some RunPart \<Longrightarrow> (\<exists>c. op = ChatOp c) \<or> (\<exists>r. op = RunOp r)"
  "writes op = Some IdentityPart \<Longrightarrow> \<exists>i. op = IdentityOp i"
  "writes op = Some InvitationPart \<Longrightarrow> \<exists>i. op = InvitationOp i"
  "writes op = Some OutboxPart \<Longrightarrow> \<exists>i. op = OutboxOp i"
  "writes op = Some ArtifactPart \<Longrightarrow> \<exists>i. op = ArtifactOp i"
  "writes op = Some SkillPart \<Longrightarrow> \<exists>i. op = SkillOp i"
  "writes op = Some RecordPart \<Longrightarrow> \<exists>i. op = RecordOp i"
  by (cases op; simp)+

end
