(* ===== verification/Part_Invariants.thy ===== *)
theory Part_Invariants
  imports Store_Invariants
begin

text \<open>
  The invariants of the other parts of the in-memory store: identities, invitations, the
  e-mail outbox, skills, stored metadata and artifacts; and what lasts in them.
\<close>

section \<open>Identities\<close>

text \<open>The two writes of a new binding, and the rewrite of an existing one.\<close>

definition bound :: "string \<Rightarrow> string \<Rightarrow> user_identity \<Rightarrow> store \<Rightarrow> store" where
  "bound k u i s = s\<lparr>s_identities := (s_identities s)(k \<mapsto> i),
     s_user_identities := (s_user_identities s)(u \<mapsto> k)\<rparr>"

lemma identity_inv_bound:
  assumes inv: "identity_inv s"
    and k: "k = identity_key (uid_provider i) (uid_issuer i) (uid_subject i)"
    and u: "u = user_identity_key (uid_provider i) (uid_user_id i)"
    and new: "s_identities s k = None" "s_user_identities s u = None"
  shows "identity_inv (bound k u i s)"
  unfolding identity_inv_def
proof (intro conjI allI impI)
  fix l j assume "s_identities (bound k u i s) l = Some j"
  then have j: "l = k \<and> j = i \<or> l \<noteq> k \<and> s_identities s l = Some j"
    by (auto simp: bound_def split: if_splits)
  then show "l = identity_key (uid_provider j) (uid_issuer j) (uid_subject j)"
    using inv k by (auto simp: identity_inv_def)
  have "s_user_identities s (user_identity_key (uid_provider j) (uid_user_id j)) = Some l"
    if "s_identities s l = Some j"
    using that inv by (simp add: identity_inv_def)
  then show "s_user_identities (bound k u i s)
      (user_identity_key (uid_provider j) (uid_user_id j)) = Some l"
    using j u new(2) by (auto simp: bound_def)
next
  fix v l assume "s_user_identities (bound k u i s) v = Some l"
  then have "v = u \<and> l = k \<or> v \<noteq> u \<and> s_user_identities s v = Some l"
    by (auto simp: bound_def split: if_splits)
  moreover have "\<exists>j. s_identities s l = Some j \<and> v = user_identity_key (uid_provider j) (uid_user_id j)"
    if "s_user_identities s v = Some l"
    using that inv by (simp add: identity_inv_def)
  ultimately show "\<exists>j. s_identities (bound k u i s) l = Some j \<and>
      v = user_identity_key (uid_provider j) (uid_user_id j)"
    using u new(1) by (auto simp: bound_def)
qed

lemma identity_inv_rebound:
  assumes inv: "identity_inv s" and ex: "s_identities s k = Some ex"
    and same: "uid_provider ex' = uid_provider ex" "uid_issuer ex' = uid_issuer ex"
      "uid_subject ex' = uid_subject ex" "uid_user_id ex' = uid_user_id ex"
  shows "identity_inv (s\<lparr>s_identities := (s_identities s)(k \<mapsto> ex')\<rparr>)"
  using assms unfolding identity_inv_def by (auto split: if_splits) (metis option.inject)+

lemma identity_entry:
  assumes "identity_inv s" "s_user_identities s u = Some k"
  shows "\<exists>i. s_identities s k = Some i"
  using assms unfolding identity_inv_def by meson

lemma identity_inv_bind:
  assumes inv: "identity_inv s"
  shows "identity_inv (snd (bind_user_identity e raw s))"
proof -
  let ?i = "trim_identity raw"
  let ?k = "identity_key (uid_provider ?i) (uid_issuer ?i) (uid_subject ?i)"
  let ?u = "user_identity_key (uid_provider ?i) (uid_user_id ?i)"
  let ?new = "?i\<lparr>uid_id := e_id e ''uid'', uid_created_at := e_now e, uid_updated_at := e_now e\<rparr>"
  let ?ex = "\<lambda>ex. ex\<lparr>uid_email := first_non_empty [uid_email ?i, uid_email ex],
      uid_name := first_non_empty [uid_name ?i, uid_name ex], uid_updated_at := e_now e\<rparr>"
  have "snd (bind_user_identity e raw s) = s \<or>
    (\<exists>ex. s_identities s ?k = Some ex \<and>
       snd (bind_user_identity e raw s) = s\<lparr>s_identities := (s_identities s)(?k \<mapsto> ?ex ex)\<rparr>) \<or>
    s_identities s ?k = None \<and> (\<forall>k. s_user_identities s ?u = Some k \<longrightarrow> k = ?k) \<and>
      same_part IdentityPart (bound ?k ?u ?new s) (snd (bind_user_identity e raw s))"
    by (cases "s_identities s ?k"; cases "s_user_identities s ?u")
      (simp_all add: bind_user_identity_def bound_def Let_def)
  then show ?thesis
  proof (elim disjE exE conjE)
    fix ex
    assume ex: "s_identities s ?k = Some ex"
      and eff: "snd (bind_user_identity e raw s) = s\<lparr>s_identities := (s_identities s)(?k \<mapsto> ?ex ex)\<rparr>"
    show ?thesis unfolding eff by (rule identity_inv_rebound [OF inv ex]) simp_all
  next
    assume new: "s_identities s ?k = None" "\<forall>k. s_user_identities s ?u = Some k \<longrightarrow> k = ?k"
      and eff: "same_part IdentityPart (bound ?k ?u ?new s) (snd (bind_user_identity e raw s))"
    have "s_user_identities s ?u = None"
      using new identity_entry [OF inv] by (metis option.distinct(1) option.exhaust)
    then have "identity_inv (bound ?k ?u ?new s)"
      using new(1) by (intro identity_inv_bound [OF inv]) simp_all
    then show ?thesis using eff by (simp add: identity_inv_def)
  qed (simp add: inv)
qed

lemma identity_inv_step:
  assumes "identity_inv s" "writes op = Some IdentityPart"
  shows "identity_inv (op_effect op s)"
proof -
  obtain i where "op = IdentityOp i" using writes_cases(2) assms(2) by blast
  then show ?thesis
  proof (cases i)
    case (OpUpsertOIDCSession e x)
    then show ?thesis
      using \<open>op = IdentityOp i\<close> assms(1) identity_frames(2) [of IdentityPart s e x]
      by (simp add: identity_inv_def)
  next
    case (OpRevokeOIDCSession e x t)
    then show ?thesis
      using \<open>op = IdentityOp i\<close> assms(1) identity_frames(3) [of IdentityPart s e x t]
      by (simp add: identity_inv_def)
  qed (simp add: identity_inv_bind assms(1))
qed

text \<open>A bound subject stays bound to its user.\<close>

definition identities_last :: "store \<Rightarrow> store \<Rightarrow> bool" where
  "identities_last s t \<longleftrightarrow>
     (\<forall>k i. s_identities s k = Some i \<longrightarrow>
        (\<exists>j. s_identities t k = Some j \<and> uid_user_id j = uid_user_id i))"

lemma identities_last_trans:
  "identities_last s t \<Longrightarrow> identities_last t u \<Longrightarrow> identities_last s u"
  unfolding identities_last_def by metis

lemma identities_last_same: "same_part IdentityPart s t \<Longrightarrow> identities_last s t"
  by (simp add: identities_last_def)

lemma identities_last_bind: "identities_last s (snd (bind_user_identity e raw s))"
  by (auto simp: identities_last_def bind_user_identity_def Let_def split: option.split)

lemma identities_last_step:
  assumes "writes op = Some IdentityPart"
  shows "identities_last s (op_effect op s)"
proof -
  obtain i where "op = IdentityOp i" using writes_cases(2) assms by blast
  then show ?thesis
    by (cases i) (simp_all add: identities_last_bind identities_last_same identity_frames del: same_part.simps)
qed

interpretation identities: part_relation identity_inv IdentityPart identities_last
proof unfold_locales
  show "same_part IdentityPart s t \<Longrightarrow> identity_inv s \<Longrightarrow> identity_inv t" for s t
    by (simp add: identity_inv_def)
qed (simp_all add: identity_inv_new_store identity_inv_step identities_last_same
    identities_last_step del: same_part.simps, rule identities_last_trans)

section \<open>Invitations\<close>

text \<open>
  Invitations are filed under their token with unique ids, and the acceptance fields go
  with the status.
\<close>

definition invitations_ok :: "store \<Rightarrow> bool" where
  "invitations_ok s \<longleftrightarrow>
     invitation_inv s \<and>
     (\<forall>t i. s_invitations s t = Some i \<longrightarrow>
        (inv_accepted_at i \<noteq> None \<longleftrightarrow> inv_status i = InvitationAccepted) \<and>
        (inv_accepted_by_user_id i \<noteq> '''' \<longleftrightarrow> inv_status i = InvitationAccepted))"

lemma invitations_okD:
  assumes "invitations_ok s" "s_invitations s t = Some i"
  shows "inv_accepted_at i \<noteq> None \<longleftrightarrow> inv_status i = InvitationAccepted"
    and "inv_accepted_by_user_id i \<noteq> '''' \<longleftrightarrow> inv_status i = InvitationAccepted"
  using assms unfolding invitations_ok_def by blast+

lemma invitations_ok_same:
  "s_invitations t = s_invitations s \<Longrightarrow> invitations_ok s \<Longrightarrow> invitations_ok t"
  by (simp add: invitations_ok_def invitation_inv_def)

lemma invitations_ok_upd:
  assumes "invitations_ok s" "s_invitations s t = Some i"
    and "inv_token i' = inv_token i" "inv_id i' = inv_id i"
    and "inv_accepted_at i' \<noteq> None \<longleftrightarrow> inv_status i' = InvitationAccepted"
    and "inv_accepted_by_user_id i' \<noteq> '''' \<longleftrightarrow> inv_status i' = InvitationAccepted"
  shows "invitations_ok (s\<lparr>s_invitations := (s_invitations s)(t \<mapsto> i')\<rparr>)"
proof -
  have "invitation_inv s" using assms(1) by (simp add: invitations_ok_def)
  then have "invitation_inv (s\<lparr>s_invitations := (s_invitations s)(t \<mapsto> i')\<rparr>)"
    using assms(2-4) unfolding invitation_inv_def by (auto split: if_splits)
  with assms show ?thesis by (auto simp: invitations_ok_def)
qed

lemma invitations_ok_create:
  assumes "invitations_ok s" "op_ok (InvitationOp (OpCreateInvitation e org by input)) s"
  shows "invitations_ok (snd (create_invitation e org by input s))"
proof -
  have new: "invitations_ok (s\<lparr>s_invitations := (s_invitations s)(inv_token i \<mapsto> i)\<rparr>)"
    if "inv_token i = e_id e ''invite_token''" "inv_id i = e_id e ''inv''"
      "inv_status i = InvitationPending" "inv_accepted_at i = None" "inv_accepted_by_user_id i = ''''"
    for i
  proof -
    have "invitation_inv (s\<lparr>s_invitations := (s_invitations s)(inv_token i \<mapsto> i)\<rparr>)"
      using assms that unfolding invitations_ok_def invitation_inv_def
      by (auto simp: image_iff ran_def)
    with assms(1) that show ?thesis by (auto simp: invitations_ok_def)
  qed
  then show ?thesis using assms(1) by (simp add: create_invitation_def Let_def)
qed

lemma accept_Inl_pending:
  assumes "accept_invitation e token user email name s = (Inl err, s')" "s' \<noteq> s"
  obtains t i where "s_invitations s t = Some i" "inv_status i = InvitationPending"
    "s' = s\<lparr>s_invitations := (s_invitations s)(t \<mapsto> i\<lparr>inv_status := InvitationExpired\<rparr>)\<rparr>"
  using assms by (auto simp: accept_invitation_def Let_def split: option.splits if_splits)

lemma invitations_ok_accept:
  assumes "invitations_ok s"
  shows "invitations_ok (snd (accept_invitation e token user email name s))"
proof -
  obtain res s' where a: "accept_invitation e token user email name s = (res, s')"
    by (cases "accept_invitation e token user email name s")
  show ?thesis
  proof (cases res)
    case (Inl err)
    show ?thesis
    proof (cases "s' = s")
      case False
      then obtain t i where i: "s_invitations s t = Some i" "inv_status i = InvitationPending"
        "s' = s\<lparr>s_invitations := (s_invitations s)(t \<mapsto> i\<lparr>inv_status := InvitationExpired\<rparr>)\<rparr>"
        using a Inl accept_Inl_pending by blast
      then have "inv_accepted_at i = None" "inv_accepted_by_user_id i = ''''"
        using invitations_okD [OF assms i(1)] by simp_all
      then have "invitations_ok s'"
        unfolding i(3) by (intro invitations_ok_upd [OF assms i(1)]) simp_all
      then show ?thesis using a by simp
    qed (use a assms in simp)
  next
    case (Inr i')
    with a have ai: "accept_invitation e token user email name s = (Inr i', s')" by simp
    then show ?thesis
    proof (elim accept_Inr)
      fix i assume i: "s_invitations s (trim_space token) = Some i"
        "s_invitations s' = (s_invitations s)(trim_space token \<mapsto>
           i\<lparr>inv_status := InvitationAccepted, inv_accepted_by_user_id := trim_space user,
             inv_accepted_at := Some (e_now e)\<rparr>)"
      have "trim_space user \<noteq> ''''"
        using ai by (auto simp: accept_invitation_def Let_def split: if_splits)
      then have "invitations_ok (s\<lparr>s_invitations := (s_invitations s)(trim_space token \<mapsto>
           i\<lparr>inv_status := InvitationAccepted, inv_accepted_by_user_id := trim_space user,
             inv_accepted_at := Some (e_now e)\<rparr>)\<rparr>)"
        by (intro invitations_ok_upd [OF assms i(1)]) simp_all
      then have "invitations_ok s'" by (rule invitations_ok_same [rotated]) (simp add: i(2))
      then show ?thesis using a by simp
    qed
  qed
qed

lemma invitations_ok_step:
  assumes "invitations_ok s" "op_ok op s" "writes op = Some InvitationPart"
  shows "invitations_ok (op_effect op s)"
proof -
  obtain i where "op = InvitationOp i" using writes_cases(3) assms(3) by blast
  with assms(1,2) show ?thesis
    by (cases i) (auto simp: invitations_ok_create invitations_ok_accept simp del: op_ok.simps)
qed

text \<open>An invitation that left the pending state never returns to it; its terms never change.\<close>

definition invitation_kept :: "invitation \<Rightarrow> invitation \<Rightarrow> bool" where
  "invitation_kept i j \<longleftrightarrow>
     inv_email j = inv_email i \<and> inv_role j = inv_role i \<and>
     inv_organization_id j = inv_organization_id i \<and> inv_project_id j = inv_project_id i \<and>
     inv_expires_at j = inv_expires_at i \<and> (inv_status i \<noteq> InvitationPending \<longrightarrow> j = i)"

definition invitations_last :: "store \<Rightarrow> store \<Rightarrow> bool" where
  "invitations_last s t \<longleftrightarrow>
     (\<forall>k i. s_invitations s k = Some i \<longrightarrow> (\<exists>j. s_invitations t k = Some j \<and> invitation_kept i j))"

lemma invitation_kept_refl [simp]: "invitation_kept i i"
  by (simp add: invitation_kept_def)

lemma invitation_kept_trans: "invitation_kept i j \<Longrightarrow> invitation_kept j k \<Longrightarrow> invitation_kept i k"
  by (auto simp: invitation_kept_def)

lemma invitations_last_trans:
  "invitations_last s t \<Longrightarrow> invitations_last t u \<Longrightarrow> invitations_last s u"
  unfolding invitations_last_def using invitation_kept_trans by meson

lemma invitations_last_create:
  "s_invitations s (e_id e ''invite_token'') = None \<Longrightarrow>
   invitations_last s (snd (create_invitation e org by input s))"
  by (auto simp: invitations_last_def create_invitation_def Let_def)

lemma invitations_last_accept:
  "invitations_last s (snd (accept_invitation e token user email name s))"
  by (auto simp: invitations_last_def invitation_kept_def accept_invitation_def
      grant_invited_role_def Let_def split: option.split)

lemma invitations_last_step:
  assumes "op_ok op s" "writes op = Some InvitationPart"
  shows "invitations_last s (op_effect op s)"
proof -
  obtain i where "op = InvitationOp i" using writes_cases(3) assms(2) by blast
  with assms(1) show ?thesis
    by (cases i) (auto simp: invitations_last_create invitations_last_accept)
qed

interpretation invitations: part_relation invitations_ok InvitationPart invitations_last
proof unfold_locales
  show "same_part InvitationPart s t \<Longrightarrow> invitations_ok s \<Longrightarrow> invitations_ok t" for s t
    by (simp add: invitations_ok_def invitation_inv_def)
  show "invitations_ok (new_store now)" for now
    by (simp add: invitations_ok_def invitation_inv_def new_store_def)
  show "same_part InvitationPart s t \<Longrightarrow> invitations_last s t" for s t
    by (simp add: invitations_last_def)
qed (blast intro: invitations_ok_step invitations_last_trans invitations_last_step)+

section \<open>Skills, records and artifacts\<close>

lemma skills_step:
  assumes "skills_inv s" "writes op = Some SkillPart"
  shows "skills_inv (op_effect op s)"
proof -
  obtain k where "op = SkillOp k" using writes_cases(6) assms(2) by blast
  with assms(1) show ?thesis by (cases k) (simp_all add: skill_ops_inv)
qed

interpretation skills: part_invariant skills_inv SkillPart
proof unfold_locales
  show "same_part SkillPart s t \<Longrightarrow> skills_inv s \<Longrightarrow> skills_inv t" for s t
    by (simp add: skills_inv_def)
  show "skills_inv (new_store now)" for now
    by (simp add: skills_inv_def new_store_def cli_exec_skill_def workspace_read_skill_def)
qed (rule skills_step)

lemma records_step:
  assumes "records_clean s" "writes op = Some RecordPart"
  shows "records_clean (op_effect op s)"
proof -
  obtain k where "op = RecordOp k" using writes_cases(7) assms(2) by blast
  with assms(1) show ?thesis
    by (cases k) (simp_all add: add_audit_event_clean record_skill_invocation_clean)
qed

interpretation records: part_invariant records_clean RecordPart
proof unfold_locales
  show "same_part RecordPart s t \<Longrightarrow> records_clean s \<Longrightarrow> records_clean t" for s t
    by (simp add: records_clean_def)
  show "records_clean (new_store now)" for now
    by (simp add: records_clean_def new_store_def)
qed (rule records_step)

definition artifact_store_ok :: "store \<Rightarrow> bool" where
  "artifact_store_ok s \<longleftrightarrow> artifacts_keyed (s_artifacts s)"

lemma artifact_step:
  assumes "artifact_store_ok s" "op_ok op s" "writes op = Some ArtifactPart"
  shows "artifact_store_ok (op_effect op s)"
proof -
  obtain k where op: "op = ArtifactOp k" using writes_cases(5) assms(3) by blast
  show ?thesis
  proof (cases k)
    case (OpAddWorkspace e w)
    then show ?thesis using op assms(1) by (simp add: artifact_store_ok_def add_workspace_def Let_def)
  next
    case (OpAddArtifact e a)
    then show ?thesis
      using op assms(1) by (simp add: artifact_store_ok_def artifacts_keyed_def add_artifact_def Let_def)
  next
    case (OpDeleteExpiredArtifacts e order t n)
    then show ?thesis
      using op assms(1,2)
      by (simp add: artifact_store_ok_def delete_expired_eq enumerates_def mark_keys_keyed Let_def)
  qed
qed

interpretation artifacts: part_invariant artifact_store_ok ArtifactPart
proof unfold_locales
  show "same_part ArtifactPart s t \<Longrightarrow> artifact_store_ok s \<Longrightarrow> artifact_store_ok t" for s t
    by (simp add: artifact_store_ok_def)
  show "artifact_store_ok (new_store now)" for now
    by (simp add: artifact_store_ok_def artifacts_keyed_def new_store_def)
qed (rule artifact_step)

end
