(* ===== verification/Outbox_Invariants.thy ===== *)
theory Outbox_Invariants
  imports Store_Invariants
begin

text \<open>
  The e-mail outbox of the in-memory store. A claim is described by the deliveries it
  visits; from that follow the invariant of the outbox (attempts within their limit, one
  delivery per invitation) and that a claimed delivery stays with its worker until the
  lock ends.
\<close>

section \<open>The claim loop\<close>

lemma claim_delivery_same:
  assumes "s_invitations t = s_invitations s" "s_email_suppressions t = s_email_suppressions s"
  shows "claim_delivery e io w l t d = claim_delivery e io w l s d"
  unfolding claim_delivery_def assms ..

lemma claim_delivery_upd [simp]:
  "claim_delivery e io w l (s\<lparr>s_email_deliveries := m\<rparr>) d = claim_delivery e io w l s d"
  by (rule claim_delivery_same) simp_all

text \<open>What the claim makes of the delivery under a key, in the store it starts from.\<close>

definition claim_key ::
  "env \<Rightarrow> string list \<Rightarrow> string \<Rightarrow> gtime \<Rightarrow> store \<Rightarrow> string \<Rightarrow> (delivery \<times> bool) option" where
  "claim_key e io w l s k =
     (case s_email_deliveries s k of None \<Rightarrow> None | Some d \<Rightarrow> claim_delivery e io w l s d)"

fun claimed_of :: "(string \<Rightarrow> (delivery \<times> bool) option) \<Rightarrow> string list \<Rightarrow> delivery list" where
  "claimed_of f [] = []"
| "claimed_of f (k # ks) =
     (case f k of Some (d, True) \<Rightarrow> d # claimed_of f ks | _ \<Rightarrow> claimed_of f ks)"

definition claims_written ::
  "(string \<Rightarrow> (delivery \<times> bool) option) \<Rightarrow> string set \<Rightarrow> (string \<rightharpoonup> delivery) \<Rightarrow> (string \<rightharpoonup> delivery)" where
  "claims_written f K m =
     (\<lambda>k. if k \<in> K then (case f k of Some (d, b) \<Rightarrow> Some d | None \<Rightarrow> m k) else m k)"

lemma set_claimed_of: "set (claimed_of f ks) = {d. \<exists>k \<in> set ks. f k = Some (d, True)}"
  by (induction ks) (auto split: option.splits bool.splits)

lemma claimed_of_cong: "(\<And>k. k \<in> set ks \<Longrightarrow> f k = g k) \<Longrightarrow> claimed_of f ks = claimed_of g ks"
proof (induction ks)
  case (Cons k ks)
  then have "f k = g k" "claimed_of f ks = claimed_of g ks" by simp_all
  then show ?case by (simp only: claimed_of.simps)
qed simp

lemma claims_written_cong:
  "(\<And>k. k \<in> K \<Longrightarrow> f k = g k) \<Longrightarrow> claims_written f K m = claims_written g K m"
  by (auto simp: claims_written_def)

lemma claims_written_Nil [simp]: "claims_written f {} m = m"
  by (simp add: claims_written_def)

lemma claims_written_insert:
  assumes "k \<notin> K"
  shows "claims_written f (insert k K) m =
    claims_written f K (case f k of Some (d, b) \<Rightarrow> m(k \<mapsto> d) | None \<Rightarrow> m)"
  using assms by (auto simp: claims_written_def fun_eq_iff split: option.split)

lemma claim_key_upd:
  "j \<noteq> k \<Longrightarrow> claim_key e io w l (s\<lparr>s_email_deliveries := (s_email_deliveries s)(k \<mapsto> d)\<rparr>) j =
     claim_key e io w l s j"
  by (simp add: claim_key_def split: option.split)

text \<open>The loop visits a prefix of the keys, writes what each becomes, and returns the claimed.\<close>

lemma claim_loop_prefix:
  assumes "distinct keys"
  shows "\<exists>ks rest. keys = ks @ rest \<and>
    claim_loop e io limit w l keys acc s =
      (acc @ claimed_of (claim_key e io w l s) ks,
       s\<lparr>s_email_deliveries := claims_written (claim_key e io w l s) (set ks) (s_email_deliveries s)\<rparr>) \<and>
    (int (length acc) \<le> limit \<longrightarrow> int (length (acc @ claimed_of (claim_key e io w l s) ks)) \<le> limit)"
  using assms
proof (induction keys arbitrary: acc s)
  case Nil
  then show ?case by (intro exI [of _ "[]"]) simp
next
  case (Cons k keys)
  let ?f = "claim_key e io w l s"
  have k: "k \<notin> set keys" and d: "distinct keys" using Cons.prems by auto
  show ?case
  proof (cases "?f k")
    case None
    show ?thesis
    proof (cases "s_email_deliveries s k \<noteq> None \<and> limit \<le> int (length acc)")
      case True
      then show ?thesis by (intro exI [of _ "[]"] exI [of _ "k # keys"]) auto
    next
      case False
      obtain ks rest where ih: "keys = ks @ rest"
        "claim_loop e io limit w l keys acc s = (acc @ claimed_of ?f ks,
           s\<lparr>s_email_deliveries := claims_written ?f (set ks) (s_email_deliveries s)\<rparr>)"
        "int (length acc) \<le> limit \<longrightarrow> int (length (acc @ claimed_of ?f ks)) \<le> limit"
        using Cons.IH [OF d, of acc s] by blast
      have "k \<notin> set ks" using k ih(1) by simp
      then have "claims_written ?f (set (k # ks)) (s_email_deliveries s) =
          claims_written ?f (set ks) (s_email_deliveries s)"
        using None by (simp add: claims_written_insert)
      moreover have "claim_loop e io limit w l (k # keys) acc s = claim_loop e io limit w l keys acc s"
        using None False by (auto simp: claim_key_def split: option.splits)
      ultimately show ?thesis
        using ih None by (intro exI [of _ "k # ks"] exI [of _ rest]) simp
    qed
  next
    case (Some p)
    obtain d' b where p: "?f k = Some (d', b)" using Some by (cases p) auto
    then obtain d0 where d0: "s_email_deliveries s k = Some d0" "claim_delivery e io w l s d0 = Some (d', b)"
      by (auto simp: claim_key_def split: option.splits)
    show ?thesis
    proof (cases "limit \<le> int (length acc)")
      case True
      then show ?thesis using d0 by (intro exI [of _ "[]"] exI [of _ "k # keys"]) auto
    next
      case False
      let ?t = "s\<lparr>s_email_deliveries := (s_email_deliveries s)(k \<mapsto> d')\<rparr>"
      let ?acc = "if b then acc @ [d'] else acc"
      obtain ks rest where ih: "keys = ks @ rest"
        "claim_loop e io limit w l keys ?acc ?t = (?acc @ claimed_of (claim_key e io w l ?t) ks,
           ?t\<lparr>s_email_deliveries :=
             claims_written (claim_key e io w l ?t) (set ks) (s_email_deliveries ?t)\<rparr>)"
        "int (length ?acc) \<le> limit \<longrightarrow>
           int (length (?acc @ claimed_of (claim_key e io w l ?t) ks)) \<le> limit"
        using Cons.IH [OF d, of ?acc ?t] by blast
      have kks: "k \<notin> set ks" using k ih(1) by simp
      then have same: "claim_key e io w l ?t j = ?f j" if "j \<in> set ks" for j
        using that by (metis claim_key_upd)
      have c: "claimed_of (claim_key e io w l ?t) ks = claimed_of ?f ks"
        by (rule claimed_of_cong) (rule same)
      have wr: "claims_written (claim_key e io w l ?t) (set ks) (s_email_deliveries ?t) =
          claims_written ?f (set (k # ks)) (s_email_deliveries s)"
        using kks p claims_written_cong [of "set ks", OF same] by (simp add: claims_written_insert)
      have "claim_loop e io limit w l (k # keys) acc s = claim_loop e io limit w l keys ?acc ?t"
        using d0 False by simp
      moreover have "?acc @ claimed_of ?f ks = acc @ claimed_of ?f (k # ks)"
        using p by (cases b) auto
      moreover have "int (length ?acc) \<le> limit" using False by auto
      ultimately show ?thesis
        using ih c wr by (intro exI [of _ "k # ks"] exI [of _ rest]) simp
    qed
  qed
qed

definition claim_worker :: "string \<Rightarrow> string" where
  "claim_worker raw = (if trim_space raw = '''' then ''control-plane'' else trim_space raw)"

definition claim_until :: "env \<Rightarrow> gtime \<Rightarrow> gtime" where
  "claim_until e raw = (if \<not> after raw (e_now e) then e_now e + time_minute else raw)"

lemma claim_until_later: "e_now e < claim_until e raw"
  by (auto simp: claim_until_def after_def duration_defs)

lemma claim_due_prefix:
  assumes "distinct order"
  obtains ks rest where "order = ks @ rest"
    "claim_due_invitation_emails e io order n w l s =
      (claimed_of (claim_key e io (claim_worker w) (claim_until e l) s) ks,
       s\<lparr>s_email_deliveries :=
          claims_written (claim_key e io (claim_worker w) (claim_until e l) s) (set ks)
            (s_email_deliveries s)\<rparr>)"
    "int (length (fst (claim_due_invitation_emails e io order n w l s))) \<le> (if n \<le> 0 then 1 else n)"
proof -
  let ?n = "if n \<le> 0 then 1 else n"
  have "claim_due_invitation_emails e io order n w l s =
      claim_loop e io ?n (claim_worker w) (claim_until e l) order [] s"
    by (simp add: claim_due_invitation_emails_def claim_worker_def claim_until_def Let_def)
  moreover have "0 \<le> ?n" by simp
  ultimately show ?thesis
    using claim_loop_prefix [OF assms, of e io ?n "claim_worker w" "claim_until e l" "[]" s] that
    by (metis append_Nil fst_conv list.size(3) of_nat_0)
qed

section \<open>The invariant\<close>

definition delivery_ok :: "delivery \<Rightarrow> bool" where
  "delivery_ok d \<longleftrightarrow>
     0 \<le> dlv_attempts d \<and> dlv_attempts d \<le> dlv_max_attempts d \<and> 1 \<le> dlv_max_attempts d \<and>
     (dlv_status d = InvitationEmailSending \<longrightarrow> dlv_locked_until d \<noteq> None \<and> 1 \<le> dlv_attempts d)"

definition outbox_ok :: "store \<Rightarrow> bool" where
  "outbox_ok s \<longleftrightarrow>
     (\<forall>k d. s_email_deliveries s k = Some d \<longrightarrow> dlv_id d = k \<and> k \<noteq> '''' \<and> delivery_ok d) \<and>
     (\<forall>k d l d'. s_email_deliveries s k = Some d \<longrightarrow> s_email_deliveries s l = Some d' \<longrightarrow>
        dlv_invitation_id d = dlv_invitation_id d' \<longrightarrow> k = l)"

lemma outbox_okD:
  assumes "outbox_ok s" "s_email_deliveries s k = Some d"
  shows "dlv_id d = k" "k \<noteq> ''''" "delivery_ok d"
  using assms unfolding outbox_ok_def by blast+

lemma outbox_ok_same: "s_email_deliveries t = s_email_deliveries s \<Longrightarrow> outbox_ok s \<Longrightarrow> outbox_ok t"
  by (simp add: outbox_ok_def)

text \<open>A rewrite of stored deliveries that keeps their ids, invitations and shape.\<close>

lemma outbox_ok_rewrite:
  assumes "outbox_ok s"
    and "\<And>k d. m k = Some d \<Longrightarrow> \<exists>d0. s_email_deliveries s k = Some d0 \<and>
           dlv_id d = dlv_id d0 \<and> dlv_invitation_id d = dlv_invitation_id d0 \<and> delivery_ok d"
  shows "outbox_ok (s\<lparr>s_email_deliveries := m\<rparr>)"
  unfolding outbox_ok_def
proof (intro conjI allI impI)
  fix k d assume "s_email_deliveries (s\<lparr>s_email_deliveries := m\<rparr>) k = Some d"
  then have "m k = Some d" by simp
  then obtain d0 where "s_email_deliveries s k = Some d0" "dlv_id d = dlv_id d0" "delivery_ok d"
    using assms(2) by blast
  then show "dlv_id d = k" "k \<noteq> ''''" "delivery_ok d"
    using outbox_okD [OF assms(1)] by auto
next
  fix k d l d'
  assume "s_email_deliveries (s\<lparr>s_email_deliveries := m\<rparr>) k = Some d"
    "s_email_deliveries (s\<lparr>s_email_deliveries := m\<rparr>) l = Some d'"
    and inv: "dlv_invitation_id d = dlv_invitation_id d'"
  then have "m k = Some d" "m l = Some d'" by simp_all
  then obtain d0 d1 where "s_email_deliveries s k = Some d0" "s_email_deliveries s l = Some d1"
    "dlv_invitation_id d = dlv_invitation_id d0" "dlv_invitation_id d' = dlv_invitation_id d1"
    using assms(2) by meson
  then show "k = l" using assms(1) inv unfolding outbox_ok_def by metis
qed

lemma outbox_ok_rewrite_one:
  assumes "outbox_ok s" "s_email_deliveries s k = Some d0"
    and "dlv_id d = dlv_id d0" "dlv_invitation_id d = dlv_invitation_id d0" "delivery_ok d"
  shows "outbox_ok (s\<lparr>s_email_deliveries := (s_email_deliveries s)(k \<mapsto> d)\<rparr>)"
proof (rule outbox_ok_rewrite [OF assms(1)])
  fix j d' assume j: "((s_email_deliveries s)(k \<mapsto> d)) j = Some d'"
  show "\<exists>d0. s_email_deliveries s j = Some d0 \<and> dlv_id d' = dlv_id d0 \<and>
      dlv_invitation_id d' = dlv_invitation_id d0 \<and> delivery_ok d'"
  proof (cases "j = k")
    case True
    with j assms(2-) show ?thesis by auto
  next
    case False
    with j outbox_okD [OF assms(1)] show ?thesis by auto
  qed
qed

lemma outbox_ok_add:
  assumes "outbox_ok s" "s_email_deliveries s k = None" "k \<noteq> ''''" "delivery_ok d" "dlv_id d = k"
    and "\<forall>k d'. s_email_deliveries s k = Some d' \<longrightarrow> dlv_invitation_id d' \<noteq> dlv_invitation_id d"
  shows "outbox_ok (s\<lparr>s_email_deliveries := (s_email_deliveries s)(k \<mapsto> d)\<rparr>)"
proof -
  let ?m = "(s_email_deliveries s)(k \<mapsto> d)"
  have "dlv_id x = j \<and> j \<noteq> '''' \<and> delivery_ok x" if "?m j = Some x" for j x
    using that assms(3-5) outbox_okD [OF assms(1), of j x] by (auto split: if_splits)
  moreover have "j = l"
    if "?m j = Some x" "?m l = Some y" "dlv_invitation_id x = dlv_invitation_id y" for j l x y
  proof (cases "j = k \<or> l = k")
    case True
    then show ?thesis using that assms(6) by (auto split: if_splits)
  next
    case False
    then have "s_email_deliveries s j = Some x" "s_email_deliveries s l = Some y" using that by simp_all
    then show ?thesis using assms(1) that(3) unfolding outbox_ok_def by blast
  qed
  moreover have "s_email_deliveries (s\<lparr>s_email_deliveries := ?m\<rparr>) = ?m" by simp
  ultimately show ?thesis unfolding outbox_ok_def by metis
qed

section \<open>Steps\<close>

lemma find_none_enum:
  assumes "enumerates order m" "List.find P (range_vals m order) = None"
  shows "\<forall>k v. m k = Some v \<longrightarrow> \<not> P v"
  using assms by (auto simp: find_None_iff set_range_vals_enum ran_def)

lemma find_some_range:
  assumes "List.find P (range_vals m order) = Some v"
  shows "P v" "\<exists>k. m k = Some v"
  using assms by (auto simp: find_Some_iff set_range_vals dest!: nth_mem)

lemma outbox_ok_enqueue:
  assumes "outbox_ok s" "op_ok (OutboxOp (OpEnqueueInvitationEmail e order i n)) s"
  shows "outbox_ok (snd (enqueue_invitation_email e order i n s))"
proof (cases "List.find (\<lambda>d. dlv_invitation_id d = inv_id i) (range_vals (s_email_deliveries s) order)")
  case None
  then have "\<forall>k d. s_email_deliveries s k = Some d \<longrightarrow> dlv_invitation_id d \<noteq> inv_id i"
    using find_none_enum [OF _ None] assms(2) by simp
  then show ?thesis
    using assms None
    by (auto simp: enqueue_invitation_email_def delivery_ok_def Let_def intro!: outbox_ok_add)
qed (use assms(1) in \<open>simp add: enqueue_invitation_email_def Let_def\<close>)

definition requeued :: "env \<Rightarrow> invitation \<Rightarrow> int \<Rightarrow> delivery \<Rightarrow> delivery" where
  "requeued e i n d = d\<lparr>dlv_invitation := i, dlv_status := InvitationEmailPending,
     dlv_attempts := 0, dlv_max_attempts := n, dlv_next_attempt_at := e_now e,
     dlv_locked_by := '''', dlv_locked_until := None, dlv_last_error := '''',
     dlv_sent_at := None, dlv_updated_at := e_now e\<rparr>"

lemma requeued_ok: "1 \<le> n \<Longrightarrow> delivery_ok (requeued e i n d)"
  by (simp add: requeued_def delivery_ok_def)

lemma requeued_simps [simp]:
  "dlv_id (requeued e i n d) = dlv_id d"
  "dlv_invitation_id (requeued e i n d) = dlv_invitation_id d"
  by (simp_all add: requeued_def)

lemma outbox_ok_requeued:
  assumes ok: "outbox_ok s" and ids: "op_ok (OutboxOp (OpRequeueInvitationEmail e io order org iid n)) s"
    and m: "1 \<le> m"
    and d: "d = (case List.find (\<lambda>d. dlv_invitation_id d = inv_id i)
                        (range_vals (s_email_deliveries s) order) of
                   Some existing \<Rightarrow> if dlv_id existing = '''' then fresh_delivery e i else existing
                 | None \<Rightarrow> fresh_delivery e i)"
  shows "outbox_ok (s\<lparr>s_email_deliveries := (s_email_deliveries s)(dlv_id d \<mapsto> requeued e i m d)\<rparr>)"
proof (cases "List.find (\<lambda>d. dlv_invitation_id d = inv_id i) (range_vals (s_email_deliveries s) order)")
  case None
  then have new: "\<forall>k d. s_email_deliveries s k = Some d \<longrightarrow> dlv_invitation_id d \<noteq> inv_id i"
    using find_none_enum [OF _ None] ids by simp
  have "d = fresh_delivery e i" using None d by simp
  then show ?thesis
    using ok ids new m by (intro outbox_ok_add) (simp_all add: fresh_delivery_def requeued_ok)
next
  case (Some ex)
  then obtain k where k: "s_email_deliveries s k = Some ex" using find_some_range(2) by metis
  then have "dlv_id ex = k" "k \<noteq> ''''" using outbox_okD ok by blast+
  then have "d = ex" using Some d by simp
  then show ?thesis
    using outbox_ok_rewrite_one [OF ok k] m \<open>dlv_id ex = k\<close> by (simp add: requeued_ok)
qed

lemma outbox_ok_requeue:
  assumes "outbox_ok s" "op_ok (OutboxOp (OpRequeueInvitationEmail e io order org iid n)) s"
  shows "outbox_ok (snd (requeue_invitation_email e io order org iid n s))"
proof -
  let ?m = "if n \<le> 0 then 1 else n"
  let ?pick = "\<lambda>i. (case List.find (\<lambda>d. dlv_invitation_id d = inv_id i)
        (range_vals (s_email_deliveries s) order) of
      Some existing \<Rightarrow> if dlv_id existing = '''' then fresh_delivery e i else existing
    | None \<Rightarrow> fresh_delivery e i)"
  have "snd (requeue_invitation_email e io order org iid n s) = s \<or>
    (\<exists>i. snd (requeue_invitation_email e io order org iid n s) = s\<lparr>s_email_deliveries :=
       (s_email_deliveries s)(dlv_id (?pick i) \<mapsto> requeued e i ?m (?pick i))\<rparr>)"
    by (cases "invitation_by_id io (s_invitations s) (trim_space iid)")
      (auto simp: requeue_invitation_email_def requeued_def Let_def)
  moreover have max: "1 \<le> ?m" by simp
  ultimately show ?thesis
    using assms(1) outbox_ok_requeued [OF assms max refl] by (elim disjE exE) (simp_all only:)
qed

lemma claim_delivery_ok:
  assumes "claim_delivery e io w l s d = Some (d', b)" "delivery_ok d"
  shows "dlv_id d' = dlv_id d" "dlv_invitation_id d' = dlv_invitation_id d" "delivery_ok d'"
  using assms
  by (auto simp: claim_delivery_def delivery_ok_def split: if_splits option.splits)

lemma outbox_ok_claim:
  assumes "outbox_ok s" "distinct order"
  shows "outbox_ok (snd (claim_due_invitation_emails e io order n w l s))"
proof -
  obtain ks where "snd (claim_due_invitation_emails e io order n w l s) = s\<lparr>s_email_deliveries :=
      claims_written (claim_key e io (claim_worker w) (claim_until e l) s) (set ks) (s_email_deliveries s)\<rparr>"
    using claim_due_prefix [OF assms(2)] by (metis snd_conv)
  moreover have "\<exists>d0. s_email_deliveries s k = Some d0 \<and> dlv_id d = dlv_id d0 \<and>
      dlv_invitation_id d = dlv_invitation_id d0 \<and> delivery_ok d"
    if k: "claims_written (claim_key e io w' l' s) (set ks) (s_email_deliveries s) k = Some d" for k d w' l'
  proof (cases "k \<in> set ks \<and> claim_key e io w' l' s k \<noteq> None")
    case False
    with k have "s_email_deliveries s k = Some d"
      by (auto simp: claims_written_def split: if_splits option.splits)
    then show ?thesis using outbox_okD [OF assms(1)] by blast
  next
    case True
    then obtain d0 b where "s_email_deliveries s k = Some d0" "claim_delivery e io w' l' s d0 = Some (d, b)"
      using k by (auto simp: claims_written_def claim_key_def split: option.splits)
    moreover have "delivery_ok d0" using calculation(1) outbox_okD(3) [OF assms(1)] by blast
    ultimately show ?thesis using claim_delivery_ok [of e io w' l' s d0 d b] by simp
  qed
  ultimately show ?thesis using outbox_ok_rewrite [OF assms(1)] by simp
qed

lemma outbox_ok_mark:
  assumes "outbox_ok s"
  shows "outbox_ok (snd (mark_invitation_email_sent e did s))"
    and "outbox_ok (snd (mark_invitation_email_failed e did err t b s))"
proof -
  have ok: "delivery_ok d \<and> dlv_id d = k" if "s_email_deliveries s k = Some d" for k d
    using outbox_okD [OF assms that] by simp
  show "outbox_ok (snd (mark_invitation_email_sent e did s))"
    using assms ok
    by (auto simp: mark_invitation_email_sent_def Let_def delivery_ok_def
        intro!: outbox_ok_rewrite_one split: option.split)
  show "outbox_ok (snd (mark_invitation_email_failed e did err t b s))"
    using assms ok
    by (auto simp: mark_invitation_email_failed_def Let_def delivery_ok_def
        intro!: outbox_ok_rewrite_one split: option.split)
qed

lemma apply_email_event_ok:
  "delivery_ok d \<Longrightarrow> delivery_ok (apply_email_event e t ev d)"
  "dlv_id (apply_email_event e t ev d) = dlv_id d"
  "dlv_invitation_id (apply_email_event e t ev d) = dlv_invitation_id d"
  by (auto simp: apply_email_event_def delivery_ok_def Let_def split: email_event_type.split)

lemma event_deliveries:
  "s_email_deliveries (snd (record_invitation_email_event e io inp s)) = s_email_deliveries s \<or>
   (\<exists>d t ev. s_email_deliveries s (trim_space (emi_delivery_id inp)) = Some d \<and>
      s_email_deliveries (snd (record_invitation_email_event e io inp s)) =
        (s_email_deliveries s)(trim_space (emi_delivery_id inp) \<mapsto> apply_email_event e t ev d))"
proof (cases "s_email_deliveries s (trim_space (emi_delivery_id inp))")
  case None
  then show ?thesis
    by (auto simp: record_invitation_email_event_def Let_def split: option.split)
next
  case (Some d)
  then show ?thesis
    by (auto simp: record_invitation_email_event_def Let_def split: option.split)
qed

lemma outbox_ok_event:
  assumes "outbox_ok s"
  shows "outbox_ok (snd (record_invitation_email_event e io inp s))"
  using event_deliveries [of e io inp s]
proof (elim disjE exE conjE)
  assume "s_email_deliveries (snd (record_invitation_email_event e io inp s)) = s_email_deliveries s"
  then show ?thesis using outbox_ok_same assms by blast
next
  fix d t ev
  let ?did = "trim_space (emi_delivery_id inp)"
  assume d: "s_email_deliveries s ?did = Some d"
    and eq: "s_email_deliveries (snd (record_invitation_email_event e io inp s)) =
        (s_email_deliveries s)(?did \<mapsto> apply_email_event e t ev d)"
  have "outbox_ok (s\<lparr>s_email_deliveries := (s_email_deliveries s)(?did \<mapsto> apply_email_event e t ev d)\<rparr>)"
    using outbox_okD(3) [OF assms d]
    by (intro outbox_ok_rewrite_one [OF assms d]) (simp_all add: apply_email_event_ok)
  then show ?thesis by (rule outbox_ok_same [rotated]) (simp add: eq)
qed

lemma outbox_step:
  assumes "outbox_ok s" "op_ok op s" "writes op = Some OutboxPart"
  shows "outbox_ok (op_effect op s)"
proof -
  obtain k where op: "op = OutboxOp k" using writes_cases(4) assms(3) by blast
  show ?thesis
  proof (cases k)
    case (OpEnqueueInvitationEmail e order i n)
    then show ?thesis using assms op outbox_ok_enqueue by simp
  next
    case (OpRequeueInvitationEmail e io order org iid n)
    then show ?thesis using assms op outbox_ok_requeue by simp
  next
    case (OpClaimDueInvitationEmails e io order n w l)
    then show ?thesis using assms op outbox_ok_claim by (simp add: enumerates_def)
  next
    case (OpDeleteEmailSuppression order org sid)
    have "s_email_deliveries (snd (delete_email_suppression order org sid s)) = s_email_deliveries s"
      by (auto simp: delete_email_suppression_def Let_def split: option.split)
    then show ?thesis using assms(1) op OpDeleteEmailSuppression outbox_ok_same by simp
  qed (use assms(1) op in \<open>simp_all add: outbox_ok_mark outbox_ok_event\<close>)
qed

interpretation outbox: part_invariant outbox_ok OutboxPart
proof unfold_locales
  show "same_part OutboxPart s t \<Longrightarrow> outbox_ok s \<Longrightarrow> outbox_ok t" for s t
    by (simp add: outbox_ok_def)
  show "outbox_ok (new_store now)" for now
    by (simp add: outbox_ok_def new_store_def)
qed (rule outbox_step)

section \<open>A claimed delivery\<close>

text \<open>
  \<open>holds_delivery k l s\<close>: delivery \<open>k\<close> is being sent and locked until \<open>l\<close>.
  \<open>leaves_delivery\<close> are the operations that neither report on it nor requeue it.
\<close>

definition holds_delivery :: "string \<Rightarrow> gtime \<Rightarrow> store \<Rightarrow> bool" where
  "holds_delivery k l s \<longleftrightarrow>
     (\<exists>d. s_email_deliveries s k = Some d \<and> dlv_status d = InvitationEmailSending \<and>
          dlv_locked_until d = Some l)"

fun leaves_delivery :: "string \<Rightarrow> gtime \<Rightarrow> store_op \<Rightarrow> bool" where
  "leaves_delivery k l (OutboxOp (OpClaimDueInvitationEmails e _ _ _ _ _)) \<longleftrightarrow> e_now e < l"
| "leaves_delivery k l (OutboxOp (OpMarkInvitationEmailSent _ did)) \<longleftrightarrow> trim_space did \<noteq> k"
| "leaves_delivery k l (OutboxOp (OpMarkInvitationEmailFailed _ did _ _ _)) \<longleftrightarrow> trim_space did \<noteq> k"
| "leaves_delivery k l (OutboxOp (OpRecordInvitationEmailEvent _ _ inp)) \<longleftrightarrow>
     trim_space (emi_delivery_id inp) \<noteq> k"
| "leaves_delivery k l (OutboxOp (OpRequeueInvitationEmail _ _ _ _ _ _)) \<longleftrightarrow> False"
| "leaves_delivery k l _ \<longleftrightarrow> True"

lemma locked_not_claimed:
  "holds_delivery k l s \<Longrightarrow> e_now e < l \<Longrightarrow> claim_key e io w u s k = None"
  by (auto simp: holds_delivery_def claim_key_def claim_delivery_def after_def)

lemma claim_due_locked:
  assumes "holds_delivery k l s" "e_now e < l" "distinct order" "outbox_ok s"
  shows "k \<notin> dlv_id ` set (fst (claim_due_invitation_emails e io order n w u s))"
    and "holds_delivery k l (snd (claim_due_invitation_emails e io order n w u s))"
proof -
  let ?f = "claim_key e io (claim_worker w) (claim_until e u) s"
  obtain ks where c: "claim_due_invitation_emails e io order n w u s = (claimed_of ?f ks,
      s\<lparr>s_email_deliveries := claims_written ?f (set ks) (s_email_deliveries s)\<rparr>)"
    using claim_due_prefix [OF assms(3)] by metis
  have none: "?f k = None" by (rule locked_not_claimed [OF assms(1,2)])
  have "dlv_id d = j" if f: "?f j = Some (d, b)" for j d b
  proof -
    obtain d0 where "s_email_deliveries s j = Some d0"
      "claim_delivery e io (claim_worker w) (claim_until e u) s d0 = Some (d, b)"
      using f by (auto simp: claim_key_def split: option.splits)
    then show ?thesis using outbox_okD [OF assms(4)] claim_delivery_ok by metis
  qed
  then show "k \<notin> dlv_id ` set (fst (claim_due_invitation_emails e io order n w u s))"
    using none by (auto simp: c set_claimed_of)
  show "holds_delivery k l (snd (claim_due_invitation_emails e io order n w u s))"
    using assms(1) none by (auto simp: c holds_delivery_def claims_written_def)
qed

lemma holds_delivery_same:
  "s_email_deliveries t k = s_email_deliveries s k \<Longrightarrow> holds_delivery k l s \<Longrightarrow> holds_delivery k l t"
  by (simp add: holds_delivery_def)

lemma holds_delivery_step:
  assumes "holds_delivery k l s" "op_ok op s" "outbox_ok s" "leaves_delivery k l op"
  shows "holds_delivery k l (op_effect op s)"
proof (cases "writes op = Some OutboxPart")
  case False
  then have "s_email_deliveries (op_effect op s) = s_email_deliveries s"
    using op_frame [of op OutboxPart s] by simp
  then show ?thesis using assms(1) by (simp add: holds_delivery_def)
next
  case True
  then obtain o' where op: "op = OutboxOp o'" using writes_cases(4) by blast
  show ?thesis
  proof (cases o')
    case (OpClaimDueInvitationEmails e io order n w u)
    then show ?thesis
      using op assms claim_due_locked(2) by (simp add: enumerates_def)
  next
    case (OpEnqueueInvitationEmail e order i n)
    have new: "s_email_deliveries s (e_id e ''invmail'') = None" using op assms(2) OpEnqueueInvitationEmail by simp
    then have "k \<noteq> e_id e ''invmail''" using assms(1) by (auto simp: holds_delivery_def)
    then show ?thesis
      using op OpEnqueueInvitationEmail assms(1)
      by (intro holds_delivery_same [OF _ assms(1)])
        (auto simp: enqueue_invitation_email_def Let_def split: option.split)
  next
    case (OpRecordInvitationEmailEvent e io inp)
    then show ?thesis
      using op assms(1,4) event_deliveries [of e io inp s]
      by (auto simp: holds_delivery_def)
  next
    case (OpDeleteEmailSuppression order org sid)
    have "s_email_deliveries (snd (delete_email_suppression order org sid s)) = s_email_deliveries s"
      by (auto simp: delete_email_suppression_def Let_def split: option.split)
    then show ?thesis using op OpDeleteEmailSuppression assms(1) by (simp add: holds_delivery_def)
  qed (use op assms(1,4) in \<open>auto simp: mark_invitation_email_sent_def mark_invitation_email_failed_def
      holds_delivery_def Let_def split: option.split\<close>)
qed

lemma holds_delivery_ops:
  "holds_delivery k l s \<Longrightarrow> outbox_ok s \<Longrightarrow> ops_ok ops s \<Longrightarrow> \<forall>op \<in> set ops. leaves_delivery k l op \<Longrightarrow>
   holds_delivery k l (run_ops ops s)"
  by (induction ops arbitrary: s) (auto intro: holds_delivery_step outbox.step)

lemma claimed_holds:
  assumes "outbox_ok s" "distinct order"
    and "d \<in> set (fst (claim_due_invitation_emails e io order n w u s))"
  shows "holds_delivery (dlv_id d) (claim_until e u) (snd (claim_due_invitation_emails e io order n w u s))"
    and "s_email_deliveries (snd (claim_due_invitation_emails e io order n w u s)) (dlv_id d) = Some d"
    and "dlv_attempts d \<le> dlv_max_attempts d" and "dlv_locked_by d = claim_worker w"
    and "\<not> is_suppressed_locked (s_email_suppressions s) (inv_organization_id (dlv_invitation d))
           (inv_email (dlv_invitation d))"
proof -
  let ?f = "claim_key e io (claim_worker w) (claim_until e u) s"
  obtain ks where c: "claim_due_invitation_emails e io order n w u s = (claimed_of ?f ks,
      s\<lparr>s_email_deliveries := claims_written ?f (set ks) (s_email_deliveries s)\<rparr>)"
    using claim_due_prefix [OF assms(2)] by metis
  then obtain k where k: "k \<in> set ks" "?f k = Some (d, True)"
    using assms(3) by (auto simp: set_claimed_of)
  then obtain d0 where d0: "s_email_deliveries s k = Some d0"
      "claim_delivery e io (claim_worker w) (claim_until e u) s d0 = Some (d, True)"
    by (auto simp: claim_key_def split: option.splits)
  have id: "dlv_id d = k"
    using claim_delivery_ok(1) [OF d0(2)] outbox_okD [OF assms(1) d0(1)] by simp
  show st: "s_email_deliveries (snd (claim_due_invitation_emails e io order n w u s)) (dlv_id d) = Some d"
    using k by (simp add: c claims_written_def id)
  have d: "dlv_status d = InvitationEmailSending" "dlv_locked_until d = Some (claim_until e u)"
    "dlv_attempts d \<le> dlv_max_attempts d" "dlv_locked_by d = claim_worker w"
    "\<not> is_suppressed_locked (s_email_suppressions s) (inv_organization_id (dlv_invitation d))
           (inv_email (dlv_invitation d))"
    using d0(2) by (auto simp: claim_delivery_def split: if_splits option.splits)
  show "holds_delivery (dlv_id d) (claim_until e u) (snd (claim_due_invitation_emails e io order n w u s))"
    using st d(1,2) by (simp add: holds_delivery_def)
  show "dlv_attempts d \<le> dlv_max_attempts d" "dlv_locked_by d = claim_worker w"
    "\<not> is_suppressed_locked (s_email_suppressions s) (inv_organization_id (dlv_invitation d))
           (inv_email (dlv_invitation d))"
    by (rule d(3-5))+
qed

end
