(* ===== verification/Run_Invariants.thy ===== *)
theory Run_Invariants
  imports Store_Invariants "HOL-Library.Sublist"
begin

text \<open>
  The invariant of the runs, chats, messages, usages and event logs of the in-memory store,
  and what an execution can never undo in them: a terminal status stays, a log only grows,
  a chat keeps its messages.
\<close>

section \<open>Runs, chats and events\<close>

definition run_shape :: "run \<Rightarrow> bool" where
  "run_shape r \<longleftrightarrow>
     (run_status r = RunRunning \<longrightarrow> run_started_at r \<noteq> None) \<and>
     (is_terminal_run_status (run_status r) \<longleftrightarrow> run_finished_at r \<noteq> None) \<and>
     (run_lease_expires_at r = None \<longleftrightarrow> run_attempt_id r = '''') \<and>
     (run_attempt_count r = 0 \<longleftrightarrow> run_attempt_id r = '''') \<and> 0 \<le> run_attempt_count r"

definition run_ok :: "store \<Rightarrow> string \<Rightarrow> run \<Rightarrow> bool" where
  "run_ok s rid r \<longleftrightarrow>
     run_id r = rid \<and>
     (\<exists>chat. s_chats s (run_chat_id r) = Some chat \<and> cht_user_id chat = run_user_id r) \<and>
     run_shape r \<and> run_usage r = map_get zero_run_usage (s_run_usage s) rid"

definition log_ok :: "store \<Rightarrow> string \<Rightarrow> bool" where
  "log_ok s rid \<longleftrightarrow>
     dense_seqs (run_log s rid) \<and> map_get 0 (s_seq s) rid = int (length (run_log s rid)) \<and>
     (\<forall>ev \<in> set (run_log s rid). evt_run_id ev = rid \<and>
        (\<exists>r. s_runs s rid = Some r \<and> run_chat_id r = evt_chat_id ev))"

definition user_messages :: "store \<Rightarrow> string \<Rightarrow> message list" where
  "user_messages s chat = filter (\<lambda>m. msg_role m = RoleUser) (chat_messages s chat)"

text \<open>
  The user messages of a chat and the runs of the chat match one to one, in the messages'
  \<open>run_id\<close>.
\<close>

definition messages_ok :: "store \<Rightarrow> string \<Rightarrow> bool" where
  "messages_ok s chat \<longleftrightarrow>
     (\<forall>m \<in> set (chat_messages s chat). msg_chat_id m = chat) \<and>
     distinct (map msg_run_id (user_messages s chat)) \<and>
     msg_run_id ` set (user_messages s chat) =
       {rid. \<exists>r. s_runs s rid = Some r \<and> run_chat_id r = chat}"

definition run_inv :: "store \<Rightarrow> bool" where
  "run_inv s \<longleftrightarrow>
     (\<forall>c chat. s_chats s c = Some chat \<longrightarrow> cht_id chat = c) \<and>
     (\<forall>rid r. s_runs s rid = Some r \<longrightarrow> run_ok s rid r) \<and>
     dom (s_run_usage s) \<subseteq> dom (s_runs s) \<and>
     (\<forall>rid. log_ok s rid) \<and>
     dom (s_messages s) \<subseteq> dom (s_chats s) \<and>
     (\<forall>chat. messages_ok s chat)"

lemma run_inv_cong: "same_part RunPart s t \<Longrightarrow> run_inv s = run_inv t"
  by (simp add: run_inv_def run_ok_def log_ok_def run_log_def messages_ok_def user_messages_def
      chat_messages_def)

lemma run_inv_new: "run_inv (new_store now)"
  by (simp add: run_inv_def new_store_def log_ok_def run_log_def messages_ok_def
      user_messages_def chat_messages_def)

lemma run_invD:
  assumes "run_inv s"
  shows "s_chats s c = Some chat \<Longrightarrow> cht_id chat = c"
    and "s_runs s rid = Some r \<Longrightarrow> run_ok s rid r"
    and "log_ok s rid" and "messages_ok s c"
    and "s_runs s rid = None \<Longrightarrow> s_run_usage s rid = None"
    and "s_chats s c = None \<Longrightarrow> s_messages s c = None"
  using assms by (auto simp: run_inv_def)

lemma run_ok_cong:
  "s_chats t = s_chats s \<Longrightarrow> s_run_usage t = s_run_usage s \<Longrightarrow> run_ok t = run_ok s"
  by (intro ext) (simp add: run_ok_def)

lemma messages_ok_cong:
  "s_messages t = s_messages s \<Longrightarrow> s_runs t = s_runs s \<Longrightarrow> messages_ok t = messages_ok s"
  by (rule ext) (simp add: messages_ok_def user_messages_def chat_messages_def)

lemma claim_shape:
  assumes "claim_run_attempt e rid attempt worker lease s = (Inr r', s')"
    and "s_runs s rid = Some r" "run_shape r"
  shows "run_shape r' \<and> run_user_id r' = run_user_id r \<and> run_usage r' = run_usage r"
proof (cases "is_terminal_run_status (run_status r)")
  case True
  then show ?thesis using assms by (simp add: claim_run_attempt_def)
next
  case False
  then have "run_finished_at r = None" "0 \<le> run_attempt_count r" "attempt \<noteq> ''''"
    "run_attempt_id r = attempt \<Longrightarrow> run_attempt_count r \<noteq> 0"
    using assms by (auto simp: run_shape_def claim_run_attempt_def)
  with False assms(1,2) show ?thesis
    by (auto simp: claim_run_attempt_def run_shape_def Let_def split: if_splits)
qed

lemma update_shape:
  assumes "update_run_status e rid st err s = (Inr r', s')"
    and "s_runs s rid = Some r" "run_shape r"
  shows "run_shape r' \<and> run_user_id r' = run_user_id r \<and> run_usage r' = run_usage r"
proof (cases "is_terminal_run_status (run_status r) \<and> run_status r \<noteq> st")
  case True
  then show ?thesis using assms by (simp add: update_run_status_def)
next
  case False
  then have "is_terminal_run_status (run_status r) \<Longrightarrow> is_terminal_run_status st" by simp
  then have "\<not> is_terminal_run_status st \<Longrightarrow> run_finished_at r = None"
    using assms(3) by (auto simp: run_shape_def)
  moreover have r': "r' = r\<lparr>run_started_at := (if st = RunRunning \<and> run_started_at r = None
        then Some (e_now e) else run_started_at r),
      run_finished_at := (if is_terminal_run_status st then Some (e_now e) else run_finished_at r),
      run_status := st, run_error := err, run_updated_at := e_now e\<rparr>"
    using assms(1,2) False
    by (cases r; cases st; cases "run_started_at r") (auto simp: update_run_status_def Let_def)
  ultimately show ?thesis
    using assms(3) by (simp add: run_shape_def r')
qed

lemma no_run_no_log: "run_inv s \<Longrightarrow> s_runs s rid = None \<Longrightarrow> run_log s rid = []"
  using run_invD(3) [of s rid] by (cases "run_log s rid") (auto simp: log_ok_def)

text \<open>A step that rewrites one run, keeping its identity, keeps the invariant if the run stays well-formed.\<close>

lemma run_inv_rewrite:
  assumes "run_inv s" "s_runs s rid = Some r" "run_chat_id r' = run_chat_id r"
    and "run_ok s rid r'"
  shows "run_inv (s\<lparr>s_runs := (s_runs s)(rid \<mapsto> r')\<rparr>)"
proof -
  let ?s = "s\<lparr>s_runs := (s_runs s)(rid \<mapsto> r')\<rparr>"
  have runs: "{q. \<exists>v. s_runs ?s q = Some v \<and> run_chat_id v = c} =
      {q. \<exists>v. s_runs s q = Some v \<and> run_chat_id v = c}" for c
    using assms(2,3) by auto
  have "run_ok ?s q v" if "s_runs ?s q = Some v" for q v
    using that assms run_invD(2) [OF assms(1)] by (auto simp: run_ok_def split: if_splits)
  moreover have "log_ok ?s q" for q
    using run_invD(3) [OF assms(1), of q] assms(2,3)
    by (fastforce simp: log_ok_def run_log_def split: if_splits)
  moreover have "messages_ok ?s c" for c
    using run_invD(4) [OF assms(1), of c]
    unfolding messages_ok_def runs by (simp add: user_messages_def chat_messages_def)
  ultimately show ?thesis using assms(1,2) by (auto simp: run_inv_def)
qed

lemma run_inv_claim:
  assumes "run_inv s"
  shows "run_inv (snd (claim_run_attempt e rid attempt worker lease s))"
proof -
  obtain res s' where c: "claim_run_attempt e rid attempt worker lease s = (res, s')"
    by (cases "claim_run_attempt e rid attempt worker lease s")
  show ?thesis
  proof (cases res)
    case (Inl err)
    then show ?thesis using c assms by (metis claim_Inl snd_conv)
  next
    case (Inr r')
    with c have ci: "claim_run_attempt e rid attempt worker lease s = (Inr r', s')" by simp
    then show ?thesis
    proof (cases rule: claim_Inr_cases)
      case terminal
      then show ?thesis using c assms by simp
    next
      case (claimed r)
      have ok: "run_ok s rid r" using assms claimed(1) run_invD by blast
      then have "run_ok s rid r'"
        using claimed claim_shape [OF ci claimed(1)] by (auto simp: run_ok_def)
      then show ?thesis using run_inv_rewrite assms c claimed by simp
    qed
  qed
qed

lemma run_inv_update:
  assumes "run_inv s"
  shows "run_inv (snd (update_run_status e rid st err s))"
proof -
  obtain res s' where u: "update_run_status e rid st err s = (res, s')"
    by (cases "update_run_status e rid st err s")
  show ?thesis
  proof (cases res)
    case (Inl err')
    then have "s' = s" using u by (auto simp: update_run_status_def Let_def split: option.splits if_splits)
    then show ?thesis using u assms by simp
  next
    case (Inr r')
    with u have ui: "update_run_status e rid st err s = (Inr r', s')" by simp
    then show ?thesis
    proof (cases rule: update_Inr_cases)
      case absorbed
      then show ?thesis using u assms by simp
    next
      case (written r)
      have "run_ok s rid r" using assms written(1) run_invD by blast
      then have "run_ok s rid r'"
        using written update_shape [OF ui written(1)] by (auto simp: run_ok_def)
      then show ?thesis using run_inv_rewrite assms u written by simp
    qed
  qed
qed

lemma run_inv_usage:
  assumes "run_inv s"
  shows "run_inv (snd (save_run_usage rid u s))"
proof (cases "s_runs s rid")
  case None
  then show ?thesis using assms by (simp add: save_run_usage_def)
next
  case (Some r)
  let ?u = "normalize_run_usage u"
  let ?t = "s\<lparr>s_run_usage := (s_run_usage s)(rid \<mapsto> ?u), s_runs := (s_runs s)(rid \<mapsto> r\<lparr>run_usage := ?u\<rparr>)\<rparr>"
  have runs: "{q. \<exists>v. s_runs ?t q = Some v \<and> run_chat_id v = c} =
      {q. \<exists>v. s_runs s q = Some v \<and> run_chat_id v = c}" for c
    using Some by auto
  have "run_ok ?t q v" if q: "s_runs ?t q = Some v" for q v
  proof (cases "q = rid")
    case True
    then show ?thesis using q run_invD(2) [OF assms Some] by (auto simp: run_ok_def run_shape_def)
  next
    case False
    then show ?thesis using q run_invD(2) [OF assms, of q v] by (simp add: run_ok_def)
  qed
  moreover have "log_ok ?t q" for q
    using run_invD(3) [OF assms, of q] Some
    by (fastforce simp: log_ok_def run_log_def split: if_splits)
  moreover have "messages_ok ?t c" for c
    using run_invD(4) [OF assms, of c]
    unfolding messages_ok_def runs by (simp add: user_messages_def chat_messages_def)
  ultimately have "run_inv ?t" using assms Some by (auto simp: run_inv_def)
  then show ?thesis using Some by (simp add: save_run_usage_def Let_def)
qed

lemma run_inv_add_event:
  assumes "run_inv s"
  shows "run_inv (snd (add_event e rid typ txt payload s))"
proof (cases "s_runs s rid")
  case None
  then show ?thesis using assms by (simp add: add_event_def add_event_locked_def)
next
  case (Some r)
  obtain ev t where ae: "add_event e rid typ txt payload s = (Inr ev, t)"
    using Some by (auto simp: add_event_def add_event_locked_def Let_def)
  have log: "log_ok s rid" using assms run_invD by blast
  from ae show ?thesis
  proof (elim add_event_Inr)
    fix r' assume r': "s_runs s rid = Some r'" "evt_run_id ev = rid"
      "evt_seq ev = map_get 0 (s_seq s) rid + 1" "evt_chat_id ev = run_chat_id r'"
      "s_events t = (s_events s)(rid \<mapsto> run_log s rid @ [ev])"
      "s_seq t = (s_seq s)(rid \<mapsto> evt_seq ev)" "s_runs t = s_runs s" "s_chats t = s_chats s"
    have same: "s_run_usage t = s_run_usage s" "s_messages t = s_messages s"
      using ae by (auto simp: add_event_def add_event_locked_def send_event_def Let_def
          split: option.splits)
    have runlog: "run_log t q = (if q = rid then run_log s rid @ [ev] else run_log s q)" for q
      using r' by (simp add: run_log_def)
    have "log_ok t q" for q
      using run_invD(3) [OF assms, of q] log r'
      by (auto simp: log_ok_def runlog dense_seqs_snoc)
    then have "run_inv t"
      using assms r' same run_ok_cong [of t s] messages_ok_cong [of t s]
      by (simp add: run_inv_def)
    with ae show ?thesis by simp
  qed
qed

section \<open>Steps on chats\<close>

lemma run_inv_chat_upd:
  assumes "run_inv s" "s_chats s c = Some chat" "cht_id chat' = c"
    and "cht_user_id chat' = cht_user_id chat"
  shows "run_inv (s\<lparr>s_chats := (s_chats s)(c \<mapsto> chat')\<rparr>)"
proof -
  let ?t = "s\<lparr>s_chats := (s_chats s)(c \<mapsto> chat')\<rparr>"
  have "run_ok ?t q v" if "s_runs s q = Some v" for q v
    using that assms run_invD(2) [OF assms(1) that] by (auto simp: run_ok_def)
  moreover have "log_ok ?t q" for q
    using run_invD(3) [OF assms(1), of q] by (simp add: log_ok_def run_log_def)
  moreover have "messages_ok ?t = messages_ok s" by (rule messages_ok_cong) simp_all
  ultimately show ?thesis using assms by (auto simp: run_inv_def)
qed

lemma run_inv_new_chat:
  assumes "run_inv s" "s_chats s c = None" "cht_id chat = c"
  shows "run_inv (s\<lparr>s_chats := (s_chats s)(c \<mapsto> chat)\<rparr>)"
proof -
  let ?t = "s\<lparr>s_chats := (s_chats s)(c \<mapsto> chat)\<rparr>"
  have "run_ok ?t q v" if "s_runs s q = Some v" for q v
    using that assms run_invD(2) [OF assms(1) that] by (auto simp: run_ok_def)
  moreover have "log_ok ?t q" for q
    using run_invD(3) [OF assms(1), of q] by (simp add: log_ok_def run_log_def)
  moreover have "messages_ok ?t = messages_ok s" by (rule messages_ok_cong) simp_all
  ultimately show ?thesis using assms by (auto simp: run_inv_def)
qed

lemma run_inv_create_chat:
  "run_inv s \<Longrightarrow> s_chats s (e_id e ''chat'') = None \<Longrightarrow>
   run_inv (snd (create_chat e user project title s))"
  by (simp add: create_chat_def run_inv_new_chat Let_def)

lemma run_inv_archive: "run_inv s \<Longrightarrow> run_inv (snd (set_chat_archived e c user b s))"
  by (auto simp: set_chat_archived_def Let_def run_invD intro!: run_inv_chat_upd split: option.split)

lemma run_inv_message:
  assumes "run_inv s" "s_chats s c = Some chat" "msg_chat_id m = c" "msg_role m \<noteq> RoleUser"
  shows "run_inv (s\<lparr>s_messages := (s_messages s)(c \<mapsto> chat_messages s c @ [m])\<rparr>)"
proof -
  let ?t = "s\<lparr>s_messages := (s_messages s)(c \<mapsto> chat_messages s c @ [m])\<rparr>"
  have msgs: "chat_messages ?t d = (if d = c then chat_messages s c @ [m] else chat_messages s d)" for d
    by (simp add: chat_messages_def)
  have "user_messages ?t d = user_messages s d" for d
    using assms(4) by (simp add: user_messages_def msgs)
  then have "messages_ok ?t d" for d
    using run_invD(4) [OF assms(1), of d] assms(3) by (simp add: messages_ok_def msgs)
  moreover have "run_ok ?t = run_ok s" by (rule run_ok_cong) simp_all
  moreover have "log_ok ?t q" for q
    using run_invD(3) [OF assms(1), of q] by (simp add: log_ok_def run_log_def)
  ultimately show ?thesis using assms by (auto simp: run_inv_def)
qed

lemma run_inv_assistant: "run_inv s \<Longrightarrow> run_inv (snd (add_assistant_message e c rid txt s))"
proof (cases "s_chats s c")
  case (Some chat)
  assume inv: "run_inv s"
  let ?m = "\<lparr>msg_id = e_id e ''msg'', msg_chat_id = c, msg_run_id = rid,
    msg_role = RoleAssistant, msg_content = txt, msg_created_at = e_now e\<rparr>"
  let ?t = "s\<lparr>s_messages := (s_messages s)(c \<mapsto> chat_messages s c @ [?m])\<rparr>"
  have "run_inv ?t" using run_inv_message [OF inv Some] by simp
  moreover have "cht_id chat = c" using run_invD(1) inv Some by blast
  ultimately have "run_inv (?t\<lparr>s_chats := (s_chats ?t)(c \<mapsto> chat\<lparr>cht_updated_at := e_now e\<rparr>)\<rparr>)"
    using Some by (intro run_inv_chat_upd) simp_all
  then show ?thesis using Some by (simp add: add_assistant_message_def Let_def)
qed (simp add: add_assistant_message_def)

text \<open>Adding the user message and its queued run together keeps the two in step.\<close>

lemma run_inv_user_pair:
  assumes "run_inv s" "s_chats s c = Some chat" "cht_user_id chat = run_user_id r"
    and "s_runs s (run_id r) = None" "run_chat_id r = c" "run_shape r" "run_usage r = zero_run_usage"
    and "msg_chat_id m = c" "msg_role m = RoleUser" "msg_run_id m = run_id r"
  shows "run_inv (s\<lparr>s_messages := (s_messages s)(c \<mapsto> chat_messages s c @ [m]),
                   s_runs := (s_runs s)(run_id r \<mapsto> r)\<rparr>)"
proof -
  let ?t = "s\<lparr>s_messages := (s_messages s)(c \<mapsto> chat_messages s c @ [m]),
              s_runs := (s_runs s)(run_id r \<mapsto> r)\<rparr>"
  have msgs: "chat_messages ?t d = (if d = c then chat_messages s c @ [m] else chat_messages s d)" for d
    by (simp add: chat_messages_def)
  have users: "user_messages ?t d = (if d = c then user_messages s c @ [m] else user_messages s d)" for d
    using assms(9) by (simp add: user_messages_def msgs)
  have runs: "{q. \<exists>v. s_runs ?t q = Some v \<and> run_chat_id v = d} =
      (if d = c then insert (run_id r) {q. \<exists>v. s_runs s q = Some v \<and> run_chat_id v = d}
       else {q. \<exists>v. s_runs s q = Some v \<and> run_chat_id v = d})" for d
    using assms(4,5) by auto
  have "run_id r \<notin> msg_run_id ` set (user_messages s c)"
    using run_invD(4) [OF assms(1), of c] assms(4) by (simp add: messages_ok_def)
  then have "messages_ok ?t d" for d
    using run_invD(4) [OF assms(1), of d] assms(8,10)
    unfolding messages_ok_def runs msgs users by auto
  moreover have "run_ok ?t q v" if "s_runs ?t q = Some v" for q v
  proof (cases "q = run_id r")
    case True
    then show ?thesis
      using that assms run_invD(5) [OF assms(1,4)] by (simp add: run_ok_def)
  next
    case False
    then show ?thesis using that run_invD(2) [OF assms(1), of q v] by (simp add: run_ok_def)
  qed
  moreover have "log_ok ?t q" for q
    using run_invD(3) [OF assms(1), of q] no_run_no_log [OF assms(1,4)]
    by (auto simp: log_ok_def run_log_def)
  ultimately show ?thesis using assms(1,2) by (auto simp: run_inv_def)
qed

lemma run_inv_user_message:
  assumes inv: "run_inv s" and fresh: "s_runs s (e_id e ''run'') = None"
  shows "run_inv (snd (add_user_message e c user txt s))"
proof (cases "s_chats s c")
  case None
  then show ?thesis using inv by (simp add: add_user_message_def)
next
  case (Some chat)
  show ?thesis
  proof (cases "cht_user_id chat = user")
    case False
    then show ?thesis using inv Some by (simp add: add_user_message_def)
  next
    case True
    let ?r = "queued_run e c user"
    let ?m = "\<lparr>msg_id = e_id e ''msg'', msg_chat_id = c, msg_run_id = run_id ?r,
      msg_role = RoleUser, msg_content = txt, msg_created_at = e_now e\<rparr>"
    let ?t = "s\<lparr>s_messages := (s_messages s)(c \<mapsto> chat_messages s c @ [?m]),
                s_runs := (s_runs s)(run_id ?r \<mapsto> ?r)\<rparr>"
    have "run_inv ?t"
      by (rule run_inv_user_pair [OF inv Some])
        (simp_all add: True fresh queued_run_def run_shape_def)
    moreover have id: "cht_id chat = c" using run_invD(1) inv Some by blast
    ultimately have chat: "run_inv (?t\<lparr>s_chats := (s_chats s)(c \<mapsto> chat')\<rparr>)"
      if "cht_id chat' = c" "cht_user_id chat' = user" for chat'
      using Some True that run_inv_chat_upd [of ?t c chat chat'] by simp
    let ?c = "if cht_title chat = ''New chat'' \<and> txt \<noteq> ''''
      then chat\<lparr>cht_last_run_id := run_id ?r, cht_updated_at := e_now e,
             cht_title := title_from_content txt\<rparr>
      else chat\<lparr>cht_last_run_id := run_id ?r, cht_updated_at := e_now e\<rparr>"
    have "same_part RunPart (?t\<lparr>s_chats := (s_chats s)(c \<mapsto> ?c)\<rparr>) (snd (add_user_message e c user txt s))"
      using Some True by (simp add: add_user_message_def Let_def)
    moreover have "run_inv (?t\<lparr>s_chats := (s_chats s)(c \<mapsto> ?c)\<rparr>)"
      by (rule chat) (simp_all add: id True)
    ultimately show ?thesis using run_inv_cong by blast
  qed
qed

lemma run_inv_step:
  assumes "run_inv s" "op_ok op s" "writes op = Some RunPart"
  shows "run_inv (op_effect op s)"
  using writes_cases(1) [OF assms(3)]
proof (elim disjE exE)
  fix c assume "op = ChatOp c"
  then show ?thesis
    using assms(1,2)
    by (cases c) (auto simp: run_inv_create_chat run_inv_archive run_inv_user_message run_inv_assistant)
next
  fix r assume "op = RunOp r"
  then show ?thesis
    using assms(1)
    by (cases r) (auto simp: run_inv_claim run_inv_update run_inv_usage run_inv_add_event)
qed

interpretation run_states: part_invariant run_inv RunPart
  using run_inv_cong run_inv_new run_inv_step by unfold_locales blast+

section \<open>What lasts\<close>

text \<open>
  From one state to any later one: a run stays, with its chat and its owner; its status
  changes only while it is not terminal; its log grows at the end; so do a chat's messages.
\<close>

definition run_kept :: "store \<Rightarrow> store \<Rightarrow> string \<Rightarrow> bool" where
  "run_kept s t rid \<longleftrightarrow>
     (\<forall>r. s_runs s rid = Some r \<longrightarrow>
        (\<exists>r'. s_runs t rid = Some r' \<and> run_chat_id r' = run_chat_id r \<and>
              run_user_id r' = run_user_id r \<and> run_created_at r' = run_created_at r \<and>
              run_workspace_id r' = run_workspace_id r \<and>
              run_attempt_count r \<le> run_attempt_count r' \<and>
              (is_terminal_run_status (run_status r) \<longrightarrow> run_status r' = run_status r)))"

definition runs_last :: "store \<Rightarrow> store \<Rightarrow> bool" where
  "runs_last s t \<longleftrightarrow>
     (\<forall>rid. run_kept s t rid) \<and> (\<forall>rid. prefix (run_log s rid) (run_log t rid)) \<and>
     (\<forall>c. prefix (chat_messages s c) (chat_messages t c))"

lemma run_kept_refl [simp]: "s_runs t = s_runs s \<Longrightarrow> run_kept s t rid"
  by (simp add: run_kept_def)

lemma run_kept_trans:
  assumes "run_kept s t rid" "run_kept t u rid"
  shows "run_kept s u rid"
  unfolding run_kept_def
proof (intro allI impI)
  fix r assume "s_runs s rid = Some r"
  then obtain r1 where 1: "s_runs t rid = Some r1" "run_chat_id r1 = run_chat_id r"
      "run_user_id r1 = run_user_id r" "run_created_at r1 = run_created_at r"
      "run_workspace_id r1 = run_workspace_id r" "run_attempt_count r \<le> run_attempt_count r1"
      "is_terminal_run_status (run_status r) \<longrightarrow> run_status r1 = run_status r"
    using assms(1) unfolding run_kept_def by blast
  then obtain r2 where "s_runs u rid = Some r2" "run_chat_id r2 = run_chat_id r1"
      "run_user_id r2 = run_user_id r1" "run_created_at r2 = run_created_at r1"
      "run_workspace_id r2 = run_workspace_id r1" "run_attempt_count r1 \<le> run_attempt_count r2"
      "is_terminal_run_status (run_status r1) \<longrightarrow> run_status r2 = run_status r1"
    using assms(2) unfolding run_kept_def by blast
  with 1 show "\<exists>r'. s_runs u rid = Some r' \<and> run_chat_id r' = run_chat_id r \<and>
      run_user_id r' = run_user_id r \<and> run_created_at r' = run_created_at r \<and>
      run_workspace_id r' = run_workspace_id r \<and> run_attempt_count r \<le> run_attempt_count r' \<and>
      (is_terminal_run_status (run_status r) \<longrightarrow> run_status r' = run_status r)"
    by auto
qed

lemma runs_last_same: "same_part RunPart s t \<Longrightarrow> runs_last s t"
  using run_log_cong [of s t] by (simp add: runs_last_def chat_messages_def)

lemma runs_last_trans: "runs_last s t \<Longrightarrow> runs_last t u \<Longrightarrow> runs_last s u"
  unfolding runs_last_def
  by (intro conjI allI; elim conjE)
    (erule allE, erule allE, erule (1) run_kept_trans | meson prefix_order.trans)+

text \<open>A step on one run, or a new run, that leaves logs and messages alone.\<close>

lemma claim_kept: "run_kept s (snd (claim_run_attempt e rid attempt worker lease s)) q"
proof (cases "s_runs s rid")
  case (Some r)
  then show ?thesis
    by (auto simp: claim_run_attempt_def run_kept_def Let_def)
qed (simp add: claim_run_attempt_def)

lemma update_kept: "run_kept s (snd (update_run_status e rid st err s)) q"
proof (cases "s_runs s rid")
  case (Some r)
  then show ?thesis
    by (auto simp: update_run_status_def run_kept_def Let_def)
qed (simp add: update_run_status_def)

lemma usage_kept: "run_kept s (snd (save_run_usage rid u s)) q"
  by (auto simp: save_run_usage_def run_kept_def Let_def split: option.split)

lemma user_message_kept:
  "s_runs s (e_id e ''run'') = None \<Longrightarrow> run_kept s (snd (add_user_message e c user txt s)) q"
  by (auto simp: add_user_message_def run_kept_def queued_run_def Let_def split: option.split)

lemma add_event_last: "runs_last s (snd (add_event e rid typ txt payload s))"
proof (cases "s_runs s rid")
  case (Some r)
  then show ?thesis
    by (auto simp: add_event_def add_event_locked_def send_event_def runs_last_def run_log_def
        chat_messages_def Let_def)
qed (simp add: add_event_def add_event_locked_def runs_last_same)

lemma run_steps_last:
  "runs_last s (snd (claim_run_attempt e rid attempt worker lease s))"
  "runs_last s (snd (update_run_status e rid st err s))"
  "runs_last s (snd (save_run_usage rid u s))"
  unfolding runs_last_def
  by (auto simp: claim_kept update_kept usage_kept;
      auto simp: claim_run_attempt_def update_run_status_def save_run_usage_def run_log_def
        chat_messages_def Let_def split: option.split)+

lemma chat_steps_last:
  "runs_last s (snd (create_chat e user project title s))"
  "runs_last s (snd (set_chat_archived e c user b s))"
  "runs_last s (snd (add_assistant_message e c rid txt s))"
  by (auto simp: create_chat_def set_chat_archived_def add_assistant_message_def runs_last_def
      run_log_def chat_messages_def Let_def split: option.split)

lemma user_message_last:
  "s_runs s (e_id e ''run'') = None \<Longrightarrow> runs_last s (snd (add_user_message e c user txt s))"
  unfolding runs_last_def
  by (auto simp: user_message_kept;
      auto simp: add_user_message_def run_log_def chat_messages_def Let_def split: option.split)+

lemma runs_last_step:
  assumes "op_ok op s" "writes op = Some RunPart"
  shows "runs_last s (op_effect op s)"
  using writes_cases(1) [OF assms(2)]
proof (elim disjE exE)
  fix c assume "op = ChatOp c"
  then show ?thesis using assms(1) by (cases c) (auto simp: chat_steps_last user_message_last)
next
  fix r assume "op = RunOp r"
  then show ?thesis by (cases r) (auto simp: run_steps_last add_event_last)
qed

interpretation runs: part_relation run_inv RunPart runs_last
  by unfold_locales (auto intro: runs_last_same runs_last_trans runs_last_step)

section \<open>Leases\<close>

text \<open>
  Attempt \<open>a\<close> holds run \<open>rid\<close> until \<open>l\<close>. The environment's side is \<open>claims_before\<close>: the
  claims of the run are made before \<open>l\<close>, and the holder does not shorten its own lease.
\<close>

definition holds_lease :: "string \<Rightarrow> string \<Rightarrow> gtime \<Rightarrow> store \<Rightarrow> bool" where
  "holds_lease rid a l s \<longleftrightarrow>
     (\<exists>r x. s_runs s rid = Some r \<and> run_attempt_id r = a \<and> run_lease_expires_at r = Some x \<and> l \<le> x)"

fun claims_before :: "string \<Rightarrow> string \<Rightarrow> gtime \<Rightarrow> store_op \<Rightarrow> bool" where
  "claims_before rid a l (RunOp (OpClaimRunAttempt e q b w x)) \<longleftrightarrow>
     (q = rid \<longrightarrow> e_now e < l \<and> (b = a \<longrightarrow> l \<le> x))"
| "claims_before rid a l _ \<longleftrightarrow> True"

lemma holds_lease_same: "s_runs t rid = s_runs s rid \<Longrightarrow> holds_lease rid a l t = holds_lease rid a l s"
  by (simp add: holds_lease_def)

lemma claim_other_run:
  "q \<noteq> rid \<Longrightarrow> s_runs (snd (claim_run_attempt e q b w x s)) rid = s_runs s rid"
  by (auto simp: claim_run_attempt_def Let_def split: option.split)

lemma holds_lease_claim:
  assumes "holds_lease rid a l s" "a \<noteq> ''''" "e_now e < l" "b = a \<longrightarrow> l \<le> x"
  shows "holds_lease rid a l (snd (claim_run_attempt e rid b w x s))"
  using assms
  by (auto simp: holds_lease_def claim_run_attempt_def lease_blocks_def after_def Let_def)

lemma holds_lease_write:
  "holds_lease rid a l s \<Longrightarrow> holds_lease rid a l (snd (update_run_status e q st err s))"
  "holds_lease rid a l s \<Longrightarrow> holds_lease rid a l (snd (save_run_usage q u s))"
  by (auto simp: holds_lease_def update_run_status_def save_run_usage_def Let_def split: option.split)

lemma holds_lease_chat:
  assumes "holds_lease rid a l s" "op_ok (ChatOp c) s"
  shows "holds_lease rid a l (chat_effect c s)"
  using assms
  by (cases c)
    (auto simp: holds_lease_def create_chat_def set_chat_archived_def add_user_message_def
      add_assistant_message_def queued_run_def Let_def split: option.split)

lemma holds_lease_event:
  "holds_lease rid a l s \<Longrightarrow> holds_lease rid a l (snd (add_event e q typ txt payload s))"
  by (auto simp: holds_lease_def add_event_def add_event_locked_def Let_def split: option.split)

lemma holds_lease_step:
  assumes "holds_lease rid a l s" "a \<noteq> ''''" "op_ok op s" "claims_before rid a l op"
  shows "holds_lease rid a l (op_effect op s)"
proof (cases "writes op = Some RunPart")
  case False
  then have "s_runs (op_effect op s) = s_runs s" using op_frame [of op RunPart s] by simp
  with assms(1) show ?thesis by (simp add: holds_lease_def)
next
  case True
  show ?thesis using writes_cases(1) [OF True]
  proof (elim disjE exE)
    fix c assume "op = ChatOp c"
    with assms holds_lease_chat show ?thesis by simp
  next
    fix r assume op: "op = RunOp r"
    show ?thesis
    proof (cases r)
      case (OpClaimRunAttempt e q b w x)
      show ?thesis
      proof (cases "q = rid")
        case True
        with OpClaimRunAttempt op assms show ?thesis by (simp add: holds_lease_claim)
      next
        case False
        with OpClaimRunAttempt op assms(1) show ?thesis
          using holds_lease_same [OF claim_other_run [OF False]] by simp
      qed
    qed (use op assms in \<open>simp_all add: holds_lease_write holds_lease_event\<close>)
  qed
qed

lemma holds_lease_ops:
  "holds_lease rid a l s \<Longrightarrow> a \<noteq> '''' \<Longrightarrow> ops_ok ops s \<Longrightarrow> \<forall>op \<in> set ops. claims_before rid a l op \<Longrightarrow>
   holds_lease rid a l (run_ops ops s)"
  by (induction ops arbitrary: s) (auto intro: holds_lease_step)

lemma holds_lease_fences:
  assumes "holds_lease rid a l s"
  shows "check_run_attempt rid b s = Inl ErrAttemptMismatch \<or> b = a"
    and "\<exists>r. check_run_attempt rid a s = Inr r"
  using assms by (auto simp: holds_lease_def check_run_attempt_def)

lemma claim_holds_lease:
  assumes "claim_run_attempt e rid a w l s = (Inr r, t)" "\<not> is_terminal_run_status (run_status r)"
  shows "holds_lease rid a l t"
  using assms(1)
proof (cases rule: claim_Inr_cases)
  case terminal
  with assms(2) show ?thesis by simp
next
  case (claimed r0)
  then show ?thesis by (simp add: holds_lease_def)
qed

end
