(* ===== verification/Repository.thy ===== *)
theory Repository
  imports Run_Invariants
begin

text \<open>
  The layer between the store and its callers: the operations of the interface
  \<open>Repository\<close> (services/control-plane/internal/app/interfaces.go) that the callers
  modelled here use, as a record of functions over a state type, the in-memory store as
  one such record, and \<open>RepositorySink\<close> with the helpers of
  services/control-plane/internal/app/runs.go. An operation of the sink is a sequence of
  repository operations; the \<open>i\<close>-th of them reads the clock and draws its identifiers
  from \<open>es i\<close>. The decorators of the repository, the quota release and the event
  fan-out, are functions from such a record to another.
\<close>

section \<open>The interface and the in-memory store behind it\<close>

record 's repository =
  rep_get_chat :: "string \<Rightarrow> 's \<Rightarrow> (chat_session \<times> message list) result"
  rep_get_run :: "string \<Rightarrow> 's \<Rightarrow> run result"
  rep_get_run_usage :: "string \<Rightarrow> 's \<Rightarrow> run_usage result"
  rep_list_events :: "string \<Rightarrow> int \<Rightarrow> 's \<Rightarrow> run_event list"
  rep_get_artifact :: "env \<Rightarrow> string \<Rightarrow> 's \<Rightarrow> artifact result"
  rep_list_runtime_skills :: "string \<Rightarrow> string \<Rightarrow> 's \<Rightarrow> runtime_skill list"
  rep_get_runtime_policy :: "string \<Rightarrow> 's \<Rightarrow> runtime_policy option"
  rep_add_assistant_message :: "env \<Rightarrow> string \<Rightarrow> string \<Rightarrow> string \<Rightarrow> 's \<Rightarrow> message result \<times> 's"
  rep_update_run_status :: "env \<Rightarrow> string \<Rightarrow> run_status \<Rightarrow> string \<Rightarrow> 's \<Rightarrow> run result \<times> 's"
  rep_save_run_usage :: "string \<Rightarrow> run_usage \<Rightarrow> 's \<Rightarrow> run_usage result \<times> 's"
  rep_add_event :: "env \<Rightarrow> string \<Rightarrow> run_event_type \<Rightarrow> string \<Rightarrow> goval \<Rightarrow> 's \<Rightarrow> run_event result \<times> 's"
  rep_add_artifact :: "env \<Rightarrow> artifact \<Rightarrow> 's \<Rightarrow> artifact result \<times> 's"

definition store_repository :: "store repository" where
  "store_repository =
     \<lparr>rep_get_chat = get_chat, rep_get_run = get_run, rep_get_run_usage = get_run_usage,
      rep_list_events = list_events, rep_get_artifact = get_artifact,
      rep_list_runtime_skills = list_runtime_skills_for_user,
      rep_get_runtime_policy = get_project_runtime_policy,
      rep_add_assistant_message = add_assistant_message,
      rep_update_run_status = update_run_status, rep_save_run_usage = save_run_usage,
      rep_add_event = add_event, rep_add_artifact = add_artifact\<rparr>"

lemma store_repository_simps [simp]:
  "rep_get_chat store_repository = get_chat"
  "rep_get_run store_repository = get_run"
  "rep_get_run_usage store_repository = get_run_usage"
  "rep_list_events store_repository = list_events"
  "rep_get_artifact store_repository = get_artifact"
  "rep_list_runtime_skills store_repository = list_runtime_skills_for_user"
  "rep_get_runtime_policy store_repository = get_project_runtime_policy"
  "rep_add_assistant_message store_repository = add_assistant_message"
  "rep_update_run_status store_repository = update_run_status"
  "rep_save_run_usage store_repository = save_run_usage"
  "rep_add_event store_repository = add_event"
  "rep_add_artifact store_repository = add_artifact"
  by (simp_all add: store_repository_def)

section \<open>The sink (runs.go)\<close>

definition non_empty :: "string \<Rightarrow> string \<Rightarrow> string" where
  "non_empty value fallback = (if value \<noteq> '''' then value else fallback)"

definition sink_emit ::
  "'s repository \<Rightarrow> env \<Rightarrow> string \<Rightarrow> run_event_type \<Rightarrow> string \<Rightarrow> goval \<Rightarrow> 's
     \<Rightarrow> app_error option \<times> 's" where
  "sink_emit R e rid typ text payload s =
     (case rep_add_event R e rid typ text payload s of
        (Inl err, s1) \<Rightarrow> (Some err, s1)
      | (Inr ev, s1) \<Rightarrow> (None, s1))"

definition own_artifact :: "run \<Rightarrow> artifact \<Rightarrow> artifact" where
  "own_artifact r a =
     a\<lparr>art_run_id := non_empty (art_run_id a) (run_id r),
       art_chat_id := non_empty (art_chat_id a) (run_chat_id r),
       art_user_id := non_empty (art_user_id a) (run_user_id r),
       art_workspace_id := non_empty (art_workspace_id a) (run_workspace_id r)\<rparr>"

text \<open>\<open>known_artifact\<close> is the artifact the repository already has for this run, if any.\<close>

definition known_artifact :: "'s repository \<Rightarrow> env \<Rightarrow> run \<Rightarrow> artifact \<Rightarrow> 's \<Rightarrow> artifact option" where
  "known_artifact R e r a s =
     (if art_id a \<noteq> '''' then
        (case rep_get_artifact R e (art_id a) s of
           Inl err \<Rightarrow> None
         | Inr existing \<Rightarrow> if art_run_id existing = run_id r then Some existing else None)
      else None)"

fun register_loop ::
  "'s repository \<Rightarrow> (nat \<Rightarrow> env) \<Rightarrow> run \<Rightarrow> string \<Rightarrow> artifact list \<Rightarrow> artifact list \<Rightarrow> 's
     \<Rightarrow> artifact list result \<times> 's" where
  "register_loop R es r rid [] saved s = (Inr saved, s)"
| "register_loop R es r rid (a # as) saved s =
     (case known_artifact R (es 0) r a s of
        Some existing \<Rightarrow> register_loop R (\<lambda>i. es (i + 3)) r rid as (saved @ [existing]) s
      | None \<Rightarrow>
          (case rep_add_artifact R (es 1) (own_artifact r a) s of
             (Inl err, s1) \<Rightarrow> (Inl err, s1)
           | (Inr x, s1) \<Rightarrow>
               (case rep_add_event R (es 2) rid EventArtifactCreated ''Artifact created.''
                       (VArtifact x) s1 of
                  (Inl err, s2) \<Rightarrow> (Inl err, s2)
                | (Inr ev, s2) \<Rightarrow>
                    register_loop R (\<lambda>i. es (i + 3)) r rid as (saved @ [x]) s2)))"

definition sink_register_artifacts ::
  "'s repository \<Rightarrow> (nat \<Rightarrow> env) \<Rightarrow> string \<Rightarrow> artifact list \<Rightarrow> 's
     \<Rightarrow> artifact list result \<times> 's" where
  "sink_register_artifacts R es rid as s =
     (case rep_get_run R rid s of
        Inl err \<Rightarrow> (Inl err, s)
      | Inr r \<Rightarrow>
          if is_terminal_run_status (run_status r) then (Inr [], s)
          else register_loop R es r rid as [] s)"

definition sink_complete ::
  "'s repository \<Rightarrow> (nat \<Rightarrow> env) \<Rightarrow> string \<Rightarrow> string \<Rightarrow> artifact list \<Rightarrow> 's
     \<Rightarrow> app_error option \<times> 's" where
  "sink_complete R es rid content as s =
     (case rep_get_run R rid s of
        Inl err \<Rightarrow> (Some err, s)
      | Inr r \<Rightarrow>
          if is_terminal_run_status (run_status r) then (None, s)
          else
            (case (if as \<noteq> [] then sink_register_artifacts R (\<lambda>i. es (i + 3)) rid as s
                   else (Inr [], s)) of
               (Inl err, s1) \<Rightarrow> (Some err, s1)
             | (Inr saved, s1) \<Rightarrow>
                 (case rep_add_assistant_message R (es 0) (run_chat_id r) rid content s1 of
                    (Inl err, s2) \<Rightarrow> (Some err, s2)
                  | (Inr m, s2) \<Rightarrow>
                      (case rep_update_run_status R (es 1) rid RunSucceeded '''' s2 of
                         (Inl err, s3) \<Rightarrow> (Some err, s3)
                       | (Inr r', s3) \<Rightarrow>
                           sink_emit R (es 2) rid EventRunSucceeded ''Run completed.'' VNil s3))))"

definition sink_complete_with_usage ::
  "'s repository \<Rightarrow> (nat \<Rightarrow> env) \<Rightarrow> string \<Rightarrow> string \<Rightarrow> run_usage \<Rightarrow> artifact list \<Rightarrow> 's
     \<Rightarrow> app_error option \<times> 's" where
  "sink_complete_with_usage R es rid content usage as s =
     (case rep_get_run R rid s of
        Inl err \<Rightarrow> (Some err, s)
      | Inr r \<Rightarrow>
          if is_terminal_run_status (run_status r) then (None, s)
          else
            (case rep_save_run_usage R rid usage s of
               (Inl err, s1) \<Rightarrow> (Some err, s1)
             | (Inr u, s1) \<Rightarrow> sink_complete R es rid content as s1))"

definition sink_fail_commit ::
  "'s repository \<Rightarrow> (nat \<Rightarrow> env) \<Rightarrow> string \<Rightarrow> string \<Rightarrow> 's \<Rightarrow> app_error option \<times> 's" where
  "sink_fail_commit R es rid text s =
     (case rep_update_run_status R (es 0) rid RunFailed text s of
        (Inl err, s1) \<Rightarrow> (Some err, s1)
      | (Inr r', s1) \<Rightarrow> sink_emit R (es 1) rid EventRunFailed text VNil s1)"

definition sink_fail ::
  "'s repository \<Rightarrow> (nat \<Rightarrow> env) \<Rightarrow> string \<Rightarrow> string \<Rightarrow> 's \<Rightarrow> app_error option \<times> 's" where
  "sink_fail R es rid text s =
     (case rep_get_run R rid s of
        Inl err \<Rightarrow> (Some err, s)
      | Inr r \<Rightarrow>
          if is_terminal_run_status (run_status r) then (None, s)
          else sink_fail_commit R es rid text s)"

definition sink_is_canceled :: "'s repository \<Rightarrow> string \<Rightarrow> 's \<Rightarrow> bool" where
  "sink_is_canceled R rid s =
     (case rep_get_run R rid s of Inl err \<Rightarrow> False | Inr r \<Rightarrow> run_status r = RunCanceled)"

section \<open>Skills and policy of a run (runs.go)\<close>

definition runtime_skills_for_run :: "'s repository \<Rightarrow> run \<Rightarrow> 's \<Rightarrow> runtime_skill list" where
  "runtime_skills_for_run R r s =
     (case rep_get_chat R (run_chat_id r) s of
        Inl err \<Rightarrow> []
      | Inr (chat, msgs) \<Rightarrow> rep_list_runtime_skills R (run_user_id r) (cht_project_id chat) s)"

definition allow_all_policy :: "string \<Rightarrow> runtime_policy" where
  "allow_all_policy project =
     \<lparr>rpl_project_id = project, rpl_skill_risk_policy = SkillRiskPolicyAllow,
      rpl_created_at = 0, rpl_updated_at = 0\<rparr>"

definition runtime_policy_for_run :: "'s repository \<Rightarrow> run \<Rightarrow> 's \<Rightarrow> runtime_policy" where
  "runtime_policy_for_run R r s =
     (case rep_get_chat R (run_chat_id r) s of
        Inl err \<Rightarrow> allow_all_policy ''''
      | Inr (chat, msgs) \<Rightarrow>
          (case rep_get_runtime_policy R (cht_project_id chat) s of
             Some policy \<Rightarrow> policy
           | None \<Rightarrow> allow_all_policy (cht_project_id chat)))"

definition skill_ids_from_runtime_skills :: "runtime_skill list \<Rightarrow> string list" where
  "skill_ids_from_runtime_skills skills = map (\<lambda>k. skl_id (rsk_skill k)) skills"

definition skill_ids_for_run :: "'s repository \<Rightarrow> run \<Rightarrow> 's \<Rightarrow> string list" where
  "skill_ids_for_run R r s = skill_ids_from_runtime_skills (runtime_skills_for_run R r s)"

fun contains_skill_id :: "string list \<Rightarrow> string \<Rightarrow> bool" where
  "contains_skill_id [] sid \<longleftrightarrow> False"
| "contains_skill_id (k # ks) sid \<longleftrightarrow> (if k = sid then True else contains_skill_id ks sid)"

lemma contains_skill_id_iff: "contains_skill_id ks sid \<longleftrightarrow> sid \<in> set ks"
  by (induction ks) auto


section \<open>What a caller sees of a repository\<close>

text \<open>
  The view of a repository: of each run its chat and its status, and of its event log
  the events that report an outcome. \<open>advance\<close> is the abstract status update and
  \<open>finish\<close> the abstract report; a report of a run that is unknown or finished is a
  no-operation.
\<close>

definition run_board :: "'s repository \<Rightarrow> 's \<Rightarrow> string \<Rightarrow> (string \<times> run_status) option" where
  "run_board R s rid =
     (case rep_get_run R rid s of Inl err \<Rightarrow> None | Inr r \<Rightarrow> Some (run_chat_id r, run_status r))"

definition events_of :: "'s repository \<Rightarrow> 's \<Rightarrow> string \<Rightarrow> run_event list" where
  "events_of R s rid = rep_list_events R rid 0 s"

definition is_outcome :: "run_event_type \<Rightarrow> bool" where
  "is_outcome typ \<longleftrightarrow> typ = EventRunSucceeded \<or> typ = EventRunFailed"

definition outcomes :: "'s repository \<Rightarrow> 's \<Rightarrow> string \<Rightarrow> run_event_type list" where
  "outcomes R s rid = filter is_outcome (map evt_type (events_of R s rid))"

type_synonym board = "string \<Rightarrow> (string \<times> run_status) option"

definition advance :: "string \<Rightarrow> run_status \<Rightarrow> board \<Rightarrow> board" where
  "advance rid st b =
     (case b rid of
        None \<Rightarrow> b
      | Some (c, x) \<Rightarrow>
          if is_terminal_run_status x \<and> x \<noteq> st then b else b(rid \<mapsto> (c, st)))"

definition view :: "'s repository \<Rightarrow> 's \<Rightarrow> board \<times> (string \<Rightarrow> run_event_type list)" where
  "view R s = (run_board R s, outcomes R s)"

definition finish ::
  "string \<Rightarrow> run_status \<Rightarrow> run_event_type \<Rightarrow> board \<times> (string \<Rightarrow> run_event_type list)
     \<Rightarrow> board \<times> (string \<Rightarrow> run_event_type list)" where
  "finish rid st typ v =
     (case fst v rid of
        None \<Rightarrow> v
      | Some (c, x) \<Rightarrow>
          if is_terminal_run_status x then v
          else ((fst v)(rid \<mapsto> (c, st)), (snd v)(rid := snd v rid @ [typ])))"

lemma board_cases:
  "run_board R s rid = None \<longleftrightarrow> (\<exists>err. rep_get_run R rid s = Inl err)"
  "run_board R s rid = Some (c, st) \<longleftrightarrow>
     (\<exists>r. rep_get_run R rid s = Inr r \<and> run_chat_id r = c \<and> run_status r = st)"
  by (auto simp: run_board_def split: sum.splits)

lemma outcomes_append:
  "events_of R t = (events_of R s)(rid := events_of R s rid @ [ev]) \<Longrightarrow>
   outcomes R t = (if is_outcome (evt_type ev)
     then (outcomes R s)(rid := outcomes R s rid @ [evt_type ev]) else outcomes R s)"
  by (auto simp: outcomes_def fun_eq_iff)

lemma outcomes_same: "events_of R t = events_of R s \<Longrightarrow> outcomes R t = outcomes R s"
  by (simp add: outcomes_def fun_eq_iff)

section \<open>The laws of a repository, and the sink over any of them\<close>

text \<open>
  \<open>valid\<close> is the repository's own invariant. A message to the chat of a known run, a
  status update, a usage and an event of a known run are never refused.
\<close>

locale run_repository =
  fixes R :: "'s repository" and valid :: "'s \<Rightarrow> bool"
  assumes update: "valid s \<Longrightarrow> rep_update_run_status R e rid st text s = (res, t) \<Longrightarrow>
      valid t \<and> run_board R t = advance rid st (run_board R s) \<and>
      events_of R t = events_of R s \<and> (isl res \<longleftrightarrow> run_board R s rid = None)"
    and event: "valid s \<Longrightarrow> rep_add_event R e rid typ text payload s = (rv, t) \<Longrightarrow>
      valid t \<and> run_board R t = run_board R s \<and> (isl rv \<longleftrightarrow> run_board R s rid = None) \<and>
      events_of R t =
        (case rv of Inl err \<Rightarrow> events_of R s
         | Inr ev \<Rightarrow> (events_of R s)(rid := events_of R s rid @ [ev])) \<and>
      (\<forall>ev. rv = Inr ev \<longrightarrow> evt_type ev = typ)"
    and message: "valid s \<Longrightarrow> rep_add_assistant_message R e c rid text s = (rm, t) \<Longrightarrow>
      valid t \<and> run_board R t = run_board R s \<and> events_of R t = events_of R s \<and>
      (\<forall>q st. run_board R s q = Some (c, st) \<longrightarrow> \<not> isl rm)"
    and usage: "valid s \<Longrightarrow> rep_save_run_usage R rid u s = (res', t) \<Longrightarrow>
      valid t \<and> run_board R t = run_board R s \<and> events_of R t = events_of R s \<and>
      (isl res' \<longleftrightarrow> run_board R s rid = None)"
    and artifact: "valid s \<Longrightarrow> rep_add_artifact R e a s = (out, t) \<Longrightarrow>
      valid t \<and> run_board R t = run_board R s \<and> events_of R t = events_of R s \<and> \<not> isl out"
begin

lemma register_loop:
  assumes "valid s" "run_board R s rid \<noteq> None" "register_loop R es r rid as saved s = (res, t)"
  shows "valid t \<and> view R t = view R s \<and>
    (\<exists>out. res = Inr (saved @ out) \<and> length out = length as)"
  using assms
proof (induction as arbitrary: es saved s)
  case (Cons a as)
  show ?case
  proof (cases "known_artifact R (es 0) r a s")
    case (Some existing)
    with Cons.prems have "register_loop R (\<lambda>i. es (i + 3)) r rid as (saved @ [existing]) s = (res, t)"
      by simp
    from Cons.IH [OF Cons.prems(1,2) this] show ?thesis by force
  next
    case None
    obtain out s1 where add: "rep_add_artifact R (es 1) (own_artifact r a) s = (out, s1)"
      by fastforce
    note a1 = artifact [OF Cons.prems(1) add]
    then obtain x where x: "out = Inr x" by (cases out) auto
    obtain ev s2 where emit: "rep_add_event R (es 2) rid EventArtifactCreated ''Artifact created.''
        (VArtifact x) s1 = (ev, s2)" by fastforce
    have "valid s1" using a1 by blast
    note e2 = event [OF this emit]
    then obtain y where y: "ev = Inr y" using a1 Cons.prems(2) by (cases ev) auto
    have s2: "valid s2" "run_board R s2 = run_board R s" "outcomes R s2 = outcomes R s"
      using a1 e2 y outcomes_append [of R s2 s1 rid y] outcomes_same [of R s1 s]
      by (auto simp: is_outcome_def)
    then have board: "run_board R s2 rid \<noteq> None" using Cons.prems(2) by simp
    have "register_loop R (\<lambda>i. es (i + 3)) r rid as (saved @ [x]) s2 = (res, t)"
      using Cons.prems(3) None add emit x y by simp
    from Cons.IH [OF s2(1) board this] s2 show ?thesis by (force simp: view_def)
  qed
qed simp

lemma register:
  assumes "valid s" "sink_register_artifacts R es rid as s = (res, t)"
  shows "valid t \<and> view R t = view R s \<and> (isl res \<longleftrightarrow> run_board R s rid = None)"
proof (cases "rep_get_run R rid s")
  case (Inl err)
  then show ?thesis
    using assms board_cases(1) [of R s rid] by (auto simp: sink_register_artifacts_def)
next
  case (Inr r)
  then have board: "run_board R s rid \<noteq> None" by (simp add: run_board_def)
  show ?thesis
  proof (cases "is_terminal_run_status (run_status r)")
    case True
    then show ?thesis using assms Inr board by (auto simp: sink_register_artifacts_def)
  next
    case False
    then have "register_loop R es r rid as [] s = (res, t)"
      using assms(2) Inr by (simp add: sink_register_artifacts_def)
    from register_loop [OF assms(1) board this] board show ?thesis by force
  qed
qed

lemma emit_outcome:
  assumes "valid s" "run_board R s rid \<noteq> None" "sink_emit R e rid typ text payload s = (res, t)"
    and "is_outcome typ"
  shows "valid t \<and> res = None \<and> run_board R t = run_board R s \<and>
    outcomes R t = (outcomes R s)(rid := outcomes R s rid @ [typ])"
proof -
  obtain out s1 where add: "rep_add_event R e rid typ text payload s = (out, s1)" by fastforce
  note ev = event [OF assms(1) add]
  then obtain x where x: "out = Inr x" using assms(2) by (cases out) auto
  then have "outcomes R s1 = (outcomes R s)(rid := outcomes R s rid @ [typ])"
    using ev assms(4) outcomes_append [of R s1 s rid x] by simp
  then show ?thesis using assms(3) add x ev by (auto simp: sink_emit_def)
qed

lemma report_step:
  assumes "valid s" "run_board R s rid = Some (c, x)" "\<not> is_terminal_run_status x"
    and "rep_update_run_status R e rid st text s = (res, t)"
    and "sink_emit R f rid typ text' payload t = (out, u)" "is_outcome typ"
  shows "\<not> isl res \<and> out = None \<and> valid u \<and> view R u = finish rid st typ (view R s)"
proof -
  note up = update [OF assms(1,4)]
  then have board: "run_board R t = (run_board R s)(rid \<mapsto> (c, st))"
    using assms(2,3) by (simp add: advance_def)
  have "valid t" using up by blast
  moreover have "run_board R t rid \<noteq> None" by (simp add: board)
  ultimately show ?thesis
    using emit_outcome [OF _ _ assms(5,6)] up board assms(2,3)
    by (simp add: view_def finish_def outcomes_same [of R t s])
qed

lemma unknown_finish: "run_board R s rid = None \<Longrightarrow> finish rid st typ (view R s) = view R s"
  by (simp add: finish_def view_def)

lemma terminal_finish:
  "run_board R s rid = Some (c, x) \<Longrightarrow> is_terminal_run_status x \<Longrightarrow>
   finish rid st typ (view R s) = view R s"
  by (simp add: finish_def view_def)

lemma fail:
  assumes "valid s" "sink_fail R es rid text s = (res, t)"
  shows "valid t \<and> view R t = finish rid RunFailed EventRunFailed (view R s) \<and>
    (res = None \<longleftrightarrow> run_board R s rid \<noteq> None)"
proof (cases "run_board R s rid")
  case None
  with assms show ?thesis by (auto simp: sink_fail_def board_cases(1) unknown_finish)
next
  case (Some cx)
  then obtain c x where cx: "run_board R s rid = Some (c, x)" by (cases cx) auto
  then obtain r where r: "rep_get_run R rid s = Inr r" "run_status r = x" by (auto simp: board_cases(2))
  show ?thesis
  proof (cases "is_terminal_run_status x")
    case True
    with assms cx r show ?thesis by (auto simp: sink_fail_def terminal_finish)
  next
    case False
    obtain up s1 where up: "rep_update_run_status R (es 0) rid RunFailed text s = (up, s1)" by fastforce
    obtain out u where em: "sink_emit R (es 1) rid EventRunFailed text VNil s1 = (out, u)" by fastforce
    from report_step [OF assms(1) cx False up em] have "\<not> isl up" "out = None" "valid u"
      "view R u = finish rid RunFailed EventRunFailed (view R s)" by (auto simp: is_outcome_def)
    moreover have "(res, t) = (out, u)"
      using assms(2) r False up em \<open>\<not> isl up\<close> by (cases up) (auto simp: sink_fail_def sink_fail_commit_def)
    ultimately show ?thesis using cx by simp
  qed
qed

lemma complete:
  assumes "valid s" "sink_complete R es rid content as s = (res, t)"
  shows "valid t \<and> view R t = finish rid RunSucceeded EventRunSucceeded (view R s) \<and>
    (res = None \<longleftrightarrow> run_board R s rid \<noteq> None)"
proof (cases "run_board R s rid")
  case None
  with assms show ?thesis by (auto simp: sink_complete_def board_cases(1) unknown_finish)
next
  case (Some cx)
  then obtain c x where cx: "run_board R s rid = Some (c, x)" by (cases cx) auto
  then obtain r where r: "rep_get_run R rid s = Inr r" "run_chat_id r = c" "run_status r = x"
    by (auto simp: board_cases(2))
  show ?thesis
  proof (cases "is_terminal_run_status x")
    case True
    with assms cx r show ?thesis by (auto simp: sink_complete_def terminal_finish)
  next
    case False
    obtain reg s1 where reg: "(if as \<noteq> [] then sink_register_artifacts R (\<lambda>i. es (i + 3)) rid as s
        else (Inr [], s)) = (reg, s1)" by fastforce
    have s1: "valid s1" "view R s1 = view R s" "\<not> isl reg"
      using reg assms(1) register [OF assms(1), of "\<lambda>i. es (i + 3)" rid as reg s1] cx
      by (auto split: if_splits)
    obtain msg s2 where msg: "rep_add_assistant_message R (es 0) c rid content s1 = (msg, s2)"
      by fastforce
    note m = message [OF s1(1) msg]
    have s2: "valid s2" "view R s2 = view R s" "\<not> isl msg"
      using m s1(2) cx outcomes_same [of R s2 s1] by (auto simp: view_def)
    have cx2: "run_board R s2 rid = Some (c, x)" using s2(2) cx by (simp add: view_def)
    obtain up s3 where up: "rep_update_run_status R (es 1) rid RunSucceeded '''' s2 = (up, s3)"
      by fastforce
    obtain out u where em: "sink_emit R (es 2) rid EventRunSucceeded ''Run completed.'' VNil s3 = (out, u)"
      by fastforce
    from report_step [OF s2(1) cx2 False up em] have u: "\<not> isl up" "out = None" "valid u"
      "view R u = finish rid RunSucceeded EventRunSucceeded (view R s)"
      by (auto simp: is_outcome_def s2(2))
    have "(res, t) = (out, u)"
      using assms(2) r False reg msg up em s1(3) s2(3) u(1)
      by (cases reg; cases msg; cases up) (auto simp: sink_complete_def)
    with u cx show ?thesis by simp
  qed
qed

lemma complete_with_usage:
  assumes "valid s" "sink_complete_with_usage R es rid content u as s = (res, t)"
  shows "valid t \<and> view R t = finish rid RunSucceeded EventRunSucceeded (view R s) \<and>
    (res = None \<longleftrightarrow> run_board R s rid \<noteq> None)"
proof (cases "run_board R s rid")
  case None
  with assms show ?thesis by (auto simp: sink_complete_with_usage_def board_cases(1) unknown_finish)
next
  case (Some cx)
  then obtain c x where cx: "run_board R s rid = Some (c, x)" by (cases cx) auto
  then obtain r where r: "rep_get_run R rid s = Inr r" "run_status r = x" by (auto simp: board_cases(2))
  show ?thesis
  proof (cases "is_terminal_run_status x")
    case True
    with assms cx r show ?thesis by (auto simp: sink_complete_with_usage_def terminal_finish)
  next
    case False
    obtain out s1 where save: "rep_save_run_usage R rid u s = (out, s1)" by fastforce
    note us = usage [OF assms(1) save]
    then have view: "view R s1 = view R s" "valid s1"
      using outcomes_same [of R s1 s] by (auto simp: view_def)
    have "\<not> isl out" using us cx by simp
    then have "sink_complete R es rid content as s1 = (res, t)"
      using assms(2) r False save by (cases out) (auto simp: sink_complete_with_usage_def)
    from complete [OF view(2) this] view cx us show ?thesis by simp
  qed
qed

end


section \<open>Sequences of reports\<close>

datatype report =
    Completed "nat \<Rightarrow> env" string string "artifact list"
  | CompletedWithUsage "nat \<Rightarrow> env" string string run_usage "artifact list"
  | Failed "nat \<Rightarrow> env" string string

fun report_effect :: "'s repository \<Rightarrow> report \<Rightarrow> 's \<Rightarrow> 's" where
  "report_effect R (Completed es rid content as) s = snd (sink_complete R es rid content as s)"
| "report_effect R (CompletedWithUsage es rid content u as) s =
     snd (sink_complete_with_usage R es rid content u as s)"
| "report_effect R (Failed es rid text) s = snd (sink_fail R es rid text s)"

fun reports_effect :: "'s repository \<Rightarrow> report list \<Rightarrow> 's \<Rightarrow> 's" where
  "reports_effect R [] s = s"
| "reports_effect R (x # xs) s = reports_effect R xs (report_effect R x s)"

fun report_run :: "report \<Rightarrow> string" where
  "report_run (Completed es rid content as) = rid"
| "report_run (CompletedWithUsage es rid content u as) = rid"
| "report_run (Failed es rid text) = rid"

fun report_status :: "report \<Rightarrow> run_status" where
  "report_status (Failed es rid text) = RunFailed"
| "report_status _ = RunSucceeded"

fun report_event :: "report \<Rightarrow> run_event_type" where
  "report_event (Failed es rid text) = EventRunFailed"
| "report_event _ = EventRunSucceeded"

definition report_abs ::
  "report \<Rightarrow> board \<times> (string \<Rightarrow> run_event_type list) \<Rightarrow> board \<times> (string \<Rightarrow> run_event_type list)" where
  "report_abs x = finish (report_run x) (report_status x) (report_event x)"

lemma report_status_terminal [simp]: "is_terminal_run_status (report_status x)"
  by (cases x) simp_all

lemma report_abs_idle:
  "fst v (report_run x) = None \<Longrightarrow> report_abs x v = v"
  "fst v (report_run x) = Some (c, st) \<Longrightarrow> is_terminal_run_status st \<Longrightarrow> report_abs x v = v"
  by (simp_all add: report_abs_def finish_def)

lemma report_abs_other:
  "rid \<noteq> report_run x \<Longrightarrow> fst (report_abs x v) rid = fst v rid \<and> snd (report_abs x v) rid = snd v rid"
  by (auto simp: report_abs_def finish_def split: option.splits)

text \<open>Of all the reports on one run the first counts, and only it.\<close>

lemma fold_reports_terminal:
  assumes "fst v rid = Some (c, st)" "is_terminal_run_status st"
  shows "fst (fold report_abs xs v) rid = Some (c, st) \<and> snd (fold report_abs xs v) rid = snd v rid"
  using assms
proof (induction xs arbitrary: v)
  case (Cons x xs)
  have "fst (report_abs x v) rid = fst v rid \<and> snd (report_abs x v) rid = snd v rid"
    using Cons.prems report_abs_idle(2) [of v x c st] report_abs_other [of rid x v]
    by (cases "rid = report_run x") auto
  with Cons show ?case by simp
qed simp

lemma fold_reports_first:
  assumes "fst v rid = Some (c, st)" "\<not> is_terminal_run_status st"
  shows "case find (\<lambda>x. report_run x = rid) xs of
      None \<Rightarrow> fst (fold report_abs xs v) rid = Some (c, st) \<and> snd (fold report_abs xs v) rid = snd v rid
    | Some x \<Rightarrow> fst (fold report_abs xs v) rid = Some (c, report_status x) \<and>
        snd (fold report_abs xs v) rid = snd v rid @ [report_event x]"
  using assms
proof (induction xs arbitrary: v)
  case (Cons x xs)
  show ?case
  proof (cases "report_run x = rid")
    case True
    then have "fst (report_abs x v) rid = Some (c, report_status x)"
      "snd (report_abs x v) rid = snd v rid @ [report_event x]"
      using Cons.prems by (simp_all add: report_abs_def finish_def)
    with True fold_reports_terminal [of "report_abs x v" rid c "report_status x" xs]
    show ?thesis by simp
  next
    case False
    with report_abs_other [of rid x v] Cons.prems have "fst (report_abs x v) rid = Some (c, st)"
      "snd (report_abs x v) rid = snd v rid" by auto
    with Cons.IH [of "report_abs x v"] Cons.prems(2) False show ?thesis
      by (simp split: option.splits)
  qed
qed simp

context run_repository
begin

lemma report:
  assumes "valid s"
  shows "valid (report_effect R x s) \<and> view R (report_effect R x s) = report_abs x (view R s)"
proof (cases x)
  case (Completed es rid content as)
  with complete [OF assms, of es rid content as] show ?thesis
    by (simp add: report_abs_def) (metis prod.collapse)
next
  case (CompletedWithUsage es rid content u as)
  with complete_with_usage [OF assms, of es rid content u as] show ?thesis
    by (simp add: report_abs_def) (metis prod.collapse)
next
  case (Failed es rid why)
  with fail [OF assms, of es rid why] show ?thesis
    by (simp add: report_abs_def) (metis prod.collapse)
qed

lemma reports:
  "valid s \<Longrightarrow>
   valid (reports_effect R xs s) \<and> view R (reports_effect R xs s) = fold report_abs xs (view R s)"
  by (induction xs arbitrary: s) (simp_all add: report)

lemma first_report:
  assumes "valid s" "run_board R s rid = Some (c, st)" "\<not> is_terminal_run_status st"
    and "find (\<lambda>x. report_run x = rid) xs = Some x"
  shows "run_board R (reports_effect R xs s) rid = Some (c, report_status x) \<and>
    outcomes R (reports_effect R xs s) rid = outcomes R s rid @ [report_event x]"
proof -
  have "fst (view R (reports_effect R xs s)) rid = Some (c, report_status x) \<and>
      snd (view R (reports_effect R xs s)) rid = outcomes R s rid @ [report_event x]"
    using reports [OF assms(1), of xs] fold_reports_first [of "view R s" rid c st xs] assms(2-4)
    by (simp add: view_def)
  then show ?thesis by (simp add: view_def)
qed

text \<open>
  The guard of \<open>Fail\<close> and its writes are separate operations of the repository. When another
  report gets in between, the status is already terminal and the update is absorbed, but the
  event is written.
\<close>

lemma late_fail_commit:
  assumes "valid s" "run_board R s rid = Some (c, st)" "is_terminal_run_status st" "st \<noteq> RunFailed"
  shows "run_board R (snd (sink_fail_commit R es rid text s)) rid = Some (c, st) \<and>
    outcomes R (snd (sink_fail_commit R es rid text s)) rid = outcomes R s rid @ [EventRunFailed]"
proof -
  obtain up t where up: "rep_update_run_status R (es 0) rid RunFailed text s = (up, t)" by fastforce
  obtain out u where em: "sink_emit R (es 1) rid EventRunFailed text VNil t = (out, u)" by fastforce
  note l = update [OF assms(1) up]
  then have t: "valid t" "run_board R t = run_board R s" "outcomes R t = outcomes R s"
    using assms(2-4) by (simp_all add: advance_def outcomes_same [of R t s])
  then have "run_board R t rid \<noteq> None" using assms(2) by simp
  note u = emit_outcome [OF t(1) this em]
  have "snd (sink_fail_commit R es rid text s) = u"
    using up em l assms(2) by (cases up) (simp_all add: sink_fail_commit_def)
  with u t assms(2) show ?thesis by (simp add: is_outcome_def)
qed

end

section \<open>The in-memory store keeps the laws\<close>

lemma store_board:
  "run_board store_repository s rid = map_option (\<lambda>r. (run_chat_id r, run_status r)) (s_runs s rid)"
  by (simp add: run_board_def get_run_def split: option.split)

lemma store_events: "run_inv s \<Longrightarrow> events_of store_repository s = run_log s"
  using run_invD(3) list_events_dense [of s _ 0] by (fastforce simp: events_of_def log_ok_def)

lemma store_events_same:
  assumes "run_inv s" "run_inv t" "s_events t = s_events s"
  shows "events_of store_repository t = events_of store_repository s"
  using store_events [OF assms(1)] store_events [OF assms(2)] run_log_cong [OF assms(3)] by simp

lemma store_same_view:
  assumes "run_inv s" "run_inv t" "s_runs t = s_runs s" "s_events t = s_events s"
  shows "run_board store_repository t = run_board store_repository s \<and>
    events_of store_repository t = events_of store_repository s"
  using store_events_same [OF assms(1,2,4)] assms(3) by (simp add: store_board fun_eq_iff)

lemma store_update_law:
  assumes "run_inv s" "update_run_status e rid st text s = (res, t)"
  shows "run_inv t \<and> run_board store_repository t = advance rid st (run_board store_repository s) \<and>
    events_of store_repository t = events_of store_repository s \<and>
    (isl res \<longleftrightarrow> run_board store_repository s rid = None)"
proof -
  have t: "run_inv t" using run_inv_update [OF assms(1), of e rid st "text"] assms(2) by simp
  have "s_events t = s_events s"
    using assms(2) by (auto simp: update_run_status_def Let_def split: option.splits if_splits)
  then have "events_of store_repository t = events_of store_repository s"
    by (rule store_events_same [OF assms(1) t])
  moreover have "run_board store_repository t = advance rid st (run_board store_repository s)"
    using assms(2)
    by (auto simp: store_board update_run_status_def advance_def Let_def fun_eq_iff
        split: option.splits if_splits)
  moreover have "isl res \<longleftrightarrow> run_board store_repository s rid = None"
    using assms(2) by (auto simp: store_board update_run_status_def Let_def split: option.splits if_splits)
  ultimately show ?thesis using t by simp
qed

lemma store_event_law:
  assumes "run_inv s" "add_event e rid typ text payload s = (rv, t)"
  shows "run_inv t \<and> run_board store_repository t = run_board store_repository s \<and>
    (isl rv \<longleftrightarrow> run_board store_repository s rid = None) \<and>
    events_of store_repository t = (case rv of Inl err \<Rightarrow> events_of store_repository s
      | Inr ev \<Rightarrow> (events_of store_repository s)(rid := events_of store_repository s rid @ [ev])) \<and>
    (\<forall>ev. rv = Inr ev \<longrightarrow> evt_type ev = typ)"
proof -
  have t: "run_inv t" using run_inv_add_event [OF assms(1), of e rid "typ" "text" payload] assms(2) by simp
  show ?thesis
  proof (cases rv)
    case (Inl err)
    then have "s_runs s rid = None" "t = s"
      using assms(2) by (auto simp: add_event_def add_event_locked_def Let_def split: option.splits)
    with Inl assms(1) show ?thesis by (simp add: store_board)
  next
    case (Inr ev)
    with assms(2) have "add_event e rid typ text payload s = (Inr ev, t)" by simp
    then show ?thesis
    proof (cases rule: add_event_Inr)
      case (1 r)
      then have "run_log t = (run_log s)(rid := run_log s rid @ [ev])"
        using 1(8) by (intro ext) (simp add: run_log_def)
      with 1 Inr t assms(1) show ?thesis by (simp add: store_board store_events fun_eq_iff)
    qed
  qed
qed

lemma store_message_law:
  assumes "run_inv s" "add_assistant_message e c rid text s = (rm, t)"
  shows "run_inv t \<and> run_board store_repository t = run_board store_repository s \<and>
    events_of store_repository t = events_of store_repository s \<and>
    (\<forall>q st. run_board store_repository s q = Some (c, st) \<longrightarrow> \<not> isl rm)"
proof -
  have t: "run_inv t" using run_inv_assistant [OF assms(1), of e c rid "text"] assms(2) by simp
  have "s_runs t = s_runs s" "s_events t = s_events s"
    using assms(2) by (auto simp: add_assistant_message_def Let_def split: option.splits)
  moreover have "\<not> isl rm" if b: "run_board store_repository s q = Some (c, st)" for q st
  proof -
    obtain r where "s_runs s q = Some r" "run_chat_id r = c"
      using b by (auto simp: store_board)
    then obtain chat where "s_chats s c = Some chat"
      using run_invD(2) [OF assms(1)] by (auto simp: run_ok_def)
    with assms(2) show ?thesis by (auto simp: add_assistant_message_def Let_def)
  qed
  ultimately show ?thesis using store_same_view assms(1) t by blast
qed

lemma store_usage_law:
  assumes "run_inv s" "save_run_usage rid u s = (res, t)"
  shows "run_inv t \<and> run_board store_repository t = run_board store_repository s \<and>
    events_of store_repository t = events_of store_repository s \<and>
    (isl res \<longleftrightarrow> run_board store_repository s rid = None)"
proof -
  have t: "run_inv t" using run_inv_usage [OF assms(1), of rid u] assms(2) by simp
  have "s_events t = s_events s"
    using assms(2) by (auto simp: save_run_usage_def Let_def split: option.splits)
  moreover have "run_board store_repository t = run_board store_repository s"
    using assms(2) by (auto simp: save_run_usage_def store_board Let_def fun_eq_iff split: option.splits)
  moreover have "isl res \<longleftrightarrow> run_board store_repository s rid = None"
    using assms(2) by (auto simp: save_run_usage_def store_board Let_def split: option.splits)
  ultimately show ?thesis using t store_events_same [OF assms(1) t] by blast
qed

lemma store_artifact_law:
  assumes "run_inv s" "add_artifact e a s = (out, t)"
  shows "run_inv t \<and> run_board store_repository t = run_board store_repository s \<and>
    events_of store_repository t = events_of store_repository s \<and> \<not> isl out"
proof -
  have same: "same_part RunPart s t" using assms(2) artifact_frames(2) [of RunPart s e a] by simp
  then have "run_inv t" using assms(1) run_inv_cong by blast
  moreover have "\<not> isl out" using assms(2) by (auto simp: add_artifact_def Let_def)
  moreover from same \<open>run_inv t\<close> have "run_board store_repository t = run_board store_repository s \<and>
      events_of store_repository t = events_of store_repository s"
    using store_same_view [OF assms(1)] by simp
  ultimately show ?thesis by blast
qed

interpretation store_sink: run_repository store_repository run_inv
  by (unfold_locales; unfold store_repository_simps;
      erule (1) store_update_law store_event_law store_message_law store_usage_law store_artifact_law)

end
