(* ===== verification/Sample_Execution.thy ===== *)
theory Sample_Execution
  imports Run_Invariants
begin

text \<open>
  A concrete execution of the in-memory store, which the witnesses of the properties start
  from: a chat, a message, the run it queues, a claim of that run by a worker, an event, and
  the cancellation of the run.
\<close>

definition demo_env :: "gtime \<Rightarrow> env" where
  "demo_env t = \<lparr>e_now = t, e_id = (\<lambda>p. p @ ''_1'')\<rparr>"

lemma demo_env_simps [simp]: "e_now (demo_env t) = t" "e_id (demo_env t) p = p @ ''_1''"
  by (simp_all add: demo_env_def)

definition demo_ops :: "store_op list" where
  "demo_ops =
     [ChatOp (OpCreateChat (demo_env 1) ''demo-user'' ''demo-project'' ''''),
      ChatOp (OpAddUserMessage (demo_env 2) ''chat_1'' ''demo-user'' ''hello''),
      RunOp (OpClaimRunAttempt (demo_env 3) ''run_1'' ''a'' ''w'' 100),
      RunOp (OpAddEvent (demo_env 4) ''run_1'' EventRunStarted '''' VNil)]"

definition demo_run :: run where
  "demo_run = \<lparr>run_id = ''run_1'', run_chat_id = ''chat_1'', run_user_id = ''demo-user'',
     run_workspace_id = ''ws_1'', run_attempt_id = ''a'', run_claimed_by = ''w'',
     run_lease_expires_at = Some 100, run_attempt_count = 1, run_status = RunRunning,
     run_error = '''', run_usage = zero_run_usage, run_created_at = 2, run_updated_at = 3,
     run_started_at = Some 3, run_finished_at = None\<rparr>"

definition demo_store :: store where "demo_store = run_ops demo_ops (new_store 0)"

lemmas demo_steps = demo_ops_def create_chat_def add_user_message_def queued_run_def
  claim_run_attempt_def add_event_def add_event_locked_def send_event_def Let_def

lemma demo_ops_ok: "ops_ok demo_ops (new_store 0)"
  by (simp add: demo_steps new_store_def)

lemma demo_reachable: "reachable demo_store"
  unfolding demo_store_def by (rule reachable_ops [OF reach_new demo_ops_ok])

lemma demo_store_run: "s_runs demo_store ''run_1'' = Some demo_run"
  by (simp add: demo_store_def demo_steps demo_run_def new_store_def)

definition demo_done :: store where
  "demo_done = op_effect (RunOp (OpUpdateRunStatus (demo_env 5) ''run_1'' RunCanceled '''')) demo_store"

lemma demo_done_reachable: "reachable demo_done"
  unfolding demo_done_def by (rule reach_op [OF demo_reachable]) simp

lemma demo_done_run:
  "s_runs demo_done ''run_1'' =
     Some (demo_run\<lparr>run_status := RunCanceled, run_finished_at := Some 5, run_updated_at := 5\<rparr>)"
  by (simp add: demo_done_def update_run_status_def demo_store_run demo_run_def Let_def)

end
