(* ===== verification/Sink_Properties.thy ===== *)
theory Sink_Properties
  imports Repository Sample_Execution
begin

text \<open>
  The properties of \<open>RepositorySink\<close> over the in-memory store: what a sequence of reports
  leaves behind, and what two reports do that run at the same time.
\<close>

lemma reachable_run_inv: "reachable s \<Longrightarrow> run_inv s"
  by (rule run_states.reach)

text \<open>C23. Of all the reports a run gets from \<open>Complete\<close>, \<open>CompleteWithUsage\<close> and \<open>Fail\<close>,
  one after the other, exactly the first counts: it decides the status of the run, and the
  event log of the run gets its outcome event and no other.\<close>

theorem first_report_wins:
  assumes "reachable s" "get_run rid s = Inr r" "\<not> is_terminal_run_status (run_status r)"
    and "find (\<lambda>x. report_run x = rid) xs = Some x"
  shows "(\<exists>r'. get_run rid (reports_effect store_repository xs s) = Inr r' \<and>
      run_status r' = report_status x) \<and>
    outcomes store_repository (reports_effect store_repository xs s) rid =
      outcomes store_repository s rid @ [report_event x]"
proof -
  have "run_board store_repository s rid = Some (run_chat_id r, run_status r)"
    using assms(2) by (simp add: run_board_def)
  from store_sink.first_report [OF reachable_run_inv [OF assms(1)] this assms(3,4)]
  show ?thesis by (auto simp: board_cases(2))
qed

abbreviation demo_envs :: "nat \<Rightarrow> env" where "demo_envs \<equiv> (\<lambda>i. demo_env (70 + int i))"

definition demo_reports :: "report list" where
  "demo_reports = [Failed demo_envs ''run_1'' ''boom'', Completed demo_envs ''run_1'' ''done'' []]"

lemma demo_get_run: "get_run ''run_1'' demo_store = Inr (demo_run\<lparr>run_usage := zero_run_usage\<rparr>)"
proof -
  have "s_run_usage demo_store = Map.empty"
    by (simp add: demo_store_def demo_steps new_store_def)
  then show ?thesis by (simp add: get_run_def demo_store_run map_get_def)
qed

theorem first_report_wins_witness:
  "\<exists>r'. get_run ''run_1'' (reports_effect store_repository demo_reports demo_store) = Inr r' \<and>
     run_status r' = RunFailed"
  using first_report_wins [OF demo_reachable demo_get_run, of demo_reports
      "Failed demo_envs ''run_1'' ''boom''"]
  by (simp add: demo_reports_def demo_run_def)

text \<open>C24. The sink refines the board of runs: whatever the reports, with their artifacts,
  messages and usages, the chats and statuses of the runs and the outcome events of their logs
  are those of the abstract reports.\<close>

theorem sink_refines_board:
  assumes "reachable s"
  shows "view store_repository (reports_effect store_repository xs s) =
    fold report_abs xs (view store_repository s)"
  using store_sink.reports [OF reachable_run_inv [OF assms]] by blast

theorem sink_refines_board_witness:
  "view store_repository (reports_effect store_repository demo_reports demo_store) =
    report_abs (Completed demo_envs ''run_1'' ''done'' [])
      (report_abs (Failed demo_envs ''run_1'' ''boom'') (view store_repository demo_store))"
  using sink_refines_board [OF demo_reachable, of demo_reports] by (simp add: demo_reports_def)

text \<open>Completing a known run never fails: \<open>Complete\<close> returns an error exactly when the
  run does not exist, with any content and any artifacts.\<close>

theorem complete_never_refused:
  assumes "reachable s"
  shows "fst (sink_complete store_repository es rid content as s) = None \<longleftrightarrow>
    (\<exists>r. get_run rid s = Inr r)"
proof -
  obtain res t where c: "sink_complete store_repository es rid content as s = (res, t)" by fastforce
  from store_sink.complete [OF reachable_run_inv [OF assms] this] show ?thesis
    using c by (cases "get_run rid s") (auto simp: run_board_def)
qed

theorem complete_never_refused_witness:
  "fst (sink_complete store_repository demo_envs ''run_1'' ''done'' [] demo_store) = None"
  using complete_never_refused [OF demo_reachable, of demo_envs "''run_1''" "''done''" "[]"] demo_get_run
  by simp

text \<open>\<open>Fail\<close> checks the status first and writes later. When another report ends the run
  in between, the status of that report stays, but the log of the run still gets a
  \<open>run.failed\<close> event after it.\<close>

theorem late_failure_is_logged:
  assumes "reachable s" "get_run rid s = Inr r" "\<not> is_terminal_run_status (run_status r)"
    and "t = snd (sink_complete store_repository es rid content as s)"
    and "u = snd (sink_fail_commit store_repository fs rid why t)"
  shows "(\<exists>r'. get_run rid u = Inr r' \<and> run_status r' = RunSucceeded) \<and>
    outcomes store_repository u rid =
      outcomes store_repository s rid @ [EventRunSucceeded, EventRunFailed]"
proof -
  have b: "run_board store_repository s rid = Some (run_chat_id r, run_status r)"
    using assms(2) by (simp add: run_board_def)
  have "sink_complete store_repository es rid content as s =
      (fst (sink_complete store_repository es rid content as s), t)" using assms(4) by simp
  from store_sink.complete [OF reachable_run_inv [OF assms(1)] this]
  have t: "run_inv t" and v: "view store_repository t =
      finish rid RunSucceeded EventRunSucceeded (view store_repository s)" by blast+
  have bt: "run_board store_repository t rid = Some (run_chat_id r, RunSucceeded)"
    and o: "outcomes store_repository t rid = outcomes store_repository s rid @ [EventRunSucceeded]"
    using v b assms(3) by (simp_all add: view_def finish_def)
  from store_sink.late_fail_commit [OF t bt] assms(5) o show ?thesis
    by (auto simp: board_cases(2))
qed

theorem late_failure_is_logged_witness:
  "outcomes store_repository (snd (sink_fail_commit store_repository demo_envs ''run_1'' ''boom''
      (snd (sink_complete store_repository demo_envs ''run_1'' ''done'' [] demo_store)))) ''run_1'' =
     outcomes store_repository demo_store ''run_1'' @ [EventRunSucceeded, EventRunFailed]"
  using late_failure_is_logged [OF demo_reachable demo_get_run _ refl refl]
  by (simp add: demo_run_def)

end
