(* ===== verification/Go_Text.thy ===== *)
theory Go_Text
  imports Prelude
begin

text \<open>
  More of the Go standard library: \<open>strings.Split\<close>, \<open>Cut\<close>, \<open>Join\<close>, \<open>HasPrefix\<close>,
  \<open>HasSuffix\<close> and \<open>Replacer\<close> on single bytes, \<open>strconv.Itoa\<close> and \<open>strconv.ParseInt\<close> in base ten,
  and the UTC calendar behind \<open>time.Format\<close>.
\<close>

section \<open>Pieces of strings\<close>

fun split_on :: "char \<Rightarrow> string \<Rightarrow> string list" where
  "split_on sep [] = [[]]"
| "split_on sep (c # cs) =
     (if c = sep then [] # split_on sep cs
      else (case split_on sep cs of [] \<Rightarrow> [[c]] | p # ps \<Rightarrow> (c # p) # ps))"

lemma split_on_not_Nil [simp]: "split_on sep s \<noteq> []"
  by (induction s) (auto split: list.splits)

lemma split_on_plain: "sep \<notin> set s \<Longrightarrow> split_on sep s = [s]"
  by (induction s) auto

lemma split_on_append: "sep \<notin> set s \<Longrightarrow> split_on sep (s @ sep # t) = s # split_on sep t"
  by (induction s) auto

fun cut_at :: "char \<Rightarrow> string \<Rightarrow> (string \<times> string) option" where
  "cut_at sep [] = None"
| "cut_at sep (c # cs) =
     (if c = sep then Some ([], cs)
      else (case cut_at sep cs of None \<Rightarrow> None | Some (a, b) \<Rightarrow> Some (c # a, b)))"

lemma cut_at_append: "sep \<notin> set a \<Longrightarrow> cut_at sep (a @ sep # b) = Some (a, b)"
  by (induction a) auto

lemma cut_at_Some: "cut_at sep s = Some (a, b) \<Longrightarrow> s = a @ sep # b \<and> sep \<notin> set a"
proof (induction s arbitrary: a)
  case (Cons c s)
  then show ?case by (cases "c = sep"; cases "cut_at sep s") auto
qed simp

fun join_with :: "string \<Rightarrow> string list \<Rightarrow> string" where
  "join_with sep [] = ''''"
| "join_with sep [s] = s"
| "join_with sep (s # t # ss) = s @ sep @ join_with sep (t # ss)"

definition has_prefix :: "string \<Rightarrow> string \<Rightarrow> bool" where
  "has_prefix s p = starts_with s p"

definition has_suffix :: "string \<Rightarrow> string \<Rightarrow> bool" where
  "has_suffix s p = starts_with (rev s) (rev p)"

definition trim_prefix :: "string \<Rightarrow> string \<Rightarrow> string" where
  "trim_prefix s p = (if has_prefix s p then drop (length p) s else s)"

text \<open>\<open>strings.TrimRight(s, "/")\<close>.\<close>

definition trim_right_slash :: "string \<Rightarrow> string" where
  "trim_right_slash s = rev (dropWhile (\<lambda>c. c = CHR 0x2F) (rev s))"

text \<open>\<open>strings.Fields\<close>: the words between runs of white space.\<close>

function word_length :: "string \<Rightarrow> nat" where
  "word_length s =
     (if s = [] \<or> leading_space white_space s \<noteq> 0 then 0 else Suc (word_length (tl s)))"
  by pat_completeness auto
termination
  by (relation "measure length") auto

declare word_length.simps [simp del]

function string_fields :: "string \<Rightarrow> string list" where
  "string_fields s =
     (let t = trim_left white_space s; n = word_length t
      in if n = 0 then [] else take n t # string_fields (drop n t))"
  by pat_completeness auto
termination
proof (relation "measure length")
  fix s :: string and t and n :: nat assume *: "t = trim_left white_space s" "n = word_length t" "n \<noteq> 0"
  obtain p where "s = p @ t" using trim_left_suffix *(1) by metis
  then have "length t \<le> length s" by (metis le_add2 length_append)
  moreover have "t \<noteq> []" using * by (auto simp: word_length.simps)
  ultimately show "(drop n t, s) \<in> measure length"
    using *(3) by simp (metis diff_less le_neq_implies_less length_greater_0_conv less_le_trans diff_le_self zero_less_iff_neq_zero)
qed simp

declare string_fields.simps [simp del]

section \<open>Decimal numbers\<close>

definition digit_char :: "nat \<Rightarrow> char" where
  "digit_char n = char_of (48 + n)"

definition digit_value :: "char \<Rightarrow> nat option" where
  "digit_value c = (let n = (of_char c :: nat) in if 48 \<le> n \<and> n \<le> 57 then Some (n - 48) else None)"

lemma digit_value_char [simp]: "n < 10 \<Longrightarrow> digit_value (digit_char n) = Some n"
  by (simp add: digit_value_def digit_char_def of_char_of)

function nat_digits :: "nat \<Rightarrow> string" where
  "nat_digits n =
     (if n < 10 then [digit_char n] else nat_digits (n div 10) @ [digit_char (n mod 10)])"
  by pat_completeness auto
termination
  by (relation "measure id") auto

declare nat_digits.simps [simp del]

definition itoa :: "int \<Rightarrow> string" where
  "itoa i = (if i < 0 then CHR ''-'' # nat_digits (nat (- i)) else nat_digits (nat i))"

text \<open>
  \<open>ParseInt(s, 10, 64)\<close> returns a number even when it fails: 0 on a syntax error and the
  nearest bound on a range error. The second component is \<open>err == nil\<close>. The scan stops at
  the first byte that is no digit or overflows 64 bits.
\<close>

datatype scan_result = Scanned int | ScanSyntax | ScanRange

fun scan_digits :: "int \<Rightarrow> string \<Rightarrow> scan_result" where
  "scan_digits n [] = Scanned n"
| "scan_digits n (c # cs) =
     (case digit_value c of
        None \<Rightarrow> ScanSyntax
      | Some d \<Rightarrow> if 10 * n + int d > 2 ^ 64 - 1 then ScanRange else scan_digits (10 * n + int d) cs)"

definition parse_int64 :: "string \<Rightarrow> int \<times> bool" where
  "parse_int64 s =
     (let neg = (s \<noteq> [] \<and> hd s = CHR ''-'');
          body = (if s \<noteq> [] \<and> (hd s = CHR ''-'' \<or> hd s = CHR ''+'') then tl s else s)
      in if body = [] then (0, False)
         else case scan_digits 0 body of
           ScanSyntax \<Rightarrow> (0, False)
         | ScanRange \<Rightarrow> (if neg then - (2 ^ 63) else 2 ^ 63 - 1, False)
         | Scanned n \<Rightarrow>
             if \<not> neg \<and> n \<ge> 2 ^ 63 then (2 ^ 63 - 1, False)
             else if neg \<and> n > 2 ^ 63 then (- (2 ^ 63), False)
             else (if neg then - n else n, True))"

lemma scan_digits_nonneg: "0 \<le> n \<Longrightarrow> scan_digits n s = Scanned m \<Longrightarrow> 0 \<le> m"
proof (induction s arbitrary: n)
  case (Cons c s)
  from Cons.prems obtain d where "scan_digits (10 * n + int d) s = Scanned m"
    by (auto split: option.splits if_splits)
  with Cons.prems(1) Cons.IH [of "10 * n + int d"] show ?case by simp
qed simp

lemma parse_int64_bounds: "- (2 ^ 63) \<le> fst (parse_int64 s) \<and> fst (parse_int64 s) < 2 ^ 63"
  by (auto simp: parse_int64_def Let_def split: scan_result.split dest: scan_digits_nonneg [rotated])

lemma scan_digits_append:
  "scan_digits n (s @ t) =
     (case scan_digits n s of Scanned m \<Rightarrow> scan_digits m t | x \<Rightarrow> x)"
  by (induction s arbitrary: n) (auto split: option.split)

lemma scan_nat_digits: "int n < 2 ^ 64 \<Longrightarrow> scan_digits 0 (nat_digits n) = Scanned (int n)"
proof (induction n rule: nat_digits.induct)
  case (1 n)
  show ?case
  proof (cases "n < 10")
    case True
    then show ?thesis using 1(2) by (simp add: nat_digits.simps [of n])
  next
    case False
    with 1 have "scan_digits 0 (nat_digits (n div 10)) = Scanned (int (n div 10))"
      by simp
    moreover have "10 * int (n div 10) + int (n mod 10) = int n"
      by (metis mult.commute div_mult_mod_eq of_nat_add of_nat_mult of_nat_numeral)
    ultimately show ?thesis
      using False 1(2) by (simp add: nat_digits.simps [of n] scan_digits_append)
  qed
qed

lemma nat_digits_not_Nil [simp]: "nat_digits n \<noteq> []"
  by (subst nat_digits.simps) simp

lemma digit_chars: "c \<in> set (nat_digits n) \<Longrightarrow> \<exists>d < 10. c = digit_char d"
proof (induction n rule: nat_digits.induct)
  case (1 n)
  show ?case
  proof (cases "n < 10")
    case True
    with 1(2) show ?thesis by (auto simp: nat_digits.simps [of n])
  next
    case False
    with 1(2) have "c \<in> set (nat_digits (n div 10)) \<or> c = digit_char (n mod 10)"
      by (auto simp: nat_digits.simps [of n])
    moreover have "n mod 10 < 10" by simp
    ultimately show ?thesis using 1(1) [OF False] by blast
  qed
qed

lemma digit_char_inject: "d < 10 \<Longrightarrow> digit_char d \<noteq> CHR ''-'' \<and> digit_char d \<noteq> CHR ''+''"
proof -
  assume "d < 10"
  then have "digit_value (digit_char d) \<noteq> None" by simp
  moreover have "digit_value CHR ''-'' = None" "digit_value CHR ''+'' = None"
    by (simp_all add: digit_value_def)
  ultimately show ?thesis by metis
qed

lemma hd_nat_digits: "hd (nat_digits n) \<noteq> CHR ''-'' \<and> hd (nat_digits n) \<noteq> CHR ''+''"
proof -
  obtain d where "d < 10" "hd (nat_digits n) = digit_char d"
    using digit_chars [of "hd (nat_digits n)" n] by auto
  then show ?thesis using digit_char_inject by metis
qed

text \<open>Reading back a printed number.\<close>

lemma parse_itoa: "- (2 ^ 63) \<le> i \<Longrightarrow> i < 2 ^ 63 \<Longrightarrow> parse_int64 (itoa i) = (i, True)"
  using hd_nat_digits [of "nat i"]
  by (cases "i < 0") (auto simp: parse_int64_def itoa_def Let_def scan_nat_digits)

section \<open>The UTC calendar\<close>

text \<open>
  Days are counted from January 1 of the year 1, the date of the zero time. Cycles of 400,
  100, 4 and 1 years are taken off in turn, the last day of a cycle stays in it.
\<close>

definition is_leap :: "int \<Rightarrow> bool" where
  "is_leap y \<longleftrightarrow> y mod 4 = 0 \<and> (y mod 100 \<noteq> 0 \<or> y mod 400 = 0)"

definition month_lengths :: "int \<Rightarrow> int list" where
  "month_lengths y =
     [31, if is_leap y then 29 else 28, 31, 30, 31, 30, 31, 31, 30, 31, 30, 31]"

fun find_month :: "int list \<Rightarrow> int \<Rightarrow> int \<Rightarrow> int \<times> int" where
  "find_month [] m d = (m, d + 1)"
| "find_month (n # ns) m d = (if d < n then (m, d + 1) else find_month ns (m + 1) (d - n))"

definition civil_date :: "int \<Rightarrow> int \<times> int \<times> int" where
  "civil_date days =
     (let n400 = days div 146097; d1 = days - 146097 * n400;
          n100 = min 3 (d1 div 36524); d2 = d1 - 36524 * n100;
          n4 = d2 div 1461; d3 = d2 - 1461 * n4;
          n1 = min 3 (d3 div 365); yday = d3 - 365 * n1;
          y = 400 * n400 + 100 * n100 + 4 * n4 + n1 + 1;
          (m, d) = find_month (month_lengths y) 1 yday
      in (y, m, d))"

definition pad :: "nat \<Rightarrow> int \<Rightarrow> string" where
  "pad w i = (let s = nat_digits (nat i) in replicate (w - length s) (CHR ''0'') @ s)"

definition time_day :: duration where "time_day = 24 * time_hour"

text \<open>\<open>t.UTC().Format("20060102")\<close> and \<open>t.UTC().Format("2006010215")\<close>.\<close>

definition format_day :: "gtime \<Rightarrow> string" where
  "format_day t = (let (y, m, d) = civil_date (t div time_day) in pad 4 y @ pad 2 m @ pad 2 d)"

definition format_hour :: "gtime \<Rightarrow> string" where
  "format_hour t = format_day t @ pad 2 (t mod time_day div time_hour)"

section \<open>Words without surrounding white space\<close>

definition graphic :: "char \<Rightarrow> bool" where
  "graphic c = (let n = (of_char c :: nat) in 33 \<le> n \<and> n \<le> 126)"

lemma white_space_edges: "w \<in> set white_space \<Longrightarrow> \<not> graphic (hd w) \<and> \<not> graphic (last w)"
  by (auto simp: white_space_def bytes_def graphic_def)

lemma trim_graphic:
  assumes "s \<noteq> []" "graphic (hd s)" "graphic (last s)"
  shows "trim_space s = s"
proof (rule trim_space_id)
  show "trimmed s"
    unfolding trimmed_def
  proof (intro ballI allI conjI)
    fix w r assume w: "w \<in> set white_space"
    have "w \<noteq> []" using w white_space_not_Nil(1) by metis
    then show "s \<noteq> w @ r" "s \<noteq> r @ w" using white_space_edges [OF w] assms by auto
  qed
qed

lemma trim_itoa [simp]: "trim_space (itoa n) = itoa n"
proof -
  have "nat_digits m \<noteq> [] \<and> graphic (hd (nat_digits m)) \<and> graphic (last (nat_digits m))" for m
  proof (induction m rule: nat_digits.induct)
    case (1 m)
    have g: "k < 10 \<Longrightarrow> graphic (digit_char k)" for k by (simp add: graphic_def digit_char_def of_char_of Let_def)
    show ?case
      using 1 g [of m] g [of "m mod 10"] by (subst (1 2 3) nat_digits.simps) (auto simp: hd_append)
  qed
  then show ?thesis
    by (intro trim_graphic) (auto simp: itoa_def graphic_def)
qed

text \<open>The order of \<open>sort.Strings\<close>, byte by byte.\<close>

fun string_before :: "string \<Rightarrow> string \<Rightarrow> bool" where
  "string_before s [] = False"
| "string_before [] (d # t) = True"
| "string_before (c # s) (d # t) =
     ((of_char c :: nat) < of_char d \<or> (c = d \<and> string_before s t))"

end
