(* ===== verification/Quota_Limiter.thy ===== *)
theory Quota_Limiter
  imports Go_Text Protocol "HOL-Library.Word"
begin

text \<open>
  The run quota of services/control-plane/internal/quota/redis_limiter.go: reservations of
  the concurrent, hourly and daily token counters, their commit under a run marker, their
  rollback, and the release of a run. The counters live behind the interface
  \<open>CounterStore\<close>, a record of functions over the state of the server; it is interpreted
  by the store the tests of the package use. A run marker is kept as JSON, by the codec
  \<open>marker_codec\<close> of \<open>encoding/json\<close>, with an older textual form the code still reads.
\<close>

section \<open>The counter store\<close>

record 'c counter_store =
  cst_incr :: "string \<Rightarrow> 'c \<Rightarrow> int result \<times> 'c"
  cst_decr :: "string \<Rightarrow> 'c \<Rightarrow> int result \<times> 'c"
  cst_incr_by :: "string \<Rightarrow> int \<Rightarrow> 'c \<Rightarrow> int result \<times> 'c"
  cst_decr_by :: "string \<Rightarrow> int \<Rightarrow> 'c \<Rightarrow> int result \<times> 'c"
  cst_expire :: "string \<Rightarrow> duration \<Rightarrow> 'c \<Rightarrow> app_error option \<times> 'c"
  cst_set_nx :: "string \<Rightarrow> string \<Rightarrow> duration \<Rightarrow> 'c \<Rightarrow> bool result \<times> 'c"
  cst_get :: "string \<Rightarrow> 'c \<Rightarrow> string option result \<times> 'c"
  cst_del :: "string \<Rightarrow> 'c \<Rightarrow> int result \<times> 'c"

text \<open>
  \<open>RedisCounterStore\<close> hands every call to the client library, which is a parameter, and
  turns the library's \<open>redis.Nil\<close> of a missing key into a miss.
\<close>

definition redis_nil :: app_error where "redis_nil = ErrMessage ''redis: nil''"

record 'c redis_client =
  rdc_incr :: "string \<Rightarrow> 'c \<Rightarrow> int result \<times> 'c"
  rdc_decr :: "string \<Rightarrow> 'c \<Rightarrow> int result \<times> 'c"
  rdc_incr_by :: "string \<Rightarrow> int \<Rightarrow> 'c \<Rightarrow> int result \<times> 'c"
  rdc_decr_by :: "string \<Rightarrow> int \<Rightarrow> 'c \<Rightarrow> int result \<times> 'c"
  rdc_expire :: "string \<Rightarrow> duration \<Rightarrow> 'c \<Rightarrow> app_error option \<times> 'c"
  rdc_set_nx :: "string \<Rightarrow> string \<Rightarrow> duration \<Rightarrow> 'c \<Rightarrow> bool result \<times> 'c"
  rdc_get :: "string \<Rightarrow> 'c \<Rightarrow> string result \<times> 'c"
  rdc_del :: "string \<Rightarrow> 'c \<Rightarrow> int result \<times> 'c"

definition redis_get :: "'c redis_client \<Rightarrow> string \<Rightarrow> 'c \<Rightarrow> string option result \<times> 'c" where
  "redis_get cl k c =
     (case rdc_get cl k c of
        (Inl err, c1) \<Rightarrow> if err = redis_nil then (Inr None, c1) else (Inl err, c1)
      | (Inr v, c1) \<Rightarrow> (Inr (Some v), c1))"

definition redis_counter_store :: "'c redis_client \<Rightarrow> 'c counter_store" where
  "redis_counter_store cl =
     \<lparr>cst_incr = rdc_incr cl, cst_decr = rdc_decr cl, cst_incr_by = rdc_incr_by cl,
      cst_decr_by = rdc_decr_by cl, cst_expire = rdc_expire cl, cst_set_nx = rdc_set_nx cl,
      cst_get = redis_get cl, cst_del = rdc_del cl\<rparr>"

section \<open>Keys\<close>

definition safe_char :: "char \<Rightarrow> char" where
  "safe_char c = (if c \<in> set '': '' \<union> set (bytes [10, 13, 9]) then CHR ''_'' else c)"

definition safe_key :: "string \<Rightarrow> string" where
  "safe_key value =
     (let v = trim_space value in if v = '''' then ''unknown'' else map safe_char v)"

record 'c limiter =
  lim_store :: "'c counter_store option"
  lim_prefix :: string
  lim_tokens_per_run :: int

definition default_prefix :: string where "default_prefix = ''niceagent:quota''"

definition max_int :: "int \<Rightarrow> int \<Rightarrow> int" where
  "max_int value fallback = (if value < fallback then fallback else value)"

definition new_limiter :: "'c counter_store \<Rightarrow> string \<Rightarrow> int \<Rightarrow> 'c limiter" where
  "new_limiter st prefix per_run =
     (let p = trim_space prefix
      in \<lparr>lim_store = Some st, lim_prefix = (if p = '''' then default_prefix else p),
          lim_tokens_per_run = max_int per_run 0\<rparr>)"

definition active_key :: "'c limiter \<Rightarrow> string \<Rightarrow> string \<Rightarrow> string" where
  "active_key l project user =
     lim_prefix l @ '':active:'' @ safe_key project @ '':'' @ safe_key user"

definition hour_key :: "'c limiter \<Rightarrow> actor_context \<Rightarrow> gtime \<Rightarrow> string" where
  "hour_key l actor now =
     lim_prefix l @ '':runs_per_hour:'' @ safe_key (act_project_id actor) @ '':'' @
       safe_key (act_user_id actor) @ '':'' @ format_hour now"

definition token_key :: "'c limiter \<Rightarrow> actor_context \<Rightarrow> gtime \<Rightarrow> string" where
  "token_key l actor now =
     lim_prefix l @ '':model_tokens_per_day:'' @ safe_key (act_project_id actor) @ '':'' @
       safe_key (act_user_id actor) @ '':'' @ format_day now"

definition run_marker_key :: "'c limiter \<Rightarrow> string \<Rightarrow> string" where
  "run_marker_key l rid = lim_prefix l @ '':run:'' @ safe_key rid"

definition active_ttl :: duration where "active_ttl = 24 * time_hour"
definition run_marker_ttl :: duration where "run_marker_ttl = 48 * time_hour"
definition hour_window_buffer :: duration where "hour_window_buffer = 2 * time_hour"
definition token_window_ttl :: duration where "token_window_ttl = 48 * time_hour"

section \<open>Run markers\<close>

record run_marker =
  mrk_active_reserved :: bool
  mrk_token_key :: string
  mrk_token_reserved :: int

definition zero_marker :: run_marker where
  "zero_marker = \<lparr>mrk_active_reserved = False, mrk_token_key = '''', mrk_token_reserved = 0\<rparr>"

text \<open>
  \<open>Unmarshal\<close> leaves what it decoded in the marker even when it fails; the second component is
  \<open>err == nil\<close>.
\<close>

record marker_codec =
  mkc_marshal :: "run_marker \<Rightarrow> string"
  mkc_unmarshal :: "string \<Rightarrow> run_marker \<times> bool"

definition codec_ok :: "marker_codec \<Rightarrow> bool" where
  "codec_ok K \<longleftrightarrow> (\<forall>m. mkc_unmarshal K (mkc_marshal K m) = (m, True))"

fun parse_marker_part :: "run_marker \<Rightarrow> string \<Rightarrow> run_marker" where
  "parse_marker_part m part =
     (case cut_at CHR ''='' part of
        None \<Rightarrow> m
      | Some (key, value) \<Rightarrow>
          if trim_space key = ''active'' then
            m\<lparr>mrk_active_reserved :=
                (trim_space value = ''1'' \<or> to_lower (trim_space value) = ''true'')\<rparr>
          else if trim_space key = ''token_key'' then m\<lparr>mrk_token_key := trim_space value\<rparr>
          else if trim_space key = ''token_reserved'' then
            m\<lparr>mrk_token_reserved := fst (parse_int64 (trim_space value))\<rparr>
          else m)"

definition parse_run_marker :: "marker_codec \<Rightarrow> string \<Rightarrow> run_marker" where
  "parse_run_marker K raw =
     (let (m, ok) = mkc_unmarshal K raw
      in if ok then m
         else if trim_space raw = ''1'' then zero_marker\<lparr>mrk_active_reserved := True\<rparr>
         else foldl parse_marker_part m (split_on CHR '';'' raw))"

section \<open>Reservations\<close>

record reservation =
  rsv_active_key :: string
  rsv_hour_key :: string
  rsv_token_key :: string
  rsv_marker_key :: string
  rsv_tokens :: int
  rsv_active :: bool
  rsv_hour :: bool
  rsv_committed :: bool

definition new_reservation :: reservation where
  "new_reservation = \<lparr>rsv_active_key = '''', rsv_hour_key = '''', rsv_token_key = '''',
     rsv_marker_key = '''', rsv_tokens = 0, rsv_active = False, rsv_hour = False,
     rsv_committed = False\<rparr>"

text \<open>\<open>first_error\<close> is the pattern \<open>if err != nil && firstErr == nil\<close>.\<close>

definition first_error :: "app_error option \<Rightarrow> 'a result \<Rightarrow> app_error option" where
  "first_error e res =
     (case e of Some x \<Rightarrow> Some x | None \<Rightarrow> (case res of Inl x \<Rightarrow> Some x | Inr _ \<Rightarrow> None))"

definition rollback_marker ::
  "'c counter_store \<Rightarrow> reservation \<Rightarrow> 'c \<Rightarrow> app_error option \<times> bool \<times> 'c" where
  "rollback_marker st r c =
     (if rsv_committed r \<and> rsv_marker_key r \<noteq> '''' then
        (let (res, c1) = cst_del st (rsv_marker_key r) c
         in (first_error None res, (case res of Inl _ \<Rightarrow> False | Inr n \<Rightarrow> n > 0), c1))
      else (None, True, c))"

definition rollback_active ::
  "'c counter_store \<Rightarrow> bool \<Rightarrow> app_error option \<Rightarrow> reservation \<Rightarrow> 'c
     \<Rightarrow> app_error option \<times> reservation \<times> 'c" where
  "rollback_active st release e r c =
     (if rsv_active r then
        (if release then
           (let (res, c1) = cst_decr st (rsv_active_key r) c
            in (first_error e res, r\<lparr>rsv_active := False\<rparr>, c1))
         else (e, r\<lparr>rsv_active := False\<rparr>, c))
      else (e, r, c))"

definition rollback_hour ::
  "'c counter_store \<Rightarrow> app_error option \<Rightarrow> reservation \<Rightarrow> 'c
     \<Rightarrow> app_error option \<times> reservation \<times> 'c" where
  "rollback_hour st e r c =
     (if rsv_hour r then
        (let (res, c1) = cst_decr st (rsv_hour_key r) c
         in (first_error e res, r\<lparr>rsv_hour := False\<rparr>, c1))
      else (e, r, c))"

definition rollback_tokens ::
  "'c counter_store \<Rightarrow> bool \<Rightarrow> app_error option \<Rightarrow> reservation \<Rightarrow> 'c
     \<Rightarrow> app_error option \<times> reservation \<times> 'c" where
  "rollback_tokens st release e r c =
     (if rsv_tokens r > 0 then
        (if release then
           (let (res, c1) = cst_decr_by st (rsv_token_key r) (rsv_tokens r) c
            in (first_error e res, r\<lparr>rsv_tokens := 0\<rparr>, c1))
         else (e, r\<lparr>rsv_tokens := 0\<rparr>, c))
      else (e, r, c))"

text \<open>\<open>rollback\<close> returns the error, the reservation as it is left, and the counters.\<close>

definition rollback ::
  "'c counter_store \<Rightarrow> reservation \<Rightarrow> 'c \<Rightarrow> app_error option \<times> reservation \<times> 'c" where
  "rollback st r c =
     (let (e0, release, c0) = rollback_marker st r c;
          (e1, r1, c1) = rollback_active st release e0 r c0;
          (e2, r2, c2) = rollback_hour st e1 r1 c1
      in rollback_tokens st release e2 r2 c2)"

record denial =
  dny_message :: string
  dny_metadata :: metadata

definition concurrent_message :: string where
  "concurrent_message = bytes
     [229, 183, 178, 232, 190, 190, 229, 136, 176, 229, 189, 147, 229, 137, 141,
      233, 161, 185, 231, 155, 174, 229, 185, 182, 229, 143, 145, 228, 187, 187,
      229, 138, 161, 228, 184, 138, 233, 153, 144, 239, 188, 140, 232, 175, 183,
      231, 168, 141, 229, 144, 142, 229, 134, 141, 232, 175, 149, 227, 128, 130]"

definition hourly_message :: string where
  "hourly_message = bytes
     [229, 183, 178, 232, 190, 190, 229, 136, 176, 229, 189, 147, 229, 137, 141,
      233, 161, 185, 231, 155, 174, 230, 175, 143, 229, 176, 143, 230, 151, 182,
      228, 187, 187, 229, 138, 161, 230, 149, 176, 228, 184, 138, 233, 153, 144,
      239, 188, 140, 232, 175, 183, 231, 168, 141, 229, 144, 142, 229, 134, 141,
      232, 175, 149, 227, 128, 130]"

definition tokens_message :: string where
  "tokens_message = bytes
     [229, 183, 178, 232, 190, 190, 229, 136, 176, 229, 189, 147, 229, 137, 141,
      233, 161, 185, 231, 155, 174, 230, 175, 143, 230, 151, 165, 230, 168, 161,
      229, 158, 139, 32, 116, 111, 107, 101, 110, 32, 228, 184, 138, 233, 153,
      144, 239, 188, 140, 232, 175, 183, 230, 152, 142, 229, 164, 169, 229, 134,
      141, 232, 175, 149, 227, 128, 130]"

definition quota_denial :: "string \<Rightarrow> string \<Rightarrow> int \<Rightarrow> int \<Rightarrow> metadata \<Rightarrow> denial" where
  "quota_denial msg kind limit current extra =
     \<lparr>dny_message = msg,
      dny_metadata = [(''quota'', VStr kind), (''limit'', VInt limit), (''current'', VInt current)] @
        extra @ [(''source'', VStr ''redis'')]\<rparr>"

datatype attempt = Granted reservation | Denied denial

text \<open>
  The three blocks of \<open>ReserveRunWithHint\<close>. Each extends the reservation and rolls it back
  when it fails; the first denial undoes its own increment only, nothing else being held.
\<close>

definition reserve_active ::
  "'c counter_store \<Rightarrow> 'c limiter \<Rightarrow> actor_context \<Rightarrow> quota_policy \<Rightarrow> reservation \<Rightarrow> 'c
     \<Rightarrow> attempt result \<times> 'c" where
  "reserve_active st l actor policy r c =
     (if qpl_max_concurrent_runs policy > 0 then
        (let key = active_key l (act_project_id actor) (act_user_id actor)
         in case cst_incr st key c of
              (Inl err, c1) \<Rightarrow> (Inl err, c1)
            | (Inr current, c1) \<Rightarrow>
                (let r1 = r\<lparr>rsv_active_key := key, rsv_active := True\<rparr>
                 in case cst_expire st key active_ttl c1 of
                      (Some err, c2) \<Rightarrow> (Inl err, snd (snd (rollback st r1 c2)))
                    | (None, c2) \<Rightarrow>
                        if current > qpl_max_concurrent_runs policy then
                          (Inr (Denied (quota_denial concurrent_message ''concurrent_runs''
                             (qpl_max_concurrent_runs policy) (current - 1) [])),
                           snd (cst_decr st key c2))
                        else (Inr (Granted r1), c2)))
      else (Inr (Granted r), c))"

definition reserve_hour ::
  "'c counter_store \<Rightarrow> 'c limiter \<Rightarrow> actor_context \<Rightarrow> quota_policy \<Rightarrow> gtime \<Rightarrow> reservation \<Rightarrow> 'c
     \<Rightarrow> attempt result \<times> 'c" where
  "reserve_hour st l actor policy now r c =
     (if qpl_max_runs_per_hour policy > 0 then
        (let key = hour_key l actor now
         in case cst_incr st key c of
              (Inl err, c1) \<Rightarrow> (Inl err, snd (snd (rollback st r c1)))
            | (Inr current, c1) \<Rightarrow>
                (let r1 = r\<lparr>rsv_hour_key := key, rsv_hour := True\<rparr>
                 in case cst_expire st key hour_window_buffer c1 of
                      (Some err, c2) \<Rightarrow> (Inl err, snd (snd (rollback st r1 c2)))
                    | (None, c2) \<Rightarrow>
                        if current > qpl_max_runs_per_hour policy then
                          (Inr (Denied (quota_denial hourly_message ''runs_per_hour''
                             (qpl_max_runs_per_hour policy) (current - 1) [])),
                           snd (snd (rollback st r1 c2)))
                        else (Inr (Granted r1), c2)))
      else (Inr (Granted r), c))"

definition model_token_reservation :: "'c limiter \<Rightarrow> int \<Rightarrow> int" where
  "model_token_reservation l hint = (if hint > 0 then hint else lim_tokens_per_run l)"

definition reserve_tokens ::
  "'c counter_store \<Rightarrow> 'c limiter \<Rightarrow> actor_context \<Rightarrow> quota_policy \<Rightarrow> int \<Rightarrow> gtime \<Rightarrow> reservation \<Rightarrow> 'c
     \<Rightarrow> attempt result \<times> 'c" where
  "reserve_tokens st l actor policy hint now r c =
     (if qpl_max_model_tokens_per_day policy > 0 \<and> model_token_reservation l hint > 0 then
        (let key = token_key l actor now; reserved = model_token_reservation l hint
         in case cst_incr_by st key reserved c of
              (Inl err, c1) \<Rightarrow> (Inl err, snd (snd (rollback st r c1)))
            | (Inr current, c1) \<Rightarrow>
                (let r1 = r\<lparr>rsv_token_key := key, rsv_tokens := reserved\<rparr>
                 in case cst_expire st key token_window_ttl c1 of
                      (Some err, c2) \<Rightarrow> (Inl err, snd (snd (rollback st r1 c2)))
                    | (None, c2) \<Rightarrow>
                        if current > qpl_max_model_tokens_per_day policy then
                          (Inr (Denied (quota_denial tokens_message ''model_tokens_per_day''
                             (qpl_max_model_tokens_per_day policy) (wrap64 (current - reserved))
                             [(''reserved'', VInt reserved)])),
                           snd (snd (rollback st r1 c2)))
                        else (Inr (Granted r1), c2)))
      else (Inr (Granted r), c))"

text \<open>
  \<open>now_h\<close> and \<open>now_t\<close> are the two readings of the clock. A limiter without a store grants
  the reservation that does nothing, here \<open>None\<close>.
\<close>

datatype outcome = Reserved "reservation option" | Refused denial

definition chain_attempt ::
  "attempt result \<times> 'c \<Rightarrow> (reservation \<Rightarrow> 'c \<Rightarrow> attempt result \<times> 'c) \<Rightarrow> attempt result \<times> 'c" where
  "chain_attempt x f =
     (case x of (Inr (Granted r), c) \<Rightarrow> f r c | (y, c) \<Rightarrow> (y, c))"

definition reserve_run_with_hint ::
  "'c limiter \<Rightarrow> actor_context \<Rightarrow> quota_policy \<Rightarrow> int \<Rightarrow> gtime \<Rightarrow> gtime \<Rightarrow> 'c
     \<Rightarrow> outcome result \<times> 'c" where
  "reserve_run_with_hint l actor policy hint now_h now_t c =
     (case lim_store l of
        None \<Rightarrow> (Inr (Reserved None), c)
      | Some st \<Rightarrow>
          (case chain_attempt
                  (chain_attempt (reserve_active st l actor policy new_reservation c)
                     (reserve_hour st l actor policy now_h))
                  (reserve_tokens st l actor policy hint now_t) of
             (Inl err, c1) \<Rightarrow> (Inl err, c1)
           | (Inr (Denied d), c1) \<Rightarrow> (Inr (Refused d), c1)
           | (Inr (Granted r), c1) \<Rightarrow> (Inr (Reserved (Some r)), c1)))"

definition reserve_run ::
  "'c limiter \<Rightarrow> actor_context \<Rightarrow> quota_policy \<Rightarrow> gtime \<Rightarrow> gtime \<Rightarrow> 'c \<Rightarrow> outcome result \<times> 'c" where
  "reserve_run l actor policy now_h now_t c = reserve_run_with_hint l actor policy 0 now_h now_t c"

definition marker_of :: "reservation \<Rightarrow> run_marker" where
  "marker_of r = \<lparr>mrk_active_reserved = rsv_active r, mrk_token_key = rsv_token_key r,
     mrk_token_reserved = rsv_tokens r\<rparr>"

definition commit ::
  "marker_codec \<Rightarrow> 'c counter_store \<Rightarrow> 'c limiter \<Rightarrow> string \<Rightarrow> reservation \<Rightarrow> 'c
     \<Rightarrow> app_error option \<times> reservation \<times> 'c" where
  "commit K st l raw_run r c =
     (let rid = trim_space raw_run
      in if rid = '''' then (Some (ErrMessage ''run id is required to commit quota reservation''), r, c)
         else if \<not> rsv_active r \<and> rsv_tokens r = 0 then (None, r\<lparr>rsv_committed := True\<rparr>, c)
         else
           (let key = run_marker_key l rid
            in case cst_set_nx st key (mkc_marshal K (marker_of r)) run_marker_ttl c of
                 (Inl err, c1) \<Rightarrow> (Some err, r, c1)
               | (Inr False, c1) \<Rightarrow>
                   (Some (ErrMessage (''quota reservation marker already exists for run '' @ rid)), r, c1)
               | (Inr True, c1) \<Rightarrow>
                   (None, r\<lparr>rsv_marker_key := key, rsv_committed := True\<rparr>, c1)))"

text \<open>The settlement of the token counter in \<open>ReleaseRun\<close>.\<close>

definition settle_tokens ::
  "'c counter_store \<Rightarrow> app_error option \<Rightarrow> run_marker \<Rightarrow> run_usage \<Rightarrow> 'c \<Rightarrow> app_error option \<times> 'c" where
  "settle_tokens st e m u c =
     (if mrk_token_reserved m > 0 \<and> mrk_token_key m \<noteq> '''' then
        (let delta = wrap64 (usg_total_tokens (normalize_run_usage u) - mrk_token_reserved m)
         in if delta > 0 then
              (let (res, c1) = cst_incr_by st (mrk_token_key m) delta c in (first_error e res, c1))
            else if delta < 0 then
              (let (res, c1) = cst_decr_by st (mrk_token_key m) (wrap64 (- delta)) c
               in (first_error e res, c1))
            else (e, c))
      else (e, c))"

definition release_marked ::
  "'c counter_store \<Rightarrow> 'c limiter \<Rightarrow> run_marker \<Rightarrow> run \<Rightarrow> string \<Rightarrow> run_usage \<Rightarrow> 'c
     \<Rightarrow> app_error option \<times> 'c" where
  "release_marked st l m rn project u c =
     (let (e1, c1) =
        (if mrk_active_reserved m then
           (let (res, c1) = cst_decr st (active_key l project (run_user_id rn)) c
            in (first_error None res, c1))
         else (None, c))
      in settle_tokens st e1 m u c1)"

definition release_run ::
  "marker_codec \<Rightarrow> 'c limiter \<Rightarrow> run \<Rightarrow> string \<Rightarrow> run_usage \<Rightarrow> 'c \<Rightarrow> app_error option \<times> 'c" where
  "release_run K l rn project u c =
     (case lim_store l of
        None \<Rightarrow> (None, c)
      | Some st \<Rightarrow>
          if trim_space (run_id rn) = '''' then (None, c)
          else
            (let key = run_marker_key l (run_id rn)
             in case cst_get st key c of
                  (Inl err, c1) \<Rightarrow> (Some err, c1)
                | (Inr None, c1) \<Rightarrow> (None, c1)
                | (Inr (Some raw), c1) \<Rightarrow>
                    (case cst_del st key c1 of
                       (Inl err, c2) \<Rightarrow> (Some err, c2)
                     | (Inr removed, c2) \<Rightarrow>
                         if removed = 0 then (None, c2)
                         else release_marked st l (parse_run_marker K raw) rn project u c2)))"

section \<open>The counter store of the tests\<close>

text \<open>Its counters are 64-bit words, read as signed integers; \<open>fcs_err\<close> makes every call fail.\<close>

record fake_counters =
  fcs_values :: "string \<Rightarrow> 64 word"
  fcs_set :: "string \<rightharpoonup> string"
  fcs_err :: "app_error option"

definition new_fake_counters :: fake_counters where
  "new_fake_counters = \<lparr>fcs_values = (\<lambda>k. 0), fcs_set = Map.empty, fcs_err = None\<rparr>"

definition fake_add :: "string \<Rightarrow> 64 word \<Rightarrow> fake_counters \<Rightarrow> int result \<times> fake_counters" where
  "fake_add k w c =
     (case fcs_err c of
        Some err \<Rightarrow> (Inl err, c)
      | None \<Rightarrow>
          (let v = fcs_values c k + w
           in (Inr (sint v), c\<lparr>fcs_values := (fcs_values c)(k := v)\<rparr>)))"

definition fake_expire :: "string \<Rightarrow> duration \<Rightarrow> fake_counters \<Rightarrow> app_error option \<times> fake_counters" where
  "fake_expire k ttl c = (fcs_err c, c)"

definition fake_set_nx ::
  "string \<Rightarrow> string \<Rightarrow> duration \<Rightarrow> fake_counters \<Rightarrow> bool result \<times> fake_counters" where
  "fake_set_nx k v ttl c =
     (case fcs_err c of
        Some err \<Rightarrow> (Inl err, c)
      | None \<Rightarrow>
          if fcs_set c k \<noteq> None then (Inr False, c)
          else (Inr True, c\<lparr>fcs_set := (fcs_set c)(k \<mapsto> v)\<rparr>))"

definition fake_get :: "string \<Rightarrow> fake_counters \<Rightarrow> string option result \<times> fake_counters" where
  "fake_get k c =
     (case fcs_err c of Some err \<Rightarrow> (Inl err, c) | None \<Rightarrow> (Inr (fcs_set c k), c))"

definition fake_del :: "string \<Rightarrow> fake_counters \<Rightarrow> int result \<times> fake_counters" where
  "fake_del k c =
     (case fcs_err c of
        Some err \<Rightarrow> (Inl err, c)
      | None \<Rightarrow>
          if fcs_set c k \<noteq> None then (Inr 1, c\<lparr>fcs_set := (fcs_set c)(k := None)\<rparr>)
          else (Inr 0, c))"

definition fake_counter_store :: "fake_counters counter_store" where
  "fake_counter_store =
     \<lparr>cst_incr = (\<lambda>k. fake_add k 1), cst_decr = (\<lambda>k. fake_add k (- 1)),
      cst_incr_by = (\<lambda>k n. fake_add k (word_of_int n)),
      cst_decr_by = (\<lambda>k n. fake_add k (- word_of_int n)),
      cst_expire = fake_expire, cst_set_nx = fake_set_nx, cst_get = fake_get, cst_del = fake_del\<rparr>"

end
