(* ===== verification/Decorators.thy ===== *)
theory Decorators
  imports Repository Quota_Limiter
begin

text \<open>
  The repositories the control plane wraps around its store: \<open>ReleasingRepository\<close>
  (services/control-plane/internal/quota/releasing_repository.go), which gives the quota of a
  run back when the run ends, and \<open>FanoutRepository\<close>
  (services/control-plane/internal/events/eventbus.go), which publishes a nudge for every event.
  Each adds a state of its own, the counters or the bus, to the state of the repository it
  wraps. The interface \<open>transparent\<close> says that a repository acts on the wrapped one's state as
  the wrapped one does; under it the sink commutes with the wrapping.
\<close>

section \<open>Repositories over a pair of states\<close>

definition with_right :: "('s \<Rightarrow> 'a \<times> 's) \<Rightarrow> 's \<times> 'b \<Rightarrow> 'a \<times> ('s \<times> 'b)" where
  "with_right f s = (case f (fst s) of (x, t) \<Rightarrow> (x, (t, snd s)))"

text \<open>The embedded \<open>app.Repository\<close>: every method is promoted.\<close>

definition embed_repository :: "'s repository \<Rightarrow> ('s \<times> 'b) repository" where
  "embed_repository R =
     \<lparr>rep_get_chat = (\<lambda>cid s. rep_get_chat R cid (fst s)),
      rep_get_run = (\<lambda>rid s. rep_get_run R rid (fst s)),
      rep_get_run_usage = (\<lambda>rid s. rep_get_run_usage R rid (fst s)),
      rep_list_events = (\<lambda>rid n s. rep_list_events R rid n (fst s)),
      rep_get_artifact = (\<lambda>e aid s. rep_get_artifact R e aid (fst s)),
      rep_list_runtime_skills = (\<lambda>u p s. rep_list_runtime_skills R u p (fst s)),
      rep_get_runtime_policy = (\<lambda>p s. rep_get_runtime_policy R p (fst s)),
      rep_add_assistant_message = (\<lambda>e c rid m. with_right (rep_add_assistant_message R e c rid m)),
      rep_update_run_status = (\<lambda>e rid st m. with_right (rep_update_run_status R e rid st m)),
      rep_save_run_usage = (\<lambda>rid u. with_right (rep_save_run_usage R rid u)),
      rep_add_event = (\<lambda>e rid typ m v. with_right (rep_add_event R e rid typ m v)),
      rep_add_artifact = (\<lambda>e a. with_right (rep_add_artifact R e a))\<rparr>"

section \<open>ReleasingRepository\<close>

definition project_id_for_run :: "'s repository \<Rightarrow> run \<Rightarrow> 's \<Rightarrow> string" where
  "project_id_for_run R r s =
     (case rep_get_chat R (run_chat_id r) s of Inl err \<Rightarrow> '''' | Inr (chat, msgs) \<Rightarrow> cht_project_id chat)"

text \<open>
  An error of \<open>GetRun\<close> leaves the zero run, whose status is not terminal; an error of
  \<open>GetRunUsage\<close> leaves the zero usage. The error of \<open>ReleaseRun\<close> is logged only.
\<close>

definition releasing_update_run_status ::
  "marker_codec \<Rightarrow> 'c limiter \<Rightarrow> 's repository \<Rightarrow> env \<Rightarrow> string \<Rightarrow> run_status \<Rightarrow> string
     \<Rightarrow> 's \<times> 'c \<Rightarrow> run result \<times> ('s \<times> 'c)" where
  "releasing_update_run_status K l R e rid st text s =
     (let ended = (case rep_get_run R rid (fst s) of
            Inl err \<Rightarrow> False | Inr r0 \<Rightarrow> is_terminal_run_status (run_status r0))
      in case rep_update_run_status R e rid st text (fst s) of
           (Inl err, t) \<Rightarrow> (Inl err, (t, snd s))
         | (Inr r, t) \<Rightarrow>
             (let project = project_id_for_run R r t
              in if \<not> ended \<and> is_terminal_run_status (run_status r) \<and> project \<noteq> '''' then
                   (let u = (case rep_get_run_usage R (run_id r) t of
                           Inl err \<Rightarrow> zero_run_usage | Inr u \<Rightarrow> u)
                    in (Inr r, (t, snd (release_run K l r project u (snd s)))))
                 else (Inr r, (t, snd s))))"

definition releasing_repository ::
  "marker_codec \<Rightarrow> 'c limiter \<Rightarrow> 's repository \<Rightarrow> ('s \<times> 'c) repository" where
  "releasing_repository K l R =
     (embed_repository R)\<lparr>rep_update_run_status := releasing_update_run_status K l R\<rparr>"

definition new_releasing_repository ::
  "marker_codec \<Rightarrow> 'c limiter option \<Rightarrow> 's repository \<Rightarrow> ('s \<times> 'c) repository" where
  "new_releasing_repository K limiter_opt R =
     (case limiter_opt of None \<Rightarrow> embed_repository R | Some l \<Rightarrow> releasing_repository K l R)"

section \<open>FanoutRepository\<close>

text \<open>The bus a nudge is published on; a failed publication is logged only.\<close>

type_synonym 'b nudge_publish = "run_event \<Rightarrow> 'b \<Rightarrow> app_error option \<times> 'b"

definition fanout_add_event ::
  "'b nudge_publish option \<Rightarrow> 's repository \<Rightarrow> env \<Rightarrow> string \<Rightarrow> run_event_type \<Rightarrow> string \<Rightarrow> goval
     \<Rightarrow> 's \<times> 'b \<Rightarrow> run_event result \<times> ('s \<times> 'b)" where
  "fanout_add_event bus R e rid typ text payload s =
     (case rep_add_event R e rid typ text payload (fst s) of
        (Inl err, t) \<Rightarrow> (Inl err, (t, snd s))
      | (Inr ev, t) \<Rightarrow>
          (case bus of
             None \<Rightarrow> (Inr ev, (t, snd s))
           | Some publish \<Rightarrow> (Inr ev, (t, snd (publish ev (snd s))))))"

definition fanout_repository :: "'b nudge_publish option \<Rightarrow> 's repository \<Rightarrow> ('s \<times> 'b) repository" where
  "fanout_repository bus R = (embed_repository R)\<lparr>rep_add_event := fanout_add_event bus R\<rparr>"

section \<open>Transparent wrappers\<close>

locale transparent =
  fixes D :: "'d repository" and R :: "'s repository" and p :: "'d \<Rightarrow> 's"
  assumes get_run_eq: "rep_get_run D rid d = rep_get_run R rid (p d)"
    and list_events_eq: "rep_list_events D rid2 n d = rep_list_events R rid2 n (p d)"
    and get_artifact_eq: "rep_get_artifact D e1 aid d = rep_get_artifact R e1 aid (p d)"
    and message_sim: "rep_add_assistant_message D e2 c rid3 text3 d = (rm, d') \<Longrightarrow>
      rep_add_assistant_message R e2 c rid3 text3 (p d) = (rm, p d')"
    and update_sim: "rep_update_run_status D e3 rid4 st text4 d = (ru, d') \<Longrightarrow>
      rep_update_run_status R e3 rid4 st text4 (p d) = (ru, p d')"
    and usage_sim: "rep_save_run_usage D rid5 u d = (rs, d') \<Longrightarrow>
      rep_save_run_usage R rid5 u (p d) = (rs, p d')"
    and event_sim: "rep_add_event D e4 rid6 typ text6 v d = (re, d') \<Longrightarrow>
      rep_add_event R e4 rid6 typ text6 v (p d) = (re, p d')"
    and artifact_sim: "rep_add_artifact D e5 a d = (ra, d') \<Longrightarrow>
      rep_add_artifact R e5 a (p d) = (ra, p d')"
begin

lemma sims:
  "rep_add_assistant_message R e c rid text (p d) = map_prod id p (rep_add_assistant_message D e c rid text d)"
  "rep_update_run_status R e rid st text (p d) = map_prod id p (rep_update_run_status D e rid st text d)"
  "rep_save_run_usage R rid u (p d) = map_prod id p (rep_save_run_usage D rid u d)"
  "rep_add_event R e rid typ text v (p d) = map_prod id p (rep_add_event D e rid typ text v d)"
  "rep_add_artifact R e a (p d) = map_prod id p (rep_add_artifact D e a d)"
  using message_sim update_sim usage_sim event_sim artifact_sim by (simp_all add: prod_eq_iff)

lemma emit_sim: "sink_emit R e rid typ text v (p d) = map_prod id p (sink_emit D e rid typ text v d)"
  by (auto simp: sink_emit_def sims split: prod.split sum.split)

lemma register_loop_sim:
  "register_loop R es r rid as saved (p d) = map_prod id p (register_loop D es r rid as saved d)"
proof (induction as arbitrary: es saved d)
  case (Cons a as)
  then show ?case
    by (auto simp: known_artifact_def get_artifact_eq sims split: prod.split sum.split option.split)
qed simp

lemma register_sim:
  "sink_register_artifacts R es rid as (p d) = map_prod id p (sink_register_artifacts D es rid as d)"
  by (auto simp: sink_register_artifacts_def get_run_eq register_loop_sim split: sum.split)

lemma fail_sim: "sink_fail R es rid text (p d) = map_prod id p (sink_fail D es rid text d)"
  by (auto simp: sink_fail_def sink_fail_commit_def get_run_eq sims emit_sim split: prod.split sum.split)

lemma complete_sim:
  "sink_complete R es rid content as (p d) = map_prod id p (sink_complete D es rid content as d)"
  by (auto simp: sink_complete_def get_run_eq register_sim sims emit_sim split: prod.split sum.split)

lemma complete_with_usage_sim:
  "sink_complete_with_usage R es rid content u as (p d) =
     map_prod id p (sink_complete_with_usage D es rid content u as d)"
  by (auto simp: sink_complete_with_usage_def get_run_eq sims complete_sim split: prod.split sum.split)

lemma report_sim: "report_effect R x (p d) = p (report_effect D x d)"
  by (cases x) (simp_all add: complete_sim complete_with_usage_sim fail_sim)

lemma reports_sim: "reports_effect R xs (p d) = p (reports_effect D xs d)"
  by (induction xs arbitrary: d) (simp_all add: report_sim)

lemma view_sim: "view D d = view R (p d)"
  by (simp add: view_def run_board_def outcomes_def events_of_def get_run_eq list_events_eq fun_eq_iff)

end

lemma embed_simps [simp]:
  "rep_get_chat (embed_repository R) cid s = rep_get_chat R cid (fst s)"
  "rep_get_run (embed_repository R) rid s = rep_get_run R rid (fst s)"
  "rep_list_events (embed_repository R) rid n s = rep_list_events R rid n (fst s)"
  "rep_get_artifact (embed_repository R) e aid s = rep_get_artifact R e aid (fst s)"
  "rep_add_assistant_message (embed_repository R) e c rid text = with_right (rep_add_assistant_message R e c rid text)"
  "rep_update_run_status (embed_repository R) e rid st text = with_right (rep_update_run_status R e rid st text)"
  "rep_save_run_usage (embed_repository R) rid u = with_right (rep_save_run_usage R rid u)"
  "rep_add_event (embed_repository R) e rid typ text v = with_right (rep_add_event R e rid typ text v)"
  "rep_add_artifact (embed_repository R) e a = with_right (rep_add_artifact R e a)"
  by (simp_all add: embed_repository_def)

lemma with_right_eq: "with_right f s = (x, t) \<longleftrightarrow> f (fst s) = (x, fst t) \<and> snd t = snd s"
  by (cases t) (auto simp: with_right_def split: prod.splits)

interpretation embedding: transparent "embed_repository R" R fst for R
  by unfold_locales (auto simp: with_right_eq)

lemma releasing_update_fst:
  "releasing_update_run_status K l R e rid st text s = (res, t) \<Longrightarrow>
   rep_update_run_status R e rid st text (fst s) = (res, fst t)"
  by (auto simp: releasing_update_run_status_def Let_def split: prod.splits sum.splits if_splits)

interpretation releasing: transparent "releasing_repository K l R" R fst for K l R
  by unfold_locales (auto simp: releasing_repository_def with_right_eq releasing_update_fst)

lemma fanout_event_fst:
  "fanout_add_event bus R e rid typ text v s = (res, t) \<Longrightarrow>
   rep_add_event R e rid typ text v (fst s) = (res, fst t)"
  by (auto simp: fanout_add_event_def split: prod.splits sum.splits option.splits)

interpretation fanout: transparent "fanout_repository bus R" R fst for bus R
  by unfold_locales (auto simp: fanout_repository_def with_right_eq fanout_event_fst)

section \<open>Wrapped stores keep the laws of a repository\<close>

text \<open>A transparent wrapper of a lawful repository keeps the laws, whatever it adds to the
  validity of its states, provided the operations keep that.\<close>

lemma wrapped_repository:
  assumes "transparent D R p" "run_repository R valid"
    and "\<And>e rid st text d. valid (p d) \<Longrightarrow> extra d \<Longrightarrow> extra (snd (rep_update_run_status D e rid st text d))"
    and "\<And>e rid typ text v d. valid (p d) \<Longrightarrow> extra d \<Longrightarrow> extra (snd (rep_add_event D e rid typ text v d))"
    and "\<And>e c rid text d. valid (p d) \<Longrightarrow> extra d \<Longrightarrow> extra (snd (rep_add_assistant_message D e c rid text d))"
    and "\<And>rid u d. valid (p d) \<Longrightarrow> extra d \<Longrightarrow> extra (snd (rep_save_run_usage D rid u d))"
    and "\<And>e a d. valid (p d) \<Longrightarrow> extra d \<Longrightarrow> extra (snd (rep_add_artifact D e a d))"
  shows "run_repository D (\<lambda>d. valid (p d) \<and> extra d)"
proof -
  have board: "run_board D d = run_board R (p d)" and log: "events_of D d = events_of R (p d)" for d
    by (simp_all add: run_board_def events_of_def fun_eq_iff transparent.get_run_eq [OF assms(1)]
        transparent.list_events_eq [OF assms(1)])
  show ?thesis
  proof (unfold_locales, goal_cases)
    case (1 s e rid st "text" res t)
    then show ?case
      using run_repository.update [OF assms(2) _ transparent.update_sim [OF assms(1) 1(2)]]
        assms(3) [of s e rid st "text"] by (simp add: board log)
  next
    case (2 s e rid "typ" "text" payload rv t)
    then show ?case
      using run_repository.event [OF assms(2) _ transparent.event_sim [OF assms(1) 2(2)]]
        assms(4) [of s e rid "typ" "text" payload] by (cases rv) (simp_all add: board log)
  next
    case (3 s e c rid "text" rm t)
    then show ?case
      using run_repository.message [OF assms(2) _ transparent.message_sim [OF assms(1) 3(2)]]
        assms(5) [of s e c rid "text"] by (simp add: board log)
  next
    case (4 s rid u res t)
    then show ?case
      using run_repository.usage [OF assms(2) _ transparent.usage_sim [OF assms(1) 4(2)]]
        assms(6) [of s rid u] by (simp add: board log)
  next
    case (5 s e a out t)
    then show ?case
      using run_repository.artifact [OF assms(2) _ transparent.artifact_sim [OF assms(1) 5(2)]]
        assms(7) [of s e a] by (simp add: board log)
  qed
qed

end
