(* ===== verification/Quota_Laws.thy ===== *)
theory Quota_Laws
  imports Quota_Limiter
begin

text \<open>
  The laws of a counter store, and what the operations of the limiter do with any store that
  keeps them. \<open>tally\<close> and \<open>marks\<close> read the counters and the run markers off the server's
  state; a call fails without effect or succeeds with its effect, and while the server is
  \<open>up\<close> no call fails. \<open>share\<close> is what a reservation has added to each counter.
\<close>

section \<open>Shares of the counters\<close>

definition active_share :: "reservation \<Rightarrow> string \<Rightarrow> int" where
  "active_share r k = (if rsv_active r \<and> k = rsv_active_key r then 1 else 0)"

definition hour_share :: "reservation \<Rightarrow> string \<Rightarrow> int" where
  "hour_share r k = (if rsv_hour r \<and> k = rsv_hour_key r then 1 else 0)"

definition token_share :: "reservation \<Rightarrow> string \<Rightarrow> int" where
  "token_share r k = (if rsv_tokens r > 0 \<and> k = rsv_token_key r then rsv_tokens r else 0)"

definition share :: "reservation \<Rightarrow> string \<Rightarrow> int" where
  "share r k = active_share r k + hour_share r k + token_share r k"

lemmas share_defs = share_def active_share_def hour_share_def token_share_def

text \<open>\<open>marked r\<close>: the reservation was committed under a marker; a rollback then gives back the
  active slot and the tokens only if it removes that marker itself.\<close>

definition marked :: "reservation \<Rightarrow> bool" where
  "marked r \<longleftrightarrow> rsv_committed r \<and> rsv_marker_key r \<noteq> ''''"

definition held :: "(string \<rightharpoonup> string) \<Rightarrow> reservation \<Rightarrow> string \<Rightarrow> int" where
  "held m r k = (if marked r \<and> m (rsv_marker_key r) = None then hour_share r k else share r k)"

lemma share_new [simp]: "share new_reservation k = 0" "\<not> marked new_reservation"
  by (simp_all add: share_defs new_reservation_def marked_def)

definition bumped ::
  "('c \<Rightarrow> string \<Rightarrow> int) \<Rightarrow> ('c \<Rightarrow> string \<rightharpoonup> string) \<Rightarrow> int result \<Rightarrow> int \<Rightarrow> string \<Rightarrow> 'c \<Rightarrow> 'c \<Rightarrow> bool" where
  "bumped tally marks res n k c c' \<longleftrightarrow>
     marks c' = marks c \<and>
     (case res of
        Inl err \<Rightarrow> tally c' = tally c
      | Inr v \<Rightarrow> tally c' = (tally c)(k := wrap64 (tally c k + n)) \<and> v = tally c' k)"

definition set_once ::
  "('c \<Rightarrow> string \<Rightarrow> int) \<Rightarrow> ('c \<Rightarrow> string \<rightharpoonup> string) \<Rightarrow> bool result \<Rightarrow> string \<Rightarrow> string \<Rightarrow> 'c \<Rightarrow> 'c \<Rightarrow> bool" where
  "set_once tally marks res k v c c' \<longleftrightarrow>
     tally c' = tally c \<and>
     (case res of
        Inl err \<Rightarrow> marks c' = marks c
      | Inr True \<Rightarrow> marks c k = None \<and> marks c' = (marks c)(k \<mapsto> v)
      | Inr False \<Rightarrow> marks c k \<noteq> None \<and> marks c' = marks c)"

definition removed_key ::
  "('c \<Rightarrow> string \<Rightarrow> int) \<Rightarrow> ('c \<Rightarrow> string \<rightharpoonup> string) \<Rightarrow> int result \<Rightarrow> string \<Rightarrow> 'c \<Rightarrow> 'c \<Rightarrow> bool" where
  "removed_key tally marks res k c c' \<longleftrightarrow>
     tally c' = tally c \<and>
     (case res of
        Inl err \<Rightarrow> marks c' = marks c
      | Inr n \<Rightarrow> marks c' = (marks c)(k := None) \<and> n = (if marks c k = None then 0 else 1))"

lemma keys_distinct:
  "active_key l p u \<noteq> hour_key l a t" "active_key l p u \<noteq> token_key l a t"
  "hour_key l b t' \<noteq> token_key l a t"
  by (simp_all add: active_key_def hour_key_def token_key_def)

section \<open>The laws\<close>

locale counter_laws =
  fixes st :: "'c counter_store"
    and tally :: "'c \<Rightarrow> string \<Rightarrow> int" and marks :: "'c \<Rightarrow> string \<rightharpoonup> string"
  assumes range: "wrap64 (tally c k) = tally c k"
    and incr: "cst_incr st k c = (res, c') \<Longrightarrow> bumped tally marks res 1 k c c'"
    and decr: "cst_decr st k c = (res, c') \<Longrightarrow> bumped tally marks res (- 1) k c c'"
    and incr_by: "cst_incr_by st k n c = (res, c') \<Longrightarrow> bumped tally marks res n k c c'"
    and decr_by: "cst_decr_by st k n c = (res, c') \<Longrightarrow> bumped tally marks res (- n) k c c'"
    and expire: "cst_expire st k ttl c = (err, c') \<Longrightarrow> tally c' = tally c \<and> marks c' = marks c"
    and set_nx: "cst_set_nx st k v ttl c = (sn, c') \<Longrightarrow> set_once tally marks sn k v c c'"
    and get: "cst_get st k c = (got, c') \<Longrightarrow>
      tally c' = tally c \<and> marks c' = marks c \<and> (\<forall>x. got = Inr x \<longrightarrow> x = marks c k)"
    and del: "cst_del st k c = (res, c') \<Longrightarrow> removed_key tally marks res k c c'"

locale reliable_counters = counter_laws +
  fixes up :: "'c \<Rightarrow> bool"
  assumes up_incr: "up c \<Longrightarrow> cst_incr st k c = (res, c') \<Longrightarrow> \<not> isl res \<and> up c'"
    and up_decr: "up c \<Longrightarrow> cst_decr st k c = (res, c') \<Longrightarrow> \<not> isl res \<and> up c'"
    and up_incr_by: "up c \<Longrightarrow> cst_incr_by st k n c = (res, c') \<Longrightarrow> \<not> isl res \<and> up c'"
    and up_decr_by: "up c \<Longrightarrow> cst_decr_by st k n c = (res, c') \<Longrightarrow> \<not> isl res \<and> up c'"
    and up_expire: "up c \<Longrightarrow> cst_expire st k ttl c = (err, c') \<Longrightarrow> err = None \<and> up c'"
    and up_set_nx: "up c \<Longrightarrow> cst_set_nx st k v ttl c = (sn, c') \<Longrightarrow> \<not> isl sn \<and> up c'"
    and up_get: "up c \<Longrightarrow> cst_get st k c = (got, c') \<Longrightarrow> \<not> isl got \<and> up c'"
    and up_del: "up c \<Longrightarrow> cst_del st k c = (res, c') \<Longrightarrow> \<not> isl res \<and> up c'"
begin

definition shifted :: "(string \<Rightarrow> int) \<Rightarrow> 'c \<Rightarrow> 'c \<Rightarrow> bool" where
  "shifted d c c' \<longleftrightarrow> up c' \<and> (\<forall>k. tally c' k = wrap64 (tally c k + d k))"

lemma shifted_trans: "shifted d c c1 \<Longrightarrow> shifted f c1 c2 \<Longrightarrow> shifted (\<lambda>k. d k + f k) c c2"
  by (auto simp: shifted_def algebra_simps)

lemma shifted_zero: "up c' \<Longrightarrow> tally c' = tally c \<Longrightarrow> shifted (\<lambda>k. 0) c c'"
  by (simp add: shifted_def range)

lemma shifted_refl: "up c \<Longrightarrow> (\<And>k. d k = 0) \<Longrightarrow> shifted d c c"
  by (simp add: shifted_def range)

lemma shifted_cong: "shifted d c c' \<Longrightarrow> (\<And>k. d k = f k) \<Longrightarrow> shifted f c c'"
  by (simp add: shifted_def)

lemma shifted_0D: "shifted d c c' \<Longrightarrow> (\<And>k. d k = 0) \<Longrightarrow> tally c' = tally c"
  by (auto simp: shifted_def range)

lemma bumped_shifted:
  assumes "bumped tally marks res n k c c'" "\<not> isl res" "up c'"
  shows "shifted (\<lambda>j. if j = k then n else 0) c c'" "marks c' = marks c" "res = Inr (tally c' k)"
  using assms by (auto simp: bumped_def shifted_def range split: sum.splits)

lemma incr_up:
  assumes "up c" "cst_incr st k c = (res, c')"
  shows "shifted (\<lambda>j. if j = k then 1 else 0) c c'" "marks c' = marks c" "res = Inr (tally c' k)"
  using bumped_shifted [OF incr [OF assms(2)]] up_incr [OF assms] by blast+

lemma decr_up:
  assumes "up c" "cst_decr st k c = (res, c')"
  shows "shifted (\<lambda>j. if j = k then - 1 else 0) c c'" "marks c' = marks c" "res = Inr (tally c' k)"
  using bumped_shifted [OF decr [OF assms(2)]] up_decr [OF assms] by blast+

lemma incr_by_up:
  assumes "up c" "cst_incr_by st k n c = (res, c')"
  shows "shifted (\<lambda>j. if j = k then n else 0) c c'" "marks c' = marks c" "res = Inr (tally c' k)"
  using bumped_shifted [OF incr_by [OF assms(2)]] up_incr_by [OF assms] by blast+

lemma decr_by_up:
  assumes "up c" "cst_decr_by st k n c = (res, c')"
  shows "shifted (\<lambda>j. if j = k then - n else 0) c c'" "marks c' = marks c" "res = Inr (tally c' k)"
  using bumped_shifted [OF decr_by [OF assms(2)]] up_decr_by [OF assms] by blast+

lemma expire_up:
  assumes "up c" "cst_expire st k ttl c = (err, c')"
  shows "shifted (\<lambda>j. 0) c c'" "marks c' = marks c" "err = None"
  using expire [OF assms(2)] up_expire [OF assms] by (auto intro: shifted_zero)

lemma del_up:
  assumes "up c" "cst_del st k c = (res, c')"
  shows "shifted (\<lambda>j. 0) c c'" "marks c' = (marks c)(k := None)"
    "res = Inr (if marks c k = None then 0 else 1)"
  using del [OF assms(2)] up_del [OF assms]
  by (auto simp: removed_key_def intro: shifted_zero split: sum.splits)

section \<open>Rollback\<close>

lemma rollback_active_up:
  assumes "up c" "rollback_active st release e r c = (e', r', c')"
  shows "e' = e \<and> r' = r\<lparr>rsv_active := False\<rparr> \<and> marks c' = marks c \<and>
    shifted (\<lambda>k. if release then - active_share r k else 0) c c'"
proof (cases "rsv_active r \<and> release")
  case True
  obtain res c1 where d: "cst_decr st (rsv_active_key r) c = (res, c1)" by fastforce
  note u = decr_up [OF assms(1) d]
  with True assms(2) d show ?thesis
    by (auto simp: rollback_active_def first_error_def active_share_def split: option.splits
        elim: shifted_cong)
next
  case False
  then have "c' = c" "e' = e" "r' = r\<lparr>rsv_active := False\<rparr>"
    using assms(2) by (auto simp: rollback_active_def split: if_splits)
  with False assms(1) show ?thesis
    by (auto simp: active_share_def intro!: shifted_refl)
qed

lemma rollback_hour_up:
  assumes "up c" "rollback_hour st e r c = (e', r', c')"
  shows "e' = e \<and> r' = r\<lparr>rsv_hour := False\<rparr> \<and> marks c' = marks c \<and>
    shifted (\<lambda>k. - hour_share r k) c c'"
proof (cases "rsv_hour r")
  case True
  obtain res c1 where d: "cst_decr st (rsv_hour_key r) c = (res, c1)" by fastforce
  note u = decr_up [OF assms(1) d]
  with True assms(2) d show ?thesis
    by (auto simp: rollback_hour_def first_error_def hour_share_def split: option.splits
        elim: shifted_cong)
next
  case False
  then have "c' = c" "e' = e" "r' = r\<lparr>rsv_hour := False\<rparr>"
    using assms(2) by (auto simp: rollback_hour_def)
  with False assms(1) show ?thesis
    by (auto simp: hour_share_def intro!: shifted_refl)
qed

lemma rollback_tokens_up:
  assumes "up c" "rollback_tokens st release e r c = (e', r', c')"
  shows "e' = e \<and> r' = r\<lparr>rsv_tokens := min 0 (rsv_tokens r)\<rparr> \<and> marks c' = marks c \<and>
    shifted (\<lambda>k. if release then - token_share r k else 0) c c'"
proof (cases "rsv_tokens r > 0 \<and> release")
  case True
  obtain res c1 where d: "cst_decr_by st (rsv_token_key r) (rsv_tokens r) c = (res, c1)" by fastforce
  note u = decr_by_up [OF assms(1) d]
  with True assms(2) d show ?thesis
    by (auto simp: rollback_tokens_def first_error_def token_share_def split: option.splits
        elim: shifted_cong)
next
  case False
  then have "c' = c" "e' = e" "r' = r\<lparr>rsv_tokens := min 0 (rsv_tokens r)\<rparr>"
    using assms(2) by (auto simp: rollback_tokens_def split: if_splits)
  with False assms(1) show ?thesis
    by (auto simp: token_share_def intro!: shifted_refl)
qed

lemma rollback_up:
  assumes "up c" "rollback st r c = (e, r', c')"
  shows "e = None \<and> r' = r\<lparr>rsv_active := False, rsv_hour := False, rsv_tokens := min 0 (rsv_tokens r)\<rparr> \<and>
    shifted (\<lambda>k. - held (marks c) r k) c c' \<and>
    marks c' = (if marked r then (marks c)(rsv_marker_key r := None) else marks c)"
proof -
  define release where "release = (\<not> marked r \<or> marks c (rsv_marker_key r) \<noteq> None)"
  obtain e0 rel c0 where m: "rollback_marker st r c = (e0, rel, c0)" by (metis prod_cases3)
  have 0: "e0 = None" "rel = release" "shifted (\<lambda>k. 0) c c0"
    "marks c0 = (if marked r then (marks c)(rsv_marker_key r := None) else marks c)"
  proof -
    obtain res d where del: "cst_del st (rsv_marker_key r) c = (res, d)" by fastforce
    note u = del_up [OF assms(1) this]
    have "(e0, rel, c0) = (if marked r then (None, marks c (rsv_marker_key r) \<noteq> None, d) else (None, True, c))"
      using m del u(3) by (auto simp: rollback_marker_def marked_def first_error_def split: if_splits)
    then show "e0 = None" "rel = release" "shifted (\<lambda>k. 0) c c0"
      "marks c0 = (if marked r then (marks c)(rsv_marker_key r := None) else marks c)"
      using u assms(1) by (auto simp: release_def shifted_zero split: if_splits)
  qed
  obtain e1 r1 c1 where a: "rollback_active st rel e0 r c0 = (e1, r1, c1)" by (metis prod_cases3)
  obtain e2 r2 c2 where h: "rollback_hour st e1 r1 c1 = (e2, r2, c2)" by (metis prod_cases3)
  have t: "rollback_tokens st rel e2 r2 c2 = (e, r', c')"
    using assms(2) m a h by (simp add: rollback_def)
  have "up c0" using 0 by (simp add: shifted_def)
  note 1 = rollback_active_up [OF this a]
  then have "up c1" by (simp add: shifted_def)
  note 2 = rollback_hour_up [OF this h]
  then have "up c2" by (simp add: shifted_def)
  note 3 = rollback_tokens_up [OF this t]
  have "shifted (\<lambda>k. 0 + (if rel then - active_share r k else 0) + (- hour_share r1 k) +
      (if rel then - token_share r2 k else 0)) c c'"
    using 0 1 2 3 shifted_trans by blast
  then have "shifted (\<lambda>k. - held (marks c) r k) c c'"
    by (rule shifted_cong)
      (use 0 1 2 3 in \<open>auto simp: held_def share_def release_def hour_share_def token_share_def\<close>)
  with 0 1 2 3 show ?thesis by simp
qed

section \<open>Reserving\<close>

text \<open>The limits a granted reservation is within, as the counters stand.\<close>

definition active_granted :: "'b limiter \<Rightarrow> actor_context \<Rightarrow> quota_policy \<Rightarrow> reservation \<Rightarrow> 'c \<Rightarrow> bool" where
  "active_granted l actor policy r c \<longleftrightarrow>
     (rsv_active r \<longrightarrow> qpl_max_concurrent_runs policy > 0) \<and>
     (qpl_max_concurrent_runs policy > 0 \<longrightarrow> rsv_active r \<and>
        rsv_active_key r = active_key l (act_project_id actor) (act_user_id actor) \<and>
        tally c (rsv_active_key r) \<le> qpl_max_concurrent_runs policy)"

definition hour_granted ::
  "'b limiter \<Rightarrow> actor_context \<Rightarrow> quota_policy \<Rightarrow> gtime \<Rightarrow> reservation \<Rightarrow> 'c \<Rightarrow> bool" where
  "hour_granted l actor policy now r c \<longleftrightarrow>
     (rsv_hour r \<longrightarrow> qpl_max_runs_per_hour policy > 0) \<and>
     (qpl_max_runs_per_hour policy > 0 \<longrightarrow> rsv_hour r \<and> rsv_hour_key r = hour_key l actor now \<and>
        tally c (rsv_hour_key r) \<le> qpl_max_runs_per_hour policy)"

definition tokens_granted ::
  "'b limiter \<Rightarrow> actor_context \<Rightarrow> quota_policy \<Rightarrow> int \<Rightarrow> gtime \<Rightarrow> reservation \<Rightarrow> 'c \<Rightarrow> bool" where
  "tokens_granted l actor policy hint now r c \<longleftrightarrow>
     0 \<le> rsv_tokens r \<and>
     (rsv_tokens r > 0 \<longleftrightarrow>
        qpl_max_model_tokens_per_day policy > 0 \<and> model_token_reservation l hint > 0) \<and>
     (rsv_tokens r > 0 \<longrightarrow>
        rsv_tokens r = model_token_reservation l hint \<and> rsv_token_key r = token_key l actor now \<and>
        tally c (rsv_token_key r) \<le> qpl_max_model_tokens_per_day policy)"

definition within_limits ::
  "'b limiter \<Rightarrow> actor_context \<Rightarrow> quota_policy \<Rightarrow> int \<Rightarrow> gtime \<Rightarrow> gtime \<Rightarrow> reservation \<Rightarrow> 'c \<Rightarrow> bool" where
  "within_limits l actor policy hint nh nt r c \<longleftrightarrow>
     active_granted l actor policy r c \<and> hour_granted l actor policy nh r c \<and>
     tokens_granted l actor policy hint nt r c"

text \<open>A block changes the counter of one key and leaves the others alone.\<close>

definition elsewhere :: "string \<Rightarrow> 'c \<Rightarrow> 'c \<Rightarrow> bool" where
  "elsewhere key c c' \<longleftrightarrow> (\<forall>k. k \<noteq> key \<longrightarrow> tally c' k = tally c k)"

lemma shifted_at: "shifted d c c' \<Longrightarrow> d k = 0 \<Longrightarrow> tally c' k = tally c k"
  by (simp add: shifted_def range)

lemma elsewhere_shift: "shifted (\<lambda>j. if j = key then n else 0) c c' \<Longrightarrow> elsewhere key c c'"
  by (auto simp: elsewhere_def intro: shifted_at)

lemma active_granted_same:
  "rsv_active r' = rsv_active r \<Longrightarrow> rsv_active_key r' = rsv_active_key r \<Longrightarrow>
   elsewhere key c c' \<Longrightarrow> active_key l (act_project_id actor) (act_user_id actor) \<noteq> key \<Longrightarrow>
   active_granted l actor policy r c \<Longrightarrow> active_granted l actor policy r' c'"
  by (auto simp: active_granted_def elsewhere_def)

lemma hour_granted_same:
  "rsv_hour r' = rsv_hour r \<Longrightarrow> rsv_hour_key r' = rsv_hour_key r \<Longrightarrow>
   elsewhere key c c' \<Longrightarrow> hour_key l actor now \<noteq> key \<Longrightarrow>
   hour_granted l actor policy now r c \<Longrightarrow> hour_granted l actor policy now r' c'"
  by (auto simp: hour_granted_def elsewhere_def)

text \<open>
  What a block of \<open>ReserveRunWithHint\<close> does from a reservation \<open>r\<close>: it adds to the counters
  what it adds to the reservation, or takes everything back.
\<close>

definition attempt_ok :: "reservation \<Rightarrow> 'c \<Rightarrow> attempt result \<times> 'c \<Rightarrow> bool" where
  "attempt_ok r c x \<longleftrightarrow>
     marks (snd x) = marks c \<and>
     (case fst x of
        Inl err \<Rightarrow> False
      | Inr (Denied d) \<Rightarrow> shifted (\<lambda>k. - share r k) c (snd x)
      | Inr (Granted r') \<Rightarrow>
          \<not> rsv_committed r' \<and> rsv_marker_key r' = rsv_marker_key r \<and> shifted (\<lambda>k. share r' k - share r k) c (snd x))"

lemma attempt_keep: "up c \<Longrightarrow> \<not> rsv_committed r \<Longrightarrow> attempt_ok r c (Inr (Granted r), c)"
  by (auto simp: attempt_ok_def intro: shifted_refl)

lemma rollback_fresh:
  assumes "up c" "\<not> rsv_committed r"
  shows "shifted (\<lambda>k. - share r k) c (snd (snd (rollback st r c)))"
    "marks (snd (snd (rollback st r c))) = marks c"
proof -
  obtain e r' c' where "rollback st r c = (e, r', c')" by (metis prod_cases3)
  note u = rollback_up [OF assms(1) this]
  then show "shifted (\<lambda>k. - share r k) c (snd (snd (rollback st r c)))"
    "marks (snd (snd (rollback st r c))) = marks c"
    using assms(2) \<open>rollback st r c = (e, r', c')\<close> by (auto simp: marked_def held_def)
qed

lemma reserve_active_up:
  assumes "up c" "reserve_active st l actor policy new_reservation c = (res, c')"
  shows "attempt_ok new_reservation c (res, c') \<and>
    (\<forall>r. res = Inr (Granted r) \<longrightarrow> \<not> rsv_hour r \<and> rsv_tokens r = 0 \<and>
       active_granted l actor policy r c')"
proof (cases "qpl_max_concurrent_runs policy > 0")
  case False
  then show ?thesis using assms
    by (auto simp: reserve_active_def new_reservation_def active_granted_def intro!: attempt_keep)
next
  case True
  let ?k = "active_key l (act_project_id actor) (act_user_id actor)"
  let ?r = "new_reservation\<lparr>rsv_active_key := ?k, rsv_active := True\<rparr>"
  obtain v c1 where i: "cst_incr st ?k c = (v, c1)" by fastforce
  note 1 = incr_up [OF assms(1) i]
  then have "up c1" by (simp add: shifted_def)
  obtain err c2 where x: "cst_expire st ?k active_ttl c1 = (err, c2)" by fastforce
  note 2 = expire_up [OF \<open>up c1\<close> x]
  then have "up c2" by (simp add: shifted_def)
  obtain w c3 where d: "cst_decr st ?k c2 = (w, c3)" by fastforce
  note 3 = decr_up [OF \<open>up c2\<close> d]
  have 12: "shifted (\<lambda>j. (if j = ?k then 1 else 0) + 0) c c2" using 1 2 shifted_trans by blast
  have t: "tally c2 = tally c1" using shifted_0D [OF 2(1)] by simp
  show ?thesis
  proof (cases "tally c1 ?k > qpl_max_concurrent_runs policy")
    case over: True
    have "(res, c') = (res, c3)" "\<exists>y. res = Inr (Denied y)"
      using assms(2) True over i x d 1(3) 2(3) by (auto simp: reserve_active_def Let_def)
    moreover have "shifted (\<lambda>k. - share new_reservation k) c c3"
      by (rule shifted_cong [OF shifted_trans [OF 12 3(1)]]) simp
    ultimately show ?thesis using 1 2 3 by (auto simp: attempt_ok_def)
  next
    case False
    then have "(res, c') = (Inr (Granted ?r), c2)"
      using assms(2) True i x 1(3) 2(3) by (auto simp: reserve_active_def Let_def)
    moreover have "shifted (\<lambda>k. share ?r k - share new_reservation k) c c2"
      by (rule shifted_cong [OF 12]) (simp add: share_defs new_reservation_def)
    ultimately show ?thesis using 1 2 t False True
      by (simp add: attempt_ok_def new_reservation_def active_granted_def)
  qed
qed

lemma reserve_hour_up:
  assumes "up c" "\<not> rsv_committed r" "\<not> rsv_hour r"
    and "reserve_hour st l actor policy now r c = (res, c')"
  shows "attempt_ok r c (res, c') \<and>
    (\<forall>r'. res = Inr (Granted r') \<longrightarrow> rsv_active r' = rsv_active r \<and>
       rsv_active_key r' = rsv_active_key r \<and> rsv_tokens r' = rsv_tokens r \<and>
       elsewhere (hour_key l actor now) c c' \<and> hour_granted l actor policy now r' c')"
proof (cases "qpl_max_runs_per_hour policy > 0")
  case False
  then show ?thesis using assms
    by (auto simp: reserve_hour_def hour_granted_def elsewhere_def intro!: attempt_keep)
next
  case True
  let ?k = "hour_key l actor now"
  let ?r = "r\<lparr>rsv_hour_key := ?k, rsv_hour := True\<rparr>"
  obtain v c1 where i: "cst_incr st ?k c = (v, c1)" by fastforce
  note 1 = incr_up [OF assms(1) i]
  then have "up c1" by (simp add: shifted_def)
  obtain err c2 where x: "cst_expire st ?k hour_window_buffer c1 = (err, c2)" by fastforce
  note 2 = expire_up [OF \<open>up c1\<close> x]
  then have "up c2" by (simp add: shifted_def)
  have 12: "shifted (\<lambda>j. (if j = ?k then 1 else 0) + 0) c c2" using 1 2 shifted_trans by blast
  have t: "tally c2 = tally c1" using shifted_0D [OF 2(1)] by simp
  have sh: "share ?r k = share r k + (if k = ?k then 1 else 0)" for k
    using assms(3) by (simp add: share_defs)
  show ?thesis
  proof (cases "tally c1 ?k > qpl_max_runs_per_hour policy")
    case over: True
    have "(res, c') = (res, snd (snd (rollback st ?r c2)))" "\<exists>y. res = Inr (Denied y)"
      using assms(4) True over i x 1(3) 2(3) by (auto simp: reserve_hour_def Let_def)
    moreover have "shifted (\<lambda>k. - share r k) c (snd (snd (rollback st ?r c2)))"
      by (rule shifted_cong [OF shifted_trans [OF 12 rollback_fresh(1) [OF \<open>up c2\<close>]]])
        (use assms(2) sh in auto)
    ultimately show ?thesis using 1 2 rollback_fresh(2) [OF \<open>up c2\<close>, of ?r] assms(2)
      by (auto simp: attempt_ok_def)
  next
    case False
    then have "(res, c') = (Inr (Granted ?r), c2)"
      using assms(4) True i x 1(3) 2(3) by (auto simp: reserve_hour_def Let_def)
    moreover have "shifted (\<lambda>k. share ?r k - share r k) c c2"
      by (rule shifted_cong [OF 12]) (simp add: sh)
    moreover have "elsewhere ?k c c2"
      using elsewhere_shift [OF 1(1)] t by (simp add: elsewhere_def)
    ultimately show ?thesis using 1 2 t False assms(2) True
      by (simp add: attempt_ok_def hour_granted_def)
  qed
qed

lemma reserve_tokens_up:
  assumes "up c" "\<not> rsv_committed r" "rsv_tokens r = 0"
    and "reserve_tokens st l actor policy hint now r c = (res, c')"
  shows "attempt_ok r c (res, c') \<and>
    (\<forall>r'. res = Inr (Granted r') \<longrightarrow> rsv_active r' = rsv_active r \<and>
       rsv_active_key r' = rsv_active_key r \<and> rsv_hour r' = rsv_hour r \<and>
       rsv_hour_key r' = rsv_hour_key r \<and> elsewhere (token_key l actor now) c c' \<and>
       tokens_granted l actor policy hint now r' c')"
proof (cases "qpl_max_model_tokens_per_day policy > 0 \<and> model_token_reservation l hint > 0")
  case False
  then have "(res, c') = (Inr (Granted r), c)" using assms(4) by (auto simp: reserve_tokens_def)
  then show ?thesis using assms False
    by (auto simp: tokens_granted_def elsewhere_def intro!: attempt_keep)
next
  case True
  let ?k = "token_key l actor now" and ?n = "model_token_reservation l hint"
  let ?r = "r\<lparr>rsv_token_key := ?k, rsv_tokens := ?n\<rparr>"
  obtain v c1 where i: "cst_incr_by st ?k ?n c = (v, c1)" by fastforce
  note 1 = incr_by_up [OF assms(1) i]
  then have "up c1" by (simp add: shifted_def)
  obtain err c2 where x: "cst_expire st ?k token_window_ttl c1 = (err, c2)" by fastforce
  note 2 = expire_up [OF \<open>up c1\<close> x]
  then have "up c2" by (simp add: shifted_def)
  have 12: "shifted (\<lambda>j. (if j = ?k then ?n else 0) + 0) c c2" using 1 2 shifted_trans by blast
  have t: "tally c2 = tally c1" using shifted_0D [OF 2(1)] by simp
  have sh: "share ?r k = share r k + (if k = ?k then ?n else 0)" for k
    using assms(3) True by (simp add: share_defs)
  show ?thesis
  proof (cases "tally c1 ?k > qpl_max_model_tokens_per_day policy")
    case over: True
    have "(res, c') = (res, snd (snd (rollback st ?r c2)))" "\<exists>y. res = Inr (Denied y)"
      using assms(4) True over i x 1(3) 2(3) by (auto simp: reserve_tokens_def Let_def)
    moreover have "shifted (\<lambda>k. - share r k) c (snd (snd (rollback st ?r c2)))"
      by (rule shifted_cong [OF shifted_trans [OF 12 rollback_fresh(1) [OF \<open>up c2\<close>]]])
        (use assms(2) sh in auto)
    ultimately show ?thesis using 1 2 rollback_fresh(2) [OF \<open>up c2\<close>, of ?r] assms(2)
      by (auto simp: attempt_ok_def)
  next
    case False
    then have "(res, c') = (Inr (Granted ?r), c2)"
      using assms(4) True i x 1(3) 2(3) by (auto simp: reserve_tokens_def Let_def)
    moreover have "shifted (\<lambda>k. share ?r k - share r k) c c2"
      by (rule shifted_cong [OF 12]) (simp add: sh)
    moreover have "elsewhere ?k c c2"
      using elsewhere_shift [OF 1(1)] t by (simp add: elsewhere_def)
    ultimately show ?thesis using 1 2 t False assms(2) True
      by (simp add: attempt_ok_def tokens_granted_def)
  qed
qed

lemma attempt_chain:
  assumes "attempt_ok r c (Inr (Granted r1), c1)" "attempt_ok r1 c1 (res, c2)"
  shows "attempt_ok r c (res, c2)"
proof -
  have 1: "shifted (\<lambda>k. share r1 k - share r k) c c1" "marks c1 = marks c"
    "rsv_marker_key r1 = rsv_marker_key r"
    using assms(1) by (simp_all add: attempt_ok_def)
  have "shifted (\<lambda>k. - share r k) c c2" if "shifted (\<lambda>k. - share r1 k) c1 c2"
    by (rule shifted_cong [OF shifted_trans [OF 1(1) that]]) simp
  moreover have "shifted (\<lambda>k. share r' k - share r k) c c2"
    if "shifted (\<lambda>k. share r' k - share r1 k) c1 c2" for r'
    by (rule shifted_cong [OF shifted_trans [OF 1(1) that]]) simp
  ultimately show ?thesis using assms(2) 1(2,3)
    by (auto simp: attempt_ok_def split: sum.splits attempt.splits)
qed

definition reserve_ok ::
  "'b limiter \<Rightarrow> actor_context \<Rightarrow> quota_policy \<Rightarrow> int \<Rightarrow> gtime \<Rightarrow> gtime \<Rightarrow> 'c \<Rightarrow> outcome result \<Rightarrow> 'c \<Rightarrow> bool" where
  "reserve_ok l actor policy hint nh nt c res c' \<longleftrightarrow>
     up c' \<and> marks c' = marks c \<and>
     (case res of
        Inl err \<Rightarrow> False
      | Inr (Refused d) \<Rightarrow> tally c' = tally c
      | Inr (Reserved None) \<Rightarrow> False
      | Inr (Reserved (Some r)) \<Rightarrow>
          \<not> rsv_committed r \<and> rsv_marker_key r = '''' \<and> shifted (share r) c c' \<and>
          within_limits l actor policy hint nh nt r c')"

lemma attempt_denied: "attempt_ok new_reservation c (Inr (Denied d), c') \<Longrightarrow> up c' \<and> tally c' = tally c"
  by (auto simp: attempt_ok_def shifted_def range)

lemma chain_granted:
  "chain_attempt x f = (Inr (Granted r), c') \<longleftrightarrow>
     (\<exists>r1 c1. x = (Inr (Granted r1), c1) \<and> f r1 c1 = (Inr (Granted r), c'))"
  by (auto simp: chain_attempt_def split: prod.split sum.split attempt.split)

lemma chain_attempt_ok:
  assumes "attempt_ok r c x"
    and "\<And>r1 c1. x = (Inr (Granted r1), c1) \<Longrightarrow> attempt_ok r1 c1 (f r1 c1)"
  shows "attempt_ok r c (chain_attempt x f)"
proof (cases "\<exists>r1 c1. x = (Inr (Granted r1), c1)")
  case True
  then obtain r1 c1 where x: "x = (Inr (Granted r1), c1)" by blast
  obtain res c2 where "f r1 c1 = (res, c2)" by fastforce
  with x assms attempt_chain [of r c r1 c1 res c2] show ?thesis by (simp add: chain_attempt_def)
next
  case False
  then have "chain_attempt x f = x"
    by (auto simp: chain_attempt_def split: prod.split sum.split attempt.split)
  with assms(1) show ?thesis by simp
qed

lemma granted_up: "attempt_ok r c (Inr (Granted r1), c1) \<Longrightarrow> up c1 \<and> \<not> rsv_committed r1"
  by (simp add: attempt_ok_def shifted_def)

lemma granted_limits:
  assumes "up c" and a: "reserve_active st l actor policy new_reservation c = (Inr (Granted r1), c1)"
    and h: "reserve_hour st l actor policy nh r1 c1 = (Inr (Granted r2), c2)"
    and t: "reserve_tokens st l actor policy hint nt r2 c2 = (Inr (Granted r), c3)"
  shows "within_limits l actor policy hint nh nt r c3"
proof -
  note 1 = reserve_active_up [OF assms(1) a]
  then have g1: "up c1" "\<not> rsv_committed r1" "\<not> rsv_hour r1" "rsv_tokens r1 = 0"
    using granted_up by blast+
  note 2 = reserve_hour_up [OF g1(1-3) h]
  then have g2: "up c2" "\<not> rsv_committed r2" "rsv_tokens r2 = 0"
    using granted_up g1(4) by auto
  note 3 = reserve_tokens_up [OF g2 t]
  have f2: "rsv_active r2 = rsv_active r1" "rsv_active_key r2 = rsv_active_key r1"
    "elsewhere (hour_key l actor nh) c1 c2" "hour_granted l actor policy nh r2 c2"
    using 2 by blast+
  have f3: "rsv_active r = rsv_active r2" "rsv_active_key r = rsv_active_key r2"
    "rsv_hour r = rsv_hour r2" "rsv_hour_key r = rsv_hour_key r2"
    "elsewhere (token_key l actor nt) c2 c3" "tokens_granted l actor policy hint nt r c3"
    using 3 by blast+
  have "active_granted l actor policy r1 c1" using 1 by blast
  from active_granted_same [OF f2(1-3) keys_distinct(1) this]
  have "active_granted l actor policy r2 c2" .
  from active_granted_same [OF f3(1,2,5) keys_distinct(2) this]
    hour_granted_same [OF f3(3-5) keys_distinct(3) f2(4)] f3(6)
  show ?thesis by (simp add: within_limits_def)
qed

lemma reserve_up:
  assumes "up c" "lim_store l = Some st"
    and "reserve_run_with_hint l actor policy hint nh nt c = (res, c')"
  shows "reserve_ok l actor policy hint nh nt c res c'"
proof -
  define x where "x = chain_attempt
      (chain_attempt (reserve_active st l actor policy new_reservation c)
         (reserve_hour st l actor policy nh)) (reserve_tokens st l actor policy hint nt)"
  have res: "(res, c') = (case x of (Inl err, c1) \<Rightarrow> (Inl err, c1)
      | (Inr (Denied d), c1) \<Rightarrow> (Inr (Refused d), c1)
      | (Inr (Granted r), c1) \<Rightarrow> (Inr (Reserved (Some r)), c1))"
    using assms(2,3) by (simp add: reserve_run_with_hint_def x_def)
  have ok: "attempt_ok new_reservation c x"
    unfolding x_def
  proof (intro chain_attempt_ok)
    show "attempt_ok new_reservation c (reserve_active st l actor policy new_reservation c)"
      using reserve_active_up [OF assms(1)] by (metis prod.collapse)
  next
    fix r1 c1 assume "reserve_active st l actor policy new_reservation c = (Inr (Granted r1), c1)"
    note 1 = reserve_active_up [OF assms(1) this]
    then have "up c1" "\<not> rsv_committed r1" "\<not> rsv_hour r1" using granted_up by blast+
    then show "attempt_ok r1 c1 (reserve_hour st l actor policy nh r1 c1)"
      using reserve_hour_up by (metis prod.collapse)
  next
    fix r2 c2 assume "chain_attempt (reserve_active st l actor policy new_reservation c)
         (reserve_hour st l actor policy nh) = (Inr (Granted r2), c2)"
    then obtain r1 c1 where a: "reserve_active st l actor policy new_reservation c = (Inr (Granted r1), c1)"
      and h: "reserve_hour st l actor policy nh r1 c1 = (Inr (Granted r2), c2)"
      unfolding chain_granted by blast
    note 1 = reserve_active_up [OF assms(1) a]
    then have g1: "up c1" "\<not> rsv_committed r1" "\<not> rsv_hour r1" "rsv_tokens r1 = 0"
      using granted_up by blast+
    note 2 = reserve_hour_up [OF g1(1-3) h]
    then have "up c2" "\<not> rsv_committed r2" "rsv_tokens r2 = 0" using granted_up g1(4) by auto
    then show "attempt_ok r2 c2 (reserve_tokens st l actor policy hint nt r2 c2)"
      using reserve_tokens_up by (metis prod.collapse)
  qed
  obtain y d where x: "x = (y, d)" by fastforce
  consider (granted) r where "y = Inr (Granted r)" | (denied) e where "y = Inr (Denied e)"
    using ok x by (cases y) (auto simp: attempt_ok_def split: attempt.splits)
  then show ?thesis
  proof cases
    case (granted r)
    then have "within_limits l actor policy hint nh nt r d"
      using x [unfolded x_def granted chain_granted] granted_limits [OF assms(1)] by blast
    then show ?thesis using res x ok granted
      by (auto simp: reserve_ok_def attempt_ok_def shifted_def new_reservation_def share_defs)
  next
    case (denied e)
    then show ?thesis using res x ok attempt_denied by (auto simp: reserve_ok_def attempt_ok_def)
  qed
qed

end

end
