(* ===== verification/Quota_System.thy ===== *)
theory Quota_System
  imports Quota_Laws
begin

text \<open>
  The limiter under concurrent use: any number of requests reserve, commit and roll back,
  and finished runs are released, in any order. The theory gives the effect of \<open>Commit\<close> and
  \<open>ReleaseRun\<close> on a reliable counter store, interprets the laws on the counter store of the
  tests, and shows that the active counter is the number of reservations in force, which
  never exceeds the limit.
\<close>

section \<open>Commit and release on a reliable store\<close>

lemma run_marker_key_not_Nil [simp]: "run_marker_key l rid \<noteq> ''''"
  by (simp add: run_marker_key_def)

definition settled :: "run_marker \<Rightarrow> run_usage \<Rightarrow> string \<Rightarrow> int" where
  "settled m u k =
     (if mrk_token_reserved m > 0 \<and> mrk_token_key m \<noteq> '''' \<and> k = mrk_token_key m
      then usg_total_tokens (normalize_run_usage u) - mrk_token_reserved m else 0)"

definition freed :: "'b limiter \<Rightarrow> run_marker \<Rightarrow> run \<Rightarrow> string \<Rightarrow> string \<Rightarrow> int" where
  "freed l m rn project k =
     (if mrk_active_reserved m \<and> k = active_key l project (run_user_id rn) then 1 else 0)"

lemma wrap64_shift: "wrap64 (x + 2 ^ 64 * q) = wrap64 x"
proof -
  have "(x + 2 ^ 64 * q + 2 ^ 63) mod 2 ^ 64 = ((x + 2 ^ 63) + 2 ^ 64 * q) mod 2 ^ 64"
    by (simp only: add.assoc add.left_commute add.commute)
  then show ?thesis by (simp only: wrap64_def mod_mult_self2)
qed

lemma wrap64_diff_right: "wrap64 (a - wrap64 b) = wrap64 (a - b)"
proof -
  define q where "q = (b + 2 ^ 63) div 2 ^ 64"
  have "wrap64 b = b + 2 ^ 64 * (- q)"
    unfolding wrap64_def q_def minus_mult_div_eq_mod [symmetric] by simp
  then have "a - wrap64 b = (a - b) + 2 ^ 64 * q" by simp
  then show ?thesis by (simp only: wrap64_shift)
qed

lemma wrap64_diff_left: "wrap64 (wrap64 a - b) = wrap64 (a - b)"
  using wrap64_add_left [of a "- b"] by simp

context reliable_counters
begin

lemma commit_up:
  assumes "up c" "commit K st l rid r c = (e, r', c')"
  shows "up c' \<and> tally c' = tally c \<and>
    (if e \<noteq> None then r' = r \<and> marks c' = marks c
     else if rsv_active r \<or> rsv_tokens r \<noteq> 0 then
       r' = r\<lparr>rsv_marker_key := run_marker_key l (trim_space rid), rsv_committed := True\<rparr> \<and>
       marks c (run_marker_key l (trim_space rid)) = None \<and>
       marks c' = (marks c)(run_marker_key l (trim_space rid) \<mapsto> mkc_marshal K (marker_of r))
     else r' = r\<lparr>rsv_committed := True\<rparr> \<and> marks c' = marks c)"
proof -
  let ?k = "run_marker_key l (trim_space rid)" and ?v = "mkc_marshal K (marker_of r)"
  obtain sn d where n: "cst_set_nx st ?k ?v run_marker_ttl c = (sn, d)" by fastforce
  note l = set_nx [OF n] and u = up_set_nx [OF assms(1) n]
  consider (blank) "trim_space rid = ''''" | (plain) "trim_space rid \<noteq> ''''" "\<not> rsv_active r" "rsv_tokens r = 0"
    | (mark) "trim_space rid \<noteq> ''''" "rsv_active r \<or> rsv_tokens r \<noteq> 0" by blast
  then show ?thesis
  proof cases
    case mark
    obtain b where "sn = Inr b" using u by (cases sn) auto
    with mark n l u assms show ?thesis
      by (cases b) (auto simp: commit_def Let_def set_once_def)
  qed (use assms in \<open>auto simp: commit_def Let_def\<close>)
qed

lemma settle_up:
  assumes "up c" "settle_tokens st e m u c = (e', c')"
  shows "e' = e \<and> marks c' = marks c \<and> shifted (settled m u) c c'"
proof (cases "mrk_token_reserved m > 0 \<and> mrk_token_key m \<noteq> ''''")
  case False
  then show ?thesis using assms by (auto simp: settle_tokens_def settled_def intro!: shifted_refl)
next
  case True
  define x where "x = usg_total_tokens (normalize_run_usage u) - mrk_token_reserved m"
  have s: "settled m u k = (if k = mrk_token_key m then x else 0)" for k
    using True by (simp add: settled_def x_def)
  have w: "wrap64 (a - wrap64 (- wrap64 x)) = wrap64 (a + x)" for a
    by (simp add: wrap64_diff_right)
  consider (more) "wrap64 x > 0" | (less) "wrap64 x < 0" | (same) "wrap64 x = 0" by linarith
  then show ?thesis
  proof cases
    case more
    obtain res d where i: "cst_incr_by st (mrk_token_key m) (wrap64 x) c = (res, d)" by fastforce
    note up' = incr_by_up [OF assms(1) i]
    have "shifted (settled m u) c d" using up'(1) by (auto simp: shifted_def s split: if_splits)
    with more True assms i up' show ?thesis
      by (auto simp: settle_tokens_def x_def [symmetric] Let_def first_error_def split: option.splits)
  next
    case less
    obtain res d where i: "cst_decr_by st (mrk_token_key m) (wrap64 (- wrap64 x)) c = (res, d)" by fastforce
    note up' = decr_by_up [OF assms(1) i]
    have "shifted (settled m u) c d" using up'(1) by (auto simp: shifted_def s w split: if_splits)
    with less True assms i up' show ?thesis
      by (auto simp: settle_tokens_def x_def [symmetric] Let_def first_error_def split: option.splits)
  next
    case same
    then have "wrap64 (a + x) = wrap64 a" for a by (metis add.right_neutral wrap64_add_right)
    then have "shifted (settled m u) c c" using assms(1) by (auto simp: shifted_def s range)
    with same True assms show ?thesis
      by (auto simp: settle_tokens_def x_def [symmetric] Let_def)
  qed
qed

lemma release_marked_up:
  assumes "up c" "release_marked st l m rn project u c = (e, c')"
  shows "e = None \<and> marks c' = marks c \<and>
    shifted (\<lambda>k. - freed l m rn project k + settled m u k) c c'"
proof -
  let ?k = "active_key l project (run_user_id rn)"
  obtain e1 c1 where 1: "(if mrk_active_reserved m then
           (let (res, c1) = cst_decr st ?k c in (first_error None res, c1)) else (None, c)) = (e1, c1)"
    by fastforce
  have 2: "e1 = None \<and> marks c1 = marks c \<and> shifted (\<lambda>k. - freed l m rn project k) c c1"
  proof (cases "mrk_active_reserved m")
    case True
    obtain res d where d: "cst_decr st ?k c = (res, d)" by fastforce
    note up' = decr_up [OF assms(1) d]
    have "shifted (\<lambda>k. - freed l m rn project k) c d"
      by (rule shifted_cong [OF up'(1)]) (simp add: freed_def True)
    with 1 True d up' show ?thesis by (auto simp: first_error_def)
  next
    case False
    with 1 assms(1) show ?thesis by (auto simp: freed_def intro!: shifted_refl)
  qed
  then have "up c1" by (simp add: shifted_def)
  have "settle_tokens st e1 m u c1 = (e, c')"
    using assms(2) 1 by (simp add: release_marked_def)
  note 3 = settle_up [OF \<open>up c1\<close> this]
  then show ?thesis using 2 shifted_trans [of "\<lambda>k. - freed l m rn project k" c c1 "settled m u" c'] by simp
qed

lemma release_up:
  assumes "up c" "lim_store l = Some st" "release_run K l rn project u c = (e, c')"
  shows "e = None \<and>
    (case (if trim_space (run_id rn) = '''' then None else marks c (run_marker_key l (run_id rn))) of
       None \<Rightarrow> marks c' = marks c \<and> up c' \<and> tally c' = tally c
     | Some raw \<Rightarrow>
         marks c' = (marks c)(run_marker_key l (run_id rn) := None) \<and>
         shifted (\<lambda>k. - freed l (parse_run_marker K raw) rn project k +
           settled (parse_run_marker K raw) u k) c c')"
proof (cases "trim_space (run_id rn) = ''''")
  case True
  then show ?thesis using assms by (auto simp: release_run_def)
next
  case False
  let ?k = "run_marker_key l (run_id rn)"
  obtain got c1 where g: "cst_get st ?k c = (got, c1)" by fastforce
  have 1: "got = Inr (marks c ?k)" "tally c1 = tally c" "marks c1 = marks c" "up c1"
    using get [OF g] up_get [OF assms(1) g] by (cases got; auto)+
  show ?thesis
  proof (cases "marks c ?k")
    case None
    then show ?thesis using False assms g 1 by (auto simp: release_run_def Let_def)
  next
    case (Some raw)
    obtain res c2 where d: "cst_del st ?k c1 = (res, c2)" by fastforce
    note 2 = del_up [OF 1(4) d]
    then have "up c2" "tally c2 = tally c1"
      using shifted_0D [OF 2(1)] by (simp_all add: shifted_def range)
    have "release_marked st l (parse_run_marker K raw) rn project u c2 = (e, c')"
      using False assms(2,3) g 1 d 2 Some by (auto simp: release_run_def Let_def)
    note 3 = release_marked_up [OF \<open>up c2\<close> this]
    have "tally c2 = tally c" using 1(2) \<open>tally c2 = tally c1\<close> by simp
    then show ?thesis using 3 False Some 1(3) 2(2) by (simp add: shifted_def)
  qed
qed

end

section \<open>The laws hold of the counter store of the tests\<close>

definition fake_tally :: "fake_counters \<Rightarrow> string \<Rightarrow> int" where
  "fake_tally c k = sint (fcs_values c k)"

definition fake_up :: "fake_counters \<Rightarrow> bool" where "fake_up c \<longleftrightarrow> fcs_err c = None"

lemma sint_word_of_int: "sint (word_of_int x :: 64 word) = wrap64 x"
  by (simp add: wrap64_def sint_sbintrunc' signed_take_bit_eq_take_bit_shift take_bit_eq_mod)

lemma sint_add: "sint (w + v :: 64 word) = wrap64 (sint w + sint v)"
proof -
  have "w + v = word_of_int (sint w + sint v)" by simp
  then show ?thesis by (simp only: sint_word_of_int)
qed

lemma sint_range: "wrap64 (sint (w :: 64 word)) = sint w"
  using sint_word_of_int [of "sint w"] by simp

lemma fake_add_bumped:
  assumes "wrap64 (sint w) = wrap64 n" "fake_add k w c = (res, c')"
  shows "bumped fake_tally fcs_set res n k c c'"
proof -
  have "wrap64 (a + sint w) = wrap64 (a + n)" for a
    by (metis assms(1) wrap64_add_right)
  then show ?thesis using assms(2)
    by (auto simp: fake_add_def bumped_def fake_tally_def sint_add Let_def fun_eq_iff split: option.splits)
qed

lemma sint_minus: "wrap64 (sint (- word_of_int n :: 64 word)) = wrap64 (- n)"
  by (metis sint_range sint_word_of_int wi_hom_neg)

interpretation fake: reliable_counters fake_counter_store fake_tally fcs_set fake_up
proof
  show "bumped fake_tally fcs_set res 1 k c c'" if "cst_incr fake_counter_store k c = (res, c')" for k c res c'
    using that by (intro fake_add_bumped [of 1]) (simp_all add: fake_counter_store_def)
  show "bumped fake_tally fcs_set res (- 1) k c c'" if "cst_decr fake_counter_store k c = (res, c')" for k c res c'
    using that by (intro fake_add_bumped [of "- 1"]) (simp_all add: fake_counter_store_def)
  show "bumped fake_tally fcs_set res n k c c'"
    if "cst_incr_by fake_counter_store k n c = (res, c')" for k n c res c'
    using that by (intro fake_add_bumped [of "word_of_int n"])
      (simp_all add: fake_counter_store_def sint_word_of_int)
  show "bumped fake_tally fcs_set res (- n) k c c'"
    if "cst_decr_by fake_counter_store k n c = (res, c')" for k n c res c'
    using that by (intro fake_add_bumped [of "- word_of_int n"])
      (simp_all add: fake_counter_store_def sint_minus)
qed (auto simp: fake_counter_store_def fake_tally_def fake_up_def fake_expire_def fake_set_nx_def
    fake_get_def fake_del_def set_once_def removed_key_def fake_add_def sint_range Let_def
    fun_upd_idem split: option.splits if_splits)


section \<open>Requests and finished runs, in any order\<close>

datatype quota_step =
    QReserve actor_context quota_policy int gtime gtime
  | QCommit nat string
  | QRollback nat
  | QRelease run string run_usage

text \<open>The state is the server's and the list of the reservations handed out so far.\<close>

fun quota_exec ::
  "marker_codec \<Rightarrow> 'c counter_store \<Rightarrow> 'c limiter \<Rightarrow> quota_step \<Rightarrow> 'c \<times> reservation list
     \<Rightarrow> 'c \<times> reservation list" where
  "quota_exec K st l (QReserve actor policy hint nh nt) (c, hs) =
     (case reserve_run_with_hint l actor policy hint nh nt c of
        (Inr (Reserved (Some r)), c') \<Rightarrow> (c', hs @ [r])
      | (_, c') \<Rightarrow> (c', hs))"
| "quota_exec K st l (QCommit i rid) (c, hs) =
     (case commit K st l rid (hs ! i) c of (e, r', c') \<Rightarrow> (c', hs[i := r']))"
| "quota_exec K st l (QRollback i) (c, hs) =
     (case rollback st (hs ! i) c of (e, r', c') \<Rightarrow> (c', hs[i := r']))"
| "quota_exec K st l (QRelease rn project u) (c, hs) = (snd (release_run K l rn project u c), hs)"

text \<open>
  The callers' side, for the slots counted under \<open>key\<close>: the policies in use allow at most
  \<open>M\<close> of them, a reservation is committed once and for a new run, and a run is released
  under the project and user that reserved it.
\<close>

fun quota_step_ok :: "'c limiter \<Rightarrow> int \<Rightarrow> string \<Rightarrow> quota_step \<Rightarrow> reservation list \<Rightarrow> bool" where
  "quota_step_ok l M key (QReserve actor policy hint nh nt) hs \<longleftrightarrow>
     active_key l (act_project_id actor) (act_user_id actor) = key \<longrightarrow>
       qpl_max_concurrent_runs policy \<le> M"
| "quota_step_ok l M key (QCommit i rid) hs \<longleftrightarrow>
     i < length hs \<and> \<not> rsv_committed (hs ! i) \<and>
     run_marker_key l (trim_space rid) \<notin> rsv_marker_key ` set hs"
| "quota_step_ok l M key (QRollback i) hs \<longleftrightarrow> i < length hs"
| "quota_step_ok l M key (QRelease rn project u) hs \<longleftrightarrow>
     (\<forall>h \<in> set hs. rsv_marker_key h = run_marker_key l (run_id rn) \<longrightarrow> rsv_active h \<longrightarrow>
        rsv_active_key h = active_key l project (run_user_id rn))"

inductive quota_reachable ::
  "marker_codec \<Rightarrow> 'c counter_store \<Rightarrow> 'c limiter \<Rightarrow> int \<Rightarrow> string \<Rightarrow> 'c \<Rightarrow> 'c \<times> reservation list \<Rightarrow> bool"
  for K st l M key c0 where
  quota_start: "quota_reachable K st l M key c0 (c0, [])"
| quota_step: "quota_reachable K st l M key c0 s \<Longrightarrow> quota_step_ok l M key q (snd s) \<Longrightarrow>
    quota_reachable K st l M key c0 (quota_exec K st l q s)"

text \<open>A slot is in force until its reservation is rolled back or its run marker is gone.\<close>

definition slot_in_force :: "(string \<rightharpoonup> string) \<Rightarrow> reservation \<Rightarrow> string \<Rightarrow> int" where
  "slot_in_force m h k =
     (if marked h \<and> m (rsv_marker_key h) = None then 0 else active_share h k)"

definition in_force :: "(string \<rightharpoonup> string) \<Rightarrow> reservation list \<Rightarrow> string \<Rightarrow> int" where
  "in_force m hs k = (\<Sum>i < length hs. slot_in_force m (hs ! i) k)"

lemma slot_bounds: "0 \<le> slot_in_force m h k" "slot_in_force m h k \<le> 1"
  by (simp_all add: slot_in_force_def active_share_def)

lemma in_force_nonneg: "0 \<le> in_force m hs k"
  by (simp add: in_force_def sum_nonneg slot_bounds)

lemma in_force_Nil [simp]: "in_force m [] k = 0"
  by (simp add: in_force_def)

lemma in_force_snoc [simp]: "in_force m (hs @ [h]) k = in_force m hs k + slot_in_force m h k"
  by (simp add: in_force_def nth_append)

lemma in_force_update:
  assumes "i < length hs"
    and "\<And>j. j < length hs \<Longrightarrow> j \<noteq> i \<Longrightarrow> slot_in_force m' (hs ! j) k = slot_in_force m (hs ! j) k"
  shows "in_force m' (hs[i := h]) k =
    in_force m hs k - slot_in_force m (hs ! i) k + slot_in_force m' h k"
proof -
  have split: "(\<Sum>j < length hs. f j) = f i + (\<Sum>j \<in> {..<length hs} - {i}. f j)" for f :: "nat \<Rightarrow> int"
    using assms(1) by (simp add: sum.remove)
  have "(\<Sum>j \<in> {..<length hs} - {i}. slot_in_force m' (hs[i := h] ! j) k) =
      (\<Sum>j \<in> {..<length hs} - {i}. slot_in_force m (hs ! j) k)"
    by (rule sum.cong) (use assms(2) in auto)
  then show ?thesis
    using assms(1) by (simp add: in_force_def split [of "\<lambda>j. slot_in_force m' (hs[i := h] ! j) k"]
        split [of "\<lambda>j. slot_in_force m (hs ! j) k"])
qed

section \<open>The invariant\<close>

definition handle_ok :: "'b limiter \<Rightarrow> reservation \<Rightarrow> bool" where
  "handle_ok l h \<longleftrightarrow>
     (rsv_hour h \<longrightarrow> (\<exists>a t. rsv_hour_key h = hour_key l a t)) \<and>
     (rsv_tokens h > 0 \<longrightarrow> (\<exists>a t. rsv_token_key h = token_key l a t)) \<and>
     (\<not> rsv_committed h \<longrightarrow> rsv_marker_key h = '''')"

lemma handle_shares:
  "handle_ok l h \<Longrightarrow> hour_share h (active_key l p u) = 0 \<and> token_share h (active_key l p u) = 0"
  by (auto simp: handle_ok_def hour_share_def token_share_def keys_distinct)

lemma share_at_active:
  assumes "handle_ok l h"
  shows "share h (active_key l p u) = active_share h (active_key l p u)"
    and "held m h (active_key l p u) = slot_in_force m h (active_key l p u)"
  using handle_shares [OF assms] by (simp_all add: held_def slot_in_force_def share_def)

text \<open>Markers and reservations: each marker belongs to one reservation, and describes it.\<close>

definition keys_unique :: "reservation list \<Rightarrow> bool" where
  "keys_unique hs \<longleftrightarrow>
     (\<forall>i j. i < length hs \<longrightarrow> j < length hs \<longrightarrow> i \<noteq> j \<longrightarrow> marked (hs ! i) \<longrightarrow> marked (hs ! j) \<longrightarrow>
        rsv_marker_key (hs ! i) \<noteq> rsv_marker_key (hs ! j))"

lemma keys_unique_update:
  assumes "keys_unique hs" "i < length hs"
    and "\<And>j. j < length hs \<Longrightarrow> j \<noteq> i \<Longrightarrow> marked h \<Longrightarrow> marked (hs ! j) \<Longrightarrow>
      rsv_marker_key (hs ! j) \<noteq> rsv_marker_key h"
  shows "keys_unique (hs[i := h])"
  unfolding keys_unique_def
proof (intro allI impI)
  fix a b assume *: "a < length (hs[i := h])" "b < length (hs[i := h])" "a \<noteq> b"
    "marked (hs[i := h] ! a)" "marked (hs[i := h] ! b)"
  consider "a = i" | "b = i" | "a \<noteq> i" "b \<noteq> i" by blast
  then show "rsv_marker_key (hs[i := h] ! a) \<noteq> rsv_marker_key (hs[i := h] ! b)"
  proof cases
    case 1
    then show ?thesis using * assms(2) assms(3) [of b] by auto
  next
    case 2
    then show ?thesis using * assms(2) assms(3) [of a] by auto
  next
    case 3
    then show ?thesis using * assms(1) by (auto simp: keys_unique_def)
  qed
qed

lemma filter_marked_update:
  assumes "g \<in> set hs" "marked g" "i < length hs" "g \<noteq> hs ! i"
  shows "g \<in> set (filter marked (hs[i := h]))"
proof -
  obtain j where "j < length hs" "hs ! j = g" using assms(1) by (auto simp: in_set_conv_nth)
  moreover from this assms(4) have "j \<noteq> i" by auto
  ultimately show ?thesis using assms(2) by (auto simp: in_set_conv_nth intro!: exI [of _ j])
qed

definition markers_ok :: "marker_codec \<Rightarrow> (string \<rightharpoonup> string) \<Rightarrow> reservation list \<Rightarrow> bool" where
  "markers_ok K m hs \<longleftrightarrow>
     (\<forall>h \<in> set hs. marked h \<longrightarrow>
        (\<forall>raw. m (rsv_marker_key h) = Some raw \<longrightarrow> parse_run_marker K raw = marker_of h)) \<and>
     dom m \<subseteq> rsv_marker_key ` set (filter marked hs) \<and> keys_unique hs"

lemma marked_key: "marked h \<Longrightarrow> rsv_marker_key h \<noteq> ''''"
  by (simp add: marked_def)

lemma markers_okD:
  assumes "markers_ok K m hs"
  shows "h \<in> set hs \<Longrightarrow> marked h \<Longrightarrow> m (rsv_marker_key h) = Some raw \<Longrightarrow> parse_run_marker K raw = marker_of h"
    and "m x = Some raw \<Longrightarrow> \<exists>g \<in> set hs. marked g \<and> rsv_marker_key g = x"
    and "keys_unique hs"
  using assms by (auto simp: markers_ok_def)

lemma markers_ok_snoc: "markers_ok K m hs \<Longrightarrow> \<not> marked h \<Longrightarrow> markers_ok K m (hs @ [h])"
  by (auto simp: markers_ok_def keys_unique_def nth_append)

text \<open>One reservation is replaced; \<open>m'\<close> differs from \<open>m\<close> at most at its new key.\<close>

lemma markers_ok_update:
  assumes ok: "markers_ok K m hs" and i: "i < length hs"
    and own: "\<And>raw. marked h \<Longrightarrow> m' (rsv_marker_key h) = Some raw \<Longrightarrow> parse_run_marker K raw = marker_of h"
    and new: "\<And>x raw. m' x = Some raw \<Longrightarrow> m x = None \<Longrightarrow> marked h \<and> rsv_marker_key h = x"
    and old: "\<And>x raw. m' x = Some raw \<Longrightarrow> m x \<noteq> None \<Longrightarrow> m x = Some raw \<and> \<not> (marked (hs ! i) \<and> rsv_marker_key (hs ! i) = x)"
    and uniq: "\<And>j. j < length hs \<Longrightarrow> j \<noteq> i \<Longrightarrow> marked h \<Longrightarrow> marked (hs ! j) \<Longrightarrow>
      rsv_marker_key (hs ! j) \<noteq> rsv_marker_key h"
  shows "markers_ok K m' (hs[i := h])"
  unfolding markers_ok_def
proof (intro conjI ballI allI impI)
  fix g raw assume g: "g \<in> set (hs[i := h])" "marked g" "m' (rsv_marker_key g) = Some raw"
  show "parse_run_marker K raw = marker_of g"
  proof (cases "g = h")
    case True
    then show ?thesis using own g by blast
  next
    case False
    from g(1) obtain j where j': "j < length hs" "hs[i := h] ! j = g"
      unfolding in_set_conv_nth by auto
    have "j \<noteq> i" using j' False i nth_list_update_eq by metis
    then have j: "j < length hs" "j \<noteq> i" "g = hs ! j"
      using j' nth_list_update_neq [of i j hs h] by simp_all
    have "m (rsv_marker_key g) \<noteq> None"
    proof
      assume "m (rsv_marker_key g) = None"
      then have "marked h" "rsv_marker_key h = rsv_marker_key g" using new [OF g(3)] by blast+
      then show False using uniq [OF j(1,2)] g(2) j(3) by simp
    qed
    then have "m (rsv_marker_key g) = Some raw" using old [OF g(3)] by blast
    moreover have "g \<in> set hs" using j by simp
    ultimately show ?thesis using markers_okD(1) [OF ok] g(2) by blast
  qed
next
  show "dom m' \<subseteq> rsv_marker_key ` set (filter marked (hs[i := h]))"
  proof
    fix x assume "x \<in> dom m'"
    then obtain raw where r: "m' x = Some raw" by blast
    show "x \<in> rsv_marker_key ` set (filter marked (hs[i := h]))"
    proof (cases "m x")
      case None
      then have "marked h" "rsv_marker_key h = x" using new [OF r] by blast+
      then show ?thesis using i by (auto intro!: image_eqI [of _ _ h] set_update_memI)
    next
      case (Some y)
      then obtain g where "g \<in> set hs" "marked g" "rsv_marker_key g = x"
        using markers_okD(2) [OF ok] by blast
      moreover from this have "g \<noteq> hs ! i" using old [OF r] Some by auto
      ultimately show ?thesis using filter_marked_update [OF _ _ i] by blast
    qed
  qed
next
  show "keys_unique (hs[i := h])"
    using keys_unique_update [OF markers_okD(3) [OF ok] i] uniq by blast
qed

lemma markers_ok_plain:
  assumes "markers_ok K m hs" "i < length hs" "\<not> marked (hs ! i)" "\<not> marked h"
  shows "markers_ok K m (hs[i := h])"
  by (rule markers_ok_update [OF assms(1,2)]) (use assms(3,4) in auto)

lemma markers_ok_commit:
  assumes "markers_ok K m hs" "i < length hs" "\<not> marked (hs ! i)"
    and "x \<notin> rsv_marker_key ` set hs" "x \<noteq> ''''" "parse_run_marker K raw = marker_of (hs ! i)"
    and "h = (hs ! i)\<lparr>rsv_marker_key := x, rsv_committed := True\<rparr>"
  shows "markers_ok K (m(x \<mapsto> raw)) (hs[i := h])"
proof -
  have h: "marked h" "rsv_marker_key h = x" "marker_of h = marker_of (hs ! i)"
    using assms(5,7) by (simp_all add: marked_def marker_of_def)
  have "m x = None" using markers_okD(2) [OF assms(1)] assms(4) by fastforce
  have "rsv_marker_key (hs ! j) \<noteq> x" if "j < length hs" for j
    using assms(4) nth_mem [OF that] by (metis imageI)
  then show ?thesis
    by (intro markers_ok_update [OF assms(1,2)])
      (use h assms(3,6) \<open>m x = None\<close> in \<open>auto split: if_splits\<close>)
qed

lemma markers_ok_remove:
  assumes "markers_ok K m hs" "i < length hs" "marked (hs ! i)"
    and "marked h" "rsv_marker_key h = rsv_marker_key (hs ! i)"
  shows "markers_ok K (m(rsv_marker_key (hs ! i) := None)) (hs[i := h])"
proof -
  have "rsv_marker_key (hs ! j) \<noteq> rsv_marker_key h" if "j < length hs" "j \<noteq> i" "marked (hs ! j)" for j
    using markers_okD(3) [OF assms(1)] assms(2,3,5) that by (simp add: keys_unique_def)
  then show ?thesis
    by (intro markers_ok_update [OF assms(1,2)]) (use assms(5) in \<open>auto split: if_splits\<close>)
qed

lemma slots_after_remove:
  assumes "markers_ok K m hs" "i < length hs" "marked (hs ! i)" "j < length hs" "j \<noteq> i"
  shows "slot_in_force (m(rsv_marker_key (hs ! i) := None)) (hs ! j) k = slot_in_force m (hs ! j) k"
proof -
  have "marked (hs ! j) \<Longrightarrow> rsv_marker_key (hs ! j) \<noteq> rsv_marker_key (hs ! i)"
    using markers_okD(3) [OF assms(1)] assms(2-5) by (simp add: keys_unique_def)
  then show ?thesis by (auto simp: slot_in_force_def)
qed


section \<open>The steps keep the invariant\<close>

context reliable_counters
begin

definition quota_inv :: "marker_codec \<Rightarrow> 'b limiter \<Rightarrow> string \<Rightarrow> 'c \<times> reservation list \<Rightarrow> bool" where
  "quota_inv K l key s \<longleftrightarrow>
     up (fst s) \<and> (\<forall>h \<in> set (snd s). handle_ok l h) \<and> markers_ok K (marks (fst s)) (snd s) \<and>
     tally (fst s) key = wrap64 (in_force (marks (fst s)) (snd s) key)"

lemma quota_invD:
  assumes "quota_inv K l key (c, hs)"
  shows "up c" "markers_ok K (marks c) hs" "h \<in> set hs \<Longrightarrow> handle_ok l h"
    "tally c key = wrap64 (in_force (marks c) hs key)"
  using assms by (auto simp: quota_inv_def)

lemma quota_inv_reserve:
  assumes "quota_inv K l key (c, hs)" "lim_store l = Some st" "key = active_key l p u"
    and "(c', hs') = quota_exec K st l (QReserve actor policy hint nh nt) (c, hs)"
  shows "quota_inv K l key (c', hs') \<and>
    (in_force (marks c') hs' key = in_force (marks c) hs key \<or>
     in_force (marks c') hs' key = in_force (marks c) hs key + 1 \<and>
       active_key l (act_project_id actor) (act_user_id actor) = key \<and>
       tally c' key \<le> qpl_max_concurrent_runs policy)"
proof -
  note inv = quota_invD [OF assms(1)]
  obtain res d where r: "reserve_run_with_hint l actor policy hint nh nt c = (res, d)" by fastforce
  note ok = reserve_up [OF inv(1) assms(2) r]
  consider (refused) x where "res = Inr (Refused x)" | (granted) r where "res = Inr (Reserved (Some r))"
    using ok by (auto simp: reserve_ok_def split: sum.splits outcome.splits option.splits)
  then show ?thesis
  proof cases
    case (refused x)
    then have "c' = d" "hs' = hs" "up d" "marks d = marks c" "tally d = tally c"
      using assms(4) r ok by (simp_all add: reserve_ok_def)
    then show ?thesis using assms(1) by (simp add: quota_inv_def)
  next
    case (granted r)
    then have c': "c' = d" "hs' = hs @ [r]" using assms(4) \<open>reserve_run_with_hint _ _ _ _ _ _ _ = _\<close> by simp_all
    have d: "up d" "marks d = marks c" "\<not> rsv_committed r" "shifted (share r) c d"
      "within_limits l actor policy hint nh nt r d" "rsv_marker_key r = ''''"
      using ok granted by (simp_all add: reserve_ok_def)
    have "rsv_hour r \<Longrightarrow> rsv_hour_key r = hour_key l actor nh"
      "rsv_tokens r > 0 \<Longrightarrow> rsv_token_key r = token_key l actor nt"
      using d(5) by (simp_all add: within_limits_def hour_granted_def tokens_granted_def)
    then have h: "handle_ok l r" "\<not> marked r"
      using d(3,6) by (auto simp: handle_ok_def marked_def)
    have f: "in_force (marks d) (hs @ [r]) key = in_force (marks c) hs key + active_share r key"
      using d(2) h(2) by (simp add: slot_in_force_def)
    have "tally d key = wrap64 (tally c key + active_share r key)"
      using d(4) share_at_active(1) [OF h(1)] assms(3) by (simp add: shifted_def)
    then have "quota_inv K l key (c', hs')"
      using inv c' d(1,2) h f markers_ok_snoc [OF inv(2) h(2)] by (auto simp: quota_inv_def)
    moreover have "active_share r key = 0 \<or> active_share r key = 1 \<and>
        active_key l (act_project_id actor) (act_user_id actor) = key \<and>
        tally d key \<le> qpl_max_concurrent_runs policy"
      using d(5) by (auto simp: active_share_def within_limits_def active_granted_def)
    ultimately show ?thesis using c' f by auto
  qed
qed

lemma quota_inv_commit:
  assumes "quota_inv K l key (c, hs)" "codec_ok K"
    and "quota_step_ok l M key (QCommit i rid) hs"
    and "(c', hs') = quota_exec K st l (QCommit i rid) (c, hs)"
  shows "quota_inv K l key (c', hs') \<and> in_force (marks c') hs' key = in_force (marks c) hs key"
proof -
  note inv = quota_invD [OF assms(1)]
  let ?h = "hs ! i" and ?x = "run_marker_key l (trim_space rid)"
  have i: "i < length hs" "\<not> rsv_committed ?h" "?x \<notin> rsv_marker_key ` set hs"
    using assms(3) by simp_all
  then have h: "?h \<in> set hs" "handle_ok l ?h" "\<not> marked ?h" "rsv_marker_key ?h = ''''"
    using inv(3) [of ?h] by (auto simp: marked_def handle_ok_def)
  obtain e r' d where k: "commit K st l rid ?h c = (e, r', d)" by (metis prod_cases3)
  note up' = commit_up [OF inv(1) k]
  have c': "c' = d" "hs' = hs[i := r']" using assms(4) k by simp_all
  consider (failed) "r' = ?h" "marks d = marks c"
    | (plain) "r' = ?h\<lparr>rsv_committed := True\<rparr>" "marks d = marks c"
    | (mark) "r' = ?h\<lparr>rsv_marker_key := ?x, rsv_committed := True\<rparr>"
        "marks d = (marks c)(?x \<mapsto> mkc_marshal K (marker_of ?h))"
    using up' by (auto split: if_splits)
  then have "markers_ok K (marks d) (hs[i := r']) \<and> handle_ok l r' \<and>
    in_force (marks d) (hs[i := r']) key = in_force (marks c) hs key"
  proof cases
    case failed
    then show ?thesis using inv(2) h(2) by simp
  next
    case plain
    then have r: "\<not> marked r'" "handle_ok l r'" using h by (auto simp: marked_def handle_ok_def)
    have "in_force (marks d) (hs[i := r']) key = in_force (marks c) hs key"
      using in_force_update [of i hs "marks d" key "marks c" r'] plain i(1) h(3) r(1)
      by (simp add: slot_in_force_def active_share_def)
    then show ?thesis using markers_ok_plain [OF inv(2) i(1) h(3) r(1)] plain r by simp
  next
    case mark
    have "parse_run_marker K (mkc_marshal K (marker_of ?h)) = marker_of ?h"
      using assms(2) by (simp add: codec_ok_def parse_run_marker_def)
    then have "markers_ok K (marks d) (hs[i := r'])"
      using markers_ok_commit [OF inv(2) i(1) h(3) i(3) run_marker_key_not_Nil _ mark(1)] mark(2) by simp
    moreover have "handle_ok l r'" using h mark(1) by (auto simp: handle_ok_def)
    moreover have "slot_in_force (marks d) (hs ! j) key = slot_in_force (marks c) (hs ! j) key"
      if "j < length hs" for j
    proof -
      have "rsv_marker_key (hs ! j) \<noteq> ?x" using i(3) nth_mem [OF that] by (metis imageI)
      then show ?thesis by (simp add: slot_in_force_def mark(2))
    qed
    then have "in_force (marks d) (hs[i := r']) key =
        in_force (marks c) hs key - slot_in_force (marks c) ?h key + slot_in_force (marks d) r' key"
      by (intro in_force_update i(1)) blast
    moreover have "slot_in_force (marks d) r' key = slot_in_force (marks c) ?h key"
      using h(3) mark by (simp add: slot_in_force_def active_share_def)
    ultimately show ?thesis by simp
  qed
  then show ?thesis using up' c' inv set_update_subset_insert [of hs i r'] by (auto simp: quota_inv_def)
qed

lemma quota_inv_rollback:
  assumes "quota_inv K l key (c, hs)" "key = active_key l p u" "i < length hs"
    and "(c', hs') = quota_exec K st l (QRollback i) (c, hs)"
  shows "quota_inv K l key (c', hs') \<and> in_force (marks c') hs' key \<le> in_force (marks c) hs key"
proof -
  note inv = quota_invD [OF assms(1)]
  let ?h = "hs ! i"
  have h: "?h \<in> set hs" "handle_ok l ?h" using inv(3) [of ?h] assms(3) by simp_all
  obtain e r' d where k: "rollback st ?h c = (e, r', d)" by (metis prod_cases3)
  note up' = rollback_up [OF inv(1) k]
  have c': "c' = d" "hs' = hs[i := r']" using assms(4) k by simp_all
  have r: "marked r' = marked ?h" "rsv_marker_key r' = rsv_marker_key ?h" "handle_ok l r'"
    "slot_in_force (marks d) r' key = 0"
    using up' h(2) by (auto simp: marked_def handle_ok_def slot_in_force_def active_share_def)
  have m: "markers_ok K (marks d) (hs[i := r']) \<and>
    (\<forall>j < length hs. j \<noteq> i \<longrightarrow> slot_in_force (marks d) (hs ! j) key = slot_in_force (marks c) (hs ! j) key)"
  proof (cases "marked ?h")
    case True
    then show ?thesis
      using up' markers_ok_remove [OF inv(2) assms(3) True _ r(2)] r(1)
        slots_after_remove [OF inv(2) assms(3) True] by simp
  next
    case False
    then show ?thesis using up' markers_ok_plain [OF inv(2) assms(3) False] r(1) by simp
  qed
  then have f: "in_force (marks d) (hs[i := r']) key =
      in_force (marks c) hs key - slot_in_force (marks c) ?h key"
    using in_force_update [OF assms(3), of "marks d" key "marks c" r'] r(4) by simp
  have "tally d key = wrap64 (tally c key - slot_in_force (marks c) ?h key)"
    using up' share_at_active(2) [OF h(2)] assms(2) by (simp add: shifted_def)
  then have "tally d key = wrap64 (in_force (marks d) (hs[i := r']) key)"
    using inv(4) f by (simp add: wrap64_diff_left)
  moreover have "up d" using up' by (simp add: shifted_def)
  moreover have "\<forall>h \<in> set (hs[i := r']). handle_ok l h"
    using inv(3) r(3) set_update_subset_insert [of hs i r'] by auto
  ultimately have "quota_inv K l key (c', hs')"
    using c' m by (simp add: quota_inv_def)
  then show ?thesis using c' f slot_bounds(1) [of "marks c" ?h key] by simp
qed

lemma quota_inv_release:
  assumes "quota_inv K l key (c, hs)" "lim_store l = Some st" "key = active_key l p us"
    and "quota_step_ok l M key (QRelease rn project u) hs"
    and "(c', hs') = quota_exec K st l (QRelease rn project u) (c, hs)"
  shows "quota_inv K l key (c', hs') \<and> in_force (marks c') hs' key \<le> in_force (marks c) hs key"
proof -
  note inv = quota_invD [OF assms(1)]
  let ?x = "run_marker_key l (run_id rn)"
  obtain e d where k: "release_run K l rn project u c = (e, d)" by fastforce
  note up' = release_up [OF inv(1) assms(2) k]
  have c': "c' = d" "hs' = hs" using assms(5) k by simp_all
  show ?thesis
  proof (cases "if trim_space (run_id rn) = '''' then None else marks c ?x")
    case None
    then show ?thesis using up' c' assms(1) by (simp add: quota_inv_def)
  next
    case (Some raw)
    then have raw: "marks c ?x = Some raw" by (simp split: if_splits)
    obtain h where h: "h \<in> set hs" "marked h" "rsv_marker_key h = ?x"
      using markers_okD(2) [OF inv(2) raw] by blast
    then obtain i where i: "i < length hs" "hs ! i = h" by (auto simp: in_set_conv_nth)
    let ?m = "(marks c)(?x := None)"
    have p: "parse_run_marker K raw = marker_of h" using markers_okD(1) [OF inv(2) h(1,2)] raw h(3) by simp
    have d: "marks d = ?m" "shifted (\<lambda>k. - freed l (marker_of h) rn project k + settled (marker_of h) u k) c d"
      using up' Some p by simp_all
    have "settled (marker_of h) u key = 0"
      using inv(3) [OF h(1)] assms(3)
      by (auto simp: settled_def marker_of_def handle_ok_def keys_distinct)
    moreover have "freed l (marker_of h) rn project key = active_share h key"
      using assms(4) h by (auto simp: freed_def marker_of_def active_share_def)
    ultimately have t: "tally d key = wrap64 (tally c key - active_share h key)"
      using d(2) by (simp add: shifted_def)
    have "in_force ?m (hs[i := hs ! i]) key =
        in_force (marks c) hs key - slot_in_force (marks c) (hs ! i) key + slot_in_force ?m (hs ! i) key"
      using slots_after_remove [OF inv(2) i(1)] i(2) h by (intro in_force_update i(1)) simp
    then have "in_force ?m hs key =
        in_force (marks c) hs key - slot_in_force (marks c) h key + slot_in_force ?m h key"
      unfolding list_update_id using i(2) by simp
    then have f: "in_force ?m hs key = in_force (marks c) hs key - active_share h key"
      using i(2) h raw by (simp add: slot_in_force_def)
    have "markers_ok K ?m (hs[i := hs ! i])"
      using markers_ok_remove [OF inv(2) i(1), of "hs ! i"] i(2) h by simp
    then have "markers_ok K ?m hs" by simp
    moreover have "tally d key = wrap64 (in_force ?m hs key)"
      using t f inv(4) by (simp add: wrap64_diff_left)
    moreover have "up d" using d(2) by (simp add: shifted_def)
    ultimately have "quota_inv K l key (c', hs')" using inv(3) c' d(1) by (simp add: quota_inv_def)
    then show ?thesis using f c' d(1) by (simp add: active_share_def)
  qed
qed

text \<open>While nothing wraps around, the active counter is the number of slots in force, and a
  reservation is only granted below the limit.\<close>

lemma quota_reachable_inv:
  assumes "quota_reachable K st l M key c0 s" "codec_ok K" "lim_store l = Some st"
    and "key = active_key l p us" "up c0" "marks c0 = Map.empty" "tally c0 key = 0"
    and "0 \<le> M" "M < 2 ^ 63 - 1"
  shows "quota_inv K l key s \<and> in_force (marks (fst s)) (snd s) key \<le> M"
  using assms(1)
proof induction
  case quota_start
  then show ?case using assms(5-8) by (simp add: quota_inv_def markers_ok_def keys_unique_def wrap64_def)
next
  case (quota_step s q)
  obtain c hs where s: "s = (c, hs)" by fastforce
  obtain c' hs' where s': "(c', hs') = quota_exec K st l q (c, hs)" by (metis surj_pair)
  have I: "quota_inv K l key (c, hs)" "in_force (marks c) hs key \<le> M" "quota_step_ok l M key q hs"
    using quota_step s by simp_all
  have "quota_inv K l key (c', hs') \<and> in_force (marks c') hs' key \<le> M"
  proof (cases q)
    case (QReserve actor policy hint nh nt)
    note r = quota_inv_reserve [OF I(1) assms(3,4) s' [unfolded QReserve]]
    show ?thesis
    proof (cases "in_force (marks c') hs' key = in_force (marks c) hs key")
      case False
      have "0 \<le> in_force (marks c') hs' key" "in_force (marks c') hs' key < 2 ^ 63"
        using r False I(2) assms(9) in_force_nonneg [of "marks c'" hs' key] by auto
      then have "wrap64 (in_force (marks c') hs' key) = in_force (marks c') hs' key"
        by (simp add: wrap64_id)
      then have "tally c' key = in_force (marks c') hs' key"
        using quota_invD(4) [of K l key c' hs'] r by simp
      then show ?thesis using r False I(3) QReserve by auto
    qed (use r I(2) in simp)
  next
    case (QCommit i rid)
    show ?thesis using quota_inv_commit [OF I(1) assms(2) I(3) [unfolded QCommit] s' [unfolded QCommit]] I(2) by simp
  next
    case (QRollback i)
    then have "i < length hs" using I(3) by simp
    from quota_inv_rollback [OF I(1) assms(4) this s' [unfolded QRollback]] I(2) show ?thesis by simp
  next
    case (QRelease rn project u)
    show ?thesis
      using quota_inv_release [OF I(1) assms(3,4) I(3) [unfolded QRelease] s' [unfolded QRelease]] I(2) by simp
  qed
  then show ?case using s s' [symmetric] by simp
qed

end

end
