(* ===== verification/Quota_Properties.thy ===== *)
theory Quota_Properties
  imports Quota_System
begin

text \<open>
  The properties of the quota limiter, over the counter store of the package's tests: no
  interleaving of requests admits more concurrent runs than the limit, a rollback restores
  every counter, a refused request leaves none changed, and a finished run leaves its real
  usage behind.
\<close>

section \<open>States of the counter store\<close>

lemma fake_eqI:
  assumes "\<And>k. fake_tally c k = fake_tally d k" "fcs_set c = fcs_set d" "fcs_err c = fcs_err d"
  shows "c = (d :: fake_counters)"
proof -
  have "fcs_values c k = fcs_values d k" for k
    using assms(1) [of k] by (simp add: fake_tally_def signed_word_eqI)
  then show ?thesis using assms(2,3) by (simp add: fun_eq_iff)
qed

lemma fake_upD: "fake_up c \<Longrightarrow> fcs_err c = None" by (simp add: fake_up_def)

text \<open>The codec of the examples: a sign, the tokens in unary, and the key.\<close>

definition sample_marshal :: "run_marker \<Rightarrow> string" where
  "sample_marshal m =
     [if mrk_active_reserved m then CHR ''1'' else CHR ''0'',
      if mrk_token_reserved m < 0 then CHR ''-'' else CHR ''+''] @
     replicate (nat \<bar>mrk_token_reserved m\<bar>) (CHR ''1'') @ CHR '';'' # mrk_token_key m"

fun sample_unmarshal :: "string \<Rightarrow> run_marker \<times> bool" where
  "sample_unmarshal (a # b # rest) =
     (case cut_at CHR '';'' rest of
        None \<Rightarrow> (zero_marker, False)
      | Some (u, k) \<Rightarrow>
          if (a = CHR ''1'' \<or> a = CHR ''0'') \<and> (b = CHR ''-'' \<or> b = CHR ''+'') \<and>
             set u \<subseteq> {CHR ''1''} then
            (\<lparr>mrk_active_reserved = (a = CHR ''1''), mrk_token_key = k,
              mrk_token_reserved = (if b = CHR ''-'' then - int (length u) else int (length u))\<rparr>, True)
          else (zero_marker, False))"
| "sample_unmarshal _ = (zero_marker, False)"

definition sample_codec :: marker_codec where
  "sample_codec = \<lparr>mkc_marshal = sample_marshal, mkc_unmarshal = sample_unmarshal\<rparr>"

lemma sample_codec_ok: "codec_ok sample_codec"
proof -
  have "cut_at CHR '';'' (replicate n (CHR ''1'') @ CHR '';'' # k) = Some (replicate n (CHR ''1''), k)" for n k
    by (rule cut_at_append) simp
  then have "sample_unmarshal (sample_marshal m) = (m, True)" for m
    by (auto simp: sample_marshal_def set_replicate_conv_if)
  then show ?thesis by (simp add: codec_ok_def sample_codec_def)
qed

abbreviation sample_limiter :: "fake_counters limiter" where
  "sample_limiter \<equiv> new_limiter fake_counter_store '''' 1000"

definition sample_actor :: actor_context where
  "sample_actor = \<lparr>act_user_id = ''ann'', act_email = '''', act_name = '''',
     act_identity_provider = '''', act_identity_issuer = '''', act_identity_subject = '''',
     act_project_id = ''p1'', act_org_id = ''org'', act_roles = []\<rparr>"

definition sample_policy :: quota_policy where
  "sample_policy = \<lparr>qpl_project_id = ''p1'', qpl_max_concurrent_runs = 1, qpl_max_runs_per_hour = 5,
     qpl_max_model_tokens_per_day = 2000, qpl_max_tool_calls_per_day = 0,
     qpl_max_sandbox_seconds_per_day = 0, qpl_created_at = 0, qpl_updated_at = 0\<rparr>"

lemma sample_limiter_simps [simp]:
  "lim_store sample_limiter = Some fake_counter_store"
  "lim_prefix sample_limiter = default_prefix"
  "lim_tokens_per_run sample_limiter = 1000"
  by (simp_all add: new_limiter_def max_int_def)

section \<open>When a block grants its share\<close>

definition bump :: "string \<Rightarrow> int \<Rightarrow> fake_counters \<Rightarrow> fake_counters" where
  "bump k n c = c\<lparr>fcs_values := (fcs_values c)(k := fcs_values c k + word_of_int n)\<rparr>"

lemma fake_incr: "fcs_err c = None \<Longrightarrow> fake_add k w c =
    (Inr (sint (fcs_values c k + w)), c\<lparr>fcs_values := (fcs_values c)(k := fcs_values c k + w)\<rparr>)"
  by (simp add: fake_add_def Let_def)

lemma fake_store_simps:
  "cst_incr fake_counter_store k = fake_add k 1"
  "cst_incr_by fake_counter_store k n = fake_add k (word_of_int n)"
  "cst_expire fake_counter_store k ttl c = (fcs_err c, c)"
  by (simp_all add: fake_counter_store_def fake_expire_def fun_eq_iff)

lemmas grant_simps = fake_store_simps fake_incr Let_def bump_def sint_add sint_word_of_int

definition bump_unless :: "bool \<Rightarrow> string \<Rightarrow> int \<Rightarrow> fake_counters \<Rightarrow> fake_counters" where
  "bump_unless off k n c = (if off then c else bump k n c)"

lemma bump_unless_simps [simp]:
  "fcs_err (bump_unless off k n c) = fcs_err c"
  "j \<noteq> k \<Longrightarrow> fcs_values (bump_unless off k n c) j = fcs_values c j"
  by (simp_all add: bump_unless_def bump_def)

lemma active_grant:
  "fcs_err c = None \<Longrightarrow>
   reserve_active fake_counter_store l actor policy r c = (Inr (Granted r'), c') \<longleftrightarrow>
     (qpl_max_concurrent_runs policy \<le> 0 \<or>
        wrap64 (sint (fcs_values c (active_key l (act_project_id actor) (act_user_id actor))) + 1)
          \<le> qpl_max_concurrent_runs policy) \<and>
     r' = (if qpl_max_concurrent_runs policy \<le> 0 then r
       else r\<lparr>rsv_active_key := active_key l (act_project_id actor) (act_user_id actor), rsv_active := True\<rparr>) \<and>
     c' = bump_unless (qpl_max_concurrent_runs policy \<le> 0)
       (active_key l (act_project_id actor) (act_user_id actor)) 1 c"
  by (auto simp: reserve_active_def bump_unless_def grant_simps)

lemma hour_grant:
  "fcs_err c = None \<Longrightarrow>
   reserve_hour fake_counter_store l actor policy now r c = (Inr (Granted r'), c') \<longleftrightarrow>
     (qpl_max_runs_per_hour policy \<le> 0 \<or>
        wrap64 (sint (fcs_values c (hour_key l actor now)) + 1) \<le> qpl_max_runs_per_hour policy) \<and>
     r' = (if qpl_max_runs_per_hour policy \<le> 0 then r
       else r\<lparr>rsv_hour_key := hour_key l actor now, rsv_hour := True\<rparr>) \<and>
     c' = bump_unless (qpl_max_runs_per_hour policy \<le> 0) (hour_key l actor now) 1 c"
  by (auto simp: reserve_hour_def bump_unless_def grant_simps)

lemma token_grant:
  "fcs_err c = None \<Longrightarrow>
   (\<exists>r' c'. reserve_tokens fake_counter_store l actor policy hint now r c = (Inr (Granted r'), c')) \<longleftrightarrow>
     qpl_max_model_tokens_per_day policy \<le> 0 \<or> model_token_reservation l hint \<le> 0 \<or>
     wrap64 (sint (fcs_values c (token_key l actor now)) + model_token_reservation l hint)
       \<le> qpl_max_model_tokens_per_day policy"
  by (auto simp: reserve_tokens_def grant_simps)

lemma granted_by_all:
  assumes "lim_store l = Some st"
  shows "(\<exists>r. fst (reserve_run_with_hint l actor policy hint nh nt c) = Inr (Reserved (Some r))) \<longleftrightarrow>
    (\<exists>r c'. chain_attempt
        (chain_attempt (reserve_active st l actor policy new_reservation c)
           (reserve_hour st l actor policy nh)) (reserve_tokens st l actor policy hint nt) =
      (Inr (Granted r), c'))"
  using assms by (auto simp: reserve_run_with_hint_def split: prod.splits sum.splits attempt.splits)

section \<open>The life of one run\<close>

lemma admitted:
  assumes "fcs_err c = None" "lim_store l = Some fake_counter_store"
    and "reserve_run_with_hint l actor policy hint nh nt c = (Inr (Reserved (Some r)), c1)"
  shows "fake_up c1" "fcs_set c1 = fcs_set c" "fake.shifted (share r) c c1" "\<not> rsv_committed r"
    "rsv_marker_key r = ''''"
    "rsv_active r \<longrightarrow> rsv_active_key r = active_key l (act_project_id actor) (act_user_id actor)"
    "rsv_hour r \<longrightarrow> rsv_hour_key r = hour_key l actor nh" "0 \<le> rsv_tokens r"
    "rsv_tokens r > 0 \<longrightarrow> rsv_token_key r = token_key l actor nt"
proof -
  have "fake_up c" using assms(1) by (simp add: fake_up_def)
  note ok = fake.reserve_up [OF this assms(2,3)]
  then show "fake_up c1" "fcs_set c1 = fcs_set c" "fake.shifted (share r) c c1" "\<not> rsv_committed r"
    "rsv_marker_key r = ''''"
    by (simp_all add: fake.reserve_ok_def)
  have "fake.within_limits l actor policy hint nh nt r c1" using ok by (simp add: fake.reserve_ok_def)
  then have g: "fake.active_granted l actor policy r c1" "fake.hour_granted l actor policy nh r c1"
    "fake.tokens_granted l actor policy hint nt r c1"
    by (simp_all add: fake.within_limits_def)
  show "rsv_active r \<longrightarrow> rsv_active_key r = active_key l (act_project_id actor) (act_user_id actor)"
    using g(1) by (simp add: fake.active_granted_def)
  show "rsv_hour r \<longrightarrow> rsv_hour_key r = hour_key l actor nh"
    using g(2) by (simp add: fake.hour_granted_def)
  show "0 \<le> rsv_tokens r" "rsv_tokens r > 0 \<longrightarrow> rsv_token_key r = token_key l actor nt"
    using g(3) unfolding fake.tokens_granted_def by blast+
qed

text \<open>What the release of a committed reservation takes away and what it settles.\<close>

definition release_effect :: "'b limiter \<Rightarrow> actor_context \<Rightarrow> reservation \<Rightarrow> run \<Rightarrow> run_usage \<Rightarrow> string \<Rightarrow> int" where
  "release_effect l actor r rn u =
     (\<lambda>k. settled (marker_of r) u k - freed l (marker_of r) rn (act_project_id actor) k)"

lemma token_key_not_Nil: "token_key l actor now \<noteq> ''''"
  by (simp add: token_key_def)

lemma release_effect_sum:
  assumes "rsv_active r \<longrightarrow> rsv_active_key r = active_key l (act_project_id actor) (act_user_id actor)"
    "rsv_hour r \<longrightarrow> rsv_hour_key r = hour_key l actor nh" "0 \<le> rsv_tokens r"
    "rsv_tokens r > 0 \<longrightarrow> rsv_token_key r = token_key l actor nt"
    and "run_user_id rn = act_user_id actor"
  shows "share r k + release_effect l actor r rn u k =
    (if rsv_hour r \<and> k = rsv_hour_key r then 1
     else if rsv_tokens r > 0 \<and> k = rsv_token_key r then usg_total_tokens (normalize_run_usage u)
     else 0)"
proof -
  let ?a = "active_key l (act_project_id actor) (act_user_id actor)"
    and ?h = "hour_key l actor nh" and ?t = "token_key l actor nt"
  have d: "?a \<noteq> ?h" "?a \<noteq> ?t" "?h \<noteq> ?t" "?t \<noteq> ''''"
    by (simp_all only: keys_distinct token_key_not_Nil not_False_eq_True)
  have a: "active_share r k + - freed l (marker_of r) rn (act_project_id actor) k = 0"
    using assms(1,5) by (simp add: active_share_def freed_def marker_of_def)
  have h: "hour_share r k = (if rsv_hour r \<and> k = rsv_hour_key r then 1 else 0)"
    by (simp add: hour_share_def)
  have t: "token_share r k + settled (marker_of r) u k =
      (if rsv_tokens r > 0 \<and> k = rsv_token_key r then usg_total_tokens (normalize_run_usage u) else 0)"
    using assms(4) d(4) by (auto simp: token_share_def settled_def marker_of_def)
  have "rsv_hour r \<and> rsv_tokens r > 0 \<longrightarrow> rsv_hour_key r \<noteq> rsv_token_key r"
    using assms(2,4) d(3) by simp
  then show ?thesis using a h t by (auto simp: share_def release_effect_def)
qed

lemma committed:
  assumes "fake_up c" "trim_space rid = rid" "rid \<noteq> ''''" "fcs_set c (run_marker_key l rid) = None"
    and "commit K fake_counter_store l rid r c = (e, r', c')"
  shows "e = None" "fake_up c'" "fake_tally c' = fake_tally c"
    "fcs_set c' (run_marker_key l rid) =
       (if rsv_active r \<or> rsv_tokens r \<noteq> 0 then Some (mkc_marshal K (marker_of r)) else None)"
    "(fcs_set c')(run_marker_key l rid := None) = fcs_set c"
    "r' = (if rsv_active r \<or> rsv_tokens r \<noteq> 0
       then r\<lparr>rsv_marker_key := run_marker_key l rid, rsv_committed := True\<rparr>
       else r\<lparr>rsv_committed := True\<rparr>)"
proof -
  note up' = fake.commit_up [OF assms(1,5), unfolded assms(2)]
  show e: "e = None"
    using assms by (auto simp: commit_def Let_def fake_counter_store_def fake_set_nx_def fake_up_def
        split: if_splits)
  show "fake_up c'" "fake_tally c' = fake_tally c"
    "fcs_set c' (run_marker_key l rid) =
       (if rsv_active r \<or> rsv_tokens r \<noteq> 0 then Some (mkc_marshal K (marker_of r)) else None)"
    "(fcs_set c')(run_marker_key l rid := None) = fcs_set c"
    "r' = (if rsv_active r \<or> rsv_tokens r \<noteq> 0
       then r\<lparr>rsv_marker_key := run_marker_key l rid, rsv_committed := True\<rparr>
       else r\<lparr>rsv_committed := True\<rparr>)"
    using up' e assms(4) by (auto simp: fun_upd_idem fun_upd_idem_iff split: if_splits)
qed

lemma released:
  assumes "fake_up c" "lim_store l = Some fake_counter_store" "codec_ok K"
    and "trim_space (run_id rn) = run_id rn" "run_id rn \<noteq> ''''"
    and "fcs_set c (run_marker_key l (run_id rn)) =
       (if rsv_active r \<or> rsv_tokens r \<noteq> 0 then Some (mkc_marshal K (marker_of r)) else None)"
    and "release_run K l rn (act_project_id actor) u c = (e, c')"
  shows "e = None" "fake.shifted (release_effect l actor r rn u) c c'"
    "fcs_set c' = (fcs_set c)(run_marker_key l (run_id rn) := None)"
proof -
  have p: "parse_run_marker K (mkc_marshal K (marker_of r)) = marker_of r"
    using assms(3) by (simp add: codec_ok_def parse_run_marker_def)
  note up' = fake.release_up [OF assms(1,2,7)]
  have "e = None \<and> fake.shifted (release_effect l actor r rn u) c c' \<and>
    fcs_set c' = (fcs_set c)(run_marker_key l (run_id rn) := None)"
  proof (cases "rsv_active r \<or> rsv_tokens r \<noteq> 0")
    case True
    then show ?thesis using up' p assms(4-6) by (simp add: release_effect_def)
  next
    case False
    then have "release_effect l actor r rn u k = 0" for k
      by (simp add: release_effect_def freed_def settled_def marker_of_def)
    then have "fake.shifted (release_effect l actor r rn u) c c" using assms(1) by (intro fake.shifted_refl)
    then show ?thesis using False up' assms(4-6) by (auto simp: fake.shifted_def fun_upd_idem)
  qed
  then show "e = None" "fake.shifted (release_effect l actor r rn u) c c'"
    "fcs_set c' = (fcs_set c)(run_marker_key l (run_id rn) := None)" by blast+
qed

lemma release_unmarked:
  assumes "fcs_err c = None" "lim_store l = Some fake_counter_store"
    and "fcs_set c (run_marker_key l (run_id rn)) = None"
  shows "release_run K l rn project u c = (None, c)"
  using assms by (simp add: release_run_def Let_def fake_counter_store_def fake_get_def)

lemma rollback_uncommitted:
  assumes "fcs_err c = None" "fake_up c1" "fcs_set c1 = fcs_set c" "fake.shifted (share r) c c1" "\<not> rsv_committed r"
  shows "\<exists>r'. rollback fake_counter_store r c1 = (None, r', c)"
proof -
  obtain e r' c2 where b: "rollback fake_counter_store r c1 = (e, r', c2)" by (metis prod_cases3)
  note 2 = fake.rollback_up [OF assms(2) b]
  have m: "\<not> marked r" using assms(5) by (simp add: marked_def)
  have "c2 = c"
  proof (rule fake_eqI)
    have "fake.shifted (\<lambda>k. share r k + - share r k) c c2"
      by (rule fake.shifted_trans [OF assms(4)]) (use 2 m in \<open>simp add: held_def\<close>)
    then show "fake_tally c2 k = fake_tally c k" for k by (simp add: fake.shifted_def fake.range)
    show "fcs_set c2 = fcs_set c" using 2 assms(3) m by simp
    show "fcs_err c2 = fcs_err c" using 2 assms(1) by (simp add: fake.shifted_def fake_up_def)
  qed
  then show ?thesis using b 2 by simp
qed

text \<open>A run that is released and then rolled back leaves only the tokens it used.\<close>

lemma rollback_after_release:
  assumes "fcs_err c = None" "lim_store l = Some fake_counter_store" "codec_ok K"
    and "trim_space (run_id rn) = run_id rn" "run_id rn \<noteq> ''''"
    and "fcs_set c (run_marker_key l (run_id rn)) = None"
    and "reserve_run_with_hint l actor policy hint nh nt c = (Inr (Reserved (Some r)), c1)"
    and "commit K fake_counter_store l (run_id rn) r c1 = (e2, r2, c2)"
    and "run_user_id rn = act_user_id actor"
    and "release_run K l rn (act_project_id actor) u c2 = (e4, c4)"
    and "rollback fake_counter_store r2 c4 = (e5, r5, c5)"
  shows "fake.shifted (\<lambda>k. if rsv_tokens r > 0 \<and> k = rsv_token_key r
      then usg_total_tokens (normalize_run_usage u) else 0) c c5 \<and> fcs_set c5 = fcs_set c"
proof -
  let ?x = "run_marker_key l (run_id rn)"
  note 1 = admitted [OF assms(1,2,7)]
  note 2 = committed [OF 1(1) assms(4,5) _ assms(8), unfolded 1(2), OF assms(6)]
  have r2: "share r2 k = share r k" "hour_share r2 k = hour_share r k"
    "marked r2 \<longleftrightarrow> rsv_active r \<or> rsv_tokens r \<noteq> 0" "marked r2 \<Longrightarrow> rsv_marker_key r2 = ?x" for k
    using 2(6) 1(4,5) by (auto simp: marked_def share_defs)
  note 4 = released [OF 2(2) assms(2-5) 2(4) assms(10)]
  then have "fake_up c4" by (simp add: fake.shifted_def)
  note 5 = fake.rollback_up [OF this assms(11)]
  have h: "held (fcs_set c4) r2 k = hour_share r k" for k
    using 4(3) r2 1(8) by (auto simp: held_def share_def active_share_def token_share_def)
  have "fake.shifted (\<lambda>k. share r k + release_effect l actor r rn u k) c c4"
    by (rule fake.shifted_trans [OF 1(3)]) (use 2(3) 4(2) in \<open>simp add: fake.shifted_def\<close>)
  then have "fake.shifted (\<lambda>k. (share r k + release_effect l actor r rn u k) + - hour_share r k) c c5"
    by (rule fake.shifted_trans) (use 5 h in simp)
  then have "fake.shifted (\<lambda>k. if rsv_tokens r > 0 \<and> k = rsv_token_key r
      then usg_total_tokens (normalize_run_usage u) else 0) c c5"
    unfolding release_effect_sum [OF 1(6-9) assms(9)]
    by (rule fake.shifted_cong) (use 1(6-9) keys_distinct(3) [of l actor nh actor nt] in \<open>auto simp: hour_share_def\<close>)
  moreover have "fcs_set c5 = fcs_set c"
    using 5 4(3) 2(5) r2(4) assms(6) by (cases "marked r2") (auto simp: fun_upd_idem)
  ultimately show ?thesis by blast
qed

text \<open>The run of the examples.\<close>

definition sample_reservation :: reservation where
  "sample_reservation = \<lparr>rsv_active_key = active_key sample_limiter ''p1'' ''ann'',
     rsv_hour_key = hour_key sample_limiter sample_actor 0,
     rsv_token_key = token_key sample_limiter sample_actor 0, rsv_marker_key = '''',
     rsv_tokens = 300, rsv_active = True, rsv_hour = True, rsv_committed = False\<rparr>"

definition sample_counters :: fake_counters where
  "sample_counters = bump (token_key sample_limiter sample_actor 0) 300
     (bump (hour_key sample_limiter sample_actor 0) 1
       (bump (active_key sample_limiter ''p1'' ''ann'') 1 new_fake_counters))"

lemma sample_reserve:
  "reserve_run_with_hint sample_limiter sample_actor sample_policy 300 0 0 new_fake_counters =
     (Inr (Reserved (Some sample_reservation)), sample_counters)"
proof -
  let ?a = "active_key sample_limiter ''p1'' ''ann''"
    and ?h = "hour_key sample_limiter sample_actor 0" and ?t = "token_key sample_limiter sample_actor 0"
  have k: "?h \<noteq> ?a" "?t \<noteq> ?a" "?t \<noteq> ?h" using keys_distinct by metis+
  have d: "act_project_id sample_actor = ''p1''" "act_user_id sample_actor = ''ann''"
    "qpl_max_concurrent_runs sample_policy = 1" "qpl_max_runs_per_hour sample_policy = 5"
    "qpl_max_model_tokens_per_day sample_policy = 2000"
    "model_token_reservation sample_limiter 300 = 300"
    by (simp_all add: sample_actor_def sample_policy_def model_token_reservation_def)
  have e: "fcs_err new_fake_counters = None" "fcs_values new_fake_counters k = 0" for k
    by (simp_all add: new_fake_counters_def)
  have b: "fcs_err (bump k n c) = fcs_err c" for k n c by (simp add: bump_def)
  let ?c1 = "bump ?a 1 new_fake_counters"
  let ?r1 = "new_reservation\<lparr>rsv_active_key := ?a, rsv_active := True\<rparr>"
  have 1: "reserve_active fake_counter_store sample_limiter sample_actor sample_policy new_reservation
      new_fake_counters = (Inr (Granted ?r1), ?c1)"
    by (simp add: active_grant d e bump_unless_def wrap64_id)
  have 2: "reserve_hour fake_counter_store sample_limiter sample_actor sample_policy 0 ?r1 ?c1 =
      (Inr (Granted (?r1\<lparr>rsv_hour_key := ?h, rsv_hour := True\<rparr>)), bump ?h 1 ?c1)"
    by (simp add: hour_grant d e b bump_unless_def) (simp add: bump_def k e wrap64_id)
  have v: "fcs_values (bump ?h 1 ?c1) ?t = 0" by (simp add: bump_def k e)
  have 3: "reserve_tokens fake_counter_store sample_limiter sample_actor sample_policy 300 0
      (?r1\<lparr>rsv_hour_key := ?h, rsv_hour := True\<rparr>) (bump ?h 1 ?c1) =
      (Inr (Granted sample_reservation), sample_counters)"
    using v by (simp add: reserve_tokens_def fake_store_simps fake_incr Let_def d e b wrap64_id
        sint_add sint_word_of_int sample_reservation_def sample_counters_def new_reservation_def)
      (simp add: bump_def)
  show ?thesis
    by (simp add: reserve_run_with_hint_def chain_attempt_def 1 2 3)
qed

definition sample_run :: run where
  "sample_run = \<lparr>run_id = ''run_1'', run_chat_id = ''chat_1'', run_user_id = ''ann'',
     run_workspace_id = ''ws_1'', run_attempt_id = '''', run_claimed_by = '''',
     run_lease_expires_at = None, run_attempt_count = 0, run_status = RunSucceeded,
     run_error = '''', run_usage = zero_run_usage, run_created_at = 0, run_updated_at = 0,
     run_started_at = None, run_finished_at = None\<rparr>"

definition sample_usage :: run_usage where
  "sample_usage = zero_run_usage\<lparr>usg_total_tokens := 120\<rparr>"

abbreviation sample_key :: string where
  "sample_key \<equiv> active_key sample_limiter ''p1'' ''ann''"

abbreviation sample_marker :: string where
  "sample_marker \<equiv> run_marker_key sample_limiter ''run_1''"

lemma sample_trim [simp]: "trim_space ''run_1'' = ''run_1''"
  by (rule trim_graphic) (simp_all add: graphic_def)

lemma sample_facts:
  "fcs_err new_fake_counters = None" "fcs_set new_fake_counters = Map.empty"
  "fcs_err sample_counters = None" "fcs_set sample_counters = Map.empty"
  "trim_space (run_id sample_run) = run_id sample_run" "run_id sample_run = ''run_1''"
  "run_user_id sample_run = act_user_id sample_actor" "act_project_id sample_actor = ''p1''"
  "act_user_id sample_actor = ''ann''"
  by (simp_all add: new_fake_counters_def sample_counters_def bump_def sample_run_def
      sample_actor_def)

section \<open>Properties\<close>



text \<open>C26. Rolling a reservation back that was not committed restores the counter store: all
  counters and all run markers are those from before the request.\<close>

theorem rollback_undoes_reserve:
  assumes "fcs_err c = None" "lim_store l = Some fake_counter_store"
    and "reserve_run_with_hint l actor policy hint nh nt c = (Inr (Reserved (Some r)), c1)"
  shows "\<exists>r'. rollback fake_counter_store r c1 = (None, r', c)"
  by (rule rollback_uncommitted [OF assms(1) admitted(1-4) [OF assms]])

theorem rollback_undoes_reserve_witness:
  "\<exists>r'. rollback fake_counter_store sample_reservation sample_counters = (None, r', new_fake_counters)"
  using rollback_undoes_reserve [OF _ _ sample_reserve] by (simp add: sample_facts)

text \<open>A refused request leaves no trace: the counters and the markers are as before.\<close>

theorem refusal_changes_nothing:
  assumes "fcs_err c = None" "lim_store l = Some fake_counter_store"
    and "reserve_run_with_hint l actor policy hint nh nt c = (Inr (Refused d), c1)"
  shows "c1 = c"
proof (rule fake_eqI)
  have "fake_up c" using assms(1) by (simp add: fake_up_def)
  note ok = fake.reserve_up [OF this assms(2,3)]
  then show "fake_tally c1 k = fake_tally c k" "fcs_set c1 = fcs_set c" "fcs_err c1 = fcs_err c" for k
    using assms(1) by (simp_all add: fake.reserve_ok_def fake_up_def)
qed

theorem refusal_changes_nothing_witness:
  "snd (reserve_run_with_hint sample_limiter sample_actor sample_policy 300 0 0 sample_counters) =
     sample_counters"
proof -
  have "fcs_values sample_counters sample_key = 1"
    by (simp add: sample_counters_def bump_def new_fake_counters_def keys_distinct)
  then have "\<exists>d c1. reserve_active fake_counter_store sample_limiter sample_actor sample_policy
      new_reservation sample_counters = (Inr (Denied d), c1)"
    by (simp add: reserve_active_def fake_store_simps fake_incr Let_def sample_facts sample_policy_def)
  then obtain d c1 where "reserve_run_with_hint sample_limiter sample_actor sample_policy 300 0 0
      sample_counters = (Inr (Refused d), c1)"
    by (auto simp: reserve_run_with_hint_def chain_attempt_def)
  from refusal_changes_nothing [OF _ _ this] this show ?thesis by (simp add: sample_facts)
qed

text \<open>A request is admitted exactly when each counter it takes part in, with its own share
  added, is within the limit; a limit of zero or less switches the counter off.\<close>

theorem run_admitted_iff:
  assumes "fcs_err c = None" "lim_store l = Some fake_counter_store"
  shows "(\<exists>r. fst (reserve_run_with_hint l actor policy hint nh nt c) = Inr (Reserved (Some r))) \<longleftrightarrow>
    (qpl_max_concurrent_runs policy \<le> 0 \<or>
       wrap64 (sint (fcs_values c (active_key l (act_project_id actor) (act_user_id actor))) + 1)
         \<le> qpl_max_concurrent_runs policy) \<and>
    (qpl_max_runs_per_hour policy \<le> 0 \<or>
       wrap64 (sint (fcs_values c (hour_key l actor nh)) + 1) \<le> qpl_max_runs_per_hour policy) \<and>
    (qpl_max_model_tokens_per_day policy \<le> 0 \<or> model_token_reservation l hint \<le> 0 \<or>
       wrap64 (sint (fcs_values c (token_key l actor nt)) + model_token_reservation l hint)
         \<le> qpl_max_model_tokens_per_day policy)"
proof -
  let ?a = "active_key l (act_project_id actor) (act_user_id actor)"
    and ?h = "hour_key l actor nh" and ?t = "token_key l actor nt"
  have k: "?a \<noteq> ?h" "?h \<noteq> ?a" "?a \<noteq> ?t" "?t \<noteq> ?a" "?h \<noteq> ?t" "?t \<noteq> ?h"
    using keys_distinct by metis+
  have "(\<exists>r. fst (reserve_run_with_hint l actor policy hint nh nt c) = Inr (Reserved (Some r))) \<longleftrightarrow>
      (\<exists>r1 c1 r2 c2 r3 c3.
         reserve_active fake_counter_store l actor policy new_reservation c = (Inr (Granted r1), c1) \<and>
         reserve_hour fake_counter_store l actor policy nh r1 c1 = (Inr (Granted r2), c2) \<and>
         reserve_tokens fake_counter_store l actor policy hint nt r2 c2 = (Inr (Granted r3), c3))"
    unfolding granted_by_all [OF assms(2)] fake.chain_granted by blast
  also have "\<dots> \<longleftrightarrow>
      (qpl_max_concurrent_runs policy \<le> 0 \<or>
         wrap64 (sint (fcs_values c ?a) + 1) \<le> qpl_max_concurrent_runs policy) \<and>
      (qpl_max_runs_per_hour policy \<le> 0 \<or>
         wrap64 (sint (fcs_values c ?h) + 1) \<le> qpl_max_runs_per_hour policy) \<and>
      (qpl_max_model_tokens_per_day policy \<le> 0 \<or> model_token_reservation l hint \<le> 0 \<or>
         wrap64 (sint (fcs_values c ?t) + model_token_reservation l hint)
           \<le> qpl_max_model_tokens_per_day policy)"
    using assms(1) by (simp add: active_grant hour_grant token_grant k)
  finally show ?thesis .
qed

theorem run_admitted_iff_witness:
  "\<exists>r. fst (reserve_run_with_hint sample_limiter sample_actor sample_policy 300 0 0 new_fake_counters) =
     Inr (Reserved (Some r))"
  using run_admitted_iff [of new_fake_counters sample_limiter sample_actor sample_policy 300 0 0]
  by (simp add: sample_policy_def new_fake_counters_def model_token_reservation_def wrap64_id)

text \<open>C27. The life of a run that finishes: request, commit under its marker, release with the
  tokens it really used. Its concurrent slot is free again, the hourly counter keeps its one,
  the daily token counter holds the tokens used instead of those reserved, the marker is gone,
  and a second release does nothing.\<close>

theorem finished_run_settles:
  assumes "fcs_err c = None" "lim_store l = Some fake_counter_store" "codec_ok K"
    and "trim_space (run_id rn) = run_id rn" "run_id rn \<noteq> ''''"
    and "fcs_set c (run_marker_key l (run_id rn)) = None"
    and "reserve_run_with_hint l actor policy hint nh nt c = (Inr (Reserved (Some r)), c1)"
    and "commit K fake_counter_store l (run_id rn) r c1 = (e2, r2, c2)"
    and "release_run K l rn (act_project_id actor) u c2 = (e3, c3)"
    and "run_user_id rn = act_user_id actor"
  shows "e2 = None \<and> e3 = None \<and> fcs_set c3 = fcs_set c \<and>
    (\<forall>k. sint (fcs_values c3 k) = wrap64 (sint (fcs_values c k) +
      (if rsv_hour r \<and> k = rsv_hour_key r then 1
       else if rsv_tokens r > 0 \<and> k = rsv_token_key r then usg_total_tokens (normalize_run_usage u)
       else 0))) \<and>
    release_run K l rn (act_project_id actor) u c3 = (None, c3)"
proof -
  note 1 = admitted [OF assms(1,2,7)]
  note 2 = committed [OF 1(1) assms(4,5) _ assms(8), unfolded 1(2), OF assms(6)]
  note 3 = released [OF 2(2) assms(2-5) 2(4) assms(9)]
  have "fake.shifted (\<lambda>k. share r k + release_effect l actor r rn u k) c c3"
    by (rule fake.shifted_trans [OF 1(3)]) (use 2(3) 3(2) in \<open>simp add: fake.shifted_def\<close>)
  then have "\<forall>k. fake_tally c3 k = wrap64 (fake_tally c k +
      (if rsv_hour r \<and> k = rsv_hour_key r then 1
       else if rsv_tokens r > 0 \<and> k = rsv_token_key r then usg_total_tokens (normalize_run_usage u)
       else 0))"
    unfolding release_effect_sum [OF 1(6-9) assms(10)] by (simp add: fake.shifted_def)
  moreover have "fcs_set c3 = fcs_set c" using 3(3) 2(5) by simp
  moreover have "fcs_err c3 = None" using 3(2) by (simp add: fake.shifted_def fake_up_def)
  ultimately show ?thesis
    using 2(1) 3(1) release_unmarked [of c3 l rn] assms(2,6) by (simp add: fake_tally_def)
qed

theorem finished_run_settles_witness:
  "sint (fcs_values (snd (release_run sample_codec sample_limiter sample_run ''p1'' sample_usage
      (snd (snd (commit sample_codec fake_counter_store sample_limiter ''run_1'' sample_reservation
        sample_counters))))) (token_key sample_limiter sample_actor 0)) = 120"
proof -
  obtain e2 r2 c2 where c: "commit sample_codec fake_counter_store sample_limiter ''run_1''
      sample_reservation sample_counters = (e2, r2, c2)" by (metis prod_cases3)
  obtain e3 c3 where d: "release_run sample_codec sample_limiter sample_run ''p1'' sample_usage c2 = (e3, c3)"
    by fastforce
  have n: "fcs_values new_fake_counters k = 0" for k by (simp add: new_fake_counters_def)
  have "hour_key sample_limiter sample_actor 0 \<noteq> token_key sample_limiter sample_actor 0"
    by (rule keys_distinct(3))
  with finished_run_settles [of new_fake_counters sample_limiter sample_codec sample_run sample_actor
      sample_policy 300 0 0 sample_reservation sample_counters e2 r2 c2 sample_usage e3 c3]
  show ?thesis
    using c d by (simp add: sample_facts sample_reserve sample_codec_ok n sample_reservation_def
        sample_usage_def normalize_run_usage_def zero_run_usage_def wrap64_id)
qed

text \<open>When the caller of a committed run rolls it back while the run is being released, the
  slot is given back once, in either order: a rollback that comes first restores every counter
  and leaves the release nothing to do, one that comes after the release returns the hourly
  count only.\<close>

theorem slot_given_back_once:
  assumes "fcs_err c = None" "lim_store l = Some fake_counter_store" "codec_ok K"
    and "trim_space (run_id rn) = run_id rn" "run_id rn \<noteq> ''''"
    and "fcs_set c (run_marker_key l (run_id rn)) = None"
    and "reserve_run_with_hint l actor policy hint nh nt c = (Inr (Reserved (Some r)), c1)"
    and "commit K fake_counter_store l (run_id rn) r c1 = (e2, r2, c2)"
    and "run_user_id rn = act_user_id actor" "rsv_active r"
  shows "snd (release_run K l rn (act_project_id actor) u (snd (snd (rollback fake_counter_store r2 c2)))) = c \<and>
    (\<forall>k. sint (fcs_values (snd (snd (rollback fake_counter_store r2
          (snd (release_run K l rn (act_project_id actor) u c2))))) k) =
       wrap64 (sint (fcs_values c k) + (if rsv_tokens r > 0 \<and> k = rsv_token_key r
          then usg_total_tokens (normalize_run_usage u) else 0)))"
proof -
  let ?x = "run_marker_key l (run_id rn)"
  note 1 = admitted [OF assms(1,2,7)]
  note 2 = committed [OF 1(1) assms(4,5) _ assms(8), unfolded 1(2), OF assms(6)]
  have r2: "marked r2" "rsv_marker_key r2 = ?x" "share r2 k = share r k" "hour_share r2 k = hour_share r k" for k
    using 2(6) assms(10) by (simp_all add: marked_def share_defs)
  obtain e3 r3 c3 where b: "rollback fake_counter_store r2 c2 = (e3, r3, c3)" by (metis prod_cases3)
  note 3 = fake.rollback_up [OF 2(2) b]
  have "c3 = c"
  proof (rule fake_eqI)
    have "fake.shifted (\<lambda>k. share r k + - share r k) c c3"
      by (rule fake.shifted_trans [OF 1(3)])
        (use 3 2(3,4) r2 assms(10) in \<open>simp add: fake.shifted_def held_def\<close>)
    then show "fake_tally c3 k = fake_tally c k" for k by (simp add: fake.shifted_def fake.range)
    show "fcs_set c3 = fcs_set c" using 3 r2 2(5) by simp
    show "fcs_err c3 = fcs_err c" using 3 assms(1) by (simp add: fake.shifted_def fake_up_def)
  qed
  then have first: "snd (release_run K l rn (act_project_id actor) u (snd (snd (rollback fake_counter_store r2 c2)))) = c"
    using b release_unmarked [OF assms(1,2,6)] by simp
  obtain e4 c4 where d: "release_run K l rn (act_project_id actor) u c2 = (e4, c4)" by fastforce
  obtain e5 r5 c5 where b': "rollback fake_counter_store r2 c4 = (e5, r5, c5)" by (metis prod_cases3)
  from rollback_after_release [OF assms(1-9) d b'] show ?thesis
    using first d b' by (simp add: fake.shifted_def fake_tally_def)
qed

theorem slot_given_back_once_witness:
  "snd (release_run sample_codec sample_limiter sample_run ''p1'' sample_usage
      (snd (snd (rollback fake_counter_store
        (fst (snd (commit sample_codec fake_counter_store sample_limiter ''run_1'' sample_reservation
          sample_counters)))
        (snd (snd (commit sample_codec fake_counter_store sample_limiter ''run_1'' sample_reservation
          sample_counters))))))) = new_fake_counters"
proof -
  obtain e2 r2 c2 where c: "commit sample_codec fake_counter_store sample_limiter ''run_1''
      sample_reservation sample_counters = (e2, r2, c2)" by (metis prod_cases3)
  with slot_given_back_once [of new_fake_counters sample_limiter sample_codec sample_run sample_actor
      sample_policy 300 0 0 sample_reservation sample_counters e2 r2 c2 sample_usage]
  show ?thesis
    by (simp add: sample_facts sample_reserve sample_codec_ok sample_reservation_def)
qed

end
