(* ===== verification/Decorator_Properties.thy ===== *)
theory Decorator_Properties
  imports Decorators Quota_Properties Sample_Execution
begin

text \<open>
  What the wrapped repositories of the control plane add to the reports on runs: the wrapped
  stack acts on the store as the store alone, a run that has ended holds no quota marker, and
  the nudges published are the events stored.
\<close>

section \<open>Quota of finished runs\<close>

lemma project_of:
  "project_id_for_run store_repository r s =
     (case s_chats s (run_chat_id r) of None \<Rightarrow> '''' | Some chat \<Rightarrow> cht_project_id chat)"
  by (simp add: project_id_for_run_def get_chat_def Let_def split: option.split)

text \<open>Every run has an identifier and a project, and those that have ended hold no marker.\<close>

definition run_clear :: "'c limiter \<Rightarrow> store \<Rightarrow> (string \<rightharpoonup> string) \<Rightarrow> run \<Rightarrow> bool" where
  "run_clear l s m r \<longleftrightarrow>
     trim_space (run_id r) \<noteq> '''' \<and> project_id_for_run store_repository r s \<noteq> '''' \<and>
     (is_terminal_run_status (run_status r) \<longrightarrow> m (run_marker_key l (run_id r)) = None)"

definition quota_clear :: "fake_counters limiter \<Rightarrow> store \<times> fake_counters \<Rightarrow> bool" where
  "quota_clear l d \<longleftrightarrow>
     lim_store l = Some fake_counter_store \<and> fcs_err (snd d) = None \<and>
     (\<forall>rid r. s_runs (fst d) rid = Some r \<longrightarrow> run_clear l (fst d) (fcs_set (snd d)) r)"

lemma release_clears:
  assumes "lim_store l = Some fake_counter_store" "fcs_err c = None" "trim_space (run_id r) \<noteq> ''''"
  shows "fcs_err (snd (release_run K l r project u c)) = None"
    "fcs_set (snd (release_run K l r project u c)) = (fcs_set c)(run_marker_key l (run_id r) := None)"
proof -
  obtain e c' where r: "release_run K l r project u c = (e, c')" by fastforce
  have "fake_up c" using assms(2) by (simp add: fake_up_def)
  from fake.release_up [OF this assms(1) r] assms(3)
  have "fake_up c' \<and> fcs_set c' = (fcs_set c)(run_marker_key l (run_id r) := None)"
    by (cases "fcs_set c (run_marker_key l (run_id r))") (auto simp: fake.shifted_def fun_upd_idem)
  with r show "fcs_err (snd (release_run K l r project u c)) = None"
    "fcs_set (snd (release_run K l r project u c)) = (fcs_set c)(run_marker_key l (run_id r) := None)"
    by (simp_all add: fake_up_def)
qed

text \<open>A step of the store under which runs keep their identifier, chat and ended status, and chats
  their project.\<close>

definition keeps_runs :: "store \<Rightarrow> store \<Rightarrow> bool" where
  "keeps_runs s t \<longleftrightarrow>
     (\<forall>rid. map_option (\<lambda>r. (run_id r, run_chat_id r, run_status r)) (s_runs t rid) =
        map_option (\<lambda>r. (run_id r, run_chat_id r, run_status r)) (s_runs s rid)) \<and>
     (\<forall>cid. map_option cht_project_id (s_chats t cid) = map_option cht_project_id (s_chats s cid))"

lemma keeps_project:
  assumes "keeps_runs s t" "run_chat_id r' = run_chat_id r"
  shows "project_id_for_run store_repository r' t = project_id_for_run store_repository r s"
proof -
  have p: "project_id_for_run store_repository q x =
      (case map_option cht_project_id (s_chats x (run_chat_id q)) of None \<Rightarrow> '''' | Some y \<Rightarrow> y)" for q x
    by (simp add: project_of split: option.split)
  have "map_option cht_project_id (s_chats t (run_chat_id r)) =
      map_option cht_project_id (s_chats s (run_chat_id r))"
    using assms(1) by (simp add: keeps_runs_def)
  then show ?thesis by (simp only: p assms(2))
qed

lemma quota_clear_keeps:
  assumes "keeps_runs s t" "quota_clear l (s, c)"
  shows "quota_clear l (t, c)"
proof -
  have "run_clear l t (fcs_set c) r'" if r': "s_runs t rid = Some r'" for rid r'
  proof -
    have "map_option (\<lambda>r. (run_id r, run_chat_id r, run_status r)) (s_runs s rid) =
        Some (run_id r', run_chat_id r', run_status r')"
      using assms(1) r' by (metis (no_types, lifting) keeps_runs_def option.simps(9))
    then obtain r where "s_runs s rid = Some r" "run_id r' = run_id r" "run_chat_id r' = run_chat_id r"
      "run_status r' = run_status r" by auto
    then show ?thesis
      using assms(2) keeps_project [OF assms(1), of r' r] by (fastforce simp: quota_clear_def run_clear_def)
  qed
  with assms(2) show ?thesis by (simp add: quota_clear_def)
qed

lemma keeps_same: "s_runs t = s_runs s \<Longrightarrow> s_chats t = s_chats s \<Longrightarrow> keeps_runs s t"
  by (simp add: keeps_runs_def)

lemma keeps_event: "add_event e rid typ text v s = (res, t) \<Longrightarrow> keeps_runs s t"
  by (rule keeps_same) (auto simp: add_event_def add_event_locked_def send_event_def Let_def split: option.splits)

lemma keeps_message: "add_assistant_message e c rid text s = (res, t) \<Longrightarrow> keeps_runs s t"
  by (auto simp: add_assistant_message_def keeps_runs_def Let_def split: option.splits)

lemma keeps_usage: "save_run_usage rid u s = (res, t) \<Longrightarrow> keeps_runs s t"
  by (auto simp: save_run_usage_def keeps_runs_def Let_def split: option.splits)

lemma keeps_artifact: "add_artifact e a s = (res, t) \<Longrightarrow> keeps_runs s t"
  using artifact_frames(2) [of RunPart s e a] by (intro keeps_same) simp_all

lemma update_known:
  assumes "s_runs s rid = Some r0"
  shows "\<exists>r. update_run_status e rid st text s = (Inr r, s\<lparr>s_runs := (s_runs s)(rid \<mapsto> r)\<rparr>) \<and>
    run_id r = run_id r0 \<and> run_chat_id r = run_chat_id r0 \<and>
    (is_terminal_run_status (run_status r0) \<longrightarrow> run_status r = run_status r0)"
proof (cases "is_terminal_run_status (run_status r0) \<and> run_status r0 \<noteq> st")
  case True
  with assms have "update_run_status e rid st text s = (Inr r0, s\<lparr>s_runs := (s_runs s)(rid \<mapsto> r0)\<rparr>)"
    by (simp add: update_run_status_def map_upd_triv)
  then show ?thesis by blast
next
  case False
  with assms show ?thesis by (auto simp: update_run_status_def Let_def)
qed

lemma quota_clear_update:
  assumes "run_inv s" "quota_clear l (s, c)"
  shows "quota_clear l (snd (releasing_update_run_status K l store_repository e rid st text (s, c)))"
proof (cases "s_runs s rid")
  case None
  with assms(2) show ?thesis
    by (simp add: releasing_update_run_status_def update_run_status_def get_run_def)
next
  case (Some r0)
  have id: "run_id r0 = rid" using run_invD(2) [OF assms(1)] Some by (simp add: run_ok_def)
  obtain r where u: "update_run_status e rid st text s = (Inr r, s\<lparr>s_runs := (s_runs s)(rid \<mapsto> r)\<rparr>)"
    "run_id r = rid" "run_chat_id r = run_chat_id r0"
    and kept: "is_terminal_run_status (run_status r0) \<longrightarrow> run_status r = run_status r0"
    using update_known [OF Some] id by blast
  define t where "t = s\<lparr>s_runs := (s_runs s)(rid \<mapsto> r)\<rparr>"
  have up: "update_run_status e rid st text s = (Inr r, t)"
    and r: "run_id r = rid" "run_chat_id r = run_chat_id r0" "s_chats t = s_chats s"
    "s_runs t = (s_runs s)(rid \<mapsto> r)"
    using u by (simp_all add: t_def)
  have clear: "run_clear l s (fcs_set c) r0" "lim_store l = Some fake_counter_store" "fcs_err c = None"
    using assms(2) Some by (auto simp: quota_clear_def)
  have p: "project_id_for_run store_repository q t = project_id_for_run store_repository q s" for q
    using r(3) by (simp add: project_of)
  have pr: "project_id_for_run store_repository r t \<noteq> ''''"
    using clear(1) r(2) p by (simp add: run_clear_def project_of)
  have others: "run_clear l t m q" if "s_runs s x = Some q" "\<And>k. fcs_set c k = None \<longrightarrow> m k = None" for m x q
  proof -
    have "run_clear l s (fcs_set c) q" using assms(2) that(1) by (auto simp: quota_clear_def)
    then show ?thesis using that(2) p by (simp add: run_clear_def)
  qed
  show ?thesis
  proof (cases "\<not> is_terminal_run_status (run_status r0) \<and> is_terminal_run_status (run_status r)")
    case True
    let ?u = "case get_run_usage (run_id r) t of Inl err \<Rightarrow> zero_run_usage | Inr u \<Rightarrow> u"
    let ?c = "snd (release_run K l r (project_id_for_run store_repository r t) ?u c)"
    have "trim_space (run_id r) \<noteq> ''''" using clear(1) r(1) id by (simp add: run_clear_def)
    note rel = release_clears [OF clear(2,3) this, of K "project_id_for_run store_repository r t" ?u]
    have "run_clear l t (fcs_set ?c) r"
      using clear(1) r(1) id pr rel(2) by (simp add: run_clear_def)
    then have "quota_clear l (t, ?c)"
      using clear(2) rel others r(4) by (auto simp: quota_clear_def)
    then show ?thesis
      using True up Some pr id
      by (simp add: releasing_update_run_status_def get_run_def Let_def)
  next
    case False
    have "run_clear l t (fcs_set c) r"
      using clear(1) r(1) id pr False kept by (auto simp: run_clear_def)
    then have "quota_clear l (t, c)" using clear(2,3) others r(4) by (auto simp: quota_clear_def)
    then show ?thesis
      using False up Some id
      by (auto simp: releasing_update_run_status_def get_run_def Let_def)
  qed
qed

lemma embedded_ops:
  "rep_add_event (releasing_repository K l R) e rid typ text v = with_right (rep_add_event R e rid typ text v)"
  "rep_add_assistant_message (releasing_repository K l R) e c rid text = with_right (rep_add_assistant_message R e c rid text)"
  "rep_save_run_usage (releasing_repository K l R) rid u = with_right (rep_save_run_usage R rid u)"
  "rep_add_artifact (releasing_repository K l R) e a = with_right (rep_add_artifact R e a)"
  "rep_update_run_status (releasing_repository K l R) e rid st text = releasing_update_run_status K l R e rid st text"
  by (simp_all add: releasing_repository_def)

lemma quota_clear_with_right:
  assumes "quota_clear l d" "keeps_runs (fst d) (snd (f (fst d)))"
  shows "quota_clear l (snd (with_right f d))"
  using quota_clear_keeps [OF assms(2), of l "snd d"] assms(1)
  by (cases "f (fst d)") (simp add: with_right_def)

interpretation quota_sink:
  run_repository "releasing_repository K l store_repository" "\<lambda>d. run_inv (fst d) \<and> quota_clear l d" for K l
proof (rule wrapped_repository [OF releasing.transparent_axioms store_sink.run_repository_axioms],
    unfold embedded_ops store_repository_simps)
  fix e rid st d and v "text" :: string assume "run_inv (fst d)" "quota_clear l d"
  then show "quota_clear l (snd (releasing_update_run_status K l store_repository e rid st text d))"
    using quota_clear_update [of "fst d" l "snd d"] by simp
qed (rule quota_clear_with_right, assumption,
    rule keeps_event keeps_message keeps_usage keeps_artifact, rule prod.collapse [symmetric])+

section \<open>Nudges\<close>

text \<open>A bus that records what is published, whether the publication succeeds or not.\<close>

definition record_nudge :: "(run_event \<Rightarrow> app_error option) \<Rightarrow> run_event list nudge_publish" where
  "record_nudge f ev sent = (f ev, sent @ [ev])"

definition nudges_match :: "store \<times> run_event list \<Rightarrow> bool" where
  "nudges_match d \<longleftrightarrow>
     (\<forall>rid. filter (\<lambda>ev. evt_run_id ev = rid) (snd d) = events_of store_repository (fst d) rid)"

lemma fanout_ops:
  "rep_add_event (fanout_repository bus R) e rid typ text v = fanout_add_event bus R e rid typ text v"
  "rep_add_assistant_message (fanout_repository bus R) e c rid text = with_right (rep_add_assistant_message R e c rid text)"
  "rep_save_run_usage (fanout_repository bus R) rid u = with_right (rep_save_run_usage R rid u)"
  "rep_add_artifact (fanout_repository bus R) e a = with_right (rep_add_artifact R e a)"
  "rep_update_run_status (fanout_repository bus R) e rid st text = with_right (rep_update_run_status R e rid st text)"
  by (simp_all add: fanout_repository_def)

lemma nudges_match_with_right:
  assumes "nudges_match d"
    and "events_of store_repository (snd (f (fst d))) = events_of store_repository (fst d)"
  shows "nudges_match (snd (with_right f d))"
  using assms by (cases "f (fst d)") (simp add: nudges_match_def with_right_def)

lemma nudges_match_event:
  assumes "run_inv (fst d)" "nudges_match d"
  shows "nudges_match (snd (fanout_add_event (Some (record_nudge f)) store_repository e rid typ text v d))"
proof -
  obtain rv t where add: "add_event e rid typ text v (fst d) = (rv, t)" by fastforce
  note law = store_event_law [OF assms(1) add]
  show ?thesis
  proof (cases rv)
    case (Inl err)
    then show ?thesis using law add assms(2)
      by (simp add: nudges_match_def fanout_add_event_def)
  next
    case (Inr ev)
    then have "evt_run_id ev = rid" using add add_event_Inr by blast
    then show ?thesis using law add assms(2) Inr
      by (simp add: nudges_match_def fanout_add_event_def record_nudge_def)
  qed
qed

interpretation nudge_sink:
  run_repository "fanout_repository (Some (record_nudge f)) store_repository"
    "\<lambda>d. run_inv (fst d) \<and> nudges_match d" for f
proof (rule wrapped_repository [OF fanout.transparent_axioms store_sink.run_repository_axioms],
    unfold fanout_ops store_repository_simps)
  fix d and e rid st and "text" :: string assume d: "run_inv (fst d)" "nudges_match d"
  from d(2) show "nudges_match (snd (with_right (update_run_status e rid st text) d))"
    by (rule nudges_match_with_right) (use store_update_law [OF d(1) prod.collapse [symmetric]] in blast)
next
  fix d and e rid "typ" "text" v assume d: "run_inv (fst d)" "nudges_match d"
  then show "nudges_match (snd (fanout_add_event (Some (record_nudge f)) store_repository e rid typ text v d))"
    by (rule nudges_match_event)
next
  fix d and e c rid "text" assume d: "run_inv (fst d)" "nudges_match d"
  from d(2) show "nudges_match (snd (with_right (add_assistant_message e c rid text) d))"
    by (rule nudges_match_with_right) (use store_message_law [OF d(1) prod.collapse [symmetric]] in blast)
next
  fix d and rid u assume d: "run_inv (fst d)" "nudges_match d"
  from d(2) show "nudges_match (snd (with_right (save_run_usage rid u) d))"
    by (rule nudges_match_with_right) (use store_usage_law [OF d(1) prod.collapse [symmetric]] in blast)
next
  fix d and e a assume d: "run_inv (fst d)" "nudges_match d"
  from d(2) show "nudges_match (snd (with_right (add_artifact e a) d))"
    by (rule nudges_match_with_right) (use store_artifact_law [OF d(1) prod.collapse [symmetric]] in blast)
qed

section \<open>Properties\<close>

text \<open>C28. The stack of the control plane, the fan-out over the quota release over the store,
  refines the store: whatever the limiter and the bus do and however they fail, a sequence of
  reports has on the store the effect it has on the store alone.\<close>

theorem wrapped_store_refines:
  "fst (fst (reports_effect (fanout_repository bus (releasing_repository K l store_repository)) xs ((s, c), b))) =
     reports_effect store_repository xs s"
  using fanout.reports_sim [where bus = bus and R = "releasing_repository K l store_repository"
      and xs = xs and d = "((s, c), b)"]
    releasing.reports_sim [where K = K and l = l and R = store_repository and xs = xs and d = "(s, c)"]
  by simp


definition marked_counters :: fake_counters where
  "marked_counters = new_fake_counters\<lparr>fcs_set := [sample_marker \<mapsto> ''marker'']\<rparr>"

lemma demo_parts:
  "s_runs demo_store = [''run_1'' \<mapsto> demo_run]"
  "\<exists>chat. s_chats demo_store ''chat_1'' = Some chat \<and> cht_project_id chat = ''demo-project''"
  "\<exists>ev. s_events demo_store = [''run_1'' \<mapsto> [ev]] \<and> evt_run_id ev = ''run_1''"
  by (simp_all add: demo_store_def demo_steps demo_run_def new_store_def run_log_def map_get_def)
    (rule exI, rule conjI, rule refl, simp)

lemma demo_clear: "quota_clear sample_limiter (demo_store, marked_counters)"
  using demo_parts(2)
  by (auto simp: quota_clear_def run_clear_def project_of demo_parts(1) demo_run_def marked_counters_def
      new_fake_counters_def split: if_splits)

abbreviation demo_failure :: report where
  "demo_failure \<equiv> Failed (\<lambda>i. demo_env (70 + int i)) ''run_1'' ''boom''"


text \<open>Through \<open>FanoutRepository\<close> every stored event is published exactly once and in its
  order, whether or not the bus takes it: what was sent for a run stays equal to its log.\<close>

theorem nudges_are_the_log:
  assumes "reachable s" "nudges_match (s, sent)"
    and "(s', sent') = reports_effect (fanout_repository (Some (record_nudge f)) store_repository) xs (s, sent)"
  shows "filter (\<lambda>ev. evt_run_id ev = rid) sent' = list_events rid 0 s'"
proof -
  have "run_inv s" using assms(1) by (rule run_states.reach)
  then have "nudges_match (s', sent')"
    unfolding assms(3) using nudge_sink.reports [of "(s, sent)" f xs] assms(2) by simp
  then show ?thesis by (simp add: nudges_match_def events_of_def)
qed

theorem nudges_are_the_log_witness:
  "filter (\<lambda>ev. evt_run_id ev = ''run_1'') (snd (reports_effect
       (fanout_repository (Some (record_nudge (\<lambda>ev. Some ErrNotFound))) store_repository)
       [demo_failure] (demo_store, list_events ''run_1'' 0 demo_store))) =
     list_events ''run_1'' 0 (fst (reports_effect
       (fanout_repository (Some (record_nudge (\<lambda>ev. Some ErrNotFound))) store_repository)
       [demo_failure] (demo_store, list_events ''run_1'' 0 demo_store)))"
proof -
  obtain ev where ev: "s_events demo_store = [''run_1'' \<mapsto> [ev]]" "evt_run_id ev = ''run_1''"
    using demo_parts(3) by blast
  have log: "events_of store_repository demo_store rid = (if rid = ''run_1'' then [ev] else [])" for rid
    using store_events [OF run_states.reach [OF demo_reachable]] by (simp add: run_log_def map_get_def ev)
  then have "nudges_match (demo_store, list_events ''run_1'' 0 demo_store)"
    using log [of "''run_1''"] ev(2) by (simp add: nudges_match_def events_of_def)
  from nudges_are_the_log [OF demo_reachable this prod.collapse] show ?thesis .
qed

end
