(* ===== verification/Event_Fanout.thy ===== *)
theory Event_Fanout
  imports Decorators Go_Text Sample_Execution
begin

text \<open>
  The event buses and the subscriber side of the fan-out
  (services/control-plane/internal/events/eventbus.go). A subscription merges the events of
  the local store with the nudges of the other instances; the loop of the goroutine is a step
  relation, one step per branch of its \<open>select\<close>, between which the store may move on.
\<close>

section \<open>Buses over the repository\<close>

definition repository_bus_publish ::
  "'s repository \<Rightarrow> env \<Rightarrow> run_event \<Rightarrow> 's \<Rightarrow> app_error option \<times> 's" where
  "repository_bus_publish R e ev s =
     (case rep_add_event R e (evt_run_id ev) (evt_type ev) (evt_message ev) (evt_payload ev) s of
        (Inl err, t) \<Rightarrow> (Some err, t)
      | (Inr x, t) \<Rightarrow> (None, t))"

definition repository_bus_replay ::
  "'s repository \<Rightarrow> string \<Rightarrow> int \<Rightarrow> 's \<Rightarrow> run_event list result" where
  "repository_bus_replay R rid after_seq s = Inr (rep_list_events R rid after_seq s)"

definition streams_bus_publish :: "run_event \<Rightarrow> app_error option" where
  "streams_bus_publish ev = Some ErrExternalAdapterNotImplemented"

definition streams_bus_replay :: "string \<Rightarrow> int \<Rightarrow> run_event list result" where
  "streams_bus_replay rid after_seq = Inl ErrExternalAdapterNotImplemented"

section \<open>Nudges\<close>

record event_nudge =
  ndg_run_id :: string
  ndg_seq :: int
  ndg_event_id :: string

text \<open>A missing entry of the map of values reads as the empty string, and the error is that of
  \<open>ParseInt\<close>.\<close>

definition decode_event_nudge :: "(string \<rightharpoonup> string) \<Rightarrow> event_nudge result" where
  "decode_event_nudge values =
     (case parse_int64 (map_get '''' values ''seq'') of
        (seq, ok) \<Rightarrow>
          if \<not> ok then Inl (ErrMessage ''strconv.ParseInt'')
          else Inr \<lparr>ndg_run_id = map_get '''' values ''run_id'', ndg_seq = seq,
            ndg_event_id = map_get '''' values ''event_id''\<rparr>)"

definition nudge_of :: "run_event \<Rightarrow> event_nudge" where
  "nudge_of ev = \<lparr>ndg_run_id = evt_run_id ev, ndg_seq = evt_seq ev, ndg_event_id = evt_id ev\<rparr>"

text \<open>The Redis bus: its channel of a run, and the nudge a message turns into; a payload that
  does not decode is skipped, a nudge without run is one of the subscribed run.\<close>

definition nudge_prefix :: "string \<Rightarrow> string" where
  "nudge_prefix pre = (if pre = '''' then ''niceagent:run-events'' else pre)"

definition nudge_address :: "string \<Rightarrow> string" where
  "nudge_address addr = (if addr = '''' then ''127.0.0.1:6379'' else addr)"

definition nudge_channel :: "string \<Rightarrow> string \<Rightarrow> string" where
  "nudge_channel pre rid = pre @ '':'' @ rid"

definition received_nudge :: "(string \<Rightarrow> event_nudge option) \<Rightarrow> string \<Rightarrow> string \<Rightarrow> event_nudge option" where
  "received_nudge unmarshal rid payload =
     (case unmarshal payload of
        None \<Rightarrow> None
      | Some n \<Rightarrow> Some (if ndg_run_id n = '''' then n\<lparr>ndg_run_id := rid\<rparr> else n))"

section \<open>The merge loop of Subscribe\<close>

fun max_event_seq_from :: "int \<Rightarrow> run_event list \<Rightarrow> int" where
  "max_event_seq_from m [] = m"
| "max_event_seq_from m (ev # evs) = max_event_seq_from (if evt_seq ev > m then evt_seq ev else m) evs"

definition max_event_seq :: "run_event list \<Rightarrow> int" where
  "max_event_seq evs = max_event_seq_from 0 evs"

text \<open>
  \<open>fan_out\<close> is what was sent to the subscriber, oldest first; the two flags say that the
  channel is not \<open>nil\<close> yet; \<open>fan_done\<close> that the goroutine has returned.
\<close>

record fan =
  fan_last :: int
  fan_out :: "run_event list"
  fan_local_open :: bool
  fan_nudges_open :: bool
  fan_done :: bool

definition start_fan :: "'s repository \<Rightarrow> string \<Rightarrow> 's \<Rightarrow> fan" where
  "start_fan R rid s =
     \<lparr>fan_last = max_event_seq (rep_list_events R rid 0 s), fan_out = [], fan_local_open = True,
      fan_nudges_open = True, fan_done = False\<rparr>"

definition forward :: "run_event \<Rightarrow> fan \<Rightarrow> fan" where
  "forward ev f = f\<lparr>fan_out := fan_out f @ [ev], fan_last := evt_seq ev\<rparr>"

text \<open>
  Each send may lose against the cancelled context: \<open>sent\<close> counts the sends that succeed
  before that happens (\<open>None\<close>: it does not happen). A lost send ends the goroutine.
\<close>

fun forward_all :: "nat option \<Rightarrow> run_event list \<Rightarrow> fan \<Rightarrow> fan" where
  "forward_all sent [] f = f"
| "forward_all sent (ev # evs) f =
     (if evt_seq ev \<le> fan_last f then forward_all sent evs f
      else (case sent of
              None \<Rightarrow> forward_all None evs (forward ev f)
            | Some 0 \<Rightarrow> f\<lparr>fan_done := True\<rparr>
            | Some (Suc n) \<Rightarrow> forward_all (Some n) evs (forward ev f)))"

definition on_local :: "run_event \<Rightarrow> fan \<Rightarrow> fan" where
  "on_local ev f = (if evt_seq ev > fan_last f then forward ev f else f)"

definition on_nudge :: "'s repository \<Rightarrow> string \<Rightarrow> 's \<Rightarrow> nat option \<Rightarrow> event_nudge \<Rightarrow> fan \<Rightarrow> fan" where
  "on_nudge R rid s sent n f =
     (if ndg_seq n \<le> fan_last f then f
      else forward_all sent (rep_list_events R rid (fan_last f) s) f)"

definition fan_running :: "fan \<Rightarrow> bool" where
  "fan_running f \<longleftrightarrow> \<not> fan_done f \<and> (fan_local_open f \<or> fan_nudges_open f)"

text \<open>
  The steps of a subscription to \<open>rid\<close>, with the state of the store: \<open>grows s t\<close> is what the
  store may do in the meantime, and a local event is one the store has in its log. Losing the
  send of a local event leaves the state as it is, and the next step sees the cancellation.
\<close>

inductive fan_steps ::
  "'s repository \<Rightarrow> ('s \<Rightarrow> 's \<Rightarrow> bool) \<Rightarrow> string \<Rightarrow> 's \<Rightarrow> 's \<times> fan \<Rightarrow> bool"
  for R grows rid s0 where
  fan_start: "fan_steps R grows rid s0 (s0, start_fan R rid s0)"
| fan_store: "fan_steps R grows rid s0 (s, f) \<Longrightarrow> grows s t \<Longrightarrow> fan_steps R grows rid s0 (t, f)"
| fan_local: "fan_steps R grows rid s0 (s, f) \<Longrightarrow> fan_running f \<Longrightarrow> fan_local_open f \<Longrightarrow>
    ev \<in> set (rep_list_events R rid 0 s) \<Longrightarrow> fan_steps R grows rid s0 (s, on_local ev f)"
| fan_local_closed: "fan_steps R grows rid s0 (s, f) \<Longrightarrow> fan_running f \<Longrightarrow> fan_local_open f \<Longrightarrow>
    fan_steps R grows rid s0 (s, f\<lparr>fan_local_open := False\<rparr>)"
| fan_nudge: "fan_steps R grows rid s0 (s, f) \<Longrightarrow> fan_running f \<Longrightarrow> fan_nudges_open f \<Longrightarrow>
    fan_steps R grows rid s0 (s, on_nudge R rid s sent n f)"
| fan_nudges_closed: "fan_steps R grows rid s0 (s, f) \<Longrightarrow> fan_running f \<Longrightarrow> fan_nudges_open f \<Longrightarrow>
    fan_steps R grows rid s0 (s, f\<lparr>fan_nudges_open := False\<rparr>)"
| fan_cancel: "fan_steps R grows rid s0 (s, f) \<Longrightarrow> fan_running f \<Longrightarrow>
    fan_steps R grows rid s0 (s, f\<lparr>fan_done := True\<rparr>)"

section \<open>Logs\<close>

text \<open>What a subscription needs of the store: the log of the run is numbered 1, 2, 3, ... and
  \<open>ListEvents\<close> drops the first ones; the store may only append to it.\<close>

locale event_source =
  fixes R :: "'s repository" and grows :: "'s \<Rightarrow> 's \<Rightarrow> bool" and rid :: string and good :: "'s \<Rightarrow> bool"
  assumes dense: "good s \<Longrightarrow> dense_seqs (rep_list_events R rid 0 s)"
    and drops: "good s \<Longrightarrow> 0 \<le> n \<Longrightarrow> rep_list_events R rid n s = drop (nat n) (rep_list_events R rid 0 s)"
    and good_grows: "good s \<Longrightarrow> grows s t \<Longrightarrow> good t"
    and appends: "good s \<Longrightarrow> grows s t \<Longrightarrow> \<exists>evs. rep_list_events R rid 0 t = rep_list_events R rid 0 s @ evs"

begin

lemma seq_of:
  assumes "good s" "ev \<in> set (rep_list_events R rid 0 s)"
  shows "0 < evt_seq ev \<and> evt_seq ev \<le> int (length (rep_list_events R rid 0 s))"
  using dense_seqs_nth [OF dense [OF assms(1)]] assms(2) by (fastforce simp: in_set_conv_nth)

lemma seqs_from:
  assumes "good s" "0 \<le> n"
  shows "map evt_seq (rep_list_events R rid n s) = map int [Suc (nat n)..<Suc (length (rep_list_events R rid 0 s))]"
proof -
  let ?log = "rep_list_events R rid 0 s"
  have "map evt_seq (rep_list_events R rid n s) = drop (nat n) (map evt_seq ?log)"
    by (simp add: drops [OF assms] drop_map)
  also have "\<dots> = drop (nat n) (map int [1..<length ?log + 1])"
    using dense [OF assms(1)] by (simp only: dense_seqs_def)
  also have "\<dots> = map int [Suc (nat n)..<Suc (length ?log)]"
    by (simp add: drop_map del: upt_Suc)
  finally show ?thesis .
qed

lemma max_seq_ge: "m \<le> max_event_seq_from m evs"
proof (induction evs arbitrary: m)
  case (Cons ev evs)
  from Cons [of "if evt_seq ev > m then evt_seq ev else m"] show ?case by (auto split: if_splits)
qed simp

lemma max_seq_upt:
  "map evt_seq evs = map int [Suc k..<Suc n] \<Longrightarrow> k \<le> n \<Longrightarrow> max_event_seq_from (int k) evs = int n"
proof (induction evs arbitrary: k)
  case Nil
  then have "k = n" by (simp del: upt_Suc)
  with Nil show ?case by simp
next
  case (Cons ev evs)
  have "[Suc k..<Suc n] \<noteq> []" using Cons.prems(1) by (metis list.distinct(1) map_is_Nil_conv)
  then have "k < n" by (simp del: upt_Suc)
  then have "evt_seq ev = int (Suc k)" "map evt_seq evs = map int [Suc (Suc k)..<Suc n]"
    using Cons.prems(1) by (simp_all add: upt_conv_Cons del: upt_Suc)
  then show ?case using Cons.IH [of "Suc k"] \<open>k < n\<close> by (simp del: upt_Suc)
qed

lemma start_last: "good s \<Longrightarrow> fan_last (start_fan R rid s) = int (length (rep_list_events R rid 0 s))"
  using max_seq_upt [of "rep_list_events R rid 0 s" 0 "length (rep_list_events R rid 0 s)"]
    seqs_from [of s 0] by (simp add: start_fan_def max_event_seq_def del: upt_Suc)

text \<open>Forwarding a stretch of consecutive events.\<close>

lemma forward_all_None:
  "map evt_seq evs = map int [Suc k..<Suc n] \<Longrightarrow> fan_last f = int k \<Longrightarrow> k \<le> n \<Longrightarrow>
   forward_all None evs f = f\<lparr>fan_out := fan_out f @ evs, fan_last := int n\<rparr>"
proof (induction evs arbitrary: k f)
  case Nil
  then have "k = n" by (simp del: upt_Suc)
  with Nil show ?case by simp
next
  case (Cons ev evs)
  have "[Suc k..<Suc n] \<noteq> []" using Cons.prems(1) by (metis list.distinct(1) map_is_Nil_conv)
  then have "k < n" by (simp del: upt_Suc)
  then have "evt_seq ev = int (Suc k)" "map evt_seq evs = map int [Suc (Suc k)..<Suc n]"
    using Cons.prems(1) by (simp_all add: upt_conv_Cons del: upt_Suc)
  then show ?case using Cons.IH [of "Suc k" "forward ev f"] Cons.prems(2) \<open>k < n\<close>
    by (simp add: forward_def del: upt_Suc)
qed

text \<open>The state of a subscription that started at \<open>n0\<close>.\<close>

definition fan_ok :: "int \<Rightarrow> 's \<Rightarrow> fan \<Rightarrow> bool" where
  "fan_ok n0 s f \<longleftrightarrow>
     good s \<and> 0 \<le> n0 \<and> n0 \<le> fan_last f \<and> sorted_wrt (<) (map evt_seq (fan_out f)) \<and>
     (\<forall>ev \<in> set (fan_out f). n0 < evt_seq ev \<and> evt_seq ev \<le> fan_last f \<and>
        ev \<in> set (rep_list_events R rid 0 s))"

lemma fan_ok_forward:
  assumes "fan_ok n0 s f" "evt_seq ev > fan_last f" "ev \<in> set (rep_list_events R rid 0 s)"
  shows "fan_ok n0 s (forward ev f)"
proof -
  note ok = assms(1) [unfolded fan_ok_def]
  have less: "evt_seq x < evt_seq ev" if "x \<in> set (fan_out f)" for x
    using ok assms(2) that by (meson le_less_trans)
  have n0: "n0 < evt_seq ev" using ok assms(2) by linarith
  have sorted: "sorted_wrt (<) (map evt_seq (fan_out f @ [ev]))"
    using ok less by (auto simp: sorted_wrt_append)
  have all: "n0 < evt_seq x \<and> evt_seq x \<le> evt_seq ev \<and> x \<in> set (rep_list_events R rid 0 s)"
    if "x \<in> set (fan_out f @ [ev])" for x
    using that
  proof (cases "x = ev")
    case False
    with that have x: "x \<in> set (fan_out f)" by simp
    then show ?thesis using ok less [OF x] by auto
  qed (use n0 assms(3) in simp)
  show ?thesis using ok less_imp_le [OF n0] sorted all unfolding fan_ok_def forward_def by simp
qed

lemma fan_ok_forward_all:
  "fan_ok n0 s f \<Longrightarrow> set evs \<subseteq> set (rep_list_events R rid 0 s) \<Longrightarrow> fan_ok n0 s (forward_all sent evs f)"
proof (induction sent evs f rule: forward_all.induct)
  case (2 sent ev evs f)
  have "fan_ok n0 s (f\<lparr>fan_done := True\<rparr>)" using 2(4) by (simp add: fan_ok_def)
  with 2 fan_ok_forward show ?case by (auto split: option.splits nat.splits)
qed simp

lemma fan_ok_grows:
  assumes "fan_ok n0 s f" "grows s t"
  shows "fan_ok n0 t f"
proof -
  have "good s" using assms(1) by (simp add: fan_ok_def)
  then have "good t" using good_grows assms(2) by blast
  moreover obtain evs where "rep_list_events R rid 0 t = rep_list_events R rid 0 s @ evs"
    using appends [OF \<open>good s\<close> assms(2)] by blast
  ultimately show ?thesis using assms(1) by (auto simp: fan_ok_def)
qed

lemma later_events: "good s \<Longrightarrow> 0 \<le> n \<Longrightarrow> set (rep_list_events R rid n s) \<subseteq> set (rep_list_events R rid 0 s)"
  using set_drop_subset [of "nat n" "rep_list_events R rid 0 s"] drops [of s n] by metis

lemma steps_ok:
  assumes "fan_steps R grows rid s0 x" "good s0"
  shows "fan_ok (int (length (rep_list_events R rid 0 s0))) (fst x) (snd x)"
  using assms
proof induction
  case fan_start
  then show ?case using start_last by (simp add: fan_ok_def start_fan_def)
next
  case (fan_store s f t)
  then show ?case using fan_ok_grows by simp
next
  case (fan_local s f ev)
  then show ?case using fan_ok_forward by (simp add: on_local_def)
next
  case (fan_nudge s f sent n)
  then have "fan_ok (int (length (rep_list_events R rid 0 s0))) s f" "good s" "0 \<le> fan_last f"
    by (simp_all add: fan_ok_def)
  with fan_ok_forward_all later_events show ?case by (simp add: on_nudge_def)
qed (simp_all add: fan_ok_def)

text \<open>A nudge that is not lost brings the subscriber up to the whole log.\<close>

lemma nudge_catches_up:
  assumes "good s" "0 \<le> fan_last f" "fan_last f < ndg_seq n"
    and "ndg_seq n \<le> int (length (rep_list_events R rid 0 s))"
  shows "on_nudge R rid s None n f =
    f\<lparr>fan_out := fan_out f @ rep_list_events R rid (fan_last f) s,
      fan_last := int (length (rep_list_events R rid 0 s))\<rparr>"
  using forward_all_None [OF seqs_from [OF assms(1,2)]] assms(2-4) by (simp add: on_nudge_def)

text \<open>An event that was passed over is never sent later.\<close>

definition passed_over :: "int \<Rightarrow> fan \<Rightarrow> bool" where
  "passed_over k f \<longleftrightarrow> k \<le> fan_last f \<and> k \<notin> evt_seq ` set (fan_out f)"

lemma passed_forward: "passed_over k f \<Longrightarrow> evt_seq ev > fan_last f \<Longrightarrow> passed_over k (forward ev f)"
  by (auto simp: passed_over_def forward_def)

lemma passed_forward_all: "passed_over k f \<Longrightarrow> passed_over k (forward_all sent evs f)"
proof (induction sent evs f rule: forward_all.induct)
  case (2 sent ev evs f)
  have "passed_over k (f\<lparr>fan_done := True\<rparr>)" using 2(4) by (simp add: passed_over_def)
  with 2 passed_forward show ?case by (auto split: option.splits nat.splits)
qed simp

end

section \<open>The store as a source of events\<close>

definition store_grows :: "store \<Rightarrow> store \<Rightarrow> bool" where
  "store_grows s t \<longleftrightarrow> (\<exists>ops. ops_ok ops s \<and> t = run_ops ops s)"

lemma store_log: "reachable s \<Longrightarrow> list_events rid 0 s = run_log s rid \<and> log_ok s rid"
  using run_states.reach run_invD(3) list_events_dense [of s rid 0] by (fastforce simp: log_ok_def)

interpretation store_source: event_source store_repository store_grows rid reachable for rid
proof
  fix s :: store and n :: int assume s: "reachable s"
  show "dense_seqs (rep_list_events store_repository rid 0 s)"
    using store_log [OF s, of rid] by (simp add: log_ok_def)
  assume "0 \<le> n"
  then obtain k where "n = int k" using nonneg_int_cases by blast
  then show "rep_list_events store_repository rid n s = drop (nat n) (rep_list_events store_repository rid 0 s)"
    using store_log [OF s, of rid] list_events_dense [of s rid k] by (simp add: log_ok_def)
next
  fix s t assume s: "reachable s" and "store_grows s t"
  then obtain ops where o: "ops_ok ops s" "t = run_ops ops s" by (auto simp: store_grows_def)
  then show t: "reachable t" using reachable_ops s by blast
  have "prefix (run_log s rid) (run_log t rid)"
    using runs.lasting_reachable [OF s o(1)] o(2) by (simp add: runs_last_def)
  then show "\<exists>evs. rep_list_events store_repository rid 0 t = rep_list_events store_repository rid 0 s @ evs"
    using store_log [OF s, of rid] store_log [OF t, of rid] by (auto simp: prefix_def)
qed

section \<open>Properties\<close>

text \<open>C30. Whatever local events and nudges arrive, in whatever order, repeated or late, a
  subscriber gets the events of the run that were added after it subscribed, in their order and
  none of them twice.\<close>

theorem subscriber_gets_no_event_twice:
  assumes "reachable s0" "fan_steps store_repository store_grows rid s0 (s, f)"
  shows "sorted_wrt (<) (map evt_seq (fan_out f)) \<and>
    set (fan_out f) \<subseteq> set (list_events rid (int (length (run_log s0 rid))) s)"
proof -
  have ok: "store_source.fan_ok rid (int (length (run_log s0 rid))) s f"
    using store_source.steps_ok [OF assms(2,1)] store_log [OF assms(1), of rid] by simp
  then have "reachable s" by (simp add: store_source.fan_ok_def)
  then show ?thesis
    using ok store_log [of s rid] by (auto simp: store_source.fan_ok_def list_events_def)
qed

definition demo_fan :: fan where "demo_fan = start_fan store_repository ''run_1'' demo_store"

definition demo_more :: store where
  "demo_more = run_ops [RunOp (OpAddEvent (demo_env 8) ''run_1'' EventModelToken ''x'' VNil)] demo_store"

definition demo_nudge :: event_nudge where
  "demo_nudge = \<lparr>ndg_run_id = ''run_1'', ndg_seq = 2, ndg_event_id = ''''\<rparr>"

lemma demo_fan_steps:
  "fan_steps store_repository store_grows ''run_1'' demo_store (demo_more, demo_fan)"
proof -
  have "ops_ok [RunOp (OpAddEvent (demo_env 8) ''run_1'' EventModelToken ''x'' VNil)] demo_store" by simp
  then have "store_grows demo_store demo_more" unfolding store_grows_def demo_more_def by blast
  then show ?thesis unfolding demo_fan_def by (rule fan_store [OF fan_start])
qed

lemma demo_log_length: "length (run_log demo_store ''run_1'') = 1" "length (run_log demo_more ''run_1'') = 2"
  by (simp_all add: demo_more_def demo_store_def demo_steps new_store_def run_log_def map_get_def)

lemma demo_fan_start: "fan_last demo_fan = 1" "fan_running demo_fan" "fan_nudges_open demo_fan" "fan_out demo_fan = []"
  using store_source.start_last [OF demo_reachable, of "''run_1''"] demo_log_length
    store_log [OF demo_reachable, of "''run_1''"]
  by (simp_all add: demo_fan_def start_fan_def fan_running_def)

theorem subscriber_gets_no_event_twice_witness:
  "set (fan_out (on_nudge store_repository ''run_1'' demo_more None demo_nudge demo_fan)) \<subseteq>
     set (list_events ''run_1'' 1 demo_more)"
  using subscriber_gets_no_event_twice [OF demo_reachable
      fan_nudge [OF demo_fan_steps demo_fan_start(2,3), of None demo_nudge]] demo_log_length(1)
  by simp

text \<open>A nudge about an event the subscriber has not seen brings it up to date: it is sent
  exactly the events it has not been sent, up to the end of the log, unless it cancels.\<close>

theorem nudge_delivers_the_rest:
  assumes "reachable s0" "fan_steps store_repository store_grows rid s0 (s, f)"
    and "fan_last f < ndg_seq n" "ndg_seq n \<le> int (length (run_log s rid))"
  shows "fan_out (on_nudge store_repository rid s None n f) = fan_out f @ list_events rid (fan_last f) s \<and>
    fan_last (on_nudge store_repository rid s None n f) = int (length (run_log s rid))"
proof -
  have ok: "store_source.fan_ok rid (int (length (run_log s0 rid))) s f"
    using store_source.steps_ok [OF assms(2,1)] store_log [OF assms(1), of rid] by simp
  then have s: "reachable s" "0 \<le> fan_last f" by (simp_all add: store_source.fan_ok_def)
  with store_source.nudge_catches_up [OF s assms(3), of rid] assms(4) store_log [OF s(1), of rid]
  show ?thesis by simp
qed

theorem nudge_delivers_the_rest_witness:
  "fan_out (on_nudge store_repository ''run_1'' demo_more None demo_nudge demo_fan) =
     list_events ''run_1'' 1 demo_more"
  using nudge_delivers_the_rest [OF demo_reachable demo_fan_steps, of demo_nudge] demo_log_length(2)
    demo_fan_start by (simp add: demo_nudge_def)

text \<open>An event a subscriber was not sent while a later one was, because the full buffer of
  the local channel dropped it, is not sent by any later local event or nudge either.\<close>

theorem gap_is_not_filled:
  assumes "k \<le> fan_last f" "k \<notin> evt_seq ` set (fan_out f)"
  shows "k \<notin> evt_seq ` set (fan_out (on_local ev f)) \<and>
    k \<notin> evt_seq ` set (fan_out (on_nudge R rid s sent n f))"
proof -
  have "store_source.passed_over k f" using assms by (simp add: store_source.passed_over_def)
  then have "store_source.passed_over k (on_local ev f)" "store_source.passed_over k (on_nudge R rid s sent n f)"
    using store_source.passed_forward store_source.passed_forward_all by (simp_all add: on_local_def on_nudge_def)
  then show ?thesis by (simp add: store_source.passed_over_def)
qed

theorem gap_is_not_filled_witness:
  "1 \<notin> evt_seq ` set (fan_out (on_nudge store_repository ''run_1'' demo_more None demo_nudge demo_fan))"
  by (rule conjunct2 [OF gap_is_not_filled]) (simp_all add: demo_fan_start)

text \<open>The fields of a nudge, with the sequence number in decimal, decode to the nudge.\<close>

theorem nudge_fields_decode:
  assumes "- (2 ^ 63) \<le> ndg_seq n" "ndg_seq n < 2 ^ 63"
  shows "decode_event_nudge [''run_id'' \<mapsto> ndg_run_id n, ''seq'' \<mapsto> itoa (ndg_seq n),
    ''event_id'' \<mapsto> ndg_event_id n] = Inr n"
  using parse_itoa [OF assms] by (simp add: decode_event_nudge_def map_get_def)

theorem nudge_fields_decode_witness:
  "decode_event_nudge [''run_id'' \<mapsto> ''run_1'', ''seq'' \<mapsto> itoa 2, ''event_id'' \<mapsto> ''''] = Inr demo_nudge"
  using nudge_fields_decode [of demo_nudge] by (simp add: demo_nudge_def)

end
