(* ===== verification/Dispatch.thy ===== *)
theory Dispatch
  imports Repository Go_Text Sample_Execution
begin

text \<open>
  How the control plane hands a run to a worker (services/control-plane/internal/dispatch):
  the run queue in memory and over Redis streams (queue.go), the dispatcher that enqueues, the
  local demo dispatcher (dispatcher.go) and the one that posts the run to an agent runtime
  (http_dispatcher.go). The Redis client, the time layout RFC3339Nano, the sandbox and the
  HTTP call are parameters.
\<close>

section \<open>Queued runs\<close>

record queue_entry =
  qrn_run_id :: string
  qrn_attempt_id :: string
  qrn_enqueued_at :: gtime

record run_request =
  rrq_run_id :: string
  rrq_chat_id :: string
  rrq_user_id :: string
  rrq_workspace_id :: string
  rrq_attempt_id :: string
  rrq_skill_ids :: "string list"
  rrq_skills :: "runtime_skill list"
  rrq_model_policy :: string
  rrq_skill_risk_policy :: string

definition queued_request :: "queue_entry \<Rightarrow> run_request" where
  "queued_request q =
     \<lparr>rrq_run_id = qrn_run_id q, rrq_chat_id = '''', rrq_user_id = '''', rrq_workspace_id = '''',
      rrq_attempt_id = qrn_attempt_id q, rrq_skill_ids = [], rrq_skills = [], rrq_model_policy = '''',
      rrq_skill_risk_policy = ''''\<rparr>"

definition err_queue_closed :: app_error where "err_queue_closed = ErrMessage ''run queue is closed''"
definition err_queue_empty :: app_error where "err_queue_empty = ErrMessage ''run queue is empty''"

section \<open>MemoryRunQueue\<close>

text \<open>
  The channel is a bounded list. \<open>cancel\<close> is \<open>ctx.Err()\<close> once the context is done. A
  \<open>select\<close> takes any ready case; \<open>prefer_ctx\<close> is its choice when both are ready, and
  \<open>Blocked\<close> says that none is. A send on a closed channel panics: \<open>Enqueue\<close> reads \<open>closed\<close>
  first and sends later, in two steps.
\<close>

record memory_queue =
  mqu_items :: "queue_entry list"
  mqu_size :: nat
  mqu_closed :: bool

datatype 'a outcome_of = Returned 'a | Blocked | Panicked

definition new_memory_queue :: "int \<Rightarrow> memory_queue" where
  "new_memory_queue n =
     \<lparr>mqu_items = [], mqu_size = nat (if n \<le> 0 then 128 else n), mqu_closed = False\<rparr>"

definition memory_send ::
  "app_error option \<Rightarrow> bool \<Rightarrow> queue_entry \<Rightarrow> memory_queue \<Rightarrow> app_error option outcome_of \<times> memory_queue" where
  "memory_send cancel prefer_ctx r q =
     (case cancel of
        Some err \<Rightarrow>
          if prefer_ctx \<or> (\<not> mqu_closed q \<and> length (mqu_items q) \<ge> mqu_size q) then (Returned (Some err), q)
          else if mqu_closed q then (Panicked, q)
          else (Returned None, q\<lparr>mqu_items := mqu_items q @ [r]\<rparr>)
      | None \<Rightarrow>
          if mqu_closed q then (Panicked, q)
          else if length (mqu_items q) < mqu_size q then
            (Returned None, q\<lparr>mqu_items := mqu_items q @ [r]\<rparr>)
          else (Blocked, q))"

definition memory_enqueue ::
  "app_error option \<Rightarrow> bool \<Rightarrow> queue_entry \<Rightarrow> memory_queue \<Rightarrow> app_error option outcome_of \<times> memory_queue" where
  "memory_enqueue cancel prefer_ctx r q =
     (if mqu_closed q then (Returned (Some err_queue_closed), q) else memory_send cancel prefer_ctx r q)"

definition memory_dequeue ::
  "app_error option \<Rightarrow> bool \<Rightarrow> memory_queue \<Rightarrow> queue_entry result outcome_of \<times> memory_queue" where
  "memory_dequeue cancel prefer_ctx q =
     (if cancel \<noteq> None \<and> (prefer_ctx \<or> (mqu_items q = [] \<and> \<not> mqu_closed q)) then
        (Returned (Inl (the cancel)), q)
      else
        (case mqu_items q of
           r # rs \<Rightarrow> (Returned (Inr r), q\<lparr>mqu_items := rs\<rparr>)
         | [] \<Rightarrow> if mqu_closed q then (Returned (Inl err_queue_closed), q) else (Blocked, q)))"

definition memory_close :: "memory_queue \<Rightarrow> memory_queue" where
  "memory_close q = (if mqu_closed q then q else q\<lparr>mqu_closed := True\<rparr>)"

section \<open>RedisStreamsRunQueue\<close>

record stream_message =
  smg_id :: string
  smg_values :: metadata

record 'c stream_client =
  stc_xadd :: "string \<Rightarrow> metadata \<Rightarrow> int \<Rightarrow> 'c \<Rightarrow> string result \<times> 'c"
  stc_xgroup_create :: "string \<Rightarrow> string \<Rightarrow> string \<Rightarrow> 'c \<Rightarrow> app_error option \<times> 'c"
  stc_xread_group :: "string \<Rightarrow> string \<Rightarrow> string \<Rightarrow> int \<Rightarrow> duration \<Rightarrow> 'c \<Rightarrow> stream_message result \<times> 'c"
  stc_xack :: "string \<Rightarrow> string \<Rightarrow> string list \<Rightarrow> 'c \<Rightarrow> int result \<times> 'c"

record 'c stream_queue =
  stq_addr :: string
  stq_stream :: string
  stq_group :: string
  stq_consumer :: string
  stq_block_timeout :: duration
  stq_max_len :: int

definition stream_defaults :: "'c stream_queue \<Rightarrow> 'c stream_queue" where
  "stream_defaults q =
     q\<lparr>stq_addr := (if stq_addr q = '''' then ''127.0.0.1:6379'' else stq_addr q),
       stq_stream := (if stq_stream q = '''' then ''niceagent:runs'' else stq_stream q),
       stq_group := (if stq_group q = '''' then ''agent-runtimes'' else stq_group q),
       stq_consumer := (if stq_consumer q = '''' then ''control-plane'' else stq_consumer q),
       stq_block_timeout := (if stq_block_timeout q \<le> 0 then 5 * time_second else stq_block_timeout q)\<rparr>"

definition normalize_queued_run :: "env \<Rightarrow> queue_entry \<Rightarrow> queue_entry" where
  "normalize_queued_run e r =
     (let r1 = (if qrn_attempt_id r = '''' then r\<lparr>qrn_attempt_id := e_id e ''attempt''\<rparr> else r)
      in if qrn_enqueued_at r1 = 0 then r1\<lparr>qrn_enqueued_at := e_now e\<rparr> else r1)"

text \<open>The layout RFC3339Nano of the standard library, and \<open>fmt.Sprint\<close> of other values.\<close>

record text_lib =
  txt_format_time :: "gtime \<Rightarrow> string"
  txt_parse_time :: "string \<Rightarrow> gtime result"
  txt_sprint :: "goval \<Rightarrow> string"

definition encode_queued_run :: "text_lib \<Rightarrow> queue_entry \<Rightarrow> metadata" where
  "encode_queued_run T r =
     [(''schema_version'', VStr ''1''), (''run_id'', VStr (qrn_run_id r)),
      (''attempt_id'', VStr (qrn_attempt_id r)),
      (''enqueued_at'', VStr (txt_format_time T (qrn_enqueued_at r)))]"

fun redis_value_string :: "text_lib \<Rightarrow> goval option \<Rightarrow> string" where
  "redis_value_string T None = ''''"
| "redis_value_string T (Some VNil) = ''''"
| "redis_value_string T (Some (VStr s)) = s"
| "redis_value_string T (Some v) = txt_sprint T v"

definition decode_queued_run :: "text_lib \<Rightarrow> metadata \<Rightarrow> queue_entry result" where
  "decode_queued_run T values =
     (let rid = redis_value_string T (map_of values ''run_id'');
          attempt = redis_value_string T (map_of values ''attempt_id'');
          raw = redis_value_string T (map_of values ''enqueued_at'')
      in if rid = '''' then Inl (ErrMessage ''queued run is missing run_id'')
         else if raw \<noteq> '''' then
           (case txt_parse_time T raw of
              Inl err \<Rightarrow> Inl (ErrMessage ''decode queued run enqueued_at'')
            | Inr t \<Rightarrow> Inr \<lparr>qrn_run_id = rid, qrn_attempt_id = attempt, qrn_enqueued_at = t\<rparr>)
         else Inr \<lparr>qrn_run_id = rid, qrn_attempt_id = attempt, qrn_enqueued_at = 0\<rparr>)"

definition stream_enqueue ::
  "text_lib \<Rightarrow> 'c stream_client \<Rightarrow> 'd stream_queue \<Rightarrow> env \<Rightarrow> queue_entry \<Rightarrow> 'c \<Rightarrow> app_error option \<times> 'c" where
  "stream_enqueue T cl q0 e r c =
     (let q = stream_defaults q0
      in case stc_xadd cl (stq_stream q) (encode_queued_run T (normalize_queued_run e r)) (stq_max_len q) c of
           (Inl err, c1) \<Rightarrow> (Some err, c1)
         | (Inr mid, c1) \<Rightarrow> (None, c1))"

definition is_busy_group :: "(app_error \<Rightarrow> string) \<Rightarrow> app_error \<Rightarrow> bool" where
  "is_busy_group text_of err \<longleftrightarrow> sublist ''BUSYGROUP'' (text_of err)"

definition ensure_group ::
  "(app_error \<Rightarrow> string) \<Rightarrow> 'c stream_client \<Rightarrow> 'd stream_queue \<Rightarrow> 'c \<Rightarrow> app_error option \<times> 'c" where
  "ensure_group text_of cl q c =
     (case stc_xgroup_create cl (stq_stream q) (stq_group q) ''0'' c of
        (None, c1) \<Rightarrow> (None, c1)
      | (Some err, c1) \<Rightarrow> if is_busy_group text_of err then (None, c1) else (Some err, c1))"

text \<open>
  The loop of \<open>Dequeue\<close> polls until a message arrives, an error occurs or the context is done:
  \<open>ctx i\<close> is \<open>ctx.Err()\<close> before the \<open>i\<close>-th poll. It may run for ever, so its value is an
  option. The result carries the message identifier the acknowledgement refers to.
\<close>

partial_function (option) poll_loop ::
  "text_lib \<Rightarrow> 'c stream_client \<Rightarrow> 'd stream_queue \<Rightarrow> (nat \<Rightarrow> app_error option) \<Rightarrow> nat \<Rightarrow> 'c
     \<Rightarrow> ((queue_entry \<times> string) result \<times> 'c) option" where
  "poll_loop T cl q ctx i c =
     (case ctx i of
        Some err \<Rightarrow> Some (Inl err, c)
      | None \<Rightarrow>
          (case stc_xread_group cl (stq_stream q) (stq_group q) (stq_consumer q) 1 (stq_block_timeout q) c of
             (Inl err, c1) \<Rightarrow>
               if err = err_queue_empty then poll_loop T cl q ctx (Suc i) c1 else Some (Inl err, c1)
           | (Inr m, c1) \<Rightarrow>
               (case decode_queued_run T (smg_values m) of
                  Inl err \<Rightarrow>
                    Some (Inl err, snd (stc_xack cl (stq_stream q) (stq_group q) [smg_id m] c1))
                | Inr r \<Rightarrow> Some (Inr (r, smg_id m), c1))))"

definition stream_dequeue ::
  "text_lib \<Rightarrow> (app_error \<Rightarrow> string) \<Rightarrow> 'c stream_client \<Rightarrow> 'd stream_queue \<Rightarrow> (nat \<Rightarrow> app_error option) \<Rightarrow> 'c
     \<Rightarrow> ((queue_entry \<times> string) result \<times> 'c) option" where
  "stream_dequeue T text_of cl q0 ctx c =
     (let q = stream_defaults q0
      in case ensure_group text_of cl q c of
           (Some err, c1) \<Rightarrow> Some (Inl err, c1)
         | (None, c1) \<Rightarrow> poll_loop T cl q ctx 0 c1)"

definition stream_ack ::
  "'c stream_client \<Rightarrow> 'd stream_queue \<Rightarrow> string \<Rightarrow> app_error option \<Rightarrow> 'c \<Rightarrow> app_error option \<times> 'c" where
  "stream_ack cl q mid process_err c =
     (if process_err \<noteq> None then (None, c)
      else (case stc_xack cl (stq_stream q) (stq_group q) [mid] c of
              (Inl err, c1) \<Rightarrow> (Some err, c1) | (Inr n, c1) \<Rightarrow> (None, c1)))"

section \<open>The client of the tests\<close>

record fake_stream =
  fst_adds :: "(string \<times> metadata \<times> int) list"
  fst_groups :: "(string \<times> string \<times> string) list"
  fst_messages :: "stream_message list"
  fst_acked :: "string list"

definition fake_xadd :: "string \<Rightarrow> metadata \<Rightarrow> int \<Rightarrow> fake_stream \<Rightarrow> string result \<times> fake_stream" where
  "fake_xadd stream values max_len c =
     (Inr ''1700000000000-0'', c\<lparr>fst_adds := fst_adds c @ [(stream, values, max_len)]\<rparr>)"

definition fake_xgroup :: "string \<Rightarrow> string \<Rightarrow> string \<Rightarrow> fake_stream \<Rightarrow> app_error option \<times> fake_stream" where
  "fake_xgroup stream grp start c = (None, c\<lparr>fst_groups := fst_groups c @ [(stream, grp, start)]\<rparr>)"

definition fake_xread :: "fake_stream \<Rightarrow> stream_message result \<times> fake_stream" where
  "fake_xread c =
     (case fst_messages c of
        [] \<Rightarrow> (Inl err_queue_empty, c)
      | m # ms \<Rightarrow> (Inr m, c\<lparr>fst_messages := ms\<rparr>))"

definition fake_xack :: "string list \<Rightarrow> fake_stream \<Rightarrow> int result \<times> fake_stream" where
  "fake_xack ids c = (Inr (int (length ids)), c\<lparr>fst_acked := fst_acked c @ ids\<rparr>)"

definition fake_stream_client :: "fake_stream stream_client" where
  "fake_stream_client =
     \<lparr>stc_xadd = fake_xadd, stc_xgroup_create = fake_xgroup,
      stc_xread_group = (\<lambda>s g cons n block. fake_xread), stc_xack = (\<lambda>s g. fake_xack)\<rparr>"

section \<open>Dispatchers\<close>

definition queue_dispatch_run :: "env \<Rightarrow> run \<Rightarrow> queue_entry" where
  "queue_dispatch_run e r =
     \<lparr>qrn_run_id = run_id r,
      qrn_attempt_id = (if run_attempt_id r \<noteq> '''' then run_attempt_id r else e_id e ''attempt''),
      qrn_enqueued_at = 0\<rparr>"

text \<open>The event payloads of the local dispatcher; \<open>local_payload\<close> is the sandbox result as a value.\<close>

record sandbox_result =
  sbr_exit_code :: int
  sbr_stdout :: string
  sbr_stderr :: string
  sbr_error :: string
  sbr_artifacts :: "artifact list"

definition local_greeting :: string where
  "local_greeting = bytes
     [230, 136, 145, 229, 183, 178, 231, 187, 143, 230, 142, 165, 230, 148, 182, 229, 136, 176,
      228, 187, 187, 229, 138, 161, 227, 128, 130, 229, 189, 147, 229, 137, 141, 230, 152, 175,
      32, 67, 111, 110, 116, 114, 111, 108, 32, 80, 108, 97, 110, 101, 32, 231, 154, 132, 230,
      156, 172, 229, 156, 176, 230, 188, 148, 231, 164, 186, 32, 100, 105, 115, 112, 97, 116,
      99, 104, 101, 114, 239, 188, 155, 231, 148, 159, 228, 186, 167, 233, 131, 168, 231, 189,
      178, 230, 151, 182, 229, 186, 148, 230, 148, 185, 231, 148, 177, 32, 82, 101, 100, 105,
      115, 47, 72, 84, 84, 80, 32, 232, 176, 131, 229, 186, 166, 229, 136, 176, 231, 139, 172,
      231, 171, 139, 32, 65, 103, 101, 110, 116, 32, 82, 117, 110, 116, 105, 109, 101, 32, 230,
      156, 141, 229, 138, 161, 227, 128, 130]"

definition local_refusal :: string where
  "local_refusal = bytes
     [10, 10, 229, 189, 147, 229, 137, 141, 231, 148, 168, 230, 136, 183, 230, 156, 170, 229,
      144, 175, 231, 148, 168, 231, 179, 187, 231, 187, 159, 32, 67, 76, 73, 32, 229, 183, 165,
      229, 133, 183, 239, 188, 140, 230, 151, 160, 230, 179, 149, 230, 137, 167, 232, 161, 140,
      32, 47, 99, 108, 105, 32, 232, 175, 183, 230, 177, 130, 227, 128, 130]"

definition local_output :: string where
  "local_output = bytes
     [10, 10, 67, 76, 73, 32, 232, 142, 183, 229, 143, 150, 231, 187, 147, 230, 158, 156, 239,
      188, 154, 10]"

definition local_denied :: string where
  "local_denied = bytes
     [231, 179, 187, 231, 187, 159, 32, 67, 76, 73, 32, 231, 173, 150, 231, 149, 165, 230, 139,
      146, 231, 187, 157, 230, 136, 150, 230, 137, 167, 232, 161, 140, 233, 148, 153, 232, 175,
      175, 58, 32]"

definition parse_local_cli :: "string \<Rightarrow> string list option" where
  "parse_local_cli content =
     (let c = trim_space content
      in if \<not> has_prefix c ''/cli '' then None
         else (let parts = string_fields (trim_prefix c ''/cli '') in if parts \<noteq> [] then Some parts else None))"

definition emit_ignored ::
  "'s repository \<Rightarrow> env \<Rightarrow> string \<Rightarrow> run_event_type \<Rightarrow> string \<Rightarrow> goval \<Rightarrow> 's \<Rightarrow> 's" where
  "emit_ignored R e rid typ text payload s = snd (sink_emit R e rid typ text payload s)"

text \<open>
  The goroutine of \<open>LocalDispatcher.Dispatch\<close>: \<open>sandbox\<close> is the executor on the command, and
  \<open>payload\<close> the value its result is recorded as. Errors of the emits are ignored; an error of
  \<open>Complete\<close> is logged.
\<close>

definition local_answer :: "sandbox_result \<Rightarrow> string \<Rightarrow> string" where
  "local_answer out content =
     content @ local_output @ sbr_stdout out @
       (if sbr_stderr out \<noteq> '''' then sbr_stderr out else '''') @
       (if sbr_error out \<noteq> '''' then local_denied @ sbr_error out else '''')"

definition local_tool ::
  "'s repository \<Rightarrow> (string list \<Rightarrow> sandbox_result) \<Rightarrow> (sandbox_result \<Rightarrow> goval) \<Rightarrow> (nat \<Rightarrow> env) \<Rightarrow> run
     \<Rightarrow> string list \<Rightarrow> 's \<Rightarrow> sandbox_result \<times> 's" where
  "local_tool R sandbox payload es r command s =
     (let s1 = emit_ignored R (es 3) (run_id r) EventToolStarted ''Starting cli.exec skill.''
            (VMap [(''command'', VList (map VStr command))]) s;
          out = sandbox command;
          s2 = emit_ignored R (es 4) (run_id r) EventToolOutput ''CLI command completed.'' (payload out) s1;
          s3 = emit_ignored R (es 5) (run_id r) EventToolFinished ''Finished cli.exec skill.''
            (VMap [(''exit_code'', VInt (sbr_exit_code out))]) s2
      in (out, s3))"

definition local_dispatch ::
  "'s repository \<Rightarrow> (string list \<Rightarrow> sandbox_result) \<Rightarrow> (sandbox_result \<Rightarrow> goval) \<Rightarrow> (nat \<Rightarrow> env) \<Rightarrow> run
     \<Rightarrow> string \<Rightarrow> 's \<Rightarrow> app_error option \<times> 's" where
  "local_dispatch R sandbox payload es r user_message s =
     (let s1 = snd (rep_update_run_status R (es 0) (run_id r) RunRunning '''' s);
          s2 = emit_ignored R (es 1) (run_id r) EventRunStarted
            ''Local demo dispatcher accepted the run.'' (VMap [(''mode'', VStr ''local-demo'')]) s1;
          s3 = emit_ignored R (es 2) (run_id r) EventModelToken local_greeting VNil s2
      in case parse_local_cli user_message of
           None \<Rightarrow> sink_complete R (\<lambda>i. es (i + 6)) (run_id r) local_greeting [] s3
         | Some command \<Rightarrow>
             if \<not> contains_skill_id (skill_ids_for_run R r s3) ''cli.exec'' then
               sink_complete R (\<lambda>i. es (i + 6)) (run_id r) (local_greeting @ local_refusal) [] s3
             else
               (let (out, s4) = local_tool R sandbox payload es r command s3
                in sink_complete R (\<lambda>i. es (i + 6)) (run_id r) (local_answer out local_greeting)
                     (sbr_artifacts out) s4))"

text \<open>The HTTP dispatcher: \<open>post\<close> is the outcome of the call, an HTTP status the runtime
  answered with or another error, with its text.\<close>

datatype post_error = RuntimeHTTPError int string string | PostError string

fun post_error_text :: "post_error \<Rightarrow> string" where
  "post_error_text (RuntimeHTTPError code status msg) = ''agent runtime returned '' @ status @ '': '' @ msg"
| "post_error_text (PostError t) = t"

record run_execution_request =
  rex_request :: run_request
  rex_user_message :: string
  rex_control_plane_url :: string

definition http_request :: "'s repository \<Rightarrow> env \<Rightarrow> string \<Rightarrow> run \<Rightarrow> string \<Rightarrow> 's \<Rightarrow> run_execution_request" where
  "http_request R e control_url r user_message s =
     (let skills = runtime_skills_for_run R r s; policy = runtime_policy_for_run R r s
      in \<lparr>rex_request =
            \<lparr>rrq_run_id = run_id r, rrq_chat_id = run_chat_id r, rrq_user_id = run_user_id r,
             rrq_workspace_id = run_workspace_id r,
             rrq_attempt_id = (if run_attempt_id r \<noteq> '''' then run_attempt_id r else e_id e ''attempt''),
             rrq_skill_ids = skill_ids_from_runtime_skills skills, rrq_skills = skills,
             rrq_model_policy = ''mock-default'', rrq_skill_risk_policy = rpl_skill_risk_policy policy\<rparr>,
          rex_user_message = user_message, rex_control_plane_url = control_url\<rparr>)"

definition http_dispatch_run ::
  "'s repository \<Rightarrow> (run_execution_request \<Rightarrow> post_error option) \<Rightarrow> (nat \<Rightarrow> env) \<Rightarrow> string \<Rightarrow> run \<Rightarrow> string
     \<Rightarrow> 's \<Rightarrow> 's" where
  "http_dispatch_run R post es control_url r user_message s =
     (case post (http_request R (es 0) control_url r user_message s) of
        None \<Rightarrow> s
      | Some err \<Rightarrow>
          (case err of
             RuntimeHTTPError code status msg \<Rightarrow>
               if code = 409 then s
               else snd (sink_fail R (\<lambda>i. es (i + 1)) (run_id r)
                      (''Run dispatch failed: '' @ post_error_text err) s)
           | PostError t \<Rightarrow>
               snd (sink_fail R (\<lambda>i. es (i + 1)) (run_id r)
                      (''Run dispatch failed: '' @ post_error_text err) s)))"

definition http_dispatch_check :: "string \<Rightarrow> app_error option" where
  "http_dispatch_check runtime_url =
     (if runtime_url = '''' then Some (ErrMessage ''agent runtime url is not configured'') else None)"

text \<open>\<open>postRun\<close>: a status outside 200..299 is an error with the trimmed start of the body.\<close>

definition post_run_result :: "(string + int \<times> string \<times> string) \<Rightarrow> post_error option" where
  "post_run_result resp =
     (case resp of
        Inl t \<Rightarrow> Some (PostError t)
      | Inr (code, status, body) \<Rightarrow>
          if code < 200 \<or> code \<ge> 300 then
            Some (RuntimeHTTPError code status (trim_space (take 4096 body)))
          else None)"

section \<open>Lemmas\<close>

datatype queue_op =
    QEnqueue "app_error option" bool queue_entry
  | QDequeue "app_error option" bool
  | QClose

text \<open>The history of a memory queue: the runs whose \<open>Enqueue\<close> returned without error, those
  \<open>Dequeue\<close> returned, and the queue.\<close>

fun queue_op_effect ::
  "queue_op \<Rightarrow> queue_entry list \<times> queue_entry list \<times> memory_queue
     \<Rightarrow> queue_entry list \<times> queue_entry list \<times> memory_queue" where
  "queue_op_effect (QEnqueue cancel pref r) (sent, got, q) =
     (case memory_enqueue cancel pref r q of
        (Returned None, q') \<Rightarrow> (sent @ [r], got, q')
      | (_, q') \<Rightarrow> (sent, got, q'))"
| "queue_op_effect (QDequeue cancel pref) (sent, got, q) =
     (case memory_dequeue cancel pref q of
        (Returned (Inr r), q') \<Rightarrow> (sent, got @ [r], q')
      | (_, q') \<Rightarrow> (sent, got, q'))"
| "queue_op_effect QClose (sent, got, q) = (sent, got, memory_close q)"

definition queue_history :: "queue_op list \<Rightarrow> int \<Rightarrow> queue_entry list \<times> queue_entry list \<times> memory_queue" where
  "queue_history ops n = fold queue_op_effect ops ([], [], new_memory_queue n)"

fun history_ok :: "queue_entry list \<times> queue_entry list \<times> memory_queue \<Rightarrow> bool" where
  "history_ok (sent, got, q) \<longleftrightarrow> sent = got @ mqu_items q \<and> length (mqu_items q) \<le> mqu_size q \<and> 0 < mqu_size q"

lemma history_step: "history_ok h \<Longrightarrow> history_ok (queue_op_effect x h)"
proof (induction x h rule: queue_op_effect.induct)
  case (1 cancel pref r sent got q)
  then show ?case by (auto simp: memory_enqueue_def memory_send_def split: option.split)
next
  case (2 cancel pref sent got q)
  then show ?case by (auto simp: memory_dequeue_def split: list.split)
qed (auto simp: memory_close_def)

lemma history_ok_all: "history_ok (queue_history ops n)"
proof -
  have "history_ok h \<Longrightarrow> history_ok (fold queue_op_effect ops h)" for h
    by (induction ops arbitrary: h) (simp_all add: history_step)
  then show ?thesis by (simp add: queue_history_def new_memory_queue_def)
qed

lemma poll_returns:
  assumes "ctx n = Some err" "i \<le> n"
  shows "\<exists>x. poll_loop T cl q ctx i c = Some x"
  using assms(2)
proof (induction "n - i" arbitrary: i c)
  case 0
  then have "i = n" by simp
  with assms(1) show ?case by (subst poll_loop.simps) simp
next
  case (Suc k)
  then have later: "\<exists>x. poll_loop T cl q ctx (Suc i) d = Some x" for d
    using Suc(1) [of "Suc i" d] Suc(2) by simp
  show ?case
    by (subst poll_loop.simps) (use later in \<open>auto split: option.split prod.split sum.split\<close>)
qed

text \<open>An emit that is no outcome changes nothing of the view of a repository.\<close>

context run_repository
begin

lemma emit_other:
  assumes "valid s" "\<not> is_outcome typ" "t = emit_ignored R e rid typ text payload s"
  shows "valid t \<and> view R t = view R s"
proof -
  obtain rv u where add: "rep_add_event R e rid typ text payload s = (rv, u)" by fastforce
  then have t: "t = u" using assms(3) by (auto simp: emit_ignored_def sink_emit_def split: sum.split)
  note law = event [OF assms(1) add]
  have "outcomes R u = outcomes R s"
  proof (cases rv)
    case (Inl err)
    then show ?thesis using law by (intro outcomes_same) simp
  next
    case (Inr ev)
    then show ?thesis using law assms(2) outcomes_append [of R u s rid ev] by simp
  qed
  with law t show ?thesis by (simp add: view_def)
qed

lemma tool_view:
  assumes "valid s" "local_tool R sandbox payload es r command s = (out, t)"
  shows "valid t \<and> view R t = view R s"
proof -
  define s1 where "s1 = emit_ignored R (es 3) (run_id r) EventToolStarted ''Starting cli.exec skill.''
    (VMap [(''command'', VList (map VStr command))]) s"
  define s2 where "s2 = emit_ignored R (es 4) (run_id r) EventToolOutput ''CLI command completed.''
    (payload (sandbox command)) s1"
  have 1: "valid s1 \<and> view R s1 = view R s" using emit_other [OF assms(1) _ s1_def] by (simp add: is_outcome_def)
  then have 2: "valid s2 \<and> view R s2 = view R s1" using emit_other [OF _ _ s2_def] by (simp add: is_outcome_def)
  have "t = emit_ignored R (es 5) (run_id r) EventToolFinished ''Finished cli.exec skill.''
      (VMap [(''exit_code'', VInt (sbr_exit_code out))]) s2"
    using assms(2) by (auto simp: local_tool_def Let_def s1_def s2_def)
  from emit_other [OF _ _ this] 1 2 show ?thesis by (simp add: is_outcome_def)
qed

lemma local_dispatch_finishes:
  assumes "valid s" "run_board R s (run_id r) = Some (c, st)" "\<not> is_terminal_run_status st"
    and "local_dispatch R sandbox payload es r user_message s = (err, t)"
  shows "err = None \<and> valid t \<and> run_board R t (run_id r) = Some (c, RunSucceeded) \<and>
    outcomes R t (run_id r) = outcomes R s (run_id r) @ [EventRunSucceeded]"
proof -
  obtain ru s1 where u: "rep_update_run_status R (es 0) (run_id r) RunRunning '''' s = (ru, s1)" by fastforce
  note 1 = update [OF assms(1) u]
  define s2 where "s2 = emit_ignored R (es 1) (run_id r) EventRunStarted
    ''Local demo dispatcher accepted the run.'' (VMap [(''mode'', VStr ''local-demo'')]) s1"
  define s3 where "s3 = emit_ignored R (es 2) (run_id r) EventModelToken local_greeting VNil s2"
  have "valid s1" using 1 by blast
  then have 2: "valid s2 \<and> view R s2 = view R s1" using emit_other [OF _ _ s2_def] by (simp add: is_outcome_def)
  then have 3: "valid s3 \<and> view R s3 = view R s2" using emit_other [OF _ _ s3_def] by (simp add: is_outcome_def)
  have b: "run_board R s1 (run_id r) = Some (c, RunRunning)" "outcomes R s1 = outcomes R s"
    using 1 assms(2,3) by (simp_all add: advance_def outcomes_same [of R s1 s])
  have fin: "err' = None \<and> valid u \<and> run_board R u (run_id r) = Some (c, RunSucceeded) \<and>
      outcomes R u (run_id r) = outcomes R s (run_id r) @ [EventRunSucceeded]"
    if v: "valid s'" "view R s' = view R s3"
      and c: "sink_complete R fs (run_id r) content as s' = (err', u)" for s' fs content as err' u
  proof -
    have board: "run_board R s' (run_id r) = Some (c, RunRunning)" "outcomes R s' = outcomes R s"
      using v(2) 2 3 b by (simp_all add: view_def)
    then have "view R u = finish (run_id r) RunSucceeded EventRunSucceeded (view R s')"
      "err' = None \<longleftrightarrow> run_board R s' (run_id r) \<noteq> None" "valid u"
      using complete [OF v(1) c] by blast+
    then show ?thesis using board by (simp add: view_def finish_def)
  qed
  have d: "local_dispatch R sandbox payload es r user_message s =
    (case parse_local_cli user_message of
       None \<Rightarrow> sink_complete R (\<lambda>i. es (i + 6)) (run_id r) local_greeting [] s3
     | Some command \<Rightarrow>
         if \<not> contains_skill_id (skill_ids_for_run R r s3) ''cli.exec'' then
           sink_complete R (\<lambda>i. es (i + 6)) (run_id r) (local_greeting @ local_refusal) [] s3
         else (let (out, s4) = local_tool R sandbox payload es r command s3
            in sink_complete R (\<lambda>i. es (i + 6)) (run_id r) (local_answer out local_greeting)
                 (sbr_artifacts out) s4))"
    by (simp only: local_dispatch_def u s2_def s3_def Let_def snd_conv)
  show ?thesis
  proof (cases "parse_local_cli user_message")
    case None
    then have c: "sink_complete R (\<lambda>i. es (i + 6)) (run_id r) local_greeting [] s3 = (err, t)"
      using d assms(4) by simp
    show ?thesis by (rule fin [OF _ _ c]) (use 3 in simp_all)
  next
    case (Some command)
    obtain out s4 where t: "local_tool R sandbox payload es r command s3 = (out, s4)" by fastforce
    have "valid s4 \<and> view R s4 = view R s3" using tool_view [OF _ t] 3 by blast
    then have v: "valid s4" "view R s4 = view R s3" by blast+
    show ?thesis
    proof (cases "contains_skill_id (skill_ids_for_run R r s3) ''cli.exec''")
      case True
      then have c: "sink_complete R (\<lambda>i. es (i + 6)) (run_id r) (local_answer out local_greeting)
          (sbr_artifacts out) s4 = (err, t)"
        using d assms(4) Some t by simp
      show ?thesis by (rule fin [OF v c])
    next
      case False
      then have c: "sink_complete R (\<lambda>i. es (i + 6)) (run_id r) (local_greeting @ local_refusal) [] s3 = (err, t)"
        using d assms(4) Some by simp
      show ?thesis by (rule fin [OF _ _ c]) (use 3 in simp_all)
    qed
  qed
qed

end

section \<open>Properties\<close>

text \<open>The memory queue is a bounded FIFO queue: in every history of \<open>Enqueue\<close>, \<open>Dequeue\<close>
  and \<open>Close\<close> the runs taken out, followed by those still in it, are the runs put in, in their
  order, and it never holds more than its size.\<close>

theorem memory_queue_is_fifo:
  "fst (queue_history ops n) =
     fst (snd (queue_history ops n)) @ mqu_items (snd (snd (queue_history ops n))) \<and>
   length (mqu_items (snd (snd (queue_history ops n)))) \<le> mqu_size (snd (snd (queue_history ops n)))"
proof -
  obtain sent got q where "queue_history ops n = (sent, got, q)" by (metis prod_cases3)
  with history_ok_all [of ops n] show ?thesis by simp
qed

text \<open>A queued run survives the stream: what \<open>Enqueue\<close> writes, with its defaults filled in,
  decodes to the same run.\<close>

theorem queued_run_round_trip:
  assumes "\<And>t. txt_parse_time T (txt_format_time T t) = Inr t" "\<And>t. txt_format_time T t \<noteq> ''''"
    and "qrn_run_id r \<noteq> ''''"
  shows "decode_queued_run T (encode_queued_run T (normalize_queued_run e r)) = Inr (normalize_queued_run e r)"
  using assms by (simp add: decode_queued_run_def encode_queued_run_def normalize_queued_run_def Let_def)

definition demo_text_lib :: text_lib where
  "demo_text_lib = \<lparr>txt_format_time = (\<lambda>t. CHR ''T'' # replicate (nat (if t < 0 then - 2 * t else 2 * t + 1)) CHR ''1''),
     txt_parse_time = (\<lambda>s. Inr (let n = int (length s) - 1 in if n mod 2 = 0 then - (n div 2) else n div 2)),
     txt_sprint = (\<lambda>v. '''')\<rparr>"

lemma demo_text_codec: "txt_parse_time demo_text_lib (txt_format_time demo_text_lib t) = Inr t"
  by (auto simp: demo_text_lib_def Let_def)

definition demo_queued :: queue_entry where
  "demo_queued = \<lparr>qrn_run_id = ''run_1'', qrn_attempt_id = '''', qrn_enqueued_at = 0\<rparr>"

theorem queued_run_round_trip_witness:
  "decode_queued_run demo_text_lib (encode_queued_run demo_text_lib
     (normalize_queued_run (demo_env 7) demo_queued)) =
   Inr \<lparr>qrn_run_id = ''run_1'', qrn_attempt_id = ''attempt_1'', qrn_enqueued_at = 7\<rparr>"
  using queued_run_round_trip [of demo_text_lib demo_queued "demo_env 7", OF demo_text_codec]
  by (simp add: demo_queued_def demo_text_lib_def normalize_queued_run_def)

text \<open>\<open>Dequeue\<close> on a stream returns as soon as its context is done, however long the stream
  stays empty, and whatever the client answers.\<close>

theorem dequeue_returns:
  assumes "ctx n = Some err"
  shows "\<exists>res c'. stream_dequeue T text_of cl q ctx c = Some (res, c')"
proof -
  obtain e c1 where "ensure_group text_of cl (stream_defaults q) c = (e, c1)" by fastforce
  with poll_returns [of ctx n err 0 T cl "stream_defaults q" c1] assms show ?thesis
    by (cases e) (auto simp: stream_dequeue_def Let_def)
qed

definition demo_stream_queue :: "unit stream_queue" where
  "demo_stream_queue = \<lparr>stq_addr = '''', stq_stream = '''', stq_group = '''', stq_consumer = '''',
     stq_block_timeout = 0, stq_max_len = 0\<rparr>"

theorem dequeue_returns_witness:
  "\<exists>res c'. stream_dequeue demo_text_lib (\<lambda>e. '''') fake_stream_client demo_stream_queue
     (\<lambda>i. if i = 3 then Some ErrClosed else None)
     \<lparr>fst_adds = [], fst_groups = [], fst_messages = [], fst_acked = []\<rparr> = Some (res, c')"
  by (rule dequeue_returns [of _ 3 ErrClosed]) simp

text \<open>A message leaves the stream's pending list only when it cannot be decoded or its run
  was processed: \<open>Dequeue\<close> acknowledges the messages that do not decode and no other, and the
  acknowledgement function does so exactly when processing succeeded.\<close>

theorem messages_acked_when_done:
  assumes "fst_messages c = m # ms" "ctx 0 = None"
    and "stream_dequeue T text_of fake_stream_client q ctx c = Some (res, c')"
  shows "(case decode_queued_run T (smg_values m) of
      Inl err \<Rightarrow> isl res \<and> fst_acked c' = fst_acked c @ [smg_id m]
    | Inr r \<Rightarrow> res = Inr (r, smg_id m) \<and> fst_acked c' = fst_acked c \<and>
        fst_acked (snd (stream_ack fake_stream_client q (smg_id m) process_err c')) =
          fst_acked c @ (if process_err = None then [smg_id m] else []))"
  using assms
  by (auto simp: stream_dequeue_def ensure_group_def fake_stream_client_def fake_xgroup_def fake_xread_def
      fake_xack_def stream_ack_def poll_loop.simps Let_def split: sum.splits)

theorem messages_acked_when_done_witness:
  "\<exists>c'. stream_dequeue demo_text_lib (\<lambda>e. '''') fake_stream_client demo_stream_queue (\<lambda>i. None)
     \<lparr>fst_adds = [], fst_groups = [], fst_messages = [\<lparr>smg_id = ''1'', smg_values = []\<rparr>], fst_acked = []\<rparr> =
     Some (Inl (ErrMessage ''queued run is missing run_id''), c') \<and> fst_acked c' = [''1'']"
proof -
  let ?c = "\<lparr>fst_adds = [], fst_groups = [], fst_messages = [\<lparr>smg_id = ''1'', smg_values = []\<rparr>], fst_acked = []\<rparr>"
  obtain c' where c: "stream_dequeue demo_text_lib (\<lambda>e. '''') fake_stream_client demo_stream_queue (\<lambda>i. None) ?c =
      Some (Inl (ErrMessage ''queued run is missing run_id''), c')"
    by (simp add: stream_dequeue_def ensure_group_def fake_stream_client_def fake_xgroup_def fake_xread_def
        fake_xack_def poll_loop.simps decode_queued_run_def Let_def)
  have "decode_queued_run demo_text_lib [] = Inl (ErrMessage ''queued run is missing run_id'')"
    by (simp add: decode_queued_run_def)
  with messages_acked_when_done [of ?c "\<lparr>smg_id = ''1'', smg_values = []\<rparr>" "[]", OF _ _ c] c
  show ?thesis by simp
qed

text \<open>C32. The local dispatcher ends every run it is given: whatever the message, the skills and
  the sandbox's answer, an unfinished run has succeeded afterwards, with one outcome event.\<close>

theorem local_dispatch_ends_run:
  assumes "reachable s" "get_run (run_id r) s = Inr r0" "\<not> is_terminal_run_status (run_status r0)"
  shows "fst (local_dispatch store_repository sandbox payload es r user_message s) = None \<and>
    (\<exists>r1. get_run (run_id r) (snd (local_dispatch store_repository sandbox payload es r user_message s)) = Inr r1 \<and>
       run_status r1 = RunSucceeded) \<and>
    outcomes store_repository (snd (local_dispatch store_repository sandbox payload es r user_message s)) (run_id r) =
      outcomes store_repository s (run_id r) @ [EventRunSucceeded]"
proof -
  obtain err t where d: "local_dispatch store_repository sandbox payload es r user_message s = (err, t)"
    by fastforce
  have "run_board store_repository s (run_id r) = Some (run_chat_id r0, run_status r0)"
    using assms(2) by (simp add: run_board_def)
  from store_sink.local_dispatch_finishes [OF run_states.reach [OF assms(1)] this assms(3) d] d
  show ?thesis by (auto simp: board_cases(2))
qed

theorem local_dispatch_ends_run_witness:
  "fst (local_dispatch store_repository (\<lambda>c. \<lparr>sbr_exit_code = 0, sbr_stdout = '''', sbr_stderr = '''',
      sbr_error = '''', sbr_artifacts = []\<rparr>) (\<lambda>out. VNil) (\<lambda>i. demo_env (int i)) demo_run ''/cli ls'' demo_store) = None"
proof -
  have "get_run (run_id demo_run) demo_store = Inr (demo_run\<lparr>run_usage := map_get zero_run_usage (s_run_usage demo_store) ''run_1''\<rparr>)"
    by (simp add: get_run_def demo_store_run demo_run_def)
  from local_dispatch_ends_run [OF demo_reachable this] show ?thesis by (simp add: demo_run_def)
qed

text \<open>A failed HTTP dispatch fails the run, unless the runtime answered 409 because another
  attempt owns it or the run has ended meanwhile; then, and when the call succeeds, the run is
  left alone.\<close>

theorem http_dispatch_outcome:
  assumes "reachable s" "get_run (run_id r) s = Inr r0"
  shows "\<exists>r1. get_run (run_id r) (http_dispatch_run store_repository post es url r msg s) = Inr r1 \<and>
    run_status r1 =
      (case post (http_request store_repository (es 0) url r msg s) of
         None \<Rightarrow> run_status r0
       | Some (RuntimeHTTPError code st body) \<Rightarrow>
           if code = 409 \<or> is_terminal_run_status (run_status r0) then run_status r0 else RunFailed
       | Some (PostError t) \<Rightarrow> if is_terminal_run_status (run_status r0) then run_status r0 else RunFailed)"
proof -
  have b: "run_board store_repository s (run_id r) = Some (run_chat_id r0, run_status r0)"
    using assms(2) by (simp add: run_board_def)
  have f: "\<exists>r1. get_run (run_id r) (snd (sink_fail store_repository fs (run_id r) why s)) = Inr r1 \<and>
      run_status r1 = (if is_terminal_run_status (run_status r0) then run_status r0 else RunFailed)" for fs why
  proof -
    have "view store_repository (snd (sink_fail store_repository fs (run_id r) why s)) =
        finish (run_id r) RunFailed EventRunFailed (view store_repository s)"
      using store_sink.fail [OF run_states.reach [OF assms(1)] prod.collapse [symmetric], of fs "run_id r" why] by blast
    then have "run_board store_repository (snd (sink_fail store_repository fs (run_id r) why s)) (run_id r) =
        Some (run_chat_id r0, if is_terminal_run_status (run_status r0) then run_status r0 else RunFailed)"
      using b by (auto simp: view_def finish_def split: if_splits)
    then show ?thesis by (auto simp: board_cases(2))
  qed
  show ?thesis using assms(2) f by (auto simp: http_dispatch_run_def split: option.split post_error.split)
qed

theorem http_dispatch_outcome_witness:
  "\<exists>r1. get_run ''run_1'' (http_dispatch_run store_repository (\<lambda>q. Some (PostError ''refused''))
      (\<lambda>i. demo_env (int i)) '''' demo_run ''hello'' demo_store) = Inr r1 \<and> run_status r1 = RunFailed"
proof -
  have "get_run (run_id demo_run) demo_store = Inr (demo_run\<lparr>run_usage := map_get zero_run_usage (s_run_usage demo_store) ''run_1''\<rparr>)"
    by (simp add: get_run_def demo_store_run demo_run_def)
  from http_dispatch_outcome [OF demo_reachable this, of "\<lambda>q. Some (PostError ''refused'')"]
  show ?thesis by (simp add: demo_run_def)
qed

end
