(* ===== verification/Mailer.thy ===== *)
theory Mailer
  imports Invitation_Store Go_Text Sample_Execution
begin

text \<open>
  Sending invitations (services/control-plane/internal/mailer): the worker that drains the
  outbox of the store (outbox.go), the mailer with a queue in memory (queue.go) and the message
  an SMTP mailer writes (invitation.go). A sender is a function over a state of its own that
  answers with the text of its error, if any; templates, the mail address parser, query
  escaping and time formatting of the standard library are parameters.
\<close>

type_synonym 'm sender = "invitation \<Rightarrow> 'm \<Rightarrow> string option \<times> 'm"

section \<open>Retry delays\<close>

text \<open>\<open>1 << (attempt - 1)\<close> is shifted at the width of a \<open>Duration\<close>, and the product wraps.\<close>

definition shift_left64 :: "int \<Rightarrow> int" where
  "shift_left64 n = (if n \<ge> 64 then 0 else wrap64 (2 ^ nat n))"

definition retry_delay :: "duration \<Rightarrow> int \<Rightarrow> duration" where
  "retry_delay base attempt =
     (if base \<le> 0 then 0
      else if attempt \<le> 1 then base
      else wrap64 (base * shift_left64 (attempt - 1)))"

lemma retry_delay_exact:
  assumes "0 < base" "1 \<le> attempt" "base * 2 ^ nat (attempt - 1) < 2 ^ 63"
  shows "retry_delay base attempt = base * 2 ^ nat (attempt - 1)"
proof (cases "attempt \<le> 1")
  case True
  with assms show ?thesis by (simp add: retry_delay_def)
next
  case False
  let ?n = "nat (attempt - 1)"
  have "2 ^ ?n \<le> base * (2 :: int) ^ ?n" using assms(1) by simp
  then have p: "(2 :: int) ^ ?n < 2 ^ 63" using assms(3) by linarith
  then have "?n < 63" using power_less_imp_less_exp [of "2 :: int" ?n 63] by simp
  then have "shift_left64 (attempt - 1) = 2 ^ ?n"
    using wrap64_id [OF order_trans [of _ 0] p] by (auto simp: shift_left64_def)
  moreover have "wrap64 (base * 2 ^ ?n) = base * 2 ^ ?n"
    using wrap64_id [OF order_trans [of _ 0] assms(3)] assms(1) by simp
  ultimately show ?thesis using False assms(1) by (simp add: retry_delay_def)
qed

section \<open>The outbox worker\<close>

record durable_config =
  dcf_workers :: int
  dcf_retry_attempts :: int
  dcf_retry_initial_delay :: duration
  dcf_poll_interval :: duration
  dcf_lock_ttl :: duration
  dcf_worker_id :: string

definition durable_defaults :: "durable_config \<Rightarrow> durable_config" where
  "durable_defaults c =
     c\<lparr>dcf_workers := (if dcf_workers c \<le> 0 then 1 else dcf_workers c),
       dcf_retry_attempts := (if dcf_retry_attempts c \<le> 0 then 1 else dcf_retry_attempts c),
       dcf_retry_initial_delay := (if dcf_retry_initial_delay c < 0 then 0 else dcf_retry_initial_delay c),
       dcf_poll_interval := (if dcf_poll_interval c \<le> 0 then time_second else dcf_poll_interval c),
       dcf_lock_ttl := (if dcf_lock_ttl c \<le> 0 then 30 * time_second else dcf_lock_ttl c),
       dcf_worker_id := (if trim_space (dcf_worker_id c) = '''' then ''control-plane'' else dcf_worker_id c)\<rparr>"

text \<open>The interface \<open>InvitationOutbox\<close>, and the store behind it; \<open>inv_order\<close> and \<open>order\<close> are
  the orders in which the store ranges over its maps.\<close>

record 's outbox =
  obx_enqueue :: "env \<Rightarrow> invitation \<Rightarrow> int \<Rightarrow> 's \<Rightarrow> delivery result \<times> 's"
  obx_claim_due :: "env \<Rightarrow> int \<Rightarrow> string \<Rightarrow> gtime \<Rightarrow> 's \<Rightarrow> delivery list \<times> 's"
  obx_mark_sent :: "env \<Rightarrow> string \<Rightarrow> 's \<Rightarrow> unit result \<times> 's"
  obx_mark_failed :: "env \<Rightarrow> string \<Rightarrow> string \<Rightarrow> gtime option \<Rightarrow> bool \<Rightarrow> 's \<Rightarrow> unit result \<times> 's"

text \<open>\<open>deliver\<close>: the first reading of the clock is the one of the next attempt; errors of the
  marks are logged.\<close>

definition deliver ::
  "'s outbox \<Rightarrow> durable_config \<Rightarrow> 'm sender \<Rightarrow> gtime \<Rightarrow> env \<Rightarrow> delivery \<Rightarrow> 's \<times> 'm \<Rightarrow> 's \<times> 'm" where
  "deliver ob cfg send now e d x =
     (case send (dlv_invitation d) (snd x) of
        (None, m') \<Rightarrow> (snd (obx_mark_sent ob e (dlv_id d) (fst x)), m')
      | (Some err, m') \<Rightarrow>
          (let terminal = (dlv_attempts d \<ge> dlv_max_attempts d);
               next_attempt = (if terminal then None
                 else Some (now + retry_delay (dcf_retry_initial_delay cfg) (dlv_attempts d)))
           in (snd (obx_mark_failed ob e (dlv_id d) err next_attempt terminal (fst x)), m')))"

definition deliver_due ::
  "'s outbox \<Rightarrow> durable_config \<Rightarrow> 'm sender \<Rightarrow> gtime \<Rightarrow> (nat \<Rightarrow> env) \<Rightarrow> int \<Rightarrow> 's \<times> 'm \<Rightarrow> 's \<times> 'm" where
  "deliver_due ob cfg send now es worker x =
     (let locked_by = (if worker > 0 then dcf_worker_id cfg @ ''-'' @ itoa worker else dcf_worker_id cfg)
      in case obx_claim_due ob (es 0) 1 locked_by (now + dcf_lock_ttl cfg) (fst x) of
           (ds, s1) \<Rightarrow> fold (\<lambda>d y. deliver ob cfg send (e_now (es 1)) (es 2) d y) ds (s1, snd x))"

definition send_invitation_outbox ::
  "'s outbox \<Rightarrow> durable_config \<Rightarrow> app_error option \<Rightarrow> env \<Rightarrow> invitation \<Rightarrow> 's \<Rightarrow> app_error option \<times> 's" where
  "send_invitation_outbox ob cfg ctx_err e i s =
     (case ctx_err of
        Some err \<Rightarrow> (Some err, s)
      | None \<Rightarrow>
          (case obx_enqueue ob e i (dcf_retry_attempts cfg) s of
             (Inl err, s1) \<Rightarrow> (Some err, s1) | (Inr d, s1) \<Rightarrow> (None, s1)))"

section \<open>The mailer with a queue in memory\<close>

record queue_config =
  qcf_size :: int
  qcf_workers :: int
  qcf_retry_attempts :: int
  qcf_retry_initial_delay :: duration

definition queue_defaults :: "queue_config \<Rightarrow> queue_config" where
  "queue_defaults c =
     c\<lparr>qcf_size := (if qcf_size c \<le> 0 then 100 else qcf_size c),
       qcf_workers := (if qcf_workers c \<le> 0 then 1 else qcf_workers c),
       qcf_retry_attempts := (if qcf_retry_attempts c \<le> 0 then 1 else qcf_retry_attempts c),
       qcf_retry_initial_delay := (if qcf_retry_initial_delay c < 0 then 0 else qcf_retry_initial_delay c)\<rparr>"

definition err_mail_queue_full :: app_error where
  "err_mail_queue_full = ErrMessage ''invitation email queue is full''"

definition err_mail_queue_closed :: app_error where
  "err_mail_queue_closed = ErrMessage ''invitation email queue is closed''"

text \<open>The \<open>select\<close> of \<open>SendInvitation\<close> picks any ready case: \<open>pick\<close> chooses among them, here the
  error of the context, the closed mailer, or the send; the default is taken when none is ready.\<close>

datatype mail_case = TakeContext | TakeStop | TakeSend

definition mail_ready :: "app_error option \<Rightarrow> bool \<Rightarrow> nat \<Rightarrow> invitation list \<Rightarrow> mail_case \<Rightarrow> bool" where
  "mail_ready ctx_err stopped n queue c =
     (case c of
        TakeContext \<Rightarrow> ctx_err \<noteq> None | TakeStop \<Rightarrow> stopped | TakeSend \<Rightarrow> length queue < n)"

definition mail_enqueue ::
  "mail_case \<Rightarrow> app_error option \<Rightarrow> bool \<Rightarrow> nat \<Rightarrow> invitation \<Rightarrow> invitation list
     \<Rightarrow> app_error option \<times> invitation list" where
  "mail_enqueue pick ctx_err stopped n i queue =
     (if \<not> mail_ready ctx_err stopped n queue TakeContext \<and> \<not> mail_ready ctx_err stopped n queue TakeStop \<and>
         \<not> mail_ready ctx_err stopped n queue TakeSend then (Some err_mail_queue_full, queue)
      else
        (case (if mail_ready ctx_err stopped n queue pick then pick
               else if mail_ready ctx_err stopped n queue TakeContext then TakeContext
               else if mail_ready ctx_err stopped n queue TakeStop then TakeStop else TakeSend) of
           TakeContext \<Rightarrow> (ctx_err, queue)
         | TakeStop \<Rightarrow> (Some err_mail_queue_closed, queue)
         | TakeSend \<Rightarrow> (None, queue @ [i])))"

text \<open>The attempts of \<open>deliver\<close>: \<open>left\<close> of them remain after number \<open>attempt\<close>; the value is
  whether the mail was sent, the pauses made, and the sender's state.\<close>

fun queue_attempts ::
  "'m sender \<Rightarrow> duration \<Rightarrow> invitation \<Rightarrow> nat \<Rightarrow> int \<Rightarrow> duration list \<Rightarrow> 'm \<Rightarrow> bool \<times> duration list \<times> 'm" where
  "queue_attempts send base i 0 attempt pauses m = (False, pauses, m)"
| "queue_attempts send base i (Suc left) attempt pauses m =
     (case send i m of
        (None, m') \<Rightarrow> (True, pauses, m')
      | (Some err, m') \<Rightarrow>
          queue_attempts send base i left (attempt + 1)
            (if left \<noteq> 0 \<and> base > 0 then pauses @ [wrap64 (base * shift_left64 (attempt - 1))] else pauses) m')"

definition queue_deliver ::
  "'m sender \<Rightarrow> queue_config \<Rightarrow> invitation \<Rightarrow> 'm \<Rightarrow> bool \<times> duration list \<times> 'm" where
  "queue_deliver send cfg i m =
     queue_attempts send (qcf_retry_initial_delay cfg) i (nat (qcf_retry_attempts cfg)) 1 [] m"

section \<open>The message\<close>

record smtp_config =
  smt_host :: string
  smt_port :: int
  smt_username :: string
  smt_password :: string
  smt_from :: string
  smt_public_base_url :: string
  smt_subject_template :: string
  smt_body_template :: string

fun first_non_blank_of :: "string list \<Rightarrow> string" where
  "first_non_blank_of [] = ''''"
| "first_non_blank_of (v # vs) = (if trim_space v \<noteq> '''' then v else first_non_blank_of vs)"

definition default_subject_template :: string where "default_subject_template = ''NiceAgent invitation''"

definition newline :: string where "newline = bytes [10]"
definition crlf :: string where "crlf = bytes [13, 10]"

definition default_body_template :: string where
  "default_body_template =
     ''You have been invited to NiceAgent.'' @ newline @ newline @ ''Role: {{.Role}}'' @ newline @
     ''Organization: {{.OrganizationID}}'' @ newline @ ''Project: {{.ProjectIDOrDash}}'' @ newline @
     ''Accept: {{.AcceptURL}}'' @ newline @ newline @ ''This link expires at {{.ExpiresAt}}.'' @ newline"

definition new_smtp_mailer :: "smtp_config \<Rightarrow> smtp_config" where
  "new_smtp_mailer c =
     c\<lparr>smt_public_base_url := trim_right_slash (smt_public_base_url c),
       smt_subject_template := trim_space (first_non_blank_of [smt_subject_template c, default_subject_template]),
       smt_body_template := trim_space (first_non_blank_of [smt_body_template c, default_body_template])\<rparr>"

record template_data =
  tpd_email :: string
  tpd_role :: string
  tpd_organization_id :: string
  tpd_project_id :: string
  tpd_project_id_or_dash :: string
  tpd_accept_url :: string
  tpd_expires_at :: string

text \<open>\<open>mal_execute\<close> parses and executes a template; \<open>mal_format_expiry\<close> is the layout of the
  message.\<close>

record mail_lib =
  mal_execute :: "string \<Rightarrow> template_data \<Rightarrow> string option"
  mal_query_escape :: "string \<Rightarrow> string"
  mal_format_expiry :: "gtime \<Rightarrow> string"
  mal_parse_address :: "string \<Rightarrow> string option"

definition render_template :: "mail_lib \<Rightarrow> string \<Rightarrow> template_data \<Rightarrow> string" where
  "render_template L source d = (case mal_execute L source d of None \<Rightarrow> source | Some t \<Rightarrow> t)"

definition empty_as_dash :: "string \<Rightarrow> string" where
  "empty_as_dash v = (if trim_space v = '''' then ''-'' else v)"

definition sanitize_header_value :: "string \<Rightarrow> string" where
  "sanitize_header_value v =
     trim_space (map (\<lambda>c. if c \<in> set crlf then CHR '' '' else c) v)"

definition invitation_data :: "mail_lib \<Rightarrow> smtp_config \<Rightarrow> invitation \<Rightarrow> template_data" where
  "invitation_data L c i =
     \<lparr>tpd_email = inv_email i, tpd_role = inv_role i, tpd_organization_id = inv_organization_id i,
      tpd_project_id = inv_project_id i, tpd_project_id_or_dash = empty_as_dash (inv_project_id i),
      tpd_accept_url = smt_public_base_url c @ ''/?invitation_token='' @ mal_query_escape L (inv_token i),
      tpd_expires_at = mal_format_expiry L (inv_expires_at i)\<rparr>"

definition mail_subject :: "mail_lib \<Rightarrow> smtp_config \<Rightarrow> invitation \<Rightarrow> string" where
  "mail_subject L c i =
     sanitize_header_value (render_template L (smt_subject_template c) (invitation_data L c i))"

definition mail_headers :: "mail_lib \<Rightarrow> smtp_config \<Rightarrow> invitation \<Rightarrow> string list" where
  "mail_headers L c i =
     [''From: '' @ smt_from c, ''To: '' @ inv_email i, ''Subject: '' @ mail_subject L c i,
      ''MIME-Version: 1.0'', ''Content-Type: text/plain; charset=UTF-8'']"

definition mail_message :: "mail_lib \<Rightarrow> smtp_config \<Rightarrow> invitation \<Rightarrow> string" where
  "mail_message L c i =
     join_with crlf (mail_headers L c i) @ crlf @ crlf @
       render_template L (smt_body_template c) (invitation_data L c i)"

text \<open>\<open>smt_send\<close> is \<open>smtp.SendMail\<close> to the server's address, from, to, with the message.\<close>

definition smtp_send_invitation ::
  "mail_lib \<Rightarrow> (string \<Rightarrow> string \<Rightarrow> string \<Rightarrow> string \<Rightarrow> 'm \<Rightarrow> string option \<times> 'm) \<Rightarrow> smtp_config
     \<Rightarrow> string option \<Rightarrow> 'm sender" where
  "smtp_send_invitation L smtp c ctx_err i m =
     (case ctx_err of
        Some err \<Rightarrow> (Some err, m)
      | None \<Rightarrow>
          if inv_email i = '''' \<or> inv_token i = '''' then
            (Some ''invitation email and token are required'', m)
          else smtp (smt_host c @ '':'' @ itoa (smt_port c))
                 (case mal_parse_address L (smt_from c) of None \<Rightarrow> smt_from c | Some a \<Rightarrow> a)
                 (inv_email i) (mail_message L c i) m)"

section \<open>What an outbox promises\<close>

text \<open>\<open>dels\<close> reads the deliveries off the outbox. Marking a known delivery ends its lock and
  changes no other.\<close>

locale outbox_laws =
  fixes ob :: "'s outbox" and dels :: "'s \<Rightarrow> string \<rightharpoonup> delivery"
  assumes sent: "dels s k = Some d \<Longrightarrow> trim_space k = k \<Longrightarrow> k \<noteq> '''' \<Longrightarrow> \<exists>d'.
      dels (snd (obx_mark_sent ob e k s)) = (dels s)(k \<mapsto> d') \<and>
      dlv_status d' = InvitationEmailSent \<and> dlv_locked_until d' = None \<and> dlv_attempts d' = dlv_attempts d"
    and failed: "dels s k = Some d \<Longrightarrow> trim_space k = k \<Longrightarrow> k \<noteq> '''' \<Longrightarrow> \<exists>d'.
      dels (snd (obx_mark_failed ob e k err next terminal s)) = (dels s)(k \<mapsto> d') \<and>
      dlv_status d' = (if terminal then InvitationEmailFailed else InvitationEmailPending) \<and>
      dlv_locked_until d' = None \<and> dlv_attempts d' = dlv_attempts d \<and>
      dlv_next_attempt_at d' = (case next of None \<Rightarrow> dlv_next_attempt_at d | Some t \<Rightarrow> t)"
begin

lemma deliver_outcome:
  assumes "dels s (dlv_id d) = Some d0" "trim_space (dlv_id d) = dlv_id d" "dlv_id d \<noteq> ''''"
    and "send (dlv_invitation d) m = (err, m')"
  shows "\<exists>t d'. deliver ob cfg send now e d (s, m) = (t, m') \<and> dels t = (dels s)(dlv_id d \<mapsto> d') \<and>
    dlv_locked_until d' = None \<and> dlv_attempts d' = dlv_attempts d0 \<and>
    dlv_status d' = (if err = None then InvitationEmailSent
      else if dlv_attempts d \<ge> dlv_max_attempts d then InvitationEmailFailed else InvitationEmailPending) \<and>
    (err \<noteq> None \<and> dlv_attempts d < dlv_max_attempts d \<longrightarrow>
      dlv_next_attempt_at d' = now + retry_delay (dcf_retry_initial_delay cfg) (dlv_attempts d))"
proof (cases err)
  case None
  then show ?thesis using sent [OF assms(1-3), of e] assms(4) by (auto simp: deliver_def)
next
  case (Some x)
  let ?terminal = "dlv_attempts d \<ge> dlv_max_attempts d"
  let ?next = "if ?terminal then None else Some (now + retry_delay (dcf_retry_initial_delay cfg) (dlv_attempts d))"
  show ?thesis
    using failed [OF assms(1-3), of e x ?next ?terminal] assms(4) Some
    by (auto simp: deliver_def Let_def split: if_splits)
qed

end

definition store_outbox :: "string list \<Rightarrow> string list \<Rightarrow> store outbox" where
  "store_outbox inv_order order =
     \<lparr>obx_enqueue = (\<lambda>e. enqueue_invitation_email e order), obx_claim_due = (\<lambda>e. claim_due_invitation_emails e inv_order order),
      obx_mark_sent = mark_invitation_email_sent, obx_mark_failed = mark_invitation_email_failed\<rparr>"

interpretation store_mail: outbox_laws "store_outbox inv_order order" s_email_deliveries for inv_order order
  by unfold_locales
    (auto simp: store_outbox_def mark_invitation_email_sent_def mark_invitation_email_failed_def Let_def
      split: option.split)

section \<open>The attempts of the queued mailer\<close>

text \<open>A sender that answers from a list and counts: its state is the answers left and the number
  of calls.\<close>

definition scripted :: "(string option list \<times> nat) sender" where
  "scripted i m = (case m of ([], n) \<Rightarrow> (Some ''no answer'', ([], Suc n)) | (a # as, n) \<Rightarrow> (a, (as, Suc n)))"

definition failures :: "nat \<Rightarrow> string option list \<Rightarrow> nat" where
  "failures left answers = length (takeWhile (\<lambda>a. a \<noteq> None) (take left answers))"

definition pauses_made :: "duration \<Rightarrow> int \<Rightarrow> nat \<Rightarrow> duration list" where
  "pauses_made base k n = (if base > 0 then map (\<lambda>j. wrap64 (base * shift_left64 (k - 1 + int j))) [0..<n] else [])"

lemma pauses_made_Suc:
  "pauses_made base k (Suc n) =
     (if base > 0 then [wrap64 (base * shift_left64 (k - 1))] else []) @ pauses_made base (k + 1) n"
  by (simp add: pauses_made_def upt_conv_Cons map_Suc_upt [symmetric] algebra_simps comp_def del: upt_Suc)

lemma attempts_calls:
  assumes "left \<le> length answers"
  shows "queue_attempts scripted base i left k pauses (answers, n) =
    (let f = failures left answers; calls = (if f < left then Suc f else left)
     in (f < left, pauses @ pauses_made base k (min f (left - 1)), (drop calls answers, n + calls)))"
  using assms
proof (induction left arbitrary: answers n k pauses)
  case 0
  then show ?case by (simp add: failures_def pauses_made_def)
next
  case (Suc left)
  then obtain a as where a: "answers = a # as" by (cases answers) auto
  show ?case
  proof (cases a)
    case None
    then show ?thesis by (simp add: scripted_def a failures_def pauses_made_def)
  next
    case (Some x)
    have f: "failures (Suc left) answers = Suc (failures left as)" by (simp add: failures_def a Some)
    let ?p = "if left \<noteq> 0 \<and> base > 0 then pauses @ [wrap64 (base * shift_left64 (k - 1))] else pauses"
    have step: "queue_attempts scripted base i (Suc left) k pauses (answers, n) =
        queue_attempts scripted base i left (k + 1) ?p (as, Suc n)"
      by (simp add: scripted_def a Some)
    have m: "?p @ pauses_made base (k + 1) (min (failures left as) (left - 1)) =
        pauses @ pauses_made base k (min (Suc (failures left as)) left)"
    proof (cases left)
      case 0
      then show ?thesis by (simp add: pauses_made_def)
    next
      case (Suc j)
      then have "min (Suc (failures left as)) left = Suc (min (failures left as) (left - 1))" by simp
      then show ?thesis using Suc by (simp add: pauses_made_Suc)
    qed
    show ?thesis
      unfolding step using Suc.IH [of as "k + 1" ?p "Suc n"] Suc.prems f m
      by (simp add: a Let_def)
  qed
qed

section \<open>Rounds of the outbox worker\<close>

text \<open>The delivery \<open>k\<close> alone in the outbox, waiting for its next attempt.\<close>

definition waiting :: "string list \<Rightarrow> string \<Rightarrow> invitation \<Rightarrow> delivery \<Rightarrow> store \<Rightarrow> bool" where
  "waiting inv_order k i d s \<longleftrightarrow>
     s_email_deliveries s = [k \<mapsto> d] \<and> dlv_id d = k \<and> dlv_status d = InvitationEmailPending \<and>
     dlv_locked_until d = None \<and> dlv_attempts d < dlv_max_attempts d \<and>
     invitation_by_id inv_order (s_invitations s) (dlv_invitation_id d) = Some i \<and>
     \<not> is_suppressed_locked (s_email_suppressions s) (inv_organization_id i) (inv_email i)"

lemma one_round:
  assumes "waiting inv_order k i d s" "trim_space k = k" "k \<noteq> ''''"
    and "dlv_next_attempt_at d \<le> e_now (es 0)" "send i m = (Some err, m')"
  shows "\<exists>t d'. deliver_due (store_outbox inv_order [k]) cfg send now es w (s, m) = (t, m') \<and>
    s_email_deliveries t = [k \<mapsto> d'] \<and> dlv_attempts d' = dlv_attempts d + 1 \<and>
    dlv_max_attempts d' = dlv_max_attempts d \<and>
    (if dlv_attempts d + 1 \<ge> dlv_max_attempts d then dlv_status d' = InvitationEmailFailed
     else waiting inv_order k i d' t \<and>
       dlv_next_attempt_at d' = e_now (es 1) + retry_delay (dcf_retry_initial_delay cfg) (dlv_attempts d + 1))"
  using assms
  by (auto simp: waiting_def deliver_due_def store_outbox_def claim_due_invitation_emails_def claim_delivery_def
      deliver_def mark_invitation_email_failed_def after_def Let_def)

fun rounds ::
  "store outbox \<Rightarrow> durable_config \<Rightarrow> 'm sender \<Rightarrow> (nat \<Rightarrow> nat \<Rightarrow> env) \<Rightarrow> nat \<Rightarrow> nat \<Rightarrow> store \<times> 'm \<Rightarrow> store \<times> 'm" where
  "rounds ob cfg send es j 0 x = x"
| "rounds ob cfg send es j (Suc n) x =
     rounds ob cfg send es (Suc j) n (deliver_due ob cfg send (e_now (es j 0)) (es j) 1 x)"

text \<open>Each round starts when the delay after the attempt of the round before has passed.\<close>

definition rounds_apart :: "durable_config \<Rightarrow> (nat \<Rightarrow> nat \<Rightarrow> env) \<Rightarrow> bool" where
  "rounds_apart cfg es \<longleftrightarrow>
     (\<forall>j a. e_now (es j 1) + retry_delay (dcf_retry_initial_delay cfg) a \<le> e_now (es (Suc j) 0))"

lemma rounds_give_up:
  assumes "waiting inv_order k i d s" "trim_space k = k" "k \<noteq> ''''"
    and "dlv_next_attempt_at d \<le> e_now (es j 0)" "rounds_apart cfg es"
    and "\<And>m. \<exists>err m'. send i m = (Some err, m')"
    and "n = nat (dlv_max_attempts d - dlv_attempts d)"
  shows "\<exists>d'. s_email_deliveries (fst (rounds (store_outbox inv_order [k]) cfg send es j n (s, m))) = [k \<mapsto> d'] \<and>
    dlv_status d' = InvitationEmailFailed \<and> dlv_attempts d' = dlv_max_attempts d"
  using assms(1,4,7)
proof (induction n arbitrary: d s j m)
  case 0
  then show ?case by (simp add: waiting_def)
next
  case (Suc n)
  obtain err m' where send: "send i m = (Some err, m')" using assms(6) by blast
  obtain t d' where t: "deliver_due (store_outbox inv_order [k]) cfg send (e_now (es j 0)) (es j) 1 (s, m) = (t, m')"
    "s_email_deliveries t = [k \<mapsto> d']" "dlv_attempts d' = dlv_attempts d + 1"
    "dlv_max_attempts d' = dlv_max_attempts d"
    and last: "if dlv_attempts d + 1 \<ge> dlv_max_attempts d then dlv_status d' = InvitationEmailFailed
      else waiting inv_order k i d' t \<and>
        dlv_next_attempt_at d' = e_now (es j 1) + retry_delay (dcf_retry_initial_delay cfg) (dlv_attempts d + 1)"
    using one_round [OF Suc.prems(1) assms(2,3), of "es j" send m err m' cfg "e_now (es j 0)" 1]
      Suc.prems(2) send by auto
  have less: "dlv_attempts d < dlv_max_attempts d" using Suc.prems(1) by (simp add: waiting_def)
  show ?case
  proof (cases "dlv_attempts d + 1 \<ge> dlv_max_attempts d")
    case True
    then have "n = 0" using Suc.prems(3) less by simp
    then show ?thesis using t last True less by auto
  next
    case False
    then have w: "waiting inv_order k i d' t" "dlv_next_attempt_at d' \<le> e_now (es (Suc j) 0)"
      using last assms(5) by (auto simp: rounds_apart_def)
    have "n = nat (dlv_max_attempts d' - dlv_attempts d')" using Suc.prems(3) t(3,4) by simp
    from Suc.IH [OF w this, of m'] t show ?thesis by simp
  qed
qed

section \<open>Properties\<close>

text \<open>Delivery ends: when every attempt to send an invitation fails, the worker has marked
  its delivery as failed after as many rounds as attempts were left, and has used up exactly the
  attempts allowed.\<close>

theorem failing_mail_gives_up:
  assumes "waiting inv_order k i d s" "trim_space k = k" "k \<noteq> ''''"
    and "dlv_next_attempt_at d \<le> e_now (es 0 0)" "rounds_apart cfg es"
    and "\<And>m. \<exists>err m'. send i m = (Some err, m')"
  shows "\<exists>d'. s_email_deliveries (fst (rounds (store_outbox inv_order [k]) cfg send es 0
      (nat (dlv_max_attempts d - dlv_attempts d)) (s, m))) = [k \<mapsto> d'] \<and>
    dlv_status d' = InvitationEmailFailed \<and> dlv_attempts d' = dlv_max_attempts d"
  by (rule rounds_give_up [where es = es and j = 0, OF assms(1-3)])
    (rule assms(4), rule assms(5), rule assms(6), rule refl)

definition demo_invitation :: invitation where
  "demo_invitation = \<lparr>inv_id = ''inv_1'', inv_token = ''tok'', inv_organization_id = ''demo-org'',
     inv_project_id = '''', inv_email = ''a@b.c'', inv_role = ''member'', inv_status = InvitationPending,
     inv_invited_by_user_id = '''', inv_accepted_by_user_id = '''', inv_created_at = 1,
     inv_expires_at = 100, inv_accepted_at = None\<rparr>"

definition demo_delivery :: delivery where
  "demo_delivery = \<lparr>dlv_id = ''email_1'', dlv_invitation_id = ''inv_1'', dlv_invitation = demo_invitation,
     dlv_status = InvitationEmailPending, dlv_attempts = 1, dlv_max_attempts = 3, dlv_next_attempt_at = 5,
     dlv_locked_by = '''', dlv_locked_until = None, dlv_last_error = ''timeout'', dlv_sent_at = None,
     dlv_created_at = 1, dlv_updated_at = 1\<rparr>"

definition demo_mail_store :: store where
  "demo_mail_store = (new_store 0)\<lparr>s_invitations := [''tok'' \<mapsto> demo_invitation],
     s_email_deliveries := [''email_1'' \<mapsto> demo_delivery]\<rparr>"

definition demo_durable :: durable_config where
  "demo_durable = \<lparr>dcf_workers = 1, dcf_retry_attempts = 3, dcf_retry_initial_delay = 0,
     dcf_poll_interval = 1, dcf_lock_ttl = 1, dcf_worker_id = ''w''\<rparr>"

theorem failing_mail_gives_up_witness:
  "\<exists>d'. s_email_deliveries (fst (rounds (store_outbox [''tok''] [''email_1'']) demo_durable
      (\<lambda>i m. (Some ''refused'', m)) (\<lambda>j i. demo_env (10 * int j + int i + 10)) 0 2 (demo_mail_store, ()))) = [''email_1'' \<mapsto> d'] \<and>
    dlv_status d' = InvitationEmailFailed \<and> dlv_attempts d' = 3"
proof -
  have "waiting [''tok''] ''email_1'' demo_invitation demo_delivery demo_mail_store"
    by (simp add: waiting_def demo_mail_store_def demo_delivery_def demo_invitation_def invitation_by_id_def
        is_suppressed_locked_def new_store_def)
  moreover have "trim_space ''email_1'' = ''email_1''" by (rule trim_graphic) (simp_all add: graphic_def)
  moreover have "rounds_apart demo_durable (\<lambda>j i. demo_env (10 * int j + int i + 10))"
    by (simp add: rounds_apart_def demo_durable_def retry_delay_def)
  ultimately show ?thesis
    using failing_mail_gives_up [of "[''tok'']" "''email_1''" demo_invitation demo_delivery demo_mail_store
        "\<lambda>j i. demo_env (10 * int j + int i + 10)" demo_durable "\<lambda>i m. (Some ''refused'', m)" "()"]
    by (simp add: demo_delivery_def)
qed

text \<open>The queued mailer tries until the first success and at most as often as configured:
  against a sender that answers from a list, the number of calls, the result and the pauses
  between them, doubled each time, are those of the first success in the list.\<close>

theorem queued_mail_stops_at_success:
  assumes "0 < qcf_retry_attempts cfg" "nat (qcf_retry_attempts cfg) \<le> length answers"
  shows "queue_deliver scripted cfg i (answers, n) =
    (let limit = nat (qcf_retry_attempts cfg); f = failures limit answers;
         calls = (if f < limit then Suc f else limit)
     in (f < limit, pauses_made (qcf_retry_initial_delay cfg) 1 (min f (limit - 1)),
         (drop calls answers, n + calls)))"
proof -
  have "scripted i = scripted i'" for i i' by (simp add: scripted_def fun_eq_iff)
  then show ?thesis using attempts_calls [OF assms(2)] by (simp add: queue_deliver_def Let_def)
qed

theorem queued_mail_stops_at_success_witness:
  "queue_deliver scripted \<lparr>qcf_size = 1, qcf_workers = 1, qcf_retry_attempts = 3, qcf_retry_initial_delay = 5\<rparr>
     demo_invitation ([Some ''busy'', None, None], 0) = (True, [5], ([None], 2))"
  using queued_mail_stops_at_success [of "\<lparr>qcf_size = 1, qcf_workers = 1, qcf_retry_attempts = 3,
      qcf_retry_initial_delay = 5\<rparr>" "[Some ''busy'', None, None]" demo_invitation 0]
  by (simp add: failures_def pauses_made_def shift_left64_def wrap64_id numeral_3_eq_3 min_def)

text \<open>A mail has the headers it is meant to have: whatever the templates, the role and the
  rest of the invitation, the subject is a single line, so that neither of them can add a header.\<close>

theorem subject_is_one_line:
  "set (mail_subject L c i) \<inter> set crlf = {}"
proof -
  have sub: "set (trim_space v) \<subseteq> set v" for v
  proof -
    have "set (trim_left ws u) \<subseteq> set u" for ws u
      using trim_left_suffix [of u ws] by (metis Un_upper2 set_append)
    then have "set (trim_left (map rev white_space) (rev (trim_left white_space v))) \<subseteq> set v"
      by (metis order_trans set_rev)
    then show ?thesis by (simp add: trim_space_def)
  qed
  have "CHR '' '' \<notin> set crlf" by code_simp
  then have "set (map (\<lambda>c. if c \<in> set crlf then CHR '' '' else c) v) \<inter> set crlf = {}" for v by auto
  then show ?thesis using sub unfolding mail_subject_def sanitize_header_value_def by blast
qed

text \<open>The pause before the next attempt doubles from one attempt to the next as long as it fits in
  64 bits; beyond that it wraps, and a base delay of a second gives a pause in the past at the
  35th attempt.\<close>

lemma retry_delay_doubles:
  assumes "0 < base" "1 \<le> attempt" "base * 2 ^ nat attempt < 2 ^ 63"
  shows "retry_delay base (attempt + 1) = 2 * retry_delay base attempt"
proof -
  have p: "(2 :: int) ^ nat attempt = 2 * 2 ^ nat (attempt - 1)"
    using assms(2) by (simp add: Suc_nat_eq_nat_zadd1 power_Suc [symmetric] del: power_Suc)
  then have "base * 2 ^ nat (attempt - 1) < 2 ^ 63" using assms(1,3) by (simp add: algebra_simps)
  with retry_delay_exact [of base attempt] retry_delay_exact [of base "attempt + 1"] assms p
  show ?thesis by simp
qed

lemma retry_delay_wraps: "retry_delay time_second 35 < 0"
  by (simp add: retry_delay_def shift_left64_def wrap64_def time_second_def)

end
