(* ===== verification/Go_Path.thy ===== *)
theory Go_Path
  imports Go_Text
begin

text \<open>
  The lexical part of \<open>path/filepath\<close> on Unix: \<open>Clean\<close>, \<open>Join\<close> and \<open>IsAbs\<close>. A path is cleaned
  on a stack of elements. \<open>walk\<close> is the reference: a walk through a directory tree that fails
  when it leaves the directory it starts in; a relative path stays inside exactly when the
  walk succeeds, and then \<open>Clean\<close> is the place it arrives at.
\<close>

definition slash :: char where "slash = CHR ''/''"

definition is_abs :: "string \<Rightarrow> bool" where "is_abs p = has_prefix p [slash]"

text \<open>One element of the path; the stack has the last element first.\<close>

definition clean_step :: "bool \<Rightarrow> string list \<Rightarrow> string \<Rightarrow> string list" where
  "clean_step rooted out p =
     (if p = '''' \<or> p = ''.'' then out
      else if p = ''..'' then
        (case out of
           [] \<Rightarrow> if rooted then [] else [''..'']
         | d # ds \<Rightarrow> if d = ''..'' then ''..'' # out else ds)
      else p # out)"

definition clean_elements :: "bool \<Rightarrow> string \<Rightarrow> string list" where
  "clean_elements rooted p = rev (foldl (clean_step rooted) [] (split_on slash p))"

definition clean_path :: "string \<Rightarrow> string" where
  "clean_path p =
     (if is_abs p then slash # join_with [slash] (clean_elements True p)
      else if clean_elements False p = [] then ''.''
      else join_with [slash] (clean_elements False p))"

definition join_path :: "string \<Rightarrow> string \<Rightarrow> string" where
  "join_path a b =
     (if a \<noteq> '''' then clean_path (a @ slash # b) else if b \<noteq> '''' then clean_path b else '''')"

text \<open>\<open>filepath.Base\<close>.\<close>

definition path_base :: "string \<Rightarrow> string" where
  "path_base p =
     (if p = '''' then ''.''
      else
        (let stripped = rev (dropWhile (\<lambda>c. c = slash) (rev p))
         in if stripped = '''' then ''/''
            else rev (takeWhile (\<lambda>c. c \<noteq> slash) (rev stripped))))"

section \<open>The elements of a path\<close>

definition element :: "string \<Rightarrow> bool" where
  "element p \<longleftrightarrow> p \<noteq> '''' \<and> slash \<notin> set p"

lemma split_no_slash: "p \<in> set (split_on c s) \<Longrightarrow> c \<notin> set p"
proof (induction s arbitrary: p)
  case (Cons d s)
  obtain q qs where "split_on c s = q # qs" by (meson neq_Nil_conv split_on_not_Nil)
  with Cons show ?case by (auto split: if_splits)
qed simp

lemma split_join: "ps \<noteq> [] \<Longrightarrow> \<forall>p \<in> set ps. c \<notin> set p \<Longrightarrow> split_on c (join_with [c] ps) = ps"
proof (induction "[c]" ps rule: join_with.induct)
  case (3 s t ss)
  then show ?case using split_on_append [of c s] by simp
qed (simp_all add: split_on_plain)

lemma slash_dots: "slash \<notin> set ''..''"
  by (simp add: slash_def)

lemma clean_step_set: "set (clean_step rooted out p) \<subseteq> set out \<union> {''..''} \<union> ({p} - {'''', ''.''})"
  by (auto simp: clean_step_def split: list.split if_splits)

lemma fold_clean_set:
  "set (foldl (clean_step rooted) out ps) \<subseteq> set out \<union> {''..''} \<union> (set ps - {'''', ''.''})"
proof (induction ps arbitrary: out)
  case (Cons p ps)
  show ?case using Cons [of "clean_step rooted out p"] clean_step_set [of rooted out p] by auto
qed auto

lemma elements_clean:
  assumes "d \<in> set (clean_elements rooted p)"
  shows "element d" "d \<noteq> ''.''"
proof -
  have "d = ''..'' \<or> (d \<in> set (split_on slash p) \<and> d \<noteq> '''' \<and> d \<noteq> ''.'')"
    using assms fold_clean_set [of rooted "[]" "split_on slash p"] by (auto simp: clean_elements_def)
  then show "element d" "d \<noteq> ''.''" using slash_dots by (auto simp: element_def split_no_slash simp del: set_simps)
qed

lemma split_clean:
  assumes "clean_elements rooted p \<noteq> []"
  shows "split_on slash (join_with [slash] (clean_elements rooted p)) = clean_elements rooted p"
  using split_join [OF assms, of slash] elements_clean(1) by (simp add: element_def)

section \<open>Walking\<close>

fun walk :: "string list \<Rightarrow> string list \<Rightarrow> string list option" where
  "walk ds [] = Some (rev ds)"
| "walk ds (p # ps) =
     (if p = '''' \<or> p = ''.'' then walk ds ps
      else if p = ''..'' then (case ds of [] \<Rightarrow> None | d # ds' \<Rightarrow> walk ds' ps)
      else walk (p # ds) ps)"

lemma clean_step_below:
  "out \<noteq> [] \<Longrightarrow> last out = ''..'' \<Longrightarrow>
   clean_step False out p \<noteq> [] \<and> last (clean_step False out p) = ''..''"
  by (auto simp: clean_step_def split: list.split)

lemma fold_clean_below:
  "out \<noteq> [] \<Longrightarrow> last out = ''..'' \<Longrightarrow>
   foldl (clean_step False) out ps \<noteq> [] \<and> last (foldl (clean_step False) out ps) = ''..''"
  by (induction ps arbitrary: out) (simp_all add: clean_step_below)

fun agrees :: "string list option \<Rightarrow> string list \<Rightarrow> bool" where
  "agrees (Some es) out \<longleftrightarrow> out = rev es \<and> ''..'' \<notin> set es"
| "agrees None out \<longleftrightarrow> out \<noteq> [] \<and> last out = ''..''"

lemma clean_step_walk:
  "p = '''' \<or> p = ''.'' \<Longrightarrow> clean_step rooted ds p = ds"
  "clean_step False [] ''..'' = [''..'']"
  "d \<noteq> ''..'' \<Longrightarrow> clean_step rooted (d # ds) ''..'' = ds"
  "p \<noteq> '''' \<Longrightarrow> p \<noteq> ''.'' \<Longrightarrow> p \<noteq> ''..'' \<Longrightarrow> clean_step rooted ds p = p # ds"
  by (auto simp: clean_step_def)

lemma fold_clean_walk:
  "''..'' \<notin> set ds \<Longrightarrow> agrees (walk ds ps) (foldl (clean_step False) ds ps)"
proof (induction ds ps rule: walk.induct)
  case (2 ds p ps)
  consider "p = '''' \<or> p = ''.''" | "p = ''..''" "ds = []" | d es where "p = ''..''" "ds = d # es"
    | "p \<noteq> ''''" "p \<noteq> ''.''" "p \<noteq> ''..''" by (cases ds) auto
  then show ?case
  proof cases
    case 2
    then show ?thesis using fold_clean_below [of "[''..'']" ps] by (simp add: clean_step_walk)
  qed (use 2 in \<open>auto simp: clean_step_walk\<close>)
qed simp

lemma walk_clean:
  "walk [] (split_on slash p) = Some ds \<Longrightarrow> clean_elements False p = ds \<and> ''..'' \<notin> set ds"
  "walk [] (split_on slash p) = None \<Longrightarrow>
   clean_elements False p \<noteq> [] \<and> hd (clean_elements False p) = ''..''"
proof -
  have "agrees (walk [] (split_on slash p)) (foldl (clean_step False) [] (split_on slash p))"
    by (rule fold_clean_walk) simp
  then show "walk [] (split_on slash p) = Some ds \<Longrightarrow> clean_elements False p = ds \<and> ''..'' \<notin> set ds"
    "walk [] (split_on slash p) = None \<Longrightarrow>
     clean_elements False p \<noteq> [] \<and> hd (clean_elements False p) = ''..''"
    by (simp_all add: clean_elements_def hd_rev)
qed

lemma join_hd:
  assumes "ps \<noteq> []" "\<forall>p \<in> set ps. element p" "element e"
  shows "join_with [slash] ps = e \<or> has_prefix (join_with [slash] ps) (e @ [slash]) \<longleftrightarrow> hd ps = e"
proof -
  have *: "p = e" if "p @ slash # r = e @ slash # q" "slash \<notin> set p" for p r q
  proof -
    have "cut_at slash (p @ slash # r) = Some (p, r)" using that(2) by (rule cut_at_append)
    moreover have "cut_at slash (e @ slash # q) = Some (e, q)"
      by (rule cut_at_append) (use assms(3) in \<open>simp add: element_def\<close>)
    ultimately have "Some (p, r) = Some (e, q)" unfolding that(1) by (rule trans [OF sym])
    then show ?thesis by blast
  qed
  obtain p r where ps: "ps = p # r" using assms(1) by (cases ps) auto
  then have p: "slash \<notin> set p" using assms(2) by (simp add: element_def)
  show ?thesis
  proof (cases r)
    case Nil
    then show ?thesis using ps p by (auto simp: has_prefix_def starts_with_iff)
  next
    case (Cons q s)
    have e: "slash \<notin> set e" using assms(3) by (simp add: element_def)
    have "join_with [slash] ps = p @ slash # join_with [slash] r" using ps Cons by simp
    moreover have "p @ slash # join_with [slash] r \<noteq> e" using e by (metis in_set_conv_decomp)
    ultimately show ?thesis using p * ps by (auto simp: has_prefix_def starts_with_iff)
  qed
qed

end
