(* ===== verification/Access.thy ===== *)
theory Access
  imports Go_Path Store_Machine
begin

text \<open>
  Who may do what over the HTTP interface of the control plane
  (services/control-plane/internal/httpapi): the action policy (action_policy.go), the actor of
  a request and its roles, the audit trail of refusals, the read checks on chats, runs and
  artifacts, and the path of an artifact's file (server.go). The handlers act on the in-memory
  store; \<open>es i\<close> is the environment of the \<open>i\<close>-th operation. The verification of OIDC tokens and
  sessions, the file system and the JSON decoder are parameters.
\<close>

section \<open>Replies and requests\<close>

text \<open>An error reply is its status and message; a handler that goes on returns \<open>Inr\<close>.\<close>

datatype reply = Reply int string

record api_request =
  arq_path :: string
  arq_header :: "string \<Rightarrow> string"
  arq_remote_addr :: string
  arq_user_agent :: string
  arq_request_id :: string
  arq_trace_id :: string

fun error_text :: "app_error \<Rightarrow> string" where
  "error_text ErrExternalAdapterNotImplemented =
     ''external adapter boundary exists but is not implemented in the stdlib scaffold''"
| "error_text ErrNotFound = ''not found''"
| "error_text ErrClosed = ''closed''"
| "error_text ErrAttemptMismatch = ''run attempt mismatch''"
| "error_text ErrInvalidInput = ''invalid input''"
| "error_text ErrIdentityConflict = ''identity conflict''"
| "error_text (ErrMessage t) = t"

fun store_error_reply :: "app_error \<Rightarrow> reply" where
  "store_error_reply ErrInvalidInput = Reply 400 ''invalid input''"
| "store_error_reply ErrNotFound = Reply 404 ''not found''"
| "store_error_reply ErrAttemptMismatch = Reply 409 ''run attempt mismatch''"
| "store_error_reply ErrIdentityConflict = Reply 409 ''identity binding conflict''"
| "store_error_reply err = Reply 500 (error_text err)"

section \<open>Roles\<close>

fun actor_can_write_roles :: "string list \<Rightarrow> bool" where
  "actor_can_write_roles [] = False"
| "actor_can_write_roles (role # roles) =
     (if to_lower (trim_space role) \<in> set [''owner'', ''admin'', ''member'', ''editor'', ''writer''] then True
      else actor_can_write_roles roles)"

definition actor_can_write :: "actor_context \<Rightarrow> bool" where
  "actor_can_write actor = (if act_roles actor = [] then False else actor_can_write_roles (act_roles actor))"

fun actor_can_admin_roles :: "string list \<Rightarrow> bool" where
  "actor_can_admin_roles [] = False"
| "actor_can_admin_roles (role # roles) =
     (if to_lower (trim_space role) \<in> set [''owner'', ''admin''] then True
      else actor_can_admin_roles roles)"

definition actor_can_admin :: "actor_context \<Rightarrow> bool" where
  "actor_can_admin actor = actor_can_admin_roles (act_roles actor)"

section \<open>The action policy (action_policy.go)\<close>

type_synonym action_requirement = string

definition require_write :: action_requirement where "require_write = ''write''"
definition require_project_admin :: action_requirement where "require_project_admin = ''project_admin''"
definition require_organization_admin :: action_requirement where
  "require_organization_admin = ''organization_admin''"

type_synonym action_policy = "string \<rightharpoonup> action_requirement"

definition default_action_policy :: action_policy where
  "default_action_policy = map_of
     [(''chat.create'', require_write),
      (''chat.archive'', require_write),
      (''chat.restore'', require_write),
      (''message.create'', require_write),
      (''run.cancel'', require_write),
      (''skill.enable'', require_write),
      (''skill.disable'', require_write),
      (''skill.approve'', require_write),
      (''skill.import.preview'', require_write),
      (''skill.import.mcp.preview'', require_write),
      (''skill.import.create'', require_write),
      (''skill.import.mcp.create'', require_write),
      (''skill.create'', require_write),
      (''skill.update'', require_write),
      (''project.usage.read'', require_project_admin),
      (''project.quota.update'', require_project_admin),
      (''project.runtime_policy.update'', require_project_admin),
      (''project.member.upsert'', require_project_admin),
      (''project.member.remove'', require_project_admin),
      (''invitation.list'', require_organization_admin),
      (''invitation.create'', require_organization_admin),
      (''invitation.email.resend'', require_organization_admin),
      (''invitation.email_event.list'', require_organization_admin),
      (''invitation.email_suppression.list'', require_organization_admin),
      (''invitation.email_suppression.delete'', require_organization_admin),
      (''invitation.email_event.record'', require_organization_admin),
      (''organization.member.upsert'', require_organization_admin),
      (''organization.member.remove'', require_organization_admin)]"

definition parse_action_requirement :: "string \<Rightarrow> string + action_requirement" where
  "parse_action_requirement value =
     (let v = to_lower (trim_space value)
      in if v = require_write then Inr require_write
         else if v = require_project_admin then Inr require_project_admin
         else if v = require_organization_admin then Inr require_organization_admin
         else Inl ''requirement must be one of write, project_admin, or organization_admin'')"

text \<open>
  \<open>pol_read\<close> and \<open>pol_decode\<close> read the file and decode its \<open>actions\<close>, as the entries in the
  order in which the loop visits them; \<open>pol_quote\<close> is the format verb \<open>%q\<close>.
\<close>

record policy_lib =
  pol_read :: "string \<Rightarrow> string + string"
  pol_decode :: "string \<Rightarrow> string + (string \<times> string) list"
  pol_quote :: "string \<Rightarrow> string"

fun policy_loop ::
  "policy_lib \<Rightarrow> (string \<times> string) list \<Rightarrow> action_policy \<Rightarrow> string + action_policy" where
  "policy_loop P [] policy = Inr policy"
| "policy_loop P ((raw, requirement) # rest) policy =
     (let action = trim_space raw
      in if action = '''' then Inl ''action policy file contains an empty action''
         else case parse_action_requirement requirement of
                Inl err \<Rightarrow> Inl (''action '' @ pol_quote P action @ '': '' @ err)
              | Inr parsed \<Rightarrow> policy_loop P rest (policy(action \<mapsto> parsed)))"

definition load_action_policy_file :: "policy_lib \<Rightarrow> string \<Rightarrow> string + action_policy" where
  "load_action_policy_file P raw_path =
     (let path = trim_space raw_path
      in if path = '''' then Inr default_action_policy
         else case pol_read P path of
                Inl err \<Rightarrow> Inl (''read action policy file: '' @ err)
              | Inr data \<Rightarrow>
                  (case pol_decode P data of
                     Inl err \<Rightarrow> Inl (''decode action policy file: '' @ err)
                   | Inr entries \<Rightarrow> policy_loop P entries default_action_policy))"

definition validate_action_policy_file :: "policy_lib \<Rightarrow> string \<Rightarrow> string option" where
  "validate_action_policy_file P path =
     (case load_action_policy_file P path of Inl err \<Rightarrow> Some err | Inr policy \<Rightarrow> None)"

record policy_decision =
  pdc_allowed :: bool
  pdc_reason :: string
  pdc_message :: string
  pdc_required_roles :: "string list"

definition allowed_decision :: policy_decision where
  "allowed_decision = \<lparr>pdc_allowed = True, pdc_reason = '''', pdc_message = '''', pdc_required_roles = []\<rparr>"

definition no_write_message :: string where
  "no_write_message = bytes
     [229, 189, 147, 229, 137, 141, 232, 167, 146, 232, 137, 178, 230, 178, 161,
      230, 156, 137, 230, 137, 167, 232, 161, 140, 232, 175, 165, 230, 147, 141,
      228, 189, 156, 231, 154, 132, 230, 157, 131, 233, 153, 144, 227, 128, 130]"

definition no_project_admin_message :: string where
  "no_project_admin_message = bytes
     [229, 189, 147, 229, 137, 141, 232, 167, 146, 232, 137, 178, 230, 178, 161,
      230, 156, 137, 231, 174, 161, 231, 144, 134, 233, 161, 185, 231, 155, 174,
      231, 154, 132, 230, 157, 131, 233, 153, 144, 227, 128, 130]"

definition no_organization_admin_message :: string where
  "no_organization_admin_message = bytes
     [229, 189, 147, 229, 137, 141, 232, 167, 146, 232, 137, 178, 230, 178, 161,
      230, 156, 137, 231, 174, 161, 231, 144, 134, 231, 187, 132, 231, 187, 135,
      231, 154, 132, 230, 157, 131, 233, 153, 144, 227, 128, 130]"

definition authorize :: "action_policy \<Rightarrow> actor_context \<Rightarrow> string \<Rightarrow> action_requirement \<Rightarrow> policy_decision" where
  "authorize policy actor action fallback =
     (let requirement = (case policy (trim_space action) of Some configured \<Rightarrow> configured | None \<Rightarrow> fallback)
      in if requirement = require_write then
           (if actor_can_write actor then allowed_decision
            else \<lparr>pdc_allowed = False, pdc_reason = ''action requires write role'',
                  pdc_message = no_write_message,
                  pdc_required_roles = [''owner'', ''admin'', ''member'', ''editor'', ''writer'']\<rparr>)
         else if requirement = require_project_admin then
           (if actor_can_admin actor then allowed_decision
            else \<lparr>pdc_allowed = False, pdc_reason = ''action requires project admin role'',
                  pdc_message = no_project_admin_message, pdc_required_roles = [''owner'', ''admin'']\<rparr>)
         else if requirement = require_organization_admin then
           (if actor_can_admin actor then allowed_decision
            else \<lparr>pdc_allowed = False, pdc_reason = ''action requires organization admin role'',
                  pdc_message = no_organization_admin_message, pdc_required_roles = [''owner'', ''admin'']\<rparr>)
         else \<lparr>pdc_allowed = False, pdc_reason = ''unsupported action requirement'',
               pdc_message = no_write_message, pdc_required_roles = []\<rparr>)"

section \<open>The audit trail\<close>

definition first_header :: "api_request \<Rightarrow> string list \<Rightarrow> string" where
  "first_header rq names = first_non_empty (map (\<lambda>n. trim_space (arq_header rq n)) names)"

text \<open>\<open>net.SplitHostPort\<close>, its host; \<open>None\<close> is the error.\<close>

definition split_host :: "string \<Rightarrow> string option" where
  "split_host hostport =
     (case cut_at CHR '':'' (rev hostport) of
        None \<Rightarrow> None
      | Some (rport, rhost) \<Rightarrow>
          (if has_prefix hostport ''['' then
             (case cut_at CHR '']'' hostport of
                None \<Rightarrow> None
              | Some (h, rest) \<Rightarrow>
                  if rest = CHR '':'' # rev rport \<and> CHR ''['' \<notin> set (tl hostport) \<and> CHR '']'' \<notin> set rest
                  then Some (tl h) else None)
           else if CHR '':'' \<in> set rhost \<or> CHR ''['' \<in> set hostport \<or> CHR '']'' \<in> set hostport then None
           else Some (rev rhost)))"

definition client_ip :: "api_request \<Rightarrow> string" where
  "client_ip rq =
     (let forwarded_for = trim_space (arq_header rq ''X-Forwarded-For'')
      in if forwarded_for \<noteq> '''' then trim_space (hd (split_on CHR '','' forwarded_for))
         else case split_host (arq_remote_addr rq) of Some host \<Rightarrow> host | None \<Rightarrow> arq_remote_addr rq)"

definition audit_entry ::
  "api_request \<Rightarrow> actor_context \<Rightarrow> string \<Rightarrow> string \<Rightarrow> string \<Rightarrow> string \<Rightarrow> audit_decision \<Rightarrow> string
     \<Rightarrow> metadata \<Rightarrow> audit_input" where
  "audit_entry rq actor action rtype rid run decision reason meta =
     \<lparr>aui_actor_user_id = act_user_id actor, aui_actor_project_id = act_project_id actor,
      aui_actor_org_id = act_org_id actor, aui_action = action, aui_resource_type = rtype,
      aui_resource_id = rid, aui_decision = Some decision, aui_reason = reason,
      aui_request_id = arq_request_id rq,
      aui_trace_id = first_non_empty [arq_trace_id rq, first_header rq [''X-Trace-ID'', ''Traceparent'']],
      aui_run_id = run, aui_ip = client_ip rq, aui_user_agent = arq_user_agent rq,
      aui_metadata = meta\<rparr>"

text \<open>An error of the write is logged only.\<close>

definition write_audit_event ::
  "env \<Rightarrow> api_request \<Rightarrow> actor_context \<Rightarrow> string \<Rightarrow> string \<Rightarrow> string \<Rightarrow> string \<Rightarrow> audit_decision \<Rightarrow> string
     \<Rightarrow> metadata \<Rightarrow> store \<Rightarrow> store" where
  "write_audit_event e rq actor action rtype rid run decision reason meta s =
     snd (add_audit_event e (audit_entry rq actor action rtype rid run decision reason meta) s)"

abbreviation audit_allow where
  "audit_allow e rq actor action rtype rid run meta \<equiv>
     write_audit_event e rq actor action rtype rid run AuditDecisionAllow '''' meta"

abbreviation audit_deny where
  "audit_deny e rq actor action rtype rid run reason meta \<equiv>
     write_audit_event e rq actor action rtype rid run AuditDecisionDeny reason meta"

definition string_list_value :: "string list \<Rightarrow> goval" where
  "string_list_value xs = VList (map VStr xs)"

definition require_action ::
  "env \<Rightarrow> action_policy \<Rightarrow> api_request \<Rightarrow> actor_context \<Rightarrow> string \<Rightarrow> string \<Rightarrow> string \<Rightarrow> string
     \<Rightarrow> action_requirement \<Rightarrow> store \<Rightarrow> reply option \<times> store" where
  "require_action e policy rq actor action rtype rid run fallback s =
     (let d = authorize policy actor action fallback
      in if pdc_allowed d then (None, s)
         else (Some (Reply 403 (pdc_message d)),
               audit_deny e rq actor action rtype rid run (pdc_reason d)
                 [(''roles'', string_list_value (act_roles actor)),
                  (''required_roles'', string_list_value (pdc_required_roles d))] s))"

section \<open>The actor of a request (server.go)\<close>

definition demo_actor :: actor_context where
  "demo_actor = \<lparr>act_user_id = ''demo-user'', act_email = ''demo@niceagent.local'', act_name = ''Demo User'',
     act_identity_provider = '''', act_identity_issuer = '''', act_identity_subject = '''',
     act_project_id = ''demo-project'', act_org_id = ''demo-org'', act_roles = [''owner'']\<rparr>"

definition zero_actor :: actor_context where
  "zero_actor = \<lparr>act_user_id = '''', act_email = '''', act_name = '''', act_identity_provider = '''',
     act_identity_issuer = '''', act_identity_subject = '''', act_project_id = '''', act_org_id = '''',
     act_roles = []\<rparr>"

definition split_csv :: "string \<Rightarrow> string list" where
  "split_csv value =
     (if value = '''' then []
      else filter (\<lambda>item. item \<noteq> '''') (map trim_space (split_on CHR '','' value)))"

definition actor_from_trusted_headers :: "api_request \<Rightarrow> actor_context option" where
  "actor_from_trusted_headers rq =
     (let actor =
        \<lparr>act_user_id = first_header rq [''X-NiceAgent-User-ID'', ''X-User-ID''],
         act_email = first_header rq [''X-NiceAgent-User-Email'', ''X-User-Email''],
         act_name = first_header rq [''X-NiceAgent-User-Name'', ''X-User-Name''],
         act_identity_provider = first_header rq [''X-NiceAgent-Identity-Provider'', ''X-Identity-Provider''],
         act_identity_issuer =
           first_header rq [''X-NiceAgent-Identity-Issuer'', ''X-OIDC-Issuer'', ''X-Identity-Issuer''],
         act_identity_subject =
           first_header rq [''X-NiceAgent-Identity-Subject'', ''X-OIDC-Subject'', ''X-Identity-Subject''],
         act_project_id = first_header rq [''X-NiceAgent-Project-ID'', ''X-Project-ID''],
         act_org_id = first_header rq [''X-NiceAgent-Org-ID'', ''X-Org-ID''],
         act_roles = split_csv (first_header rq [''X-NiceAgent-Roles'', ''X-User-Roles''])\<rparr>
      in if act_user_id actor = '''' \<or> act_project_id actor = '''' then None else Some actor)"

definition normalize_auth_mode :: "string \<Rightarrow> string" where
  "normalize_auth_mode mode =
     (let m = to_lower (trim_space mode)
      in if m = ''oidc'' then ''oidc''
         else if m = ''trusted-header'' \<or> m = ''trusted_header'' then ''trusted-header''
         else ''demo'')"

definition external_auth_required :: "string \<Rightarrow> bool" where
  "external_auth_required path = has_prefix path ''/api/''"

definition invitation_accept_path :: "string \<Rightarrow> bool" where
  "invitation_accept_path path \<longleftrightarrow>
     has_prefix path ''/api/invitations/'' \<and> has_suffix path ''/accept''"

definition load_persistent_actor_roles :: "actor_context \<Rightarrow> string \<Rightarrow> store \<Rightarrow> string list" where
  "load_persistent_actor_roles actor path s =
     (let org_roles = list_organization_roles (act_user_id actor) (act_org_id actor) s;
          project_roles = list_project_roles (act_user_id actor) (act_project_id actor) s
      in if has_prefix path ''/api/organizations/'' \<and> act_org_id actor \<noteq> '''' \<and> org_roles \<noteq> [] then org_roles
         else if project_roles \<noteq> [] then project_roles
         else if act_org_id actor \<noteq> '''' \<and>
                 project_belongs_to_organization (act_project_id actor) (act_org_id actor) s then org_roles
         else [])"

text \<open>\<open>strings.EqualFold\<close> with the ASCII prefix \<open>Bearer\<close>.\<close>

definition bearer_token :: "api_request \<Rightarrow> string" where
  "bearer_token rq =
     (let header = trim_space (arq_header rq ''Authorization'')
      in if header = '''' then ''''
         else if length header < 7 \<or> map lower_char (take 7 header) \<noteq> ''bearer '' then ''''
         else trim_space (drop 7 header))"

text \<open>
  \<open>oid_verify\<close> is the verifier, when one is configured; \<open>oid_session\<close> the actor of the
  session cookie. Both answer with the text of their error otherwise.
\<close>

record oidc_lib =
  oid_verify :: "(string \<Rightarrow> string + actor_context) option"
  oid_session :: "api_request \<Rightarrow> store \<Rightarrow> string + actor_context"

definition actor_from_oidc_request :: "oidc_lib \<Rightarrow> api_request \<Rightarrow> store \<Rightarrow> string + actor_context" where
  "actor_from_oidc_request L rq s =
     (case oid_verify L of
        None \<Rightarrow> Inl ''OIDC verifier is not configured''
      | Some verify \<Rightarrow>
          if bearer_token rq \<noteq> '''' then verify (bearer_token rq)
          else (case oid_session L rq s of
                  Inl err \<Rightarrow> Inl ''missing bearer token or OIDC session''
                | Inr actor \<Rightarrow> Inr actor))"

text \<open>\<open>None\<close> is that the request may go on.\<close>

definition bind_actor_identity ::
  "(nat \<Rightarrow> env) \<Rightarrow> api_request \<Rightarrow> actor_context \<Rightarrow> store \<Rightarrow> reply option \<times> store" where
  "bind_actor_identity es rq actor s =
     (let has_issuer = (trim_space (act_identity_issuer actor) \<noteq> '''');
          has_subject = (trim_space (act_identity_subject actor) \<noteq> '''')
      in if \<not> has_issuer \<and> \<not> has_subject then (None, s)
         else if \<not> has_issuer \<or> \<not> has_subject then
           (Some (Reply 401 ''identity issuer and subject are required''),
            audit_deny (es 0) rq actor ''auth.identity.bind'' ''identity'' (act_user_id actor) ''''
              ''identity issuer and subject are both required'' [] s)
         else
           (let provider = first_non_empty [trim_space (act_identity_provider actor), ''oidc'']
            in case bind_user_identity (es 0)
                      \<lparr>uid_id = '''', uid_user_id = act_user_id actor, uid_provider = provider,
                       uid_issuer = act_identity_issuer actor, uid_subject = act_identity_subject actor,
                       uid_email = act_email actor, uid_name = act_name actor,
                       uid_created_at = 0, uid_updated_at = 0\<rparr> s of
                 (Inr i, s1) \<Rightarrow> (None, s1)
               | (Inl err, s1) \<Rightarrow>
                   if err = ErrIdentityConflict then
                     (Some (Reply 409 ''identity binding conflict''),
                      audit_deny (es 1) rq actor ''auth.identity.bind'' ''identity'' (act_user_id actor) ''''
                        ''identity binding conflict''
                        [(''provider'', VStr provider), (''issuer'', VStr (act_identity_issuer actor))] s1)
                   else if err = ErrInvalidInput then
                     (Some (Reply 401 ''invalid identity headers''),
                      audit_deny (es 1) rq actor ''auth.identity.bind'' ''identity'' (act_user_id actor) ''''
                        ''invalid identity headers'' [] s1)
                   else (Some (Reply 500 (error_text err)), s1)))"

definition no_membership_message :: string where
  "no_membership_message = bytes
     [229, 189, 147, 229, 137, 141, 231, 148, 168, 230, 136, 183, 230, 178, 161,
      230, 156, 137, 232, 175, 165, 233, 161, 185, 231, 155, 174, 231, 154, 132,
      230, 136, 144, 229, 145, 152, 229, 133, 179, 231, 179, 187, 227, 128, 130]"

definition no_org_membership_message :: string where
  "no_org_membership_message = bytes
     [229, 189, 147, 229, 137, 141, 231, 148, 168, 230, 136, 183, 230, 178, 161,
      230, 156, 137, 232, 175, 165, 231, 187, 132, 231, 187, 135, 231, 154, 132,
      230, 136, 144, 229, 145, 152, 229, 133, 179, 231, 179, 187, 227, 128, 130]"

text \<open>The actor before its identity is bound: an error with the refusal already audited.\<close>

definition authenticate ::
  "string \<Rightarrow> oidc_lib \<Rightarrow> (nat \<Rightarrow> env) \<Rightarrow> api_request \<Rightarrow> store \<Rightarrow> (reply + actor_context) \<times> store" where
  "authenticate mode L es rq s =
     (let refuse = (\<lambda>reason meta. (Inl (Reply 401 ''unauthorized''),
            audit_deny (es 0) rq zero_actor ''auth.authenticate'' ''request'' (arq_path rq) '''' reason meta s))
      in if mode = ''trusted-header'' then
           (case actor_from_trusted_headers rq of
              None \<Rightarrow> refuse ''missing trusted actor headers'' []
            | Some actor \<Rightarrow> (Inr actor, s))
         else if mode = ''oidc'' then
           (case actor_from_oidc_request L rq s of
              Inl err \<Rightarrow> refuse err []
            | Inr actor \<Rightarrow> (Inr actor, s))
         else refuse ''unsupported auth mode'' [(''auth_mode'', VStr mode)])"

text \<open>
  \<open>withActor\<close>: what the next handler is called with, \<open>Inr None\<close> for a path without
  authentication. Without roles only the acceptance of an invitation goes on.
\<close>

definition authorize_membership ::
  "env \<Rightarrow> api_request \<Rightarrow> actor_context \<Rightarrow> store \<Rightarrow> (reply + actor_context option) \<times> store" where
  "authorize_membership e rq raw s =
     (let actor = (if act_roles raw = []
            then raw\<lparr>act_roles := load_persistent_actor_roles raw (arq_path rq) s\<rparr> else raw)
      in if act_roles actor = [] \<and> invitation_accept_path (arq_path rq) then (Inr (Some actor), s)
         else if act_roles actor = [] then
           (let on_org = (has_prefix (arq_path rq) ''/api/organizations/'' \<and> act_org_id actor \<noteq> '''')
            in (Inl (Reply 403 (if on_org then no_org_membership_message else no_membership_message)),
                audit_deny e rq actor ''auth.authorize''
                  (if on_org then ''organization'' else ''project'')
                  (if on_org then act_org_id actor else act_project_id actor) ''''
                  ''membership not found'' [] s))
         else (Inr (Some actor), s))"

definition with_actor ::
  "string \<Rightarrow> oidc_lib \<Rightarrow> (nat \<Rightarrow> env) \<Rightarrow> api_request \<Rightarrow> store
     \<Rightarrow> (reply + actor_context option) \<times> store" where
  "with_actor mode L es rq s =
     (if \<not> external_auth_required (arq_path rq) then (Inr None, s)
      else if mode = ''demo'' then (Inr (Some demo_actor), s)
      else
        (case authenticate mode L es rq s of
           (Inl rep, s1) \<Rightarrow> (Inl rep, s1)
         | (Inr actor, s1) \<Rightarrow>
             (case bind_actor_identity (\<lambda>i. es (i + 1)) rq actor s1 of
                (Some rep, s2) \<Rightarrow> (Inl rep, s2)
              | (None, s2) \<Rightarrow> authorize_membership (es 3) rq actor s2)))"

definition actor_from_request :: "actor_context option \<Rightarrow> actor_context" where
  "actor_from_request ctx =
     (case ctx of Some actor \<Rightarrow> if act_user_id actor \<noteq> '''' then actor else demo_actor | None \<Rightarrow> demo_actor)"

section \<open>Read checks\<close>

definition actor_can_read_chat :: "actor_context \<Rightarrow> chat_session \<Rightarrow> bool" where
  "actor_can_read_chat actor chat \<longleftrightarrow>
     cht_user_id chat = act_user_id actor \<and> cht_project_id chat = act_project_id actor"

definition actor_can_read_chat_id :: "actor_context \<Rightarrow> string \<Rightarrow> store \<Rightarrow> bool" where
  "actor_can_read_chat_id actor cid s =
     (case get_chat cid s of Inl err \<Rightarrow> False | Inr (chat, msgs) \<Rightarrow> actor_can_read_chat actor chat)"

definition actor_can_read_run :: "actor_context \<Rightarrow> string \<Rightarrow> store \<Rightarrow> bool" where
  "actor_can_read_run actor rid s =
     (case get_run rid s of
        Inl err \<Rightarrow> False
      | Inr r \<Rightarrow>
          if run_user_id r \<noteq> act_user_id actor then False
          else (case get_chat (run_chat_id r) s of
                  Inl err \<Rightarrow> False
                | Inr (chat, msgs) \<Rightarrow> actor_can_read_chat actor chat))"

definition actor_can_read_artifact :: "actor_context \<Rightarrow> artifact \<Rightarrow> store \<Rightarrow> bool" where
  "actor_can_read_artifact actor a s =
     (if art_user_id a \<noteq> '''' then
        (if art_user_id a \<noteq> act_user_id actor then False
         else if art_project_id a \<noteq> '''' then art_project_id a = act_project_id actor
         else True)
      else if art_run_id a = '''' then False
      else actor_can_read_run actor (art_run_id a) s)"

definition read_authorized_artifact ::
  "(nat \<Rightarrow> env) \<Rightarrow> api_request \<Rightarrow> actor_context \<Rightarrow> string \<Rightarrow> store \<Rightarrow> artifact result \<times> store" where
  "read_authorized_artifact es rq actor aid s =
     (case get_artifact (es 0) aid s of
        Inl err \<Rightarrow> (Inl err, s)
      | Inr a \<Rightarrow>
          if \<not> actor_can_read_artifact actor a s then
            (Inl ErrNotFound,
             audit_deny (es 1) rq actor ''artifact.read'' ''artifact'' aid (art_run_id a)
               ''actor cannot read artifact'' [] s)
          else (Inr a, s))"

section \<open>The file of an artifact\<close>

definition clean_artifact_path :: "string \<Rightarrow> string + string" where
  "clean_artifact_path raw =
     (let path = trim_space raw
      in if path = '''' then Inl ''artifact path is required''
         else if is_abs path then Inl ''artifact path must be relative''
         else
           (let clean = clean_path path
            in if clean = ''.'' \<or> clean = ''..'' \<or> has_prefix clean ''../'' then
                 Inl ''artifact path escapes workspace root''
               else if (\<exists>part \<in> set (split_on slash clean). part = ''.'' \<or> part = ''..'' \<or> part = '''') then
                 Inl ''artifact path contains an unsafe segment''
               else if clean \<noteq> ''output'' \<and> \<not> has_prefix clean ''output/'' then
                 Inl ''artifact path must be under workspace output''
               else Inr clean))"

definition path_within :: "string \<Rightarrow> string \<Rightarrow> bool" where
  "path_within dir target \<longleftrightarrow>
     clean_path target = clean_path dir \<or> has_prefix (clean_path target) (clean_path dir @ ''/'')"

text \<open>The file system: environment variables, \<open>filepath.Abs\<close> and \<open>EvalSymlinks\<close>.\<close>

record file_system =
  fsy_getenv :: "string \<Rightarrow> string"
  fsy_abs :: "string \<Rightarrow> string + string"
  fsy_eval_symlinks :: "string \<Rightarrow> string + string"

definition workspace_root :: "file_system \<Rightarrow> string" where
  "workspace_root F =
     first_non_empty [trim_space (fsy_getenv F ''SANDBOX_WORKSPACE_ROOT''),
       trim_space (fsy_getenv F ''WORKSPACE_ROOT''), ''workspaces'']"

definition resolve_artifact_download_path :: "file_system \<Rightarrow> workspace \<Rightarrow> artifact \<Rightarrow> string + string" where
  "resolve_artifact_download_path F w a =
     (case clean_artifact_path (art_path a) of
        Inl err \<Rightarrow> Inl err
      | Inr rel \<Rightarrow>
          (let p0 = (if wsp_root_path w = '''' then wsp_id w else wsp_root_path w);
               root_path = (if \<not> is_abs p0 then join_path (workspace_root F) p0 else p0)
           in case fsy_abs F root_path of
                Inl err \<Rightarrow> Inl err
              | Inr root_abs \<Rightarrow>
                  (case fsy_eval_symlinks F root_abs of
                     Inl err \<Rightarrow> Inl (''workspace root is unavailable: '' @ err)
                   | Inr root_real \<Rightarrow>
                       (case fsy_eval_symlinks F (join_path root_real rel) of
                          Inl err \<Rightarrow> Inl (''artifact file is unavailable: '' @ err)
                        | Inr target_real \<Rightarrow>
                            if \<not> path_within root_real target_real
                            then Inl ''artifact path escapes workspace root''
                            else Inr target_real))))"

end
