(* ===== verification/Access_Properties.thy ===== *)
theory Access_Properties
  imports Access Sample_Execution
begin

text \<open>
  What the access checks of the HTTP interface guarantee: with which actor a request goes on,
  that every refusal leaves one entry in the audit trail, which roles an action needs under
  any policy file that loads, and which files an artifact can name.
\<close>

section \<open>Roles and policies\<close>

definition has_role :: "actor_context \<Rightarrow> string list \<Rightarrow> bool" where
  "has_role actor roles \<longleftrightarrow> (\<exists>role \<in> set (act_roles actor). to_lower (trim_space role) \<in> set roles)"

lemma can_write_iff:
  "actor_can_write actor \<longleftrightarrow> has_role actor [''owner'', ''admin'', ''member'', ''editor'', ''writer'']"
proof -
  have "actor_can_write_roles rs \<longleftrightarrow>
      (\<exists>role \<in> set rs. to_lower (trim_space role) \<in> set [''owner'', ''admin'', ''member'', ''editor'', ''writer''])" for rs
    by (induction rs) auto
  then show ?thesis by (simp add: actor_can_write_def has_role_def)
qed

lemma can_admin_iff: "actor_can_admin actor \<longleftrightarrow> has_role actor [''owner'', ''admin'']"
proof -
  have "actor_can_admin_roles rs \<longleftrightarrow>
      (\<exists>role \<in> set rs. to_lower (trim_space role) \<in> set [''owner'', ''admin''])" for rs
    by (induction rs) auto
  then show ?thesis by (simp add: actor_can_admin_def has_role_def)
qed

definition known_requirements :: "action_requirement set" where
  "known_requirements = {require_write, require_project_admin, require_organization_admin}"

lemma requirements_distinct [simp]:
  "require_write \<noteq> require_project_admin" "require_write \<noteq> require_organization_admin"
  "require_project_admin \<noteq> require_organization_admin"
  by (simp_all add: require_write_def require_project_admin_def require_organization_admin_def)

lemma default_policy_entries:
  "default_action_policy '''' = None"
  "default_action_policy ''organization.member.upsert'' = Some require_organization_admin"
  by (simp_all add: default_action_policy_def)

lemma default_policy_known: "ran default_action_policy \<subseteq> known_requirements"
  by (auto simp: ran_def known_requirements_def default_action_policy_def dest!: map_of_SomeD)

lemma policy_loop_known:
  "policy_loop P entries policy = Inr loaded \<Longrightarrow> ran policy \<subseteq> known_requirements \<Longrightarrow>
   ran loaded \<subseteq> known_requirements"
proof (induction P entries policy rule: policy_loop.induct)
  case (2 P raw requirement rest policy)
  from 2(2) obtain parsed where p: "trim_space raw \<noteq> ''''" "parse_action_requirement requirement = Inr parsed"
    "policy_loop P rest (policy(trim_space raw \<mapsto> parsed)) = Inr loaded"
    by (auto simp: Let_def split: if_splits sum.splits)
  have "parsed \<in> known_requirements"
    using p(2) by (auto simp: parse_action_requirement_def known_requirements_def Let_def split: if_splits)
  then have "ran (policy(trim_space raw \<mapsto> parsed)) \<subseteq> known_requirements"
    using 2(3) by (auto simp: ran_def)
  with 2(1) [OF refl p(1) p(2) p(3)] show ?case .
qed simp

lemma loaded_policy_known:
  "load_action_policy_file P path = Inr policy \<Longrightarrow> ran policy \<subseteq> known_requirements"
  using default_policy_known policy_loop_known
  by (auto simp: load_action_policy_file_def Let_def split: if_splits sum.splits)

definition roles_for :: "action_requirement \<Rightarrow> string list" where
  "roles_for requirement =
     (if requirement = require_write then [''owner'', ''admin'', ''member'', ''editor'', ''writer'']
      else [''owner'', ''admin''])"

lemma authorize_known:
  assumes "requirement = (case policy (trim_space action) of Some c \<Rightarrow> c | None \<Rightarrow> fallback)"
    and "requirement \<in> known_requirements"
  shows "pdc_allowed (authorize policy actor action fallback) = has_role actor (roles_for requirement)"
    "\<not> pdc_allowed (authorize policy actor action fallback) \<Longrightarrow>
     pdc_required_roles (authorize policy actor action fallback) = roles_for requirement"
proof -
  have a: "authorize policy actor action fallback = authorize Map.empty actor action requirement"
    by (simp add: authorize_def Let_def assms(1))
  consider "requirement = require_write" | "requirement = require_project_admin"
    | "requirement = require_organization_admin" using assms(2) by (auto simp: known_requirements_def)
  then have *: "pdc_allowed (authorize policy actor action fallback) = has_role actor (roles_for requirement) \<and>
     (\<not> pdc_allowed (authorize policy actor action fallback) \<longrightarrow>
      pdc_required_roles (authorize policy actor action fallback) = roles_for requirement)"
    unfolding a by cases
      (simp_all add: authorize_def roles_for_def allowed_decision_def can_write_iff can_admin_iff
        requirements_distinct [symmetric])
  then show "pdc_allowed (authorize policy actor action fallback) = has_role actor (roles_for requirement)"
    "\<not> pdc_allowed (authorize policy actor action fallback) \<Longrightarrow>
     pdc_required_roles (authorize policy actor action fallback) = roles_for requirement" by blast+
qed

section \<open>Authentication\<close>

lemma audited: "s_audit_events (write_audit_event e rq actor action rtype rid run d reason meta s) =
    s_audit_events s @ [audit_event_from_input e (audit_entry rq actor action rtype rid run d reason meta)]"
  by (simp add: write_audit_event_def add_audit_event_def Let_def)

lemma audit_decision: "aud_decision (audit_event_from_input e (audit_entry rq actor action rtype rid run d reason meta)) = d"
  by (simp add: audit_event_from_input_def audit_entry_def)

definition refusal_audited :: "store \<Rightarrow> store \<Rightarrow> bool" where
  "refusal_audited s t \<longleftrightarrow>
     (\<exists>ev. s_audit_events t = s_audit_events s @ [ev] \<and> aud_decision ev = AuditDecisionDeny)"

lemma refusal_audit [simp]:
  "s_audit_events s0 = s_audit_events s \<Longrightarrow>
   refusal_audited s0 (audit_deny e rq actor action rtype rid run reason meta s)"
  by (simp add: refusal_audited_def audited audit_decision)

lemma bind_identity_frame: "bind_user_identity e i s = (res, t) \<Longrightarrow> s_audit_events t = s_audit_events s"
  by (auto simp: bind_user_identity_def Let_def split: if_splits option.splits)

lemma bind_identity_errors:
  "bind_user_identity e i s = (Inl err, t) \<Longrightarrow> t = s \<and> (err = ErrInvalidInput \<or> err = ErrIdentityConflict)"
  by (auto simp: bind_user_identity_def Let_def split: if_splits option.splits)

lemma bind_actor_refused:
  "bind_actor_identity es rq actor s = (Some rep, t) \<Longrightarrow> refusal_audited s t"
  by (auto simp: bind_actor_identity_def Let_def split: if_splits sum.splits prod.splits
      dest: bind_identity_errors)

text \<open>The identity an actor presents belongs to its user.\<close>

definition identity_is_own :: "store \<Rightarrow> actor_context \<Rightarrow> bool" where
  "identity_is_own s actor \<longleftrightarrow>
     (let provider = first_non_empty [trim_space (act_identity_provider actor), ''oidc''];
          i = trim_identity \<lparr>uid_id = '''', uid_user_id = act_user_id actor, uid_provider = provider,
            uid_issuer = act_identity_issuer actor, uid_subject = act_identity_subject actor,
            uid_email = act_email actor, uid_name = act_name actor, uid_created_at = 0, uid_updated_at = 0\<rparr>
      in \<exists>j. s_identities s (identity_key (uid_provider i) (uid_issuer i) (uid_subject i)) = Some j \<and>
           uid_user_id j = trim_space (act_user_id actor))"

lemma bound_identity:
  assumes "bind_user_identity e raw s = (Inr x, t)"
  shows "\<exists>j. s_identities t (identity_key (uid_provider (trim_identity raw))
      (uid_issuer (trim_identity raw)) (uid_subject (trim_identity raw))) = Some j \<and>
    uid_user_id j = trim_space (uid_user_id raw)"
  using assms by (auto simp: bind_user_identity_def trim_identity_def Let_def split: if_splits option.splits)

lemma bind_actor_accepted:
  assumes "bind_actor_identity es rq actor s = (None, t)"
  shows "s_audit_events t = s_audit_events s \<and>
    (if trim_space (act_identity_issuer actor) = '''' then trim_space (act_identity_subject actor) = ''''
     else trim_space (act_identity_subject actor) \<noteq> '''' \<and> identity_is_own t actor)"
proof (cases "trim_space (act_identity_issuer actor) = '''' \<and> trim_space (act_identity_subject actor) = ''''")
  case True
  then show ?thesis using assms by (simp add: bind_actor_identity_def)
next
  case False
  then have some: "trim_space (act_identity_issuer actor) \<noteq> ''''" "trim_space (act_identity_subject actor) \<noteq> ''''"
    using assms by (auto simp: bind_actor_identity_def Let_def split: if_splits)
  obtain x where b: "bind_user_identity (es 0) \<lparr>uid_id = '''', uid_user_id = act_user_id actor,
      uid_provider = first_non_empty [trim_space (act_identity_provider actor), ''oidc''],
      uid_issuer = act_identity_issuer actor, uid_subject = act_identity_subject actor,
      uid_email = act_email actor, uid_name = act_name actor, uid_created_at = 0, uid_updated_at = 0\<rparr> s = (Inr x, t)"
    using assms some by (auto simp: bind_actor_identity_def Let_def split: if_splits sum.splits prod.splits)
  from bound_identity [OF b] bind_identity_frame [OF b] some
  show ?thesis by (simp add: identity_is_own_def Let_def)
qed

lemma authenticate_frame:
  "authenticate mode L es rq s = (Inr actor, t) \<Longrightarrow> t = s"
  "authenticate mode L es rq s = (Inl rep, t) \<Longrightarrow> rep = Reply 401 ''unauthorized'' \<and> refusal_audited s t"
  by (auto simp: authenticate_def Let_def split: if_splits option.splits sum.splits)

text \<open>The actor the request claims, before its membership is looked up.\<close>

definition claimed_actor :: "string \<Rightarrow> oidc_lib \<Rightarrow> api_request \<Rightarrow> store \<Rightarrow> actor_context \<Rightarrow> bool" where
  "claimed_actor mode L rq s actor \<longleftrightarrow>
     mode = ''trusted-header'' \<and> actor_from_trusted_headers rq = Some actor \<or>
     mode = ''oidc'' \<and> actor_from_oidc_request L rq s = Inr actor"

lemma authenticate_claims:
  "authenticate mode L es rq s = (Inr actor, t) \<Longrightarrow> claimed_actor mode L rq s actor"
  by (auto simp: authenticate_def claimed_actor_def Let_def split: if_splits option.splits sum.splits)

lemma membership_refused:
  "authorize_membership e rq raw s = (Inl rep, t) \<Longrightarrow> refusal_audited s t"
  by (auto simp: authorize_membership_def Let_def split: if_splits)

lemma membership_accepted:
  "authorize_membership e rq raw s = (Inr ctx, t) \<Longrightarrow>
   t = s \<and> ctx = Some (raw\<lparr>act_roles := if act_roles raw = [] then load_persistent_actor_roles raw (arq_path rq) s
                          else act_roles raw\<rparr>) \<and>
   (invitation_accept_path (arq_path rq) \<or> (\<exists>a. ctx = Some a \<and> act_roles a \<noteq> []))"
  by (auto simp: authorize_membership_def Let_def split: if_splits)

lemma refusal_audited_later:
  "refusal_audited s t \<Longrightarrow> s_audit_events s = s_audit_events r \<Longrightarrow> refusal_audited r t"
  by (simp add: refusal_audited_def)

lemma with_actor_parts:
  assumes "with_actor mode L es rq s = (res, t)" "external_auth_required (arq_path rq)" "mode \<noteq> ''demo''"
  obtains (refused) rep where "authenticate mode L es rq s = (Inl rep, t)" "res = Inl rep"
  | (unbound) actor rep where "authenticate mode L es rq s = (Inr actor, s)"
      "bind_actor_identity (\<lambda>i. es (i + 1)) rq actor s = (Some rep, t)" "res = Inl rep"
  | (bound) actor s2 where "authenticate mode L es rq s = (Inr actor, s)"
      "bind_actor_identity (\<lambda>i. es (i + 1)) rq actor s = (None, s2)"
      "authorize_membership (es 3) rq actor s2 = (res, t)"
proof -
  obtain ra s1 where a: "authenticate mode L es rq s = (ra, s1)" by fastforce
  show ?thesis
  proof (cases ra)
    case (Inl rep)
    then show ?thesis using refused assms a by (simp add: with_actor_def)
  next
    case (Inr actor)
    then have s1: "s1 = s" using a authenticate_frame(1) by blast
    obtain rb s2 where b: "bind_actor_identity (\<lambda>i. es (i + 1)) rq actor s = (rb, s2)" by fastforce
    then show ?thesis using unbound bound assms a Inr s1 by (cases rb) (simp_all add: with_actor_def)
  qed
qed

section \<open>A concrete request\<close>

definition sample_headers :: "string \<Rightarrow> string" where
  "sample_headers = map_get '''' [''X-User-ID'' \<mapsto> ''u'', ''X-Project-ID'' \<mapsto> ''p'', ''X-Org-ID'' \<mapsto> ''o'']"

definition sample_request :: "string \<Rightarrow> api_request" where
  "sample_request path = \<lparr>arq_path = path, arq_header = sample_headers, arq_remote_addr = '''',
     arq_user_agent = '''', arq_request_id = '''', arq_trace_id = ''''\<rparr>"

definition sample_claim :: actor_context where
  "sample_claim = zero_actor\<lparr>act_user_id := ''u'', act_project_id := ''p'', act_org_id := ''o''\<rparr>"

lemma trim_short [simp]: "trim_space ''u'' = ''u''" "trim_space ''p'' = ''p''" "trim_space ''o'' = ''o''"
  "trim_space '''' = ''''" "trim_space ''oidc'' = ''oidc''"
  by (simp_all add: trim_graphic graphic_def)

lemma sample_actor_headers: "actor_from_trusted_headers (sample_request path) = Some sample_claim"
  by (simp add: actor_from_trusted_headers_def sample_request_def sample_headers_def first_header_def
      map_get_def sample_claim_def zero_actor_def split_csv_def)

definition no_oidc :: oidc_lib where
  "no_oidc = \<lparr>oid_verify = None, oid_session = (\<lambda>rq s. Inl '''')\<rparr>"

lemma sample_roles:
  "list_organization_roles ''u'' ''o'' (set_project_role ''u'' ''p'' ''owner'' (new_store 0)) = []"
  "list_project_roles ''u'' ''p'' (set_project_role ''u'' ''p'' ''owner'' (new_store 0)) = [''owner'']"
  by (simp_all add: list_organization_roles_def list_project_roles_def set_project_role_def new_store_def
      map_get_def org_role_key_def project_role_key_def)

lemma sample_new:
  "list_organization_roles ''u'' ''o'' (new_store 0) = []" "list_project_roles ''u'' ''p'' (new_store 0) = []"
  "project_belongs_to_organization ''p'' ''o'' (new_store 0) = False"
  by (simp_all add: list_organization_roles_def list_project_roles_def new_store_def map_get_def
      org_role_key_def project_role_key_def project_belongs_to_organization_def)

lemma sample_log: "s_audit_events (new_store 0) = []"
  by (simp add: new_store_def)

lemma sample_paths [simp]:
  "external_auth_required ''/api/chats''" "\<not> has_prefix ''/api/chats'' ''/api/organizations/''"
  "\<not> invitation_accept_path ''/api/chats''"
  by (simp_all add: external_auth_required_def has_prefix_def invitation_accept_path_def)

definition demo_envs :: "nat \<Rightarrow> env" where "demo_envs i = demo_env (int i)"

lemma sample_claim_simps [simp]:
  "act_user_id sample_claim = ''u''" "act_project_id sample_claim = ''p''" "act_org_id sample_claim = ''o''"
  "act_roles sample_claim = []" "act_identity_issuer sample_claim = ''''"
  "act_identity_subject sample_claim = ''''"
  by (simp_all add: sample_claim_def zero_actor_def)

lemma sample_request_simps [simp]: "arq_path (sample_request path) = path"
  by (simp add: sample_request_def)

lemma sample_owner: "to_lower (trim_space ''owner'') = ''owner''"
  by (simp add: trim_graphic graphic_def)
    (subst to_lower_ascii; simp add: bytes_def char_of_def lower_char_def)+

section \<open>Properties\<close>

text \<open>C15. With trusted headers or OIDC a request to the API goes on only as the actor it
  claims, with the roles the gateway or token states or, when it states none, those of its
  membership; a request without any role goes on only to accept an invitation. An identity is
  presented with both issuer and subject or not at all, and belongs to that actor's user.\<close>

theorem request_goes_on_as:
  assumes "external_auth_required (arq_path rq)" "mode \<noteq> ''demo''"
    and "with_actor mode L es rq s = (Inr ctx, t)"
  shows "\<exists>claimed roles. ctx = Some (claimed\<lparr>act_roles := roles\<rparr>) \<and> claimed_actor mode L rq s claimed \<and>
    roles = (if act_roles claimed = [] then load_persistent_actor_roles claimed (arq_path rq) t
             else act_roles claimed) \<and>
    (roles \<noteq> [] \<or> invitation_accept_path (arq_path rq)) \<and>
    (if trim_space (act_identity_issuer claimed) = '''' then trim_space (act_identity_subject claimed) = ''''
     else trim_space (act_identity_subject claimed) \<noteq> '''' \<and> identity_is_own t claimed)"
  using assms(3,1,2)
proof (cases rule: with_actor_parts)
  case (bound actor s2)
  note membership_accepted [OF bound(3)] and bind_actor_accepted [OF bound(2)]
  then show ?thesis using authenticate_claims [OF bound(1)] by (intro exI [of _ actor]) auto
qed simp_all

theorem request_goes_on_as_witness:
  "act_roles (the (projr (fst (with_actor ''trusted-header'' no_oidc demo_envs (sample_request ''/api/chats'')
     (set_project_role ''u'' ''p'' ''owner'' (new_store 0)))))) = [''owner'']"
proof -
  obtain ctx t where w: "with_actor ''trusted-header'' no_oidc demo_envs (sample_request ''/api/chats'')
      (set_project_role ''u'' ''p'' ''owner'' (new_store 0)) = (Inr ctx, t)" "t = set_project_role ''u'' ''p'' ''owner'' (new_store 0)"
    by (simp add: with_actor_def authenticate_def sample_actor_headers bind_actor_identity_def
        authorize_membership_def load_persistent_actor_roles_def sample_roles)
  from request_goes_on_as [OF _ _ w(1)] show ?thesis
    using w by (auto simp: claimed_actor_def sample_actor_headers load_persistent_actor_roles_def
        sample_roles)
qed

text \<open>C16. Every request to the API that is refused leaves exactly one entry in the audit trail,
  and its decision is deny.\<close>

theorem refusal_is_audited:
  assumes "external_auth_required (arq_path rq)" "mode \<noteq> ''demo''"
    and "with_actor mode L es rq s = (Inl rep, t)"
  shows "\<exists>ev. s_audit_events t = s_audit_events s @ [ev] \<and> aud_decision ev = AuditDecisionDeny"
  using assms(3,1,2)
proof (cases rule: with_actor_parts)
  case (refused rep)
  then show ?thesis using authenticate_frame(2) by (auto simp: refusal_audited_def)
next
  case (unbound actor rep)
  then show ?thesis using bind_actor_refused by (auto simp: refusal_audited_def)
next
  case (bound actor s2)
  from membership_refused [OF bound(3)] bind_actor_accepted [OF bound(2)] show ?thesis
    by (simp add: refusal_audited_def)
qed

theorem refusal_is_audited_witness:
  "\<exists>ev. s_audit_events (snd (with_actor ''trusted-header'' no_oidc demo_envs (sample_request ''/api/chats'') (new_store 0))) =
     [ev] \<and> aud_decision ev = AuditDecisionDeny"
proof -
  obtain rep t where w: "with_actor ''trusted-header'' no_oidc demo_envs (sample_request ''/api/chats'') (new_store 0) =
      (Inl rep, t)"
    by (simp add: with_actor_def authenticate_def sample_actor_headers bind_actor_identity_def
        authorize_membership_def load_persistent_actor_roles_def sample_new)
  from refusal_is_audited [OF _ _ w] show ?thesis
    by (simp add: w sample_log)
qed

text \<open>Under every policy file that loads, an action is allowed exactly to the actors with one
  of the roles its requirement names, the requirement of the file or else the default one, or
  else that of the handler; a refusal names those roles, and no action ends up without a
  requirement.\<close>

theorem action_allowed_iff_role:
  assumes "load_action_policy_file P path = Inr policy" "fallback \<in> known_requirements"
    and "requirement = (case policy (trim_space action) of Some c \<Rightarrow> c | None \<Rightarrow> fallback)"
  shows "pdc_allowed (authorize policy actor action fallback) = has_role actor (roles_for requirement) \<and>
    (pdc_allowed (authorize policy actor action fallback) \<or>
     pdc_required_roles (authorize policy actor action fallback) = roles_for requirement)"
proof -
  have "requirement \<in> known_requirements"
    using loaded_policy_known [OF assms(1)] assms(2,3) by (auto simp: ran_def split: option.splits)
  note known = authorize_known [where policy = policy and action = action and fallback = fallback, OF assms(3) this]
  show ?thesis using known by blast
qed

theorem action_allowed_iff_role_witness:
  "pdc_required_roles (authorize default_action_policy sample_claim '''' require_write) =
     [''owner'', ''admin'', ''member'', ''editor'', ''writer'']"
proof -
  have "load_action_policy_file P '''' = Inr default_action_policy" for P
    by (simp add: load_action_policy_file_def)
  from action_allowed_iff_role [OF this, of require_write require_write "''''" sample_claim] show ?thesis
    by (auto simp: known_requirements_def default_policy_entries roles_for_def has_role_def)
qed

text \<open>C17. The path of an artifact is accepted exactly when a walk along it never leaves the
  directory of the workspace and arrives in its \<open>output\<close> directory; the path used is the place
  where the walk arrives.\<close>

theorem artifact_path_stays_inside:
  assumes "path = trim_space raw" "path \<noteq> ''''" "\<not> is_abs path"
  shows "clean_artifact_path raw = Inr clean \<longleftrightarrow>
    (\<exists>ds. walk [] (split_on slash path) = Some (''output'' # ds) \<and>
       clean = join_with [slash] (''output'' # ds))"
proof -
  let ?es = "clean_elements False path"
  have out: "element ''output''" by (simp add: element_def slash_def)
  have dots: "element ''..''" using slash_dots by (simp add: element_def)
  have c: "clean_artifact_path raw = Inr clean \<longleftrightarrow> ?es \<noteq> [] \<and> hd ?es \<noteq> ''..'' \<and> hd ?es = ''output'' \<and>
      ''..'' \<notin> set ?es \<and> clean = join_with [slash] ?es"
  proof (cases "?es = []")
    case True
    then show ?thesis using assms by (simp add: clean_artifact_path_def clean_path_def)
  next
    case False
    have cp: "clean_path path = join_with [slash] ?es" using False assms(3) by (simp add: clean_path_def)
    have ne: "join_with [slash] ?es \<noteq> ''.''"
    proof
      assume "join_with [slash] ?es = ''.''"
      then have "?es = split_on slash ''.''" using split_clean [OF False] by simp
      then have "?es = [''.'']" by (simp add: slash_def)
      then show False using elements_clean(2) [of "''.''" False path] by simp
    qed
    have "\<forall>p \<in> set ?es. element p" using elements_clean(1) by blast
    note h = join_hd [OF False this]
    have "(\<exists>part \<in> set ?es. part = ''.'' \<or> part = ''..'' \<or> part = '''') \<longleftrightarrow> ''..'' \<in> set ?es"
      using elements_clean [of _ False path] by (auto simp: element_def)
    moreover have "join_with [slash] ?es = ''..'' \<or> has_prefix (join_with [slash] ?es) ''../'' \<longleftrightarrow> hd ?es = ''..''"
      using h [OF dots] by (simp add: slash_def)
    moreover have "join_with [slash] ?es = ''output'' \<or> has_prefix (join_with [slash] ?es) ''output/'' \<longleftrightarrow>
        hd ?es = ''output''"
      using h [OF out] by (simp add: slash_def)
    ultimately have "clean_artifact_path raw =
        (if hd ?es = ''..'' then Inl ''artifact path escapes workspace root''
         else if ''..'' \<in> set ?es then Inl ''artifact path contains an unsafe segment''
         else if hd ?es \<noteq> ''output'' then Inl ''artifact path must be under workspace output''
         else Inr (join_with [slash] ?es))"
      using assms(2,3) ne
      unfolding clean_artifact_path_def Let_def assms(1) [symmetric] cp split_clean [OF False] by simp blast
    then show ?thesis using False by auto
  qed
  show ?thesis
  proof (cases "walk [] (split_on slash path)")
    case None
    then show ?thesis using walk_clean(2) [OF None] c by simp
  next
    case (Some ds)
    then show ?thesis using walk_clean(1) [OF Some] c by (cases ds) auto
  qed
qed

theorem artifact_path_stays_inside_witness:
  "clean_artifact_path ''output/../output/./a'' = Inr ''output/a''"
proof -
  have t: "''output/../output/./a'' = trim_space ''output/../output/./a''"
    by (rule sym, rule trim_graphic) (simp_all add: graphic_def)
  have "\<not> is_abs ''output/../output/./a''" by (simp add: is_abs_def has_prefix_def slash_def)
  from artifact_path_stays_inside [OF t _ this, of "''output/a''"] show ?thesis
    by (simp add: slash_def)
qed

text \<open>The organization routes do not insist on membership of the organization: an actor who
  is not a member of it, but owner or admin of the project in its headers, goes on with its
  project roles and may change the members of the organization in its headers.\<close>

theorem project_admin_administers_organization:
  assumes "actor_from_trusted_headers rq = Some a" "act_roles a = []"
    and "trim_space (act_identity_issuer a) = ''''" "trim_space (act_identity_subject a) = ''''"
    and "arq_path rq = ''/api/organizations/'' @ rest"
    and "list_organization_roles (act_user_id a) (act_org_id a) s = []"
    and "has_role (a\<lparr>act_roles := list_project_roles (act_user_id a) (act_project_id a) s\<rparr>) [''owner'', ''admin'']"
  shows "\<exists>b. with_actor ''trusted-header'' L es rq s = (Inr (Some b), s) \<and>
    act_user_id b = act_user_id a \<and> act_org_id b = act_org_id a \<and>
    require_action e default_action_policy rq b ''organization.member.upsert'' rtype rid run
      require_organization_admin s = (None, s)"
proof -
  let ?b = "a\<lparr>act_roles := list_project_roles (act_user_id a) (act_project_id a) s\<rparr>"
  have path: "external_auth_required (arq_path rq)"
    using assms(5) by (simp add: external_auth_required_def has_prefix_def starts_with_iff)
  have roles: "load_persistent_actor_roles a (arq_path rq) s = act_roles ?b" "act_roles ?b \<noteq> []"
    using assms(6,7) by (auto simp: load_persistent_actor_roles_def Let_def has_role_def)
  have "with_actor ''trusted-header'' L es rq s = (Inr (Some ?b), s)"
    using assms(1-4) path roles
    by (simp add: with_actor_def authenticate_def bind_actor_identity_def authorize_membership_def)
  moreover have "pdc_allowed (authorize default_action_policy ?b ''organization.member.upsert'' require_organization_admin)"
  proof -
    have "trim_space ''organization.member.upsert'' = ''organization.member.upsert''"
      by (rule trim_graphic) (simp_all add: graphic_def)
    then have "(case default_action_policy (trim_space ''organization.member.upsert'') of
        Some c \<Rightarrow> c | None \<Rightarrow> require_organization_admin) = require_organization_admin"
      by (simp add: default_policy_entries)
    from authorize_known(1) [where policy = default_action_policy and actor = ?b and fallback = require_organization_admin
        and action = "''organization.member.upsert''", OF this [symmetric]] assms(7) show ?thesis
      by (simp add: known_requirements_def roles_for_def requirements_distinct [symmetric])
  qed
  ultimately show ?thesis by (intro exI [of _ ?b]) (simp add: require_action_def)
qed

theorem project_admin_administers_organization_witness:
  "\<exists>b. with_actor ''trusted-header'' no_oidc demo_envs (sample_request ''/api/organizations/o/members'')
       (set_project_role ''u'' ''p'' ''owner'' (new_store 0)) =
       (Inr (Some b), set_project_role ''u'' ''p'' ''owner'' (new_store 0)) \<and> act_org_id b = ''o''"
proof -
  have "has_role (sample_claim\<lparr>act_roles := list_project_roles (act_user_id sample_claim) (act_project_id sample_claim)
      (set_project_role ''u'' ''p'' ''owner'' (new_store 0))\<rparr>) [''owner'', ''admin'']"
    by (simp add: has_role_def sample_roles sample_owner)
  from project_admin_administers_organization [OF sample_actor_headers _ _ _ _ _ this,
      where rest = "''o/members''"]
  show ?thesis by (fastforce simp: sample_roles)
qed

end
