(* ===== verification/Admission.thy ===== *)
theory Admission
  imports Access Decorators
begin

text \<open>
  How a message becomes a run (services/control-plane/internal/httpapi/server.go): the quota
  checks over the store (\<open>checkRunQuota\<close>, \<open>checkDailyUsageQuota\<close>), the reservation with the
  limiter, and \<open>createMessage\<close>, which queues the run, commits the reservation, dispatches the
  run and takes everything back when a step fails. The handler acts on the state of the whole
  control plane: the store, the counters of the limiter and the bus of the event fan-out, under
  the repositories main.go wraps around the store. The dispatcher and the token estimator are
  parameters; \<open>es i\<close> is the environment and \<open>os i\<close> the iteration order of the \<open>i\<close>-th operation.
\<close>

section \<open>The control plane\<close>

type_synonym ('c, 'b) plane = "(store \<times> 'c) \<times> 'b"

record run_quota =
  rqt_max_concurrent_runs :: int
  rqt_max_runs_per_hour :: int
  rqt_max_tokens_per_day :: int
  rqt_max_tool_calls_per_day :: int
  rqt_max_sandbox_seconds_per_day :: int

record token_reservation_options =
  tro_mode :: string
  tro_output_buffer :: int
  tro_model :: string

definition normalize_token_reservation_options ::
  "token_reservation_options \<Rightarrow> token_reservation_options" where
  "normalize_token_reservation_options opts =
     (let o1 = opts\<lparr>tro_mode := (if to_lower (trim_space (tro_mode opts)) = ''dynamic''
                               then ''dynamic'' else ''fixed'')\<rparr>
      in if tro_output_buffer o1 < 0 then o1\<lparr>tro_output_buffer := 0\<rparr> else o1)"

record ('c, 'b) server =
  srv_limiter :: "'c limiter option"
  srv_codec :: marker_codec
  srv_bus :: "'b nudge_publish option"
  srv_run_quota :: run_quota
  srv_token_reservation :: token_reservation_options
  srv_action_policy :: action_policy
  srv_estimate :: "string \<Rightarrow> string \<Rightarrow> int"
  srv_round :: "rat \<Rightarrow> rat"
  srv_internal_token :: string
  srv_control_plane_url :: string
  srv_artifact_retention :: duration
  srv_artifact_cleanup_files :: bool

text \<open>The repository of the server; its other methods are those of the store.\<close>

definition plane_repository :: "('c, 'b) server \<Rightarrow> ('c, 'b) plane repository" where
  "plane_repository S =
     fanout_repository (srv_bus S) (new_releasing_repository (srv_codec S) (srv_limiter S) store_repository)"

definition plane_store :: "('c, 'b) plane \<Rightarrow> store" where "plane_store d = fst (fst d)"

definition on_store :: "(store \<Rightarrow> 'a \<times> store) \<Rightarrow> ('c, 'b) plane \<Rightarrow> 'a \<times> ('c, 'b) plane" where
  "on_store f = with_right (with_right f)"

definition on_counters :: "('c \<Rightarrow> 'a \<times> 'c) \<Rightarrow> ('c, 'b) plane \<Rightarrow> 'a \<times> ('c, 'b) plane" where
  "on_counters f d = (case f (snd (fst d)) of (x, c) \<Rightarrow> (x, ((fst (fst d), c), snd d)))"

section \<open>Quota checks over the store\<close>

definition start_of_utc_day :: "gtime \<Rightarrow> gtime" where
  "start_of_utc_day t = t - t mod (24 * time_hour)"

definition effective_quota_policy :: "run_quota \<Rightarrow> string \<Rightarrow> store \<Rightarrow> quota_policy" where
  "effective_quota_policy rq project s =
     (case get_project_quota_policy project s of
        Some policy \<Rightarrow> policy
      | None \<Rightarrow> zero_quota_policy
          \<lparr>qpl_project_id := project, qpl_max_concurrent_runs := rqt_max_concurrent_runs rq,
           qpl_max_runs_per_hour := rqt_max_runs_per_hour rq,
           qpl_max_model_tokens_per_day := rqt_max_tokens_per_day rq,
           qpl_max_tool_calls_per_day := rqt_max_tool_calls_per_day rq,
           qpl_max_sandbox_seconds_per_day := rqt_max_sandbox_seconds_per_day rq\<rparr>)"

definition effective_runtime_policy :: "string \<Rightarrow> store \<Rightarrow> runtime_policy" where
  "effective_runtime_policy project s =
     (case get_project_runtime_policy project s of
        Some policy \<Rightarrow> policy
      | None \<Rightarrow> zero_runtime_policy\<lparr>rpl_project_id := project, rpl_skill_risk_policy := SkillRiskPolicyAllow\<rparr>)"

definition tool_calls_message :: string where
  "tool_calls_message = bytes
     [229, 183, 178, 232, 190, 190, 229, 136, 176, 229, 189, 147, 229, 137, 141,
      233, 161, 185, 231, 155, 174, 230, 175, 143, 230, 151, 165, 229, 183, 165,
      229, 133, 183, 232, 176, 131, 231, 148, 168, 228, 184, 138, 233, 153, 144,
      239, 188, 140, 232, 175, 183, 230, 152, 142, 229, 164, 169, 229, 134, 141,
      232, 175, 149, 227, 128, 130]"

definition sandbox_seconds_message :: string where
  "sandbox_seconds_message = bytes
     [229, 183, 178, 232, 190, 190, 229, 136, 176, 229, 189, 147, 229, 137, 141,
      233, 161, 185, 231, 155, 174, 230, 175, 143, 230, 151, 165, 32, 83, 97,
      110, 100, 98, 111, 120, 32, 230, 137, 167, 232, 161, 140, 230, 151, 182,
      233, 149, 191, 228, 184, 138, 233, 153, 144, 239, 188, 140, 232, 175, 183,
      230, 152, 142, 229, 164, 169, 229, 134, 141, 232, 175, 149, 227, 128, 130]"

definition store_denial :: "string \<Rightarrow> string \<Rightarrow> int \<Rightarrow> int \<Rightarrow> denial" where
  "store_denial text kind limit current =
     \<lparr>dny_message = text,
      dny_metadata = [(''quota'', VStr kind), (''limit'', VInt limit), (''current'', VInt current)]\<rparr>"

text \<open>Integer division in Go is rounded towards 0.\<close>

definition div_trunc :: "int \<Rightarrow> int \<Rightarrow> int" where
  "div_trunc a b = (if a < 0 then - ((- a) div b) else a div b)"

definition seconds_of_millis :: "int \<Rightarrow> int" where
  "seconds_of_millis ms = div_trunc (wrap64 (ms + 999)) 1000"

definition check_daily_usage_quota ::
  "(rat \<Rightarrow> rat) \<Rightarrow> string list \<Rightarrow> gtime \<Rightarrow> actor_context \<Rightarrow> quota_policy \<Rightarrow> store \<Rightarrow> denial option" where
  "check_daily_usage_quota rnd order now actor quota s =
     (if qpl_max_tool_calls_per_day quota \<le> 0 \<and> qpl_max_sandbox_seconds_per_day quota \<le> 0 then None
      else
        (let usage = sum_run_usage_since rnd order (act_user_id actor) (act_project_id actor)
               (start_of_utc_day now) s;
             current = seconds_of_millis (usg_sandbox_duration_millis usage)
         in if qpl_max_tool_calls_per_day quota > 0 \<and>
               usg_tool_calls usage \<ge> qpl_max_tool_calls_per_day quota then
              Some (store_denial tool_calls_message ''tool_calls_per_day''
                (qpl_max_tool_calls_per_day quota) (usg_tool_calls usage))
            else if qpl_max_sandbox_seconds_per_day quota > 0 \<and>
               current \<ge> qpl_max_sandbox_seconds_per_day quota then
              Some (store_denial sandbox_seconds_message ''sandbox_seconds_per_day''
                (qpl_max_sandbox_seconds_per_day quota) current)
            else None))"

definition check_daily_tokens ::
  "(rat \<Rightarrow> rat) \<Rightarrow> string list \<Rightarrow> gtime \<Rightarrow> actor_context \<Rightarrow> quota_policy \<Rightarrow> store \<Rightarrow> denial option" where
  "check_daily_tokens rnd order now actor quota s =
     (if qpl_max_model_tokens_per_day quota > 0 then
        (let current = sum_run_usage_tokens_since rnd order (act_user_id actor) (act_project_id actor)
               (start_of_utc_day now) s
         in if current \<ge> qpl_max_model_tokens_per_day quota then
              Some (store_denial tokens_message ''model_tokens_per_day''
                (qpl_max_model_tokens_per_day quota) current)
            else None)
      else None)"

definition check_run_quota ::
  "('c, 'b) server \<Rightarrow> (nat \<Rightarrow> env) \<Rightarrow> (nat \<Rightarrow> string list) \<Rightarrow> actor_context \<Rightarrow> store \<Rightarrow> denial option" where
  "check_run_quota S es os actor s =
     (let quota = effective_quota_policy (srv_run_quota S) (act_project_id actor) s;
          active = count_active_runs (os 0) (act_user_id actor) (act_project_id actor) s;
          created = count_runs_created_since (os 1) (act_user_id actor) (act_project_id actor)
            (e_now (es 1) - time_hour) s
      in if qpl_max_concurrent_runs quota > 0 \<and> active \<ge> qpl_max_concurrent_runs quota then
           Some (store_denial concurrent_message ''concurrent_runs'' (qpl_max_concurrent_runs quota) active)
         else if qpl_max_runs_per_hour quota > 0 \<and> created \<ge> qpl_max_runs_per_hour quota then
           Some (store_denial hourly_message ''runs_per_hour'' (qpl_max_runs_per_hour quota) created)
         else
           (case check_daily_tokens (srv_round S) (os 2) (e_now (es 2)) actor quota s of
              Some d \<Rightarrow> Some d
            | None \<Rightarrow> check_daily_usage_quota (srv_round S) (os 3) (e_now (es 3)) actor quota s))"

section \<open>The reservation\<close>

definition estimate_model_token_reservation :: "('c, 'b) server \<Rightarrow> string \<Rightarrow> int" where
  "estimate_model_token_reservation S user_message =
     (if tro_mode (srv_token_reservation S) \<noteq> ''dynamic'' then 0
      else
        (let estimate = wrap64 (srv_estimate S (trim_space user_message) (tro_model (srv_token_reservation S)) +
               tro_output_buffer (srv_token_reservation S))
         in if estimate < 1 then 1 else estimate))"

text \<open>The limiter of the repository is a \<open>HintedLimiter\<close>.\<close>

definition reserve_with_limiter ::
  "('c, 'b) server \<Rightarrow> 'c limiter \<Rightarrow> (nat \<Rightarrow> env) \<Rightarrow> actor_context \<Rightarrow> quota_policy \<Rightarrow> string \<Rightarrow> 'c
     \<Rightarrow> outcome result \<times> 'c" where
  "reserve_with_limiter S l es actor quota user_message c =
     reserve_run_with_hint l actor quota (estimate_model_token_reservation S user_message)
       (e_now (es 0)) (e_now (es 1)) c"

definition reserve_run_quota ::
  "('c, 'b) server \<Rightarrow> (nat \<Rightarrow> env) \<Rightarrow> (nat \<Rightarrow> string list) \<Rightarrow> actor_context \<Rightarrow> string \<Rightarrow> ('c, 'b) plane
     \<Rightarrow> outcome result \<times> ('c, 'b) plane" where
  "reserve_run_quota S es os actor user_message d =
     (let quota = effective_quota_policy (srv_run_quota S) (act_project_id actor) (plane_store d)
      in case check_daily_tokens (srv_round S) (os 0) (e_now (es 0)) actor quota (plane_store d) of
           Some n \<Rightarrow> (Inr (Refused n), d)
         | None \<Rightarrow>
             (case check_daily_usage_quota (srv_round S) (os 1) (e_now (es 1)) actor quota (plane_store d) of
                Some n \<Rightarrow> (Inr (Refused n), d)
              | None \<Rightarrow>
                  (case srv_limiter S of
                     Some l \<Rightarrow>
                       (case on_counters (reserve_with_limiter S l (\<lambda>i. es (i + 2)) actor quota user_message) d of
                          (Inr (Refused n), d1) \<Rightarrow>
                            (if dny_message n \<noteq> '''' then (Inr (Refused n), d1) else (Inr (Reserved None), d1))
                        | (res, d1) \<Rightarrow> (res, d1))
                   | None \<Rightarrow>
                       (case check_run_quota S (\<lambda>i. es (i + 2)) (\<lambda>i. os (i + 2)) actor (plane_store d) of
                          Some n \<Rightarrow> (Inr (Refused n), d)
                        | None \<Rightarrow> (Inr (Reserved None), d)))))"

section \<open>Creating a message\<close>

text \<open>The deferred rollback and the commit; no reservation does nothing. Errors of the rollback
  are ignored.\<close>

definition undo_reservation ::
  "('c, 'b) server \<Rightarrow> reservation option \<Rightarrow> ('c, 'b) plane \<Rightarrow> ('c, 'b) plane" where
  "undo_reservation S rsv d =
     (case (srv_limiter S, rsv) of
        (Some l, Some r) \<Rightarrow>
          (case lim_store l of
             Some st \<Rightarrow> snd (on_counters (\<lambda>c. case rollback st r c of (e, r', c') \<Rightarrow> (e, c')) d)
           | None \<Rightarrow> d)
      | _ \<Rightarrow> d)"

definition commit_reservation ::
  "('c, 'b) server \<Rightarrow> reservation option \<Rightarrow> string \<Rightarrow> ('c, 'b) plane
     \<Rightarrow> (app_error option \<times> reservation option) \<times> ('c, 'b) plane" where
  "commit_reservation S rsv rid d =
     (case (srv_limiter S, rsv) of
        (Some l, Some r) \<Rightarrow>
          (case lim_store l of
             Some st \<Rightarrow>
               on_counters (\<lambda>c. case commit (srv_codec S) st l rid r c of (e, r', c') \<Rightarrow> ((e, Some r'), c')) d
           | None \<Rightarrow> ((None, rsv), d))
      | _ \<Rightarrow> ((None, rsv), d))"

definition plane_audit ::
  "env \<Rightarrow> api_request \<Rightarrow> actor_context \<Rightarrow> string \<Rightarrow> string \<Rightarrow> string \<Rightarrow> string \<Rightarrow> audit_decision \<Rightarrow> string
     \<Rightarrow> metadata \<Rightarrow> ('c, 'b) plane \<Rightarrow> ('c, 'b) plane" where
  "plane_audit e rq actor action rtype rid run decision reason meta d =
     snd (on_store (\<lambda>s. ((), write_audit_event e rq actor action rtype rid run decision reason meta s)) d)"

text \<open>A run that could not be committed or dispatched fails; the results are dropped.\<close>

definition fail_new_run ::
  "('c, 'b) server \<Rightarrow> (nat \<Rightarrow> env) \<Rightarrow> string \<Rightarrow> string \<Rightarrow> app_error \<Rightarrow> ('c, 'b) plane \<Rightarrow> ('c, 'b) plane" where
  "fail_new_run S es rid text err d =
     snd (rep_add_event (plane_repository S) (es 1) rid EventRunFailed text
            (VMap [(''error'', VStr (error_text err))])
       (snd (rep_update_run_status (plane_repository S) (es 0) rid RunFailed (error_text err) d)))"

type_synonym ('c, 'b) dispatcher = "run \<Rightarrow> string \<Rightarrow> ('c, 'b) plane \<Rightarrow> app_error option \<times> ('c, 'b) plane"

definition dispatch_message ::
  "('c, 'b) server \<Rightarrow> ('c, 'b) dispatcher \<Rightarrow> (nat \<Rightarrow> env) \<Rightarrow> api_request \<Rightarrow> actor_context \<Rightarrow> string
     \<Rightarrow> string \<Rightarrow> reservation option \<Rightarrow> message \<Rightarrow> run \<Rightarrow> ('c, 'b) plane
     \<Rightarrow> (reply + message \<times> run) \<times> ('c, 'b) plane" where
  "dispatch_message S dispatch es rq actor cid content rsv msg r d =
     (let d1 = snd (rep_add_event (plane_repository S) (es 0) (run_id r) EventRunQueued
            ''Run queued by control plane.'' (VMap [(''message_id'', VStr (msg_id msg))]) d);
          d2 = plane_audit (es 1) rq actor ''run.create'' ''run'' (run_id r) (run_id r) AuditDecisionAllow ''''
            [(''chat_id'', VStr cid), (''message_id'', VStr (msg_id msg))] d1
      in case dispatch r content d2 of
           (None, d3) \<Rightarrow> (Inr (msg, r), d3)
         | (Some err, d3) \<Rightarrow>
             (Inl (Reply 503 ''run dispatch failed''),
              undo_reservation S rsv
                (plane_audit (es 4) rq actor ''run.dispatch'' ''run'' (run_id r) (run_id r) AuditDecisionDeny
                   ''run dispatch failed'' [(''error_class'', VStr ''dispatch_failed'')]
                   (fail_new_run S (\<lambda>i. es (i + 2)) (run_id r) ''Run dispatch failed.'' err d3))))"

definition queue_message ::
  "('c, 'b) server \<Rightarrow> ('c, 'b) dispatcher \<Rightarrow> (nat \<Rightarrow> env) \<Rightarrow> api_request \<Rightarrow> actor_context \<Rightarrow> string
     \<Rightarrow> string \<Rightarrow> reservation option \<Rightarrow> ('c, 'b) plane \<Rightarrow> (reply + message \<times> run) \<times> ('c, 'b) plane" where
  "queue_message S dispatch es rq actor cid content rsv d =
     (case on_store (add_user_message (es 0) cid (act_user_id actor) content) d of
        (Inl err, d1) \<Rightarrow> (Inl (store_error_reply err), undo_reservation S rsv d1)
      | (Inr (msg, r), d1) \<Rightarrow>
          (case commit_reservation S rsv (run_id r) d1 of
             ((Some err, rsv1), d2) \<Rightarrow>
               (Inl (Reply 503 ''quota reservation failed''),
                undo_reservation S rsv1
                  (plane_audit (es 3) rq actor ''quota.run.create'' ''run'' (run_id r) (run_id r)
                     AuditDecisionDeny ''quota reservation failed'' [(''error'', VStr (error_text err))]
                     (fail_new_run S (\<lambda>i. es (i + 1)) (run_id r) ''Run quota reservation failed.'' err d2)))
           | ((None, rsv1), d2) \<Rightarrow>
               dispatch_message S dispatch (\<lambda>i. es (i + 1)) rq actor cid content rsv1 msg r d2))"

text \<open>The body is \<open>None\<close> when it does not decode, else its content. Metrics are left out.\<close>

definition create_message ::
  "('c, 'b) server \<Rightarrow> ('c, 'b) dispatcher \<Rightarrow> (nat \<Rightarrow> env) \<Rightarrow> (nat \<Rightarrow> string list) \<Rightarrow> api_request
     \<Rightarrow> actor_context \<Rightarrow> string \<Rightarrow> string option \<Rightarrow> ('c, 'b) plane
     \<Rightarrow> (reply + message \<times> run) \<times> ('c, 'b) plane" where
  "create_message S dispatch es os rq actor cid body d =
     (case body of
        None \<Rightarrow> (Inl (Reply 400 ''invalid json body''), d)
      | Some raw \<Rightarrow>
          (let content = trim_space raw
           in if content = '''' then (Inl (Reply 400 ''content is required''), d)
              else if \<not> actor_can_read_chat_id actor cid (plane_store d) then
                (Inl (Reply 404 ''not found''),
                 plane_audit (es 0) rq actor ''message.create'' ''chat'' cid '''' AuditDecisionDeny
                   ''actor cannot write chat'' [] d)
              else
                (case on_store (require_action (es 0) (srv_action_policy S) rq actor ''message.create''
                         ''chat'' cid '''' require_write) d of
                   (Some rep, d1) \<Rightarrow> (Inl rep, d1)
                 | (None, d1) \<Rightarrow>
                     (case reserve_run_quota S (\<lambda>i. es (i + 1)) os actor content d1 of
                        (Inl err, d2) \<Rightarrow>
                          (Inl (Reply 503 ''quota backend unavailable''),
                           plane_audit (es 7) rq actor ''quota.run.create'' ''run'' cid '''' AuditDecisionDeny
                             ''quota backend unavailable'' [(''error'', VStr (error_text err))] d2)
                      | (Inr (Refused n), d2) \<Rightarrow>
                          (Inl (Reply 429 (dny_message n)),
                           plane_audit (es 7) rq actor ''quota.run.create'' ''run'' cid '''' AuditDecisionDeny
                             (dny_message n) (dny_metadata n) d2)
                      | (Inr (Reserved rsv), d2) \<Rightarrow>
                          queue_message S dispatch (\<lambda>i. es (i + 7)) rq actor cid content rsv d2))))"

end
