(* ===== verification/Artifact_Files.thy ===== *)
theory Artifact_Files
  imports Access "HOL-Library.Sublist"
begin

text \<open>
  The files behind the artifacts (services/control-plane/internal/httpapi/server.go):
  \<open>isTextArtifact\<close>, \<open>readArtifactTextResponse\<close> and \<open>deleteLocalArtifactFiles\<close>. The disk is a
  parameter: a state with the lookups of \<open>os\<close> and \<open>path/filepath\<close> the code uses, so that a
  removal changes what later lookups find. The table of MIME types is a parameter too.
\<close>

section \<open>The disk\<close>

datatype stat_result = StatMissing string | StatFailed string | StatRegular | StatIrregular

text \<open>\<open>dsk_open\<close> opens a file and reads it as a whole: the error of \<open>os.Open\<close> or \<open>Stat\<close>, or the
  kind of the file and its bytes or the error of reading them.\<close>

record 'f disk =
  dsk_view :: "'f \<Rightarrow> file_system"
  dsk_lstat :: "string \<Rightarrow> 'f \<Rightarrow> stat_result"
  dsk_remove :: "string \<Rightarrow> 'f \<Rightarrow> string option \<times> 'f"
  dsk_open :: "string \<Rightarrow> 'f \<Rightarrow> string + bool \<times> (string + string)"
  dsk_mime_type :: "string \<Rightarrow> string"

section \<open>Reading a text artifact\<close>

text \<open>\<open>filepath.Ext\<close>.\<close>

definition path_ext :: "string \<Rightarrow> string" where
  "path_ext p =
     (let rbase = takeWhile (\<lambda>c. c \<noteq> CHR ''/'') (rev p)
      in if CHR ''.'' \<in> set rbase then CHR ''.'' # rev (takeWhile (\<lambda>c. c \<noteq> CHR ''.'') rbase) else '''')"

definition is_text_artifact :: "(string \<Rightarrow> string) \<Rightarrow> artifact \<Rightarrow> string \<Rightarrow> bool" where
  "is_text_artifact mime_type a file_path =
     (let c0 = to_lower (trim_space (art_mime_type a));
          c1 = (if c0 = '''' then to_lower (mime_type (path_ext (first_non_empty [art_name a, file_path]))) else c0)
      in if has_prefix c1 ''text/'' then True
         else hd (split_on CHR '';'' c1) \<in> set
           [''application/json'', ''application/xml'', ''application/yaml'', ''application/x-yaml'',
            ''application/csv'', ''application/javascript''])"

record artifact_text =
  atx_artifact :: artifact
  atx_content :: string
  atx_truncated :: bool
  atx_bytes_read :: int

definition artifact_workspace :: "artifact \<Rightarrow> store \<Rightarrow> workspace result" where
  "artifact_workspace a s =
     get_workspace
       (if art_workspace_id a = '''' then
          (case get_run (art_run_id a) s of Inl err \<Rightarrow> '''' | Inr r \<Rightarrow> run_workspace_id r)
        else art_workspace_id a) s"

text \<open>\<open>io.LimitReader\<close> reads at most \<open>maxBytes + 1\<close> bytes.\<close>

definition read_artifact_text ::
  "'f disk \<Rightarrow> artifact \<Rightarrow> int \<Rightarrow> store \<Rightarrow> 'f \<Rightarrow> string + artifact_text" where
  "read_artifact_text D a max_bytes s f =
     (case artifact_workspace a s of
        Inl err \<Rightarrow> Inl (error_text err)
      | Inr w \<Rightarrow>
          (case resolve_artifact_download_path (dsk_view D f) w a of
             Inl err \<Rightarrow> Inl err
           | Inr file_path \<Rightarrow>
               if \<not> is_text_artifact (dsk_mime_type D) a file_path then
                 Inl ''artifact is not a supported text file''
               else
                 (case dsk_open D file_path f of
                    Inl err \<Rightarrow> Inl err
                  | Inr (regular, contents) \<Rightarrow>
                      if \<not> regular then Inl ''artifact is not a regular file''
                      else
                        (case contents of
                           Inl err \<Rightarrow> Inl err
                         | Inr body \<Rightarrow>
                             (let data = take (nat (max_bytes + 1)) body;
                                  truncated = int (length data) > max_bytes;
                                  shown = (if truncated then take (nat max_bytes) data else data)
                              in Inr \<lparr>atx_artifact = a, atx_content = shown, atx_truncated = truncated,
                                      atx_bytes_read = int (length shown)\<rparr>)))))"

section \<open>Deleting the files of artifacts\<close>

text \<open>What becomes of the file of one artifact: nothing to do, an error for the report, or its
  path for \<open>os.Remove\<close>.\<close>

datatype file_plan = SkipFile | ReportFile string | RemoveFile string

definition plan_artifact_file :: "'f disk \<Rightarrow> store \<Rightarrow> 'f \<Rightarrow> artifact \<Rightarrow> file_plan" where
  "plan_artifact_file D s f a =
     (if art_path a = '''' then SkipFile
      else if trim_space (art_storage_backend a) \<noteq> '''' \<and> trim_space (art_storage_backend a) \<noteq> ''local''
      then SkipFile
      else
        (case get_workspace (art_workspace_id a) s of
           Inl err \<Rightarrow> ReportFile (art_id a @ '': workspace unavailable'')
         | Inr w \<Rightarrow>
             (case resolve_artifact_download_path (dsk_view D f) w a of
                Inl err \<Rightarrow>
                  if sublist ''artifact file is unavailable'' err then SkipFile
                  else ReportFile (art_id a @ '': '' @ err)
              | Inr file_path \<Rightarrow>
                  (case dsk_lstat D file_path f of
                     StatMissing err \<Rightarrow> SkipFile
                   | StatFailed err \<Rightarrow> ReportFile (art_id a @ '': '' @ err)
                   | StatIrregular \<Rightarrow> ReportFile (art_id a @ '': artifact file is not regular'')
                   | StatRegular \<Rightarrow> RemoveFile file_path))))"

fun delete_files_loop ::
  "'f disk \<Rightarrow> store \<Rightarrow> artifact list \<Rightarrow> int \<Rightarrow> string list \<Rightarrow> 'f \<Rightarrow> (int \<times> string list) \<times> 'f" where
  "delete_files_loop D s [] deleted errs f = ((deleted, errs), f)"
| "delete_files_loop D s (a # as) deleted errs f =
     (case plan_artifact_file D s f a of
        SkipFile \<Rightarrow> delete_files_loop D s as deleted errs f
      | ReportFile e \<Rightarrow> delete_files_loop D s as deleted (errs @ [e]) f
      | RemoveFile p \<Rightarrow>
          (case dsk_remove D p f of
             (Some err, f1) \<Rightarrow> delete_files_loop D s as deleted (errs @ [art_id a @ '': '' @ err]) f1
           | (None, f1) \<Rightarrow> delete_files_loop D s as (deleted + 1) errs f1))"

definition delete_local_artifact_files ::
  "'f disk \<Rightarrow> store \<Rightarrow> artifact list \<Rightarrow> 'f \<Rightarrow> (int \<times> string list) \<times> 'f" where
  "delete_local_artifact_files D s as f = delete_files_loop D s as 0 [] f"

end
