(* ===== verification/Internal_Api.thy ===== *)
theory Internal_Api
  imports Admission Artifact_Files Dispatch
begin

text \<open>
  The interface of the control plane for the agent runtime: the handlers below /internal/ of
  services/control-plane/internal/httpapi/server.go. A worker claims a run, fetches its
  execution context, writes events and artifacts, reserves tool quota and reports the outcome;
  every handler that writes first asks \<open>CheckRunAttempt\<close> whether the caller still holds the
  run. The handlers act on the state of the control plane; the two that touch files act on the
  disk too. The JSON decoder is a parameter: of a body it yields the struct, or \<open>None\<close> when it
  does not decode. A successful handler answers a status and a body.
\<close>

section \<open>Requests and answers\<close>

record api_call =
  htr_api :: api_request
  htr_method :: string
  htr_query :: "string \<Rightarrow> string"
  htr_host :: string
  htr_tls :: bool
  htr_body :: string

record claim_body =
  clb_attempt_id :: string
  clb_claimed_by :: string
  clb_lease_seconds :: int

record event_body =
  evb_type :: run_event_type
  evb_message :: string
  evb_payload :: goval
  evb_attempt_id :: string

record complete_body =
  cmb_content :: string
  cmb_input_tokens :: int
  cmb_output_tokens :: int
  cmb_usage :: run_usage
  cmb_attempt_id :: string
  cmb_artifacts :: "artifact list"

record fail_body =
  flb_error :: string
  flb_attempt_id :: string

record artifacts_body =
  arb_attempt_id :: string
  arb_artifacts :: "artifact list"

record quota_body =
  qtb_attempt_id :: string
  qtb_skill_id :: string
  qtb_tool_calls :: int
  qtb_sandbox_seconds :: int

record cleanup_body =
  cub_limit :: int
  cub_delete_files :: bool

text \<open>An empty body decodes to \<open>io.EOF\<close>, which the cleanup accepts: its struct is then zero.\<close>

record json_lib =
  jsn_claim :: "string \<Rightarrow> claim_body option"
  jsn_event :: "string \<Rightarrow> event_body option"
  jsn_complete :: "string \<Rightarrow> complete_body option"
  jsn_fail :: "string \<Rightarrow> fail_body option"
  jsn_artifacts :: "string \<Rightarrow> artifacts_body option"
  jsn_quota :: "string \<Rightarrow> quota_body option"
  jsn_cleanup :: "string \<Rightarrow> cleanup_body option"

record tool_quota_answer =
  tqa_allowed :: bool
  tqa_message :: string
  tqa_quota :: string
  tqa_usage :: run_usage

datatype answer =
    RunAnswer run
  | ClaimAnswer run
  | StatusAnswer run
  | ContextAnswer run_execution_request
  | QuotaAnswer tool_quota_answer
  | EventAnswer run_event
  | ArtifactsAnswer "artifact list"
  | CleanupAnswer "artifact list" int "string list"
  | TextAnswer artifact_text

type_synonym answered = "reply + int \<times> answer"

abbreviation invalid_body :: answered where "invalid_body \<equiv> Inl (Reply 400 ''invalid json body'')"

abbreviation attempt_query :: "api_call \<Rightarrow> string" where
  "attempt_query h \<equiv> htr_query h ''attempt_id''"

definition split_path :: "string \<Rightarrow> string list" where
  "split_path path = filter (\<lambda>p. p \<noteq> '''')
     (split_on slash (dropWhile (\<lambda>c. c = slash) (rev (dropWhile (\<lambda>c. c = slash) (rev path)))))"

definition parse_int_bounded :: "string \<Rightarrow> int \<Rightarrow> int \<Rightarrow> int \<Rightarrow> int" where
  "parse_int_bounded value fallback lo hi =
     (if trim_space value = '''' then fallback
      else
        (case parse_int64 value of
           (n, ok) \<Rightarrow> if \<not> ok then fallback else if n < lo then lo else if n > hi then hi else n))"

definition authorize_internal :: "('c, 'b) server \<Rightarrow> api_call \<Rightarrow> reply option" where
  "authorize_internal S h =
     (if srv_internal_token S = '''' then None
      else if arq_header (htr_api h) ''Authorization'' = ''Bearer '' @ srv_internal_token S then None
      else Some (Reply 401 ''unauthorized''))"

section \<open>Claiming a run and its execution context\<close>

definition default_attempt_lease_seconds :: int where "default_attempt_lease_seconds = 600"

text \<open>A duration is an int64: a huge number of seconds wraps.\<close>

definition lease_end :: "gtime \<Rightarrow> int \<Rightarrow> gtime" where
  "lease_end now seconds = now + wrap64 (seconds * time_second)"

definition internal_claim_run ::
  "json_lib \<Rightarrow> (nat \<Rightarrow> env) \<Rightarrow> api_call \<Rightarrow> string \<Rightarrow> ('c, 'b) plane \<Rightarrow> answered \<times> ('c, 'b) plane" where
  "internal_claim_run J es h rid d =
     (case jsn_claim J (htr_body h) of
        None \<Rightarrow> (invalid_body, d)
      | Some b \<Rightarrow>
          (let attempt = trim_space (clb_attempt_id b);
               seconds = (if clb_lease_seconds b \<le> 0 then default_attempt_lease_seconds
                          else clb_lease_seconds b)
           in if attempt = '''' then (Inl (Reply 400 ''attempt_id is required''), d)
              else
                (case on_store (claim_run_attempt (es 1) rid attempt (clb_claimed_by b)
                         (lease_end (e_now (es 0)) seconds)) d of
                   (Inl err, d1) \<Rightarrow> (Inl (store_error_reply err), d1)
                 | (Inr r, d1) \<Rightarrow> (Inr (200, ClaimAnswer r), d1))))"

definition user_message_for_run :: "message list \<Rightarrow> string \<Rightarrow> message option" where
  "user_message_for_run msgs rid =
     find (\<lambda>m. msg_run_id m = rid \<and> msg_role m = RoleUser) (rev msgs)"

definition public_control_plane_url :: "('c, 'b) server \<Rightarrow> (string \<Rightarrow> string) \<Rightarrow> api_call \<Rightarrow> string" where
  "public_control_plane_url S getenv h =
     (let env_url = rev (dropWhile (\<lambda>c. c = slash) (rev (getenv ''CONTROL_PLANE_PUBLIC_URL'')))
      in if srv_control_plane_url S \<noteq> '''' then srv_control_plane_url S
         else if env_url \<noteq> '''' then env_url
         else (if htr_tls h then ''https'' else ''http'') @ ''://'' @ htr_host h)"

definition internal_run_execution_context ::
  "('c, 'b) server \<Rightarrow> (string \<Rightarrow> string) \<Rightarrow> api_call \<Rightarrow> string \<Rightarrow> ('c, 'b) plane \<Rightarrow> answered" where
  "internal_run_execution_context S getenv h rid d =
     (let R = plane_repository S
      in case rep_get_run R rid d of
           Inl err \<Rightarrow> Inl (store_error_reply err)
         | Inr r \<Rightarrow>
             (case rep_get_chat R (run_chat_id r) d of
                Inl err \<Rightarrow> Inl (store_error_reply err)
              | Inr (chat, msgs) \<Rightarrow>
                  (case user_message_for_run msgs rid of
                     None \<Rightarrow> Inl (Reply 404 ''user message not found'')
                   | Some m \<Rightarrow>
                       (let skills = runtime_skills_for_run R r d
                        in Inr (200, ContextAnswer
                          \<lparr>rex_request =
                             \<lparr>rrq_run_id = run_id r, rrq_chat_id = run_chat_id r,
                              rrq_user_id = run_user_id r, rrq_workspace_id = run_workspace_id r,
                              rrq_attempt_id = first_non_empty [attempt_query h, run_attempt_id r],
                              rrq_skill_ids = skill_ids_from_runtime_skills skills,
                              rrq_skills = skills, rrq_model_policy = ''mock-default'',
                              rrq_skill_risk_policy = rpl_skill_risk_policy (runtime_policy_for_run R r d)\<rparr>,
                           rex_user_message = msg_content m,
                           rex_control_plane_url = public_control_plane_url S getenv h\<rparr>)))))"

section \<open>Tool quota\<close>

definition quota_refused :: "string \<Rightarrow> string \<Rightarrow> run_usage \<Rightarrow> answered" where
  "quota_refused text quota usage =
     Inr (200, QuotaAnswer \<lparr>tqa_allowed = False, tqa_message = text, tqa_quota = quota, tqa_usage = usage\<rparr>)"

text \<open>The usage of a run with the reserved calls; the additions wrap.\<close>

definition charge_tool :: "int \<Rightarrow> int \<Rightarrow> run_usage \<Rightarrow> run_usage" where
  "charge_tool calls seconds usage =
     (let u0 = normalize_run_usage usage;
          u1 = u0\<lparr>usg_tool_calls := wrap64 (usg_tool_calls u0 + calls)\<rparr>
      in if seconds > 0 then
           u1\<lparr>usg_sandbox_commands := wrap64 (usg_sandbox_commands u1 + 1),
              usg_sandbox_duration_millis :=
                wrap64 (usg_sandbox_duration_millis u1 + wrap64 (seconds * 1000))\<rparr>
         else u1)"

definition save_tool_charge ::
  "('c, 'b) server \<Rightarrow> string \<Rightarrow> int \<Rightarrow> int \<Rightarrow> ('c, 'b) plane \<Rightarrow> answered \<times> ('c, 'b) plane" where
  "save_tool_charge S rid calls seconds d =
     (let R = plane_repository S;
          found = (case rep_get_run_usage R rid d of
            Inl err \<Rightarrow> if err = ErrNotFound then Inr zero_run_usage else Inl err
          | Inr u \<Rightarrow> Inr u)
      in case found of
           Inl err \<Rightarrow> (Inl (store_error_reply err), d)
         | Inr u \<Rightarrow>
             (case rep_save_run_usage R rid (charge_tool calls seconds u) d of
                (Inl err, d1) \<Rightarrow> (Inl (store_error_reply err), d1)
              | (Inr saved, d1) \<Rightarrow>
                  (Inr (200, QuotaAnswer \<lparr>tqa_allowed = True, tqa_message = '''', tqa_quota = '''',
                     tqa_usage = saved\<rparr>), d1)))"

definition internal_reserve_tool_quota ::
  "('c, 'b) server \<Rightarrow> json_lib \<Rightarrow> (nat \<Rightarrow> env) \<Rightarrow> string list \<Rightarrow> api_call \<Rightarrow> string
     \<Rightarrow> ('c, 'b) plane \<Rightarrow> answered \<times> ('c, 'b) plane" where
  "internal_reserve_tool_quota S J es order h rid d =
     (case jsn_quota J (htr_body h) of
        None \<Rightarrow> (invalid_body, d)
      | Some b \<Rightarrow>
          if trim_space (qtb_skill_id b) = '''' then (Inl (Reply 400 ''skill_id is required''), d)
          else
            (let calls = (if qtb_tool_calls b \<le> 0 then 1 else qtb_tool_calls b);
                 seconds = (if qtb_sandbox_seconds b < 0 then 0 else qtb_sandbox_seconds b)
             in case check_run_attempt rid (qtb_attempt_id b) (plane_store d) of
                  Inl err \<Rightarrow> (Inl (store_error_reply err), d)
                | Inr r \<Rightarrow>
                    (case rep_get_chat (plane_repository S) (run_chat_id r) d of
                       Inl err \<Rightarrow> (Inl (store_error_reply err), d)
                     | Inr (chat, msgs) \<Rightarrow>
                         (let quota = effective_quota_policy (srv_run_quota S) (cht_project_id chat) (plane_store d);
                              current = sum_run_usage_since (srv_round S) order (run_user_id r)
                                (cht_project_id chat) (start_of_utc_day (e_now (es 0))) (plane_store d);
                              current_seconds = seconds_of_millis (usg_sandbox_duration_millis current)
                          in if qpl_max_tool_calls_per_day quota > 0 \<and>
                                wrap64 (usg_tool_calls current + calls) > qpl_max_tool_calls_per_day quota then
                               (quota_refused tool_calls_message ''tool_calls_per_day'' current, d)
                             else if qpl_max_sandbox_seconds_per_day quota > 0 \<and>
                                wrap64 (current_seconds + seconds) > qpl_max_sandbox_seconds_per_day quota then
                               (quota_refused sandbox_seconds_message ''sandbox_seconds_per_day'' current, d)
                             else save_tool_charge S rid calls seconds d))))"

section \<open>Events\<close>

fun string_value :: "goval option \<Rightarrow> string" where
  "string_value (Some (VStr s)) = s"
| "string_value v = ''''"

fun bool_value :: "goval option \<Rightarrow> bool option" where
  "bool_value (Some (VBool b)) = Some b"
| "bool_value v = None"

fun payload_map :: "goval \<Rightarrow> metadata" where
  "payload_map (VMap kvs) = kvs"
| "payload_map v = []"

text \<open>What the payload of a tool event says of the invocation: its status, the decision and
  reason of the audit entry, and the metadata both records share.\<close>

definition tool_event_skill :: "metadata \<Rightarrow> string" where
  "tool_event_skill kvs =
     first_non_empty [string_value (map_of kvs ''skill_id''), string_value (map_of kvs ''tool''), ''unknown'']"

definition tool_event_metadata :: "run_event \<Rightarrow> metadata \<Rightarrow> metadata" where
  "tool_event_metadata ev kvs =
     [(''event_id'', VStr (evt_id ev)), (''event_seq'', VInt (evt_seq ev))] @
     (let tool = string_value (map_of kvs ''tool'') in if tool \<noteq> '''' then [(''tool'', VStr tool)] else []) @
     (if evt_type ev = EventToolFinished then
        (case bool_value (map_of kvs ''ok'') of Some b \<Rightarrow> [(''ok'', VBool b)] | None \<Rightarrow> [])
      else [])"

definition tool_event_outcome ::
  "run_event \<Rightarrow> metadata \<Rightarrow> string \<times> invocation_status \<times> audit_decision \<times> string" where
  "tool_event_outcome ev kvs =
     (if evt_type ev = EventToolFinished then
        (if bool_value (map_of kvs ''ok'') = Some False then
           (''skill.invoke.finish'', SkillInvocationFailed, AuditDecisionDeny,
            ''skill invocation finished unsuccessfully'')
         else (''skill.invoke.finish'', SkillInvocationSucceeded, AuditDecisionAllow, ''''))
      else (''skill.invoke.start'', SkillInvocationStarted, AuditDecisionAllow, ''''))"

definition skill_invocation_input ::
  "api_request \<Rightarrow> actor_context \<Rightarrow> string \<Rightarrow> string \<Rightarrow> string \<Rightarrow> string \<Rightarrow> run_event \<Rightarrow> invocation_status
     \<Rightarrow> audit_decision \<Rightarrow> string \<Rightarrow> metadata \<Rightarrow> invocation_input" where
  "skill_invocation_input rq actor rid cid skill tool ev status decision reason meta =
     (let started = (evt_type ev = EventToolStarted)
      in \<lparr>ivn_run_id = rid, ivn_chat_id = cid, ivn_user_id = act_user_id actor,
          ivn_project_id = act_project_id actor, ivn_skill_id = skill, ivn_tool_name = tool,
          ivn_status = Some status, ivn_decision = Some decision, ivn_reason = reason,
          ivn_request_id = arq_request_id rq,
          ivn_trace_id = first_non_empty [arq_trace_id rq, first_header rq [''X-Trace-ID'', ''Traceparent'']],
          ivn_started_event_id = (if started then evt_id ev else ''''),
          ivn_started_event_seq = (if started then evt_seq ev else 0),
          ivn_finished_event_id = (if started then '''' else evt_id ev),
          ivn_finished_event_seq = (if started then 0 else evt_seq ev),
          ivn_duration_ms = 0, ivn_metadata = meta, ivn_event_created_at = evt_created_at ev\<rparr>)"

text \<open>An error of the record is logged only.\<close>

definition audit_internal_tool_event ::
  "('c, 'b) server \<Rightarrow> (nat \<Rightarrow> env) \<Rightarrow> api_request \<Rightarrow> string \<Rightarrow> run_event \<Rightarrow> goval \<Rightarrow> ('c, 'b) plane
     \<Rightarrow> ('c, 'b) plane" where
  "audit_internal_tool_event S es rq rid ev payload d =
     (if evt_type ev \<noteq> EventToolStarted \<and> evt_type ev \<noteq> EventToolFinished then d
      else
        (case rep_get_run (plane_repository S) rid d of
           Inl err \<Rightarrow> d
         | Inr r \<Rightarrow>
             (case rep_get_chat (plane_repository S) (run_chat_id r) d of
                Inl err \<Rightarrow> d
              | Inr (chat, msgs) \<Rightarrow>
                  (case tool_event_outcome ev (payload_map payload) of
                     (action, status, decision, reason) \<Rightarrow>
                       (let kvs = payload_map payload;
                            skill = tool_event_skill kvs;
                            meta = tool_event_metadata ev kvs;
                            actor = zero_actor\<lparr>act_user_id := run_user_id r, act_project_id := cht_project_id chat\<rparr>;
                            d1 = snd (on_store (record_skill_invocation (es 0)
                              (skill_invocation_input rq actor rid (cht_id chat) skill
                                 (string_value (map_of kvs ''tool'')) ev status decision reason meta)) d)
                        in plane_audit (es 1) rq actor action ''skill'' skill rid decision reason meta d1)))))"

definition internal_write_run_event ::
  "('c, 'b) server \<Rightarrow> json_lib \<Rightarrow> (nat \<Rightarrow> env) \<Rightarrow> api_call \<Rightarrow> string \<Rightarrow> ('c, 'b) plane
     \<Rightarrow> answered \<times> ('c, 'b) plane" where
  "internal_write_run_event S J es h rid d =
     (case jsn_event J (htr_body h) of
        None \<Rightarrow> (invalid_body, d)
      | Some b \<Rightarrow>
          if evb_type b = EventOther '''' then (Inl (Reply 400 ''type is required''), d)
          else
            (case check_run_attempt rid (evb_attempt_id b) (plane_store d) of
               Inl err \<Rightarrow> (Inl (store_error_reply err), d)
             | Inr r \<Rightarrow>
                 (case rep_add_event (plane_repository S) (es 0) rid (evb_type b) (evb_message b)
                         (evb_payload b) d of
                    (Inl err, d1) \<Rightarrow> (Inl (store_error_reply err), d1)
                  | (Inr ev, d1) \<Rightarrow>
                      (let d2 = audit_internal_tool_event S (\<lambda>i. es (i + 1)) (htr_api h) rid ev (evb_payload b) d1;
                           d3 = (if evb_type b = EventRunStarted then
                             snd (rep_update_run_status (plane_repository S) (es 3) rid RunRunning '''' d2) else d2);
                           d4 = (if evb_type b = EventApprovalNeeded then
                             snd (rep_update_run_status (plane_repository S) (es 4) rid RunWaitingForApproval '''' d3)
                             else d3)
                       in (Inr (201, EventAnswer ev), d4)))))"

section \<open>Artifacts\<close>

definition with_artifact_expiration :: "('c, 'b) server \<Rightarrow> gtime \<Rightarrow> artifact list \<Rightarrow> artifact list" where
  "with_artifact_expiration S now as =
     (if srv_artifact_retention S \<le> 0 \<or> as = [] then as
      else map (\<lambda>a. if art_expires_at a = None
                    then a\<lparr>art_expires_at := Some (now + srv_artifact_retention S)\<rparr> else a) as)"

definition internal_list_run_artifacts ::
  "env \<Rightarrow> string list \<Rightarrow> api_call \<Rightarrow> string \<Rightarrow> ('c, 'b) plane \<Rightarrow> answered" where
  "internal_list_run_artifacts e order h rid d =
     (case check_run_attempt rid (attempt_query h) (plane_store d) of
        Inl err \<Rightarrow> Inl (store_error_reply err)
      | Inr r \<Rightarrow> Inr (200, ArtifactsAnswer (list_artifacts e order rid (plane_store d))))"

definition internal_register_run_artifacts ::
  "('c, 'b) server \<Rightarrow> json_lib \<Rightarrow> (nat \<Rightarrow> env) \<Rightarrow> api_call \<Rightarrow> string \<Rightarrow> ('c, 'b) plane
     \<Rightarrow> answered \<times> ('c, 'b) plane" where
  "internal_register_run_artifacts S J es h rid d =
     (case jsn_artifacts J (htr_body h) of
        None \<Rightarrow> (invalid_body, d)
      | Some b \<Rightarrow>
          (case check_run_attempt rid (first_non_empty [arb_attempt_id b, attempt_query h]) (plane_store d) of
             Inl err \<Rightarrow> (Inl (store_error_reply err), d)
           | Inr r \<Rightarrow>
               if is_terminal_run_status (run_status r) then (Inr (200, ArtifactsAnswer []), d)
               else
                 (case sink_register_artifacts (plane_repository S) (\<lambda>i. es (i + 1)) rid
                         (with_artifact_expiration S (e_now (es 0)) (arb_artifacts b)) d of
                    (Inl err, d1) \<Rightarrow> (Inl (store_error_reply err), d1)
                  | (Inr saved, d1) \<Rightarrow> (Inr (201, ArtifactsAnswer saved), d1))))"

definition internal_cleanup_expired_artifacts ::
  "('c, 'b) server \<Rightarrow> json_lib \<Rightarrow> 'f disk \<Rightarrow> (nat \<Rightarrow> env) \<Rightarrow> string list \<Rightarrow> api_call
     \<Rightarrow> ('c, 'b) plane \<times> 'f \<Rightarrow> answered \<times> (('c, 'b) plane \<times> 'f)" where
  "internal_cleanup_expired_artifacts S J D es order h df =
     (case jsn_cleanup J (htr_body h) of
        None \<Rightarrow> (invalid_body, df)
      | Some b \<Rightarrow>
          (let l0 = (if cub_limit b \<le> 0 then parse_int_bounded (htr_query h ''limit'') 100 1 1000
                     else cub_limit b);
               limit = (if l0 > 1000 then 1000 else l0)
           in case on_store (delete_expired_artifacts (es 1) order (e_now (es 0)) limit) (fst df) of
                (Inl err, d1) \<Rightarrow> (Inl (store_error_reply err), (d1, snd df))
              | (Inr as, d1) \<Rightarrow>
                  if cub_delete_files b \<or> srv_artifact_cleanup_files S then
                    (case delete_local_artifact_files D (plane_store d1) as (snd df) of
                       ((deleted, errs), f1) \<Rightarrow> (Inr (200, CleanupAnswer as deleted errs), (d1, f1)))
                  else (Inr (200, CleanupAnswer as 0 []), (d1, snd df))))"

definition internal_read_artifact_text ::
  "'f disk \<Rightarrow> env \<Rightarrow> api_call \<Rightarrow> string \<Rightarrow> ('c, 'b) plane \<times> 'f \<Rightarrow> answered" where
  "internal_read_artifact_text D e h aid df =
     (let s = plane_store (fst df)
      in case get_artifact e aid s of
           Inl err \<Rightarrow> Inl (store_error_reply err)
         | Inr a \<Rightarrow>
             (let rid = first_non_empty [htr_query h ''run_id'', art_run_id a]
              in if rid = '''' \<or> art_run_id a \<noteq> rid then Inl (Reply 404 ''not found'')
                 else
                   (case check_run_attempt rid (attempt_query h) s of
                      Inl err \<Rightarrow> Inl (store_error_reply err)
                    | Inr r \<Rightarrow>
                        (case read_artifact_text D a
                                (parse_int_bounded (htr_query h ''max_bytes'') (64 * 1024) 1 (256 * 1024)) s (snd df) of
                           Inl err \<Rightarrow> Inl (Reply 400 err)
                         | Inr txt \<Rightarrow> Inr (200, TextAnswer txt)))))"

section \<open>The outcome of a run\<close>

definition usage_from_complete_request :: "complete_body \<Rightarrow> run_usage" where
  "usage_from_complete_request b =
     (let u = cmb_usage b
      in normalize_run_usage
           (if is_zero_run_usage u \<and> (cmb_input_tokens b > 0 \<or> cmb_output_tokens b > 0) then
              u\<lparr>usg_input_tokens := cmb_input_tokens b, usg_output_tokens := cmb_output_tokens b,
                usg_estimated := True\<rparr>
            else u))"

definition answer_run :: "('c, 'b) server \<Rightarrow> string \<Rightarrow> ('c, 'b) plane \<Rightarrow> answered" where
  "answer_run S rid d =
     (case rep_get_run (plane_repository S) rid d of
        Inl err \<Rightarrow> Inl (store_error_reply err)
      | Inr r \<Rightarrow> Inr (200, RunAnswer r))"

definition save_complete_usage ::
  "('c, 'b) server \<Rightarrow> string \<Rightarrow> complete_body \<Rightarrow> ('c, 'b) plane \<Rightarrow> app_error option \<times> ('c, 'b) plane" where
  "save_complete_usage S rid b d =
     (let usage = usage_from_complete_request b
      in if is_zero_run_usage usage then (None, d)
         else
           (case rep_save_run_usage (plane_repository S) rid usage d of
              (Inl err, d1) \<Rightarrow> (Some err, d1)
            | (Inr u, d1) \<Rightarrow> (None, d1)))"

definition internal_complete_run ::
  "('c, 'b) server \<Rightarrow> json_lib \<Rightarrow> (nat \<Rightarrow> env) \<Rightarrow> api_call \<Rightarrow> string \<Rightarrow> ('c, 'b) plane
     \<Rightarrow> answered \<times> ('c, 'b) plane" where
  "internal_complete_run S J es h rid d =
     (case jsn_complete J (htr_body h) of
        None \<Rightarrow> (invalid_body, d)
      | Some b \<Rightarrow>
          (case check_run_attempt rid (cmb_attempt_id b) (plane_store d) of
             Inl err \<Rightarrow> (Inl (store_error_reply err), d)
           | Inr current \<Rightarrow>
               if is_terminal_run_status (run_status current) then (Inr (200, RunAnswer current), d)
               else
                 (case save_complete_usage S rid b d of
                    (Some err, d1) \<Rightarrow> (Inl (store_error_reply err), d1)
                  | (None, d1) \<Rightarrow>
                      (case sink_complete (plane_repository S) (\<lambda>i. es (i + 1)) rid (cmb_content b)
                              (with_artifact_expiration S (e_now (es 0)) (cmb_artifacts b)) d1 of
                         (Some err, d2) \<Rightarrow> (Inl (store_error_reply err), d2)
                       | (None, d2) \<Rightarrow> (answer_run S rid d2, d2)))))"

definition internal_fail_run ::
  "('c, 'b) server \<Rightarrow> json_lib \<Rightarrow> (nat \<Rightarrow> env) \<Rightarrow> api_call \<Rightarrow> string \<Rightarrow> ('c, 'b) plane
     \<Rightarrow> answered \<times> ('c, 'b) plane" where
  "internal_fail_run S J es h rid d =
     (case jsn_fail J (htr_body h) of
        None \<Rightarrow> (invalid_body, d)
      | Some b \<Rightarrow>
          (let text = (if trim_space (flb_error b) = '''' then ''run failed'' else flb_error b)
           in case check_run_attempt rid (flb_attempt_id b) (plane_store d) of
                Inl err \<Rightarrow> (Inl (store_error_reply err), d)
              | Inr r \<Rightarrow>
                  (case sink_fail (plane_repository S) es rid text d of
                     (Some err, d1) \<Rightarrow> (Inl (store_error_reply err), d1)
                   | (None, d1) \<Rightarrow> (answer_run S rid d1, d1))))"

section \<open>The routes\<close>

definition internal_run_action ::
  "('c, 'b) server \<Rightarrow> json_lib \<Rightarrow> (string \<Rightarrow> string) \<Rightarrow> (nat \<Rightarrow> env) \<Rightarrow> string list \<Rightarrow> api_call
     \<Rightarrow> string \<Rightarrow> string \<Rightarrow> ('c, 'b) plane \<Rightarrow> answered \<times> ('c, 'b) plane" where
  "internal_run_action S J getenv es order h rid action d =
     (let is_get = (htr_method h = ''GET''); is_post = (htr_method h = ''POST'')
      in if action = ''artifacts'' \<and> is_get then (internal_list_run_artifacts (es 0) order h rid d, d)
         else if action = ''artifacts'' \<and> is_post then internal_register_run_artifacts S J es h rid d
         else if action = ''events'' \<and> is_post then internal_write_run_event S J es h rid d
         else if action = ''complete'' \<and> is_post then internal_complete_run S J es h rid d
         else if action = ''fail'' \<and> is_post then internal_fail_run S J es h rid d
         else if action = ''status'' \<and> is_get then
           ((case rep_get_run (plane_repository S) rid d of
               Inl err \<Rightarrow> Inl (store_error_reply err) | Inr r \<Rightarrow> Inr (200, StatusAnswer r)), d)
         else if action = ''quota-reserve'' \<and> is_post then internal_reserve_tool_quota S J es order h rid d
         else if action = ''execution-context'' \<and> is_get then
           (internal_run_execution_context S getenv h rid d, d)
         else if action = ''claim'' \<and> is_post then internal_claim_run J es h rid d
         else (Inl (Reply 405 ''method not allowed''), d))"

definition internal_run_subroutes ::
  "('c, 'b) server \<Rightarrow> json_lib \<Rightarrow> (string \<Rightarrow> string) \<Rightarrow> (nat \<Rightarrow> env) \<Rightarrow> string list \<Rightarrow> api_call
     \<Rightarrow> ('c, 'b) plane \<Rightarrow> answered \<times> ('c, 'b) plane" where
  "internal_run_subroutes S J getenv es order h d =
     (case authorize_internal S h of
        Some rep \<Rightarrow> (Inl rep, d)
      | None \<Rightarrow>
          (case split_path (trim_prefix (arq_path (htr_api h)) ''/internal/runs/'') of
             [rid, action] \<Rightarrow> internal_run_action S J getenv es order h rid action d
           | _ \<Rightarrow> (Inl (Reply 404 ''internal run route not found''), d)))"

definition internal_artifact_subroutes ::
  "('c, 'b) server \<Rightarrow> json_lib \<Rightarrow> 'f disk \<Rightarrow> (nat \<Rightarrow> env) \<Rightarrow> string list \<Rightarrow> api_call
     \<Rightarrow> ('c, 'b) plane \<times> 'f \<Rightarrow> answered \<times> (('c, 'b) plane \<times> 'f)" where
  "internal_artifact_subroutes S J D es order h df =
     (case authorize_internal S h of
        Some rep \<Rightarrow> (Inl rep, df)
      | None \<Rightarrow>
          (let parts = split_path (trim_prefix (arq_path (htr_api h)) ''/internal/artifacts/'')
           in if parts = [''cleanup-expired''] \<and> htr_method h = ''POST'' then
                internal_cleanup_expired_artifacts S J D es order h df
              else
                (case parts of
                   [aid, what] \<Rightarrow>
                     if what = ''content'' \<and> htr_method h = ''GET''
                     then (internal_read_artifact_text D (es 0) h aid df, df)
                     else (Inl (Reply 404 ''internal artifact route not found''), df)
                 | _ \<Rightarrow> (Inl (Reply 404 ''internal artifact route not found''), df))))"

end
