(* ===== verification/Runtime_Sink.thy ===== *)
theory Runtime_Sink
  imports Internal_Api
begin

text \<open>
  The runtime's side of the internal interface
  (services/agent-runtime/internal/sink/control_plane_sink.go): \<open>ControlPlaneSink\<close>, which turns
  the reports of an agent into requests to the control plane. The HTTP client and the JSON codec
  are parameters: a request is its URL, its Authorization header and its body, and takes a state
  of the world outside to another. The bytes of an error reply are cut as the code cuts them.
  Trace headers and spans are left out.
\<close>

section \<open>The network\<close>

record http_response =
  hrp_code :: int
  hrp_status :: string
  hrp_body :: string

record 'p network =
  net_post :: "string \<Rightarrow> string \<Rightarrow> string \<Rightarrow> 'p \<Rightarrow> (string + http_response) \<times> 'p"
  net_get :: "string \<Rightarrow> string \<Rightarrow> 'p \<Rightarrow> (string + http_response) \<times> 'p"

text \<open>The encoder may fail; the decoder reads the body of a reply. \<open>cdc_query\<close> is
  \<open>url.Values.Encode\<close>, which writes the pairs sorted by key.\<close>

record sink_codec =
  cdc_claim :: "claim_body \<Rightarrow> string + string"
  cdc_event :: "event_body \<Rightarrow> string + string"
  cdc_complete :: "complete_body \<Rightarrow> string + string"
  cdc_fail :: "fail_body \<Rightarrow> string + string"
  cdc_artifacts :: "artifacts_body \<Rightarrow> string + string"
  cdc_quota :: "quota_body \<Rightarrow> string + string"
  cdc_query :: "(string \<times> string) list \<Rightarrow> string"
  cdc_get_run :: "string \<Rightarrow> string + run"
  cdc_get_quota :: "string \<Rightarrow> string + tool_quota_answer"
  cdc_get_artifacts :: "string \<Rightarrow> string + artifact list"
  cdc_get_text :: "string \<Rightarrow> string + artifact_text"

record control_plane_sink =
  csk_base_url :: string
  csk_token :: string
  csk_attempt_id :: string

definition new_control_plane_sink :: "string \<Rightarrow> string \<Rightarrow> control_plane_sink" where
  "new_control_plane_sink base_url token =
     \<lparr>csk_base_url = trim_right_slash base_url, csk_token = token, csk_attempt_id = ''''\<rparr>"

definition with_attempt :: "string \<Rightarrow> control_plane_sink \<Rightarrow> control_plane_sink" where
  "with_attempt attempt k = k\<lparr>csk_attempt_id := attempt\<rparr>"

definition authorization :: "control_plane_sink \<Rightarrow> string" where
  "authorization k = (if csk_token k \<noteq> '''' then ''Bearer '' @ csk_token k else '''')"

section \<open>One request\<close>

definition response_error :: "http_response \<Rightarrow> string" where
  "response_error r = ''control plane returned '' @ hrp_status r @ '': '' @ trim_space (take 4096 (hrp_body r))"

definition read_response :: "(string \<Rightarrow> string + 'x) \<Rightarrow> (string + http_response) \<times> 'p \<Rightarrow> (string + 'x) \<times> 'p" where
  "read_response target out =
     (case out of
        (Inl err, p) \<Rightarrow> (Inl err, p)
      | (Inr r, p) \<Rightarrow>
          if hrp_code r < 200 \<or> hrp_code r \<ge> 300 then (Inl (response_error r), p)
          else (target (hrp_body r), p))"

text \<open>A nil target leaves the body unread.\<close>

definition no_target :: "string \<Rightarrow> string + unit" where "no_target body = Inr ()"

definition sink_post ::
  "'p network \<Rightarrow> control_plane_sink \<Rightarrow> string \<Rightarrow> string + string \<Rightarrow> (string \<Rightarrow> string + 'x) \<Rightarrow> 'p
     \<Rightarrow> (string + 'x) \<times> 'p" where
  "sink_post N k path payload target p =
     (case payload of
        Inl err \<Rightarrow> (Inl err, p)
      | Inr body \<Rightarrow> read_response target (net_post N (csk_base_url k @ path) (authorization k) body p))"

definition sink_get ::
  "'p network \<Rightarrow> control_plane_sink \<Rightarrow> string \<Rightarrow> (string \<Rightarrow> string + 'x) \<Rightarrow> 'p \<Rightarrow> (string + 'x) \<times> 'p" where
  "sink_get N k path target p =
     read_response target (net_get N (csk_base_url k @ path) (authorization k) p)"

definition run_path :: "string \<Rightarrow> string \<Rightarrow> string" where
  "run_path rid action = ''/internal/runs/'' @ rid @ ''/'' @ action"

section \<open>The reports\<close>

definition runtime_claim ::
  "'p network \<Rightarrow> sink_codec \<Rightarrow> control_plane_sink \<Rightarrow> string \<Rightarrow> string \<Rightarrow> string \<Rightarrow> int \<Rightarrow> 'p
     \<Rightarrow> (string + run) \<times> 'p" where
  "runtime_claim N C k rid attempt claimed_by lease =
     sink_post N k (run_path rid ''claim'')
       (cdc_claim C \<lparr>clb_attempt_id = attempt, clb_claimed_by = claimed_by, clb_lease_seconds = lease\<rparr>)
       (cdc_get_run C)"

definition runtime_emit ::
  "'p network \<Rightarrow> sink_codec \<Rightarrow> control_plane_sink \<Rightarrow> string \<Rightarrow> run_event_type \<Rightarrow> string \<Rightarrow> goval \<Rightarrow> 'p
     \<Rightarrow> (string + unit) \<times> 'p" where
  "runtime_emit N C k rid etype msg payload =
     sink_post N k (run_path rid ''events'')
       (cdc_event C \<lparr>evb_type = etype, evb_message = msg, evb_payload = payload,
          evb_attempt_id = csk_attempt_id k\<rparr>) no_target"

definition runtime_complete ::
  "'p network \<Rightarrow> sink_codec \<Rightarrow> control_plane_sink \<Rightarrow> string \<Rightarrow> string \<Rightarrow> artifact list \<Rightarrow> 'p
     \<Rightarrow> (string + unit) \<times> 'p" where
  "runtime_complete N C k rid content as =
     sink_post N k (run_path rid ''complete'')
       (cdc_complete C \<lparr>cmb_content = content, cmb_input_tokens = 0, cmb_output_tokens = 0,
          cmb_usage = zero_run_usage, cmb_attempt_id = csk_attempt_id k, cmb_artifacts = as\<rparr>) no_target"

definition runtime_complete_with_usage ::
  "'p network \<Rightarrow> sink_codec \<Rightarrow> control_plane_sink \<Rightarrow> string \<Rightarrow> string \<Rightarrow> run_usage \<Rightarrow> artifact list \<Rightarrow> 'p
     \<Rightarrow> (string + unit) \<times> 'p" where
  "runtime_complete_with_usage N C k rid content usage0 as =
     (let usage = normalize_run_usage usage0
      in sink_post N k (run_path rid ''complete'')
           (cdc_complete C \<lparr>cmb_content = content, cmb_input_tokens = usg_input_tokens usage,
              cmb_output_tokens = usg_output_tokens usage, cmb_usage = usage,
              cmb_attempt_id = csk_attempt_id k, cmb_artifacts = as\<rparr>) no_target)"

definition runtime_fail ::
  "'p network \<Rightarrow> sink_codec \<Rightarrow> control_plane_sink \<Rightarrow> string \<Rightarrow> string \<Rightarrow> 'p \<Rightarrow> (string + unit) \<times> 'p" where
  "runtime_fail N C k rid msg =
     sink_post N k (run_path rid ''fail'')
       (cdc_fail C \<lparr>flb_error = msg, flb_attempt_id = csk_attempt_id k\<rparr>) no_target"

definition runtime_is_canceled ::
  "'p network \<Rightarrow> sink_codec \<Rightarrow> control_plane_sink \<Rightarrow> string \<Rightarrow> 'p \<Rightarrow> bool \<times> 'p" where
  "runtime_is_canceled N C k rid p =
     (case sink_get N k (run_path rid ''status'') (cdc_get_run C) p of
        (Inl err, p1) \<Rightarrow> (False, p1)
      | (Inr r, p1) \<Rightarrow> (run_status r = RunCanceled, p1))"

fun first_visible :: "string list \<Rightarrow> string" where
  "first_visible [] = ''''"
| "first_visible (v # vs) = (if trim_space v \<noteq> '''' then v else first_visible vs)"

definition runtime_reserve_tool_quota ::
  "'p network \<Rightarrow> sink_codec \<Rightarrow> control_plane_sink \<Rightarrow> string \<Rightarrow> quota_body \<Rightarrow> 'p
     \<Rightarrow> (string + tool_quota_answer) \<times> 'p" where
  "runtime_reserve_tool_quota N C k rid b =
     sink_post N k (run_path rid ''quota-reserve'')
       (cdc_quota C (b\<lparr>qtb_attempt_id := first_visible [qtb_attempt_id b, csk_attempt_id k]\<rparr>))
       (cdc_get_quota C)"

definition runtime_register_artifacts ::
  "'p network \<Rightarrow> sink_codec \<Rightarrow> control_plane_sink \<Rightarrow> string \<Rightarrow> artifact list \<Rightarrow> 'p
     \<Rightarrow> (string + artifact list) \<times> 'p" where
  "runtime_register_artifacts N C k rid as p =
     (if as = [] then (Inr [], p)
      else sink_post N k (run_path rid ''artifacts'')
             (cdc_artifacts C \<lparr>arb_attempt_id = csk_attempt_id k, arb_artifacts = as\<rparr>)
             (cdc_get_artifacts C) p)"

definition runtime_list_artifacts ::
  "'p network \<Rightarrow> sink_codec \<Rightarrow> control_plane_sink \<Rightarrow> string \<Rightarrow> 'p \<Rightarrow> (string + artifact list) \<times> 'p" where
  "runtime_list_artifacts N C k rid =
     (let encoded = cdc_query C (if csk_attempt_id k \<noteq> '''' then [(''attempt_id'', csk_attempt_id k)] else [])
      in sink_get N k (run_path rid ''artifacts'' @ (if encoded \<noteq> '''' then ''?'' @ encoded else ''''))
           (cdc_get_artifacts C))"

definition runtime_read_artifact_text ::
  "'p network \<Rightarrow> sink_codec \<Rightarrow> control_plane_sink \<Rightarrow> string \<Rightarrow> string \<Rightarrow> int \<Rightarrow> 'p
     \<Rightarrow> (string + artifact_text) \<times> 'p" where
  "runtime_read_artifact_text N C k rid aid max_bytes =
     sink_get N k (''/internal/artifacts/'' @ aid @ ''/content?'' @
         cdc_query C ([(''run_id'', rid)] @
           (if csk_attempt_id k \<noteq> '''' then [(''attempt_id'', csk_attempt_id k)] else []) @
           (if max_bytes > 0 then [(''max_bytes'', itoa max_bytes)] else [])))
       (cdc_get_text C)"

end
