(* ===== verification/Run_Worker.thy ===== *)
theory Run_Worker
  imports Runtime_Sink
begin

text \<open>
  The worker of the agent runtime that takes runs from the Redis stream
  (services/agent-runtime/internal/runqueue/worker.go): it reads the next message or reclaims a
  pending one, fetches the execution context from the control plane, claims the run, keeps its
  lease while the engine works, and acknowledges the message. The Redis client and its state, the
  network, the JSON codecs and the agent engine are parameters. An execution is a list of steps:
  calls of the engine to the outside and ticks of the heartbeat, in the order they happen.
  Metrics, spans and logging are left out.
\<close>

section \<open>Configuration\<close>

record worker_config =
  wcf_redis_addr :: string
  wcf_stream :: string
  wcf_group :: string
  wcf_consumer :: string
  wcf_control_plane_url :: string
  wcf_internal_token :: string
  wcf_runtime_id :: string
  wcf_block_timeout :: duration
  wcf_reclaim_min_idle :: duration
  wcf_reclaim_count :: int
  wcf_max_deliveries :: int
  wcf_dead_letter_stream :: string
  wcf_dead_letter_max_len :: int
  wcf_lease_seconds :: int
  wcf_heartbeat_interval :: duration

definition trim_worker_config :: "worker_config \<Rightarrow> worker_config" where
  "trim_worker_config c =
     c\<lparr>wcf_redis_addr := trim_space (wcf_redis_addr c), wcf_stream := trim_space (wcf_stream c),
       wcf_group := trim_space (wcf_group c), wcf_consumer := trim_space (wcf_consumer c),
       wcf_runtime_id := trim_space (wcf_runtime_id c),
       wcf_control_plane_url := trim_right_slash (trim_space (wcf_control_plane_url c))\<rparr>"

definition normalize_worker_config :: "worker_config \<Rightarrow> worker_config" where
  "normalize_worker_config c0 =
     (let c1 = trim_worker_config c0;
          c2 = (if wcf_stream c1 = '''' then c1\<lparr>wcf_stream := ''niceagent:runs''\<rparr> else c1);
          c3 = (if wcf_group c2 = '''' then c2\<lparr>wcf_group := ''agent-runtimes''\<rparr> else c2);
          c4 = (if wcf_consumer c3 = '''' then c3\<lparr>wcf_consumer := ''agent-runtime''\<rparr> else c3);
          c5 = (if wcf_runtime_id c4 = '''' then c4\<lparr>wcf_runtime_id := wcf_consumer c4\<rparr> else c4);
          c6 = (if wcf_block_timeout c5 \<le> 0 then c5\<lparr>wcf_block_timeout := 5 * time_second\<rparr> else c5);
          c7 = (if wcf_reclaim_count c6 \<le> 0 then c6\<lparr>wcf_reclaim_count := 1\<rparr> else c6);
          c8 = (if wcf_max_deliveries c7 \<le> 0 then c7\<lparr>wcf_max_deliveries := 5\<rparr> else c7);
          c9 = (if wcf_dead_letter_stream c8 = ''''
                then c8\<lparr>wcf_dead_letter_stream := wcf_stream c8 @ '':dlq''\<rparr> else c8);
          c10 = (if wcf_lease_seconds c9 \<le> 0 then c9\<lparr>wcf_lease_seconds := 600\<rparr> else c9)
      in if wcf_heartbeat_interval c10 \<le> 0 then c10\<lparr>wcf_heartbeat_interval := 60 * time_second\<rparr> else c10)"

definition claimed_by :: "worker_config \<Rightarrow> string" where
  "claimed_by c = (if wcf_runtime_id c \<noteq> '''' then wcf_runtime_id c else wcf_consumer c)"

section \<open>The stream\<close>

record worker_message =
  wmg_id :: string
  wmg_values :: metadata
  wmg_delivery_count :: int

record 'c queue_client =
  qcl_group_create :: "string \<Rightarrow> string \<Rightarrow> string \<Rightarrow> 'c \<Rightarrow> app_error option \<times> 'c"
  qcl_read_group :: "string \<Rightarrow> string \<Rightarrow> string \<Rightarrow> int \<Rightarrow> duration \<Rightarrow> 'c \<Rightarrow> worker_message result \<times> 'c"
  qcl_auto_claim :: "string \<Rightarrow> string \<Rightarrow> string \<Rightarrow> duration \<Rightarrow> string \<Rightarrow> int \<Rightarrow> 'c
    \<Rightarrow> worker_message list result \<times> 'c"
  qcl_pending :: "string \<Rightarrow> string \<Rightarrow> string \<Rightarrow> string \<Rightarrow> int \<Rightarrow> 'c \<Rightarrow> int list result \<times> 'c"
  qcl_add :: "string \<Rightarrow> metadata \<Rightarrow> int \<Rightarrow> 'c \<Rightarrow> string result \<times> 'c"
  qcl_ack :: "string \<Rightarrow> string \<Rightarrow> string list \<Rightarrow> 'c \<Rightarrow> int result \<times> 'c"

text \<open>\<open>XPendingExt\<close> is read for its retry counts only. \<open>err.Error()\<close> of the client's errors and
  \<open>json.Marshal\<close> of a message are parameters.\<close>

record worker_lib =
  wlb_text :: text_lib
  wlb_error_text :: "app_error \<Rightarrow> string"
  wlb_marshal :: "metadata \<Rightarrow> string + string"

definition worker_ensure_group ::
  "worker_lib \<Rightarrow> 'c queue_client \<Rightarrow> worker_config \<Rightarrow> 'c \<Rightarrow> app_error option \<times> 'c" where
  "worker_ensure_group L Q cfg c =
     (case qcl_group_create Q (wcf_stream cfg) (wcf_group cfg) ''0'' c of
        (None, c1) \<Rightarrow> (None, c1)
      | (Some err, c1) \<Rightarrow> if sublist ''BUSYGROUP'' (wlb_error_text L err) then (None, c1) else (Some err, c1))"

definition pending_retry_count :: "'c queue_client \<Rightarrow> worker_config \<Rightarrow> string \<Rightarrow> 'c \<Rightarrow> int \<times> 'c" where
  "pending_retry_count Q cfg mid c =
     (case qcl_pending Q (wcf_stream cfg) (wcf_group cfg) mid mid 1 c of
        (Inl err, c1) \<Rightarrow> (0, c1)
      | (Inr [], c1) \<Rightarrow> (0, c1)
      | (Inr (n # ns), c1) \<Rightarrow> (n, c1))"

text \<open>The map of the dead letter; \<open>err\<close> is the text of the cause, if there is one.\<close>

definition dead_letter_values ::
  "worker_lib \<Rightarrow> worker_config \<Rightarrow> gtime \<Rightarrow> worker_message \<Rightarrow> string \<Rightarrow> int \<Rightarrow> string option \<Rightarrow> metadata" where
  "dead_letter_values L cfg now m reason deliveries err =
     (let rid = redis_value_string (wlb_text L) (map_of (wmg_values m) ''run_id'');
          attempt = redis_value_string (wlb_text L) (map_of (wmg_values m) ''attempt_id'')
      in [(''schema_version'', VStr ''1''), (''original_stream'', VStr (wcf_stream cfg)),
          (''original_id'', VStr (wmg_id m)), (''reason'', VStr reason),
          (''delivery_count'', VInt deliveries),
          (''dead_lettered_at'', VStr (txt_format_time (wlb_text L) now))] @
         (if rid \<noteq> '''' then [(''run_id'', VStr rid)] else []) @
         (if attempt \<noteq> '''' then [(''attempt_id'', VStr attempt)] else []) @
         (case err of None \<Rightarrow> [] | Some t \<Rightarrow> [(''error'', VStr t)]) @
         (case wlb_marshal L (wmg_values m) of
            Inl t \<Rightarrow> [(''payload_error'', VStr t)]
          | Inr t \<Rightarrow> [(''payload'', VStr t)]))"

definition dead_letter ::
  "worker_lib \<Rightarrow> 'c queue_client \<Rightarrow> worker_config \<Rightarrow> env \<Rightarrow> worker_message \<Rightarrow> string \<Rightarrow> int
     \<Rightarrow> string option \<Rightarrow> 'c \<Rightarrow> app_error option \<times> 'c" where
  "dead_letter L Q cfg e m reason deliveries err c =
     (let stream = trim_space (wcf_dead_letter_stream cfg)
      in if stream = '''' then (None, c)
         else
           (case qcl_add Q stream (dead_letter_values L cfg (e_now e) m reason deliveries err)
                   (wcf_dead_letter_max_len cfg) c of
              (Inl er, c1) \<Rightarrow> (Some er, c1)
            | (Inr mid, c1) \<Rightarrow> (None, c1)))"

text \<open>The loop of \<open>autoClaimPending\<close>: the first reclaimed message with deliveries left, dead
  letters on the way to it. The second component is \<open>reclaimed\<close>.\<close>

fun reclaim_loop ::
  "worker_lib \<Rightarrow> 'c queue_client \<Rightarrow> worker_config \<Rightarrow> (nat \<Rightarrow> env) \<Rightarrow> worker_message list \<Rightarrow> 'c
     \<Rightarrow> (worker_message result \<times> bool) \<times> 'c" where
  "reclaim_loop L Q cfg es [] c = ((Inl err_queue_empty, False), c)"
| "reclaim_loop L Q cfg es (m # ms) c =
     (case pending_retry_count Q cfg (wmg_id m) c of
        (n, c1) \<Rightarrow>
          if wcf_max_deliveries cfg > 0 \<and> n \<ge> wcf_max_deliveries cfg then
            (case dead_letter L Q cfg (es 0) m ''max_deliveries_exceeded'' n None c1 of
               (Some err, c2) \<Rightarrow> ((Inl err, True), c2)
             | (None, c2) \<Rightarrow>
                 (case qcl_ack Q (wcf_stream cfg) (wcf_group cfg) [wmg_id m] c2 of
                    (Inl err, c3) \<Rightarrow> ((Inl err, True), c3)
                  | (Inr k, c3) \<Rightarrow> reclaim_loop L Q cfg (\<lambda>i. es (i + 1)) ms c3))
          else ((Inr (m\<lparr>wmg_delivery_count := n\<rparr>), True), c1))"

definition auto_claim_pending ::
  "worker_lib \<Rightarrow> 'c queue_client \<Rightarrow> worker_config \<Rightarrow> (nat \<Rightarrow> env) \<Rightarrow> 'c
     \<Rightarrow> (worker_message result \<times> bool) \<times> 'c" where
  "auto_claim_pending L Q cfg es c =
     (case qcl_auto_claim Q (wcf_stream cfg) (wcf_group cfg) (wcf_consumer cfg)
             (wcf_reclaim_min_idle cfg) ''0-0'' (wcf_reclaim_count cfg) c of
        (Inl err, c1) \<Rightarrow> ((Inl err, False), c1)
      | (Inr ms, c1) \<Rightarrow> reclaim_loop L Q cfg es ms c1)"

definition read_next_message ::
  "worker_lib \<Rightarrow> 'c queue_client \<Rightarrow> worker_config \<Rightarrow> (nat \<Rightarrow> env) \<Rightarrow> 'c
     \<Rightarrow> (worker_message result \<times> bool) \<times> 'c" where
  "read_next_message L Q cfg es c =
     (case qcl_read_group Q (wcf_stream cfg) (wcf_group cfg) (wcf_consumer cfg) 1 (wcf_block_timeout cfg) c of
        (res, c1) \<Rightarrow>
          if res \<noteq> Inl err_queue_empty then ((res, False), c1)
          else if wcf_reclaim_min_idle cfg \<le> 0 then ((Inl err_queue_empty, False), c1)
          else auto_claim_pending L Q cfg es c1)"

section \<open>Executing a run\<close>

record assigned_run =
  wqr_run_id :: string
  wqr_attempt_id :: string
  wqr_enqueued_at :: gtime
  wqr_message_id :: string
  wqr_reclaimed :: bool
  wqr_previous_attempt_id :: string

text \<open>\<open>decodeQueuedRun\<close> of the worker is the one of the queue; the message and the reclaim are
  noted by the caller, which gives a reclaimed run a fresh attempt.\<close>

definition worker_queued_run :: "env \<Rightarrow> string \<Rightarrow> bool \<Rightarrow> queue_entry \<Rightarrow> assigned_run" where
  "worker_queued_run e mid reclaimed q =
     \<lparr>wqr_run_id = qrn_run_id q,
      wqr_attempt_id = (if reclaimed then e_id e ''attempt'' else qrn_attempt_id q),
      wqr_enqueued_at = qrn_enqueued_at q, wqr_message_id = mid, wqr_reclaimed = reclaimed,
      wqr_previous_attempt_id = (if reclaimed then qrn_attempt_id q else '''')\<rparr>"

text \<open>Escaping and parsing of the URL, and the decoder of the execution context.\<close>

record context_lib =
  ctx_path_escape :: "string \<Rightarrow> string"
  ctx_url_error :: "string \<Rightarrow> string option"
  ctx_query :: "(string \<times> string) list \<Rightarrow> string"
  ctx_decode :: "string \<Rightarrow> string + run_execution_request"

definition context_error :: "http_response \<Rightarrow> string" where
  "context_error r =
     ''control plane execution context returned '' @ hrp_status r @ '': '' @ trim_space (take 4096 (hrp_body r))"

text \<open>The query of \<open>endpoint\<close> is written with a question mark when it is not empty.\<close>

definition complete_context :: "string \<Rightarrow> assigned_run \<Rightarrow> run_execution_request \<Rightarrow> run_execution_request" where
  "complete_context base q x =
     (let r0 = rex_request x;
          r1 = (if rrq_run_id r0 = '''' then r0\<lparr>rrq_run_id := wqr_run_id q\<rparr> else r0);
          r2 = (if rrq_attempt_id r1 = '''' then r1\<lparr>rrq_attempt_id := wqr_attempt_id q\<rparr> else r1);
          x1 = x\<lparr>rex_request := r2\<rparr>
      in if rex_control_plane_url x1 = '''' then x1\<lparr>rex_control_plane_url := base\<rparr> else x1)"

definition context_endpoint :: "context_lib \<Rightarrow> string \<Rightarrow> string \<Rightarrow> string" where
  "context_endpoint X base rid = base @ ''/internal/runs/'' @ ctx_path_escape X rid @ ''/execution-context''"

definition context_url :: "context_lib \<Rightarrow> string \<Rightarrow> string \<Rightarrow> string \<Rightarrow> string" where
  "context_url X base rid attempt =
     (let query = ctx_query X (if attempt \<noteq> '''' then [(''attempt_id'', attempt)] else [])
      in context_endpoint X base rid @ (if query \<noteq> '''' then ''?'' @ query else ''''))"

definition fetch_execution_context ::
  "'p network \<Rightarrow> context_lib \<Rightarrow> worker_config \<Rightarrow> assigned_run \<Rightarrow> 'p \<Rightarrow> (string + run_execution_request) \<times> 'p" where
  "fetch_execution_context N X cfg q p =
     (let base = trim_right_slash (wcf_control_plane_url cfg);
          auth = (if wcf_internal_token cfg \<noteq> '''' then ''Bearer '' @ wcf_internal_token cfg else '''')
      in if base = '''' then (Inl ''CONTROL_PLANE_URL is required for redis worker'', p)
         else
           (case ctx_url_error X (context_endpoint X base (wqr_run_id q)) of
              Some err \<Rightarrow> (Inl err, p)
            | None \<Rightarrow>
                (case net_get N (context_url X base (wqr_run_id q) (wqr_attempt_id q)) auth p of
                   (Inl err, p1) \<Rightarrow> (Inl err, p1)
                 | (Inr resp, p1) \<Rightarrow>
                     if hrp_code resp < 200 \<or> hrp_code resp \<ge> 300 then (Inl (context_error resp), p1)
                     else
                       (case ctx_decode X (hrp_body resp) of
                          Inl err \<Rightarrow> (Inl err, p1)
                        | Inr x \<Rightarrow> (Inr (complete_context base q x), p1)))))"

text \<open>The heartbeat claims the run again at each tick. An error and a finished run cancel the
  context of the execution and end the heartbeat; the engine decides what it does then.\<close>

datatype 'p exec_step = EngineCall "bool \<Rightarrow> 'p \<Rightarrow> 'p" | HeartbeatTick

type_synonym 'p engine = "run_request \<Rightarrow> string \<Rightarrow> control_plane_sink \<Rightarrow> 'p exec_step list"

definition heartbeat ::
  "'p network \<Rightarrow> sink_codec \<Rightarrow> worker_config \<Rightarrow> control_plane_sink \<Rightarrow> string \<Rightarrow> string \<Rightarrow> bool \<Rightarrow> 'p
     \<Rightarrow> bool \<times> 'p" where
  "heartbeat N C cfg k rid attempt canceled p =
     (if attempt = '''' \<or> wcf_heartbeat_interval cfg \<le> 0 \<or> canceled then (canceled, p)
      else
        (case runtime_claim N C k rid attempt (claimed_by cfg) (wcf_lease_seconds cfg) p of
           (Inl err, p1) \<Rightarrow> (True, p1)
         | (Inr r, p1) \<Rightarrow> (is_terminal_run_status (run_status r), p1)))"

fun run_steps ::
  "'p network \<Rightarrow> sink_codec \<Rightarrow> worker_config \<Rightarrow> control_plane_sink \<Rightarrow> string \<Rightarrow> string
     \<Rightarrow> 'p exec_step list \<Rightarrow> bool \<Rightarrow> 'p \<Rightarrow> 'p" where
  "run_steps N C cfg k rid attempt [] canceled p = p"
| "run_steps N C cfg k rid attempt (EngineCall f # xs) canceled p =
     run_steps N C cfg k rid attempt xs canceled (f canceled p)"
| "run_steps N C cfg k rid attempt (HeartbeatTick # xs) canceled p =
     (case heartbeat N C cfg k rid attempt canceled p of
        (canceled', p') \<Rightarrow> run_steps N C cfg k rid attempt xs canceled' p')"

text \<open>The engine reports to the control plane itself and returns nothing.\<close>

definition execute_claimed ::
  "'p network \<Rightarrow> sink_codec \<Rightarrow> worker_config \<Rightarrow> 'p engine \<Rightarrow> control_plane_sink
     \<Rightarrow> run_execution_request \<Rightarrow> 'p \<Rightarrow> string option \<times> 'p" where
  "execute_claimed N C cfg agent k x p =
     (let req = rex_request x
      in (None, run_steps N C cfg k (rrq_run_id req) (rrq_attempt_id req)
                  (agent req (rex_user_message x) k) False p))"

definition execute_queued_run ::
  "'p network \<Rightarrow> sink_codec \<Rightarrow> context_lib \<Rightarrow> worker_config \<Rightarrow> 'p engine option \<Rightarrow> assigned_run \<Rightarrow> 'p
     \<Rightarrow> string option \<times> 'p" where
  "execute_queued_run N C X cfg engine_opt q p =
     (case engine_opt of
        None \<Rightarrow> (Some ''agent engine is nil'', p)
      | Some agent \<Rightarrow>
          (case fetch_execution_context N X cfg q p of
             (Inl err, p1) \<Rightarrow> (Some err, p1)
           | (Inr x, p1) \<Rightarrow>
               (let url0 = trim_right_slash (rex_control_plane_url x);
                    url = (if url0 = '''' then wcf_control_plane_url cfg else url0);
                    req = rex_request x;
                    k = with_attempt (rrq_attempt_id req) (new_control_plane_sink url (wcf_internal_token cfg))
                in if url = '''' then (Some ''control plane url is required'', p1)
                   else if rrq_attempt_id req = '''' then execute_claimed N C cfg agent k x p1
                   else
                     (case runtime_claim N C k (rrq_run_id req) (rrq_attempt_id req) (claimed_by cfg)
                             (wcf_lease_seconds cfg) p1 of
                        (Inl err, p2) \<Rightarrow> (Some err, p2)
                      | (Inr r, p2) \<Rightarrow>
                          if is_terminal_run_status (run_status r) then (None, p2)
                          else execute_claimed N C cfg agent k x p2))))"

section \<open>One iteration\<close>

definition worker_ack ::
  "worker_lib \<Rightarrow> 'c queue_client \<Rightarrow> worker_config \<Rightarrow> string \<Rightarrow> 'c \<Rightarrow> string option \<times> 'c" where
  "worker_ack L Q cfg mid c =
     (case qcl_ack Q (wcf_stream cfg) (wcf_group cfg) [mid] c of
        (Inl err, c1) \<Rightarrow> (Some (wlb_error_text L err), c1) | (Inr n, c1) \<Rightarrow> (None, c1))"

text \<open>The message a worker got: decode it, execute its run, acknowledge it. The results of the dead
  letter and the acknowledgement of a message that does not decode are dropped.\<close>

definition process_message ::
  "worker_lib \<Rightarrow> 'c queue_client \<Rightarrow> 'p network \<Rightarrow> sink_codec \<Rightarrow> context_lib \<Rightarrow> worker_config
     \<Rightarrow> 'p engine option \<Rightarrow> (nat \<Rightarrow> env) \<Rightarrow> worker_message \<Rightarrow> bool \<Rightarrow> 'c \<times> 'p
     \<Rightarrow> string option \<times> ('c \<times> 'p)" where
  "process_message L Q N C X cfg agent es m reclaimed cp =
     (case decode_queued_run (wlb_text L) (wmg_values m) of
        Inl err \<Rightarrow>
          (let c1 = snd (dead_letter L Q cfg (es 0) m ''decode_failed'' 0 (Some (wlb_error_text L err)) (fst cp));
               c2 = snd (qcl_ack Q (wcf_stream cfg) (wcf_group cfg) [wmg_id m] c1)
           in (Some (wlb_error_text L err), (c2, snd cp)))
      | Inr q \<Rightarrow>
          (case execute_queued_run N C X cfg agent (worker_queued_run (es 1) (wmg_id m) reclaimed q) (snd cp) of
             (Some err, p1) \<Rightarrow> (Some err, (fst cp, p1))
           | (None, p1) \<Rightarrow>
               (case worker_ack L Q cfg (wmg_id m) (fst cp) of (res, c1) \<Rightarrow> (res, (c1, p1)))))"

definition process_next ::
  "worker_lib \<Rightarrow> 'c queue_client \<Rightarrow> 'p network \<Rightarrow> sink_codec \<Rightarrow> context_lib \<Rightarrow> worker_config
     \<Rightarrow> 'p engine option \<Rightarrow> (nat \<Rightarrow> env) \<Rightarrow> 'c \<times> 'p \<Rightarrow> string option \<times> ('c \<times> 'p)" where
  "process_next L Q N C X cfg agent es cp =
     (case worker_ensure_group L Q cfg (fst cp) of
        (Some err, c1) \<Rightarrow> (Some (wlb_error_text L err), (c1, snd cp))
      | (None, c1) \<Rightarrow>
          (case read_next_message L Q cfg (\<lambda>i. es (i + 2)) c1 of
             ((Inl err, reclaimed), c2) \<Rightarrow>
               (if err = err_queue_empty then None else Some (wlb_error_text L err), (c2, snd cp))
           | ((Inr m, reclaimed), c2) \<Rightarrow> process_message L Q N C X cfg agent es m reclaimed (c2, snd cp)))"

text \<open>The loop of \<open>Run\<close> for a number of iterations, until the context is done or an error says
  so: \<open>ctx i\<close> is \<open>ctx.Err() \<noteq> nil\<close> when \<open>i + 1\<close> iterations are left and \<open>stopped err\<close> tells the errors of
  a canceled context. The pause after an error is left out.\<close>

fun worker_run ::
  "worker_lib \<Rightarrow> 'c queue_client \<Rightarrow> 'p network \<Rightarrow> sink_codec \<Rightarrow> context_lib \<Rightarrow> worker_config
     \<Rightarrow> 'p engine option \<Rightarrow> (string \<Rightarrow> bool) \<Rightarrow> (nat \<Rightarrow> nat \<Rightarrow> env) \<Rightarrow> (nat \<Rightarrow> bool) \<Rightarrow> nat
     \<Rightarrow> 'c \<times> 'p \<Rightarrow> 'c \<times> 'p" where
  "worker_run L Q N C X cfg agent stopped ess ctx 0 cp = cp"
| "worker_run L Q N C X cfg agent stopped ess ctx (Suc n) cp =
     (if ctx n then cp
      else
        (case process_next L Q N C X cfg agent (ess n) cp of
           (Some err, cp1) \<Rightarrow>
             if stopped err then cp1 else worker_run L Q N C X cfg agent stopped ess ctx n cp1
         | (None, cp1) \<Rightarrow> worker_run L Q N C X cfg agent stopped ess ctx n cp1))"

end
