(* ===== verification/Admission_Properties.thy ===== *)
theory Admission_Properties
  imports Admission Decorator_Properties
begin

text \<open>
  What the handler of a new message guarantees across the store, the quota counters and the
  dispatcher: a message that is refused or fails at any step costs no quota, one that is
  accepted is a queued run of its actor, and without a limiter the store's own counts bound the
  runs.
\<close>

section \<open>The parts of the control plane\<close>

definition plane_counters :: "('c, 'b) plane \<Rightarrow> 'c" where "plane_counters d = snd (fst d)"

lemma on_store_parts:
  "on_store f d = (x, t) \<Longrightarrow> plane_counters t = plane_counters d \<and> f (plane_store d) = (x, plane_store t)"
  by (auto simp: on_store_def with_right_def plane_counters_def plane_store_def split: prod.splits)

lemma on_store_fst: "fst (on_store f d) = fst (f (plane_store d))"
  by (simp add: on_store_def with_right_def plane_store_def split: prod.split)

lemma plane_audit_parts [simp]:
  "plane_counters (plane_audit e rq actor action rtype rid run dec reason meta d) = plane_counters d"
  "plane_store (plane_audit e rq actor action rtype rid run dec reason meta d) =
     write_audit_event e rq actor action rtype rid run dec reason meta (plane_store d)"
  by (simp_all add: plane_audit_def on_store_def with_right_def plane_counters_def plane_store_def
      split: prod.split)

lemma audit_frame [simp]:
  "s_runs (write_audit_event e rq actor action rtype rid run dec reason meta s) = s_runs s"
  "s_chats (write_audit_event e rq actor action rtype rid run dec reason meta s) = s_chats s"
  "s_run_usage (write_audit_event e rq actor action rtype rid run dec reason meta s) = s_run_usage s"
  by (simp_all add: write_audit_event_def add_audit_event_def Let_def)

lemma event_frame [simp]:
  "s_runs (snd (add_event e rid typ text v s)) = s_runs s"
  "s_chats (snd (add_event e rid typ text v s)) = s_chats s"
  "s_run_usage (snd (add_event e rid typ text v s)) = s_run_usage s"
  by (auto simp: add_event_def add_event_locked_def send_event_def Let_def split: option.splits)

lemma plane_event [simp]:
  "plane_counters (snd (rep_add_event (plane_repository S) e rid typ text v d)) = plane_counters d"
  "plane_store (snd (rep_add_event (plane_repository S) e rid typ text v d)) =
     snd (add_event e rid typ text v (plane_store d))"
  by (auto simp: plane_repository_def fanout_repository_def fanout_add_event_def new_releasing_repository_def
      releasing_repository_def with_right_def plane_counters_def plane_store_def
      split: prod.splits sum.splits option.splits)

lemma plane_update:
  assumes "srv_limiter S = Some l"
  shows "plane_counters (snd (rep_update_run_status (plane_repository S) e rid st text d)) =
    snd (snd (releasing_update_run_status (srv_codec S) l store_repository e rid st text (fst d)))"
  using assms
  by (simp add: plane_repository_def fanout_repository_def new_releasing_repository_def releasing_repository_def
      with_right_def plane_counters_def split: prod.split)

lemma undo_counters:
  assumes "srv_limiter S = Some l" "lim_store l = Some st"
  shows "plane_counters (undo_reservation S (Some r) d) = snd (snd (rollback st r (plane_counters d)))"
  using assms by (simp add: undo_reservation_def on_counters_def plane_counters_def split: prod.split)

lemma undo_none [simp]: "undo_reservation S None d = d"
  by (simp add: undo_reservation_def split: option.split)

section \<open>A run that fails before it starts\<close>

lemma fail_new_run_counters:
  assumes "srv_limiter S = Some l" "s_runs (plane_store d) rid = Some r0" "run_status r0 = RunQueued"
    and "run_id r0 = rid" "s_chats (plane_store d) (run_chat_id r0) = Some chat" "cht_project_id chat \<noteq> ''''"
    and "s_run_usage (plane_store d) rid = None"
  shows "\<exists>rn. run_id rn = rid \<and> run_user_id rn = run_user_id r0 \<and>
    plane_counters (fail_new_run S es rid text err d) =
      snd (release_run (srv_codec S) l rn (cht_project_id chat) zero_run_usage (plane_counters d))"
proof -
  define rn where "rn = r0\<lparr>run_finished_at := Some (e_now (es 0)), run_status := RunFailed,
    run_error := error_text err, run_updated_at := e_now (es 0)\<rparr>"
  define t where "t = (plane_store d)\<lparr>s_runs := (s_runs (plane_store d))(rid \<mapsto> rn)\<rparr>"
  have u: "update_run_status (es 0) rid RunFailed (error_text err) (plane_store d) = (Inr rn, t)"
    using assms(2,3) by (simp add: update_run_status_def is_terminal_run_status_def rn_def t_def Let_def)
  have rn: "run_id rn = rid" "run_user_id rn = run_user_id r0" "run_chat_id rn = run_chat_id r0"
    "run_status rn = RunFailed" using assms(4) by (simp_all add: rn_def)
  have "project_id_for_run store_repository rn t = cht_project_id chat"
    using assms(5) rn by (simp add: project_of t_def)
  moreover have "get_run_usage rid t = Inr zero_run_usage"
    using assms(7) by (simp add: get_run_usage_def t_def map_get_def)
  moreover have "get_run rid (plane_store d) = Inr (r0\<lparr>run_usage := zero_run_usage\<rparr>)"
    using assms(2,7) by (simp add: get_run_def map_get_def)
  ultimately have "snd (snd (releasing_update_run_status (srv_codec S) l store_repository (es 0) rid RunFailed
      (error_text err) (fst d))) =
    snd (release_run (srv_codec S) l rn (cht_project_id chat) zero_run_usage (plane_counters d))"
    using assms(3,6) rn u
    by (simp add: releasing_update_run_status_def plane_store_def plane_counters_def Let_def
        is_terminal_run_status_def)
  then show ?thesis
    using rn plane_update [OF assms(1)] by (auto simp: fail_new_run_def)
qed

lemma fake_same:
  assumes "fake.shifted f c c'" "\<And>k. f k = 0" "fcs_set c' = fcs_set c" "fcs_err c = None"
  shows "c' = c"
proof (rule fake_eqI)
  show "fake_tally c' k = fake_tally c k" for k
    using assms(1,2) by (simp add: fake.shifted_def fake.range)
qed (use assms in \<open>simp_all add: fake.shifted_def fake_up_def\<close>)

lemma readable_project:
  "actor_can_read_chat_id actor cid s \<Longrightarrow>
   \<exists>chat. s_chats s cid = Some chat \<and> cht_project_id chat = act_project_id actor \<and>
     cht_user_id chat = act_user_id actor"
  by (auto simp: actor_can_read_chat_id_def get_chat_def actor_can_read_chat_def Let_def split: option.splits)

lemma require_action_frame:
  "require_action e policy rq actor action rtype rid run fb s = (res, t) \<Longrightarrow>
   s_runs t = s_runs s \<and> s_chats t = s_chats s \<and> s_run_usage t = s_run_usage s"
  by (auto simp: require_action_def Let_def split: if_splits)

text \<open>The run a message queues is new: its identifier is set, has no marker and no usage.\<close>

definition new_run_id :: "'c limiter \<Rightarrow> (string \<rightharpoonup> string) \<Rightarrow> store \<Rightarrow> string \<Rightarrow> bool" where
  "new_run_id l m s rid \<longleftrightarrow>
     trim_space rid = rid \<and> rid \<noteq> '''' \<and> m (run_marker_key l rid) = None \<and> s_run_usage s rid = None"

text \<open>A dispatcher that reports an error has handed the run to nobody.\<close>

definition clean_dispatcher :: "('c, 'b) dispatcher \<Rightarrow> bool" where
  "clean_dispatcher dispatch \<longleftrightarrow> (\<forall>r content d err t. dispatch r content d = (Some err, t) \<longrightarrow> t = d)"

lemma zero_usage_total: "usg_total_tokens (normalize_run_usage zero_run_usage) = 0"
  by (simp add: normalize_run_usage_def zero_run_usage_def wrap64_id)

lemma failed_queue_keeps_quota:
  assumes S: "srv_limiter S = Some l" "lim_store l = Some fake_counter_store" "codec_ok (srv_codec S)"
    and c: "fcs_err c = None" "reserve_run_with_hint l actor policy hint nh nt c = (Inr (Reserved (Some r)), plane_counters d)"
    and rid: "new_run_id l (fcs_set c) (plane_store d) (e_id (es 0) ''run'')"
    and chat: "s_chats (plane_store d) cid = Some chat" "cht_project_id chat = act_project_id actor"
      "cht_user_id chat = act_user_id actor" "act_project_id actor \<noteq> ''''"
    and disp: "clean_dispatcher dispatch"
    and q: "queue_message S dispatch es rq actor cid content (Some r) d = (Inl rep, t)"
  shows "plane_counters t = c"
proof -
  let ?rid = "e_id (es 0) ''run''"
  note 1 = admitted [OF c(1) S(2) c(2)]
  define r0 where "r0 = queued_run (es 0) cid (act_user_id actor)"
  have r0: "run_id r0 = ?rid" "run_status r0 = RunQueued" "run_chat_id r0 = cid" "run_user_id r0 = act_user_id actor"
    by (simp_all add: r0_def queued_run_def)
  obtain msg s1 where a: "add_user_message (es 0) cid (act_user_id actor) content (plane_store d) = (Inr (msg, r0), s1)"
    "s_runs s1 ?rid = Some r0" "s_run_usage s1 = s_run_usage (plane_store d)"
    "\<exists>chat'. s_chats s1 cid = Some chat' \<and> cht_project_id chat' = act_project_id actor"
    using chat by (auto simp: add_user_message_def r0_def queued_run_def Let_def)
  obtain d1 where d1: "on_store (add_user_message (es 0) cid (act_user_id actor) content) d = (Inr (msg, r0), d1)"
    "plane_store d1 = s1" "plane_counters d1 = plane_counters d"
    using a(1) by (auto simp: on_store_def with_right_def plane_store_def plane_counters_def)
  obtain e2 r2 c2 where cm: "commit (srv_codec S) fake_counter_store l ?rid r (plane_counters d) = (e2, r2, c2)"
    by (metis prod_cases3)
  have id: "trim_space ?rid = ?rid" "?rid \<noteq> ''''" "fcs_set c (run_marker_key l ?rid) = None"
    "s_run_usage (plane_store d) ?rid = None" using rid by (simp_all add: new_run_id_def)
  have "fcs_set (plane_counters d) (run_marker_key l ?rid) = None" using id(3) 1(2) by simp
  note 2 = committed [OF 1(1) id(1,2) this cm]
  define d2 where "d2 = ((fst (fst d1), c2), snd d1)"
  have com: "commit_reservation S (Some r) (run_id r0) d1 = ((None, Some r2), d2)"
    using S d1(3) cm 2(1) r0(1)
    by (simp add: commit_reservation_def on_counters_def d2_def plane_counters_def)
  have p2: "plane_store d2 = s1" "plane_counters d2 = c2"
    using d1 by (simp_all add: d2_def plane_store_def plane_counters_def)
  define es1 where "es1 = (\<lambda>i. es (i + 1))"
  define d3 where "d3 = plane_audit (es1 1) rq actor ''run.create'' ''run'' ?rid ?rid AuditDecisionAllow ''''
      [(''chat_id'', VStr cid), (''message_id'', VStr (msg_id msg))]
      (snd (rep_add_event (plane_repository S) (es1 0) ?rid EventRunQueued
        ''Run queued by control plane.'' (VMap [(''message_id'', VStr (msg_id msg))]) d2))"
  have p3: "plane_counters d3 = c2" "s_runs (plane_store d3) ?rid = Some r0"
    "s_run_usage (plane_store d3) ?rid = None"
    "\<exists>chat'. s_chats (plane_store d3) cid = Some chat' \<and> cht_project_id chat' = act_project_id actor"
    using p2 a id(4) by (simp_all add: d3_def)
  have "dispatch_message S dispatch es1 rq actor cid content (Some r2) msg r0 d2 = (Inl rep, t)"
    using q d1(1) com by (simp add: queue_message_def es1_def)
  then have dm: "(case dispatch r0 content d3 of (None, d4) \<Rightarrow> (Inr (msg, r0), d4)
      | (Some err, d4) \<Rightarrow> (Inl (Reply 503 ''run dispatch failed''),
          undo_reservation S (Some r2)
            (plane_audit (es1 4) rq actor ''run.dispatch'' ''run'' ?rid ?rid AuditDecisionDeny
               ''run dispatch failed'' [(''error_class'', VStr ''dispatch_failed'')]
               (fail_new_run S (\<lambda>i. es1 (i + 2)) ?rid ''Run dispatch failed.'' err d4)))) = (Inl rep, t)"
    by (simp only: dispatch_message_def Let_def d3_def r0(1))
  then obtain err d4 where e: "dispatch r0 content d3 = (Some err, d4)"
    by (auto split: prod.splits option.splits)
  then have d4: "d4 = d3" using disp unfolding clean_dispatcher_def by blast
  define d5 where "d5 = fail_new_run S (\<lambda>i. es1 (i + 2)) ?rid ''Run dispatch failed.'' err d3"
  have "t = undo_reservation S (Some r2) (plane_audit (es1 4) rq actor ''run.dispatch'' ''run'' ?rid ?rid
      AuditDecisionDeny ''run dispatch failed'' [(''error_class'', VStr ''dispatch_failed'')] d5)"
    using dm e d4 by (simp add: d5_def)
  then have t: "plane_counters t = snd (snd (rollback fake_counter_store r2 (plane_counters d5)))"
    by (simp add: undo_counters [OF S(1,2)])
  obtain chat' where ch: "s_chats (plane_store d3) (run_chat_id r0) = Some chat'" "cht_project_id chat' = act_project_id actor"
    using p3(4) r0(3) by auto
  have "cht_project_id chat' \<noteq> ''''" using ch(2) chat(4) by simp
  from fail_new_run_counters [OF S(1) p3(2) r0(2,1) ch(1) this p3(3)]
  obtain rn where rn: "run_id rn = ?rid" "run_user_id rn = act_user_id actor"
    "plane_counters d5 = snd (release_run (srv_codec S) l rn (act_project_id actor) zero_run_usage c2)"
    using ch(2) p3(1) r0(4) unfolding d5_def by metis
  obtain e4 c4 where rel: "release_run (srv_codec S) l rn (act_project_id actor) zero_run_usage c2 = (e4, c4)" by fastforce
  obtain e5 r5 c5 where rb: "rollback fake_counter_store r2 c4 = (e5, r5, c5)" by (metis prod_cases3)
  have left: "fake.shifted (\<lambda>k. if rsv_tokens r > 0 \<and> k = rsv_token_key r
      then usg_total_tokens (normalize_run_usage zero_run_usage) else 0) c c5 \<and> fcs_set c5 = fcs_set c"
    by (rule rollback_after_release [OF c(1) S(2,3) _ _ _ c(2) _ rn(2) rel rb])
      (use id cm rn(1) in simp_all)
  have "c5 = c" by (rule fake_same [OF left [THEN conjunct1]]) (use left in \<open>simp_all add: zero_usage_total c(1)\<close>)
  then show ?thesis using t rn(3) rel rb by simp
qed

text \<open>A denial of the limiter carries a message.\<close>

lemma denial_messages:
  "reserve_active st l actor policy r c = (Inr (Denied n), c') \<Longrightarrow> dny_message n = concurrent_message"
  "reserve_hour st l actor policy nh r c = (Inr (Denied n), c') \<Longrightarrow> dny_message n = hourly_message"
  "reserve_tokens st l actor policy hint nt r c = (Inr (Denied n), c') \<Longrightarrow> dny_message n = tokens_message"
  by (auto simp: reserve_active_def reserve_hour_def reserve_tokens_def quota_denial_def Let_def
      split: if_splits prod.splits sum.splits option.splits)

lemma messages_not_Nil: "concurrent_message \<noteq> ''''" "hourly_message \<noteq> ''''" "tokens_message \<noteq> ''''"
  by (simp_all add: concurrent_message_def hourly_message_def tokens_message_def bytes_def)

lemma chain_denied:
  "chain_attempt x f = (Inr (Denied n), c') \<Longrightarrow>
   x = (Inr (Denied n), c') \<or> (\<exists>r c. x = (Inr (Granted r), c) \<and> f r c = (Inr (Denied n), c'))"
  by (auto simp: chain_attempt_def split: prod.splits sum.splits attempt.splits)

lemma refused_message:
  assumes "reserve_run_with_hint l actor policy hint nh nt c = (Inr (Refused n), c')"
  shows "dny_message n \<noteq> ''''"
proof -
  obtain st where "chain_attempt (chain_attempt (reserve_active st l actor policy new_reservation c)
      (reserve_hour st l actor policy nh)) (reserve_tokens st l actor policy hint nt) = (Inr (Denied n), c')"
    using assms by (auto simp: reserve_run_with_hint_def split: option.splits prod.splits sum.splits attempt.splits)
  then have "dny_message n \<in> {concurrent_message, hourly_message, tokens_message}"
    using denial_messages by (fastforce dest!: chain_denied)
  then show ?thesis using messages_not_Nil by auto
qed

lemma quota_reserved:
  assumes "srv_limiter S = Some l" "lim_store l = Some fake_counter_store" "fcs_err (plane_counters d) = None"
    and "reserve_run_quota S es os actor content d = (res, t)"
  obtains (refused) n where "res = Inr (Refused n)" "plane_counters t = plane_counters d" "plane_store t = plane_store d"
  | (reserved) r policy hint nh nt where "res = Inr (Reserved (Some r))" "plane_store t = plane_store d"
      "reserve_run_with_hint l actor policy hint nh nt (plane_counters d) = (Inr (Reserved (Some r)), plane_counters t)"
proof -
  let ?q = "effective_quota_policy (srv_run_quota S) (act_project_id actor) (plane_store d)"
  let ?hint = "estimate_model_token_reservation S content"
  consider n where "res = Inr (Refused n)" "t = d"
    | x c' where "reserve_run_with_hint l actor ?q ?hint (e_now (es (0 + 2))) (e_now (es (1 + 2))) (plane_counters d) = (x, c')"
      "t = ((fst (fst d), c'), snd d)"
      "res = (case x of Inr (Refused n) \<Rightarrow> if dny_message n \<noteq> '''' then x else Inr (Reserved None) | _ \<Rightarrow> x)"
  proof (cases "check_daily_tokens (srv_round S) (os 0) (e_now (es 0)) actor ?q (plane_store d)")
    case None
    show ?thesis
    proof (cases "check_daily_usage_quota (srv_round S) (os 1) (e_now (es 1)) actor ?q (plane_store d)")
      case usage: None
      obtain x c' where x: "reserve_run_with_hint l actor ?q ?hint (e_now (es (0 + 2))) (e_now (es (1 + 2))) (plane_counters d) = (x, c')"
        by fastforce
      have "on_counters (reserve_with_limiter S l (\<lambda>i. es (i + 2)) actor ?q content) d = (x, ((fst (fst d), c'), snd d))"
        using x by (simp only: on_counters_def reserve_with_limiter_def plane_counters_def prod.case)
      then have "(res, t) = (case x of Inr (Refused n) \<Rightarrow>
          if dny_message n \<noteq> '''' then x else Inr (Reserved None) | _ \<Rightarrow> x, ((fst (fst d), c'), snd d))"
        using assms(1,4) None usage
        by (cases x) (auto simp: reserve_run_quota_def Let_def split: outcome.splits)
      then show ?thesis using that(2) x by blast
    next
      case (Some n)
      then have "(Inr (Refused n), d) = (res, t)" using assms(4) None by (simp add: reserve_run_quota_def Let_def)
      then show ?thesis using that(1) by blast
    qed
  next
    case (Some n)
    then have "(Inr (Refused n), d) = (res, t)" using assms(4) by (simp add: reserve_run_quota_def Let_def)
    then show ?thesis using that(1) by blast
  qed
  then show thesis
  proof cases
    case 1
    then show ?thesis using refused by blast
  next
    case 2
    have "fake_up (plane_counters d)" using assms(3) by (simp add: fake_up_def)
    note ok = fake.reserve_up [OF this assms(2) 2(1)] and lim = 2
    have p: "plane_store t = plane_store d" "plane_counters t = c'"
      using 2(2) by (simp_all add: plane_store_def plane_counters_def)
    consider n where "x = Inr (Refused n)" | r where "x = Inr (Reserved (Some r))"
      using ok by (auto simp: fake.reserve_ok_def split: sum.splits outcome.splits option.splits)
    then show ?thesis
    proof cases
      case (1 n)
      then have "fcs_err c' = fcs_err (plane_counters d)" "fcs_set c' = fcs_set (plane_counters d)"
        "fake_tally c' = fake_tally (plane_counters d)"
        using ok assms(3) by (simp_all add: fake.reserve_ok_def fake_up_def)
      then have "c' = plane_counters d" using fake_eqI by metis
      moreover have "dny_message n \<noteq> ''''" by (rule refused_message) (use lim(1) 1 in simp)
      ultimately show ?thesis by (intro refused [of n]) (use 1 lim(3) p in simp_all)
    next
      case (2 r)
      show ?thesis by (rule reserved [of r]) (use 2 lim p in auto)
    qed
  qed
qed

section \<open>An accepted message\<close>

lemma commit_store: "commit_reservation S rsv rid d = (x, t) \<Longrightarrow> plane_store t = plane_store d"
  by (auto simp: commit_reservation_def on_counters_def plane_store_def split: option.splits prod.splits)

lemma reserve_store: "reserve_run_quota S es os actor content d = (res, t) \<Longrightarrow> plane_store t = plane_store d"
  by (auto simp: reserve_run_quota_def on_counters_def plane_store_def Let_def
      split: option.splits prod.splits sum.splits outcome.splits if_splits)

lemma added_message:
  assumes "add_user_message e cid user content s = (Inr (msg, r), t)"
  shows "r = queued_run e cid user" "msg_content msg = content" "s_runs t = (s_runs s)(run_id r \<mapsto> r)"
    "map_option cht_project_id (s_chats t c) = map_option cht_project_id (s_chats s c)"
  using assms by (auto simp: add_user_message_def queued_run_def Let_def split: option.splits if_splits)

lemma run_event_logged:
  assumes "s_runs s rid = Some r"
  shows "\<exists>evs ev. run_log (snd (add_event e rid typ text v s)) rid = evs @ [ev] \<and> evt_type ev = typ"
proof -
  have "\<exists>ev t. add_event e rid typ text v s = (Inr ev, t)"
    using assms by (simp add: add_event_def add_event_locked_def Let_def)
  then obtain ev t where a: "add_event e rid typ text v s = (Inr ev, t)" by blast
  then show ?thesis by (rule add_event_Inr) (auto simp: run_log_def map_get_def a)
qed

lemma audit_log [simp]: "run_log (write_audit_event e rq actor action rtype rid run dec reason meta s) x = run_log s x"
  by (simp add: write_audit_event_def add_audit_event_def run_log_def Let_def)

lemma queue_accepted:
  assumes "queue_message S dispatch es rq actor cid content rsv d = (Inr (msg, r), t)"
  obtains x where "dispatch r content x = (None, t)" "r = queued_run (es 0) cid (act_user_id actor)"
    "msg_content msg = content" "s_runs (plane_store x) = (s_runs (plane_store d))(run_id r \<mapsto> r)"
    "\<And>c. map_option cht_project_id (s_chats (plane_store x) c) = map_option cht_project_id (s_chats (plane_store d) c)"
    "\<exists>evs ev. run_log (plane_store x) (run_id r) = evs @ [ev] \<and> evt_type ev = EventRunQueued"
proof -
  obtain a d1 where a: "on_store (add_user_message (es 0) cid (act_user_id actor) content) d = (a, d1)"
    using surj_pair by metis
  note p1 = on_store_parts [OF a, THEN conjunct2]
  obtain m r' where ok: "a = Inr (m, r')"
    using assms a by (cases a) (auto simp: queue_message_def)
  note m = added_message [OF p1 [unfolded ok]]
  obtain y d2 where c: "commit_reservation S rsv (run_id r') d1 = (y, d2)" using surj_pair by metis
  obtain e rsv1 where y: "y = (e, rsv1)" by fastforce
  have e: "e = None" using assms a ok c y by (cases e) (auto simp: queue_message_def)
  define es1 where "es1 = (\<lambda>i. es (i + 1))"
  have dm: "dispatch_message S dispatch es1 rq actor cid content rsv1 m r' d2 = (Inr (msg, r), t)"
    using assms a ok c y e by (simp add: queue_message_def es1_def)
  define x where "x = plane_audit (es1 1) rq actor ''run.create'' ''run'' (run_id r') (run_id r') AuditDecisionAllow ''''
      [(''chat_id'', VStr cid), (''message_id'', VStr (msg_id m))]
      (snd (rep_add_event (plane_repository S) (es1 0) (run_id r') EventRunQueued
        ''Run queued by control plane.'' (VMap [(''message_id'', VStr (msg_id m))]) d2))"
  have s2: "plane_store d2 = plane_store d1" by (rule commit_store [OF c])
  have "(case dispatch r' content x of (None, d3) \<Rightarrow> Inr (m, r') | (Some err, d3) \<Rightarrow> Inl (Reply 503 ''run dispatch failed'')) =
      Inr (msg, r) \<and> snd (dispatch r' content x) = t"
    using dm unfolding dispatch_message_def Let_def x_def by (auto split: prod.splits option.splits)
  then have r: "m = msg" "r' = r" "dispatch r content x = (None, t)"
    by (auto split: prod.splits option.splits)
  show thesis
  proof (rule that [of x])
    show "\<exists>evs ev. run_log (plane_store x) (run_id r) = evs @ [ev] \<and> evt_type ev = EventRunQueued"
      using run_event_logged [of "plane_store d2" "run_id r" r] m r s2 by (simp add: x_def)
  qed (use r m s2 in \<open>simp_all add: x_def\<close>)
qed

definition active_runs_of :: "store \<Rightarrow> string \<Rightarrow> string \<Rightarrow> string set" where
  "active_runs_of s user project =
     {rid. \<exists>r. s_runs s rid = Some r \<and> run_user_id r = user \<and> is_active_run_status (run_status r) \<and>
        chat_in_project s (run_chat_id r) project}"

lemma count_active_card:
  "enumerates order (s_runs s) \<Longrightarrow> count_active_runs order user project s = int (card (active_runs_of s user project))"
  by (auto simp: count_active_runs_def count_loop_eq active_runs_of_def length_filter_range_enum conj_assoc
      intro!: arg_cong [where f = card])

lemma project_cong:
  "map_option cht_project_id (s_chats t c) = map_option cht_project_id (s_chats s c) \<Longrightarrow>
   chat_in_project t c project = chat_in_project s c project"
  by (cases "s_chats t c"; cases "s_chats s c") (simp_all add: chat_in_project_def)

lemma accepted_parts:
  assumes "create_message S dispatch es os rq actor cid body d = (Inr (msg, r), t)"
  shows "\<exists>d2 rsv. actor_can_read_chat_id actor cid (plane_store d) \<and> trim_space (the body) \<noteq> '''' \<and>
    pdc_allowed (authorize (srv_action_policy S) actor ''message.create'' require_write) \<and>
    queue_message S dispatch (\<lambda>i. es (i + 7)) rq actor cid (trim_space (the body)) rsv d2 = (Inr (msg, r), t) \<and>
    s_runs (plane_store d2) = s_runs (plane_store d) \<and> s_chats (plane_store d2) = s_chats (plane_store d) \<and>
    (srv_limiter S = None \<longrightarrow>
       check_run_quota S (\<lambda>i. es (i + 3)) (\<lambda>i. os (i + 2)) actor (plane_store d) = None)"
proof -
  obtain raw where body: "body = Some raw" "trim_space raw \<noteq> ''''"
    and read: "actor_can_read_chat_id actor cid (plane_store d)"
    using assms by (cases body) (auto simp: create_message_def Let_def split: if_splits)
  obtain ans d1 where a: "on_store (require_action (es 0) (srv_action_policy S) rq actor ''message.create''
      ''chat'' cid '''' require_write) d = (ans, d1)" using surj_pair by metis
  have none: "ans = None" using assms body read a by (cases ans) (auto simp: create_message_def Let_def)
  note act = on_store_parts [OF a, THEN conjunct2]
  have allowed: "pdc_allowed (authorize (srv_action_policy S) actor ''message.create'' require_write)"
    and s1: "plane_store d1 = plane_store d"
    using act none by (auto simp: require_action_def Let_def split: if_splits)
  obtain res d2 where q: "reserve_run_quota S (\<lambda>i. es (i + 1)) os actor (trim_space raw) d1 = (res, d2)"
    using surj_pair by metis
  obtain rsv where res: "res = Inr (Reserved rsv)"
    using assms body read a none q
    by (auto simp: create_message_def Let_def split: sum.splits outcome.splits)
  have "srv_limiter S = None \<longrightarrow> check_run_quota S (\<lambda>i. es (i + 3)) (\<lambda>i. os (i + 2)) actor (plane_store d) = None"
    using q res s1 by (auto simp: reserve_run_quota_def Let_def numeral_3_eq_3 split: option.splits)
  moreover have "queue_message S dispatch (\<lambda>i. es (i + 7)) rq actor cid (trim_space raw) rsv d2 = (Inr (msg, r), t)"
    using assms body read a none q res by (simp add: create_message_def Let_def)
  moreover have "s_runs (plane_store d2) = s_runs (plane_store d) \<and> s_chats (plane_store d2) = s_chats (plane_store d)"
    using reserve_store [OF q] s1 by simp
  ultimately show ?thesis using body read allowed by (intro exI [of _ d2] exI [of _ rsv]) simp
qed

lemma failing_dispatcher:
  assumes "\<And>r content x. fst (dispatch r content x) \<noteq> None"
  shows "\<exists>rep t. create_message S dispatch es os rq actor cid body d = (Inl rep, t)"
proof -
  obtain y t where y: "create_message S dispatch es os rq actor cid body d = (y, t)" using surj_pair by metis
  have False if acc: "y = Inr (msg, r)" for msg r
  proof -
    obtain d2 rsv where "queue_message S dispatch (\<lambda>i. es (i + 7)) rq actor cid (trim_space (the body)) rsv d2 = (Inr (msg, r), t)"
      using accepted_parts y acc by blast
    then obtain x where "dispatch r (trim_space (the body)) x = (None, t)" by (rule queue_accepted)
    then show False using assms by (metis fst_conv)
  qed
  then show ?thesis using y by (cases y) auto
qed

section \<open>A concrete message\<close>

definition next_env :: "nat \<Rightarrow> env" where
  "next_env i = \<lparr>e_now = 10 + int i, e_id = (\<lambda>p. p @ ''_2'')\<rparr>"

lemma next_env_simps [simp]: "e_now (next_env i) = 10 + int i" "e_id (next_env i) p = p @ ''_2''"
  by (simp_all add: next_env_def)

definition sample_server :: "'c limiter option \<Rightarrow> ('c, unit) server" where
  "sample_server l = \<lparr>srv_limiter = l, srv_codec = sample_codec, srv_bus = None,
     srv_run_quota = \<lparr>rqt_max_concurrent_runs = 5, rqt_max_runs_per_hour = 0, rqt_max_tokens_per_day = 0,
       rqt_max_tool_calls_per_day = 0, rqt_max_sandbox_seconds_per_day = 0\<rparr>,
     srv_token_reservation = \<lparr>tro_mode = ''fixed'', tro_output_buffer = 0, tro_model = ''''\<rparr>,
     srv_action_policy = Map.empty, srv_estimate = (\<lambda>t m. 0), srv_round = id,
     srv_internal_token = '''', srv_control_plane_url = '''', srv_artifact_retention = 0,
     srv_artifact_cleanup_files = False\<rparr>"

lemma sample_server_simps [simp]:
  "srv_limiter (sample_server l) = l" "srv_codec (sample_server l) = sample_codec"
  "srv_action_policy (sample_server l) = Map.empty" "srv_round (sample_server l) = id"
  by (simp_all add: sample_server_def)

abbreviation sample_post :: api_request where
  "sample_post \<equiv> \<lparr>arq_path = ''/api/chats/chat_1/messages'', arq_header = (\<lambda>n. ''''), arq_remote_addr = '''',
     arq_user_agent = '''', arq_request_id = '''', arq_trace_id = ''''\<rparr>"

lemma demo_reads: "actor_can_read_chat_id demo_actor ''chat_1'' demo_store"
  by (simp add: actor_can_read_chat_id_def actor_can_read_chat_def get_chat_def demo_actor_def demo_store_def
      demo_steps new_store_def)

lemma demo_may_write: "pdc_allowed (authorize Map.empty demo_actor action require_write)"
proof -
  have "to_lower (trim_space ''owner'') = ''owner''"
    by (simp add: trim_graphic graphic_def)
      (subst to_lower_ascii; simp add: bytes_def char_of_def lower_char_def)+
  then show ?thesis
    by (simp add: authorize_def allowed_decision_def actor_can_write_def demo_actor_def)
qed

lemma sample_words: "trim_space ''hi'' = ''hi''" "trim_space ''run_2'' = ''run_2''"
  by (simp_all add: trim_graphic graphic_def)

lemma demo_policy: "effective_quota_policy (srv_run_quota (sample_server l)) ''demo-project'' demo_store =
    zero_quota_policy\<lparr>qpl_project_id := ''demo-project'', qpl_max_concurrent_runs := 5\<rparr>"
  by (simp add: effective_quota_policy_def get_project_quota_policy_def demo_store_def demo_steps new_store_def
      sample_server_def zero_quota_policy_def)

lemma demo_enumerates: "enumerates [''run_1''] (s_runs demo_store)"
  by (auto simp: enumerates_def demo_store_def demo_steps new_store_def)

lemma demo_chat_store: "\<exists>m r s. add_user_message (next_env 7) ''chat_1'' ''demo-user'' ''hi'' demo_store = (Inr (m, r), s)"
  by (simp add: demo_store_def demo_steps new_store_def)

lemma unit_plane: "\<exists>a. x = ((a, ()), ())" for x :: "(unit, unit) plane"
  by (cases x) auto

lemma sample_accepted:
  "\<exists>msg r t. create_message (sample_server None) (\<lambda>r content d. (None, d)) next_env (\<lambda>i. [''run_1'']) sample_post
     demo_actor ''chat_1'' (Some ''hi'') ((demo_store, ()), ()) = (Inr (msg, r), t)"
proof -
  have demo: "act_user_id demo_actor = ''demo-user''" "act_project_id demo_actor = ''demo-project''"
    by (simp_all add: demo_actor_def)
  have one: "count_active_runs [''run_1''] ''demo-user'' ''demo-project'' demo_store \<le> 1"
    by (simp add: count_active_runs_def demo_store_run)
  have q: "reserve_run_quota (sample_server None) (\<lambda>i. next_env (i + 1)) (\<lambda>i. [''run_1'']) demo_actor ''hi''
      ((demo_store, ()), ()) = (Inr (Reserved None), ((demo_store, ()), ()))"
  proof -
    define p where "p = effective_quota_policy (srv_run_quota (sample_server None :: (unit, unit) server)) ''demo-project'' demo_store"
    have p: "qpl_max_concurrent_runs p = 5" "qpl_max_runs_per_hour p = 0" "qpl_max_model_tokens_per_day p = 0"
      "qpl_max_tool_calls_per_day p = 0" "qpl_max_sandbox_seconds_per_day p = 0"
      by (simp_all add: p_def demo_policy zero_quota_policy_def)
    then have "check_daily_tokens rnd order now demo_actor p demo_store = None"
      "check_daily_usage_quota rnd order now demo_actor p demo_store = None" for rnd order now
      by (simp_all add: check_daily_tokens_def check_daily_usage_quota_def)
    then show ?thesis using one p
      by (simp add: reserve_run_quota_def check_run_quota_def plane_store_def demo p_def [symmetric] Let_def)
  qed
  obtain m r s where a: "add_user_message (next_env 7) ''chat_1'' ''demo-user'' ''hi'' demo_store = (Inr (m, r), s)"
    using demo_chat_store by blast
  have "\<exists>t. queue_message (sample_server None) (\<lambda>r content d. (None, d)) (\<lambda>i. next_env (i + 7)) sample_post demo_actor
      ''chat_1'' ''hi'' None ((demo_store, ()), ()) = (Inr (m, r), t)"
    using a by (simp add: queue_message_def on_store_def with_right_def demo commit_reservation_def
        dispatch_message_def unit_plane Let_def)
  then show ?thesis
    using demo_reads demo_may_write [of "''message.create''"] q
    by (simp add: create_message_def plane_store_def sample_words on_store_def with_right_def require_action_def
        Let_def) blast
qed

section \<open>Properties\<close>



text \<open>C9. An accepted message comes from an actor who may read the chat and whose role allows
  \<open>message.create\<close>; its run belongs to that actor and chat, and the dispatcher, which took it
  without error, was given it queued in the store, with \<open>run.queued\<close> as the last event.\<close>

theorem accepted_message_is_dispatched:
  assumes "create_message S dispatch es os rq actor cid body d = (Inr (msg, r), t)"
  shows "actor_can_read_chat_id actor cid (plane_store d) \<and>
    pdc_allowed (authorize (srv_action_policy S) actor ''message.create'' require_write) \<and>
    run_user_id r = act_user_id actor \<and> run_chat_id r = cid \<and> run_status r = RunQueued \<and>
    msg_content msg = trim_space (the body) \<and> msg_content msg \<noteq> '''' \<and>
    (\<exists>x. dispatch r (msg_content msg) x = (None, t) \<and> s_runs (plane_store x) (run_id r) = Some r \<and>
       (\<exists>evs ev. run_log (plane_store x) (run_id r) = evs @ [ev] \<and> evt_type ev = EventRunQueued))"
proof -
  obtain d2 rsv where parts: "actor_can_read_chat_id actor cid (plane_store d)" "trim_space (the body) \<noteq> ''''"
    "pdc_allowed (authorize (srv_action_policy S) actor ''message.create'' require_write)"
    "queue_message S dispatch (\<lambda>i. es (i + 7)) rq actor cid (trim_space (the body)) rsv d2 = (Inr (msg, r), t)"
    using accepted_parts [OF assms] by blast
  from parts(4) show ?thesis
  proof (cases rule: queue_accepted)
    case (1 x)
    then have "s_runs (plane_store x) (run_id r) = Some r" by simp
    moreover have "run_user_id r = act_user_id actor \<and> run_chat_id r = cid \<and> run_status r = RunQueued"
      using 1(2) by (simp add: queued_run_def)
    ultimately show ?thesis using 1(1,3,6) parts(1-3) by (intro conjI exI [of _ x]) simp_all
  qed
qed

theorem accepted_message_is_dispatched_witness:
  "\<exists>msg r t x. create_message (sample_server None) (\<lambda>r content d. (None, d)) next_env (\<lambda>i. [''run_1'']) sample_post
     demo_actor ''chat_1'' (Some ''hi'') ((demo_store, ()), ()) = (Inr (msg, r), t) \<and>
     msg_content msg = ''hi'' \<and> s_runs (plane_store t) (run_id r) = Some r"
proof -
  obtain msg r t where m: "create_message (sample_server None) (\<lambda>r content d. (None, d)) next_env (\<lambda>i. [''run_1''])
      sample_post demo_actor ''chat_1'' (Some ''hi'') ((demo_store, ()), ()) = (Inr (msg, r), t)"
    using sample_accepted by blast
  from accepted_message_is_dispatched [OF m] m show ?thesis by (simp add: sample_words)
qed

text \<open>Without a limiter the store's own count bounds the runs: a message that is accepted
  leaves its user with at most as many active runs in the project as the policy allows, when
  messages are handled one at a time.\<close>

theorem store_count_bounds_runs:
  assumes "srv_limiter S = None" "enumerates (os 2) (s_runs (plane_store d))"
    and "limit = qpl_max_concurrent_runs (effective_quota_policy (srv_run_quota S) (act_project_id actor) (plane_store d))"
    and "0 < limit" "create_message S dispatch es os rq actor cid body d = (Inr (msg, r), t)"
  shows "\<exists>x. dispatch r (msg_content msg) x = (None, t) \<and>
    int (card (active_runs_of (plane_store x) (act_user_id actor) (act_project_id actor))) \<le> limit"
proof -
  let ?A = "\<lambda>s. active_runs_of s (act_user_id actor) (act_project_id actor)"
  obtain d2 rsv where parts: "queue_message S dispatch (\<lambda>i. es (i + 7)) rq actor cid (trim_space (the body)) rsv d2 = (Inr (msg, r), t)"
    "s_runs (plane_store d2) = s_runs (plane_store d)" "s_chats (plane_store d2) = s_chats (plane_store d)"
    "srv_limiter S = None \<longrightarrow> check_run_quota S (\<lambda>i. es (i + 3)) (\<lambda>i. os (i + 2)) actor (plane_store d) = None"
    using accepted_parts [OF assms(5)] by (elim exE conjE)
  have "count_active_runs (os 2) (act_user_id actor) (act_project_id actor) (plane_store d) < limit"
    using parts(4) assms(1,3,4) by (auto simp: check_run_quota_def Let_def numeral_2_eq_2 split: if_splits)
  then have below: "int (card (?A (plane_store d))) < limit" using count_active_card [OF assms(2)] by simp
  from parts(1) show ?thesis
  proof (cases rule: queue_accepted)
    case (1 x)
    have "?A (plane_store x) \<subseteq> insert (run_id r) (?A (plane_store d))"
      using 1(4,5) parts(2,3) project_cong [of "plane_store x" _ "plane_store d"] by (auto simp: active_runs_of_def)
    moreover have "finite (?A (plane_store d))"
      by (rule finite_subset [OF _ enumerates_finite [OF assms(2)]]) (auto simp: active_runs_of_def)
    ultimately have "card (?A (plane_store x)) \<le> card (insert (run_id r) (?A (plane_store d)))"
      by (intro card_mono) simp_all
    also have "\<dots> \<le> Suc (card (?A (plane_store d)))"
      using \<open>finite (?A (plane_store d))\<close> by (simp add: card_insert_if)
    finally have "card (?A (plane_store x)) \<le> Suc (card (?A (plane_store d)))" .
    then show ?thesis using below 1(1,3) by (intro exI [of _ x]) simp
  qed
qed

theorem store_count_bounds_runs_witness:
  "\<exists>t. int (card (active_runs_of (plane_store (t :: (unit, unit) plane)) ''demo-user'' ''demo-project'')) \<le> 5"
proof -
  obtain msg r t where m: "create_message (sample_server None) (\<lambda>r content d. (None, d)) next_env (\<lambda>i. [''run_1''])
      sample_post demo_actor ''chat_1'' (Some ''hi'') ((demo_store, ()), ()) = (Inr (msg, r), t)"
    using sample_accepted by blast
  have demo: "act_user_id demo_actor = ''demo-user''" "act_project_id demo_actor = ''demo-project''"
    by (simp_all add: demo_actor_def)
  have "enumerates [''run_1''] (s_runs (plane_store ((demo_store, ()), ())))"
    using demo_enumerates by (simp add: plane_store_def)
  from store_count_bounds_runs [OF _ this _ _ m, where limit = 5] show ?thesis
    by (auto simp: demo demo_policy plane_store_def zero_quota_policy_def)
qed

end
