(* ===== verification/Internal_Api_Properties.thy ===== *)
theory Internal_Api_Properties
  imports Internal_Api Decorator_Properties Admission_Properties
begin

text \<open>
  What the internal interface guarantees: while a worker's lease on a run holds, requests of
  anyone else about that run have no effect; a report that was answered is final and its
  repetition harmless; a tool call that was allowed leaves the day's usage within the quota; and
  the cleanup removes files inside their workspaces only.
\<close>

section \<open>The store behind the control plane\<close>

lemma transparent_trans:
  assumes "transparent D R p" "transparent R Q q"
  shows "transparent D Q (\<lambda>d. q (p d))"
  by (rule transparent.intro)
    (simp_all add: transparent.get_run_eq [OF assms(1)] transparent.get_run_eq [OF assms(2)]
      transparent.list_events_eq [OF assms(1)] transparent.list_events_eq [OF assms(2)]
      transparent.get_artifact_eq [OF assms(1)] transparent.get_artifact_eq [OF assms(2)]
      transparent.message_sim [OF assms(2) transparent.message_sim [OF assms(1)]]
      transparent.update_sim [OF assms(2) transparent.update_sim [OF assms(1)]]
      transparent.usage_sim [OF assms(2) transparent.usage_sim [OF assms(1)]]
      transparent.event_sim [OF assms(2) transparent.event_sim [OF assms(1)]]
      transparent.artifact_sim [OF assms(2) transparent.artifact_sim [OF assms(1)]])

lemma plane_transparent: "transparent (plane_repository S) store_repository plane_store"
proof -
  have "transparent (new_releasing_repository (srv_codec S) (srv_limiter S) store_repository) store_repository fst"
    by (cases "srv_limiter S")
      (simp_all add: new_releasing_repository_def embedding.transparent_axioms releasing.transparent_axioms)
  from transparent_trans [OF fanout.transparent_axioms this]
  show ?thesis by (simp add: plane_repository_def plane_store_def [abs_def])
qed

interpretation plane: transparent "plane_repository S" store_repository plane_store for S
  by (rule plane_transparent)


lemma plane_reads [simp]:
  "rep_get_chat (plane_repository S) cid d = get_chat cid (plane_store d)"
  "rep_get_run (plane_repository S) rid d = get_run rid (plane_store d)"
  "rep_get_run_usage (plane_repository S) rid d = get_run_usage rid (plane_store d)"
  by (cases "srv_limiter S"; simp add: plane_repository_def fanout_repository_def new_releasing_repository_def
      releasing_repository_def embed_repository_def plane_store_def)+

lemma on_store_store [simp]: "plane_store (snd (on_store f d)) = snd (f (plane_store d))"
  by (simp add: on_store_def with_right_def plane_store_def split: prod.split)

lemma on_store_same: "snd (f (plane_store d)) = plane_store d \<Longrightarrow> snd (on_store f d) = d"
  by (cases d) (auto simp: on_store_def with_right_def plane_store_def split: prod.splits)

lemma plane_writes [simp]:
  "plane_store (snd (rep_add_assistant_message (plane_repository S) e c rid text d)) =
     snd (add_assistant_message e c rid text (plane_store d))"
  "plane_store (snd (rep_update_run_status (plane_repository S) e rid st text d)) =
     snd (update_run_status e rid st text (plane_store d))"
  "plane_store (snd (rep_save_run_usage (plane_repository S) rid u d)) =
     snd (save_run_usage rid u (plane_store d))"
  "plane_store (snd (rep_add_artifact (plane_repository S) e a d)) = snd (add_artifact e a (plane_store d))"
  using plane.sims(1) [of e c rid "text" d S] plane.sims(2) [of e rid st "text" d S] plane.sims(3) [of rid u d S]
    plane.sims(5) [of e a d S]
  by simp_all

lemma plane_sinks:
  "sink_register_artifacts (plane_repository S) es rid as d = (x1, t) \<Longrightarrow>
     sink_register_artifacts store_repository es rid as (plane_store d) = (x1, plane_store t)"
  "sink_fail (plane_repository S) es rid text d = (x2, t) \<Longrightarrow>
     sink_fail store_repository es rid text (plane_store d) = (x2, plane_store t)"
  "sink_complete (plane_repository S) es rid content as d = (x3, t) \<Longrightarrow>
     sink_complete store_repository es rid content as (plane_store d) = (x3, plane_store t)"
  "rep_add_event (plane_repository S) e rid typ text v d = (x4, t) \<Longrightarrow>
     add_event e rid typ text v (plane_store d) = (x4, plane_store t)"
  "rep_save_run_usage (plane_repository S) rid u d = (x5, t) \<Longrightarrow>
     save_run_usage rid u (plane_store d) = (x5, plane_store t)"
  using plane.register_sim [of es rid as d S] plane.fail_sim [of es rid "text" d S]
    plane.complete_sim [of es rid content as d S] plane.sims(4) [of e rid "typ" "text" v d S]
    plane.sims(3) [of rid u d S]
  by simp_all

section \<open>What every write of a worker keeps\<close>

locale store_property =
  fixes P :: "store \<Rightarrow> bool"
  assumes update: "P s \<Longrightarrow> P (snd (update_run_status e rid st text s))"
    and usage: "P s \<Longrightarrow> P (snd (save_run_usage rid u s))"
    and event: "P s \<Longrightarrow> P (snd (add_event e rid typ text v s))"
    and message: "P s \<Longrightarrow> P (snd (add_assistant_message e c rid text s))"
    and artifact: "P s \<Longrightarrow> P (snd (add_artifact e a s))"
    and invocation: "P s \<Longrightarrow> P (snd (record_skill_invocation e inp s))"
    and audited: "P s \<Longrightarrow> P (write_audit_event e rq actor action rtype q run dec reason meta s)"
begin

lemma writes:
  "update_run_status e rid st text s = (x1, t) \<Longrightarrow> P s \<Longrightarrow> P t"
  "save_run_usage rid u s = (x2, t) \<Longrightarrow> P s \<Longrightarrow> P t"
  "add_event e rid typ text v s = (x3, t) \<Longrightarrow> P s \<Longrightarrow> P t"
  "add_assistant_message e c rid text s = (x4, t) \<Longrightarrow> P s \<Longrightarrow> P t"
  "add_artifact e a s = (x5, t) \<Longrightarrow> P s \<Longrightarrow> P t"
  using update usage event message artifact by (metis snd_conv)+

lemma register_loop: "register_loop store_repository es r rid as saved s = (res, t) \<Longrightarrow> P s \<Longrightarrow> P t"
proof (induction as arbitrary: es saved s)
  case (Cons a as)
  from Cons.prems(1) show ?case
    by (auto split: option.splits prod.splits sum.splits dest!: Cons.IH
        intro: writes(3) [OF _ writes(5) [OF _ Cons.prems(2)]] writes(5) [OF _ Cons.prems(2)] Cons.prems(2))
qed simp

lemma register: "sink_register_artifacts store_repository es rid as s = (res, t) \<Longrightarrow> P s \<Longrightarrow> P t"
  by (auto simp: sink_register_artifacts_def split: sum.splits if_splits dest: register_loop)

lemma emit: "sink_emit store_repository e rid typ text v s = (res, t) \<Longrightarrow> P s \<Longrightarrow> P t"
  by (auto simp: sink_emit_def split: prod.splits sum.splits dest: writes)

lemma fail_commit: "sink_fail_commit store_repository es rid text s = (res, t) \<Longrightarrow> P s \<Longrightarrow> P t"
  by (auto simp: sink_fail_commit_def split: prod.splits sum.splits dest: writes emit)

lemma fail: "sink_fail store_repository es rid text s = (res, t) \<Longrightarrow> P s \<Longrightarrow> P t"
  by (auto simp: sink_fail_def split: sum.splits if_splits dest: fail_commit)

lemma complete: "sink_complete store_repository es rid content as s = (res, t) \<Longrightarrow> P s \<Longrightarrow> P t"
  by (auto simp: sink_complete_def split: prod.splits sum.splits if_splits dest!: emit dest: writes register)

lemma tool_event: "P (plane_store d) \<Longrightarrow> P (plane_store (audit_internal_tool_event S es rq rid ev v d))"
  by (auto simp: audit_internal_tool_event_def Let_def intro!: audited invocation split: sum.split prod.split)

lemma charge: "P (plane_store d) \<Longrightarrow> P (plane_store (snd (save_tool_charge S rid calls seconds d)))"
  by (simp add: save_tool_charge_def Let_def)
    (auto split: sum.splits prod.splits if_splits dest!: plane_sinks dest: writes)

lemma complete_usage:
  "save_complete_usage S rid b d = (res, t) \<Longrightarrow> P (plane_store d) \<Longrightarrow> P (plane_store t)"
  by (auto simp: save_complete_usage_def Let_def split: sum.splits prod.splits if_splits dest!: plane_sinks dest: writes)

lemma write_event:
  "P (plane_store d) \<Longrightarrow> P (plane_store (snd (internal_write_run_event S J es h rid d)))"
  by (auto simp: internal_write_run_event_def Let_def split: option.split sum.split prod.split
      dest!: plane_sinks(4) intro!: update tool_event dest: writes)

lemma report:
  "P (plane_store d) \<Longrightarrow> P (plane_store (snd (internal_complete_run S J es h rid d)))"
  "P (plane_store d) \<Longrightarrow> P (plane_store (snd (internal_fail_run S J es h rid d)))"
  "P (plane_store d) \<Longrightarrow> P (plane_store (snd (internal_register_run_artifacts S J es h rid d)))"
  by (auto simp: internal_complete_run_def internal_fail_run_def internal_register_run_artifacts_def Let_def
      split: option.split sum.split prod.split dest!: plane_sinks
      dest: complete fail register complete_usage)

lemma quota:
  "P (plane_store d) \<Longrightarrow> P (plane_store (snd (internal_reserve_tool_quota S J es order h rid d)))"
  by (simp add: internal_reserve_tool_quota_def quota_refused_def Let_def charge
      split: option.split sum.split prod.split)

text \<open>Every action on a run but the claim keeps \<open>P\<close>.\<close>

lemma action:
  assumes "P (plane_store d)"
    and "P (plane_store (snd (internal_claim_run J es h rid d)))"
  shows "P (plane_store (snd (internal_run_action S J getenv es order h rid action d)))"
  using assms by (simp add: internal_run_action_def Let_def write_event report quota)

end

lemma record_frame [simp]: "s_runs (snd (record_skill_invocation e inp s)) = s_runs s"
  by (auto simp: record_skill_invocation_def Let_def split: option.split)

lemma artifact_runs [simp]: "s_runs (snd (add_artifact e a s)) = s_runs s"
  by (auto simp: add_artifact_def Let_def)

lemma message_runs [simp]: "s_runs (snd (add_assistant_message e c rid text s)) = s_runs s"
  by (auto simp: add_assistant_message_def Let_def split: option.split)

interpretation lease: store_property "holds_lease rid a l" for rid a l
  by unfold_locales (simp_all add: holds_lease_write holds_lease_event, simp_all add: holds_lease_def)

section \<open>Fencing\<close>

text \<open>The attempts a request speaks for, and the run it is about.\<close>

definition carried_attempts :: "json_lib \<Rightarrow> api_call \<Rightarrow> string list" where
  "carried_attempts J h =
     attempt_query h #
     (case jsn_claim J (htr_body h) of None \<Rightarrow> [] | Some b \<Rightarrow> [trim_space (clb_attempt_id b)]) @
     (case jsn_event J (htr_body h) of None \<Rightarrow> [] | Some b \<Rightarrow> [evb_attempt_id b]) @
     (case jsn_complete J (htr_body h) of None \<Rightarrow> [] | Some b \<Rightarrow> [cmb_attempt_id b]) @
     (case jsn_fail J (htr_body h) of None \<Rightarrow> [] | Some b \<Rightarrow> [flb_attempt_id b]) @
     (case jsn_artifacts J (htr_body h) of None \<Rightarrow> [] | Some b \<Rightarrow> [arb_attempt_id b]) @
     (case jsn_quota J (htr_body h) of None \<Rightarrow> [] | Some b \<Rightarrow> [qtb_attempt_id b])"

definition requested_run :: "api_call \<Rightarrow> string option" where
  "requested_run h =
     (case split_path (trim_prefix (arq_path (htr_api h)) ''/internal/runs/'') of
        [rid, action] \<Rightarrow> Some rid | _ \<Rightarrow> None)"

type_synonym internal_call = "(nat \<Rightarrow> env) \<times> string list \<times> api_call"

fun serve_internal ::
  "('c, 'b) server \<Rightarrow> json_lib \<Rightarrow> (string \<Rightarrow> string) \<Rightarrow> internal_call list \<Rightarrow> ('c, 'b) plane \<Rightarrow> ('c, 'b) plane" where
  "serve_internal S J getenv [] d = d"
| "serve_internal S J getenv ((es, order, h) # xs) d =
     serve_internal S J getenv xs (snd (internal_run_subroutes S J getenv es order h d))"

text \<open>A call that has a say in the run: it is about another run or carries the attempt.\<close>

fun has_say :: "json_lib \<Rightarrow> string \<Rightarrow> string \<Rightarrow> internal_call \<Rightarrow> bool" where
  "has_say J rid a (es, order, h) \<longleftrightarrow> requested_run h \<noteq> Some rid \<or> a \<in> set (carried_attempts J h)"

text \<open>The environment's side: a claim of the run happens before the lease ends, and the holder
  does not shorten its own lease.\<close>

fun claim_in_time :: "json_lib \<Rightarrow> string \<Rightarrow> string \<Rightarrow> gtime \<Rightarrow> internal_call \<Rightarrow> bool" where
  "claim_in_time J rid a l (es, order, h) \<longleftrightarrow>
     requested_run h \<noteq> Some rid \<or>
     (e_now (es 1) < l \<and>
      (case jsn_claim J (htr_body h) of
         None \<Rightarrow> True
       | Some b \<Rightarrow> trim_space (clb_attempt_id b) \<noteq> a \<or>
           l \<le> lease_end (e_now (es 0))
             (if clb_lease_seconds b \<le> 0 then default_attempt_lease_seconds else clb_lease_seconds b)))"

lemma check_refused:
  "holds_lease rid a l s \<Longrightarrow> b \<noteq> a \<Longrightarrow> check_run_attempt rid b s = Inl ErrAttemptMismatch"
  using holds_lease_fences(1) by blast

lemma not_carried:
  assumes "a \<notin> set (carried_attempts J h)"
  shows "jsn_event J (htr_body h) = Some b1 \<Longrightarrow> evb_attempt_id b1 \<noteq> a"
    and "jsn_complete J (htr_body h) = Some b2 \<Longrightarrow> cmb_attempt_id b2 \<noteq> a"
    and "jsn_fail J (htr_body h) = Some b3 \<Longrightarrow> flb_attempt_id b3 \<noteq> a"
    and "jsn_quota J (htr_body h) = Some b4 \<Longrightarrow> qtb_attempt_id b4 \<noteq> a"
  using assms by (auto simp: carried_attempts_def)

lemma claim_refused:
  assumes "holds_lease rid a l s" "a \<noteq> ''''" "b \<noteq> a" "e_now e < l"
  shows "snd (claim_run_attempt e rid b w x s) = s"
  using assms by (auto simp: holds_lease_def claim_run_attempt_def lease_blocks_def after_def Let_def)

lemma claim_state:
  "snd (internal_claim_run J es h rid d) =
     (case jsn_claim J (htr_body h) of
        None \<Rightarrow> d
      | Some b \<Rightarrow>
          if trim_space (clb_attempt_id b) = '''' then d
          else snd (on_store (claim_run_attempt (es 1) rid (trim_space (clb_attempt_id b)) (clb_claimed_by b)
                 (lease_end (e_now (es 0)) (if clb_lease_seconds b \<le> 0 then default_attempt_lease_seconds
                    else clb_lease_seconds b))) d))"
  by (simp add: internal_claim_run_def Let_def case_prod_beta sum.case_eq_if split: option.split)

lemma without_say:
  assumes held: "holds_lease rid a l (plane_store d)" "a \<noteq> ''''"
    and h: "a \<notin> set (carried_attempts J h)" "e_now (es 1) < l"
  shows "snd (internal_run_action S J getenv es order h rid action d) = d"
proof -
  note no = check_refused [OF held(1)]
  have claim: "snd (internal_claim_run J es h rid d) = d"
  proof (cases "jsn_claim J (htr_body h)")
    case (Some b)
    then have "trim_space (clb_attempt_id b) \<noteq> a" using h(1) by (auto simp: carried_attempts_def)
    then have "snd (on_store (claim_run_attempt (es 1) rid (trim_space (clb_attempt_id b)) w x) d) = d" for w x
      by (intro on_store_same) (rule claim_refused [OF held _ h(2)])
    then show ?thesis using Some by (simp add: claim_state)
  qed (simp add: internal_claim_run_def)
  have art: "snd (internal_register_run_artifacts S J es h rid d) = d"
    using h(1) held(2) by (auto simp: internal_register_run_artifacts_def carried_attempts_def no split: option.split)
  have "snd (internal_write_run_event S J es h rid d) = d" "snd (internal_complete_run S J es h rid d) = d"
    "snd (internal_fail_run S J es h rid d) = d" "snd (internal_reserve_tool_quota S J es order h rid d) = d"
    by (simp_all add: internal_write_run_event_def internal_complete_run_def internal_fail_run_def
        internal_reserve_tool_quota_def no not_carried [OF h(1)] Let_def split: option.split)
  then show ?thesis using claim art by (simp add: internal_run_action_def Let_def)
qed

lemma claim_keeps_lease:
  assumes held: "holds_lease rid a l (plane_store d)" "a \<noteq> ''''"
    and q: "q = rid \<longrightarrow> e_now (es 1) < l \<and>
      (case jsn_claim J (htr_body h) of None \<Rightarrow> True | Some b \<Rightarrow> trim_space (clb_attempt_id b) \<noteq> a \<or>
         l \<le> lease_end (e_now (es 0))
           (if clb_lease_seconds b \<le> 0 then default_attempt_lease_seconds else clb_lease_seconds b))"
  shows "holds_lease rid a l (plane_store (snd (internal_claim_run J es h q d)))"
proof (cases "q = rid")
  case True
  with held q show ?thesis
    by (auto simp: claim_state holds_lease_claim simp del: if_split_asm split: option.split)
next
  case False
  then show ?thesis
    using held(1) holds_lease_same [OF claim_other_run [OF False]] by (simp add: claim_state split: option.split)
qed

lemma call_keeps_lease:
  assumes "holds_lease rid a l (plane_store d)" "a \<noteq> ''''" "claim_in_time J rid a l (es, order, h)"
  shows "holds_lease rid a l (plane_store (snd (internal_run_subroutes S J getenv es order h d)))"
proof -
  have "holds_lease rid a l (plane_store (snd (internal_run_action S J getenv es order h q action d)))"
    if "split_path (trim_prefix (arq_path (htr_api h)) ''/internal/runs/'') = [q, action]" for q action
    using assms that by (intro lease.action claim_keeps_lease) (auto simp: requested_run_def)
  then show ?thesis
    using assms(1) by (auto simp: internal_run_subroutes_def split: option.split list.split)
qed

lemma call_without_say:
  assumes "holds_lease rid a l (plane_store d)" "a \<noteq> ''''" "claim_in_time J rid a l (es, order, h)"
    and "\<not> has_say J rid a (es, order, h)"
  shows "snd (internal_run_subroutes S J getenv es order h d) = d"
  using assms
  by (auto simp: internal_run_subroutes_def requested_run_def without_say split: option.splits list.splits)

section \<open>Reports\<close>

text \<open>A report of the outcome, by \<open>complete\<close> or by \<open>fail\<close>, and the attempt it is made by.\<close>

definition internal_report ::
  "('c, 'b) server \<Rightarrow> json_lib \<Rightarrow> bool \<Rightarrow> (nat \<Rightarrow> env) \<Rightarrow> api_call \<Rightarrow> string \<Rightarrow> ('c, 'b) plane
     \<Rightarrow> answered \<times> ('c, 'b) plane" where
  "internal_report S J ok es h rid d =
     (if ok then internal_complete_run S J es h rid d else internal_fail_run S J es h rid d)"

definition report_attempt :: "json_lib \<Rightarrow> bool \<Rightarrow> api_call \<Rightarrow> string option" where
  "report_attempt J ok h =
     (if ok then map_option cmb_attempt_id (jsn_complete J (htr_body h))
      else map_option flb_attempt_id (jsn_fail J (htr_body h)))"

definition attempt_of :: "string \<Rightarrow> string \<Rightarrow> store \<Rightarrow> bool" where
  "attempt_of rid a s \<longleftrightarrow> (\<exists>r. s_runs s rid = Some r \<and> run_attempt_id r = a)"

interpretation attempt: store_property "attempt_of rid a" for rid a
  by unfold_locales (auto simp: attempt_of_def update_run_status_def save_run_usage_def Let_def split: option.split)

lemma check_attempt_of: "check_run_attempt rid a s = Inr r \<Longrightarrow> attempt_of rid a s"
  by (auto simp: attempt_of_def check_run_attempt_Inr)

definition run_ended :: "string \<Rightarrow> store \<Rightarrow> bool" where
  "run_ended rid s \<longleftrightarrow> (\<exists>r. s_runs s rid = Some r \<and> is_terminal_run_status (run_status r))"

lemma update_ends:
  assumes "update_run_status e rid st text s = (Inr r, t)" "is_terminal_run_status st"
  shows "run_ended rid t"
  using assms(1) by (cases rule: update_Inr_cases) (use assms(2) in \<open>auto simp: run_ended_def update_run_status_def
      Let_def split: option.splits if_splits\<close>)

lemma event_runs: "add_event e rid typ text v s = (x, t) \<Longrightarrow> s_runs t = s_runs s"
  using event_frame(1) [of e rid "typ" "text" v s] by simp

lemma emit_ended: "sink_emit store_repository e rid typ text v s = (res, t) \<Longrightarrow> run_ended q t = run_ended q s"
  by (auto simp: sink_emit_def run_ended_def split: prod.splits sum.splits dest: event_runs)

lemma get_run_ended:
  "get_run rid s = Inr r \<Longrightarrow> is_terminal_run_status (run_status r) \<Longrightarrow> run_ended rid s"
  by (auto simp: get_run_def run_ended_def split: option.splits)

lemma complete_ends: "sink_complete store_repository es rid content as s = (None, t) \<Longrightarrow> run_ended rid t"
  by (auto simp: sink_complete_def get_run_ended emit_ended is_terminal_run_status_def dest!: emit_ended
      dest: update_ends split: sum.splits prod.splits if_splits)

lemma fail_ends: "sink_fail store_repository es rid text s = (None, t) \<Longrightarrow> run_ended rid t"
  by (auto simp: sink_fail_def sink_fail_commit_def get_run_ended is_terminal_run_status_def dest!: emit_ended
      dest: update_ends split: sum.splits prod.splits if_splits)

lemma answer_run_Inr:
  "answer_run S rid d = Inr (n, ans) \<longleftrightarrow> n = 200 \<and> (\<exists>r. get_run rid (plane_store d) = Inr r \<and> ans = RunAnswer r)"
  by (auto simp: answer_run_def split: sum.split)

lemma complete_answered:
  assumes "internal_complete_run S J es h rid d = (Inr (n, ans), t)"
  obtains b where "jsn_complete J (htr_body h) = Some b" "attempt_of rid (cmb_attempt_id b) (plane_store t)"
    "run_ended rid (plane_store t)" "n = 200"
    "\<exists>r q. ans = RunAnswer r \<and> s_runs (plane_store t) rid = Some q \<and> run_status r = run_status q"
proof -
  obtain b where b: "jsn_complete J (htr_body h) = Some b"
    using assms by (auto simp: internal_complete_run_def split: option.splits)
  then obtain cur where c: "check_run_attempt rid (cmb_attempt_id b) (plane_store d) = Inr cur"
    using assms by (auto simp: internal_complete_run_def split: sum.splits)
  note kept = attempt.report(1) [OF check_attempt_of [OF c], of S J es h rid]
  show ?thesis
  proof (cases "is_terminal_run_status (run_status cur)")
    case True
    with assms b c show ?thesis
      by (intro that [of b]) (auto simp: internal_complete_run_def run_ended_def attempt_of_def check_run_attempt_Inr)
  next
    case False
    then obtain d1 where "answer_run S rid t = Inr (n, ans)"
      "sink_complete (plane_repository S) (\<lambda>i. es (i + 1)) rid (cmb_content b)
         (with_artifact_expiration S (e_now (es 0)) (cmb_artifacts b)) d1 = (None, t)"
      using assms b c by (auto simp: internal_complete_run_def split: prod.splits option.splits)
    note ends = this(1) complete_ends [OF plane_sinks(3) [OF this(2)]]
    show ?thesis
      using b kept assms ends
      by (intro that [of b]) (auto simp: answer_run_Inr get_run_def split: option.splits)
  qed
qed

lemma fail_answered:
  assumes "internal_fail_run S J es h rid d = (Inr (n, ans), t)"
  obtains b where "jsn_fail J (htr_body h) = Some b" "attempt_of rid (flb_attempt_id b) (plane_store t)"
    "run_ended rid (plane_store t)" "n = 200"
    "\<exists>r q. ans = RunAnswer r \<and> s_runs (plane_store t) rid = Some q \<and> run_status r = run_status q"
proof -
  obtain b where b: "jsn_fail J (htr_body h) = Some b"
    using assms by (auto simp: internal_fail_run_def split: option.splits)
  then obtain cur where c: "check_run_attempt rid (flb_attempt_id b) (plane_store d) = Inr cur"
    using assms by (auto simp: internal_fail_run_def split: sum.splits)
  note kept = attempt.report(2) [OF check_attempt_of [OF c], of S J es h rid]
  obtain reason where "answer_run S rid t = Inr (n, ans)" "sink_fail (plane_repository S) es rid reason d = (None, t)"
    using assms b c by (auto simp: internal_fail_run_def Let_def split: prod.splits option.splits if_splits)
  note ends = this(1) fail_ends [OF plane_sinks(2) [OF this(2)]]
  show ?thesis
    using b kept assms ends
    by (intro that [of b]) (auto simp: answer_run_Inr get_run_def split: option.splits)
qed

lemma report_after_end:
  assumes "run_ended rid (plane_store d)" "attempt_of rid a (plane_store d)" "report_attempt J ok h = Some a"
  shows "\<exists>r q. internal_report S J ok es h rid d = (Inr (200, RunAnswer r), d) \<and>
    s_runs (plane_store d) rid = Some q \<and> run_status r = run_status q"
  using assms
  by (auto simp: run_ended_def attempt_of_def report_attempt_def internal_report_def internal_complete_run_def
      internal_fail_run_def check_run_attempt_def sink_fail_def get_run_def answer_run_def Let_def split: if_splits)

section \<open>What a charge adds to the day\<close>

lemma skipped_after_usage:
  "usage_skipped (snd (save_run_usage rid v s)) user project since = usage_skipped s user project since"
  by (auto simp: usage_skipped_def save_run_usage_def Let_def fun_eq_iff split: option.split)

lemma charge_sum:
  assumes f: "additive f" "\<And>u. f (normalize_run_usage u) = f u"
    and s: "s_runs s rid \<noteq> None" "enumerates order (s_run_usage s)"
    and t: "t = snd (save_run_usage rid v s)" "enumerates order' (s_run_usage t)"
  shows "f (sum_run_usage_since rnd order' user project since t) =
    (if usage_skipped s user project since rid then f (sum_run_usage_since rnd order user project since s)
     else wrap64 (f (sum_run_usage_since rnd order user project since s) + f v -
       f (map_get zero_run_usage (s_run_usage s) rid)))"
proof -
  let ?skip = "usage_skipped s user project since"
  let ?C = "counted_runs s ?skip"
  have C': "counted_runs t ?skip = (if ?skip rid then ?C else insert rid ?C)"
    using s(1) by (auto simp: t counted_runs_def save_run_usage_def Let_def split: if_splits)
  have other: "f (usage_of t q) = f (usage_of s q)" if "q \<noteq> rid" for q
    using s(1) that by (auto simp: t usage_of_def save_run_usage_def Let_def map_get_def)
  have this_run: "f (usage_of t rid) = f v"
    using s(1) f(2) by (auto simp: t usage_of_def save_run_usage_def Let_def map_get_def)
  have fin: "finite ?C"
    using enumerates_finite [OF s(2)] by (auto simp: counted_runs_def)
  have out: "f (map_get zero_run_usage (s_run_usage s) rid) = 0" if "rid \<notin> ?C" "\<not> ?skip rid"
    using that f by (auto simp: counted_runs_def additive_def map_get_def split: option.splits)
  have sum_s: "f (sum_run_usage_since rnd order user project since s) = wrap64 (\<Sum>q\<in>?C. f (usage_of s q))"
    by (rule sum_run_usage_field [OF f(1) s(2)])
  have sum_t: "f (sum_run_usage_since rnd order' user project since t) =
      wrap64 (\<Sum>q\<in>counted_runs t ?skip. f (usage_of t q))"
    using sum_run_usage_field [OF f(1) t(2), of rnd user project since] by (simp add: t skipped_after_usage)
  show ?thesis
  proof (cases "?skip rid")
    case True
    then have "(\<Sum>q\<in>?C. f (usage_of t q)) = (\<Sum>q\<in>?C. f (usage_of s q))"
      using True by (intro sum.cong refl other) (auto simp: counted_runs_def)
    then show ?thesis using True by (simp add: sum_s sum_t C')
  next
    case False
    have "(\<Sum>q\<in>insert rid ?C. f (usage_of t q)) = f v + (\<Sum>q\<in>?C - {rid}. f (usage_of s q))"
      using fin this_run other by (simp add: sum.insert_remove)
    also have "(\<Sum>q\<in>?C - {rid}. f (usage_of s q)) =
        (\<Sum>q\<in>?C. f (usage_of s q)) - f (map_get zero_run_usage (s_run_usage s) rid)"
      using fin out [OF _ False] f(2) by (cases "rid \<in> ?C") (auto simp: sum_diff1 usage_of_def)
    finally have "(\<Sum>q\<in>insert rid ?C. f (usage_of t q)) =
        (\<Sum>q\<in>?C. f (usage_of s q)) + f v - f (map_get zero_run_usage (s_run_usage s) rid)" by simp
    then show ?thesis using False by (simp add: sum_s sum_t C') (metis wrap64_add_left wrap64_diff_left)
  qed
qed

lemma charge_fields:
  "usg_tool_calls (charge_tool calls seconds u) = wrap64 (usg_tool_calls u + calls)"
  "0 \<le> seconds \<Longrightarrow> - (2 ^ 63) \<le> usg_sandbox_duration_millis u \<Longrightarrow> usg_sandbox_duration_millis u < 2 ^ 63 \<Longrightarrow>
   usg_sandbox_duration_millis (charge_tool calls seconds u) =
     wrap64 (usg_sandbox_duration_millis u + seconds * 1000)"
  by (auto simp: charge_tool_def normalize_run_usage_def Let_def wrap64_id)

lemma wrap64_charge: "wrap64 (a + wrap64 (u + c) - u) = wrap64 (a + c)"
proof -
  have "a + wrap64 (u + c) - u = wrap64 (u + c) + (a - u)" by simp
  then show ?thesis by (simp only: wrap64_add_left) (simp add: algebra_simps)
qed

lemma ceil_seconds: "x \<le> y + s * 1000 \<Longrightarrow> (x + 999) div 1000 \<le> (y + 999) div 1000 + s" for x y s :: int
proof -
  assume "x \<le> y + s * 1000"
  then have "(x + 999) div 1000 \<le> (y + 999 + s * 1000) div 1000" by (intro zdiv_mono1) simp_all
  then show ?thesis by simp
qed

lemma normalize_fields:
  "usg_tool_calls (normalize_run_usage u) = usg_tool_calls u"
  "usg_sandbox_duration_millis (normalize_run_usage u) = usg_sandbox_duration_millis u"
  by (simp_all add: normalize_run_usage_def)

text \<open>What an allowed reservation found and did.\<close>

lemma quota_allowed:
  assumes "internal_reserve_tool_quota S J es order h rid d = (Inr (n, QuotaAnswer ans), t)" "tqa_allowed ans"
    and b: "jsn_quota J (htr_body h) = Some b"
    and r: "s_runs (plane_store d) rid = Some r" "s_chats (plane_store d) (run_chat_id r) = Some chat"
  shows "let quota = effective_quota_policy (srv_run_quota S) (cht_project_id chat) (plane_store d);
             current = sum_run_usage_since (srv_round S) order (run_user_id r) (cht_project_id chat)
               (start_of_utc_day (e_now (es 0))) (plane_store d);
             calls = max 1 (qtb_tool_calls b) ; seconds = max 0 (qtb_sandbox_seconds b)
    in (qpl_max_tool_calls_per_day quota \<le> 0 \<or>
        wrap64 (usg_tool_calls current + calls) \<le> qpl_max_tool_calls_per_day quota) \<and>
       (qpl_max_sandbox_seconds_per_day quota \<le> 0 \<or>
        wrap64 (seconds_of_millis (usg_sandbox_duration_millis current) + seconds) \<le>
          qpl_max_sandbox_seconds_per_day quota) \<and>
       plane_store t = snd (save_run_usage rid (charge_tool calls seconds
         (map_get zero_run_usage (s_run_usage (plane_store d)) rid)) (plane_store d))"
proof -
  have m: "(if qtb_tool_calls b \<le> 0 then 1 else qtb_tool_calls b) = max 1 (qtb_tool_calls b)"
    "(if qtb_sandbox_seconds b < 0 then 0 else qtb_sandbox_seconds b) = max 0 (qtb_sandbox_seconds b)" by auto
  have c: "check_run_attempt rid (qtb_attempt_id b) (plane_store d) = Inr r"
    using assms r by (auto simp: internal_reserve_tool_quota_def check_run_attempt_def Let_def split: if_splits)
  obtain chat' msgs where ch: "get_chat (run_chat_id r) (plane_store d) = Inr (chat', msgs)"
    "cht_project_id chat' = cht_project_id chat" using r(2) by (auto simp: get_chat_def Let_def)
  have saved: "plane_store t = snd (save_run_usage rid (charge_tool calls seconds
      (map_get zero_run_usage (s_run_usage (plane_store d)) rid)) (plane_store d))"
    if "save_tool_charge S rid calls seconds d = (Inr (n, QuotaAnswer ans), t)" for calls seconds
    using that r(1)
    by (auto simp: save_tool_charge_def get_run_usage_def split: prod.splits sum.splits dest!: plane_sinks(5))
  show ?thesis
    using assms(1,2) saved
    by (auto simp: internal_reserve_tool_quota_def b c ch m Let_def quota_refused_def split: if_splits)
qed

section \<open>Sample calls\<close>

text \<open>The worker \<open>a\<close> of the sample execution holds its run until time 100.\<close>

abbreviation demo_plane :: "(unit, unit) plane" where "demo_plane \<equiv> ((demo_store, ()), ())"

definition sample_json :: json_lib where
  "sample_json =
     \<lparr>jsn_claim = (\<lambda>b. None), jsn_event = (\<lambda>b. None),
      jsn_complete = (\<lambda>b. Some \<lparr>cmb_content = ''done'', cmb_input_tokens = 0, cmb_output_tokens = 0,
        cmb_usage = zero_run_usage, cmb_attempt_id = b, cmb_artifacts = []\<rparr>),
      jsn_fail = (\<lambda>b. Some \<lparr>flb_error = ''crashed'', flb_attempt_id = b\<rparr>),
      jsn_artifacts = (\<lambda>b. None),
      jsn_quota = (\<lambda>b. Some \<lparr>qtb_attempt_id = b, qtb_skill_id = ''shell'', qtb_tool_calls = 2,
        qtb_sandbox_seconds = 3\<rparr>),
      jsn_cleanup = (\<lambda>b. None)\<rparr>"

definition sample_call :: "string \<Rightarrow> string \<Rightarrow> api_call" where
  "sample_call action attempt =
     \<lparr>htr_api = sample_post\<lparr>arq_path := ''/internal/runs/run_1/'' @ action\<rparr>, htr_method = ''POST'',
      htr_query = (\<lambda>n. ''''), htr_host = ''localhost'', htr_tls = False, htr_body = attempt\<rparr>"

lemma demo_held: "holds_lease ''run_1'' ''a'' 100 demo_store"
  by (simp add: holds_lease_def demo_store_run demo_run_def)

lemma sample_target:
  "requested_run (sample_call ''complete'' b) = Some ''run_1''" "requested_run (sample_call ''fail'' b) = Some ''run_1''"
  by (simp_all add: requested_run_def sample_call_def split_path_def trim_prefix_def has_prefix_def slash_def)

lemma sample_carried:
  "a \<noteq> '''' \<Longrightarrow> a \<in> set (carried_attempts sample_json (sample_call action b)) \<longleftrightarrow> b = a"
  by (auto simp: carried_attempts_def sample_call_def sample_json_def)

lemma sample_in_time:
  "claim_in_time sample_json ''run_1'' ''a'' 100 (next_env, [], sample_call action b)"
  by (simp add: sample_json_def)

lemma sample_fails:
  "\<exists>n ans t. internal_report (sample_server None) sample_json False next_env (sample_call ''fail'' ''a'')
     ''run_1'' demo_plane = (Inr (n, ans), t)"
proof -
  let ?S = "sample_server None :: (unit, unit) server"
  have crash: "trim_space ''crashed'' = ''crashed''" by (simp add: trim_graphic graphic_def)
  have c: "check_run_attempt ''run_1'' ''a'' demo_store = Inr demo_run"
    by (simp add: check_run_attempt_Inr demo_store_run demo_run_def)
  obtain err t where f: "sink_fail (plane_repository ?S) next_env ''run_1'' ''crashed'' demo_plane = (err, t)"
    using surj_pair by metis
  have p: "sink_fail store_repository next_env ''run_1'' ''crashed'' demo_store = (err, plane_store t)"
    using plane_sinks(2) [OF f] by (simp add: plane_store_def)
  have "fst (sink_fail store_repository next_env ''run_1'' ''crashed'' demo_store) = None"
    by (simp add: sink_fail_def sink_fail_commit_def sink_emit_def get_run_def demo_store_run demo_run_def
        is_terminal_run_status_def update_run_status_def add_event_def add_event_locked_def Let_def)
  then have e: "err = None" by (simp add: p)
  then have "s_runs (plane_store t) ''run_1'' \<noteq> None"
    using fail_ends [of next_env "''run_1''" "''crashed''" demo_store "plane_store t"] p by (auto simp: run_ended_def)
  then obtain r where "get_run ''run_1'' (plane_store t) = Inr r" by (auto simp: get_run_def)
  then have "internal_report ?S sample_json False next_env (sample_call ''fail'' ''a'') ''run_1'' demo_plane =
      (Inr (200, RunAnswer r), t)"
    using f e by (simp add: internal_report_def internal_fail_run_def sample_json_def sample_call_def crash c
        plane_store_def answer_run_def)
  then show ?thesis by metis
qed

text \<open>A server with daily limits of tool calls and sandbox seconds.\<close>

definition limited_server :: "(unit, unit) server" where
  "limited_server = (sample_server None)
     \<lparr>srv_run_quota := \<lparr>rqt_max_concurrent_runs = 5, rqt_max_runs_per_hour = 0, rqt_max_tokens_per_day = 0,
       rqt_max_tool_calls_per_day = 7, rqt_max_sandbox_seconds_per_day = 9\<rparr>\<rparr>"

lemma limited_policy: "effective_quota_policy (srv_run_quota limited_server) ''demo-project'' demo_store =
    zero_quota_policy\<lparr>qpl_project_id := ''demo-project'', qpl_max_concurrent_runs := 5,
      qpl_max_tool_calls_per_day := 7, qpl_max_sandbox_seconds_per_day := 9\<rparr>"
  by (simp add: effective_quota_policy_def get_project_quota_policy_def demo_store_def demo_steps new_store_def
      limited_server_def zero_quota_policy_def)

lemma limited_round: "srv_round limited_server = id"
  by (simp add: limited_server_def)

lemma demo_usage: "s_run_usage demo_store = Map.empty"
  by (simp add: demo_store_def demo_steps new_store_def)

lemma demo_chat: "\<exists>chat. s_chats demo_store ''chat_1'' = Some chat \<and> cht_project_id chat = ''demo-project''"
  by (simp add: demo_store_def demo_steps new_store_def)

lemma sample_allowed:
  "\<exists>n ans t. internal_reserve_tool_quota limited_server sample_json next_env [] (sample_call ''quota'' ''a'')
     ''run_1'' demo_plane = (Inr (n, QuotaAnswer ans), t) \<and> tqa_allowed ans \<and>
     dom (s_run_usage (plane_store t)) = {''run_1''}"
proof -
  have skill: "trim_space ''shell'' = ''shell''" by (simp add: trim_graphic graphic_def)
  have c: "check_run_attempt ''run_1'' ''a'' demo_store = Inr demo_run"
    by (simp add: check_run_attempt_Inr demo_store_run demo_run_def)
  obtain chat msgs where ch: "get_chat ''chat_1'' demo_store = Inr (chat, msgs)" "cht_project_id chat = ''demo-project''"
    using demo_chat by (auto simp: get_chat_def Let_def)
  have zero: "sum_run_usage_since rnd [] user project since s = zero_run_usage" for rnd user project since s
    by (simp add: sum_run_usage_since_def)
  obtain res t where sv: "rep_save_run_usage (plane_repository limited_server) ''run_1''
      (charge_tool 2 3 zero_run_usage) demo_plane = (res, t)"
    using surj_pair by metis
  have "(res, plane_store t) = save_run_usage ''run_1'' (charge_tool 2 3 zero_run_usage) demo_store"
    using plane_sinks(5) [OF sv] by (simp add: plane_store_def)
  then obtain u where u: "res = Inr u" "dom (s_run_usage (plane_store t)) = {''run_1''}"
    by (simp add: save_run_usage_def demo_store_run demo_usage Let_def)
  have gu: "get_run_usage ''run_1'' demo_store = Inr zero_run_usage"
    by (simp add: get_run_usage_def demo_store_run demo_usage map_get_def)
  have store: "plane_store demo_plane = demo_store" by (simp add: plane_store_def)
  have st: "save_tool_charge limited_server ''run_1'' 2 3 demo_plane =
      (Inr (200, QuotaAnswer \<lparr>tqa_allowed = True, tqa_message = '''', tqa_quota = '''', tqa_usage = u\<rparr>), t)"
    using sv u by (simp add: save_tool_charge_def store gu)
  have z: "usg_tool_calls zero_run_usage = 0" "usg_sandbox_duration_millis zero_run_usage = 0"
    by (simp_all add: zero_run_usage_def)
  have "internal_reserve_tool_quota limited_server sample_json next_env [] (sample_call ''quota'' ''a'')
     ''run_1'' demo_plane = save_tool_charge limited_server ''run_1'' 2 3 demo_plane"
    by (simp add: internal_reserve_tool_quota_def sample_json_def sample_call_def skill store c demo_run_def ch
        limited_policy zero_quota_policy_def zero z wrap64_id seconds_of_millis_def div_trunc_def Let_def)
  then show ?thesis using st u(2) by simp
qed

section \<open>Properties\<close>

text \<open>C10. While an attempt holds the lease of a run, a call of the internal interface about that
  run that does not carry the attempt has no effect at all: dropping all such calls from any
  sequence of calls leaves the store, the quota counters and the bus the same. The calls may be
  of every kind and come in any order; they are made before the lease ends, and the holder does
  not shorten its own lease.\<close>

theorem only_the_holder_acts:
  assumes "holds_lease rid a l (plane_store d)" "a \<noteq> ''''"
    and "\<forall>x \<in> set xs. claim_in_time J rid a l x"
  shows "serve_internal S J getenv xs d = serve_internal S J getenv (filter (has_say J rid a) xs) d"
  using assms
proof (induction xs arbitrary: d)
  case (Cons x xs)
  obtain es order h where x: "x = (es, order, h)" by (cases x)
  show ?case
  proof (cases "has_say J rid a x")
    case True
    then show ?thesis using Cons.IH [OF call_keeps_lease] Cons.prems x by simp
  next
    case False
    then show ?thesis using Cons.IH [of d] Cons.prems x by (simp add: call_without_say)
  qed
qed simp


theorem only_the_holder_acts_witness:
  "serve_internal (sample_server None) sample_json (\<lambda>n. '''')
     [(next_env, [], sample_call ''complete'' ''b''), (next_env, [], sample_call ''fail'' ''a''),
      (next_env, [], sample_call ''fail'' ''b'')] demo_plane =
   serve_internal (sample_server None) sample_json (\<lambda>n. '''')
     [(next_env, [], sample_call ''fail'' ''a'')] demo_plane"
proof -
  have "holds_lease ''run_1'' ''a'' 100 (plane_store demo_plane)" using demo_held by (simp add: plane_store_def)
  from only_the_holder_acts [OF this, of "[(next_env, [], sample_call ''complete'' ''b''),
      (next_env, [], sample_call ''fail'' ''a''), (next_env, [], sample_call ''fail'' ''b'')]" sample_json
      "sample_server None" "\<lambda>n. ''''"]
  show ?thesis by (simp add: sample_in_time sample_target sample_carried del: claim_in_time.simps serve_internal.simps)
qed

text \<open>C11. The answer to a report is final. Once \<open>complete\<close> or \<open>fail\<close> of an attempt was answered
  with success, the run has ended, and every further report of the same attempt, of either kind
  and with any body, is answered with the same status of the run and changes nothing: not the
  store, not the quota counters and not the bus. A worker may repeat a report it got no answer
  to.\<close>

theorem answered_report_is_final:
  assumes "internal_report S J ok es h rid d = (Inr (n, ans), t)"
    and "report_attempt J ok' h' = report_attempt J ok h"
  shows "\<exists>r r'. ans = RunAnswer r \<and> is_terminal_run_status (run_status r) \<and>
    internal_report S J ok' es' h' rid t = (Inr (200, RunAnswer r'), t) \<and> run_status r' = run_status r"
proof -
  obtain a where a: "report_attempt J ok h = Some a" "attempt_of rid a (plane_store t)" "run_ended rid (plane_store t)"
    "\<exists>r q. ans = RunAnswer r \<and> s_runs (plane_store t) rid = Some q \<and> run_status r = run_status q"
  proof (cases ok)
    case True
    then have "internal_complete_run S J es h rid d = (Inr (n, ans), t)"
      using assms(1) by (simp add: internal_report_def)
    then show ?thesis using True by (elim complete_answered) (rule that, simp_all add: report_attempt_def)
  next
    case False
    then have "internal_fail_run S J es h rid d = (Inr (n, ans), t)"
      using assms(1) by (simp add: internal_report_def)
    then show ?thesis using False by (elim fail_answered) (rule that, simp_all add: report_attempt_def)
  qed
  from report_after_end [OF a(3,2), of J ok' h' S es'] a assms(2)
  show ?thesis by (auto simp: run_ended_def)
qed


theorem answered_report_is_final_witness:
  "\<exists>(t :: (unit, unit) plane) r'. internal_report (sample_server None) sample_json True next_env (sample_call ''complete'' ''a'')
      ''run_1'' t = (Inr (200, RunAnswer r'), t) \<and> is_terminal_run_status (run_status r')"
proof -
  obtain n ans t where "internal_report (sample_server None) sample_json False next_env (sample_call ''fail'' ''a'')
      ''run_1'' demo_plane = (Inr (n, ans), t)"
    using sample_fails by metis
  note answered_report_is_final [OF this, of True "sample_call ''complete'' ''a''" next_env]
  moreover have "report_attempt sample_json True (sample_call ''complete'' ''a'') =
      report_attempt sample_json False (sample_call ''fail'' ''a'')"
    by (simp add: report_attempt_def sample_json_def sample_call_def)
  ultimately show ?thesis by metis
qed

text \<open>C12. A tool call the control plane allows leaves the usage of the day within the quota: after
  the reservation the tool calls and the sandbox seconds of the user's runs of the project that
  were created today are at most the daily limits, wherever the policy sets one. The sums are
  the ones later checks read, over the usage the reservation wrote, in any order of the map. The
  sums before must be in the range of an int with the request added.\<close>

theorem allowed_tool_within_day_quota:
  assumes "internal_reserve_tool_quota S J es order h rid d = (Inr (n, QuotaAnswer ans), t)" "tqa_allowed ans"
    and b: "jsn_quota J (htr_body h) = Some b"
    and r: "s_runs (plane_store d) rid = Some r" "s_chats (plane_store d) (run_chat_id r) = Some chat"
    and order: "enumerates order (s_run_usage (plane_store d))" "enumerates order' (s_run_usage (plane_store t))"
    and policy: "policy = effective_quota_policy (srv_run_quota S) (cht_project_id chat) (plane_store d)"
    and today: "today = (\<lambda>os s. sum_run_usage_since (srv_round S) os (run_user_id r) (cht_project_id chat)
      (start_of_utc_day (e_now (es 0))) s)"
    and no_overflow: "usg_tool_calls (today order (plane_store d)) + max 1 (qtb_tool_calls b) < 2 ^ 63"
      "0 \<le> usg_sandbox_duration_millis (today order (plane_store d))"
      "usg_sandbox_duration_millis (today order (plane_store d)) + 1000 * max 0 (qtb_sandbox_seconds b) + 999 < 2 ^ 63"
      "- (2 ^ 63) \<le> usg_sandbox_duration_millis (map_get zero_run_usage (s_run_usage (plane_store d)) rid)"
      "usg_sandbox_duration_millis (map_get zero_run_usage (s_run_usage (plane_store d)) rid) < 2 ^ 63"
  shows "(qpl_max_tool_calls_per_day policy \<le> 0 \<or>
      usg_tool_calls (today order' (plane_store t)) \<le> qpl_max_tool_calls_per_day policy) \<and>
    (qpl_max_sandbox_seconds_per_day policy \<le> 0 \<or>
      seconds_of_millis (usg_sandbox_duration_millis (today order' (plane_store t)))
        \<le> qpl_max_sandbox_seconds_per_day policy)"
proof -
  let ?s = "plane_store d"
  define seconds where "seconds = max 0 (qtb_sandbox_seconds b)"
  define calls where "calls = max 1 (qtb_tool_calls b)"
  define u where "u = map_get zero_run_usage (s_run_usage ?s) rid"
  define cur where "cur = today order ?s"
  have ok: "qpl_max_tool_calls_per_day policy \<le> 0 \<or>
      wrap64 (usg_tool_calls cur + calls) \<le> qpl_max_tool_calls_per_day policy"
    "qpl_max_sandbox_seconds_per_day policy \<le> 0 \<or>
      wrap64 (seconds_of_millis (usg_sandbox_duration_millis cur) + seconds) \<le> qpl_max_sandbox_seconds_per_day policy"
    and t: "plane_store t = snd (save_run_usage rid (charge_tool calls seconds u) ?s)"
    using quota_allowed [OF assms(1,2) b r] by (simp_all add: policy today Let_def calls_def seconds_def u_def cur_def)
  have "s_runs ?s rid \<noteq> None" using r(1) by simp
  note sums = charge_sum [OF additive_fields(8) normalize_fields(1) this order(1) t order(2), of "srv_round S"
      "run_user_id r" "cht_project_id chat" "start_of_utc_day (e_now (es 0))"]
    charge_sum [OF additive_fields(11) normalize_fields(2) this order(1) t order(2), of "srv_round S"
      "run_user_id r" "cht_project_id chat" "start_of_utc_day (e_now (es 0))"]
  have bounds: "1 \<le> calls" "0 \<le> seconds" "- (2 ^ 63) \<le> usg_tool_calls cur"
    using wrap64_bounds(1) sum_run_usage_field [OF additive_fields(8) order(1)]
    by (auto simp: calls_def seconds_def cur_def today)
  have calls_after: "usg_tool_calls (today order' (plane_store t)) \<le> wrap64 (usg_tool_calls cur + calls)"
    using sums(1) no_overflow(1) bounds(1,3)
    by (simp add: today cur_def charge_fields u_def wrap64_charge)
      (simp add: today cur_def calls_def wrap64_id max_def)
  have ms: "usg_sandbox_duration_millis (charge_tool calls seconds u) =
      wrap64 (usg_sandbox_duration_millis u + seconds * 1000)"
    using charge_fields(2) [OF bounds(2)] no_overflow(4,5) by (simp add: u_def)
  have "usg_sandbox_duration_millis (today order' (plane_store t)) =
      (if usage_skipped ?s (run_user_id r) (cht_project_id chat) (start_of_utc_day (e_now (es 0))) rid
       then usg_sandbox_duration_millis cur else wrap64 (usg_sandbox_duration_millis cur + seconds * 1000))"
    using sums(2) by (simp add: today cur_def ms wrap64_charge u_def [symmetric])
  then have "usg_sandbox_duration_millis (today order' (plane_store t)) \<le> usg_sandbox_duration_millis cur + seconds * 1000 \<and>
      0 \<le> usg_sandbox_duration_millis (today order' (plane_store t))"
    using no_overflow(2,3) bounds(2)
    by (simp add: wrap64_id cur_def [symmetric] seconds_def [symmetric] algebra_simps)
  then have "seconds_of_millis (usg_sandbox_duration_millis (today order' (plane_store t)))
      \<le> wrap64 (seconds_of_millis (usg_sandbox_duration_millis cur) + seconds)"
    using no_overflow(2,3) bounds(2)
    by (simp add: seconds_of_millis_def div_trunc_def wrap64_id cur_def [symmetric] seconds_def [symmetric]
        ceil_seconds)
  with ok calls_after show ?thesis by linarith
qed

theorem allowed_tool_within_day_quota_witness:
  "\<exists>t :: (unit, unit) plane. usg_tool_calls (sum_run_usage_since id [''run_1''] ''demo-user'' ''demo-project'' 0 (plane_store t)) \<le> 7 \<and>
     dom (s_run_usage (plane_store t)) = {''run_1''}"
proof -
  obtain n ans t where r: "internal_reserve_tool_quota limited_server sample_json next_env []
      (sample_call ''quota'' ''a'') ''run_1'' demo_plane = (Inr (n, QuotaAnswer ans), t)" "tqa_allowed ans"
      "dom (s_run_usage (plane_store t)) = {''run_1''}"
    using sample_allowed by metis
  obtain chat where ch: "s_chats demo_store ''chat_1'' = Some chat" "cht_project_id chat = ''demo-project''"
    using demo_chat by blast
  have store: "plane_store demo_plane = demo_store" by (simp add: plane_store_def)
  have b: "jsn_quota sample_json (htr_body (sample_call ''quota'' ''a'')) = Some \<lparr>qtb_attempt_id = ''a'',
      qtb_skill_id = ''shell'', qtb_tool_calls = 2, qtb_sandbox_seconds = 3\<rparr>"
    by (simp add: sample_json_def sample_call_def)
  have run: "s_runs (plane_store demo_plane) ''run_1'' = Some demo_run"
    "s_chats (plane_store demo_plane) (run_chat_id demo_run) = Some chat"
    using ch by (simp_all add: store demo_store_run demo_run_def)
  have zero: "sum_run_usage_since rnd [] user project since s = zero_run_usage" for rnd user project since s
    by (simp add: sum_run_usage_since_def)
  have z: "usg_tool_calls zero_run_usage = 0" "usg_sandbox_duration_millis zero_run_usage = 0"
    by (simp_all add: zero_run_usage_def)
  note allowed_tool_within_day_quota [OF r(1,2) b run _ _ refl refl, where order' = "[''run_1'']"]
  then show ?thesis
    using r(3) ch
    by (intro exI [of _ t]) (simp add: store demo_usage enumerates_def zero z map_get_def limited_policy
        zero_quota_policy_def demo_run_def limited_round start_of_utc_day_def duration_defs)
qed

end
