(* ===== verification/Worker_Properties.thy ===== *)
theory Worker_Properties
  imports Run_Worker Internal_Api_Properties
begin

text \<open>
  The worker of the runtime over the internal interface of the control plane: what it may do
  while another attempt holds the run, under which lease its engine works, and what becomes of a
  message. The network delivers each request to the control plane, or loses the request or the
  reply; the URL parser and the JSON codecs are parameters with the laws the two sides rely on.
\<close>

section \<open>The wire between runtime and control plane\<close>

datatype delivered = Delivered | RequestLost | ReplyLost

text \<open>The codecs of both sides; \<open>wir_parse\<close> is the path and the query of a URL.\<close>

record wire =
  wir_json :: json_lib
  wir_sink :: sink_codec
  wir_context :: context_lib
  wir_encode :: "answer \<Rightarrow> string"
  wir_parse :: "string \<Rightarrow> string \<times> (string \<Rightarrow> string)"

definition wire_call :: "wire \<Rightarrow> string \<Rightarrow> string \<Rightarrow> string \<Rightarrow> string \<Rightarrow> api_call" where
  "wire_call W meth url auth body =
     \<lparr>htr_api = \<lparr>arq_path = fst (wir_parse W url), arq_header = (\<lambda>n. if n = ''Authorization'' then auth else ''''),
        arq_remote_addr = '''', arq_user_agent = '''', arq_request_id = '''', arq_trace_id = ''''\<rparr>,
      htr_method = meth, htr_query = snd (wir_parse W url), htr_host = '''', htr_tls = False, htr_body = body\<rparr>"

fun wire_response :: "wire \<Rightarrow> answered \<Rightarrow> http_response" where
  "wire_response W (Inl (Reply n msg)) = \<lparr>hrp_code = n, hrp_status = msg, hrp_body = msg\<rparr>"
| "wire_response W (Inr (n, ans)) = \<lparr>hrp_code = n, hrp_status = ''OK'', hrp_body = wir_encode W ans\<rparr>"

text \<open>A request goes to the control plane, whose state is paired with the number of requests so
  far; \<open>ess i\<close> is the environment of the \<open>i\<close>-th request.\<close>

definition deliver_call ::
  "('c, 'b) server \<Rightarrow> wire \<Rightarrow> (string \<Rightarrow> string) \<Rightarrow> (nat \<Rightarrow> nat \<Rightarrow> env) \<Rightarrow> (nat \<Rightarrow> string list)
     \<Rightarrow> (nat \<Rightarrow> delivered) \<Rightarrow> string \<Rightarrow> string \<Rightarrow> string \<Rightarrow> string \<Rightarrow> ('c, 'b) plane \<times> nat
     \<Rightarrow> (string + http_response) \<times> (('c, 'b) plane \<times> nat)" where
  "deliver_call S W getenv ess oss fault meth url auth body p =
     (let i = snd p;
          out = internal_run_subroutes S (wir_json W) getenv (ess i) (oss i) (wire_call W meth url auth body) (fst p)
      in case fault i of
           RequestLost \<Rightarrow> (Inl ''connection refused'', (fst p, Suc i))
         | ReplyLost \<Rightarrow> (Inl ''timeout'', (snd out, Suc i))
         | Delivered \<Rightarrow> (Inr (wire_response W (fst out)), (snd out, Suc i)))"

definition api_network ::
  "('c, 'b) server \<Rightarrow> wire \<Rightarrow> (string \<Rightarrow> string) \<Rightarrow> (nat \<Rightarrow> nat \<Rightarrow> env) \<Rightarrow> (nat \<Rightarrow> string list)
     \<Rightarrow> (nat \<Rightarrow> delivered) \<Rightarrow> (('c, 'b) plane \<times> nat) network" where
  "api_network S W getenv ess oss fault =
     \<lparr>net_post = (\<lambda>url auth body. deliver_call S W getenv ess oss fault ''POST'' url auth body),
      net_get = (\<lambda>url auth. deliver_call S W getenv ess oss fault ''GET'' url auth '''')\<rparr>"

text \<open>What both sides rely on: the claim of the worker survives the wire, of the claimed run its
  status, of the context the run, the attempt and the URL, and a URL below \<open>base\<close> is taken apart
  as it was put together. Identifiers hold no slash.\<close>

definition claim_of :: "worker_config \<Rightarrow> string \<Rightarrow> claim_body" where
  "claim_of cfg attempt =
     \<lparr>clb_attempt_id = attempt, clb_claimed_by = claimed_by cfg, clb_lease_seconds = wcf_lease_seconds cfg\<rparr>"

definition context_for :: "string \<Rightarrow> string \<Rightarrow> string \<Rightarrow> run_execution_request \<Rightarrow> bool" where
  "context_for base rid attempt x \<longleftrightarrow>
     rrq_run_id (rex_request x) = rid \<and> rrq_attempt_id (rex_request x) = attempt \<and> rex_control_plane_url x = base"

definition wire_ok :: "wire \<Rightarrow> worker_config \<Rightarrow> string \<Rightarrow> string \<Rightarrow> string \<Rightarrow> bool" where
  "wire_ok W cfg base rid attempt \<longleftrightarrow>
     (\<exists>s. cdc_claim (wir_sink W) (claim_of cfg attempt) = Inr s \<and> jsn_claim (wir_json W) s = Some (claim_of cfg attempt)) \<and>
     (\<forall>r. \<exists>r'. cdc_get_run (wir_sink W) (wir_encode W (ClaimAnswer r)) = Inr r' \<and> run_status r' = run_status r) \<and>
     (\<forall>x. context_for base rid attempt x \<longrightarrow>
        (\<exists>x'. ctx_decode (wir_context W) (wir_encode W (ContextAnswer x)) = Inr x' \<and> context_for base rid attempt x')) \<and>
     ctx_url_error (wir_context W) (context_endpoint (wir_context W) base rid) = None \<and>
     wir_parse W (context_url (wir_context W) base rid attempt) =
       (run_path rid ''execution-context'', (\<lambda>n. if n = ''attempt_id'' then attempt else '''')) \<and>
     wir_parse W (base @ run_path rid ''claim'') = (run_path rid ''claim'', (\<lambda>n. '''')) \<and>
     rid \<noteq> '''' \<and> slash \<notin> set rid \<and> base \<noteq> '''' \<and> trim_right_slash base = base"

definition same_side :: "('c, 'b) server \<Rightarrow> worker_config \<Rightarrow> string \<Rightarrow> bool" where
  "same_side S cfg base \<longleftrightarrow>
     srv_control_plane_url S = base \<and> wcf_control_plane_url cfg = base \<and>
     wcf_internal_token cfg = srv_internal_token S"

lemma split_run_path:
  assumes "rid \<noteq> ''''" "slash \<notin> set rid" "action \<noteq> ''''" "slash \<notin> set action"
  shows "split_path (trim_prefix (run_path rid action) ''/internal/runs/'') = [rid, action]"
proof -
  have t: "trim_prefix (run_path rid action) ''/internal/runs/'' = rid @ slash # action"
    by (simp add: trim_prefix_def has_prefix_def run_path_def starts_with_iff slash_def)
  have a: "dropWhile (\<lambda>c. c = slash) (rev (rid @ slash # action)) = rev (rid @ slash # action)"
    using assms(3,4) by (cases action rule: rev_cases) auto
  have b: "dropWhile (\<lambda>c. c = slash) (rid @ slash # action) = rid @ slash # action"
    using assms(1,2) by (cases rid) auto
  have "split_path (rid @ slash # action) = filter (\<lambda>p. p \<noteq> '''') (split_on slash (rid @ slash # action))"
    by (simp only: split_path_def a b rev_rev_ident)
  also have "\<dots> = [rid, action]"
    using assms by (simp add: split_on_append split_on_plain)
  finally show ?thesis by (simp add: t)
qed

section \<open>The requests of a worker\<close>

definition claimed_state ::
  "env \<Rightarrow> gtime \<Rightarrow> worker_config \<Rightarrow> string \<Rightarrow> string \<Rightarrow> ('c, 'b) plane \<Rightarrow> run result \<times> ('c, 'b) plane" where
  "claimed_state e now cfg rid attempt d =
     on_store (claim_run_attempt e rid attempt (claimed_by cfg) (lease_end now (wcf_lease_seconds cfg))) d"

definition worker_auth :: "worker_config \<Rightarrow> string" where
  "worker_auth cfg = (if wcf_internal_token cfg \<noteq> '''' then ''Bearer '' @ wcf_internal_token cfg else '''')"

lemma wire_authorized:
  "wcf_internal_token cfg = srv_internal_token S \<Longrightarrow> authorize_internal S (wire_call W meth url (worker_auth cfg) body) = None"
  by (simp add: authorize_internal_def wire_call_def worker_auth_def)

lemma sink_auth: "authorization (with_attempt attempt (new_control_plane_sink base (wcf_internal_token cfg))) = worker_auth cfg"
  by (simp add: authorization_def with_attempt_def new_control_plane_sink_def worker_auth_def)

lemma claim_over_wire:
  assumes W: "wire_ok W cfg base rid attempt" "same_side S cfg base" "trim_space attempt = attempt" "attempt \<noteq> ''''"
    and lease: "0 < wcf_lease_seconds cfg"
    and claim: "runtime_claim (api_network S W getenv ess oss fault) (wir_sink W)
      (with_attempt attempt (new_control_plane_sink base (wcf_internal_token cfg))) rid attempt (claimed_by cfg)
      (wcf_lease_seconds cfg) (d, i) = (res, p)"
  shows "snd p = Suc i \<and> (fst p = d \<or> fst p = snd (claimed_state (ess i 1) (e_now (ess i 0)) cfg rid attempt d)) \<and>
    (\<forall>r. res = Inr r \<longrightarrow> (\<exists>r'. run_status r = run_status r' \<and>
       claimed_state (ess i 1) (e_now (ess i 0)) cfg rid attempt d = (Inr r', fst p)))"
proof -
  from W(1) obtain body where body: "cdc_claim (wir_sink W) (claim_of cfg attempt) = Inr body"
    "jsn_claim (wir_json W) body = Some (claim_of cfg attempt)"
    unfolding wire_ok_def by blast
  define h where "h = wire_call W ''POST'' (base @ run_path rid ''claim'') (worker_auth cfg) body"
  have path: "split_path (trim_prefix (arq_path (htr_api h)) ''/internal/runs/'') = [rid, ''claim'']"
    using W(1) split_run_path [of rid "''claim''"]
    by (simp add: h_def wire_call_def wire_ok_def slash_def)
  have meth: "htr_method h = ''POST''" "htr_body h = body" by (simp_all add: h_def wire_call_def)
  have auth: "authorize_internal S h = None"
    unfolding h_def by (rule wire_authorized) (use W(2) in \<open>simp add: same_side_def\<close>)
  define out where "out = internal_run_subroutes S (wir_json W) getenv (ess i) (oss i) h d"
  define cl where "cl = claimed_state (ess i 1) (e_now (ess i 0)) cfg rid attempt d"
  have out: "out = (case cl of (Inl err, t) \<Rightarrow> (Inl (store_error_reply err), t)
      | (Inr r, t) \<Rightarrow> (Inr (200, ClaimAnswer r), t))"
    using W(3,4) lease body(2) path meth auth
    by (simp add: out_def cl_def internal_run_subroutes_def internal_run_action_def internal_claim_run_def
        claimed_state_def claim_of_def)
  have codes: "hrp_code (wire_response W (Inl (store_error_reply err))) \<ge> 300" for err
    by (cases err rule: store_error_reply.cases) simp_all
  from W(1) obtain dec where dec: "\<And>r. cdc_get_run (wir_sink W) (wir_encode W (ClaimAnswer r)) = Inr (dec r)"
    "\<And>r. run_status (dec r) = run_status r"
    unfolding wire_ok_def by metis
  have base: "trim_right_slash base = base" using W(1) by (simp add: wire_ok_def)
  have post: "(res, p) = read_response (cdc_get_run (wir_sink W))
      (deliver_call S W getenv ess oss fault ''POST'' (base @ run_path rid ''claim'') (worker_auth cfg) body (d, i))"
    using claim
    unfolding runtime_claim_def sink_post_def sink_auth
    by (simp add: body(1) [unfolded claim_of_def] api_network_def with_attempt_def new_control_plane_sink_def base)
  show ?thesis
    using post codes dec
    by (cases "fault i"; cases cl; cases "fst cl")
      (auto simp: deliver_call_def out_def [symmetric] h_def [symmetric] out read_response_def Let_def cl_def [symmetric]
        simp del: One_nat_def)
qed

lemma complete_context_same:
  "context_for base rid attempt x \<Longrightarrow> rid \<noteq> '''' \<Longrightarrow> attempt \<noteq> '''' \<Longrightarrow> base \<noteq> '''' \<Longrightarrow> complete_context base' q x = x"
  by (simp add: complete_context_def context_for_def)

definition keyed_runs :: "store \<Rightarrow> bool" where
  "keyed_runs s \<longleftrightarrow> (\<forall>rid r. s_runs s rid = Some r \<longrightarrow> run_id r = rid)"

lemma context_over_wire:
  assumes W: "wire_ok W cfg base rid attempt" "same_side S cfg base" "attempt \<noteq> ''''"
    and q: "wqr_run_id q = rid" "wqr_attempt_id q = attempt" and runs: "keyed_runs (plane_store d)"
    and fetch: "fetch_execution_context (api_network S W getenv ess oss fault) (wir_context W) cfg q (d, i) = (res, p)"
  shows "p = (d, Suc i) \<and> (\<forall>x. res = Inr x \<longrightarrow> context_for base rid attempt x)"
proof -
  let ?X = "wir_context W"
  define url where "url = context_url ?X base rid attempt"
  define h where "h = wire_call W ''GET'' url (worker_auth cfg) ''''"
  have parse: "wir_parse W url = (run_path rid ''execution-context'', (\<lambda>n. if n = ''attempt_id'' then attempt else ''''))"
    and no_err: "ctx_url_error ?X (context_endpoint ?X base rid) = None"
    and base: "base \<noteq> ''''" "trim_right_slash base = base"
    and dec: "\<And>x. context_for base rid attempt x \<Longrightarrow>
      \<exists>x'. ctx_decode ?X (wir_encode W (ContextAnswer x)) = Inr x' \<and> context_for base rid attempt x'"
    and rid: "rid \<noteq> ''''" "slash \<notin> set rid"
    using W(1) by (simp_all add: wire_ok_def url_def)
  have path: "split_path (trim_prefix (arq_path (htr_api h)) ''/internal/runs/'') = [rid, ''execution-context'']"
    using split_run_path [OF rid, of "''execution-context''"] by (simp add: h_def wire_call_def parse slash_def)
  have meth: "htr_method h = ''GET''" "attempt_query h = attempt" by (simp_all add: h_def wire_call_def parse)
  have auth: "authorize_internal S h = None"
    unfolding h_def by (rule wire_authorized) (use W(2) in \<open>simp add: same_side_def\<close>)
  define ans where "ans = internal_run_execution_context S getenv h rid d"
  have out: "internal_run_subroutes S (wir_json W) getenv (ess i) (oss i) h d = (ans, d)"
    using path meth auth by (simp add: internal_run_subroutes_def internal_run_action_def ans_def)
  have ans: "(\<exists>n msg. ans = Inl (Reply n msg) \<and> n \<ge> 300) \<or> (\<exists>x. ans = Inr (200, ContextAnswer x) \<and> context_for base rid attempt x)"
  proof -
    have codes: "\<exists>n msg. store_error_reply err = Reply n msg \<and> n \<ge> 300" for err
      by (cases err rule: store_error_reply.cases) simp_all
    show ?thesis
      using runs W(2,3) base(1) meth(2) codes
      by (auto simp: ans_def internal_run_execution_context_def get_run_def keyed_runs_def same_side_def
          context_for_def public_control_plane_url_def Let_def split: option.split sum.split)
  qed
  have "fetch_execution_context (api_network S W getenv ess oss fault) ?X cfg q (d, i) =
      (case deliver_call S W getenv ess oss fault ''GET'' url (worker_auth cfg) '''' (d, i) of
         (Inl err, p1) \<Rightarrow> (Inl err, p1)
       | (Inr resp, p1) \<Rightarrow>
           if hrp_code resp < 200 \<or> hrp_code resp \<ge> 300 then (Inl (context_error resp), p1)
           else (case ctx_decode ?X (hrp_body resp) of
                   Inl err \<Rightarrow> (Inl err, p1) | Inr x \<Rightarrow> (Inr (complete_context base q x), p1)))"
    using W(2,3) q base no_err
    by (simp add: fetch_execution_context_def same_side_def Let_def url_def api_network_def worker_auth_def)
  note fetched = this
  have del: "deliver_call S W getenv ess oss fault ''GET'' url (worker_auth cfg) '''' (d, i) =
      (case fault i of RequestLost \<Rightarrow> (Inl ''connection refused'', (d, Suc i))
       | ReplyLost \<Rightarrow> (Inl ''timeout'', (d, Suc i))
       | Delivered \<Rightarrow> (Inr (wire_response W ans), (d, Suc i)))"
    by (simp add: deliver_call_def h_def [symmetric] out Let_def split: delivered.split)
  from ans consider (refused) n msg where "ans = Inl (Reply n msg)" "n \<ge> 300"
    | (answered) x x' where "ans = Inr (200, ContextAnswer x)" "context_for base rid attempt x'"
        "ctx_decode ?X (wir_encode W (ContextAnswer x)) = Inr x'"
    using dec by blast
  then have "(\<exists>err. fetch_execution_context (api_network S W getenv ess oss fault) ?X cfg q (d, i) = (Inl err, (d, Suc i))) \<or>
      (\<exists>x'. fetch_execution_context (api_network S W getenv ess oss fault) ?X cfg q (d, i) = (Inr x', (d, Suc i)) \<and>
         context_for base rid attempt x')"
  proof cases
    case refused
    then show ?thesis by (cases "fault i") (simp_all add: fetched del)
  next
    case answered
    then show ?thesis
      using complete_context_same [OF answered(2) rid(1) W(3) base(1)] by (cases "fault i") (simp_all add: fetched del)
  qed
  then show ?thesis using fetch by auto
qed

lemma worker_claim_holds:
  assumes "claimed_state e now cfg rid attempt d = (Inr r, d1)" "\<not> is_terminal_run_status (run_status r)"
  shows "holds_lease rid attempt (lease_end now (wcf_lease_seconds cfg)) (plane_store d1)"
  using on_store_parts [OF assms(1) [unfolded claimed_state_def]] claim_holds_lease [OF _ assms(2)] by blast

lemma claimed_ended:
  assumes "claimed_state e now cfg rid attempt d = (Inr r, d1)" "is_terminal_run_status (run_status r)"
  shows "d1 = d \<and> run_ended rid (plane_store d)"
proof -
  have c: "claim_run_attempt e rid attempt (claimed_by cfg) (lease_end now (wcf_lease_seconds cfg)) (plane_store d) =
      (Inr r, plane_store d1)"
    using on_store_parts [OF assms(1) [unfolded claimed_state_def]] by blast
  then have "plane_store d1 = plane_store d \<and> s_runs (plane_store d) rid = Some r"
    by (cases rule: claim_Inr_cases) (use assms(2) in \<open>auto simp: is_terminal_run_status_def\<close>)
  then show ?thesis
    using assms on_store_same [of "claim_run_attempt e rid attempt (claimed_by cfg)
        (lease_end now (wcf_lease_seconds cfg))" d] c
    by (simp add: claimed_state_def run_ended_def)
qed

lemma claimed_refused:
  assumes "holds_lease rid a l (plane_store d)" "a \<noteq> ''''" "b \<noteq> a" "e_now e < l"
  shows "snd (claimed_state e now cfg rid b d) = d"
  unfolding claimed_state_def by (rule on_store_same) (rule claim_refused [OF assms])

section \<open>A sample worker\<close>

definition sample_base :: string where "sample_base = ''http://cp''"

definition sample_worker :: worker_config where
  "sample_worker =
     \<lparr>wcf_redis_addr = '''', wcf_stream = ''runs'', wcf_group = ''g'', wcf_consumer = ''w2'',
      wcf_control_plane_url = sample_base, wcf_internal_token = '''', wcf_runtime_id = ''w2'',
      wcf_block_timeout = 5 * time_second, wcf_reclaim_min_idle = 60 * time_second, wcf_reclaim_count = 1,
      wcf_max_deliveries = 5, wcf_dead_letter_stream = ''runs:dlq'', wcf_dead_letter_max_len = 0,
      wcf_lease_seconds = 600, wcf_heartbeat_interval = 60 * time_second\<rparr>"

definition sample_context :: run_execution_request where
  "sample_context =
     \<lparr>rex_request = (queued_request \<lparr>qrn_run_id = ''run_1'', qrn_attempt_id = ''attempt_2'', qrn_enqueued_at = 0\<rparr>),
      rex_user_message = ''hello'', rex_control_plane_url = sample_base\<rparr>"

fun status_text :: "run_status \<Rightarrow> string" where
  "status_text RunQueued = ''queued''"
| "status_text RunRunning = ''running''"
| "status_text RunWaitingForApproval = ''waiting''"
| "status_text RunSucceeded = ''succeeded''"
| "status_text RunFailed = ''failed''"
| "status_text RunCanceled = ''canceled''"

definition read_status :: "string \<Rightarrow> run_status" where
  "read_status t = (if t = ''queued'' then RunQueued else if t = ''running'' then RunRunning
     else if t = ''waiting'' then RunWaitingForApproval else if t = ''succeeded'' then RunSucceeded
     else if t = ''failed'' then RunFailed else RunCanceled)"

fun sample_encode :: "answer \<Rightarrow> string" where
  "sample_encode (ClaimAnswer r) = status_text (run_status r)"
| "sample_encode ans = ''''"

definition sample_wire :: wire where
  "sample_wire =
     \<lparr>wir_json = sample_json\<lparr>jsn_claim := (\<lambda>b. Some (claim_of sample_worker ''attempt_2''))\<rparr>,
      wir_sink = \<lparr>cdc_claim = (\<lambda>b. Inr ''claim''), cdc_event = (\<lambda>b. Inr ''''), cdc_complete = (\<lambda>b. Inr ''''),
        cdc_fail = (\<lambda>b. Inr ''''), cdc_artifacts = (\<lambda>b. Inr ''''), cdc_quota = (\<lambda>b. Inr ''''),
        cdc_query = (\<lambda>q. ''''), cdc_get_run = (\<lambda>b. Inr (demo_run\<lparr>run_status := read_status b\<rparr>)),
        cdc_get_quota = (\<lambda>b. Inl ''''), cdc_get_artifacts = (\<lambda>b. Inr []), cdc_get_text = (\<lambda>b. Inl '''')\<rparr>,
      wir_context = \<lparr>ctx_path_escape = id, ctx_url_error = (\<lambda>u. None), ctx_query = (\<lambda>q. ''attempt_id=attempt_2''),
        ctx_decode = (\<lambda>b. Inr sample_context)\<rparr>,
      wir_encode = sample_encode,
      wir_parse = (\<lambda>url. if url = sample_base @ run_path ''run_1'' ''claim''
        then (run_path ''run_1'' ''claim'', (\<lambda>n. ''''))
        else (run_path ''run_1'' ''execution-context'', (\<lambda>n. if n = ''attempt_id'' then ''attempt_2'' else '''')))\<rparr>"

definition sample_control_plane :: "(unit, unit) server" where
  "sample_control_plane = (sample_server None)\<lparr>srv_control_plane_url := sample_base\<rparr>"

lemma status_codec: "read_status (status_text st) = st"
  by (cases st) (simp_all add: read_status_def)

lemma sample_wire_ok: "wire_ok sample_wire sample_worker sample_base ''run_1'' ''attempt_2''"
proof -
  have "context_for sample_base ''run_1'' ''attempt_2'' sample_context"
    by (simp add: context_for_def sample_context_def queued_request_def)
  then show ?thesis
    by (simp add: wire_ok_def sample_wire_def status_codec context_url_def context_endpoint_def run_path_def slash_def
        sample_base_def trim_right_slash_def)
qed

lemma sample_sides: "same_side sample_control_plane sample_worker sample_base"
  by (simp add: same_side_def sample_control_plane_def sample_worker_def sample_server_def)

lemma demo_keyed: "keyed_runs (plane_store demo_plane)"
  by (auto simp: keyed_runs_def plane_store_def demo_store_def demo_steps new_store_def split: if_splits)

lemma sample_attempt: "trim_space ''attempt_2'' = ''attempt_2''" "0 < wcf_lease_seconds sample_worker"
  by (simp_all add: trim_graphic graphic_def sample_worker_def)

definition sample_worker_lib :: worker_lib where
  "sample_worker_lib =
     \<lparr>wlb_text = \<lparr>txt_format_time = (\<lambda>t. ''now''), txt_parse_time = (\<lambda>s. Inr 1), txt_sprint = (\<lambda>v. '''')\<rparr>,
      wlb_error_text = error_text, wlb_marshal = (\<lambda>v. Inr ''{}'')\<rparr>"

definition sample_message :: worker_message where
  "sample_message = \<lparr>wmg_id = ''1-1'', wmg_values = [(''run_id'', VStr ''run_1''), (''attempt_id'', VStr ''a'')],
     wmg_delivery_count = 0\<rparr>"

text \<open>A stream with one pending message; its state is the list of acknowledged messages.\<close>

definition sample_client :: "string list queue_client" where
  "sample_client =
     \<lparr>qcl_group_create = (\<lambda>s g pos c. (None, c)),
      qcl_read_group = (\<lambda>s g w n block c. (Inl err_queue_empty, c)),
      qcl_auto_claim = (\<lambda>s g w idle start n c. (Inr [sample_message], c)),
      qcl_pending = (\<lambda>s g lo hi n c. (Inr [5], c)),
      qcl_add = (\<lambda>s v n c. (Inr ''2-1'', c)),
      qcl_ack = (\<lambda>s g ids c. (Inr 1, c @ ids))\<rparr>"

section \<open>Properties\<close>

text \<open>C13. The engine works only under a lease of its own. Over a network that may lose requests and
  replies, the execution of a queued run has one of three outcomes. It fails, the engine has not
  run, and the control plane is as before or as the claim left it; the run has ended, and nothing
  happens; or the engine runs, for the run and the attempt of the message, from a state in which
  that attempt holds the lease of the run.\<close>

theorem engine_runs_under_lease:
  assumes W: "wire_ok W cfg base rid attempt" "same_side S cfg base" "trim_space attempt = attempt" "attempt \<noteq> ''''"
    and cfg: "0 < wcf_lease_seconds cfg" and q: "wqr_run_id q = rid" "wqr_attempt_id q = attempt"
    and runs: "keyed_runs (plane_store d)"
    and N: "N = api_network S W getenv ess oss fault"
    and exec: "execute_queued_run N (wir_sink W) (wir_context W) cfg (Some agent) q (d, i) = (res, p)"
  shows "(res \<noteq> None \<and> fst p \<in> {d, snd (claimed_state (ess (Suc i) 1) (e_now (ess (Suc i) 0)) cfg rid attempt d)}) \<or>
    (res = None \<and> fst p = d \<and> run_ended rid (plane_store d)) \<or>
    (res = None \<and> (\<exists>k (x :: run_execution_request) d1. rrq_run_id (rex_request x) = rid \<and> rrq_attempt_id (rex_request x) = attempt \<and>
       csk_attempt_id k = attempt \<and>
       holds_lease rid attempt (lease_end (e_now (ess (Suc i) 0)) (wcf_lease_seconds cfg)) (plane_store d1) \<and>
       p = run_steps N (wir_sink W) cfg k rid attempt (agent (rex_request x) (rex_user_message x) k) False
             (d1, i + 2)))"
proof -
  obtain fetched p1 where f: "fetch_execution_context N (wir_context W) cfg q (d, i) = (fetched, p1)"
    using surj_pair by metis
  note ctx = context_over_wire [OF W(1,2,4) q runs f [unfolded N]]
  show ?thesis
  proof (cases fetched)
    case (Inl err)
    then show ?thesis using exec f ctx by (auto simp: execute_queued_run_def)
  next
    case (Inr x)
    let ?k = "with_attempt attempt (new_control_plane_sink base (wcf_internal_token cfg))"
    obtain cl p2 where c: "runtime_claim N (wir_sink W) ?k rid attempt (claimed_by cfg) (wcf_lease_seconds cfg)
        (d, Suc i) = (cl, p2)" using surj_pair by metis
    note claim = claim_over_wire [OF W cfg c [unfolded N]]
    have base: "base \<noteq> ''''" "trim_right_slash base = base" using W(1) by (simp_all add: wire_ok_def)
    have x: "rrq_run_id (rex_request x) = rid" "rrq_attempt_id (rex_request x) = attempt"
      "rex_control_plane_url x = base" "p1 = (d, Suc i)" using ctx Inr by (auto simp: context_for_def)
    have res: "(res, p) = (case cl of Inl err \<Rightarrow> (Some err, p2)
        | Inr r \<Rightarrow> if is_terminal_run_status (run_status r) then (None, p2)
            else execute_claimed N (wir_sink W) cfg agent ?k x p2)"
      using exec f Inr x base W(4) c by (cases cl) (simp_all add: execute_queued_run_def Let_def split: if_split_asm)
    have k: "csk_attempt_id ?k = attempt" by (simp add: with_attempt_def)
    show ?thesis
    proof (cases cl)
      case (Inl err)
      then show ?thesis using res claim by auto
    next
      case (Inr r)
      then obtain r' where cs: "claimed_state (ess (Suc i) 1) (e_now (ess (Suc i) 0)) cfg rid attempt d = (Inr r', fst p2)"
        "snd p2 = Suc (Suc i)" "run_status r = run_status r'" using claim by blast
      show ?thesis
      proof (cases "is_terminal_run_status (run_status r)")
        case True
        then show ?thesis using claimed_ended [OF cs(1)] cs(3) res Inr by auto
      next
        case False
        have p2: "p2 = (fst p2, i + 2)" using cs(2) by (cases p2) auto
        have unfinished: "\<not> is_terminal_run_status (run_status r')" using False cs(3) by simp
        have "res = None \<and> p = run_steps N (wir_sink W) cfg ?k rid attempt
            (agent (rex_request x) (rex_user_message x) ?k) False (fst p2, i + 2)"
          using res Inr False x(1,2) p2 by (auto simp: execute_claimed_def)
        then show ?thesis using worker_claim_holds [OF cs(1)] unfinished x(1,2) k
          by - (rule disjI2, rule disjI2, rule conjI, simp, rule exI [of _ ?k], rule exI [of _ x],
              rule exI [of _ "fst p2"], simp)
      qed
    qed
  qed
qed

theorem engine_runs_under_lease_witness:
  "\<exists>res p. execute_queued_run (api_network sample_control_plane sample_wire (\<lambda>n. '''') (\<lambda>i. next_env) (\<lambda>i. [])
       (\<lambda>i. Delivered)) (wir_sink sample_wire) (wir_context sample_wire) sample_worker (Some (\<lambda>q m k. []))
       (worker_queued_run (next_env 1) ''1-1'' False \<lparr>qrn_run_id = ''run_1'', qrn_attempt_id = ''attempt_2'',
          qrn_enqueued_at = 0\<rparr>) (demo_plane, 0) = (res, p) \<and>
     (res = None \<or> fst p \<in> {demo_plane, snd (claimed_state (next_env 1) 10 sample_worker ''run_1'' ''attempt_2'' demo_plane)})"
proof -
  let ?N = "api_network sample_control_plane sample_wire (\<lambda>n. '''') (\<lambda>i. next_env) (\<lambda>i. []) (\<lambda>i. Delivered)"
  let ?q = "worker_queued_run (next_env 1) ''1-1'' False \<lparr>qrn_run_id = ''run_1'', qrn_attempt_id = ''attempt_2'',
      qrn_enqueued_at = 0\<rparr>"
  have q: "wqr_run_id ?q = ''run_1''" "wqr_attempt_id ?q = ''attempt_2''" by (simp_all add: worker_queued_run_def)
  obtain res p where e: "execute_queued_run ?N (wir_sink sample_wire) (wir_context sample_wire) sample_worker
      (Some (\<lambda>q m k. [])) ?q (demo_plane, 0) = (res, p)" using surj_pair by metis
  have "''attempt_2'' \<noteq> ''''" by simp
  note engine_runs_under_lease [OF sample_wire_ok sample_sides sample_attempt(1) this sample_attempt(2) q demo_keyed refl e]
  then have "res = None \<or> fst p \<in> {demo_plane, snd (claimed_state (next_env 1) 10 sample_worker ''run_1'' ''attempt_2'' demo_plane)}"
    by (auto simp: next_env_simps(1) simp del: One_nat_def)
  then show ?thesis using e by blast
qed

text \<open>A run that is being worked on is left alone. While an attempt holds the lease of a run, a
  worker that reclaims the message of the run gives it a fresh attempt, is refused, and leaves
  the control plane and the queue as they were: its engine does not run and the message is not
  acknowledged, unless the run has ended.\<close>

theorem leased_run_is_left_alone:
  assumes W: "wire_ok W cfg base rid attempt" "same_side S cfg base" "trim_space attempt = attempt" "attempt \<noteq> ''''"
    and cfg: "0 < wcf_lease_seconds cfg" and runs: "keyed_runs (plane_store d)"
    and m: "decode_queued_run (wlb_text L) (wmg_values m) = Inr entry" "qrn_run_id entry = rid"
    and fresh: "e_id (es 1) ''attempt'' = attempt" "attempt \<noteq> a"
    and held: "holds_lease rid a l (plane_store d)" "a \<noteq> ''''" "e_now (ess (Suc i) 1) < l"
      "\<not> run_ended rid (plane_store d)"
    and proc: "process_message L Q (api_network S W getenv ess oss fault) (wir_sink W) (wir_context W) cfg
      (Some agent) es m True (c, (d, i)) = (res, t)"
  shows "res \<noteq> None \<and> fst t = c \<and> fst (snd t) = d"
proof -
  define N where "N = api_network S W getenv ess oss fault"
  define q where "q = worker_queued_run (es 1) (wmg_id m) True entry"
  have q: "wqr_run_id q = rid" "wqr_attempt_id q = attempt" using m fresh by (simp_all add: q_def worker_queued_run_def)
  obtain r p where e: "execute_queued_run N (wir_sink W) (wir_context W) cfg (Some agent) q (d, i) = (r, p)"
    using surj_pair by metis
  have same: "snd (claimed_state (ess (Suc i) 1) (e_now (ess (Suc i) 0)) cfg rid attempt d) = d"
    by (rule claimed_refused [OF held(1,2) fresh(2) held(3)])
  obtain fetched p1 where f: "fetch_execution_context N (wir_context W) cfg q (d, i) = (fetched, p1)"
    using surj_pair by metis
  note ctx = context_over_wire [OF W(1,2,4) q runs f [unfolded N_def]]
  let ?k = "with_attempt attempt (new_control_plane_sink base (wcf_internal_token cfg))"
  obtain cl p2 where cl: "runtime_claim N (wir_sink W) ?k rid attempt (claimed_by cfg) (wcf_lease_seconds cfg)
      (d, Suc i) = (cl, p2)" using surj_pair by metis
  note claim = claim_over_wire [OF W cfg cl [unfolded N_def]]
  have no_claim: "\<exists>err. cl = Inl err"
  proof (cases cl)
    case (Inr x)
    then obtain y where c: "claimed_state (ess (Suc i) 1) (e_now (ess (Suc i) 0)) cfg rid attempt d = (Inr y, d)"
      using claim same by (metis snd_conv)
    then have "\<not> is_terminal_run_status (run_status y)" using claimed_ended held(4) by blast
    from worker_claim_holds [OF c this] held(1) fresh(2) show ?thesis by (auto simp: holds_lease_def)
  qed simp
  then have "r \<noteq> None \<and> fst p = d"
  proof (cases fetched)
    case (Inl err)
    then show ?thesis using e f ctx by (auto simp: execute_queued_run_def)
  next
    case (Inr x)
    have "base \<noteq> ''''" "trim_right_slash base = base" using W(1) by (simp_all add: wire_ok_def)
    then show ?thesis
      using e f Inr ctx W(4) cl no_claim claim same by (auto simp: execute_queued_run_def context_for_def Let_def)
  qed
  then show ?thesis
    using proc e m(1) by (auto simp: process_message_def N_def [symmetric] q_def [symmetric]
        simp del: One_nat_def)
qed

theorem leased_run_is_left_alone_witness:
  "\<exists>res t. process_message sample_worker_lib sample_client (api_network sample_control_plane sample_wire
       (\<lambda>n. '''') (\<lambda>i. next_env) (\<lambda>i. []) (\<lambda>i. Delivered)) (wir_sink sample_wire) (wir_context sample_wire)
       sample_worker (Some (\<lambda>q m k. [])) next_env sample_message True ([], (demo_plane, 0)) = (res, t) \<and>
     res \<noteq> None \<and> fst t = [] \<and> fst (snd t) = demo_plane"
proof -
  let ?N = "api_network sample_control_plane sample_wire (\<lambda>n. '''') (\<lambda>i. next_env) (\<lambda>i. []) (\<lambda>i. Delivered)"
  obtain res t where e: "process_message sample_worker_lib sample_client ?N (wir_sink sample_wire)
      (wir_context sample_wire) sample_worker (Some (\<lambda>q m k. [])) next_env sample_message True
      ([], (demo_plane, 0)) = (res, t)" using surj_pair by metis
  have m: "decode_queued_run (wlb_text sample_worker_lib) (wmg_values sample_message) =
      Inr \<lparr>qrn_run_id = ''run_1'', qrn_attempt_id = ''a'', qrn_enqueued_at = 0\<rparr>"
    by (simp add: decode_queued_run_def sample_worker_lib_def sample_message_def)
  have held: "holds_lease ''run_1'' ''a'' 100 (plane_store demo_plane)" "\<not> run_ended ''run_1'' (plane_store demo_plane)"
    using demo_held by (simp_all add: plane_store_def run_ended_def demo_store_run demo_run_def is_terminal_run_status_def)
  have "''attempt_2'' \<noteq> ''''" by simp
  note leased_run_is_left_alone [OF sample_wire_ok sample_sides sample_attempt(1) this sample_attempt(2) demo_keyed m
      _ _ _ held(1) _ _ held(2) e]
  then show ?thesis using e by auto
qed



end
