(* ===== verification/Text_Replace.thy ===== *)
theory Text_Replace
  imports Go_Text
begin

text \<open>
  \<open>strings.ReplaceAll\<close>, which the redactors of the runtime use to take secrets out of texts, and why
  a replaced text no longer shows the secret: what takes its place stands in brackets, and a secret
  without brackets that is no part of the word between them cannot reach across it.
\<close>

text \<open>\<open>strings.ReplaceAll(s, old, new)\<close> for a nonempty \<open>old\<close>.\<close>

function replace_all :: "string \<Rightarrow> string \<Rightarrow> string \<Rightarrow> string" where
  "replace_all old new [] = []"
| "replace_all old new (c # s) =
     (if starts_with (c # s) old then new @ replace_all old new (drop (length old - 1) s)
      else c # replace_all old new s)"
  by pat_completeness auto
termination
  by (relation "measure (\<lambda>(old, new, s). length s)") auto

section \<open>What a text contains\<close>

lemma contains_iff: "contains v s \<longleftrightarrow> (\<exists>a b. v = a @ s @ b)"
proof (induction v)
  case (Cons c v)
  have "(\<exists>a b. c # v = a @ s @ b) \<longleftrightarrow> (\<exists>b. c # v = s @ b) \<or> (\<exists>a b. v = a @ s @ b)"
    by (metis append_Cons append_Nil list.exhaust list.inject)
  with Cons show ?case by (auto simp: starts_with_iff)
qed simp

lemma contains_trans: "contains v s \<Longrightarrow> contains (x @ v @ y) s"
  unfolding contains_iff by (metis append.assoc)

lemma contains_drop: "contains (drop n v) s \<Longrightarrow> contains v s"
  using contains_trans [of "drop n v" s "take n v" "[]"] by simp

text \<open>A text without a byte that separates two others lies on one side of it.\<close>

lemma split_at_mark:
  assumes "x @ c # y = a @ s @ b" "c \<notin> set s"
  shows "(\<exists>a' b'. x = a' @ s @ b') \<or> (\<exists>a' b'. y = a' @ s @ b')"
proof (cases "length (a @ s) \<le> length x")
  case True
  then have "take (length x) (a @ s @ b) = a @ s @ take (length x - length a - length s) b" by simp
  moreover have "take (length x) (a @ s @ b) = x" using assms(1) by (metis append_eq_conv_conj)
  ultimately show ?thesis by metis
next
  case False
  have "length a > length x"
  proof (rule ccontr)
    assume "\<not> length a > length x"
    with False have "(a @ s @ b) ! length x \<in> set s" by (auto simp: nth_append)
    moreover have "(a @ s @ b) ! length x = c" using assms(1) by (metis nth_append_length)
    ultimately show False using assms(2) by simp
  qed
  then have "drop (Suc (length x)) (a @ s @ b) = drop (Suc (length x)) a @ s @ b" by simp
  moreover have "drop (Suc (length x)) (a @ s @ b) = y" using assms(1) by (metis append_eq_conv_conj drop_Suc drop_tl list.sel(3))
  ultimately show ?thesis by metis
qed

lemma contains_mark:
  "contains (x @ c # y) s \<Longrightarrow> c \<notin> set s \<Longrightarrow> contains x s \<or> contains y s"
  using split_at_mark unfolding contains_iff by metis

section \<open>Replaced texts\<close>

definition clear_of :: "string \<Rightarrow> string \<Rightarrow> bool" where
  "clear_of mark s \<longleftrightarrow> s \<noteq> [] \<and> CHR ''['' \<notin> set s \<and> CHR '']'' \<notin> set s \<and> \<not> contains mark s"

lemma contains_beyond_mark:
  assumes "clear_of mark s" "contains (CHR ''['' # mark @ CHR '']'' # v) s"
  shows "contains v s"
proof -
  have "contains ([] @ CHR ''['' # mark @ CHR '']'' # v) s" using assms(2) by simp
  from contains_mark [OF this] assms(1) have "contains (mark @ CHR '']'' # v) s"
    by (auto simp: clear_of_def)
  from contains_mark [OF this] assms(1) show ?thesis by (auto simp: clear_of_def)
qed

lemma replaced_start:
  "CHR ''['' \<notin> set s \<Longrightarrow> starts_with (replace_all t (CHR ''['' # m) v) s \<Longrightarrow> starts_with v s"
proof (induction t "CHR ''['' # m" v arbitrary: s rule: replace_all.induct)
  case (2 t c v)
  then show ?case by (cases s) (auto split: if_splits)
qed simp

lemma hidden_stays_hidden:
  "clear_of mark s \<Longrightarrow> \<not> contains v s \<Longrightarrow> \<not> contains (replace_all t (CHR ''['' # mark @ '']'') v) s"
proof (induction t "CHR ''['' # mark @ '']''" v rule: replace_all.induct)
  case (2 t c v)
  show ?case
  proof (cases "starts_with (c # v) t")
    case True
    have "\<not> contains (drop (length t - 1) v) s" using 2(4) contains_drop [of _ v s] by auto
    with 2(1) [OF True 2(3)] contains_beyond_mark [OF 2(3)] True show ?thesis by auto
  next
    case False
    have "CHR ''['' \<notin> set s" using 2(3) by (simp add: clear_of_def)
    with replaced_start [of s t "mark @ '']''" "c # v"] False 2(2) [OF False 2(3)] 2(4) show ?thesis by auto
  qed
qed simp

lemma replaced_is_hidden:
  "clear_of mark s \<Longrightarrow> \<not> contains (replace_all s (CHR ''['' # mark @ '']'') v) s"
proof (induction s "CHR ''['' # mark @ '']''" v rule: replace_all.induct)
  case (1 s)
  then show ?case by (auto simp: clear_of_def)
next
  case (2 s c v)
  show ?case
  proof (cases "starts_with (c # v) s")
    case True
    with 2(1) [OF True 2(3)] contains_beyond_mark [OF 2(3)] show ?thesis by auto
  next
    case False
    have "CHR ''['' \<notin> set s" using 2(3) by (simp add: clear_of_def)
    with replaced_start [of s s "mark @ '']''" "c # v"] False 2(2) [OF False 2(3)] show ?thesis by auto
  qed
qed

end
