(* ===== verification/Provider_Errors.thy ===== *)
theory Provider_Errors
  imports Protocol Text_Replace
begin

text \<open>
  The errors of a model call and what may be said about them: errors.go and redactor.go of
  agent-runtime/internal/modelprovider. A Go error is a value of \<open>go_error\<close>; \<open>errors.Is\<close> and
  \<open>errors.As\<close> walk along what it wraps (\<open>error_chain\<close>).
\<close>

section \<open>Classes of errors\<close>

datatype error_class =
    ErrorClassConfigError
  | ErrorClassAuthError
  | ErrorClassBillingError
  | ErrorClassRequestError
  | ErrorClassRateLimited
  | ErrorClassProviderUnavailable
  | ErrorClassNetworkError
  | ErrorClassToolSchemaError
  | ErrorClassUnknownProviderError

fun error_class_text :: "error_class \<Rightarrow> string" where
  "error_class_text ErrorClassConfigError = ''config_error''"
| "error_class_text ErrorClassAuthError = ''auth_error''"
| "error_class_text ErrorClassBillingError = ''billing_error''"
| "error_class_text ErrorClassRequestError = ''request_error''"
| "error_class_text ErrorClassRateLimited = ''rate_limited''"
| "error_class_text ErrorClassProviderUnavailable = ''provider_unavailable''"
| "error_class_text ErrorClassNetworkError = ''network_error''"
| "error_class_text ErrorClassToolSchemaError = ''tool_schema_error''"
| "error_class_text ErrorClassUnknownProviderError = ''provider_error''"

definition is_retryable_error_class :: "error_class \<Rightarrow> bool" where
  "is_retryable_error_class c \<longleftrightarrow>
     c = ErrorClassRateLimited \<or> c = ErrorClassProviderUnavailable \<or> c = ErrorClassNetworkError"

record provider_error =
  pve_class :: error_class
  pve_status_code :: int
  pve_retryable :: bool
  pve_message :: string

definition provider_error_text :: "provider_error \<Rightarrow> string" where
  "provider_error_text e =
     (let message = trim_space (pve_message e);
          message = (if message = '''' then ''model provider request failed'' else message)
      in if 0 < pve_status_code e
         then ''model provider '' @ error_class_text (pve_class e) @ '' (status='' @
                itoa (pve_status_code e) @ ''): '' @ message
         else ''model provider '' @ error_class_text (pve_class e) @ '': '' @ message)"

definition classify_http_status :: "int \<Rightarrow> error_class" where
  "classify_http_status code =
     (if code = 401 then ErrorClassAuthError
      else if code = 402 then ErrorClassBillingError
      else if code = 429 then ErrorClassRateLimited
      else if code \<in> {500, 502, 503, 504} then ErrorClassProviderUnavailable
      else if code \<in> {400, 422} then ErrorClassRequestError
      else if 500 \<le> code then ErrorClassProviderUnavailable
      else if 400 \<le> code then ErrorClassRequestError
      else ErrorClassUnknownProviderError)"

section \<open>Go errors\<close>

text \<open>
  The errors the code tells apart: a \<open>*ProviderError\<close>, the two errors of a context, a
  \<open>*url.Error\<close> with its own text, the operation it reports and the error it wraps, another \<open>net.Error\<close>, an
  error that wraps another one under a text of its own, \<open>errors.Join\<close>, and any other error.
\<close>

datatype go_error =
    ProviderFailure provider_error
  | DeadlineExceeded
  | ContextCanceled
  | UrlError string go_error
  | NetError bool string
  | WrapError string go_error
  | JoinError "go_error list"
  | PlainError string

fun error_text :: "go_error \<Rightarrow> string" where
  "error_text (ProviderFailure e) = provider_error_text e"
| "error_text DeadlineExceeded = ''context deadline exceeded''"
| "error_text ContextCanceled = ''context canceled''"
| "error_text (UrlError t e) = t"
| "error_text (NetError timeout t) = t"
| "error_text (WrapError t e) = t"
| "error_text (JoinError es) = join_with [CHR 0x0A] (map error_text es)"
| "error_text (PlainError t) = t"

text \<open>The errors \<open>errors.Is\<close> and \<open>errors.As\<close> look at, in their order: an error, then what
  it wraps, depth first.\<close>

fun error_chain :: "go_error \<Rightarrow> go_error list" where
  "error_chain (UrlError t e) = UrlError t e # error_chain e"
| "error_chain (WrapError t e) = WrapError t e # error_chain e"
| "error_chain (JoinError es) = JoinError es # concat (map error_chain es)"
| "error_chain e = [e]"

definition errors_is :: "go_error \<Rightarrow> go_error \<Rightarrow> bool" where
  "errors_is e target \<longleftrightarrow> target \<in> set (error_chain e)"

fun as_provider_error :: "go_error list \<Rightarrow> provider_error option" where
  "as_provider_error [] = None"
| "as_provider_error (e # es) =
     (case e of ProviderFailure p \<Rightarrow> Some p | _ \<Rightarrow> as_provider_error es)"

fun as_url_error :: "go_error list \<Rightarrow> go_error option" where
  "as_url_error [] = None"
| "as_url_error (e # es) = (case e of UrlError t inner \<Rightarrow> Some inner | _ \<Rightarrow> as_url_error es)"

text \<open>Deadline errors and \<open>*url.Error\<close> implement \<open>net.Error\<close> too, but have been dealt with
  before \<open>net.Error\<close> is looked for.\<close>

fun as_net_error :: "go_error list \<Rightarrow> (bool \<times> string) option" where
  "as_net_error [] = None"
| "as_net_error (e # es) =
     (case e of NetError timeout t \<Rightarrow> Some (timeout, t) | _ \<Rightarrow> as_net_error es)"

definition network_error :: "bool \<Rightarrow> string \<Rightarrow> provider_error" where
  "network_error retryable message =
     \<lparr>pve_class = ErrorClassNetworkError, pve_status_code = 0, pve_retryable = retryable,
      pve_message = message\<rparr>"

definition classify_provider_error :: "go_error \<Rightarrow> provider_error" where
  "classify_provider_error err =
     (let chain = error_chain err in
      case as_provider_error chain of
        Some p \<Rightarrow> p
      | None \<Rightarrow>
          if errors_is err DeadlineExceeded then network_error True (error_text err)
          else if errors_is err ContextCanceled then network_error False (error_text err)
          else (case as_url_error chain of
              Some inner \<Rightarrow> network_error True (error_text inner)
            | None \<Rightarrow>
                (case as_net_error chain of
                   Some (timeout, t) \<Rightarrow> network_error timeout t
                 | None \<Rightarrow>
                     \<lparr>pve_class = ErrorClassUnknownProviderError, pve_status_code = 0,
                      pve_retryable = False, pve_message = error_text err\<rparr>)))"

lemma classify_provider_failure [simp]: "classify_provider_error (ProviderFailure p) = p"
  by (simp add: classify_provider_error_def)

text \<open>An error the code made itself is found however often a caller wrapped it.\<close>

lemma classify_wrapped [simp]:
  "as_provider_error (error_chain e) = Some p \<Longrightarrow> classify_provider_error (WrapError t e) = p"
  "as_provider_error (error_chain e) = Some p \<Longrightarrow> classify_provider_error (UrlError t e) = p"
  by (simp_all add: classify_provider_error_def)

section \<open>Secrets\<close>

text \<open>
  \<open>ReplaceAllString\<close> of a regular expression whose matches are never empty: a matcher gets
  the byte before the place, if there is one, and the rest of the text, and returns how many
  bytes after the first one belong to the match, and what to write instead.
\<close>

type_synonym matcher = "char option \<Rightarrow> string \<Rightarrow> (nat \<times> string) option"

function scan_replace :: "matcher \<Rightarrow> char option \<Rightarrow> string \<Rightarrow> string" where
  "scan_replace m prev [] = []"
| "scan_replace m prev (c # s) =
     (case m prev (c # s) of
        None \<Rightarrow> c # scan_replace m (Some c) s
      | Some (n, new) \<Rightarrow> new @ scan_replace m (Some (last (c # take n s))) (drop n s))"
  by pat_completeness auto
termination
  by (relation "measure (\<lambda>(m, prev, s). length s)") auto

definition alpha_numeric :: "char \<Rightarrow> bool" where
  "alpha_numeric c =
     (let n = (of_char c :: nat)
      in 48 \<le> n \<and> n \<le> 57 \<or> 65 \<le> n \<and> n \<le> 90 \<or> 97 \<le> n \<and> n \<le> 122)"

text \<open>\<open>\b\<close> in front of a letter.\<close>

definition word_starts :: "char option \<Rightarrow> bool" where
  "word_starts prev =
     (case prev of None \<Rightarrow> True | Some c \<Rightarrow> \<not> (alpha_numeric c \<or> c = CHR ''_''))"

text \<open>Under \<open>(?i)\<close> the letters k and s also match the Kelvin sign and the long s.\<close>

definition kelvin :: string where "kelvin = bytes [226, 132, 170]"
definition long_s :: string where "long_s = bytes [197, 191]"

fun match_fold :: "string \<Rightarrow> string \<Rightarrow> string option" where
  "match_fold [] s = Some s"
| "match_fold (l # ls) s =
     (if s \<noteq> [] \<and> lower_char (hd s) = l then match_fold ls (tl s)
      else if l = CHR ''k'' \<and> starts_with s kelvin then match_fold ls (drop 3 s)
      else if l = CHR ''s'' \<and> starts_with s long_s then match_fold ls (drop 2 s)
      else None)"

text \<open>\<open>\s\<close> of a regular expression, and the classes of the three patterns.\<close>

definition regex_space :: "char \<Rightarrow> bool" where
  "regex_space c \<longleftrightarrow> (of_char c :: nat) \<in> {9, 10, 12, 13, 32}"

definition token_char :: "char \<Rightarrow> bool" where
  "token_char c \<longleftrightarrow> alpha_numeric c \<or> c \<in> set ''._~+/=-''"

function token_length :: "string \<Rightarrow> nat" where
  "token_length s =
     (if s = [] then 0
      else if token_char (hd s) then 1 + token_length (tl s)
      else if starts_with s kelvin then 3 + token_length (drop 3 s)
      else if starts_with s long_s then 2 + token_length (drop 2 s)
      else 0)"
  by pat_completeness auto
termination
  by (relation "measure length") auto

declare token_length.simps [simp del]

definition match_bearer :: matcher where
  "match_bearer prev s =
     (if \<not> word_starts prev then None
      else case match_fold ''bearer'' s of
        None \<Rightarrow> None
      | Some r \<Rightarrow>
          (let spaces = length (takeWhile regex_space r);
               n = token_length (drop spaces r)
           in if spaces = 0 \<or> n = 0 then None
              else Some (length s - length r + spaces + n - 1, ''Bearer [REDACTED]'')))"

definition key_char :: "char \<Rightarrow> bool" where
  "key_char c \<longleftrightarrow> alpha_numeric c \<or> c \<in> set ''._-''"

definition match_openai_key :: matcher where
  "match_openai_key prev s =
     (let n = length (takeWhile key_char (drop 3 s))
      in if word_starts prev \<and> starts_with s ''sk-'' \<and> n \<noteq> 0
         then Some (n + 2, ''sk-[REDACTED]'') else None)"

text \<open>The name in front of a value: the first of the alternatives that matches.\<close>

definition match_key_name :: "string \<Rightarrow> string option" where
  "match_key_name s =
     (case match_fold ''api'' s of
        Some r \<Rightarrow>
          match_fold ''key'' (if r \<noteq> [] \<and> hd r \<in> set ''_-'' then tl r else r)
      | None \<Rightarrow>
          (case List.find (\<lambda>name. match_fold name s \<noteq> None)
                  [''authorization'', ''bearer'', ''token'', ''secret'', ''password'', ''cookie''] of
             None \<Rightarrow> None
           | Some name \<Rightarrow> match_fold name s))"

definition separator_char :: "char \<Rightarrow> bool" where
  "separator_char c \<longleftrightarrow> regex_space c \<or> c \<in> {CHR 0x22, CHR 0x27, CHR '':'', CHR ''=''}"

definition value_char :: "char \<Rightarrow> bool" where
  "value_char c \<longleftrightarrow> \<not> regex_space c \<and> c \<notin> {CHR 0x22, CHR 0x27, CHR '','', CHR ''}''}"

text \<open>The separators as many as possible, so that a value of at least one byte is left.\<close>

definition separators :: "string \<Rightarrow> nat option" where
  "separators r =
     List.find (\<lambda>k. k < length r \<and> value_char (r ! k))
       (rev [1..<Suc (length (takeWhile separator_char r))])"

definition match_key_value :: matcher where
  "match_key_value prev s =
     (case match_key_name s of
        None \<Rightarrow> None
      | Some r \<Rightarrow>
          (case separators r of
             None \<Rightarrow> None
           | Some k \<Rightarrow>
               (let front = length s - length r + k;
                    n = length (takeWhile value_char (drop k r))
                in Some (front + n - 1, take front s @ ''[REDACTED]''))))"

definition redact_bearer_pattern :: "string \<Rightarrow> string" where
  "redact_bearer_pattern = scan_replace match_bearer None"

definition redact_openai_style_keys :: "string \<Rightarrow> string" where
  "redact_openai_style_keys = scan_replace match_openai_key None"

definition redact_key_value_pattern :: "string \<Rightarrow> string" where
  "redact_key_value_pattern = scan_replace match_key_value None"

type_synonym redactor = "string list"

definition new_redactor :: "string list \<Rightarrow> redactor" where
  "new_redactor secrets = filter (\<lambda>s. s \<noteq> '''') (map trim_space secrets)"

fun redact_secrets :: "redactor \<Rightarrow> string \<Rightarrow> string" where
  "redact_secrets [] v = v"
| "redact_secrets (secret # r) v =
     redact_secrets r (if 4 \<le> length secret then replace_all secret ''[REDACTED]'' v else v)"

definition redact_string :: "redactor \<Rightarrow> string \<Rightarrow> string" where
  "redact_string r v =
     redact_secrets r (redact_openai_style_keys (redact_key_value_pattern (redact_bearer_pattern v)))"

definition redact_key_markers :: "string list" where
  "redact_key_markers =
     [''api_key'', ''apikey'', ''authorization'', ''bearer'', ''token'', ''secret'', ''password'', ''cookie'']"

definition is_secret_key :: "string \<Rightarrow> bool" where
  "is_secret_key key = list_ex (contains (to_lower key)) redact_key_markers"

fun redact_fields :: "redactor \<Rightarrow> metadata \<Rightarrow> metadata"
and redact_field :: "redactor \<Rightarrow> goval \<Rightarrow> goval" where
  "redact_fields r [] = []"
| "redact_fields r ((key, v) # m) =
     (key, if is_secret_key key then VStr ''[REDACTED]'' else redact_field r v) # redact_fields r m"
| "redact_field r (VStr s) = VStr (redact_string r s)"
| "redact_field r (VMap m) = VMap (redact_fields r m)"
| "redact_field r v = v"

definition provider_error_for_status :: "int \<Rightarrow> string \<Rightarrow> redactor \<Rightarrow> provider_error" where
  "provider_error_for_status code message r =
     (let c = classify_http_status code in
      \<lparr>pve_class = c, pve_status_code = code, pve_retryable = is_retryable_error_class c,
       pve_message = redact_string r (trim_space message)\<rparr>)"

end
