(* ===== verification/Model_Usage.thy ===== *)
theory Model_Usage
  imports Provider_Errors
begin

text \<open>
  What the agent runtime notes about the model it uses: the prices (pricing.go), the usage tracker
  and the health it reports (usage.go), of agent-runtime/internal/modelprovider. What the code
  reaches through a pointer is a cell of the world \<open>'w\<close> the operations act on.
\<close>

section \<open>Shared cells\<close>

record ('a, 'w) cell =
  cel_get :: "'w \<Rightarrow> 'a"
  cel_put :: "'a \<Rightarrow> 'w \<Rightarrow> 'w"

definition cell_update :: "('a, 'w) cell \<Rightarrow> ('a \<Rightarrow> 'a) \<Rightarrow> 'w \<Rightarrow> 'w" where
  "cell_update c f w = cel_put c (f (cel_get c w)) w"

section \<open>Prices (pricing.go)\<close>

record pricing_config =
  prc_input :: rat
  prc_cached_input :: rat
  prc_output :: rat
  prc_reasoning_output :: rat
  prc_currency :: string

definition pricing_enabled :: "pricing_config \<Rightarrow> bool" where
  "pricing_enabled p \<longleftrightarrow>
     0 < prc_input p \<or> 0 < prc_cached_input p \<or> 0 < prc_output p \<or> 0 < prc_reasoning_output p"

definition pricing_currency :: "pricing_config \<Rightarrow> string" where
  "pricing_currency p = (if prc_currency p = '''' then ''USD'' else prc_currency p)"

text \<open>\<open>float64(n) * price / tokensPerMillion\<close>, rounded after every operation.\<close>

definition token_cost :: "(rat \<Rightarrow> rat) \<Rightarrow> int \<Rightarrow> rat \<Rightarrow> rat" where
  "token_cost rnd n price = rnd (rnd (rnd (of_int n) * price) / 1000000)"

definition pricing_apply :: "(rat \<Rightarrow> rat) \<Rightarrow> pricing_config \<Rightarrow> run_usage \<Rightarrow> run_usage" where
  "pricing_apply rnd p usage =
     (if \<not> pricing_enabled p \<or> 0 < usg_cost usage then normalize_run_usage usage
      else
        (let billable = max 0 (wrap64 (usg_input_tokens usage - usg_cached_tokens usage));
             split = 0 < prc_reasoning_output p \<and> 0 < usg_reasoning_tokens usage;
             reasoning = (if split then usg_reasoning_tokens usage else 0);
             visible = (if split
                        then max 0 (wrap64 (usg_output_tokens usage - usg_reasoning_tokens usage))
                        else usg_output_tokens usage)
         in normalize_run_usage (usage\<lparr>
              usg_cost := rnd (rnd (rnd (token_cost rnd billable (prc_input p) +
                token_cost rnd (usg_cached_tokens usage) (prc_cached_input p)) +
                token_cost rnd visible (prc_output p)) +
                token_cost rnd reasoning (prc_reasoning_output p)),
              usg_currency := (if usg_currency usage = '''' then pricing_currency p
                               else usg_currency usage)\<rparr>)))"

section \<open>Messages of a model\<close>

text \<open>The fields the code uses of the messages of the model client's library.\<close>

record token_usage =
  tku_prompt_tokens :: int
  tku_cached_tokens :: int
  tku_completion_tokens :: int
  tku_reasoning_tokens :: int
  tku_total_tokens :: int

record tool_call =
  tcl_id :: string
  tcl_type :: string
  tcl_name :: string
  tcl_arguments :: string

datatype chat_role = RoleSystem | RoleUser | RoleAssistant | RoleTool

record chat_msg =
  cms_role :: chat_role
  cms_content :: string
  cms_tool_calls :: "tool_call list"
  cms_usage :: "token_usage option"

definition user_msg :: "string \<Rightarrow> chat_msg" where
  "user_msg content =
     \<lparr>cms_role = RoleUser, cms_content = content, cms_tool_calls = [], cms_usage = None\<rparr>"

definition assistant_msg :: "string \<Rightarrow> tool_call list \<Rightarrow> chat_msg" where
  "assistant_msg content calls =
     \<lparr>cms_role = RoleAssistant, cms_content = content, cms_tool_calls = calls, cms_usage = None\<rparr>"

section \<open>The usage tracker (usage.go)\<close>

record usage_tracker =
  utr_provider :: string
  utr_model :: string
  utr_pricing :: pricing_config
  utr_usage :: run_usage
  utr_has_real :: bool
  utr_request_count :: int
  utr_success_count :: int
  utr_error_count :: int
  utr_last_error :: string
  utr_last_latency_ms :: int
  utr_last_success_at :: gtime
  utr_last_failure_at :: gtime
  utr_probe_enabled :: bool
  utr_probe_count :: int
  utr_probe_success :: int
  utr_probe_error :: int
  utr_probe_status :: string
  utr_last_probe_at :: gtime

definition new_usage_tracker_with_pricing :: "string \<Rightarrow> string \<Rightarrow> pricing_config \<Rightarrow> usage_tracker" where
  "new_usage_tracker_with_pricing provider model pricing =
     \<lparr>utr_provider = provider, utr_model = model, utr_pricing = pricing,
      utr_usage = zero_run_usage\<lparr>usg_provider := provider, usg_model := model\<rparr>,
      utr_has_real = False, utr_request_count = 0, utr_success_count = 0, utr_error_count = 0,
      utr_last_error = '''', utr_last_latency_ms = 0, utr_last_success_at = 0,
      utr_last_failure_at = 0, utr_probe_enabled = False, utr_probe_count = 0,
      utr_probe_success = 0, utr_probe_error = 0, utr_probe_status = '''', utr_last_probe_at = 0\<rparr>"

definition no_pricing :: pricing_config where
  "no_pricing =
     \<lparr>prc_input = 0, prc_cached_input = 0, prc_output = 0, prc_reasoning_output = 0,
      prc_currency = ''''\<rparr>"

definition new_usage_tracker :: "string \<Rightarrow> string \<Rightarrow> usage_tracker" where
  "new_usage_tracker provider model = new_usage_tracker_with_pricing provider model no_pricing"

definition observe_token_usage :: "token_usage option \<Rightarrow> usage_tracker \<Rightarrow> usage_tracker" where
  "observe_token_usage seen t =
     (case seen of
        None \<Rightarrow> t
      | Some k \<Rightarrow>
          (let u = utr_usage t in
           t\<lparr>utr_has_real := True,
             utr_usage := u\<lparr>usg_estimated := False,
               usg_input_tokens := wrap64 (usg_input_tokens u + tku_prompt_tokens k),
               usg_output_tokens := wrap64 (usg_output_tokens u + tku_completion_tokens k),
               usg_cached_tokens := wrap64 (usg_cached_tokens u + tku_cached_tokens k),
               usg_reasoning_tokens := wrap64 (usg_reasoning_tokens u + tku_reasoning_tokens k),
               usg_total_tokens := wrap64 (usg_total_tokens u +
                 (if 0 < tku_total_tokens k then tku_total_tokens k
                  else tku_prompt_tokens k + tku_completion_tokens k))\<rparr>\<rparr>))"

definition observe_message :: "chat_msg option \<Rightarrow> usage_tracker \<Rightarrow> usage_tracker" where
  "observe_message msg t =
     (case msg of None \<Rightarrow> t | Some m \<Rightarrow> observe_token_usage (cms_usage m) t)"

definition observe_latency :: "duration \<Rightarrow> usage_tracker \<Rightarrow> usage_tracker" where
  "observe_latency d t =
     t\<lparr>utr_usage := (utr_usage t)\<lparr>usg_latency_millis :=
         wrap64 (usg_latency_millis (utr_usage t) + milliseconds d)\<rparr>,
       utr_last_latency_ms := milliseconds d\<rparr>"

text \<open>The class and the message of an error, as \<open>ObserveCall\<close>, \<open>ObserveProbe\<close> and
  \<open>ObserveError\<close> note them; \<open>ClassifyProviderError\<close> of an error is never nil.\<close>

definition note_error :: "go_error \<Rightarrow> usage_tracker \<Rightarrow> usage_tracker" where
  "note_error err t =
     (let c = classify_provider_error err in
      t\<lparr>utr_usage := (utr_usage t)\<lparr>usg_error_class := error_class_text (pve_class c)\<rparr>,
        utr_last_error := pve_message c\<rparr>)"

definition observe_call :: "duration \<Rightarrow> go_error option \<Rightarrow> gtime \<Rightarrow> usage_tracker \<Rightarrow> usage_tracker" where
  "observe_call d err now t =
     (let t = observe_latency d (t\<lparr>utr_request_count := utr_request_count t + 1\<rparr>) in
      case err of
        None \<Rightarrow> t\<lparr>utr_success_count := utr_success_count t + 1, utr_last_success_at := now\<rparr>
      | Some e \<Rightarrow>
          note_error e (t\<lparr>utr_error_count := utr_error_count t + 1, utr_last_failure_at := now\<rparr>))"

definition tracker_mark_probe_enabled :: "usage_tracker \<Rightarrow> usage_tracker" where
  "tracker_mark_probe_enabled t = t\<lparr>utr_probe_enabled := True\<rparr>"

definition observe_probe :: "duration \<Rightarrow> go_error option \<Rightarrow> gtime \<Rightarrow> usage_tracker \<Rightarrow> usage_tracker" where
  "observe_probe d err now t =
     (let t = t\<lparr>utr_probe_enabled := True, utr_probe_count := utr_probe_count t + 1,
                utr_last_probe_at := now, utr_last_latency_ms := milliseconds d\<rparr> in
      case err of
        None \<Rightarrow> t\<lparr>utr_probe_success := utr_probe_success t + 1, utr_probe_status := ''healthy'',
                   utr_last_success_at := now\<rparr>
      | Some e \<Rightarrow>
          note_error e (t\<lparr>utr_probe_error := utr_probe_error t + 1,
            utr_probe_status := ''degraded'', utr_last_failure_at := now\<rparr>))"

definition observe_retry :: "usage_tracker \<Rightarrow> usage_tracker" where
  "observe_retry t =
     t\<lparr>utr_usage := (utr_usage t)\<lparr>usg_retry_count := usg_retry_count (utr_usage t) + 1\<rparr>\<rparr>"

definition observe_error :: "go_error option \<Rightarrow> usage_tracker \<Rightarrow> usage_tracker" where
  "observe_error err t = (case err of None \<Rightarrow> t | Some e \<Rightarrow> note_error e t)"

definition tracker_price_usage :: "(rat \<Rightarrow> rat) \<Rightarrow> usage_tracker \<Rightarrow> run_usage \<Rightarrow> run_usage" where
  "tracker_price_usage rnd t usage = pricing_apply rnd (utr_pricing t) usage"

definition tracker_usage_snapshot :: "(rat \<Rightarrow> rat) \<Rightarrow> usage_tracker \<Rightarrow> run_usage" where
  "tracker_usage_snapshot rnd t =
     (let u = utr_usage t;
          u = (if usg_provider u = '''' then u\<lparr>usg_provider := utr_provider t\<rparr> else u);
          u = (if usg_model u = '''' then u\<lparr>usg_model := utr_model t\<rparr> else u)
      in tracker_price_usage rnd t u)"

subsection \<open>Health\<close>

record target_health =
  tgh_name :: string
  tgh_status :: string
  tgh_probe_enabled :: bool
  tgh_probe_status :: string
  tgh_probe_count :: int
  tgh_probe_success :: int
  tgh_probe_error :: int
  tgh_last_probe_at :: string
  tgh_request_count :: int
  tgh_success_count :: int
  tgh_error_count :: int
  tgh_retry_count :: int
  tgh_last_error_class :: string
  tgh_last_error :: string
  tgh_last_latency_ms :: int
  tgh_last_success_at :: string
  tgh_last_failure_at :: string

record provider_health =
  prh_provider :: string
  prh_model :: string
  prh_target :: target_health
  prh_fallback_enabled :: bool
  prh_last_fallback :: bool
  prh_fallback_from :: string
  prh_fallback_to :: string
  prh_targets :: "target_health list"

text \<open>\<open>ModelProviderHealth\<close> repeats the fields of \<open>ModelProviderTargetHealth\<close>: here they are
  the field \<open>prh_target\<close>, whose name is not used.\<close>

definition empty_target_health :: target_health where
  "empty_target_health =
     \<lparr>tgh_name = '''', tgh_status = '''', tgh_probe_enabled = False, tgh_probe_status = '''',
      tgh_probe_count = 0, tgh_probe_success = 0, tgh_probe_error = 0, tgh_last_probe_at = '''',
      tgh_request_count = 0, tgh_success_count = 0, tgh_error_count = 0, tgh_retry_count = 0,
      tgh_last_error_class = '''', tgh_last_error = '''', tgh_last_latency_ms = 0,
      tgh_last_success_at = '''', tgh_last_failure_at = ''''\<rparr>"

text \<open>\<open>firstNonEmpty\<close> of this package skips blank values and trims the one it takes.\<close>

fun first_nonblank_trimmed :: "string list \<Rightarrow> string" where
  "first_nonblank_trimmed [] = ''''"
| "first_nonblank_trimmed (v # vs) = (if trim_space v \<noteq> '''' then trim_space v else first_nonblank_trimmed vs)"

text \<open>\<open>layout\<close> is the time layout RFC3339Nano.\<close>

definition format_health_time :: "(gtime \<Rightarrow> string) \<Rightarrow> gtime \<Rightarrow> string" where
  "format_health_time layout t = (if is_zero_time t then '''' else layout t)"

definition tracker_status :: "usage_tracker \<Rightarrow> string" where
  "tracker_status t =
     (let status = (if 0 < utr_request_count t then ''healthy'' else ''unknown'');
          status = (if utr_probe_enabled t \<and> utr_probe_status t \<noteq> '''' then utr_probe_status t
                    else status)
      in if \<not> is_zero_time (utr_last_failure_at t) \<and>
            (is_zero_time (utr_last_success_at t) \<or>
             after (utr_last_failure_at t) (utr_last_success_at t))
         then ''degraded'' else status)"

definition health_snapshot :: "(gtime \<Rightarrow> string) \<Rightarrow> usage_tracker \<Rightarrow> provider_health" where
  "health_snapshot layout t =
     \<lparr>prh_provider = first_nonblank_trimmed [usg_provider (utr_usage t), utr_provider t],
      prh_model = first_nonblank_trimmed [usg_model (utr_usage t), utr_model t],
      prh_target =
        \<lparr>tgh_name = '''', tgh_status = tracker_status t,
         tgh_probe_enabled = utr_probe_enabled t, tgh_probe_status = utr_probe_status t,
         tgh_probe_count = utr_probe_count t, tgh_probe_success = utr_probe_success t,
         tgh_probe_error = utr_probe_error t,
         tgh_last_probe_at = format_health_time layout (utr_last_probe_at t),
         tgh_request_count = utr_request_count t, tgh_success_count = utr_success_count t,
         tgh_error_count = utr_error_count t, tgh_retry_count = usg_retry_count (utr_usage t),
         tgh_last_error_class = usg_error_class (utr_usage t),
         tgh_last_error = utr_last_error t, tgh_last_latency_ms = utr_last_latency_ms t,
         tgh_last_success_at = format_health_time layout (utr_last_success_at t),
         tgh_last_failure_at = format_health_time layout (utr_last_failure_at t)\<rparr>,
      prh_fallback_enabled = False, prh_last_fallback = False, prh_fallback_from = '''',
      prh_fallback_to = '''', prh_targets = []\<rparr>"

definition health_target_snapshot :: "(gtime \<Rightarrow> string) \<Rightarrow> string \<Rightarrow> usage_tracker \<Rightarrow> target_health" where
  "health_target_snapshot layout name t =
     (let h = health_snapshot layout t in
      (prh_target h)\<lparr>tgh_name := first_nonblank_trimmed [name, prh_provider h, prh_model h]\<rparr>)"

end
