(* ===== verification/Model_Transport.thy ===== *)
theory Model_Transport
  imports Model_Usage
begin

text \<open>
  What stands between the agent runtime and a model's server: the transport that repeats
  requests (retry_transport.go) and the local rate limiter (rate_limiter.go) of
  agent-runtime/internal/modelprovider. The HTTP transport below, the clock, the timer and the
  arithmetic of float64 are parameters.
\<close>

section \<open>The transport that repeats requests (retry_transport.go)\<close>

record retry_policy =
  rpl_max_attempts :: int
  rpl_base_delay :: duration
  rpl_max_delay :: duration

definition default_retry_policy :: retry_policy where
  "default_retry_policy =
     \<lparr>rpl_max_attempts = 3, rpl_base_delay = time_second div 5, rpl_max_delay = 2 * time_second\<rparr>"

definition normalize_retry_policy :: "retry_policy \<Rightarrow> retry_policy" where
  "normalize_retry_policy p =
     \<lparr>rpl_max_attempts = (if rpl_max_attempts p \<le> 0 then rpl_max_attempts default_retry_policy
                          else rpl_max_attempts p),
      rpl_base_delay = (if rpl_base_delay p \<le> 0 then rpl_base_delay default_retry_policy
                        else rpl_base_delay p),
      rpl_max_delay = (if rpl_max_delay p \<le> 0 then rpl_max_delay default_retry_policy
                       else rpl_max_delay p)\<rparr>"

text \<open>A request is its head, which \<open>Clone\<close> copies, and its body: none, or what reading it gives.\<close>

record model_request =
  mrq_head :: string
  mrq_body :: "(go_error + string) option"

record model_response =
  mrs_status_code :: int
  mrs_status :: string
  mrs_retry_after :: string
  mrs_body :: string

text \<open>\<open>trp_to_int64\<close> is the conversion of a float64 to int64 and \<open>trp_round\<close> the rounding of
  float64; \<open>trp_wait\<close> is \<open>Sleep\<close>, or the timer and the context in its place.\<close>

record 'w transport =
  trp_base :: "model_request \<Rightarrow> 'w \<Rightarrow> (go_error + model_response) \<times> 'w"
  trp_ctx_err :: "'w \<Rightarrow> go_error option"
  trp_wait :: "duration \<Rightarrow> 'w \<Rightarrow> go_error option \<times> 'w"
  trp_now :: "'w \<Rightarrow> gtime"
  trp_parse_time :: "string \<Rightarrow> gtime option"
  trp_round :: "rat \<Rightarrow> rat"
  trp_to_int64 :: "rat \<Rightarrow> int"
  trp_tracker :: "(usage_tracker, 'w) cell"

definition snapshot_request_body :: "model_request \<Rightarrow> go_error + string option" where
  "snapshot_request_body req =
     (case mrq_body req of
        None \<Rightarrow> Inr None
      | Some (Inl err) \<Rightarrow> Inl err
      | Some (Inr body) \<Rightarrow> Inr (Some body))"

definition clone_request_with_body :: "model_request \<Rightarrow> string option \<Rightarrow> model_request" where
  "clone_request_with_body req body =
     (case body of None \<Rightarrow> req | Some b \<Rightarrow> req\<lparr>mrq_body := Some (Inr b)\<rparr>)"

definition response_snippet :: "model_response \<Rightarrow> string" where
  "response_snippet resp =
     (let message = trim_space (take 4096 (mrs_body resp))
      in if message = '''' then mrs_status resp else message)"

definition transport_error :: "redactor \<Rightarrow> go_error + model_response \<Rightarrow> provider_error option" where
  "transport_error r outcome =
     (case outcome of
        Inl err \<Rightarrow>
          (let c = classify_provider_error err
           in Some (c\<lparr>pve_message := redact_string r (pve_message c)\<rparr>))
      | Inr resp \<Rightarrow>
          if mrs_status_code resp < 400 then None
          else Some (provider_error_for_status (mrs_status_code resp) (response_snippet resp) r))"

definition retry_after_delay :: "'w transport \<Rightarrow> string \<Rightarrow> 'w \<Rightarrow> duration" where
  "retry_after_delay L value w =
     (let value = trim_space value;
          (seconds, ok) = parse_int64 value
      in if value = '''' then 0
         else if ok \<and> 0 < seconds then wrap64 (seconds * time_second)
         else case trp_parse_time L value of Some t \<Rightarrow> time_sub t (trp_now L w) | None \<Rightarrow> 0)"

definition backoff_delay :: "'w transport \<Rightarrow> retry_policy \<Rightarrow> nat \<Rightarrow> duration" where
  "backoff_delay L p attempt =
     trp_to_int64 L (trp_round L (trp_round L (of_int (rpl_base_delay p)) * 2 ^ (attempt - 1)))"

definition transport_retry_delay ::
    "'w transport \<Rightarrow> retry_policy \<Rightarrow> nat \<Rightarrow> go_error + model_response \<Rightarrow> 'w \<Rightarrow> duration" where
  "transport_retry_delay L p attempt outcome w =
     (let asked = (case outcome of Inl _ \<Rightarrow> 0 | Inr resp \<Rightarrow> retry_after_delay L (mrs_retry_after resp) w)
      in if 0 < asked then (if rpl_max_delay p < asked then rpl_max_delay p else asked)
         else
           (let delay = backoff_delay L p attempt
            in if rpl_max_delay p < delay then rpl_max_delay p else delay))"

definition transport_sleep :: "'w transport \<Rightarrow> duration \<Rightarrow> 'w \<Rightarrow> go_error option \<times> 'w" where
  "transport_sleep L d w = (if d \<le> 0 then (None, w) else trp_wait L d w)"

text \<open>The loop of \<open>RoundTrip\<close>: \<open>attempt\<close> counts from 1, \<open>left\<close> is \<open>MaxAttempts - attempt\<close>.\<close>

function retry_loop :: "'w transport \<Rightarrow> redactor \<Rightarrow> retry_policy \<Rightarrow> model_request \<Rightarrow> string option \<Rightarrow>
    nat \<Rightarrow> nat \<Rightarrow> 'w \<Rightarrow> (go_error + model_response) \<times> 'w" where
  "retry_loop L r p req body attempt left w =
     (case trp_base L (clone_request_with_body req body) w of (outcome, w1) \<Rightarrow>
        (case transport_error r outcome of
           None \<Rightarrow> (outcome, w1)
         | Some e \<Rightarrow>
             if \<not> pve_retryable e \<or> left = 0 \<or> trp_ctx_err L w1 \<noteq> None
             then (Inl (ProviderFailure e), w1)
             else
               (let w2 = cell_update (trp_tracker L) observe_retry w1 in
                case transport_sleep L (transport_retry_delay L p attempt outcome w2) w2 of
                  (Some err, w3) \<Rightarrow> (Inl err, w3)
                | (None, w3) \<Rightarrow> retry_loop L r p req body (attempt + 1) (left - 1) w3)))"
  by pat_completeness auto
termination
  by (relation "measure (\<lambda>(L, r, p, req, body, attempt, left, w). left)") auto

declare retry_loop.simps [simp del]

definition retry_round_trip :: "'w transport \<Rightarrow> redactor \<Rightarrow> retry_policy \<Rightarrow> model_request \<Rightarrow> 'w \<Rightarrow>
    (go_error + model_response) \<times> 'w" where
  "retry_round_trip L r p req w =
     (let p = normalize_retry_policy p in
      case snapshot_request_body req of
        Inl err \<Rightarrow> (Inl err, w)
      | Inr body \<Rightarrow> retry_loop L r p req body 1 (nat (rpl_max_attempts p) - 1) w)"

section \<open>The local rate limiter (rate_limiter.go)\<close>

record rate_limit_config =
  rlc_requests_per_minute :: int
  rlc_max_concurrent :: int

definition rate_limit_enabled :: "rate_limit_config \<Rightarrow> bool" where
  "rate_limit_enabled c \<longleftrightarrow> 0 < rlc_requests_per_minute c \<or> 0 < rlc_max_concurrent c"

text \<open>\<open>lrl_slots\<close> is the capacity of the channel, if there is one, and \<open>lrl_held\<close> what it holds.\<close>

record rate_limiter =
  lrl_requests_per_minute :: int
  lrl_slots :: "nat option"
  lrl_held :: nat
  lrl_window_start :: gtime
  lrl_window_used :: int

definition new_local_rate_limiter :: "rate_limit_config \<Rightarrow> rate_limiter option" where
  "new_local_rate_limiter c =
     (if \<not> rate_limit_enabled c then None
      else Some \<lparr>lrl_requests_per_minute = rlc_requests_per_minute c,
                 lrl_slots = (if 0 < rlc_max_concurrent c then Some (nat (rlc_max_concurrent c)) else None),
                 lrl_held = 0, lrl_window_start = 0, lrl_window_used = 0\<rparr>)"

definition reserve_request :: "gtime \<Rightarrow> rate_limiter \<Rightarrow> go_error option \<times> rate_limiter" where
  "reserve_request now l =
     (let l = (if is_zero_time (lrl_window_start l) \<or> time_minute \<le> time_sub now (lrl_window_start l)
               then l\<lparr>lrl_window_start := now, lrl_window_used := 0\<rparr> else l)
      in if lrl_requests_per_minute l \<le> lrl_window_used l
         then (Some (ProviderFailure
                 \<lparr>pve_class = ErrorClassRateLimited, pve_status_code = 0, pve_retryable = True,
                  pve_message = ''local model provider request rate limit exceeded''\<rparr>), l)
         else (None, l\<lparr>lrl_window_used := lrl_window_used l + 1\<rparr>))"

text \<open>A send to the channel proceeds while it is not full (\<open>slot_free\<close>); the receive of a
  release finds the channel empty only when nothing was acquired.\<close>

definition slot_free :: "rate_limiter \<Rightarrow> bool" where
  "slot_free l = (case lrl_slots l of None \<Rightarrow> True | Some n \<Rightarrow> lrl_held l < n)"

definition take_slot :: "rate_limiter \<Rightarrow> rate_limiter" where
  "take_slot l = (case lrl_slots l of None \<Rightarrow> l | Some n \<Rightarrow> l\<lparr>lrl_held := lrl_held l + 1\<rparr>)"

definition release_slot :: "rate_limiter \<Rightarrow> rate_limiter" where
  "release_slot l = (case lrl_slots l of None \<Rightarrow> l | Some n \<Rightarrow> l\<lparr>lrl_held := lrl_held l - 1\<rparr>)"

text \<open>
  \<open>Acquire\<close>, from the moment its select proceeds: with the error of the context (\<open>stop\<close>), or with a
  slot, which it can take only while one is free.
\<close>

definition limiter_acquire :: "go_error option \<Rightarrow> gtime \<Rightarrow> rate_limiter \<Rightarrow>
    go_error option \<times> rate_limiter" where
  "limiter_acquire stop now l =
     (if lrl_slots l \<noteq> None \<and> stop \<noteq> None then (stop, l)
      else
        (let l = take_slot l in
         if lrl_requests_per_minute l \<le> 0 then (None, l)
         else (case reserve_request now l of
             (Some err, l) \<Rightarrow> (Some err, release_slot l)
           | (None, l) \<Rightarrow> (None, l))))"

end
