(* ===== verification/Model_Provider.thy ===== *)
theory Model_Provider
  imports Model_Transport
begin

text \<open>
  The models the agent runtime calls, of agent-runtime/internal/modelprovider: the operational
  model around a client (operational_model.go), the fallback model (fallback_model.go), the probe
  of a model (health_probe.go), the construction of the client's model
  (openai_compatible_provider.go) and the mock (mock_provider.go). The client itself is a
  parameter. The copies \<open>WithTools\<close> makes share the cells of the original, as the pointers in
  the code do. Spans, logs and metrics are left out.
\<close>

section \<open>Chat models\<close>

text \<open>
  The interface of the model client's library, and the interfaces of this package a model may
  also implement. \<open>WithTools\<close> gives another model, which may do so again, so that a model is a
  codatatype. A stream is a value of the parameter \<open>'r\<close>. A message is an option, since the pointer to it may be nil; a tool
  info is the name it carries.
\<close>

codatatype ('r, 'w) chat_model = ChatModel
  (chm_generate: "chat_msg option list \<Rightarrow> 'w \<Rightarrow> (go_error + chat_msg option) \<times> 'w")
  (chm_stream: "chat_msg option list \<Rightarrow> 'w \<Rightarrow> (go_error + 'r) \<times> 'w")
  (chm_with_tools: "string option list \<Rightarrow> go_error + ('r, 'w) chat_model")
  (chm_probe: "('w \<Rightarrow> go_error option \<times> 'w) option")
  (chm_mark_probe: "('w \<Rightarrow> 'w) option")
  (chm_usage: "('w \<Rightarrow> run_usage) option")
  (chm_price: "('w \<Rightarrow> run_usage \<Rightarrow> run_usage) option")
  (chm_health: "('w \<Rightarrow> provider_health) option")

definition health_question :: "chat_msg option list" where
  "health_question = [Some (user_msg ''health check: reply with ok'')]"

text \<open>\<open>ProbeModel\<close> of health_probe.go; a missing model is \<open>None\<close>.\<close>

definition probe_model :: "('r, 'w) chat_model option \<Rightarrow> 'w \<Rightarrow> go_error option \<times> 'w" where
  "probe_model model w =
     (case model of
        None \<Rightarrow> (Some (PlainError ''model health probe requires a model''), w)
      | Some k \<Rightarrow>
          (case chm_probe k of
             Some probe \<Rightarrow> probe w
           | None \<Rightarrow>
               (case chm_generate k health_question w of
                  (Inl err, w1) \<Rightarrow> (Some err, w1)
                | (Inr _, w1) \<Rightarrow> (None, w1))))"

section \<open>The operational model (operational_model.go)\<close>

text \<open>
  What a call finds around it: the clock, what the others do to the world until the select of
  \<open>Acquire\<close> proceeds, and the branch that select takes.
\<close>

record 'w surroundings =
  srn_clock :: "'w \<Rightarrow> gtime"
  srn_await :: "'w \<Rightarrow> 'w"
  srn_stop :: "'w \<Rightarrow> go_error option"

record 'w operational_model =
  opm_tracker :: "(usage_tracker, 'w) cell"
  opm_redactor :: redactor
  opm_limiter :: "(rate_limiter, 'w) cell option"

definition redact_error :: "redactor \<Rightarrow> go_error \<Rightarrow> go_error" where
  "redact_error r err =
     (case as_provider_error (error_chain err) of
        Some p \<Rightarrow> ProviderFailure (p\<lparr>pve_message := redact_string r (pve_message p)\<rparr>)
      | None \<Rightarrow> PlainError (redact_string r (error_text err)))"

definition operational_acquire :: "'w surroundings \<Rightarrow> 'w operational_model \<Rightarrow> 'w \<Rightarrow> go_error option \<times> 'w" where
  "operational_acquire E m w =
     (case opm_limiter m of
        None \<Rightarrow> (None, w)
      | Some c \<Rightarrow>
          (let w = srn_await E w;
               (err, l) = limiter_acquire (srn_stop E w) (srn_clock E w) (cel_get c w)
           in (err, cel_put c l w)))"

definition operational_release :: "'w operational_model \<Rightarrow> 'w \<Rightarrow> 'w" where
  "operational_release m w =
     (case opm_limiter m of None \<Rightarrow> w | Some c \<Rightarrow> cell_update c release_slot w)"

definition note_call :: "'w surroundings \<Rightarrow> 'w operational_model \<Rightarrow> gtime \<Rightarrow> go_error option \<Rightarrow> 'w \<Rightarrow> 'w" where
  "note_call E m start err w =
     cell_update (opm_tracker m)
       (observe_call (time_sub (srn_clock E w) start) err (srn_clock E w)) w"

text \<open>\<open>Generate\<close> and \<open>Stream\<close> differ in the call they make and in what they note of its result.\<close>

definition operational_call :: "'w surroundings \<Rightarrow> 'w operational_model \<Rightarrow>
    ('w \<Rightarrow> (go_error + 'a) \<times> 'w) \<Rightarrow> ('a \<Rightarrow> usage_tracker \<Rightarrow> usage_tracker) \<Rightarrow> 'w \<Rightarrow>
    (go_error + 'a) \<times> 'w" where
  "operational_call E m call observe w =
     (let start = srn_clock E w in
      case operational_acquire E m w of
        (Some err, w1) \<Rightarrow> (Inl (redact_error (opm_redactor m) err), note_call E m start (Some err) w1)
      | (None, w1) \<Rightarrow>
          (case call w1 of
             (Inl err, w2) \<Rightarrow>
               (Inl (redact_error (opm_redactor m) err),
                operational_release m (note_call E m start (Some err) w2))
           | (Inr x, w2) \<Rightarrow>
               (Inr x, operational_release m
                  (cell_update (opm_tracker m) (observe x) (note_call E m start None w2)))))"

definition operational_generate :: "'w surroundings \<Rightarrow> 'w operational_model \<Rightarrow> ('r, 'w) chat_model \<Rightarrow>
    chat_msg option list \<Rightarrow> 'w \<Rightarrow> (go_error + chat_msg option) \<times> 'w" where
  "operational_generate E m inner input =
     operational_call E m (chm_generate inner input) observe_message"

definition operational_stream :: "'w surroundings \<Rightarrow> 'w operational_model \<Rightarrow> ('r, 'w) chat_model \<Rightarrow>
    chat_msg option list \<Rightarrow> 'w \<Rightarrow> (go_error + 'r) \<times> 'w" where
  "operational_stream E m inner input = operational_call E m (chm_stream inner input) (\<lambda>_ t. t)"

definition note_probe :: "'w surroundings \<Rightarrow> 'w operational_model \<Rightarrow> gtime \<Rightarrow> go_error option \<Rightarrow> 'w \<Rightarrow> 'w" where
  "note_probe E m start err w =
     cell_update (opm_tracker m)
       (observe_probe (time_sub (srn_clock E w) start) err (srn_clock E w)) w"

definition operational_probe :: "'w surroundings \<Rightarrow> 'w operational_model \<Rightarrow> ('r, 'w) chat_model \<Rightarrow>
    'w \<Rightarrow> go_error option \<times> 'w" where
  "operational_probe E m inner w =
     (let start = srn_clock E w in
      case operational_acquire E m w of
        (Some err, w1) \<Rightarrow>
          (let err = Some (redact_error (opm_redactor m) err) in (err, note_probe E m start err w1))
      | (None, w1) \<Rightarrow>
          (case chm_generate inner health_question w1 of
             (Inl err, w2) \<Rightarrow>
               (let err = Some (redact_error (opm_redactor m) err)
                in (err, operational_release m (note_probe E m start err w2)))
           | (Inr _, w2) \<Rightarrow> (None, operational_release m (note_probe E m start None w2))))"

primcorec operational_chat :: "'w surroundings \<Rightarrow> (rat \<Rightarrow> rat) \<Rightarrow> (gtime \<Rightarrow> string) \<Rightarrow>
    'w operational_model \<Rightarrow> ('r, 'w) chat_model \<Rightarrow> ('r, 'w) chat_model" where
  "operational_chat E rnd layout m inner =
     ChatModel (operational_generate E m inner) (operational_stream E m inner)
       (\<lambda>tools. map_sum id (operational_chat E rnd layout m)
          (map_sum (redact_error (opm_redactor m)) id (chm_with_tools inner tools)))
       (Some (operational_probe E m inner))
       (Some (cell_update (opm_tracker m) tracker_mark_probe_enabled))
       (Some (\<lambda>w. tracker_usage_snapshot rnd (cel_get (opm_tracker m) w)))
       (Some (\<lambda>w. tracker_price_usage rnd (cel_get (opm_tracker m) w)))
       (Some (\<lambda>w. health_snapshot layout (cel_get (opm_tracker m) w)))"

section \<open>The fallback model (fallback_model.go)\<close>

record fallback_state =
  fbs_last_fallback :: bool
  fbs_last_error :: string

record 'w fallback_model =
  fbm_primary_name :: string
  fbm_fallback_name :: string
  fbm_fallback_on :: "error_class \<rightharpoonup> bool"
  fbm_state :: "(fallback_state, 'w) cell"

definition default_fallback_classes :: "error_class \<rightharpoonup> bool" where
  "default_fallback_classes =
     [ErrorClassRateLimited \<mapsto> True, ErrorClassProviderUnavailable \<mapsto> True,
      ErrorClassNetworkError \<mapsto> True]"

definition new_fallback_chat_model :: "string \<Rightarrow> string \<Rightarrow> (fallback_state, 'w) cell \<Rightarrow> 'w fallback_model" where
  "new_fallback_chat_model primary fallback state =
     \<lparr>fbm_primary_name = primary, fbm_fallback_name = fallback,
      fbm_fallback_on = default_fallback_classes, fbm_state = state\<rparr>"

definition should_fallback :: "'w fallback_model \<Rightarrow> ('r, 'w) chat_model option \<Rightarrow> go_error \<Rightarrow> bool" where
  "should_fallback m fallback err =
     (if fallback = None then False
      else
        (let c = classify_provider_error err in
         if \<not> pve_retryable c then False
         else map_get False
           (if fbm_fallback_on m = Map.empty then default_fallback_classes else fbm_fallback_on m)
           (pve_class c)))"

definition fallback_record :: "'w fallback_model \<Rightarrow> bool \<Rightarrow> go_error option \<Rightarrow> 'w \<Rightarrow> 'w" where
  "fallback_record m used err =
     cel_put (fbm_state m)
       \<lparr>fbs_last_fallback = used,
        fbs_last_error = (case err of None \<Rightarrow> ''''
          | Some e \<Rightarrow> error_class_text (pve_class (classify_provider_error e)))\<rparr>"

text \<open>\<open>Generate\<close> and \<open>Stream\<close>, over the call they make on either model.\<close>

definition fallback_call :: "'w fallback_model \<Rightarrow> ('r, 'w) chat_model \<Rightarrow> ('r, 'w) chat_model option \<Rightarrow>
    (('r, 'w) chat_model \<Rightarrow> 'w \<Rightarrow> (go_error + 'a) \<times> 'w) \<Rightarrow> 'w \<Rightarrow> (go_error + 'a) \<times> 'w" where
  "fallback_call m primary fallback call w =
     (case call primary w of
        (Inr x, w1) \<Rightarrow> (Inr x, fallback_record m False None w1)
      | (Inl err, w1) \<Rightarrow>
          if \<not> should_fallback m fallback err then (Inl err, fallback_record m False None w1)
          else
            (case call (the fallback) w1 of
               (Inl ferr, w2) \<Rightarrow> (Inl (JoinError [err, ferr]), w2)
             | (Inr x, w2) \<Rightarrow> (Inr x, fallback_record m True (Some err) w2)))"

definition fallback_generate :: "'w fallback_model \<Rightarrow> ('r, 'w) chat_model \<Rightarrow> ('r, 'w) chat_model option \<Rightarrow>
    chat_msg option list \<Rightarrow> 'w \<Rightarrow> (go_error + chat_msg option) \<times> 'w" where
  "fallback_generate m primary fallback input =
     fallback_call m primary fallback (\<lambda>k. chm_generate k input)"

definition fallback_stream :: "'w fallback_model \<Rightarrow> ('r, 'w) chat_model \<Rightarrow> ('r, 'w) chat_model option \<Rightarrow>
    chat_msg option list \<Rightarrow> 'w \<Rightarrow> (go_error + 'r) \<times> 'w" where
  "fallback_stream m primary fallback input =
     fallback_call m primary fallback (\<lambda>k. chm_stream k input)"

definition fallback_with_tools :: "('r, 'w) chat_model \<Rightarrow> ('r, 'w) chat_model \<Rightarrow> string option list \<Rightarrow>
    go_error + ('r, 'w) chat_model \<times> ('r, 'w) chat_model" where
  "fallback_with_tools primary fallback tools =
     (case chm_with_tools primary tools of
        Inl err \<Rightarrow> Inl err
      | Inr p \<Rightarrow>
          (case chm_with_tools fallback tools of Inl err \<Rightarrow> Inl err | Inr f \<Rightarrow> Inr (p, f)))"

definition fallback_probe :: "('r, 'w) chat_model option \<Rightarrow> ('r, 'w) chat_model option \<Rightarrow> 'w \<Rightarrow>
    go_error option \<times> 'w" where
  "fallback_probe primary fallback w =
     (case probe_model primary w of (e1, w1) \<Rightarrow>
        (case (if fallback = None then (None, w1) else probe_model fallback w1) of (e2, w2) \<Rightarrow>
           (let errs = (case e1 of None \<Rightarrow> [] | Some e \<Rightarrow> [e]) @ (case e2 of None \<Rightarrow> [] | Some e \<Rightarrow> [e])
            in (if errs = [] then None else Some (JoinError errs), w2))))"

definition mark_probe :: "('r, 'w) chat_model \<Rightarrow> 'w \<Rightarrow> 'w" where
  "mark_probe model w = (case chm_mark_probe model of None \<Rightarrow> w | Some mark \<Rightarrow> mark w)"

definition usage_snapshot :: "('r, 'w) chat_model \<Rightarrow> 'w \<Rightarrow> run_usage" where
  "usage_snapshot model w = (case chm_usage model of None \<Rightarrow> zero_run_usage | Some u \<Rightarrow> u w)"

definition fallback_usage_snapshot :: "'w fallback_model \<Rightarrow> ('r, 'w) chat_model \<Rightarrow> ('r, 'w) chat_model \<Rightarrow>
    'w \<Rightarrow> run_usage" where
  "fallback_usage_snapshot m primary fallback w =
     (let state = cel_get (fbm_state m) w in
      if fbs_last_fallback state then
        (let u = usage_snapshot fallback w;
             n = fbm_fallback_name m
         in normalize_run_usage (u\<lparr>
              usg_provider := first_nonblank_trimmed [usg_provider u, n],
              usg_model := first_nonblank_trimmed [usg_model u, n],
              usg_fallback_from := first_nonblank_trimmed [usg_fallback_from u, fbm_primary_name m],
              usg_fallback_to := first_nonblank_trimmed [usg_fallback_to u, n],
              usg_error_class := (if usg_error_class u = '''' \<and> fbs_last_error state \<noteq> ''''
                                  then fbs_last_error state else usg_error_class u),
              usg_retry_count := wrap64 (usg_retry_count u + usg_retry_count (usage_snapshot primary w))\<rparr>))
      else
        (let u = usage_snapshot primary w
         in normalize_run_usage (u\<lparr>
              usg_provider := first_nonblank_trimmed [usg_provider u, fbm_primary_name m],
              usg_model := first_nonblank_trimmed [usg_model u, fbm_primary_name m]\<rparr>)))"

definition fallback_price_usage :: "'w fallback_model \<Rightarrow> ('r, 'w) chat_model \<Rightarrow> ('r, 'w) chat_model \<Rightarrow>
    'w \<Rightarrow> run_usage \<Rightarrow> run_usage" where
  "fallback_price_usage m primary fallback w usage =
     (case chm_price (if fbs_last_fallback (cel_get (fbm_state m) w) then fallback else primary) of
        None \<Rightarrow> normalize_run_usage usage
      | Some price \<Rightarrow> price w usage)"

definition target_health_of :: "string \<Rightarrow> ('r, 'w) chat_model \<Rightarrow> 'w \<Rightarrow> target_health" where
  "target_health_of name model w =
     (case chm_health model of
        None \<Rightarrow> empty_target_health\<lparr>tgh_name := name, tgh_status := ''unknown''\<rparr>
      | Some report \<Rightarrow>
          (let h = report w in
           (prh_target h)\<lparr>tgh_name := first_nonblank_trimmed [name, prh_provider h, prh_model h]\<rparr>))"

definition fallback_health :: "'w fallback_model \<Rightarrow> ('r, 'w) chat_model \<Rightarrow> ('r, 'w) chat_model \<Rightarrow>
    'w \<Rightarrow> provider_health" where
  "fallback_health m primary fallback w =
     (let state = cel_get (fbm_state m) w;
          p = target_health_of (fbm_primary_name m) primary w;
          f = target_health_of (fbm_fallback_name m) fallback w;
          status = (if tgh_status p = '''' then ''unknown'' else tgh_status p);
          status = (if status = ''healthy'' \<and> tgh_status f = ''degraded'' then ''degraded'' else status);
          status = (if fbs_last_fallback state \<and> tgh_status f = ''healthy'' then ''degraded'' else status)
      in \<lparr>prh_provider = fbm_primary_name m, prh_model = fbm_primary_name m,
          prh_target = empty_target_health\<lparr>tgh_status := status,
            tgh_last_error_class := fbs_last_error state\<rparr>,
          prh_fallback_enabled = True, prh_last_fallback = fbs_last_fallback state,
          prh_fallback_from = (if fbs_last_fallback state then fbm_primary_name m else ''''),
          prh_fallback_to = (if fbs_last_fallback state then fbm_fallback_name m else ''''),
          prh_targets = [p, f]\<rparr>)"

primcorec fallback_chat :: "'w fallback_model \<Rightarrow> ('r, 'w) chat_model \<Rightarrow> ('r, 'w) chat_model \<Rightarrow>
    ('r, 'w) chat_model" where
  "fallback_chat m primary fallback =
     ChatModel (fallback_generate m primary (Some fallback)) (fallback_stream m primary (Some fallback))
       (\<lambda>tools. map_sum id (\<lambda>k. fallback_chat m (fst k) (snd k))
          (fallback_with_tools primary fallback tools))
       (Some (fallback_probe (Some primary) (Some fallback)))
       (Some (\<lambda>w. mark_probe fallback (mark_probe primary w)))
       (Some (fallback_usage_snapshot m primary fallback))
       (Some (fallback_price_usage m primary fallback))
       (Some (fallback_health m primary fallback))"

section \<open>The client and its configuration (openai_compatible_provider.go)\<close>

record provider_config =
  pcf_id :: string
  pcf_base_url :: string
  pcf_api_key :: string
  pcf_model :: string
  pcf_retry_policy :: retry_policy
  pcf_pricing :: pricing_config
  pcf_rate_limit :: rate_limit_config

text \<open>What \<open>url.Parse\<close> finds in a URL: scheme, host and escaped path.\<close>

type_synonym parsed_url = "string \<times> string \<times> string"

definition validate_provider_config :: "(string \<Rightarrow> parsed_url option) \<Rightarrow> (string \<Rightarrow> string) \<Rightarrow>
    provider_config \<Rightarrow> string option" where
  "validate_provider_config parse quote c =
     (let base = trim_right_slash (trim_space (pcf_base_url c)) in
      if base = '''' then Some ''MODEL_BASE_URL is required when MODEL_PROVIDER=openai-compatible''
      else
        (case parse base of
           None \<Rightarrow> Some (''MODEL_BASE_URL must be an absolute http(s) URL, got '' @ quote base)
         | Some (scheme, host, path) \<Rightarrow>
             if scheme = '''' \<or> host = ''''
             then Some (''MODEL_BASE_URL must be an absolute http(s) URL, got '' @ quote base)
             else if scheme \<noteq> ''http'' \<and> scheme \<noteq> ''https''
             then Some (''MODEL_BASE_URL must use http or https, got '' @ quote scheme)
             else
               (let path = trim_right_slash (to_lower path) in
                if has_suffix path ''/chat/completions'' \<or> has_suffix path ''/completions''
                then Some ''MODEL_BASE_URL must be the provider root URL and must not include /chat/completions''
                else if pcf_api_key c = ''''
                then Some ''MODEL_API_KEY is required when MODEL_PROVIDER=openai-compatible''
                else if pcf_model c = ''''
                then Some ''MODEL_NAME is required when MODEL_PROVIDER=openai-compatible''
                else None)))"

definition clean_provider_config :: "provider_config \<Rightarrow> provider_config" where
  "clean_provider_config c =
     c\<lparr>pcf_id := (if pcf_id c = '''' then ''openai-compatible'' else pcf_id c),
       pcf_base_url := trim_right_slash (trim_space (pcf_base_url c)),
       pcf_api_key := trim_space (pcf_api_key c), pcf_model := trim_space (pcf_model c)\<rparr>"

text \<open>
  \<open>NewOpenAICompatibleChatModel\<close>. The client of the library gets an HTTP client whose transport
  is the retry transport; \<open>client\<close> is its constructor. The cells are those of the tracker and the
  limiter it allocates; \<open>start\<close> is the world with both in their first state.
\<close>

definition new_openai_compatible_chat_model ::
    "(string \<Rightarrow> parsed_url option) \<Rightarrow> (string \<Rightarrow> string) \<Rightarrow>
     (provider_config \<Rightarrow> (model_request \<Rightarrow> 'w \<Rightarrow> (go_error + model_response) \<times> 'w) \<Rightarrow>
       go_error + ('r, 'w) chat_model) \<Rightarrow>
     'w surroundings \<Rightarrow> (rat \<Rightarrow> rat) \<Rightarrow> (gtime \<Rightarrow> string) \<Rightarrow> 'w transport \<Rightarrow> (rate_limiter, 'w) cell \<Rightarrow>
     provider_config \<Rightarrow> 'w \<Rightarrow> (go_error + ('r, 'w) chat_model) \<times> 'w" where
  "new_openai_compatible_chat_model parse quote client E rnd layout L limiter c w =
     (let c = clean_provider_config c in
      case validate_provider_config parse quote c of
        Some msg \<Rightarrow> (Inl (PlainError msg), w)
      | None \<Rightarrow>
          (let r = new_redactor [pcf_api_key c];
               w = cel_put (trp_tracker L)
                     (new_usage_tracker_with_pricing (pcf_id c) (pcf_model c) (pcf_pricing c)) w
           in case client c (retry_round_trip L r (pcf_retry_policy c)) of
                Inl err \<Rightarrow> (Inl err, w)
              | Inr inner \<Rightarrow>
                  (case new_local_rate_limiter (pcf_rate_limit c) of
                     None \<Rightarrow>
                       (Inr (operational_chat E rnd layout
                          \<lparr>opm_tracker = trp_tracker L, opm_redactor = r, opm_limiter = None\<rparr> inner), w)
                   | Some l \<Rightarrow>
                       (Inr (operational_chat E rnd layout
                          \<lparr>opm_tracker = trp_tracker L, opm_redactor = r, opm_limiter = Some limiter\<rparr> inner),
                        cel_put limiter l w))))"

section \<open>The mock (mock_provider.go)\<close>

record mock_model =
  mkm_response :: string
  mkm_tool_calls :: "tool_call list"
  mkm_usage :: "token_usage option"

fun latest_observation :: "chat_msg option list \<Rightarrow> string option" where
  "latest_observation [] = None"
| "latest_observation (m # ms) =
     (case latest_observation ms of
        Some content \<Rightarrow> Some content
      | None \<Rightarrow>
          (case m of
             Some k \<Rightarrow> if cms_role k = RoleTool then Some (cms_content k) else None
           | None \<Rightarrow> None))"

definition has_assistant_tool_call :: "chat_msg option list \<Rightarrow> bool" where
  "has_assistant_tool_call ms =
     list_ex (\<lambda>m. case m of None \<Rightarrow> False
       | Some k \<Rightarrow> cms_role k = RoleAssistant \<and> cms_tool_calls k \<noteq> []) ms"

text \<open>The answers the mock gives, in the bytes of their Chinese text.\<close>

definition mock_answer :: string where
  "mock_answer =
     bytes [230, 136, 145, 229, 183, 178, 231, 187, 143, 230, 142, 165, 230, 148, 182, 229,
      136, 176, 228, 187, 187, 229, 138, 161, 239, 188, 140, 229, 185, 182, 228, 188, 154,
      228, 187, 165, 232, 191, 156, 231, 171, 175, 32, 97, 103, 101, 110, 116, 32, 231, 154,
      132, 230, 150, 185, 229, 188, 143, 229, 164, 132, 231, 144, 134, 227, 128, 130, 10, 10,
      229, 189, 147, 229, 137, 141, 229, 174, 158, 231, 142, 176, 228, 188, 154, 230, 138,
      138, 228, 188, 154, 232, 175, 157, 231, 138, 182, 230, 128, 129, 228, 191, 157, 229,
      173, 152, 229, 156, 168, 32, 67, 111, 110, 116, 114, 111, 108, 32, 80, 108, 97, 110,
      101, 239, 188, 140, 231, 148, 177, 231, 139, 172, 231, 171, 139, 32, 82, 117, 110, 116,
      105, 109, 101, 32, 230, 137, 167, 232, 161, 140, 230, 156, 172, 230, 172, 161, 232, 175,
      183, 230, 177, 130, 239, 188, 140, 229, 185, 182, 229, 156, 168, 229, 155, 158, 229,
      164, 141, 228, 184, 173, 229, 174, 158, 230, 151, 182, 230, 155, 180, 230, 150, 176,
      229, 189, 147, 229, 137, 141, 231, 138, 182, 230, 128, 129, 227, 128, 130]"

definition cut_note :: string where
  "cut_note =
     bytes [229, 183, 178, 230, 136, 170, 230, 150, 173]"

definition nothing_to_show :: string where
  "nothing_to_show =
     bytes [232, 131, 189, 229, 138, 155, 232, 176, 131, 231, 148, 168, 229, 174, 140, 230,
      136, 144, 239, 188, 140, 228, 189, 134, 230, 178, 161, 230, 156, 137, 232, 191, 148,
      229, 155, 158, 229, 143, 175, 229, 177, 149, 231, 164, 186, 229, 134, 133, 229, 174,
      185, 227, 128, 130]"

definition observation_intro :: string where
  "observation_intro =
     bytes [230, 136, 145, 229, 183, 178, 231, 187, 143, 232, 176, 131, 231, 148, 168, 231,
      155, 184, 229, 133, 179, 232, 131, 189, 229, 138, 155, 229, 185, 182, 232, 142, 183,
      229, 190, 151, 231, 187, 147, 230, 158, 156, 239, 188, 154]"

definition cut_observation :: "string \<Rightarrow> string" where
  "cut_observation content =
     (let content = trim_space content;
          content = (if 2000 < length content
                     then take 2000 content @ CHR 0x0A # ''...['' @ cut_note @ '']'' else content);
          content = (if content = '''' then nothing_to_show else content)
      in observation_intro @ CHR 0x0A # content)"

definition mock_with_usage :: "mock_model \<Rightarrow> chat_msg \<Rightarrow> chat_msg" where
  "mock_with_usage m msg =
     (case mkm_usage m of None \<Rightarrow> msg | Some u \<Rightarrow> msg\<lparr>cms_usage := Some u\<rparr>)"

definition mock_generate :: "('w \<Rightarrow> go_error option) \<Rightarrow> mock_model \<Rightarrow> chat_msg option list \<Rightarrow> 'w \<Rightarrow>
    (go_error + chat_msg option) \<times> 'w" where
  "mock_generate ctx m input w =
     (case ctx w of
        Some err \<Rightarrow> (Inl err, w)
      | None \<Rightarrow>
          (Inr (Some (mock_with_usage m
             (case latest_observation input of
                Some content \<Rightarrow> assistant_msg (cut_observation content) []
              | None \<Rightarrow>
                  if mkm_tool_calls m \<noteq> [] \<and> \<not> has_assistant_tool_call input
                  then assistant_msg '''' (mkm_tool_calls m)
                  else assistant_msg (if mkm_response m = '''' then mock_answer else mkm_response m) []))), w))"

text \<open>\<open>StreamSingle\<close> makes a stream of one message: \<open>single\<close> is the library's constructor.\<close>

definition stream_single :: "(chat_msg option \<Rightarrow> 'r) \<Rightarrow> (go_error + chat_msg option) \<times> 'w \<Rightarrow>
    (go_error + 'r) \<times> 'w" where
  "stream_single single out = map_prod (map_sum id single) id out"

definition mock_health :: provider_health where
  "mock_health =
     \<lparr>prh_provider = ''mock'', prh_model = ''mock'',
      prh_target = empty_target_health\<lparr>tgh_status := ''healthy''\<rparr>,
      prh_fallback_enabled = False, prh_last_fallback = False, prh_fallback_from = '''',
      prh_fallback_to = '''', prh_targets = []\<rparr>"

primcorec mock_chat :: "('w \<Rightarrow> go_error option) \<Rightarrow> (chat_msg option \<Rightarrow> 'r) \<Rightarrow> mock_model \<Rightarrow>
    ('r, 'w) chat_model" where
  "mock_chat ctx single m =
     ChatModel (mock_generate ctx m) (\<lambda>input w. stream_single single (mock_generate ctx m input w))
       (\<lambda>tools. map_sum id (mock_chat ctx single) (Inr m))
       (Some (\<lambda>w. (ctx w, w))) None None None (Some (\<lambda>w. mock_health))"


end
