(* ===== verification/Model_Provider_Properties.thy ===== *)
theory Model_Provider_Properties
  imports Model_Provider
begin

text \<open>
  The properties of the calls to a model: how often the transport asks, how many requests the
  rate limiter lets through, which failures go to the fallback, what an error may show, and that a
  usage is priced once.
\<close>

section \<open>The transport\<close>

text \<open>\<open>traced L\<close> is \<open>L\<close> with a log of the requests and their outcomes, and of the waits.\<close>

type_synonym 'w trace = "'w \<times> (model_request \<times> (go_error + model_response)) list \<times> duration list"

definition traced :: "'w transport \<Rightarrow> 'w trace transport" where
  "traced L =
     \<lparr>trp_base = (\<lambda>req (w, sent, waits).
        case trp_base L req w of (out, w') \<Rightarrow> (out, (w', sent @ [(req, out)], waits))),
      trp_ctx_err = (\<lambda>(w, sent, waits). trp_ctx_err L w),
      trp_wait = (\<lambda>d (w, sent, waits).
        case trp_wait L d w of (err, w') \<Rightarrow> (err, (w', sent, waits @ [d]))),
      trp_now = (\<lambda>(w, sent, waits). trp_now L w),
      trp_parse_time = trp_parse_time L, trp_round = trp_round L, trp_to_int64 = trp_to_int64 L,
      trp_tracker =
        \<lparr>cel_get = (\<lambda>(w, sent, waits). cel_get (trp_tracker L) w),
         cel_put = (\<lambda>t (w, sent, waits). (cel_put (trp_tracker L) t w, sent, waits))\<rparr>\<rparr>"

lemma traced_simps [simp]:
  "trp_ctx_err (traced L) (w, sent, waits) = trp_ctx_err L w"
  "trp_now (traced L) (w, sent, waits) = trp_now L w"
  "trp_parse_time (traced L) = trp_parse_time L"
  "trp_round (traced L) = trp_round L"
  "trp_to_int64 (traced L) = trp_to_int64 L"
  by (simp_all add: traced_def)

lemma traced_cell:
  "cell_update (trp_tracker (traced L)) f (w, sent, waits) =
     (cell_update (trp_tracker L) f w, sent, waits)"
  by (simp add: traced_def cell_update_def)

lemma traced_delay:
  "transport_retry_delay (traced L) p n out (w, sent, waits) = transport_retry_delay L p n out w"
proof -
  have "retry_after_delay (traced L) v (w, sent, waits) = retry_after_delay L v w" for v
    by (simp add: retry_after_delay_def Let_def split: prod.split option.split)
  moreover have "backoff_delay (traced L) p n = backoff_delay L p n" by (simp add: backoff_delay_def)
  ultimately show ?thesis by (cases out) (simp_all only: transport_retry_delay_def sum.case)
qed

lemma traced_sleep:
  "transport_sleep (traced L) d (w, sent, waits) =
     (case transport_sleep L d w of (err, w') \<Rightarrow> (err, (w', sent, if d \<le> 0 then waits else waits @ [d])))"
  by (simp add: transport_sleep_def traced_def split: prod.splits)

lemma delay_le_max: "transport_retry_delay L p n out w \<le> rpl_max_delay p"
  by (simp add: transport_retry_delay_def Let_def)

definition asks_again :: "redactor \<Rightarrow> go_error + model_response \<Rightarrow> bool" where
  "asks_again r out \<longleftrightarrow> (\<exists>e. transport_error r out = Some e \<and> pve_retryable e)"

text \<open>What a run of the loop adds to the log.\<close>

definition retry_trail :: "redactor \<Rightarrow> retry_policy \<Rightarrow> model_request \<Rightarrow> nat \<Rightarrow>
    (model_request \<times> (go_error + model_response)) list \<Rightarrow> duration list \<Rightarrow>
    go_error + model_response \<Rightarrow> bool" where
  "retry_trail r p again left sent waits res \<longleftrightarrow>
     sent \<noteq> [] \<and> length sent \<le> left + 1 \<and> length waits \<le> length sent \<and> length waits \<le> left \<and>
     (\<forall>k \<in> set sent. fst k = again) \<and> (\<forall>d \<in> set waits. 0 < d \<and> d \<le> rpl_max_delay p) \<and>
     (\<forall>k \<in> set (butlast sent). asks_again r (snd k)) \<and>
     (\<forall>resp. res = Inr resp \<longrightarrow> snd (last sent) = Inr resp \<and> mrs_status_code resp < 400)"

lemma traced_loop:
  "\<exists>sent' waits'.
     retry_loop (traced L) r p req body n left (w, sent, waits) =
       (fst (retry_loop L r p req body n left w),
        (snd (retry_loop L r p req body n left w), sent @ sent', waits @ waits')) \<and>
     retry_trail r p (clone_request_with_body req body) left sent' waits'
       (fst (retry_loop L r p req body n left w))"
proof (induction L r p req body n left w arbitrary: sent waits rule: retry_loop.induct)
  case (1 L r p req body n left w)
  let ?again = "clone_request_with_body req body"
  obtain out w1 where b: "trp_base L ?again w = (out, w1)" by (metis surj_pair)
  have tb: "trp_base (traced L) ?again (w, sent, waits) = (out, (w1, sent @ [(?again, out)], waits))"
    using b by (simp add: traced_def)
  have tc: "trp_ctx_err (traced L) (w1, s, x) = trp_ctx_err L w1" for s x by (simp add: traced_def)
  show ?case
  proof (cases "transport_error r out")
    case None
    then have "\<exists>resp. out = Inr resp \<and> mrs_status_code resp < 400"
      by (auto simp: transport_error_def Let_def split: sum.splits if_splits)
    with None b tb show ?thesis
      by (intro exI [of _ "[(?again, out)]"] exI [of _ "[]"])
        (auto simp: retry_loop.simps [of L] retry_loop.simps [of "traced L"] retry_trail_def)
  next
    case (Some e)
    show ?thesis
    proof (cases "\<not> pve_retryable e \<or> left = 0 \<or> trp_ctx_err L w1 \<noteq> None")
      case True
      with Some b tb tc show ?thesis
        by (intro exI [of _ "[(?again, out)]"] exI [of _ "[]"])
          (auto simp: retry_loop.simps [of L] retry_loop.simps [of "traced L"] retry_trail_def)
    next
      case False
      let ?w2 = "cell_update (trp_tracker L) observe_retry w1"
      let ?d = "transport_retry_delay L p n out ?w2"
      let ?x = "if ?d \<le> 0 then waits else waits @ [?d]"
      obtain err w3 where s: "transport_sleep L ?d ?w2 = (err, w3)" by (metis surj_pair)
      note ts = traced_sleep [of L ?d ?w2 "sent @ [(?again, out)]" waits, unfolded s, simplified]
      show ?thesis
      proof (cases err)
        case (Some g)
        with False \<open>transport_error r out = Some e\<close> b tb tc s ts show ?thesis
          using delay_le_max [of L p n out ?w2]
          by (intro exI [of _ "[(?again, out)]"] exI [of _ "if ?d \<le> 0 then [] else [?d]"])
            (auto simp: retry_loop.simps [of L] retry_loop.simps [of "traced L"] retry_trail_def
              traced_cell traced_delay)
      next
        case None
        from "1" [OF b [symmetric] \<open>transport_error r out = Some e\<close> False refl s [symmetric] None]
        obtain sent' waits' where ih:
          "retry_loop (traced L) r p req body (n + 1) (left - 1) (w3, sent @ [(?again, out)], ?x) =
             (fst (retry_loop L r p req body (n + 1) (left - 1) w3),
              (snd (retry_loop L r p req body (n + 1) (left - 1) w3), (sent @ [(?again, out)]) @ sent', ?x @ waits'))"
          "retry_trail r p ?again (left - 1) sent' waits' (fst (retry_loop L r p req body (n + 1) (left - 1) w3))"
          by blast
        have t: "retry_loop (traced L) r p req body n left (w, sent, waits) =
            retry_loop (traced L) r p req body (n + 1) (left - 1) (w3, sent @ [(?again, out)], ?x)"
          using False \<open>transport_error r out = Some e\<close> tb tc ts None
          by (simp add: retry_loop.simps [of "traced L" r p req body n] traced_cell traced_delay)
        have l: "retry_loop L r p req body n left w = retry_loop L r p req body (n + 1) (left - 1) w3"
          using False \<open>transport_error r out = Some e\<close> b s None
          by (simp add: retry_loop.simps [of L r p req body n])
        show ?thesis unfolding t l ih(1)
          using ih(2) False \<open>transport_error r out = Some e\<close> delay_le_max [of L p n out ?w2]
          by (intro exI [of _ "(?again, out) # sent'"] exI [of _ "if ?d \<le> 0 then waits' else ?d # waits'"])
            (auto simp: retry_trail_def asks_again_def)
      qed
    qed
  qed
qed

text \<open>C33. A request is sent at least once and at most as often as the policy allows, always with the
  same body, and again only after a failure of a class worth repeating; the waits in between are
  at most \<open>MaxDelay\<close> long. A response that is returned is the last one, and below 400.\<close>

theorem transport_repeats_in_bounds:
  assumes "snapshot_request_body req = Inr body"
    and "retry_round_trip (traced L) r p req (w, [], []) = (res, (w', sent, waits))"
  shows "retry_round_trip L r p req w = (res, w') \<and>
    retry_trail r (normalize_retry_policy p) (clone_request_with_body req body)
      (nat (rpl_max_attempts (normalize_retry_policy p)) - 1) sent waits res"
  using assms traced_loop [of L r "normalize_retry_policy p" req body 1
      "nat (rpl_max_attempts (normalize_retry_policy p)) - 1" w "[]" "[]"]
  by (auto simp: retry_round_trip_def Let_def prod_eq_iff)

text \<open>A server that answers 503 twice, then 200.\<close>

definition flaky_transport :: "(usage_tracker \<times> model_response list) transport" where
  "flaky_transport =
     \<lparr>trp_base = (\<lambda>req (t, answers). (Inr (hd answers), (t, tl answers))),
      trp_ctx_err = (\<lambda>_. None), trp_wait = (\<lambda>d w. (None, w)), trp_now = (\<lambda>_. 0),
      trp_parse_time = (\<lambda>_. None), trp_round = id, trp_to_int64 = floor,
      trp_tracker = \<lparr>cel_get = fst, cel_put = (\<lambda>t (_, answers). (t, answers))\<rparr>\<rparr>"

definition answer_of :: "int \<Rightarrow> model_response" where
  "answer_of code =
     \<lparr>mrs_status_code = code, mrs_status = ''x'', mrs_retry_after = '''', mrs_body = ''''\<rparr>"

definition demo_model_request :: model_request where
  "demo_model_request = \<lparr>mrq_head = ''POST'', mrq_body = Some (Inr ''hi'')\<rparr>"

lemma trim_space_x [simp]: "trim_space ''x'' = ''x''"
  by (simp add: trim_graphic graphic_def)

lemma redact_nothing [simp]: "redact_string [] ''x'' = ''x''"
  by (simp add: redact_string_def redact_bearer_pattern_def redact_key_value_pattern_def
      redact_openai_style_keys_def match_bearer_def match_key_value_def match_openai_key_def
      match_key_name_def lower_char_def kelvin_def long_s_def bytes_def word_starts_def)

lemma flaky_errors:
  "transport_error [] (Inr (answer_of 200)) = None"
  "\<exists>e. transport_error [] (Inr (answer_of 503)) = Some e \<and> pve_retryable e"
  by (simp_all add: transport_error_def answer_of_def response_snippet_def
      provider_error_for_status_def classify_http_status_def is_retryable_error_class_def Let_def)

lemma flaky_simps:
  "trp_base (traced flaky_transport) req ((t, a # as), sent, waits) =
     (Inr a, ((t, as), sent @ [(req, Inr a)], waits))"
  "trp_ctx_err flaky_transport v = None"
  "trp_wait (traced flaky_transport) d (w, sent, waits) = (None, (w, sent, waits @ [d]))"
  "cell_update (trp_tracker (traced flaky_transport)) f ((t, as), sent, waits) = ((f t, as), sent, waits)"
  by (simp_all add: traced_def flaky_transport_def cell_update_def split: prod.split)

lemma flaky_run:
  "retry_round_trip (traced flaky_transport) [] default_retry_policy demo_model_request
     ((t, [answer_of 503, answer_of 503, answer_of 200]), [], []) =
   (Inr (answer_of 200), ((observe_retry (observe_retry t), []),
      [(demo_model_request, Inr (answer_of 503)), (demo_model_request, Inr (answer_of 503)),
       (demo_model_request, Inr (answer_of 200))], [200000000, 400000000]))"
proof -
  have p: "normalize_retry_policy default_retry_policy = default_retry_policy"
    by (simp add: normalize_retry_policy_def default_retry_policy_def time_second_def)
  have n: "nat (rpl_max_attempts default_retry_policy) - 1 = 2"
    by (simp add: default_retry_policy_def)
  have c: "clone_request_with_body demo_model_request (Some ''hi'') = demo_model_request"
    by (simp add: clone_request_with_body_def demo_model_request_def)
  have a: "mrs_retry_after (answer_of 503) = ''''" by (simp add: answer_of_def)
  have z: "trim_space '''' = ''''" by simp
  have d: "transport_retry_delay (traced flaky_transport) default_retry_policy (Suc 0) (Inr (answer_of 503)) w = 200000000"
    "transport_retry_delay (traced flaky_transport) default_retry_policy (Suc (Suc 0)) (Inr (answer_of 503)) w = 400000000" for w
    by (simp_all add: transport_retry_delay_def retry_after_delay_def a z backoff_delay_def Let_def
        default_retry_policy_def time_second_def flaky_transport_def traced_def)
  have b: "snapshot_request_body demo_model_request = Inr (Some ''hi'')"
    by (simp add: snapshot_request_body_def demo_model_request_def)
  have t: "transport_sleep (traced flaky_transport) 200000000 w = trp_wait (traced flaky_transport) 200000000 w"
    "transport_sleep (traced flaky_transport) 400000000 w = trp_wait (traced flaky_transport) 400000000 w" for w
    by (simp_all add: transport_sleep_def)
  obtain e where e: "transport_error [] (Inr (answer_of 503)) = Some e" "pve_retryable e"
    using flaky_errors(2) by blast
  show ?thesis
    unfolding retry_round_trip_def Let_def p n b
    by (simp add: retry_loop.simps c e d flaky_errors(1) numeral_2_eq_2 t flaky_simps
        Let_def)
qed

theorem transport_repeats_in_bounds_witness:
  "retry_trail [] default_retry_policy demo_model_request 2
     [(demo_model_request, Inr (answer_of 503)), (demo_model_request, Inr (answer_of 503)),
      (demo_model_request, Inr (answer_of 200))] [200000000, 400000000] (Inr (answer_of 200))"
  using transport_repeats_in_bounds [OF _ flaky_run, of "Some ''hi''"]
  by (simp add: snapshot_request_body_def demo_model_request_def clone_request_with_body_def
      normalize_retry_policy_def default_retry_policy_def time_second_def numeral_2_eq_2)

section \<open>The rate limiter\<close>

text \<open>
  Any number of requests share a limiter. A state is the limiter, the number of requests that have
  been let through and not released, the times at which requests were let through, and the
  latest reading of the clock, which does not run backwards. A request whose select takes the
  branch of its context leaves the limiter as it is.
\<close>

type_synonym limiter_state = "rate_limiter \<times> nat \<times> gtime list \<times> gtime"

inductive limiter_step :: "limiter_state \<Rightarrow> limiter_state \<Rightarrow> bool" where
  let_through: "limiter_step (l, h, passed, now) (l', h + 1, passed @ [t], t)"
    if "slot_free l" "now \<le> t" "limiter_acquire None t l = (None, l')"
| turned_away: "limiter_step (l, h, passed, now) (l', h, passed, t)"
    if "slot_free l" "now \<le> t" "limiter_acquire None t l = (Some err, l')"
| given_up: "limiter_step (l, h, passed, now) (l', h, passed, now)"
    if "lrl_slots l \<noteq> None" "limiter_acquire (Some err) t l = (Some err', l')"
| released: "limiter_step (l, h, passed, now) (release_slot l, h - 1, passed, now)"
    if "0 < h"

definition limiter_run :: "limiter_state \<Rightarrow> limiter_state \<Rightarrow> bool" where
  "limiter_run = limiter_step\<^sup>*\<^sup>*"

definition passed_in :: "gtime \<Rightarrow> gtime \<Rightarrow> gtime list \<Rightarrow> nat" where
  "passed_in a b passed = length (filter (\<lambda>t. a \<le> t \<and> t < b) passed)"

lemma passed_in_snoc:
  "passed_in a b (passed @ [t]) = passed_in a b passed + (if a \<le> t \<and> t < b then 1 else 0)"
  by (simp add: passed_in_def)

lemma passed_in_mono: "a' \<le> a \<Longrightarrow> b \<le> b' \<Longrightarrow> passed_in a b passed \<le> passed_in a' b' passed"
  unfolding passed_in_def by (induction passed) auto

lemma passed_in_split: "passed_in a c passed \<le> passed_in a b passed + passed_in b c passed"
  unfolding passed_in_def by (induction passed) auto

text \<open>The invariant of the window: what passed since it began has been counted, and no more than
  the limit passed in the minute before.\<close>

definition window_ok :: "rate_limiter \<Rightarrow> gtime list \<Rightarrow> gtime \<Rightarrow> bool" where
  "window_ok l passed now \<longleftrightarrow>
     (let w = lrl_window_start l; n = nat (lrl_requests_per_minute l) in
      0 < now \<and> 0 \<le> w \<and> w \<le> now \<and> (\<forall>t \<in> set passed. t \<le> now \<and> t < w + time_minute) \<and>
      0 \<le> lrl_window_used l \<and> lrl_window_used l \<le> lrl_requests_per_minute l \<and>
      int (passed_in w (w + time_minute) passed) = lrl_window_used l \<and>
      passed_in (w - time_minute) w passed \<le> n \<and>
      (w = 0 \<longrightarrow> passed = []) \<and> (\<forall>a. passed_in a (a + time_minute) passed \<le> 2 * n))"

lemma window_reserve:
  assumes "window_ok l passed now" "now \<le> t" "0 < lrl_requests_per_minute l"
    "reserve_request t l = (err, l')"
  shows "window_ok l' (if err = None then passed @ [t] else passed) t \<and>
    lrl_slots l' = lrl_slots l \<and> lrl_held l' = lrl_held l \<and>
    lrl_requests_per_minute l' = lrl_requests_per_minute l"
proof -
  let ?m = time_minute
  let ?w = "lrl_window_start l"
  let ?n = "nat (lrl_requests_per_minute l)"
  have m: "0 < ?m" by (simp add: time_minute_def time_second_def)
  from assms(1) have w: "0 < now" "0 \<le> ?w" "?w \<le> now" "\<forall>x \<in> set passed. x \<le> now \<and> x < ?w + ?m"
    "0 \<le> lrl_window_used l" "lrl_window_used l \<le> lrl_requests_per_minute l"
    "int (passed_in ?w (?w + ?m) passed) = lrl_window_used l"
    "passed_in (?w - ?m) ?w passed \<le> ?n" "?w = 0 \<Longrightarrow> passed = []"
    "\<And>a. passed_in a (a + ?m) passed \<le> 2 * ?n"
    by (auto simp: window_ok_def Let_def)
  have used: "passed_in ?w (?w + ?m) passed \<le> ?n" using w(5,6,7) by linarith
  show ?thesis
  proof (cases "is_zero_time ?w \<or> ?m \<le> time_sub t ?w")
    case True
    have old: "x < t" if "x \<in> set passed" for x
    proof (cases "?w = 0")
      case False
      with True have "?m \<le> time_sub t ?w" by (simp add: is_zero_time_def)
      then have "?w + ?m \<le> t" by (auto simp: time_sub_def time_minute_def time_second_def split: if_splits)
      with w(4) that show ?thesis by auto
    qed (use w(9) that in simp)
    then have none: "passed_in t b passed = 0" for b by (fastforce simp: passed_in_def filter_empty_conv)
    have prior: "passed_in (t - ?m) t passed \<le> ?n"
    proof (cases "?w = 0")
      case False
      with True have "?m \<le> time_sub t ?w" by (simp add: is_zero_time_def)
      then have "?w \<le> t - ?m" by (auto simp: time_sub_def time_minute_def time_second_def split: if_splits)
      moreover have "passed_in (t - ?m) t passed \<le> passed_in ?w (?w + ?m) passed"
        using w(4) \<open>?w \<le> t - ?m\<close> unfolding passed_in_def by (induction passed) auto
      ultimately show ?thesis using used by simp
    qed (use w(9) in \<open>simp add: passed_in_def\<close>)
    have near: "passed_in a (a + ?m) passed \<le> ?n" if "a \<le> t" "t < a + ?m" for a
    proof -
      have "passed_in a (a + ?m) passed \<le> passed_in (t - ?m) t passed"
        using old that unfolding passed_in_def by (induction passed) force+
      with prior show ?thesis by simp
    qed
    from True assms(3,4) have l': "err = None"
      "l' = l\<lparr>lrl_window_start := t, lrl_window_used := 1\<rparr>"
      by (auto simp: reserve_request_def Let_def split: if_splits)
    have "passed_in a (a + ?m) (passed @ [t]) \<le> 2 * ?n" for a
      using near [of a] w(10) [of a] assms(3) by (auto simp: passed_in_snoc)
    then show ?thesis
      using l' w assms(2,3) prior none old m
      by (auto simp: window_ok_def Let_def passed_in_snoc)
  next
    case False
    then have early: "t < ?w + ?m" "?w \<noteq> 0"
      using w(2,3) assms(2) by (auto simp: is_zero_time_def time_sub_def time_minute_def time_second_def split: if_splits)
    have near: "passed_in a (a + ?m) passed \<le> ?n + passed_in ?w (?w + ?m) passed" if "a \<le> t" "t < a + ?m" for a
    proof -
      have "passed_in a (a + ?m) passed \<le> passed_in (?w - ?m) (?w + ?m) passed"
        using w(4) that early w(3) assms(2) unfolding passed_in_def by (induction passed) force+
      then show ?thesis using passed_in_split [of "?w - ?m" "?w + ?m" passed ?w] w(8) by linarith
    qed
    show ?thesis
    proof (cases "lrl_requests_per_minute l \<le> lrl_window_used l")
      case True
      with False assms(4) have "err \<noteq> None" "l' = l" by (auto simp: reserve_request_def Let_def)
      with w assms(2) early show ?thesis by (auto simp: window_ok_def Let_def)
    next
      case False
      with \<open>\<not> (is_zero_time ?w \<or> ?m \<le> time_sub t ?w)\<close> assms(4)
      have l': "err = None" "l' = l\<lparr>lrl_window_used := lrl_window_used l + 1\<rparr>"
        by (auto simp: reserve_request_def Let_def)
      have "passed_in a (a + ?m) (passed @ [t]) \<le> 2 * ?n" for a
        using near [of a] w(10) [of a] w(7) False by (auto simp: passed_in_snoc)
      moreover have "passed_in (?w - ?m) ?w (passed @ [t]) \<le> ?n"
        using w(3,8) assms(2) by (auto simp: passed_in_snoc)
      ultimately show ?thesis
        using l' w(1-7,9) assms(2,3) early False w(3)
        by (auto simp: window_ok_def Let_def passed_in_snoc)
    qed
  qed
qed

definition limiter_ok :: "limiter_state \<Rightarrow> bool" where
  "limiter_ok = (\<lambda>(l, h, passed, now).
     (\<forall>n. lrl_slots l = Some n \<longrightarrow> lrl_held l = h \<and> h \<le> n) \<and>
     (0 < lrl_requests_per_minute l \<longrightarrow> window_ok l passed now))"

lemma slot_simps [simp]:
  "lrl_window_start (take_slot l) = lrl_window_start l" "lrl_window_used (take_slot l) = lrl_window_used l"
  "lrl_requests_per_minute (take_slot l) = lrl_requests_per_minute l" "lrl_slots (take_slot l) = lrl_slots l"
  "lrl_window_start (release_slot l) = lrl_window_start l" "lrl_window_used (release_slot l) = lrl_window_used l"
  "lrl_requests_per_minute (release_slot l) = lrl_requests_per_minute l" "lrl_slots (release_slot l) = lrl_slots l"
  by (simp_all add: take_slot_def release_slot_def split: option.split)

lemma window_cong:
  "lrl_window_start l' = lrl_window_start l \<Longrightarrow> lrl_window_used l' = lrl_window_used l \<Longrightarrow>
   lrl_requests_per_minute l' = lrl_requests_per_minute l \<Longrightarrow> window_ok l' passed now = window_ok l passed now"
  by (simp add: window_ok_def)

lemma window_held [simp]: "window_ok (l\<lparr>lrl_held := n\<rparr>) passed now = window_ok l passed now"
  by (rule window_cong) simp_all

lemma acquire_ok:
  assumes "limiter_acquire None t l = (err, l')" "limiter_ok (l, h, passed, now)" "slot_free l" "now \<le> t"
  shows "limiter_ok (l', if err = None then h + 1 else h, if err = None then passed @ [t] else passed, t)
    \<and> lrl_slots l' = lrl_slots l \<and> lrl_requests_per_minute l' = lrl_requests_per_minute l"
proof (cases "0 < lrl_requests_per_minute l")
  case True
  obtain e k where r: "reserve_request t (take_slot l) = (e, k)" by (metis surj_pair)
  have "window_ok (take_slot l) passed now"
    using assms(2) True by (simp add: limiter_ok_def window_cong [of "take_slot l" l])
  from window_reserve [OF this assms(4) _ r] True
  have k: "window_ok k (if e = None then passed @ [t] else passed) t" "lrl_slots k = lrl_slots l"
    "lrl_held k = lrl_held (take_slot l)" "lrl_requests_per_minute k = lrl_requests_per_minute l"
    by simp_all
  have "err = e" "l' = (if e = None then k else release_slot k)"
    using assms(1) True r by (auto simp: limiter_acquire_def Let_def split: option.splits)
  with k assms(2,3) True show ?thesis
    by (auto simp: limiter_ok_def slot_free_def take_slot_def release_slot_def window_cong [of "release_slot k" k]
        split: option.splits)
next
  case False
  then have "err = None" "l' = take_slot l" using assms(1) by (auto simp: limiter_acquire_def Let_def)
  with False assms(2,3) show ?thesis by (auto simp: limiter_ok_def slot_free_def take_slot_def split: option.splits)
qed

lemma limiter_step_ok:
  "limiter_step s s' \<Longrightarrow> limiter_ok s \<Longrightarrow>
     limiter_ok s' \<and> lrl_slots (fst s') = lrl_slots (fst s) \<and>
     lrl_requests_per_minute (fst s') = lrl_requests_per_minute (fst s)"
proof (induction rule: limiter_step.induct)
  case (let_through l now t l' h passed)
  then show ?case using acquire_ok [OF let_through(3,4,1,2)] by simp
next
  case (turned_away l now t err l' h passed)
  then show ?case using acquire_ok [OF turned_away(3,4,1,2)] by simp
next
  case (given_up l err t err' l' h passed now)
  then show ?case by (simp add: limiter_acquire_def)
next
  case (released h l passed now)
  then show ?case
    by (auto simp: limiter_ok_def window_cong [of "release_slot l" l] release_slot_def split: option.splits)
qed

lemma limiter_run_ok:
  "limiter_run s s' \<Longrightarrow> limiter_ok s \<Longrightarrow>
     limiter_ok s' \<and> lrl_slots (fst s') = lrl_slots (fst s) \<and>
     lrl_requests_per_minute (fst s') = lrl_requests_per_minute (fst s)"
  unfolding limiter_run_def by (induction rule: rtranclp_induct) (use limiter_step_ok in \<open>simp, metis\<close>)

text \<open>C34. Whatever requests arrive, give up and are released: at most \<open>MaxConcurrent\<close> requests are at the
  model at once, and in any minute, not only in those the limiter counts, at most twice
  \<open>RequestsPerMinute\<close> are let through.\<close>

theorem limiter_keeps_bounds:
  assumes "new_local_rate_limiter c = Some l" "0 < t0" "limiter_run (l, 0, [], t0) (l', h, passed, now)"
    and "0 < rlc_max_concurrent c" "0 < rlc_requests_per_minute c"
  shows "int h \<le> rlc_max_concurrent c \<and>
    int (passed_in a (a + time_minute) passed) \<le> 2 * rlc_requests_per_minute c"
proof -
  have l: "lrl_slots l = Some (nat (rlc_max_concurrent c))" "lrl_held l = 0"
    "lrl_requests_per_minute l = rlc_requests_per_minute c" "lrl_window_start l = 0" "lrl_window_used l = 0"
    using assms(1,4) by (auto simp: new_local_rate_limiter_def split: if_splits)
  then have "limiter_ok (l, 0, [], t0)"
    using assms(2,5) by (simp add: limiter_ok_def window_ok_def passed_in_def time_minute_def time_second_def)
  from limiter_run_ok [OF assms(3) this] l assms(4,5) show ?thesis
    by (auto simp: limiter_ok_def window_ok_def Let_def dest: spec [of _ a])
qed

definition demo_rate_limit :: rate_limit_config where
  "demo_rate_limit = \<lparr>rlc_requests_per_minute = 1, rlc_max_concurrent = 2\<rparr>"

definition demo_limiter :: rate_limiter where
  "demo_limiter = the (new_local_rate_limiter demo_rate_limit)"

lemma demo_limiter_new: "new_local_rate_limiter demo_rate_limit = Some demo_limiter"
  by (simp add: demo_limiter_def new_local_rate_limiter_def rate_limit_enabled_def demo_rate_limit_def)

text \<open>A request, another one at the same time, which is turned away, and one a minute later.\<close>

lemma demo_limiter_run:
  "limiter_run (demo_limiter, 0, [], 1)
     (demo_limiter\<lparr>lrl_held := 2, lrl_window_start := 1 + time_minute, lrl_window_used := 1\<rparr>, 2,
      [1, 1 + time_minute], 1 + time_minute)"
proof -
  let ?one = "demo_limiter\<lparr>lrl_held := 1, lrl_window_start := 1, lrl_window_used := 1\<rparr>"
  note defs = demo_limiter_def new_local_rate_limiter_def rate_limit_enabled_def demo_rate_limit_def
    limiter_acquire_def reserve_request_def take_slot_def release_slot_def slot_free_def is_zero_time_def
    time_sub_def duration_defs
  have "limiter_step (demo_limiter, 0, [], 1) (?one, 0 + 1, [] @ [1], 1)"
    by (rule let_through) (simp_all add: defs)
  moreover have "limiter_step (?one, 1, [1], 1) (?one, 1, [1], 1)"
    by (rule turned_away [where t = 1]) (simp_all add: defs)
  moreover have "limiter_step (?one, 1, [1], 1)
      (demo_limiter\<lparr>lrl_held := 2, lrl_window_start := 1 + time_minute, lrl_window_used := 1\<rparr>, 1 + 1,
       [1] @ [1 + time_minute], 1 + time_minute)"
    by (rule let_through) (simp_all add: defs)
  ultimately show ?thesis
    unfolding limiter_run_def by (simp add: numeral_2_eq_2)
qed

theorem limiter_keeps_bounds_witness:
  "int 2 \<le> rlc_max_concurrent demo_rate_limit \<and>
   int (passed_in 1 (1 + time_minute) [1, 1 + time_minute]) \<le> 2 * rlc_requests_per_minute demo_rate_limit"
  using limiter_keeps_bounds [OF demo_limiter_new _ demo_limiter_run, of 1]
  by (simp add: demo_rate_limit_def)

section \<open>Secrets in errors\<close>

text \<open>A secret the redactor removes for certain: long enough, without brackets, and not part of
  the word that takes its place.\<close>

definition plain_secret :: "string \<Rightarrow> bool" where
  "plain_secret s \<longleftrightarrow> 4 \<le> length s \<and> clear_of ''REDACTED'' s"

lemma plain_secret_clear: "plain_secret s \<Longrightarrow> clear_of ''REDACTED'' s"
  by (simp add: plain_secret_def)

lemmas replaced_other = hidden_stays_hidden [where mark = "''REDACTED''", simplified]
lemmas replaced_same = replaced_is_hidden [where mark = "''REDACTED''", simplified]

lemma secrets_stay_out: "plain_secret s \<Longrightarrow> \<not> contains v s \<Longrightarrow> \<not> contains (redact_secrets r v) s"
  by (induction r arbitrary: v) (auto simp: replaced_other plain_secret_clear)

lemma secrets_removed: "plain_secret s \<Longrightarrow> s \<in> set r \<Longrightarrow> \<not> contains (redact_secrets r v) s"
  by (induction r arbitrary: v) (auto simp: replaced_same secrets_stay_out plain_secret_clear, simp add: plain_secret_def)

lemma redact_string_hides: "plain_secret s \<Longrightarrow> s \<in> set r \<Longrightarrow> \<not> contains (redact_string r v) s"
  by (simp add: redact_string_def secrets_removed)

text \<open>What an error tells: the message of a provider error, the text of another.\<close>

fun error_message :: "go_error \<Rightarrow> string" where
  "error_message (ProviderFailure p) = pve_message p"
| "error_message e = error_text e"

lemma redact_error_hides:
  "plain_secret s \<Longrightarrow> s \<in> set r \<Longrightarrow> \<not> contains (error_message (redact_error r err)) s"
  by (simp add: redact_error_def redact_string_hides split: option.split)

lemma operational_call_error:
  assumes "operational_call E m call observe w = (Inl err, w')"
  shows "\<exists>e. err = redact_error (opm_redactor m) e"
proof -
  obtain e1 w1 where a: "operational_acquire E m w = (e1, w1)" by (metis surj_pair)
  obtain out w2 where c: "call w1 = (out, w2)" by (metis surj_pair)
  from assms a c show ?thesis
    by (auto simp: operational_call_def Let_def split: option.splits sum.splits)
qed

lemma operational_probe_error:
  assumes "operational_probe E m inner w = (Some err, w')"
  shows "\<exists>e. err = redact_error (opm_redactor m) e"
proof -
  obtain e1 w1 where a: "operational_acquire E m w = (e1, w1)" by (metis surj_pair)
  obtain out w2 where c: "chm_generate inner health_question w1 = (out, w2)" by (metis surj_pair)
  from assms a c show ?thesis
    by (auto simp: operational_probe_def Let_def split: option.splits sum.splits)
qed

text \<open>C35. Whatever the client answers, no error of a call or a probe that leaves the operational model
  shows the API key.\<close>

theorem errors_hide_api_key:
  assumes "plain_secret (trim_space key)" "opm_redactor m = new_redactor [key]"
    and "(\<exists>input. chm_generate (operational_chat E rnd layout m inner) input w = (Inl err, w')) \<or>
      (\<exists>input. chm_stream (operational_chat E rnd layout m inner) input w = (Inl err, w')) \<or>
      chm_probe (operational_chat E rnd layout m inner) = Some probe \<and> probe w = (Some err, w')"
  shows "\<not> contains (error_message err) (trim_space key)"
proof -
  have "trim_space key \<in> set (opm_redactor m)"
    using assms(1,2) by (auto simp: new_redactor_def plain_secret_def clear_of_def)
  moreover have "\<exists>e. err = redact_error (opm_redactor m) e"
    using assms(3)
    by (auto simp: operational_generate_def operational_stream_def
        dest!: operational_call_error operational_probe_error)
  ultimately show ?thesis using redact_error_hides [OF assms(1)] by auto
qed

section \<open>Cells\<close>

text \<open>A cell holds what was put there last.\<close>

locale shared_cell =
  fixes c :: "('a, 'w) cell"
  assumes get_put: "cel_get c (cel_put c x w) = x"
    and put_put: "cel_put c x (cel_put c y w) = cel_put c x w"
begin

lemma get_update: "cel_get c (cell_update c f w) = f (cel_get c w)"
  by (simp add: cell_update_def get_put)

lemma update_update: "cell_update c f (cell_update c g w) = cell_update c (f \<circ> g) w"
  by (simp add: cell_update_def get_put put_put)

end

text \<open>The state of a runtime with one provider and its fallback, and the world outside.\<close>

record 'x model_state =
  mst_tracker :: usage_tracker
  mst_limiter :: rate_limiter
  mst_fallback :: fallback_state
  mst_outside :: 'x

definition tracker_cell :: "(usage_tracker, 'x model_state) cell" where
  "tracker_cell = \<lparr>cel_get = mst_tracker, cel_put = (\<lambda>t w. w\<lparr>mst_tracker := t\<rparr>)\<rparr>"

definition limiter_cell :: "(rate_limiter, 'x model_state) cell" where
  "limiter_cell = \<lparr>cel_get = mst_limiter, cel_put = (\<lambda>l w. w\<lparr>mst_limiter := l\<rparr>)\<rparr>"

definition fallback_cell :: "(fallback_state, 'x model_state) cell" where
  "fallback_cell = \<lparr>cel_get = mst_fallback, cel_put = (\<lambda>f w. w\<lparr>mst_fallback := f\<rparr>)\<rparr>"

interpretation tracker: shared_cell tracker_cell
  by unfold_locales (simp_all add: tracker_cell_def)

interpretation limiter: shared_cell limiter_cell
  by unfold_locales (simp_all add: limiter_cell_def)

interpretation fallback: shared_cell fallback_cell
  by unfold_locales (simp_all add: fallback_cell_def)

text \<open>The error of a failed call is noted before it is redacted: what the client says is in the
  health of the model as it is. A probe redacts first.\<close>

theorem failed_call_noted_unredacted:
  assumes "opm_tracker m = tracker_cell" "opm_limiter m = None"
    and "chm_generate inner input w = (Inl (PlainError t), w1)"
  shows "tgh_last_error (prh_target (health_snapshot layout
      (mst_tracker (snd (chm_generate (operational_chat E rnd layout m inner) input w))))) = t"
  using assms by (simp add: operational_generate_def operational_call_def operational_acquire_def
      operational_release_def note_call_def cell_update_def tracker_cell_def observe_call_def
      note_error_def classify_provider_error_def errors_is_def health_snapshot_def Let_def)

definition demo_tracker :: usage_tracker where
  "demo_tracker = new_usage_tracker ''openai'' ''gpt''"

definition demo_models :: "unit model_state" where
  "demo_models =
     \<lparr>mst_tracker = demo_tracker, mst_limiter = demo_limiter,
      mst_fallback = \<lparr>fbs_last_fallback = False, fbs_last_error = ''''\<rparr>, mst_outside = ()\<rparr>"

definition still_surroundings :: "'w surroundings" where
  "still_surroundings = \<lparr>srn_clock = (\<lambda>_. 5), srn_await = id, srn_stop = (\<lambda>_. None)\<rparr>"

primcorec failing_chat :: "go_error \<Rightarrow> (unit, 'w) chat_model" where
  "failing_chat err =
     ChatModel (\<lambda>_ w. (Inl err, w)) (\<lambda>_ w. (Inl err, w))
       (\<lambda>_. map_sum id failing_chat (Inr err)) None None None None None"

definition keyed_model :: "(unit model_state) operational_model" where
  "keyed_model =
     \<lparr>opm_tracker = tracker_cell, opm_redactor = new_redactor [''abc-123''], opm_limiter = None\<rparr>"

lemma trim_key [simp]: "trim_space ''abc-123'' = ''abc-123''"
  by (simp add: trim_graphic graphic_def)

theorem errors_hide_api_key_witness:
  "\<exists>err w'. chm_generate (operational_chat still_surroundings id (\<lambda>_. '''') keyed_model
      (failing_chat (PlainError ''bad key abc-123''))) [] demo_models = (Inl err, w') \<and>
     \<not> contains (error_message err) ''abc-123''"
proof -
  let ?k = "operational_chat still_surroundings id (\<lambda>_. '''') keyed_model
      (failing_chat (PlainError ''bad key abc-123''))"
  have "\<exists>err w'. chm_generate ?k [] demo_models = (Inl err, w')"
    by (simp add: operational_generate_def operational_call_def operational_acquire_def keyed_model_def Let_def)
  then obtain err w' where e: "chm_generate ?k [] demo_models = (Inl err, w')" by blast
  have "\<not> contains (error_message err) (trim_space ''abc-123'')"
    by (rule errors_hide_api_key [where E = still_surroundings and rnd = id and layout = "\<lambda>_. ''''"
          and m = keyed_model and inner = "failing_chat (PlainError ''bad key abc-123'')" and w = demo_models])
      (use e in \<open>auto simp: keyed_model_def plain_secret_def clear_of_def\<close>)
  with e show ?thesis by simp
qed

section \<open>The fallback\<close>

text \<open>When the client fails with what the transport reports of a status of 400 or more, however
  the libraries in between wrapped it, the fallback is asked exactly for 429 and the statuses from
  500 on; all other failures are handed on, and no model is asked again.\<close>

theorem fallback_for_provider_failures:
  assumes "chm_generate primary input w = (Inl err, w1)"
    and "as_provider_error (error_chain err) = Some (provider_error_for_status code message r)"
    and "400 \<le> code"
  shows "fallback_generate (new_fallback_chat_model p n state) primary (Some fallback) input w =
    (if code = 429 \<or> 500 \<le> code then
       (case chm_generate fallback input w1 of
          (Inl ferr, w2) \<Rightarrow> (Inl (JoinError [err, ferr]), w2)
        | (Inr answer, w2) \<Rightarrow>
            (Inr answer, fallback_record (new_fallback_chat_model p n state) True (Some err) w2))
     else (Inl err, fallback_record (new_fallback_chat_model p n state) False None w1))"
proof -
  let ?e = "provider_error_for_status code message r"
  have c: "classify_provider_error err = ?e" using assms(2) by (simp add: classify_provider_error_def)
  have k: "pve_class ?e = classify_http_status code"
    "pve_retryable ?e = is_retryable_error_class (classify_http_status code)"
    by (simp_all add: provider_error_for_status_def Let_def)
  have d: "default_fallback_classes \<noteq> Map.empty"
    by (simp add: default_fallback_classes_def)
  have "should_fallback (new_fallback_chat_model p n state) (Some fallback) err = (code = 429 \<or> 500 \<le> code)"
    using assms(3) by (auto simp: should_fallback_def c k d new_fallback_chat_model_def
        default_fallback_classes_def map_get_def is_retryable_error_class_def classify_http_status_def)
  with assms(1) show ?thesis by (auto simp: fallback_generate_def fallback_call_def)
qed

definition mock_answering :: "(unit, 'w) chat_model" where
  "mock_answering = mock_chat (\<lambda>_. None) (\<lambda>_. ()) \<lparr>mkm_response = ''hello'', mkm_tool_calls = [], mkm_usage = None\<rparr>"

definition busy_error :: go_error where
  "busy_error = UrlError ''Post: busy'' (ProviderFailure (provider_error_for_status 503 ''busy'' []))"

theorem fallback_for_provider_failures_witness:
  "fst (fallback_generate (new_fallback_chat_model ''main'' ''mock'' fallback_cell) (failing_chat busy_error)
      (Some mock_answering) [] demo_models) = Inr (Some (assistant_msg ''hello'' []))"
  using fallback_for_provider_failures [of "failing_chat busy_error" "[]" demo_models busy_error demo_models
      503 "''busy''" "[]" "''main''" "''mock''" fallback_cell mock_answering]
  by (simp add: busy_error_def mock_answering_def mock_generate_def mock_with_usage_def
      has_assistant_tool_call_def)

section \<open>Prices\<close>

lemma pricing_idem: "pricing_apply rnd p (pricing_apply rnd p u) = pricing_apply rnd p u"
  by (simp add: pricing_apply_def normalize_run_usage_def Let_def pricing_currency_def)

text \<open>The usage a model reports has its price already, and pricing it once more, as the engine
  does, changes nothing.\<close>

theorem usage_priced_once:
  "\<exists>price report. chm_price (operational_chat E rnd layout m inner) = Some price \<and>
     chm_usage (operational_chat E rnd layout m inner) = Some report \<and>
     price w (report w) = report w"
  by (simp add: tracker_usage_snapshot_def tracker_price_usage_def Let_def pricing_idem)


end
