(* ===== verification/Net_Guard.thy ===== *)
theory Net_Guard
  imports "HOL-Library.Word" Go_Path
begin

unbundle bit_operations_syntax

text \<open>
  What keeps the tools of the agent runtime away from addresses and files that are not theirs, of
  agent-runtime/internal/tools/http_skill.go: the checks of a URL and of the addresses its host
  resolves to, the dialer that checks again, and the roots below which secret files lie. The URL
  parser, the syntax of addresses, the resolver and the file system are parameters.
\<close>

section \<open>Addresses\<close>

text \<open>A \<open>netip.Addr\<close> that is valid: four bytes, or sixteen bytes and a zone.\<close>

datatype ip_addr = IPv4 "32 word" | IPv6 "128 word" string

definition ipv4 :: "nat \<Rightarrow> nat \<Rightarrow> nat \<Rightarrow> nat \<Rightarrow> ip_addr" where
  "ipv4 a b c d = IPv4 (word_of_nat (((a * 256 + b) * 256 + c) * 256 + d))"

text \<open>The predicates of \<open>netip\<close> the code asks; the first 16 bits of a long address are \<open>high16\<close>.\<close>

definition high16 :: "128 word \<Rightarrow> 128 word" where "high16 w = drop_bit 112 w"

fun is_4in6 :: "ip_addr \<Rightarrow> bool" where
  "is_4in6 (IPv4 w) = False"
| "is_4in6 (IPv6 w zone) = (drop_bit 32 w = 0xFFFF)"

fun unmap :: "ip_addr \<Rightarrow> ip_addr" where
  "unmap (IPv4 w) = IPv4 w"
| "unmap (IPv6 w zone) = (if is_4in6 (IPv6 w zone) then IPv4 (ucast w) else IPv6 w zone)"

fun is_loopback :: "ip_addr \<Rightarrow> bool" where
  "is_loopback (IPv4 w) = (drop_bit 24 w = 127)"
| "is_loopback (IPv6 w zone) = (w = 1)"

fun is_link_local_unicast :: "ip_addr \<Rightarrow> bool" where
  "is_link_local_unicast (IPv4 w) = (drop_bit 16 w = 0xA9FE)"
| "is_link_local_unicast (IPv6 w zone) = (high16 w AND 0xFFC0 = 0xFE80)"

fun is_private :: "ip_addr \<Rightarrow> bool" where
  "is_private (IPv4 w) = (drop_bit 24 w = 10 \<or> drop_bit 20 w = 0xAC1 \<or> drop_bit 16 w = 0xC0A8)"
| "is_private (IPv6 w zone) = (high16 w AND 0xFE00 = 0xFC00)"

fun is_unspecified :: "ip_addr \<Rightarrow> bool" where
  "is_unspecified (IPv4 w) = (w = 0)"
| "is_unspecified (IPv6 w zone) = (w = 0 \<and> zone = '''')"

fun is_multicast :: "ip_addr \<Rightarrow> bool" where
  "is_multicast (IPv4 w) = (drop_bit 28 w = 0xE)"
| "is_multicast (IPv6 w zone) = (high16 w AND 0xFF00 = 0xFF00)"

text \<open>The code compares the text of the address, which for these two is that of no other.\<close>

definition metadata_addrs :: "ip_addr set" where
  "metadata_addrs = {ipv4 169 254 169 254, ipv4 100 100 100 200}"

definition is_metadata_addr :: "ip_addr \<Rightarrow> bool" where
  "is_metadata_addr a = (unmap a \<in> metadata_addrs)"

definition is_public_addr :: "ip_addr \<Rightarrow> bool" where
  "is_public_addr a =
     (let a = unmap a in
      \<not> is_metadata_addr a \<and>
      \<not> (is_loopback a \<or> is_link_local_unicast a \<or> is_private a \<or> is_unspecified a \<or> is_multicast a))"

definition address_allowed :: "bool \<Rightarrow> ip_addr \<Rightarrow> bool" where
  "address_allowed allow_local a \<longleftrightarrow> \<not> is_metadata_addr a \<and> (allow_local \<or> is_public_addr a)"

section \<open>Hosts\<close>

definition is_metadata_host :: "string \<Rightarrow> bool" where
  "is_metadata_host host \<longleftrightarrow>
     host \<in> {''169.254.169.254'', ''metadata.google.internal'', ''metadata.aliyun.com'',
             ''100.100.100.200''}"

text \<open>
  \<open>nlb_hostname\<close> is \<open>url.Parse\<close> and \<open>Hostname\<close>, or the error; \<open>nlb_parse_addr\<close> is
  \<open>netip.ParseAddr\<close>; a lookup gives the addresses with their text, \<open>None\<close> for bytes that are no
  address; \<open>nlb_quote\<close> is the verb q of \<open>fmt\<close>.
\<close>

record 'w net_lib =
  nlb_hostname :: "string \<Rightarrow> string + string"
  nlb_parse_addr :: "string \<Rightarrow> ip_addr option"
  nlb_lookup :: "string \<Rightarrow> 'w \<Rightarrow> (string + (string \<times> ip_addr option) list) \<times> 'w"
  nlb_addr_text :: "ip_addr \<Rightarrow> string"
  nlb_split_host_port :: "string \<Rightarrow> string + string \<times> string"
  nlb_quote :: "string \<Rightarrow> string"

text \<open>An error that wraps \<open>ErrUnsafeResolvedHost\<close>, or another one.\<close>

datatype guard_error = UnsafeResolved string | GuardError string

definition unsafe_resolved :: "string \<Rightarrow> guard_error" where
  "unsafe_resolved t = UnsafeResolved (''http skill resolved host is not allowed: '' @ t)"

definition trim_brackets :: "string \<Rightarrow> string" where
  "trim_brackets s =
     (let bracket = (\<lambda>c. c = CHR ''['' \<or> c = CHR '']'')
      in rev (dropWhile bracket (rev (dropWhile bracket s))))"

definition reject_unsafe_http_url :: "'w net_lib \<Rightarrow> string \<Rightarrow> bool \<Rightarrow> string option" where
  "reject_unsafe_http_url N raw allow_local =
     (case nlb_hostname N raw of
        Inl err \<Rightarrow> Some err
      | Inr name \<Rightarrow>
          (let host = trim_brackets (to_lower name); q = nlb_quote N host in
           if host = '''' then Some ''http skill host is required''
           else if \<not> allow_local \<and>
                   (host = ''localhost'' \<or> has_suffix host ''.localhost'' \<or> has_suffix host ''.local'')
           then Some (''http skill host '' @ q @ '' is not allowed'')
           else if is_metadata_host host then Some (''http skill metadata host '' @ q @ '' is not allowed'')
           else
             (case nlb_parse_addr N host of
                None \<Rightarrow> None
              | Some a \<Rightarrow>
                  if is_metadata_addr a
                  then Some (''http skill metadata address '' @ q @ '' is not allowed'')
                  else if \<not> allow_local \<and> \<not> is_public_addr a
                  then Some (''http skill private address '' @ q @ '' is not allowed'')
                  else None)))"

fun check_resolved :: "'w net_lib \<Rightarrow> bool \<Rightarrow> string \<Rightarrow> (string \<times> ip_addr option) list \<Rightarrow> guard_error option" where
  "check_resolved N allow_local host [] = None"
| "check_resolved N allow_local host ((text, resolved) # rs) =
     (case resolved of
        None \<Rightarrow> Some (unsafe_resolved (''host '' @ nlb_quote N host @
                  '' resolved to invalid address '' @ nlb_quote N text))
      | Some a \<Rightarrow>
          if is_metadata_addr a then
            Some (unsafe_resolved (''host '' @ nlb_quote N host @ '' resolved to metadata address '' @
              nlb_quote N (nlb_addr_text N a)))
          else if \<not> allow_local \<and> \<not> is_public_addr a then
            Some (unsafe_resolved (''host '' @ nlb_quote N host @ '' resolved to private address '' @
              nlb_quote N (nlb_addr_text N a)))
          else check_resolved N allow_local host rs)"

definition reject_unsafe_resolved_host :: "'w net_lib \<Rightarrow> string \<Rightarrow> bool \<Rightarrow> 'w \<Rightarrow> guard_error option \<times> 'w" where
  "reject_unsafe_resolved_host N raw allow_local w =
     (case nlb_hostname N raw of
        Inl err \<Rightarrow> (Some (GuardError err), w)
      | Inr name \<Rightarrow>
          (let host = trim_brackets (to_lower name); q = nlb_quote N host in
           if host = '''' then (Some (GuardError ''http skill host is required''), w)
           else if nlb_parse_addr N host \<noteq> None then (None, w)
           else
             (case nlb_lookup N host w of
                (Inl err, w1) \<Rightarrow>
                  (Some (GuardError (''http skill host '' @ q @ '' could not be resolved: '' @ err)), w1)
              | (Inr [], w1) \<Rightarrow>
                  (Some (GuardError (''http skill host '' @ q @ '' resolved no addresses'')), w1)
              | (Inr rs, w1) \<Rightarrow> (check_resolved N allow_local host rs, w1))))"

definition safe_url_host :: "'w net_lib \<Rightarrow> string \<Rightarrow> string" where
  "safe_url_host N raw =
     (case nlb_hostname N raw of
        Inl err \<Rightarrow> ''invalid''
      | Inr name \<Rightarrow> if trim_space name = '''' then ''unknown'' else trim_space name)"

section \<open>The dialer\<close>

text \<open>The first address that is allowed, and the texts of those that were passed over.\<close>

fun pick_address :: "bool \<Rightarrow> (string \<times> ip_addr option) list \<Rightarrow> string list \<Rightarrow> string list + ip_addr" where
  "pick_address allow_local [] blocked = Inl blocked"
| "pick_address allow_local ((text, resolved) # rs) blocked =
     (case resolved of
        None \<Rightarrow> pick_address allow_local rs (blocked @ [text])
      | Some a \<Rightarrow>
          if is_metadata_addr a \<or> (\<not> allow_local \<and> \<not> is_public_addr a)
          then pick_address allow_local rs (blocked @ [text])
          else Inr a)"

text \<open>\<open>DialContext\<close> of \<open>ssrfGuardedDialer\<close>; \<open>connect\<close> is the \<open>net.Dialer\<close> it ends in.\<close>

definition guarded_dial :: "'w net_lib \<Rightarrow> bool \<Rightarrow> (ip_addr \<Rightarrow> string \<Rightarrow> 'w \<Rightarrow> (guard_error + 'c) \<times> 'w) \<Rightarrow>
    string \<Rightarrow> 'w \<Rightarrow> (guard_error + 'c) \<times> 'w" where
  "guarded_dial N allow_local connect address w =
     (case nlb_split_host_port N address of
        Inl err \<Rightarrow> (Inl (GuardError err), w)
      | Inr (host0, port) \<Rightarrow>
          (let host = trim_brackets (to_lower host0) in
           case nlb_parse_addr N host of
             Some a \<Rightarrow>
               if is_metadata_addr a \<or> (\<not> allow_local \<and> \<not> is_public_addr a)
               then (Inl (unsafe_resolved (''dial target '' @ nlb_quote N (nlb_addr_text N a) @
                       '' is not allowed'')), w)
               else connect a port w
           | None \<Rightarrow>
               (case nlb_lookup N host w of
                  (Inl err, w1) \<Rightarrow> (Inl (GuardError err), w1)
                | (Inr rs, w1) \<Rightarrow>
                    (case pick_address allow_local rs [] of
                       Inr a \<Rightarrow> connect a port w1
                     | Inl blocked \<Rightarrow>
                         if rs = [] then
                           (Inl (GuardError (''http skill host '' @ nlb_quote N host @
                              '' resolved no addresses'')), w1)
                         else
                           (Inl (unsafe_resolved (''host '' @ nlb_quote N host @
                              '' resolved only blocked addresses '' @
                              nlb_quote N (join_with '','' blocked))), w1)))))"

section \<open>Secret files\<close>

text \<open>
  \<open>filepath.Rel\<close> of two clean absolute paths: up from the base to what the two have in common, and
  down to the target. Other paths, for which it may fail, do not reach it here.
\<close>

fun common_prefix :: "string list \<Rightarrow> string list \<Rightarrow> nat" where
  "common_prefix (a # as) (b # bs) = (if a = b then 1 + common_prefix as bs else 0)"
| "common_prefix as bs = 0"

definition rel_path :: "string \<Rightarrow> string \<Rightarrow> string" where
  "rel_path base target =
     (let b = clean_elements True base; t = clean_elements True target; n = common_prefix b t;
          r = replicate (length b - n) ''..'' @ drop n t
      in if r = [] then ''.'' else join_with [slash] r)"

definition path_within_root :: "string \<Rightarrow> string \<Rightarrow> bool" where
  "path_within_root path root =
     (let rel = rel_path root path
      in rel = ''.'' \<or> (rel \<noteq> ''..'' \<and> \<not> has_prefix rel ''../''))"

text \<open>\<open>getenv\<close> is the environment.\<close>

definition secret_file_roots :: "(string \<Rightarrow> string) \<Rightarrow> string list" where
  "secret_file_roots getenv =
     (let raw = getenv ''NICEAGENT_SECRET_FILE_ROOTS'';
          raw = (if trim_space raw = '''' then ''/var/run/secrets,/run/secrets'' else raw)
      in filter (\<lambda>root. root \<noteq> ''.'' \<and> is_abs root)
           (map (\<lambda>item. clean_path (trim_space item)) (split_on CHR '','' raw)))"

text \<open>\<open>slb_eval\<close> is \<open>EvalSymlinks\<close>; \<open>slb_read\<close> opens a file and reads at most so many bytes.\<close>

record secret_lib =
  slb_getenv :: "string \<Rightarrow> string"
  slb_eval :: "string \<Rightarrow> string option"
  slb_read :: "string \<Rightarrow> nat \<Rightarrow> string + string"
  slb_quote :: "string \<Rightarrow> string"

definition resolved_path :: "secret_lib \<Rightarrow> string \<Rightarrow> string" where
  "resolved_path S path = clean_path (case slb_eval S path of Some p \<Rightarrow> p | None \<Rightarrow> path)"

definition secret_unwired :: string where
  "secret_unwired = ''secret_ref resolver is not configured''"

definition ensure_allowed_secret_file :: "secret_lib \<Rightarrow> string \<Rightarrow> string option" where
  "ensure_allowed_secret_file S path =
     (let roots = secret_file_roots (slb_getenv S) in
      if roots = [] then Some secret_unwired
      else if list_ex (\<lambda>root. path_within_root path root \<and>
                path_within_root (resolved_path S path) (resolved_path S root)) roots
      then None
      else Some (''secret file path '' @ slb_quote S path @ '' is outside configured secret roots''))"

definition max_secret_file_bytes :: nat where "max_secret_file_bytes = 65536"

definition resolve_file_secret_ref :: "secret_lib \<Rightarrow> string \<Rightarrow> string + string" where
  "resolve_file_secret_ref S ref =
     (let raw = trim_space (trim_prefix ref ''file://'') in
      if raw = '''' then Inl secret_unwired
      else
        (let raw = (if has_prefix raw ''localhost/'' then trim_prefix raw ''localhost'' else raw) in
         if \<not> is_abs raw then Inl (''secret_ref '' @ ref @ '' must use an absolute file path'')
         else
           (let path = clean_path raw in
            case ensure_allowed_secret_file S path of
              Some err \<Rightarrow> Inl err
            | None \<Rightarrow>
                (case slb_read S path (max_secret_file_bytes + 1) of
                   Inl err \<Rightarrow> Inl (''secret_ref '' @ ref @ err)
                 | Inr data \<Rightarrow>
                     if length data > max_secret_file_bytes
                     then Inl (''secret_ref '' @ ref @ '' exceeds 65536 bytes'')
                     else if trim_space data = '''' then Inl (''secret_ref '' @ ref @ '' is empty'')
                     else Inr (trim_space data)))))"

definition resolve_secret :: "secret_lib \<Rightarrow> string \<Rightarrow> string \<Rightarrow> string + string" where
  "resolve_secret S encrypted secret_ref =
     (if trim_space encrypted \<noteq> '''' then Inr encrypted
      else
        (let ref = trim_space secret_ref in
         if has_prefix ref ''env://'' then
           (let name = trim_space (trim_prefix ref ''env://'') in
            if name = '''' then Inl secret_unwired
            else if trim_space (slb_getenv S name) \<noteq> '''' then Inr (trim_space (slb_getenv S name))
            else Inl (''secret_ref '' @ ref @ '' is not available in environment''))
         else if has_prefix ref ''file://'' then resolve_file_secret_ref S ref
         else if ref \<noteq> '''' then Inl secret_unwired
         else Inl ''secret material is missing''))"

end
