(* ===== verification/Mcp_Import.thy ===== *)
theory Mcp_Import
  imports Skill_Config
begin

text \<open>
  Skills made from the tools of an MCP server: packages/common/skillmanifest/mcp_import.go. The
  document comes decoded, a JSON object as its list of members; the library of \<open>Skill_Config\<close>
  parses URLs and checks schemas. \<open>mlb_json\<close> is \<open>json.Marshal\<close> of an object, \<open>mlb_config_json\<close>
  of a configuration, \<open>mlb_quote\<close> the verb q of \<open>fmt\<close>.
\<close>

record mcp_tool =
  mct_name :: string
  mct_description :: string
  mct_input_schema :: metadata
  mct_output_schema :: metadata
  mct_annotations :: metadata

record mcp_document =
  mcd_tools :: "mcp_tool list"
  mcd_result :: "mcp_tool list option"

record mcp_candidate =
  mcc_name :: string
  mcc_description :: string
  mcc_input_schema :: string
  mcc_output_schema :: string
  mcc_annotations :: string
  mcc_read_only_hint :: bool
  mcc_destructive :: bool
  mcc_idempotent :: bool
  mcc_open_world :: bool

record mcp_import_input =
  mci_document :: string
  mci_tool_name :: string
  mci_server_url :: string
  mci_name :: string
  mci_description :: string
  mci_auth_type :: string
  mci_bearer_token :: string
  mci_bearer_token_secret_ref :: string
  mci_timeout_seconds :: int
  mci_retry_max_attempts :: int
  mci_rate_limit_per_minute :: int

record mcp_config =
  mcf_type :: string
  mcf_server_url :: string
  mcf_tool_name :: string
  mcf_timeout_seconds :: int
  mcf_auth_type :: string
  mcf_retry :: http_retry_config
  mcf_requests_per_minute :: int
  mcf_protocol_hint :: string
  mcf_structured_output :: bool

record mcp_lib =
  mlb_document :: "string \<Rightarrow> string + mcp_document"
  mlb_json :: "metadata \<Rightarrow> string + string"
  mlb_config_json :: "mcp_config \<Rightarrow> string"
  mlb_quote :: "string \<Rightarrow> string"

definition default_mcp_timeout :: int where "default_mcp_timeout = 15"

section \<open>The tools of a document\<close>

definition annotation_bool :: "metadata \<Rightarrow> string \<Rightarrow> bool" where
  "annotation_bool m key = (map_of m key = Some (VBool True))"

definition marshal_mcp_map :: "mcp_lib \<Rightarrow> metadata \<Rightarrow> string + string" where
  "marshal_mcp_map M value = (if value = [] then Inr '''' else mlb_json M value)"

definition marshal_mcp_map_or_default :: "mcp_lib \<Rightarrow> metadata \<Rightarrow> string \<Rightarrow> string + string" where
  "marshal_mcp_map_or_default M value fallback = (if value = [] then Inr fallback else marshal_mcp_map M value)"

fun preview_loop :: "mcp_lib \<Rightarrow> mcp_tool list \<Rightarrow> string set \<Rightarrow> mcp_candidate list \<Rightarrow>
    string + mcp_candidate list" where
  "preview_loop M [] seen candidates = Inr candidates"
| "preview_loop M (t # ts) seen candidates =
     (let name = trim_space (mct_name t) in
      if name = '''' then Inl ''mcp tool name is required''
      else if name \<in> seen then Inl (''duplicate mcp tool name '' @ mlb_quote M name)
      else case marshal_mcp_map_or_default M (mct_input_schema t) open_schema of
        Inl err \<Rightarrow> Inl (''invalid inputSchema for mcp tool '' @ mlb_quote M name @ '': '' @ err)
      | Inr input_schema \<Rightarrow>
          (case marshal_mcp_map M (mct_output_schema t) of
             Inl err \<Rightarrow> Inl (''invalid outputSchema for mcp tool '' @ mlb_quote M name @ '': '' @ err)
           | Inr output_schema \<Rightarrow>
               (case marshal_mcp_map M (mct_annotations t) of
                  Inl err \<Rightarrow> Inl (''invalid annotations for mcp tool '' @ mlb_quote M name @ '': '' @ err)
                | Inr annotations \<Rightarrow>
                    preview_loop M ts (insert name seen) (candidates @
                      [\<lparr>mcc_name = name, mcc_description = trim_space (mct_description t),
                        mcc_input_schema = input_schema, mcc_output_schema = output_schema,
                        mcc_annotations = annotations,
                        mcc_read_only_hint = annotation_bool (mct_annotations t) ''readOnlyHint'',
                        mcc_destructive = annotation_bool (mct_annotations t) ''destructiveHint'',
                        mcc_idempotent = annotation_bool (mct_annotations t) ''idempotentHint'',
                        mcc_open_world = annotation_bool (mct_annotations t) ''openWorldHint''\<rparr>]))))"

definition preview_mcp_tools :: "mcp_lib \<Rightarrow> string \<Rightarrow> string + mcp_candidate list" where
  "preview_mcp_tools M document =
     (let document = trim_space document in
      if document = '''' then Inl ''mcp document is required''
      else case mlb_document M document of
        Inl err \<Rightarrow> Inl (''invalid MCP JSON document: '' @ err)
      | Inr parsed \<Rightarrow>
          (let tools = (if mcd_tools parsed = []
                        then (case mcd_result parsed of Some ts \<Rightarrow> ts | None \<Rightarrow> []) else mcd_tools parsed)
           in if tools = [] then Inl ''mcp document must contain tools or result.tools''
              else preview_loop M tools {} []))"

definition select_mcp_candidate :: "mcp_candidate list \<Rightarrow> string \<Rightarrow> string + mcp_candidate" where
  "select_mcp_candidate candidates tool_name =
     (let tool_name = trim_space tool_name in
      if tool_name = '''' then Inl ''tool_name is required''
      else case List.find (\<lambda>c. mcc_name c = tool_name) candidates of
        Some c \<Rightarrow> Inr c
      | None \<Rightarrow> Inl ''selected MCP tool was not found'')"

definition mcp_risk :: "mcp_candidate \<Rightarrow> skill_risk" where
  "mcp_risk c =
     (if mcc_destructive c then SkillRiskHigh
      else if mcc_open_world c then SkillRiskMedium else SkillRiskLow)"

section \<open>The configuration\<close>

definition validate_mcp_config :: "manifest_lib \<Rightarrow> mcp_config \<Rightarrow> string option" where
  "validate_mcp_config lib c =
     (if mcf_type c \<noteq> '''' \<and> mcf_type c \<noteq> ''mcp'' then Some ''runtime_config.type must be mcp''
      else if mcf_tool_name c = '''' then Some ''tool_name is required''
      else case lib_parse_url lib (mcf_server_url c) of
        None \<Rightarrow> Some ''valid server_url is required''
      | Some parsed \<Rightarrow>
          if url_scheme parsed = '''' \<or> url_host parsed = '''' then Some ''valid server_url is required''
          else if url_scheme parsed \<noteq> ''https'' then Some ''server_url scheme must be https''
          else if url_user parsed then Some ''server_url must not include credentials''
          else if mcf_timeout_seconds c \<le> 0 \<or> mcf_timeout_seconds c > MaxHTTPSkillTimeoutSeconds
          then Some ''timeout_seconds must be between 1 and 60''
          else if mcf_auth_type c \<noteq> ''none'' \<and> mcf_auth_type c \<noteq> ''bearer''
          then Some ''auth_type must be none or bearer''
          else if rtc_max_attempts (mcf_retry c) \<le> 0 \<or>
                  rtc_max_attempts (mcf_retry c) > MaxHTTPRetryAttempts
          then Some ''retry.max_attempts must be between 1 and 5''
          else if mcf_requests_per_minute c < 0 \<or>
                  mcf_requests_per_minute c > MaxHTTPRateLimitPerMinute
          then Some ''rate_limit.requests_per_minute must be between 0 and 600''
          else None)"

definition default_mcp_config :: "mcp_config \<Rightarrow> mcp_config" where
  "default_mcp_config c =
     c\<lparr>mcf_timeout_seconds := (if mcf_timeout_seconds c \<le> 0 then default_mcp_timeout else mcf_timeout_seconds c),
       mcf_auth_type := (if mcf_auth_type c = '''' then ''none'' else mcf_auth_type c),
       mcf_retry := normalize_http_retry_config (mcf_retry c)\<rparr>"

definition new_mcp_config :: "manifest_lib \<Rightarrow> mcp_import_input \<Rightarrow> mcp_candidate \<Rightarrow> string + mcp_config" where
  "new_mcp_config lib input candidate =
     (let c = default_mcp_config
            \<lparr>mcf_type = ''mcp'', mcf_server_url = trim_space (mci_server_url input),
             mcf_tool_name = trim_space (first_non_blank [mci_tool_name input, mcc_name candidate]),
             mcf_timeout_seconds = mci_timeout_seconds input,
             mcf_auth_type = trim_space (mci_auth_type input),
             mcf_retry = \<lparr>rtc_max_attempts = mci_retry_max_attempts input, rtc_base_delay_ms = 0,
               rtc_max_delay_ms = 0\<rparr>,
             mcf_requests_per_minute = mci_rate_limit_per_minute input,
             mcf_protocol_hint = ''http-json-rpc-tools-call'',
             mcf_structured_output = (trim_space (mcc_output_schema candidate) \<noteq> '''')\<rparr>
      in case validate_mcp_config lib c of Some err \<Rightarrow> Inl err | None \<Rightarrow> Inr c)"

definition parse_mcp_config :: "manifest_lib \<Rightarrow> (string \<Rightarrow> string + mcp_config) \<Rightarrow> string \<Rightarrow> string + mcp_config" where
  "parse_mcp_config lib decoded raw =
     (if trim_space raw = '''' then Inl ''runtime_config is required''
      else case decoded raw of
        Inl err \<Rightarrow> Inl (''invalid runtime_config json: '' @ err)
      | Inr c \<Rightarrow>
          (let c = default_mcp_config (c\<lparr>mcf_server_url := trim_space (mcf_server_url c),
                 mcf_tool_name := trim_space (mcf_tool_name c), mcf_auth_type := trim_space (mcf_auth_type c)\<rparr>)
           in case validate_mcp_config lib c of Some err \<Rightarrow> Inl err | None \<Rightarrow> Inr c))"

section \<open>The skill\<close>

text \<open>The skill, the tool it is for and its secret, if there is one. The identifiers of the skill are
  left empty; its scope, kind and status, which the code leaves empty too, are already those the
  store gives it.\<close>

definition imported_skill :: skill where
  "imported_skill =
     \<lparr>skl_id = '''', skl_slug = '''', skl_scope = SkillScopeUser, skl_kind = SkillKindMCP,
      skl_owner_user_id = '''', skl_project_id = '''', skl_status = SkillStatusEnabled,
      skl_current_version_id = '''', skl_name = '''', skl_version = '''', skl_description = '''',
      skl_risk = SkillRiskLow, skl_requires_auth = False, skl_input_schema = '''',
      skl_output_schema = '''', skl_annotations = '''', skl_runtime_config = '''', skl_enabled = False\<rparr>"

definition build_mcp_skill_input :: "manifest_lib \<Rightarrow> mcp_lib \<Rightarrow> mcp_import_input \<Rightarrow>
    string + (skill \<times> mcp_candidate \<times> runtime_secret \<times> bool)" where
  "build_mcp_skill_input lib M input =
     (case preview_mcp_tools M (mci_document input) of
        Inl err \<Rightarrow> Inl err
      | Inr candidates \<Rightarrow>
          (case select_mcp_candidate candidates (mci_tool_name input) of
             Inl err \<Rightarrow> Inl err
           | Inr candidate \<Rightarrow>
               (case new_mcp_config lib input candidate of
                  Inl err \<Rightarrow> Inl err
                | Inr cfg \<Rightarrow>
                    (let token = trim_space (mci_bearer_token input);
                         ref = trim_space (mci_bearer_token_secret_ref input) in
                     if token \<noteq> '''' \<and> ref \<noteq> ''''
                     then Inl ''bearer_token and bearer_token_secret_ref cannot both be set''
                     else if mcf_auth_type cfg = ''bearer'' \<and> token = '''' \<and> ref = ''''
                     then Inl ''bearer_token or bearer_token_secret_ref is required when auth_type is bearer''
                     else case lib_schema_error lib (mcc_input_schema candidate) of
                       Some err \<Rightarrow> Inl (''input_schema '' @ err)
                     | None \<Rightarrow>
                         (case (if trim_space (mcc_output_schema candidate) \<noteq> ''''
                                then lib_schema_error lib (mcc_output_schema candidate) else None) of
                            Some err \<Rightarrow> Inl (''output_schema '' @ err)
                          | None \<Rightarrow>
                              (let secret = \<lparr>sec_encrypted_value = token,
                                     sec_secret_ref = (if token = '''' then ref else '''')\<rparr>
                               in Inr
                                 (imported_skill\<lparr>
                                    skl_name := first_non_blank [mci_name input, mcc_name candidate],
                                    skl_version := ''1.0.0'',
                                    skl_description := first_non_blank [mci_description input,
                                      mcc_description candidate, ''Imported MCP tool.''],
                                    skl_risk := mcp_risk candidate,
                                    skl_requires_auth := (mcf_auth_type cfg = ''bearer''),
                                    skl_input_schema := mcc_input_schema candidate,
                                    skl_output_schema := mcc_output_schema candidate,
                                    skl_annotations := mcc_annotations candidate,
                                    skl_runtime_config := mlb_config_json M cfg, skl_enabled := True\<rparr>,
                                  candidate, secret,
                                  sec_encrypted_value secret \<noteq> '''' \<or> sec_secret_ref secret \<noteq> '''')))))))"

end
