(* ===== verification/Http_Skill.thy ===== *)
theory Http_Skill
  imports Net_Guard Mcp_Import Text_Replace
begin

text \<open>
  The tools of the agent runtime that call a server: HTTP skills and MCP skills
  (agent-runtime/internal/tools/http_skill.go, mcp_skill.go), and the limiters that count their
  calls (tool_bridge.go, redis_rate_limiter.go). The HTTP client is a parameter that gets the
  dialer of \<open>Net_Guard\<close>, as the client of the code does whose transport is an \<open>*http.Transport\<close>; the
  JSON codec and the validation of documents are parameters. Spans and metrics are left out.
\<close>

section \<open>Redaction (platform/redact.go)\<close>

fun redact_text_secrets :: "string \<Rightarrow> string list \<Rightarrow> string" where
  "redact_text_secrets out [] = out"
| "redact_text_secrets out (secret # secrets) =
     redact_text_secrets
       (if length (trim_space secret) < 4 then out else replace_all (trim_space secret) ''[redacted]'' out) secrets"

text \<open>\<open>tjs_decode\<close> and \<open>tjs_encode\<close> are the JSON codec of any value, \<open>tjs_validate\<close> is
  \<open>ValidateJSONDocument\<close> with the text of its error.\<close>

record http_observation =
  hob_ok :: bool
  hob_status_code :: int
  hob_error_type :: string
  hob_message :: string
  hob_retry_count :: int
  hob_data :: goval

record mcp_result =
  mrl_content :: goval
  mrl_structured :: goval
  mrl_is_error :: bool

record mcp_response =
  mcr_error :: "(int \<times> string \<times> goval) option"
  mcr_result :: "mcp_result option"

record tool_json =
  tjs_decode :: "string \<Rightarrow> string + goval"
  tjs_encode :: "goval \<Rightarrow> string option"
  tjs_validate :: "string \<Rightarrow> string \<Rightarrow> string option"
  tjs_http_config :: "string \<Rightarrow> string + http_config"
  tjs_mcp_config :: "string \<Rightarrow> string + mcp_config"
  tjs_observation :: "http_observation \<Rightarrow> string"
  tjs_mcp_observation :: "http_observation \<Rightarrow> string"
  tjs_mcp_request :: "string \<Rightarrow> string \<Rightarrow> goval \<Rightarrow> string"
  tjs_mcp_response :: "string \<Rightarrow> string + mcp_response"
  tjs_mcp_result :: "mcp_result \<Rightarrow> goval"

definition redact_json :: "tool_json \<Rightarrow> string \<Rightarrow> string" where
  "redact_json J raw =
     (case tjs_decode J raw of
        Inl _ \<Rightarrow> raw
      | Inr v \<Rightarrow> (case tjs_encode J (redact_value v) of None \<Rightarrow> raw | Some data \<Rightarrow> data))"

definition redact_http_body :: "tool_json \<Rightarrow> string \<Rightarrow> string list \<Rightarrow> string" where
  "redact_http_body J body secrets = redact_json J (redact_text_secrets body secrets)"

definition observation_data :: "tool_json \<Rightarrow> string \<Rightarrow> goval" where
  "observation_data J body =
     (if trim_space body = '''' then VNil
      else case tjs_decode J body of Inr v \<Rightarrow> redact_value v | Inl _ \<Rightarrow> VStr body)"

section \<open>Requests\<close>

text \<open>What the code asks of an error of the client, and its text.\<close>

record client_error =
  cle_unsafe :: bool
  cle_timeout :: bool
  cle_dns :: bool
  cle_tls :: bool
  cle_text :: string

datatype ctx_state = CtxAlive | CtxDeadline | CtxCanceled

record skill_request =
  srq_method :: string
  srq_url :: string
  srq_body :: "string option"
  srq_authorization :: string

text \<open>\<open>skr_read n\<close> reads at most \<open>n\<close> bytes of the body.\<close>

record skill_response =
  skr_status_code :: int
  skr_retry_after :: string
  skr_read :: "nat \<Rightarrow> client_error + string"

text \<open>
  The bridge and what is around it. \<open>tbr_ctx\<close> is the state of the context with the timeout of the
  skill; \<open>tbr_client\<close> sends a request over a dialer; \<open>tbr_allow\<close> is the rate limiter, if there is one.
\<close>

record ('c, 'w) tool_env =
  tbr_net :: "'w net_lib"
  tbr_manifest :: manifest_lib
  tbr_json :: tool_json
  tbr_allow_local :: bool
  tbr_connect :: "ip_addr \<Rightarrow> string \<Rightarrow> 'w \<Rightarrow> (guard_error + 'c) \<times> 'w"
  tbr_client :: "(string \<Rightarrow> 'w \<Rightarrow> (guard_error + 'c) \<times> 'w) \<Rightarrow> skill_request \<Rightarrow> 'w \<Rightarrow>
    (client_error + skill_response) \<times> 'w"
  tbr_new_request :: "string \<Rightarrow> string \<Rightarrow> client_error option"
  tbr_query_escape :: "string \<Rightarrow> string"
  tbr_ctx :: "'w \<Rightarrow> ctx_state"
  tbr_wait :: "duration \<Rightarrow> 'w \<Rightarrow> client_error option \<times> 'w"
  tbr_clock :: "'w \<Rightarrow> gtime"
  tbr_parse_time :: "string \<Rightarrow> gtime option"
  tbr_backoff :: "duration \<Rightarrow> nat \<Rightarrow> duration"
  tbr_allow :: "(string \<Rightarrow> int \<Rightarrow> 'w \<Rightarrow> bool \<times> 'w) option"
  tbr_resolve :: "runtime_secret \<Rightarrow> string + string"

text \<open>The address a dialer is asked for; the client of the skill has the guarded one.\<close>

definition skill_client :: "('c, 'w) tool_env \<Rightarrow> skill_request \<Rightarrow> 'w \<Rightarrow> (client_error + skill_response) \<times> 'w" where
  "skill_client B = tbr_client B (guarded_dial (tbr_net B) (tbr_allow_local B) (tbr_connect B))"

definition classify_client_error :: "ctx_state \<Rightarrow> client_error \<Rightarrow> string" where
  "classify_client_error ctx e =
     (if cle_unsafe e then ''ssrf_rejected''
      else if ctx = CtxDeadline then ''upstream_timeout''
      else if ctx = CtxCanceled then ''upstream_canceled''
      else if cle_timeout e then ''upstream_timeout''
      else if cle_dns e then ''upstream_dns''
      else if cle_tls e then ''upstream_tls''
      else ''upstream_network_error'')"

definition should_retry_skill :: "ctx_state \<Rightarrow> client_error + skill_response \<Rightarrow> bool" where
  "should_retry_skill ctx outcome =
     (if ctx \<noteq> CtxAlive then False
      else case outcome of
        Inl e \<Rightarrow> classify_client_error ctx e \<in> {''upstream_timeout'', ''upstream_network_error''}
      | Inr r \<Rightarrow> skr_status_code r \<in> {429, 500, 502, 503, 504})"

definition skill_retry_after :: "('c, 'w) tool_env \<Rightarrow> string \<Rightarrow> 'w \<Rightarrow> duration" where
  "skill_retry_after B value w =
     (let value = trim_space value;
          (seconds, ok) = parse_int64 value
      in if value = '''' then 0
         else if ok \<and> 0 < seconds then wrap64 (seconds * time_second)
         else case tbr_parse_time B value of Some t \<Rightarrow> time_sub t (tbr_clock B w) | None \<Rightarrow> 0)"

text \<open>\<open>tbr_backoff base n\<close> is \<open>time.Duration(float64(base) * math.Pow(2, n))\<close>.\<close>

definition http_retry_delay :: "('c, 'w) tool_env \<Rightarrow> http_retry_config \<Rightarrow> nat \<Rightarrow>
    client_error + skill_response \<Rightarrow> 'w \<Rightarrow> duration" where
  "http_retry_delay B cfg attempt outcome w =
     (let max_delay = wrap64 (rtc_max_delay_ms cfg * 1000000);
          max_delay = (if max_delay \<le> 0 then DefaultHTTPRetryMaxDelayMS * 1000000 else max_delay);
          asked = (case outcome of Inl _ \<Rightarrow> 0 | Inr r \<Rightarrow> skill_retry_after B (skr_retry_after r) w)
      in if 0 < asked then min asked max_delay
         else
           (let base = wrap64 (rtc_base_delay_ms cfg * 1000000);
                base = (if base \<le> 0 then DefaultHTTPRetryBaseDelayMS * 1000000 else base)
            in min (tbr_backoff B base (attempt - 1)) max_delay))"

definition skill_sleep :: "('c, 'w) tool_env \<Rightarrow> duration \<Rightarrow> 'w \<Rightarrow> client_error option \<times> 'w" where
  "skill_sleep B d w = (if d \<le> 0 then (None, w) else tbr_wait B d w)"

definition build_skill_request :: "('c, 'w) tool_env \<Rightarrow> http_config \<Rightarrow> string \<Rightarrow> string \<Rightarrow>
    client_error + skill_request" where
  "build_skill_request B cfg args token =
     (let is_get = (hcf_method cfg = ''GET'');
          url = (if is_get
                 then hcf_url cfg @ (if contains (hcf_url cfg) ''?'' then ''&'' else ''?'') @ ''input='' @
                   tbr_query_escape B args
                 else hcf_url cfg)
      in case tbr_new_request B (hcf_method cfg) url of
           Some err \<Rightarrow> Inl err
         | None \<Rightarrow>
             Inr \<lparr>srq_method = hcf_method cfg, srq_url = url,
                  srq_body = (if is_get then None else Some args),
                  srq_authorization = (if token \<noteq> '''' then ''Bearer '' @ token else '''')\<rparr>)"

text \<open>\<open>doHTTPSkillRequest\<close>: \<open>left\<close> is \<open>maxAttempts - attempt\<close>; the number of repeats is returned too.\<close>

function skill_request_loop :: "('c, 'w) tool_env \<Rightarrow> http_config \<Rightarrow> string \<Rightarrow> string \<Rightarrow> nat \<Rightarrow> nat \<Rightarrow> int \<Rightarrow> 'w \<Rightarrow>
    (client_error + skill_response) \<times> int \<times> 'w" where
  "skill_request_loop B cfg args token attempt left retries w =
     (case build_skill_request B cfg args token of
        Inl err \<Rightarrow> (Inl err, retries, w)
      | Inr rq \<Rightarrow>
          (case skill_client B rq w of (outcome, w1) \<Rightarrow>
             if \<not> should_retry_skill (tbr_ctx B w1) outcome \<or> left = 0 then (outcome, retries, w1)
             else
               (case skill_sleep B (http_retry_delay B (hcf_retry cfg) attempt outcome w1) w1 of
                  (Some err, w2) \<Rightarrow>
                    (Inl (case outcome of Inl e \<Rightarrow> e | Inr _ \<Rightarrow> err), retries + 1, w2)
                | (None, w2) \<Rightarrow>
                    skill_request_loop B cfg args token (attempt + 1) (left - 1) (retries + 1) w2)))"
  by pat_completeness auto
termination
  by (relation "measure (\<lambda>(B, cfg, args, token, attempt, left, retries, w). left)") auto

declare skill_request_loop.simps [simp del]

definition do_http_skill_request :: "('c, 'w) tool_env \<Rightarrow> http_config \<Rightarrow> string \<Rightarrow> string \<Rightarrow> 'w \<Rightarrow>
    (client_error + skill_response) \<times> int \<times> 'w" where
  "do_http_skill_request B cfg args token w =
     (let n = rtc_max_attempts (hcf_retry cfg); n = (if n \<le> 0 then 1 else n)
      in skill_request_loop B cfg args token 1 (nat n - 1) 0 w)"

definition max_skill_response_bytes :: nat where "max_skill_response_bytes = 65536"

definition read_limited_response :: "skill_response \<Rightarrow> nat \<Rightarrow> string \<times> bool \<times> client_error option" where
  "read_limited_response r limit =
     (case skr_read r (limit + 1) of
        Inl err \<Rightarrow> ('''', False, Some err)
      | Inr data \<Rightarrow>
          if limit < length data then (take limit data, True, None) else (data, False, None))"

section \<open>An invocation (\<open>invokeHTTP\<close>)\<close>

text \<open>\<open>skill_observation\<close> has the fields a refusal sets; the code's second result says whether the
  skill succeeded, its error is always nil. \<open>refusal\<close> is an observation before any answer.\<close>

definition skill_observation :: "int \<Rightarrow> string \<Rightarrow> int \<Rightarrow> string \<Rightarrow> goval \<Rightarrow> http_observation" where
  "skill_observation status error_type retries msg data =
     \<lparr>hob_ok = False, hob_status_code = status, hob_error_type = error_type, hob_message = msg,
      hob_retry_count = retries, hob_data = data\<rparr>"

definition refusal :: "string \<Rightarrow> string \<Rightarrow> http_observation" where
  "refusal error_type msg = skill_observation 0 error_type 0 msg VNil"

definition allow_skill :: "('c, 'w) tool_env \<Rightarrow> skill \<Rightarrow> string \<Rightarrow> int \<Rightarrow> 'w \<Rightarrow> bool \<times> 'w" where
  "allow_skill B k url limit w =
     (if limit \<le> 0 then (True, w)
      else case tbr_allow B of
        None \<Rightarrow> (True, w)
      | Some allow \<Rightarrow>
          (let key = (if skl_id k = '''' then safe_url_host (tbr_net B) url else skl_id k)
           in allow key limit w))"

definition guard_text :: "guard_error \<Rightarrow> string" where
  "guard_text e = (case e of UnsafeResolved t \<Rightarrow> t | GuardError t \<Rightarrow> t)"

definition guard_type :: "guard_error \<Rightarrow> string" where
  "guard_type e = (case e of UnsafeResolved t \<Rightarrow> ''ssrf_rejected'' | GuardError t \<Rightarrow> ''upstream_dns'')"

text \<open>What comes before the request is the same for the two kinds of skill but for the words: the
  checks of the URL, of the addresses of its host and of the limiter.\<close>

definition skill_gate :: "('c, 'w) tool_env \<Rightarrow> string \<Rightarrow> skill \<Rightarrow> string \<Rightarrow> int \<Rightarrow> 'w \<Rightarrow>
    http_observation option \<times> 'w" where
  "skill_gate B kind k url limit w =
     (case reject_unsafe_http_url (tbr_net B) url (tbr_allow_local B) of
        Some err \<Rightarrow> (Some (refusal ''ssrf_rejected'' err), w)
      | None \<Rightarrow>
          (case reject_unsafe_resolved_host (tbr_net B) url (tbr_allow_local B) w of
             (Some err, w1) \<Rightarrow> (Some (refusal (guard_type err) (guard_text err)), w1)
           | (None, w1) \<Rightarrow>
               (case allow_skill B k url limit w1 of
                  (True, w2) \<Rightarrow> (None, w2)
                | (False, w2) \<Rightarrow>
                    (Some (refusal ''rate_limited''
                       (kind @ '' skill rate limit exceeded: '' @ itoa limit @ '' requests per minute'')), w2))))"

definition skill_token :: "('c, 'w) tool_env \<Rightarrow> string \<Rightarrow> runtime_skill \<Rightarrow> string \<Rightarrow>
    http_observation + string \<times> string list" where
  "skill_token B kind rs auth_type =
     (if auth_type = ''bearer'' then
        (case tbr_resolve B (secret_material rs ''bearer_token'') of
           Inl err \<Rightarrow> Inl (refusal ''secret_unresolved'' (kind @ '' skill bearer token is not available: '' @ err))
         | Inr token \<Rightarrow> Inr (token, [token]))
      else Inr ('''', []))"

definition http_answer :: "('c, 'w) tool_env \<Rightarrow> skill \<Rightarrow> string list \<Rightarrow> int \<Rightarrow> ctx_state \<Rightarrow>
    client_error + skill_response \<Rightarrow> http_observation \<times> bool" where
  "http_answer B k secrets retries ctx outcome =
     (let J = tbr_json B in
      case outcome of
        Inl err \<Rightarrow>
          (skill_observation 0 (classify_client_error ctx err) retries
             (''HTTP skill request failed: '' @ redact_text_secrets (cle_text err) secrets) VNil, False)
      | Inr r \<Rightarrow>
          (let (body, too_large, read_err) = read_limited_response r max_skill_response_bytes;
               body = redact_http_body J body secrets; status = skr_status_code r
           in case read_err of
                Some err \<Rightarrow>
                  (skill_observation status ''upstream_read_error'' retries
                     (''HTTP skill response could not be read: '' @ redact_text_secrets (cle_text err) secrets)
                     VNil, False)
              | None \<Rightarrow>
                  if too_large then
                    (skill_observation status ''response_too_large'' retries
                       ''HTTP skill response exceeded 65536 bytes'' VNil, False)
                  else
                    (let data = observation_data J body in
                     if status < 200 \<or> 300 \<le> status then
                       (skill_observation status ''upstream_status'' retries
                          (''HTTP skill returned status '' @ itoa status) data, False)
                     else
                       (case (if trim_space (skl_output_schema k) \<noteq> ''''
                              then tjs_validate J (skl_output_schema k) body else None) of
                          Some err \<Rightarrow>
                            (skill_observation status ''invalid_output'' retries
                               (''HTTP skill response does not match output_schema: '' @ err) data, False)
                        | None \<Rightarrow>
                            (\<lparr>hob_ok = True, hob_status_code = status, hob_error_type = '''', hob_message = '''',
                              hob_retry_count = retries, hob_data = data\<rparr>, True)))))"

definition invoke_http :: "('c, 'w) tool_env \<Rightarrow> runtime_skill \<Rightarrow> string \<Rightarrow> 'w \<Rightarrow> (string \<times> bool) \<times> 'w" where
  "invoke_http B rs args w =
     (let k = rsk_skill rs; J = tbr_json B; tell = (\<lambda>obs. (tjs_observation J obs, False)) in
      case tjs_validate J (skl_input_schema k) args of
        Some err \<Rightarrow>
          (tell (refusal ''invalid_arguments''
             (''HTTP skill arguments do not match input_schema: '' @ err)), w)
      | None \<Rightarrow>
      case tjs_http_config J (skl_runtime_config k) of
        Inl err \<Rightarrow> (tell (refusal ''invalid_runtime_config'' err), w)
      | Inr cfg \<Rightarrow>
      case skill_gate B ''HTTP'' k (hcf_url cfg) (hcf_requests_per_minute cfg) w of
        (Some obs, w1) \<Rightarrow> (tell obs, w1)
      | (None, w1) \<Rightarrow>
      case skill_token B ''HTTP'' rs (hcf_auth_type cfg) of
        Inl obs \<Rightarrow> (tell obs, w1)
      | Inr (token, secrets) \<Rightarrow>
      case do_http_skill_request B cfg args token w1 of
        (outcome, retries, w2) \<Rightarrow>
          (case http_answer B k secrets retries (tbr_ctx B w2) outcome of
             (obs, ok) \<Rightarrow> ((tjs_observation J obs, ok), w2)))"

section \<open>An MCP call (\<open>invokeMCP\<close>)\<close>

text \<open>The observation of an MCP skill has no retry count. \<open>RedactValue\<close> leaves a pointer to a result
  as it is; the body it was decoded from is redacted already.\<close>

definition mcp_decoded :: "('c, 'w) tool_env \<Rightarrow> skill \<Rightarrow> int \<Rightarrow> string \<Rightarrow> http_observation \<times> bool" where
  "mcp_decoded B k status body =
     (let J = tbr_json B in
      case tjs_mcp_response J body of
        Inl err \<Rightarrow>
          (skill_observation status ''invalid_response'' 0
             (''MCP response is not valid JSON-RPC: '' @ err) (observation_data J body), False)
      | Inr decoded \<Rightarrow>
      case mcr_error decoded of
        Some (code, msg, data) \<Rightarrow>
          (skill_observation status ''mcp_error'' 0
             (''MCP JSON-RPC error '' @ itoa code @ '': '' @ msg) (redact_value data), False)
      | None \<Rightarrow>
      case mcr_result decoded of
        None \<Rightarrow> (skill_observation status ''invalid_response'' 0 ''MCP response missing result'' VNil, False)
      | Some r \<Rightarrow>
          (case (if trim_space (skl_output_schema k) \<noteq> '''' \<and> mrl_structured r \<noteq> VNil
                 then tjs_validate J (skl_output_schema k)
                        (case tjs_encode J (mrl_structured r) of None \<Rightarrow> '''' | Some data \<Rightarrow> data)
                 else None) of
             Some err \<Rightarrow>
               (skill_observation status ''invalid_output'' 0
                  (''MCP structuredContent does not match output_schema: '' @ err) (tjs_mcp_result J r), False)
           | None \<Rightarrow>
               (\<lparr>hob_ok = \<not> mrl_is_error r, hob_status_code = status,
                 hob_error_type = (if mrl_is_error r then ''mcp_tool_error'' else ''''),
                 hob_message = (if mrl_is_error r then ''MCP tool returned an error result.'' else ''''),
                 hob_retry_count = 0, hob_data = tjs_mcp_result J r\<rparr>, \<not> mrl_is_error r)))"

definition mcp_answer :: "('c, 'w) tool_env \<Rightarrow> skill \<Rightarrow> string list \<Rightarrow> ctx_state \<Rightarrow>
    client_error + skill_response \<Rightarrow> http_observation \<times> bool" where
  "mcp_answer B k secrets ctx outcome =
     (case outcome of
        Inl err \<Rightarrow>
          (skill_observation 0 (classify_client_error ctx err) 0
             (''MCP skill request failed: '' @ redact_text_secrets (cle_text err) secrets) VNil, False)
      | Inr r \<Rightarrow>
          (let (body, too_large, read_err) = read_limited_response r max_skill_response_bytes;
               body = redact_http_body (tbr_json B) body secrets; status = skr_status_code r
           in case read_err of
                Some err \<Rightarrow>
                  (skill_observation status ''upstream_read_error'' 0
                     (''MCP response could not be read: '' @ redact_text_secrets (cle_text err) secrets)
                     VNil, False)
              | None \<Rightarrow>
                  if too_large then
                    (skill_observation status ''response_too_large'' 0
                       ''MCP response exceeded 65536 bytes'' VNil, False)
                  else if status < 200 \<or> 300 \<le> status then
                    (skill_observation status ''upstream_status'' 0
                       (''MCP server returned status '' @ itoa status) (observation_data (tbr_json B) body), False)
                  else mcp_decoded B k status body))"

definition invoke_mcp :: "('c, 'w) tool_env \<Rightarrow> string \<Rightarrow> runtime_skill \<Rightarrow> string \<Rightarrow> 'w \<Rightarrow> (string \<times> bool) \<times> 'w" where
  "invoke_mcp B rid rs args w =
     (let k = rsk_skill rs; J = tbr_json B; tell = (\<lambda>obs. (tjs_mcp_observation J obs, False)) in
      case tjs_validate J (skl_input_schema k) args of
        Some err \<Rightarrow>
          (tell (refusal ''invalid_arguments''
             (''MCP skill arguments do not match input_schema: '' @ err)), w)
      | None \<Rightarrow>
      case tjs_mcp_config J (skl_runtime_config k) of
        Inl err \<Rightarrow> (tell (refusal ''invalid_runtime_config'' err), w)
      | Inr cfg \<Rightarrow>
      case skill_gate B ''MCP'' k (mcf_server_url cfg) (mcf_requests_per_minute cfg) w of
        (Some obs, w1) \<Rightarrow> (tell obs, w1)
      | (None, w1) \<Rightarrow>
      case (if trim_space args \<noteq> '''' then tjs_decode J args else Inr (VMap [])) of
        Inl err \<Rightarrow>
          (tell (refusal ''invalid_arguments'' (''MCP skill arguments are not valid JSON: '' @ err)), w1)
      | Inr value \<Rightarrow>
      case skill_token B ''MCP'' rs (mcf_auth_type cfg) of
        Inl obs \<Rightarrow> (tell obs, w1)
      | Inr (token, secrets) \<Rightarrow>
      case tbr_new_request B ''POST'' (mcf_server_url cfg) of
        Some err \<Rightarrow> (tell (refusal ''invalid_runtime_config'' (cle_text err)), w1)
      | None \<Rightarrow>
      case skill_client B
             \<lparr>srq_method = ''POST'', srq_url = mcf_server_url cfg,
              srq_body = Some (tjs_mcp_request J (''niceagent-'' @ rid) (mcf_tool_name cfg) value),
              srq_authorization = (if token \<noteq> '''' then ''Bearer '' @ token else '''')\<rparr> w1 of
        (outcome, w2) \<Rightarrow>
          (case mcp_answer B k secrets (tbr_ctx B w2) outcome of
             (obs, ok) \<Rightarrow> ((tjs_mcp_observation J obs, ok), w2)))"


end
