(* ===== verification/Tool_Bridge.thy ===== *)
theory Tool_Bridge
  imports Http_Skill Runtime_Sink
begin

text \<open>
  The bridge between the skills of a run and the tools of the agent
  (agent-runtime/internal/tools/tool_bridge.go): which tools a run gets, the risk policy and the
  quota in front of a call, the built-in tools, and the artifacts a call leaves. The sink a tool
  reports to is a record of functions, those of the optional interfaces as options; the sandbox and
  the JSON codec are parameters. Spans and metrics are left out.
\<close>

section \<open>The sink of a run\<close>

record 'w run_sink =
  rsn_emit :: "string \<Rightarrow> run_event_type \<Rightarrow> string \<Rightarrow> goval \<Rightarrow> 'w \<Rightarrow> (string + unit) \<times> 'w"
  rsn_complete :: "string \<Rightarrow> string \<Rightarrow> artifact list \<Rightarrow> 'w \<Rightarrow> (string + unit) \<times> 'w"
  rsn_fail :: "string \<Rightarrow> string \<Rightarrow> 'w \<Rightarrow> (string + unit) \<times> 'w"
  rsn_is_canceled :: "string \<Rightarrow> 'w \<Rightarrow> bool \<times> 'w"
  rsn_complete_with_usage ::
    "(string \<Rightarrow> string \<Rightarrow> run_usage \<Rightarrow> artifact list \<Rightarrow> 'w \<Rightarrow> (string + unit) \<times> 'w) option"
  rsn_workspace :: "((string \<Rightarrow> 'w \<Rightarrow> (string + artifact list) \<times> 'w) \<times>
    (string \<Rightarrow> string \<Rightarrow> int \<Rightarrow> 'w \<Rightarrow> (string + artifact_text) \<times> 'w)) option"
  rsn_register :: "(string \<Rightarrow> artifact list \<Rightarrow> 'w \<Rightarrow> (string + artifact list) \<times> 'w) option"
  rsn_quota :: "(string \<Rightarrow> quota_body \<Rightarrow> 'w \<Rightarrow> (string + tool_quota_answer) \<times> 'w) option"

text \<open>\<open>ControlPlaneSink\<close> has every one of them.\<close>

definition control_plane_run_sink :: "'p network \<Rightarrow> sink_codec \<Rightarrow> control_plane_sink \<Rightarrow> 'p run_sink" where
  "control_plane_run_sink N C k =
     \<lparr>rsn_emit = runtime_emit N C k,
      rsn_complete = runtime_complete N C k,
      rsn_fail = runtime_fail N C k,
      rsn_is_canceled = runtime_is_canceled N C k,
      rsn_complete_with_usage = Some (runtime_complete_with_usage N C k),
      rsn_workspace = Some (runtime_list_artifacts N C k, runtime_read_artifact_text N C k),
      rsn_register = Some (runtime_register_artifacts N C k),
      rsn_quota = Some (runtime_reserve_tool_quota N C k)\<rparr>"

text \<open>Events are reported without regard to the outcome.\<close>

definition tell :: "'w run_sink \<Rightarrow> string \<Rightarrow> run_event_type \<Rightarrow> string \<Rightarrow> metadata \<Rightarrow> 'w \<Rightarrow> 'w" where
  "tell S rid etype msg payload w = snd (rsn_emit S rid etype msg (VMap payload) w)"

section \<open>Sandbox commands\<close>

record sandbox_command =
  scm_run_id :: string
  scm_workspace_id :: string
  scm_command :: "string list"
  scm_env :: "(string \<times> string) list"
  scm_timeout_seconds :: int
  scm_network :: bool
  scm_max_output_bytes :: int
  scm_workspace_root :: string

text \<open>\<open>sandbox_result\<close> has the fields the local dispatcher reads; these are all of them.\<close>

record sandbox_report = sandbox_result +
  sbr_run_id :: string
  sbr_duration :: string
  sbr_truncated :: bool
  sbr_approval_required :: bool
  sbr_reason :: string
  sbr_policy :: string
  sbr_command :: "string list"
  sbr_audit_id :: string
  sbr_cpu_millis :: int
  sbr_memory_max_bytes :: int
  sbr_created :: "string list"
  sbr_updated :: "string list"
  sbr_deleted :: "string list"

record artifact_brief =
  abr_id :: string
  abr_path :: string
  abr_name :: string
  abr_mime_type :: string
  abr_size_bytes :: int
  abr_created_at :: string

record artifact_summary =
  asu_count :: int
  asu_total_size_bytes :: int
  asu_mime_type_counts :: "string \<rightharpoonup> int"
  asu_text_artifact_count :: int
  asu_latest_artifact :: "artifact_brief option"
  asu_artifacts :: "artifact_brief list"

text \<open>
  What the codec makes of the arguments and observations: where the code ignores the error of a
  decoding, the value is what the decoder leaves behind.
\<close>

record bridge_json =
  bjs_report :: "string \<Rightarrow> sandbox_report option"
  bjs_report_text :: "sandbox_report \<Rightarrow> string option"
  bjs_object :: "metadata \<Rightarrow> string"
  bjs_command_args :: "string \<Rightarrow> string list \<times> string"
  bjs_timeout_arg :: "string \<Rightarrow> int"
  bjs_workspace_args :: "string \<Rightarrow> string \<times> string \<times> int"
  bjs_annotations :: "string \<Rightarrow> metadata"
  bjs_schema :: "string \<Rightarrow> string option"
  bjs_summary :: "string \<Rightarrow> string \<Rightarrow> artifact_summary \<Rightarrow> string"
  bjs_listing :: "artifact list \<Rightarrow> string"
  bjs_artifact_text :: "artifact_text \<Rightarrow> string"
  bjs_quote :: "string \<Rightarrow> string"
  bjs_rfc3339 :: "gtime \<Rightarrow> string"

record ('c, 'w) tool_bridge =
  brg_env :: "('c, 'w) tool_env"
  brg_sandbox :: "(sandbox_command \<Rightarrow> 'w \<Rightarrow> sandbox_report \<times> 'w) option"
  brg_risk_policy :: string
  brg_json :: bridge_json

section \<open>Names\<close>

definition tool_name_for_skill_id :: "string \<Rightarrow> string" where
  "tool_name_for_skill_id sid =
     (let name = map (\<lambda>c. if c \<in> {CHR ''.'', CHR ''-'', CHR '':''} then CHR ''_'' else c) sid
      in if name = '''' then ''unknown_skill'' else name)"

definition skill_id_for_tool_name :: "string \<Rightarrow> runtime_skill list \<Rightarrow> string" where
  "skill_id_for_tool_name name skills =
     (case List.find (\<lambda>k. tool_name_for_skill_id (skl_id (rsk_skill k)) = name) skills of
        Some k \<Rightarrow> skl_id (rsk_skill k)
      | None \<Rightarrow> name)"

record tool_definition =
  tdf_id :: string
  tdf_name :: string
  tdf_description :: string
  tdf_input_schema :: string
  tdf_risk :: skill_risk

text \<open>\<open>toolInfoForSkill\<close>: the name, or the error of the schema.\<close>

definition tool_info_for_skill :: "bridge_json \<Rightarrow> skill \<Rightarrow> string + string" where
  "tool_info_for_skill J k =
     (case (if skl_input_schema k \<noteq> '''' then bjs_schema J (skl_input_schema k) else None) of
        Some err \<Rightarrow> Inl (''invalid input schema for '' @ skl_id k @ '': '' @ err)
      | None \<Rightarrow> Inr (tool_name_for_skill_id (skl_id k)))"

fun bridge_definitions :: "bridge_json \<Rightarrow> runtime_skill list \<Rightarrow> string + tool_definition list" where
  "bridge_definitions J [] = Inr []"
| "bridge_definitions J (rs # rss) =
     (let k = rsk_skill rs in
      case tool_info_for_skill J k of
        Inl err \<Rightarrow> Inl err
      | Inr name \<Rightarrow>
          (case bridge_definitions J rss of
             Inl err \<Rightarrow> Inl err
           | Inr defs \<Rightarrow>
               Inr (\<lparr>tdf_id = skl_id k, tdf_name = name, tdf_description = skl_description k,
                     tdf_input_schema = skl_input_schema k, tdf_risk = skl_risk k\<rparr> # defs)))"

section \<open>The tools of a run (\<open>BuildTools\<close>)\<close>

record 'w runtime_tool =
  rtl_run_id :: string
  rtl_workspace_id :: string
  rtl_skill :: runtime_skill
  rtl_risk_policy :: string
  rtl_sink :: "'w run_sink"

text \<open>The skill a bare id stands for; the fields that are not set have the zero of their type, where
  an empty risk is none of the three and is read like the lowest.\<close>

definition bare_skill :: "string \<Rightarrow> runtime_skill" where
  "bare_skill sid =
     \<lparr>rsk_skill =
        \<lparr>skl_id = sid, skl_slug = '''', skl_scope = SkillScopeSystem, skl_kind = SkillKindBuiltin,
         skl_owner_user_id = '''', skl_project_id = '''', skl_status = SkillStatusDisabled,
         skl_current_version_id = '''', skl_name = sid, skl_version = '''', skl_description = '''',
         skl_risk = SkillRiskLow, skl_requires_auth = False, skl_input_schema = '''',
         skl_output_schema = '''', skl_annotations = '''', skl_runtime_config = '''', skl_enabled = True\<rparr>,
      rsk_secrets = Map.empty, rsk_secret_materials = Map.empty\<rparr>"

definition tool_risk_policy :: "string \<Rightarrow> string \<Rightarrow> string" where
  "tool_risk_policy bridge_policy request_policy =
     (if trim_space request_policy \<noteq> '''' then
        (let normalized = normalize_skill_risk_policy request_policy
         in if normalized \<noteq> '''' then normalized else bridge_policy)
      else bridge_policy)"

definition build_tools :: "('c, 'w) tool_bridge \<Rightarrow> run_request \<Rightarrow> 'w run_sink \<Rightarrow> 'w runtime_tool list" where
  "build_tools B rq S =
     (let skills = (if rrq_skills rq = [] then map bare_skill (rrq_skill_ids rq) else rrq_skills rq);
          policy = tool_risk_policy (brg_risk_policy B) (rrq_skill_risk_policy rq)
      in map (\<lambda>rs. \<lparr>rtl_run_id = rrq_run_id rq, rtl_workspace_id = rrq_workspace_id rq, rtl_skill = rs,
                    rtl_risk_policy = policy, rtl_sink = S\<rparr>)
           (filter (\<lambda>rs. skl_id (rsk_skill rs) \<noteq> '''' \<and> skl_enabled (rsk_skill rs)) skills))"

definition tool_info :: "bridge_json \<Rightarrow> 'w runtime_tool \<Rightarrow> string + string" where
  "tool_info J t = tool_info_for_skill J (rsk_skill (rtl_skill t))"

section \<open>The risk policy\<close>

definition bool_annotation :: "metadata \<Rightarrow> string \<Rightarrow> bool" where
  "bool_annotation m key =
     (case map_of m key of
        Some (VBool b) \<Rightarrow> b
      | Some (VStr s) \<Rightarrow> to_lower (trim_space s) = ''true''
      | _ \<Rightarrow> False)"

record annotation_hints =
  anh_read_only :: bool
  anh_destructive :: bool

definition skill_annotations :: "bridge_json \<Rightarrow> skill \<Rightarrow> annotation_hints" where
  "skill_annotations J k =
     (let raw = bjs_annotations J (skl_annotations k)
      in \<lparr>anh_read_only = bool_annotation raw ''readOnlyHint'',
          anh_destructive = bool_annotation raw ''destructiveHint''\<rparr>)"

record risk_decision =
  rdc_allowed :: bool
  rdc_policy :: string
  rdc_reason :: string

definition evaluate_skill_risk_policy :: "bridge_json \<Rightarrow> string \<Rightarrow> skill \<Rightarrow> risk_decision" where
  "evaluate_skill_risk_policy J policy k =
     (let policy = (if policy = '''' then SkillRiskPolicyAllow else policy);
          hints = skill_annotations J k;
          pass = (\<lambda>p. \<lparr>rdc_allowed = True, rdc_policy = p, rdc_reason = ''''\<rparr>);
          stop = (\<lambda>reason. \<lparr>rdc_allowed = False, rdc_policy = policy, rdc_reason = reason\<rparr>)
      in if policy = SkillRiskPolicyAllow then pass policy
         else if policy = SkillRiskPolicyBlockHigh then
           (if skl_risk k = SkillRiskHigh then stop ''skill risk is high'' else pass policy)
         else if policy = SkillRiskPolicyBlockDestructive then
           (if anh_destructive hints then stop ''skill is marked destructive'' else pass policy)
         else if policy = SkillRiskPolicyReadOnly then
           (if skl_risk k = SkillRiskHigh then stop ''skill risk is high''
            else if anh_destructive hints then stop ''skill is marked destructive''
            else if \<not> anh_read_only hints then stop ''skill is not marked read-only''
            else pass policy)
         else pass SkillRiskPolicyAllow)"

definition risk_observation :: "bridge_json \<Rightarrow> risk_decision \<Rightarrow> string" where
  "risk_observation J d =
     bjs_object J
       [(''ok'', VBool False), (''error_type'', VStr ''skill_policy_denied''),
        (''policy'', VStr (rdc_policy d)),
        (''message'', VStr (''skill invocation blocked by runtime risk policy: '' @ rdc_reason d))]"

text \<open>The output of a blocked call, or nothing.\<close>

definition enforce_risk_policy :: "('c, 'w) tool_bridge \<Rightarrow> 'w runtime_tool \<Rightarrow> string \<Rightarrow> 'w \<Rightarrow> string option \<times> 'w" where
  "enforce_risk_policy B t tool_name w =
     (let k = rsk_skill (rtl_skill t); J = brg_json B; S = rtl_sink t; rid = rtl_run_id t;
          d = evaluate_skill_risk_policy J (rtl_risk_policy t) k
      in if rdc_allowed d then (None, w)
         else
           (let output = risk_observation J d;
                w1 = tell S rid EventToolOutput ''Skill invocation blocked by risk policy.''
                  [(''skill_id'', VStr (skl_id k)), (''tool'', VStr tool_name), (''output'', VStr output),
                   (''ok'', VBool False), (''policy'', VStr (rdc_policy d)),
                   (''reason'', VStr (rdc_reason d))] w;
                w2 = tell S rid EventToolFinished ''Finished skill invocation.''
                  [(''skill_id'', VStr (skl_id k)), (''tool'', VStr tool_name), (''ok'', VBool False),
                   (''policy'', VStr (rdc_policy d))] w1
            in (Some output, w2)))"

section \<open>The quota\<close>

definition sandbox_timeout_seconds :: "bridge_json \<Rightarrow> string \<Rightarrow> int" where
  "sandbox_timeout_seconds J args =
     (let n = bjs_timeout_arg J args in if n \<le> 0 then 10 else if 300 < n then 300 else n)"

definition tool_quota_observation :: "bridge_json \<Rightarrow> bool \<Rightarrow> string \<Rightarrow> string \<Rightarrow> string \<Rightarrow> string" where
  "tool_quota_observation J ok error_type msg quota =
     bjs_object J
       ([(''ok'', VBool ok), (''error_type'', VStr error_type), (''message'', VStr msg)] @
        (if quota \<noteq> '''' then [(''quota'', VStr quota)] else []))"

definition quota_unavailable_text :: string where
  "quota_unavailable_text =
     bytes [229, 183, 165, 229, 133, 183, 233, 133, 141, 233, 162, 157, 230, 156, 141, 229, 138,
      161, 230, 154, 130, 230, 151, 182, 228, 184, 141, 229, 143, 175, 231, 148, 168, 58, 32]"

text \<open>The output of a call without quota, or nothing; the callers drop the error.\<close>

definition tool_reserve_quota :: "('c, 'w) tool_bridge \<Rightarrow> 'w runtime_tool \<Rightarrow> string \<Rightarrow> 'w \<Rightarrow> string option \<times> 'w" where
  "tool_reserve_quota B t args w =
     (let k = rsk_skill (rtl_skill t); J = brg_json B in
      case rsn_quota (rtl_sink t) of
        None \<Rightarrow> (None, w)
      | Some reserve \<Rightarrow>
          (case reserve (rtl_run_id t)
                  \<lparr>qtb_attempt_id = '''', qtb_skill_id = skl_id k, qtb_tool_calls = 1,
                   qtb_sandbox_seconds =
                     (if skl_id k = ''cli.exec'' then sandbox_timeout_seconds J args else 0)\<rparr> w of
             (Inl err, w1) \<Rightarrow>
               (Some (tool_quota_observation J False ''quota_unavailable'' (quota_unavailable_text @ err) ''''), w1)
           | (Inr r, w1) \<Rightarrow>
               if tqa_allowed r then (None, w1)
               else (Some (tool_quota_observation J False ''quota_denied'' (tqa_message r) (tqa_quota r)), w1)))"

section \<open>Artifacts\<close>

definition is_text_mime_type :: "string \<Rightarrow> bool" where
  "is_text_mime_type mime =
     (let mime = to_lower (trim_space (hd (split_on CHR '';'' mime)))
      in has_prefix mime ''text/'' \<or>
         mime \<in> {''application/json'', ''application/xml'', ''application/yaml'', ''application/x-yaml'',
                 ''application/csv'', ''application/javascript''})"

definition artifact_mime :: "artifact \<Rightarrow> string" where
  "artifact_mime a =
     (let mime = trim_space (art_mime_type a) in if mime = '''' then ''unknown'' else mime)"

definition brief_of :: "bridge_json \<Rightarrow> artifact \<Rightarrow> artifact_brief" where
  "brief_of J a =
     \<lparr>abr_id = art_id a, abr_path = art_path a, abr_name = art_name a, abr_mime_type = artifact_mime a,
      abr_size_bytes = art_size_bytes a,
      abr_created_at = (if is_zero_time (art_created_at a) then '''' else bjs_rfc3339 J (art_created_at a))\<rparr>"

text \<open>The loop of \<open>summarizeArtifacts\<close>, with the latest brief so far and its time.\<close>

fun summary_loop :: "bridge_json \<Rightarrow> artifact list \<Rightarrow> gtime \<Rightarrow> artifact_summary \<Rightarrow> artifact_summary" where
  "summary_loop J [] latest_time s = s"
| "summary_loop J (a # as) latest_time s =
     (let mime = artifact_mime a; brief = brief_of J a;
          newer = (asu_latest_artifact s = None \<or> after (art_created_at a) latest_time)
      in summary_loop J as (if newer then art_created_at a else latest_time)
           (s\<lparr>asu_total_size_bytes := wrap64 (asu_total_size_bytes s + art_size_bytes a),
              asu_mime_type_counts := (asu_mime_type_counts s)
                (mime \<mapsto> (case asu_mime_type_counts s mime of None \<Rightarrow> 1 | Some n \<Rightarrow> n + 1)),
              asu_text_artifact_count :=
                (if is_text_mime_type mime then asu_text_artifact_count s + 1 else asu_text_artifact_count s),
              asu_artifacts := asu_artifacts s @ [brief],
              asu_latest_artifact := (if newer then Some brief else asu_latest_artifact s)\<rparr>))"

definition summarize_artifacts :: "bridge_json \<Rightarrow> artifact list \<Rightarrow> artifact_summary" where
  "summarize_artifacts J as =
     summary_loop J as 0
       \<lparr>asu_count = int (length as), asu_total_size_bytes = 0, asu_mime_type_counts = Map.empty,
        asu_text_artifact_count = 0, asu_latest_artifact = None, asu_artifacts = []\<rparr>"

definition register_artifacts_from_output :: "('c, 'w) tool_bridge \<Rightarrow> 'w runtime_tool \<Rightarrow> string \<Rightarrow> 'w \<Rightarrow> string \<times> 'w" where
  "register_artifacts_from_output B t output w =
     (case rsn_register (rtl_sink t) of
        None \<Rightarrow> (output, w)
      | Some register \<Rightarrow>
          (case bjs_report (brg_json B) output of
             None \<Rightarrow> (output, w)
           | Some r \<Rightarrow>
               if sbr_artifacts r = [] then (output, w)
               else
                 (case register (rtl_run_id t) (sbr_artifacts r) w of
                    (Inl err, w1) \<Rightarrow> (output, w1)
                  | (Inr as, w1) \<Rightarrow>
                      if as = [] then (output, w1)
                      else
                        (case bjs_report_text (brg_json B) (r\<lparr>sbr_artifacts := as\<rparr>) of
                           None \<Rightarrow> (output, w1)
                         | Some body \<Rightarrow> (body, w1)))))"

section \<open>The built-in tools\<close>

definition command_from_tool_args :: "bridge_json \<Rightarrow> string \<Rightarrow> string list" where
  "command_from_tool_args J args =
     (case bjs_command_args J args of (command, query) \<Rightarrow>
        if command \<noteq> [] then command else if query \<noteq> '''' then string_fields query else [])"

definition cli_command :: "bridge_json \<Rightarrow> string \<Rightarrow> string \<Rightarrow> string \<Rightarrow> sandbox_command" where
  "cli_command J rid workspace args =
     \<lparr>scm_run_id = rid, scm_workspace_id = workspace, scm_command = command_from_tool_args J args,
      scm_env = [], scm_timeout_seconds = 10, scm_network = True, scm_max_output_bytes = 0,
      scm_workspace_root = ''''\<rparr>"

definition marshalled :: "string option \<Rightarrow> string" where
  "marshalled body = (case body of None \<Rightarrow> '''' | Some text \<Rightarrow> text)"

definition invoke_workspace_read :: "bridge_json \<Rightarrow> 'w runtime_tool \<Rightarrow> string \<Rightarrow> 'w \<Rightarrow> (string + string) \<times> 'w" where
  "invoke_workspace_read J t args w =
     (case rsn_workspace (rtl_sink t) of
        None \<Rightarrow> (Inl ''workspace reader is not configured'', w)
      | Some (list_of, read_text) \<Rightarrow>
          (let (raw_action, aid, max_bytes) = bjs_workspace_args J args; rid = rtl_run_id t;
               action = (if trim_space raw_action = '''' then ''list'' else trim_space raw_action)
           in if action = ''summary'' then
                (case list_of rid w of
                   (Inl err, w1) \<Rightarrow> (Inl err, w1)
                 | (Inr as, w1) \<Rightarrow>
                     (Inr (bjs_summary J rid (rtl_workspace_id t) (summarize_artifacts J as)), w1))
              else if action = ''list'' then
                (case list_of rid w of
                   (Inl err, w1) \<Rightarrow> (Inl err, w1)
                 | (Inr as, w1) \<Rightarrow> (Inr (bjs_listing J as), w1))
              else if action = ''read'' then
                (if trim_space aid = '''' then (Inl ''artifact_id is required'', w)
                 else
                   (case read_text rid aid (if max_bytes \<le> 0 then 65536 else max_bytes) w of
                      (Inl err, w1) \<Rightarrow> (Inl err, w1)
                    | (Inr r, w1) \<Rightarrow> (Inr (bjs_artifact_text J r), w1)))
              else (Inl (''unsupported workspace.read action '' @ bjs_quote J action), w)))"

definition invoke_builtin :: "('c, 'w) tool_bridge \<Rightarrow> 'w runtime_tool \<Rightarrow> string \<Rightarrow> 'w \<Rightarrow> (string + string) \<times> 'w" where
  "invoke_builtin B t args w =
     (let J = brg_json B; sid = skl_id (rsk_skill (rtl_skill t)) in
      if sid = ''cli.exec'' then
        (case brg_sandbox B of
           None \<Rightarrow> (Inl ''sandbox executor is not configured'', w)
         | Some execute \<Rightarrow>
             (case execute (cli_command J (rtl_run_id t) (rtl_workspace_id t) args) w of
                (r, w1) \<Rightarrow> (Inr (marshalled (bjs_report_text J r)), w1)))
      else if sid = ''workspace.read'' then invoke_workspace_read J t args w
      else (Inl (''unknown builtin skill '' @ sid), w))"

section \<open>A call (\<open>InvokableRun\<close>)\<close>

definition summarize_tool_input :: "tool_json \<Rightarrow> string \<Rightarrow> string" where
  "summarize_tool_input J args =
     (let shown = redact_json J args
      in if length shown \<le> 512 then shown else take 512 shown @ ''...[truncated]'')"

text \<open>The output, whether the skill succeeded, and the error of a built-in tool.\<close>

definition invoke_skill :: "('c, 'w) tool_bridge \<Rightarrow> 'w runtime_tool \<Rightarrow> string \<Rightarrow> 'w \<Rightarrow>
    (string \<times> bool \<times> string option) \<times> 'w" where
  "invoke_skill B t args w =
     (case skl_kind (rsk_skill (rtl_skill t)) of
        SkillKindHTTP \<Rightarrow>
          (case invoke_http (brg_env B) (rtl_skill t) args w of ((output, ok), w1) \<Rightarrow> ((output, ok, None), w1))
      | SkillKindMCP \<Rightarrow>
          (case invoke_mcp (brg_env B) (rtl_run_id t) (rtl_skill t) args w of
             ((output, ok), w1) \<Rightarrow> ((output, ok, None), w1))
      | SkillKindBuiltin \<Rightarrow>
          (case invoke_builtin B t args w of
             (Inr output, w1) \<Rightarrow> ((output, True, None), w1)
           | (Inl err, w1) \<Rightarrow> (('''', False, Some err), w1)))"

definition invokable_run :: "('c, 'w) tool_bridge \<Rightarrow> 'w runtime_tool \<Rightarrow> string \<Rightarrow> 'w \<Rightarrow>
    (string \<times> string option) \<times> 'w" where
  "invokable_run B t args w =
     (let k = rsk_skill (rtl_skill t); S = rtl_sink t; rid = rtl_run_id t;
          tool_name = tool_name_for_skill_id (skl_id k)
      in case enforce_risk_policy B t tool_name w of
           (Some output, w1) \<Rightarrow> ((output, None), w1)
         | (None, w1) \<Rightarrow>
         case tool_reserve_quota B t args w1 of
           (Some output, w2) \<Rightarrow> ((output, None), w2)
         | (None, w2) \<Rightarrow>
         case invoke_skill B t args
                (tell S rid EventToolStarted ''Starting skill invocation.''
                   [(''skill_id'', VStr (skl_id k)), (''tool'', VStr tool_name),
                    (''input'', VStr (summarize_tool_input (tbr_json (brg_env B)) args))] w2) of
           ((raw, ok, err), w3) \<Rightarrow>
             (case register_artifacts_from_output B t raw w3 of
                (output, w4) \<Rightarrow>
                  (let good = VBool (ok \<and> err = None);
                       w5 = tell S rid EventToolOutput ''Skill invocation returned output.''
                         ([(''skill_id'', VStr (skl_id k)), (''tool'', VStr tool_name),
                           (''output'', VStr output), (''ok'', good)] @
                          (case err of None \<Rightarrow> [] | Some e \<Rightarrow> [(''error'', VStr e)])) w4;
                       w6 = tell S rid EventToolFinished ''Finished skill invocation.''
                         [(''skill_id'', VStr (skl_id k)), (''tool'', VStr tool_name), (''ok'', good)] w5
                   in ((output, err), w6))))"


end
