(* ===== verification/Token_Estimator.thy ===== *)
theory Token_Estimator
  imports Go_Text
begin

text \<open>
  The estimate of a text's tokens (common/platform/token_estimator.go): the tokenizer of the model,
  a parameter, or else a quarter of the runes. A Go string is a list of bytes; runes are counted as
  the conversion to \<open>[]rune\<close> does, where a byte that begins no valid sequence is a rune of its own.
\<close>

section \<open>Runes\<close>

definition in_bytes :: "nat \<Rightarrow> nat \<Rightarrow> char \<Rightarrow> bool" where
  "in_bytes lo hi c = (let n = (of_char c :: nat) in lo \<le> n \<and> n \<le> hi)"

abbreviation "continuation \<equiv> in_bytes 128 191"

text \<open>The number of bytes of the first rune.\<close>

fun rune_width :: "string \<Rightarrow> nat" where
  "rune_width (a # b # c # d # s) =
     (if in_bytes 194 223 a \<and> continuation b then 2
      else if (in_bytes 224 224 a \<and> in_bytes 160 191 b \<or> in_bytes 225 236 a \<and> continuation b \<or>
               in_bytes 237 237 a \<and> in_bytes 128 159 b \<or> in_bytes 238 239 a \<and> continuation b) \<and> continuation c
      then 3
      else if (in_bytes 240 240 a \<and> in_bytes 144 191 b \<or> in_bytes 241 243 a \<and> continuation b \<or>
               in_bytes 244 244 a \<and> in_bytes 128 143 b) \<and> continuation c \<and> continuation d
      then 4 else 1)"
| "rune_width [a, b, c] =
     (if in_bytes 194 223 a \<and> continuation b then 2
      else if (in_bytes 224 224 a \<and> in_bytes 160 191 b \<or> in_bytes 225 236 a \<and> continuation b \<or>
               in_bytes 237 237 a \<and> in_bytes 128 159 b \<or> in_bytes 238 239 a \<and> continuation b) \<and> continuation c
      then 3 else 1)"
| "rune_width [a, b] = (if in_bytes 194 223 a \<and> continuation b then 2 else 1)"
| "rune_width s = 1"

lemma rune_width_pos [simp]: "0 < rune_width s"
  by (cases s rule: rune_width.cases) auto

lemma rune_width_le: "s \<noteq> [] \<Longrightarrow> rune_width s \<le> length s"
  by (cases s rule: rune_width.cases) auto

function rune_count :: "string \<Rightarrow> nat" where
  "rune_count s = (if s = [] then 0 else Suc (rune_count (drop (rune_width s) s)))"
  by pat_completeness auto
termination
  by (relation "measure length") auto

declare rune_count.simps [simp del]

lemma rune_count_Nil [simp]: "rune_count [] = 0"
  by (simp add: rune_count.simps)

lemma rune_count_le: "rune_count s \<le> length s"
proof (induction s rule: rune_count.induct)
  case (1 s)
  show ?case
  proof (cases "s = []")
    case False
    then have "rune_count (drop (rune_width s) s) \<le> length s - 1"
      using 1 [OF False] diff_le_mono2 [of 1 "rune_width s" "length s"] rune_width_pos [of s]
      by (simp del: rune_width_pos)
    with False show ?thesis by (subst rune_count.simps) (cases s; simp)
  qed simp
qed

section \<open>Estimates\<close>

record token_estimate =
  tke_tokens :: int
  tke_estimator :: string

text \<open>\<open>tkl_encoding\<close> is \<open>GetEncoding\<close> and \<open>tkl_model\<close> is \<open>EncodingForModel\<close>, which may fail; an encoding
  gives the number of tokens of a text.\<close>

record tokenizer_lib =
  tkl_encoding :: "string \<Rightarrow> (string \<Rightarrow> nat) option"
  tkl_model :: "string \<Rightarrow> (string \<Rightarrow> nat) option"

definition o200k_model_prefixes :: "string list" where
  "o200k_model_prefixes =
     [''chatgpt-4o'', ''gpt-4o'', ''gpt-4.1'', ''gpt-4.5'', ''gpt-5'', ''o1'', ''o3'', ''o4'']"

definition cl100k_compatible_model_prefixes :: "string list" where
  "cl100k_compatible_model_prefixes =
     [''gpt-'', ''deepseek'', ''qwen'', ''qwq'', ''moonshot'', ''kimi'', ''doubao'', ''glm'', ''chatglm'',
      ''yi-'', ''baichuan'', ''mistral'', ''mixtral'', ''codestral'', ''llama'']"

definition has_any_model_prefix :: "string \<Rightarrow> string list \<Rightarrow> bool" where
  "has_any_model_prefix model prefixes = list_ex (has_prefix model) prefixes"

definition tokenizer_for_model :: "tokenizer_lib \<Rightarrow> string \<Rightarrow> ((string \<Rightarrow> nat) \<times> string) option" where
  "tokenizer_for_model T raw =
     (let model = to_lower (trim_space raw) in
      if model = '''' \<or> has_prefix model ''mock'' then None
      else if has_any_model_prefix model o200k_model_prefixes then
        map_option (\<lambda>e. (e, ''tiktoken_o200k_base'')) (tkl_encoding T ''o200k_base'')
      else if has_any_model_prefix model cl100k_compatible_model_prefixes then
        map_option (\<lambda>e. (e, ''tiktoken_cl100k_base'')) (tkl_encoding T ''cl100k_base'')
      else map_option (\<lambda>e. (e, ''tiktoken_model'')) (tkl_model T model))"

definition heuristic_estimator :: string where "heuristic_estimator = ''heuristic_rune_div4''"

definition estimate_text_tokens_for_model :: "tokenizer_lib \<Rightarrow> string \<Rightarrow> string \<Rightarrow> token_estimate" where
  "estimate_text_tokens_for_model T t model =
     (if t = '''' then \<lparr>tke_tokens = 0, tke_estimator = heuristic_estimator\<rparr>
      else case tokenizer_for_model T model of
        Some (encoding, estimator) \<Rightarrow> \<lparr>tke_tokens = int (encoding t), tke_estimator = estimator\<rparr>
      | None \<Rightarrow>
          \<lparr>tke_tokens = int (rune_count t div 4 + 1), tke_estimator = heuristic_estimator\<rparr>)"

definition estimate_text_tokens :: "tokenizer_lib \<Rightarrow> string \<Rightarrow> token_estimate" where
  "estimate_text_tokens T t = estimate_text_tokens_for_model T t ''''"

text \<open>Without a tokenizer a text counts at least one token and no more than it has bytes.\<close>

theorem heuristic_estimate_bounds:
  assumes "t \<noteq> ''''" "tokenizer_for_model T model = None"
  shows "1 \<le> tke_tokens (estimate_text_tokens_for_model T t model)"
    and "tke_tokens (estimate_text_tokens_for_model T t model) \<le> int (length t)"
proof -
  have "rune_count t div 4 + 1 \<le> length t" using rune_count_le [of t] assms(1) by (cases t) auto
  then show "1 \<le> tke_tokens (estimate_text_tokens_for_model T t model)"
    "tke_tokens (estimate_text_tokens_for_model T t model) \<le> int (length t)"
    using assms by (simp_all add: estimate_text_tokens_for_model_def)
qed

end
