(* ===== verification/Agent_Engine.thy ===== *)
theory Agent_Engine
  imports Tool_Bridge Model_Provider Token_Estimator
begin

text \<open>
  The agent engine of the runtime (agent-runtime/internal/engine/eino_engine.go, engine.go) and the
  handler that runs it over HTTP (agent-runtime/internal/httpapi/handler.go). The agent library is a
  parameter: it makes an agent of a model and the tools, and an iterator over its events, whose state
  is in the world outside. Spans and metrics are left out.
\<close>

section \<open>What tools used\<close>

text \<open>\<open>ejs_duration\<close> is \<open>time.ParseDuration\<close>, \<open>ejs_error_type\<close> the \<open>error_type\<close> of an object, and
  \<open>ejs_command\<close> the encoding of the arguments of a forced call.\<close>

record engine_json =
  ejs_bridge :: bridge_json
  ejs_duration :: "string \<Rightarrow> duration option"
  ejs_error_type :: "string \<Rightarrow> string option"
  ejs_command :: "string list \<Rightarrow> string"
  ejs_quote :: "string \<Rightarrow> string"

definition is_quota_reservation_observation :: "engine_json \<Rightarrow> string \<Rightarrow> bool" where
  "is_quota_reservation_observation J content =
     (case ejs_error_type J content of
        None \<Rightarrow> False
      | Some t \<Rightarrow> t = ''quota_denied'' \<or> t = ''quota_unavailable'')"

definition looks_like_sandbox_result :: "sandbox_report \<Rightarrow> bool" where
  "looks_like_sandbox_result r \<longleftrightarrow>
     sbr_run_id r \<noteq> '''' \<or> sbr_command r \<noteq> [] \<or> sbr_duration r \<noteq> '''' \<or> sbr_stdout r \<noteq> '''' \<or>
     sbr_stderr r \<noteq> '''' \<or> sbr_error r \<noteq> ''''"

definition add_artifact_bytes :: "artifact list \<Rightarrow> int \<Rightarrow> int" where
  "add_artifact_bytes as n = foldl (\<lambda>n a. wrap64 (n + art_size_bytes a)) n as"

definition observe_sandbox :: "engine_json \<Rightarrow> sandbox_report \<Rightarrow> run_usage \<Rightarrow> run_usage" where
  "observe_sandbox J r u =
     u\<lparr>usg_sandbox_commands := wrap64 (usg_sandbox_commands u + 1),
       usg_tool_errors :=
         (if sbr_exit_code r \<noteq> 0 \<or> trim_space (sbr_error r) \<noteq> '''' then wrap64 (usg_tool_errors u + 1)
          else usg_tool_errors u),
       usg_sandbox_duration_millis :=
         (case ejs_duration J (sbr_duration r) of
            None \<Rightarrow> usg_sandbox_duration_millis u
          | Some d \<Rightarrow> wrap64 (usg_sandbox_duration_millis u + milliseconds d)),
       usg_sandbox_output_bytes :=
         wrap64 (usg_sandbox_output_bytes u + int (length (sbr_stdout r) + length (sbr_stderr r))),
       usg_sandbox_cpu_millis := wrap64 (usg_sandbox_cpu_millis u + sbr_cpu_millis r),
       usg_sandbox_memory_max_bytes := max (usg_sandbox_memory_max_bytes u) (sbr_memory_max_bytes r),
       usg_artifact_count := wrap64 (usg_artifact_count u + int (length (sbr_artifacts r))),
       usg_artifact_bytes := add_artifact_bytes (sbr_artifacts r) (usg_artifact_bytes u)\<rparr>"

definition observe_tool_observation :: "engine_json \<Rightarrow> string \<Rightarrow> run_usage \<Rightarrow> run_usage" where
  "observe_tool_observation J content u =
     (if is_quota_reservation_observation J content then u
      else
        (let u = u\<lparr>usg_tool_calls := wrap64 (usg_tool_calls u + 1)\<rparr>
         in case bjs_report (ejs_bridge J) content of
              None \<Rightarrow> u
            | Some r \<Rightarrow> if looks_like_sandbox_result r then observe_sandbox J r u else u))"

definition merge_run_usage :: "run_usage \<Rightarrow> run_usage \<Rightarrow> run_usage" where
  "merge_run_usage u x =
     u\<lparr>usg_tool_calls := wrap64 (usg_tool_calls u + usg_tool_calls x),
       usg_tool_errors := wrap64 (usg_tool_errors u + usg_tool_errors x),
       usg_sandbox_commands := wrap64 (usg_sandbox_commands u + usg_sandbox_commands x),
       usg_sandbox_duration_millis := wrap64 (usg_sandbox_duration_millis u + usg_sandbox_duration_millis x),
       usg_sandbox_output_bytes := wrap64 (usg_sandbox_output_bytes u + usg_sandbox_output_bytes x),
       usg_sandbox_cpu_millis := wrap64 (usg_sandbox_cpu_millis u + usg_sandbox_cpu_millis x),
       usg_sandbox_memory_max_bytes := max (usg_sandbox_memory_max_bytes u) (usg_sandbox_memory_max_bytes x),
       usg_artifact_count := wrap64 (usg_artifact_count u + usg_artifact_count x),
       usg_artifact_bytes := wrap64 (usg_artifact_bytes u + usg_artifact_bytes x)\<rparr>"

definition has_usage_tokens :: "run_usage \<Rightarrow> bool" where
  "has_usage_tokens u \<longleftrightarrow>
     0 < usg_input_tokens u \<or> 0 < usg_output_tokens u \<or> 0 < usg_total_tokens u \<or>
     0 < usg_reasoning_tokens u \<or> 0 < usg_cached_tokens u"

text \<open>\<open>buildRunUsage\<close>: \<open>reported\<close> and \<open>price\<close> are what the model gives where it can.\<close>

definition estimated_usage :: "tokenizer_lib \<Rightarrow> string \<Rightarrow> string \<Rightarrow> string \<Rightarrow> run_usage \<Rightarrow> run_usage" where
  "estimated_usage T policy user_message content u =
     (let model = first_non_empty [usg_model u, policy];
          input = estimate_text_tokens_for_model T user_message model;
          output = estimate_text_tokens_for_model T content model
      in u\<lparr>usg_input_tokens := tke_tokens input, usg_output_tokens := tke_tokens output,
           usg_estimated := True,
           usg_token_estimator := first_non_empty [tke_estimator input, tke_estimator output]\<rparr>)"

definition build_run_usage :: "tokenizer_lib \<Rightarrow> (rat \<Rightarrow> rat) \<Rightarrow> run_request \<Rightarrow> run_usage option \<Rightarrow>
    (run_usage \<Rightarrow> run_usage) option \<Rightarrow> usage_tracker \<Rightarrow> run_usage \<Rightarrow> string \<Rightarrow> string \<Rightarrow> run_usage" where
  "build_run_usage T rnd rq reported price events tool_usage user_message content =
     (let policy = rrq_model_policy rq;
          u = (case reported of None \<Rightarrow> zero_run_usage | Some r \<Rightarrow> r);
          observed = tracker_usage_snapshot rnd events;
          u = (if \<not> has_usage_tokens u \<and> has_usage_tokens observed
               then observed\<lparr>usg_provider := first_non_empty [usg_provider observed, usg_provider u],
                             usg_model := first_non_empty [usg_model observed, usg_model u]\<rparr>
               else u);
          u = (if \<not> has_usage_tokens u then estimated_usage T policy user_message content u else u);
          u = u\<lparr>usg_provider := first_non_empty [usg_provider u, policy, ''mock''],
                usg_model := first_non_empty [usg_model u, policy, ''mock'']\<rparr>;
          u = merge_run_usage u tool_usage;
          u = (case price of None \<Rightarrow> u | Some p \<Rightarrow> p u)
      in normalize_run_usage u)"

section \<open>Artifacts and texts\<close>

definition artifact_key :: "artifact \<Rightarrow> string" where
  "artifact_key a = (if art_id a = '''' then art_path a else art_id a)"

fun add_unseen :: "artifact list \<Rightarrow> string set \<Rightarrow> artifact list \<Rightarrow> artifact list" where
  "add_unseen existing seen [] = existing"
| "add_unseen existing seen (a # as) =
     (let key = artifact_key a
      in if key = '''' \<or> key \<in> seen then add_unseen existing seen as
         else add_unseen (existing @ [a]) (insert key seen) as)"

definition append_artifacts_from_observation :: "engine_json \<Rightarrow> artifact list \<Rightarrow> string \<Rightarrow> artifact list" where
  "append_artifacts_from_observation J existing content =
     (case bjs_report (ejs_bridge J) content of
        None \<Rightarrow> existing
      | Some r \<Rightarrow>
          if sbr_artifacts r = [] then existing
          else add_unseen existing (set (filter (\<lambda>k. k \<noteq> '''') (map artifact_key existing))) (sbr_artifacts r))"

function chunk_loop :: "string \<Rightarrow> nat \<Rightarrow> string list" where
  "chunk_loop v n =
     (if 0 < n \<and> n < length v then take n v # chunk_loop (drop n v) n
      else if v \<noteq> '''' then [v] else [])"
  by pat_completeness auto
termination
  by (relation "measure (\<lambda>(v, n). length v)") auto

declare chunk_loop.simps [simp del]

definition chunk_text :: "string \<Rightarrow> int \<Rightarrow> string list" where
  "chunk_text v width =
     (if v = '''' then [] else if width \<le> 0 then [v] else chunk_loop v (nat width))"

definition cli_missing_text :: string where
  "cli_missing_text =
     bytes [229, 189, 147, 229, 137, 141, 231, 148, 168, 230, 136, 183, 230, 156, 170, 229, 144,
      175, 231, 148, 168, 231, 179, 187, 231, 187, 159, 32, 67, 76, 73, 32, 229, 183, 165, 229, 133,
      183, 239, 188, 140, 230, 151, 160, 230, 179, 149, 230, 137, 167, 232, 161, 140, 32, 47, 99,
      108, 105, 32, 232, 175, 183, 230, 177, 130, 227, 128, 130]"

definition no_content_text :: string where
  "no_content_text =
     bytes [65, 103, 101, 110, 116, 32, 229, 183, 178, 229, 174, 140, 230, 136, 144, 230, 156, 172,
      230, 172, 161, 229, 164, 132, 231, 144, 134, 239, 188, 140, 228, 189, 134, 230, 178, 161, 230,
      156, 137, 231, 148, 159, 230, 136, 144, 229, 143, 175, 229, 177, 149, 231, 164, 186, 229, 134,
      133, 229, 174, 185, 227, 128, 130]"

definition no_output_text :: string where
  "no_output_text =
     bytes [229, 145, 189, 228, 187, 164, 230, 137, 167, 232, 161, 140, 230, 136, 144, 229, 138,
      159, 239, 188, 140, 228, 189, 134, 230, 178, 161, 230, 156, 137, 232, 190, 147, 229, 135, 186,
      229, 134, 133, 229, 174, 185, 227, 128, 130]"

definition cli_result_text :: string where
  "cli_result_text =
     bytes [230, 136, 145, 233, 128, 154, 232, 191, 135, 231, 179, 187, 231, 187, 159, 32, 67, 76,
      73, 32, 232, 142, 183, 229, 143, 150, 229, 136, 176, 231, 187, 147, 230, 158, 156, 239, 188,
      154, 10]"

definition cli_refused_text :: string where
  "cli_refused_text =
     bytes [232, 175, 165, 229, 145, 189, 228, 187, 164, 230, 178, 161, 230, 156, 137, 233, 128, 154,
      232, 191, 135, 231, 179, 187, 231, 187, 159, 32, 67, 76, 73, 32, 231, 173, 150, 231, 149, 165,
      227, 128, 130]"

definition cli_failed_text :: string where
  "cli_failed_text =
     bytes [231, 179, 187, 231, 187, 159, 32, 67, 76, 73, 32, 231, 173, 150, 231, 149, 165, 230, 139,
      146, 231, 187, 157, 230, 136, 150, 230, 137, 167, 232, 161, 140, 233, 148, 153, 232, 175, 175,
      239, 188, 154, 10]"

text \<open>The first of some texts that has something to show, trimmed, or another one.\<close>

definition first_shown :: "string list \<Rightarrow> string \<Rightarrow> string" where
  "first_shown vs other =
     (case List.find (\<lambda>v. v \<noteq> '''') (map trim_space vs) of Some v \<Rightarrow> v | None \<Rightarrow> other)"

definition format_tool_observation :: "engine_json \<Rightarrow> string \<Rightarrow> string" where
  "format_tool_observation J content =
     (case (case bjs_report (ejs_bridge J) content of
              Some r \<Rightarrow> if sbr_run_id r \<noteq> '''' \<or> sbr_command r \<noteq> [] then Some r else None
            | None \<Rightarrow> None) of
        Some r \<Rightarrow>
          if sbr_exit_code r = 0
          then cli_result_text @ first_shown [sbr_stdout r, sbr_stderr r] no_output_text
          else cli_failed_text @ first_shown [sbr_reason r, sbr_error r, sbr_stderr r] cli_refused_text
      | None \<Rightarrow> cut_observation content)"

text \<open>The function of engine.go is that of the control plane's local dispatcher but for an early return.\<close>

definition parse_cli_command :: "string \<Rightarrow> string list option" where
  "parse_cli_command content =
     (let content = trim_space content in
      if content = '''' then None
      else if \<not> has_prefix content ''/cli '' then None
      else (let parts = string_fields (trim_prefix content ''/cli '')
            in if parts = [] then None else Some parts))"

section \<open>Models in front of the model\<close>

text \<open>A tool of the run as the agent library sees it: its info, that is its name, or an error, and
  what runs it.\<close>

record 'w agent_tool =
  agt_info :: "string + string"
  agt_run :: "string \<Rightarrow> 'w \<Rightarrow> (string \<times> string option) \<times> 'w"

definition agent_tool_of :: "('c, 'w) tool_bridge \<Rightarrow> 'w runtime_tool \<Rightarrow> 'w agent_tool" where
  "agent_tool_of B t = \<lparr>agt_info = tool_info (brg_json B) t, agt_run = invokable_run B t\<rparr>"

definition allowed_tool_names :: "'w agent_tool list \<Rightarrow> string set" where
  "allowed_tool_names tools =
     set (filter (\<lambda>n. n \<noteq> '''') (concat (map (\<lambda>t. case agt_info t of Inl _ \<Rightarrow> [] | Inr n \<Rightarrow> [n]) tools)))"

definition has_runtime_tool :: "'w agent_tool list \<Rightarrow> string \<Rightarrow> bool" where
  "has_runtime_tool tools name \<longleftrightarrow> name \<in> allowed_tool_names tools"

definition allowed_tool_info_names :: "string option list \<Rightarrow> string set" where
  "allowed_tool_info_names infos =
     set (filter (\<lambda>n. n \<noteq> '''') (concat (map (\<lambda>i. case i of None \<Rightarrow> [] | Some n \<Rightarrow> [n]) infos)))"

definition forced_generate :: "engine_json \<Rightarrow> tool_call \<Rightarrow> ('r, 'w) chat_model \<Rightarrow> chat_msg option list \<Rightarrow> 'w \<Rightarrow>
    (go_error + chat_msg option) \<times> 'w" where
  "forced_generate J call inner input w =
     (case latest_observation input of
        Some content \<Rightarrow> (Inr (Some (assistant_msg (format_tool_observation J content) [])), w)
      | None \<Rightarrow>
          if \<not> has_assistant_tool_call input then (Inr (Some (assistant_msg '''' [call])), w)
          else chm_generate inner input w)"

primcorec forced_chat :: "engine_json \<Rightarrow> (chat_msg option \<Rightarrow> 'r) \<Rightarrow> tool_call \<Rightarrow> ('r, 'w) chat_model \<Rightarrow>
    ('r, 'w) chat_model" where
  "forced_chat J single call inner =
     ChatModel (forced_generate J call inner)
       (\<lambda>input w. stream_single single (forced_generate J call inner input w))
       (\<lambda>tools. map_sum id (forced_chat J single call) (chm_with_tools inner tools))
       None None None None None"

definition validate_tool_calls :: "engine_json \<Rightarrow> string set \<Rightarrow> chat_msg option \<Rightarrow> go_error option" where
  "validate_tool_calls J allowed msg =
     (case msg of
        None \<Rightarrow> None
      | Some m \<Rightarrow>
          (case List.find (\<lambda>c. tcl_name c \<notin> allowed) (cms_tool_calls m) of
             None \<Rightarrow> None
           | Some c \<Rightarrow> Some (PlainError (''model requested unavailable tool '' @ ejs_quote J (tcl_name c)))))"

definition guarded_generate :: "engine_json \<Rightarrow> string set \<Rightarrow> ('r, 'w) chat_model \<Rightarrow> chat_msg option list \<Rightarrow> 'w \<Rightarrow>
    (go_error + chat_msg option) \<times> 'w" where
  "guarded_generate J allowed inner input w =
     (case chm_generate inner input w of
        (Inl err, w1) \<Rightarrow> (Inl err, w1)
      | (Inr msg, w1) \<Rightarrow>
          (case validate_tool_calls J allowed msg of
             Some err \<Rightarrow> (Inl err, w1)
           | None \<Rightarrow> (Inr msg, w1)))"

primcorec guarded_chat :: "engine_json \<Rightarrow> (chat_msg option \<Rightarrow> 'r) \<Rightarrow> string set \<Rightarrow> ('r, 'w) chat_model \<Rightarrow>
    ('r, 'w) chat_model" where
  "guarded_chat J single allowed inner =
     ChatModel (guarded_generate J allowed inner)
       (\<lambda>input w. stream_single single (guarded_generate J allowed inner input w))
       (\<lambda>tools. map_sum id (guarded_chat J single (allowed_tool_info_names tools)) (chm_with_tools inner tools))
       None None None None None"

section \<open>An execution (\<open>execute\<close>)\<close>

record run_result =
  rrs_run_id :: string
  rrs_status :: run_status
  rrs_artifacts :: "artifact list"
  rrs_usage :: run_usage
  rrs_error :: string

definition plain_result :: "string \<Rightarrow> run_status \<Rightarrow> string \<Rightarrow> run_result" where
  "plain_result rid status err =
     \<lparr>rrs_run_id = rid, rrs_status = status, rrs_artifacts = [], rrs_usage = zero_run_usage,
      rrs_error = err\<rparr>"

definition failed_result :: "string \<Rightarrow> string \<Rightarrow> run_result" where
  "failed_result rid err = plain_result rid RunFailed err"

text \<open>An event of the agent: an error, a message, or an event without one. \<open>agl_start\<close> makes the agent, the
  runner and the query; \<open>agl_next\<close> is \<open>Next\<close> of the iterator.\<close>

datatype agent_event = AgentError string | AgentMessage chat_msg | AgentOther

record ('r, 'w) agent_lib =
  agl_start :: "('r, 'w) chat_model \<Rightarrow> 'w agent_tool list \<Rightarrow> int \<Rightarrow> string \<Rightarrow> 'w \<Rightarrow> string option \<times> 'w"
  agl_next :: "'w \<Rightarrow> agent_event option \<times> 'w"

record ('c, 'r, 'w) agent_engine =
  aen_bridge :: "('c, 'w) tool_bridge"
  aen_model :: "('r, 'w) chat_model"
  aen_max_steps :: int
  aen_lib :: "('r, 'w) agent_lib"
  aen_json :: engine_json
  aen_single :: "chat_msg option \<Rightarrow> 'r"
  aen_tokenizer :: tokenizer_lib
  aen_round :: "rat \<Rightarrow> rat"

record engine_state =
  est_final :: string
  est_artifacts :: "artifact list"
  est_events :: usage_tracker
  est_tools :: run_usage

definition observe_agent_message :: "engine_json \<Rightarrow> chat_msg \<Rightarrow> engine_state \<Rightarrow> engine_state" where
  "observe_agent_message J m st =
     (let content = cms_content m;
          st = (if cms_role m = RoleAssistant \<and> content \<noteq> '''' then st\<lparr>est_final := content\<rparr> else st);
          st = (if cms_role m = RoleTool \<and> content \<noteq> ''''
                then st\<lparr>est_artifacts := append_artifacts_from_observation J (est_artifacts st) content,
                        est_tools := observe_tool_observation J content (est_tools st)\<rparr> else st)
      in st\<lparr>est_events := observe_message (Some m) (est_events st)\<rparr>)"

text \<open>One round of the loop over the events: what it ends with, a result or the state at the end of the
  iterator, or the state it goes on with. The iterator's end is the library's to decide; a loop that never
  ends has the value \<open>None\<close>.\<close>

definition event_round :: "engine_json \<Rightarrow> ('w \<Rightarrow> agent_event option \<times> 'w) \<Rightarrow> 'w run_sink \<Rightarrow> string \<Rightarrow>
    engine_state \<Rightarrow> 'w \<Rightarrow> (run_result + engine_state) \<times> 'w + engine_state \<times> 'w" where
  "event_round J step S rid st w =
     (case step w of
        (None, w1) \<Rightarrow> Inl (Inr st, w1)
      | (Some (AgentError err), w1) \<Rightarrow> Inl (Inl (failed_result rid err), snd (rsn_fail S rid err w1))
      | (Some AgentOther, w1) \<Rightarrow> Inr (st, w1)
      | (Some (AgentMessage m), w1) \<Rightarrow>
          (case rsn_is_canceled S rid w1 of
             (True, w2) \<Rightarrow> Inl (Inl (plain_result rid RunCanceled ''''), w2)
           | (False, w2) \<Rightarrow> Inr (observe_agent_message J m st, w2)))"

partial_function (option) event_loop :: "engine_json \<Rightarrow> ('w \<Rightarrow> agent_event option \<times> 'w) \<Rightarrow> 'w run_sink \<Rightarrow>
    string \<Rightarrow> engine_state \<Rightarrow> 'w \<Rightarrow> ((run_result + engine_state) \<times> 'w) option" where
  "event_loop J step S rid st w =
     (case event_round J step S rid st w of
        Inl out \<Rightarrow> Some out
      | Inr next_state \<Rightarrow> event_loop J step S rid (fst next_state) (snd next_state))"

fun emit_tokens :: "'w run_sink \<Rightarrow> string \<Rightarrow> string list \<Rightarrow> 'w \<Rightarrow> bool \<times> 'w" where
  "emit_tokens S rid [] w = (False, w)"
| "emit_tokens S rid (token # tokens) w =
     (case rsn_is_canceled S rid (snd (rsn_emit S rid EventModelToken token VNil w)) of
        (True, w1) \<Rightarrow> (True, w1)
      | (False, w1) \<Rightarrow> emit_tokens S rid tokens w1)"

definition complete_with_usage :: "'w run_sink \<Rightarrow> string \<Rightarrow> string \<Rightarrow> run_usage \<Rightarrow> artifact list \<Rightarrow> 'w \<Rightarrow>
    (string + unit) \<times> 'w" where
  "complete_with_usage S rid content usage as =
     (case rsn_complete_with_usage S of
        Some report \<Rightarrow> report rid content usage as
      | None \<Rightarrow> rsn_complete S rid content as)"

definition finish_run :: "('c, 'r, 'w) agent_engine \<Rightarrow> run_request \<Rightarrow> string \<Rightarrow> 'w run_sink \<Rightarrow> engine_state \<Rightarrow> 'w \<Rightarrow>
    run_result \<times> 'w" where
  "finish_run E rq user_message S st w =
     (let rid = rrq_run_id rq in
      case rsn_is_canceled S rid w of
        (True, w1) \<Rightarrow> (plain_result rid RunCanceled '''', w1)
      | (False, w1) \<Rightarrow>
          (let content = (if est_final st = '''' then no_content_text else est_final st) in
           case emit_tokens S rid (chunk_text content 72) w1 of
             (True, w2) \<Rightarrow> (plain_result rid RunCanceled '''', w2)
           | (False, w2) \<Rightarrow>
               (let usage = build_run_usage (aen_tokenizer E) (aen_round E) rq
                      (map_option (\<lambda>f. f w2) (chm_usage (aen_model E)))
                      (map_option (\<lambda>f. f w2) (chm_price (aen_model E)))
                      (est_events st) (est_tools st) user_message content
                in case complete_with_usage S rid content usage (est_artifacts st) w2 of
                     (Inl err, w3) \<Rightarrow> (failed_result rid err, w3)
                   | (Inr _, w3) \<Rightarrow>
                       (\<lparr>rrs_run_id = rid, rrs_status = RunSucceeded, rrs_artifacts = est_artifacts st,
                         rrs_usage = usage, rrs_error = ''''\<rparr>, w3))))"

definition cli_call :: "engine_json \<Rightarrow> string list \<Rightarrow> tool_call" where
  "cli_call J command =
     \<lparr>tcl_id = ''call_cli_exec'', tcl_type = ''function'', tcl_name = ''cli_exec'',
      tcl_arguments = ejs_command J command\<rparr>"

text \<open>From the models in front of the model to the end: \<open>command\<close> is the command of a \<open>/cli\<close> message.\<close>

definition run_agent :: "('c, 'r, 'w) agent_engine \<Rightarrow> run_request \<Rightarrow> string \<Rightarrow> 'w run_sink \<Rightarrow>
    'w agent_tool list \<Rightarrow> string list option \<Rightarrow> 'w \<Rightarrow> (run_result \<times> 'w) option" where
  "run_agent E rq user_message S tools command w =
     (let rid = rrq_run_id rq; J = aen_json E;
          model = (case command of
             None \<Rightarrow> aen_model E
           | Some c \<Rightarrow> forced_chat J (aen_single E) (cli_call J c) (aen_model E));
          model = guarded_chat J (aen_single E) (allowed_tool_names tools) model
      in case agl_start (aen_lib E) model tools (aen_max_steps E) user_message w of
           (Some err, w1) \<Rightarrow> Some (failed_result rid err, snd (rsn_fail S rid err w1))
         | (None, w1) \<Rightarrow>
             (case event_loop J (agl_next (aen_lib E)) S rid
                     \<lparr>est_final = '''', est_artifacts = [], est_events = new_usage_tracker '''' '''',
                      est_tools = zero_run_usage\<rparr> w1 of
                None \<Rightarrow> None
              | Some (Inl result, w2) \<Rightarrow> Some (result, w2)
              | Some (Inr st, w2) \<Rightarrow> Some (finish_run E rq user_message S st w2)))"

definition run_started_payload :: "run_request \<Rightarrow> goval" where
  "run_started_payload rq =
     VMap [(''workspace_id'', VStr (rrq_workspace_id rq)), (''model_policy'', VStr (rrq_model_policy rq)),
           (''skill_ids'', VList (map VStr (rrq_skill_ids rq))),
           (''model_runtime'', VStr ''eino_chat_model'')]"

definition execute_run :: "('c, 'r, 'w) agent_engine \<Rightarrow> run_request \<Rightarrow> string \<Rightarrow> 'w run_sink \<Rightarrow> 'w \<Rightarrow>
    (run_result \<times> 'w) option" where
  "execute_run E rq user_message S w =
     (let rid = rrq_run_id rq in
      case rsn_emit S rid EventRunStarted ''Eino agent runtime accepted the run.'' (run_started_payload rq) w of
        (Inl err, w1) \<Rightarrow> Some (failed_result rid err, w1)
      | (Inr _, w1) \<Rightarrow>
      case rsn_is_canceled S rid w1 of
        (True, w2) \<Rightarrow>
          Some (plain_result rid RunCanceled '''', snd (rsn_fail S rid ''run canceled before execution'' w2))
      | (False, w2) \<Rightarrow>
          (let tools = map (agent_tool_of (aen_bridge E)) (build_tools (aen_bridge E) rq S);
               command = parse_cli_command user_message
           in if command \<noteq> None \<and> \<not> has_runtime_tool tools ''cli_exec'' then
                Some (failed_result rid cli_missing_text, snd (rsn_fail S rid cli_missing_text w2))
              else run_agent E rq user_message S tools command w2))"

section \<open>The handler (\<open>executeRun\<close>)\<close>

definition runtime_authorized :: "string \<Rightarrow> string \<Rightarrow> bool" where
  "runtime_authorized token header \<longleftrightarrow> token = '''' \<or> header = ''Bearer '' @ token"

datatype runtime_reply = RuntimeError int string | RuntimeResult run_result

text \<open>\<open>input\<close> is the decoded body, \<open>None\<close> when it is no such object; a request the engine does not end
  has no reply.\<close>

definition runtime_execute_run :: "'p network \<Rightarrow> sink_codec \<Rightarrow> ('c, 'r, 'p) agent_engine \<Rightarrow> string \<Rightarrow> string \<Rightarrow> string \<Rightarrow>
    string \<Rightarrow> run_execution_request option \<Rightarrow> 'p \<Rightarrow> (runtime_reply \<times> 'p) option" where
  "runtime_execute_run N C E control_plane_url token runtime_id header input p =
     (if \<not> runtime_authorized token header then Some (RuntimeError 401 ''unauthorized'', p)
      else case input of
        None \<Rightarrow> Some (RuntimeError 400 ''invalid json body'', p)
      | Some x \<Rightarrow>
          (let url = (if rex_control_plane_url x = '''' then control_plane_url else rex_control_plane_url x);
               rq = rex_request x; attempt = rrq_attempt_id rq;
               k = with_attempt attempt (new_control_plane_sink url token);
               work = (\<lambda>p. map_option (map_prod RuntimeResult id)
                         (execute_run E rq (rex_user_message x) (control_plane_run_sink N C k) p))
           in if url = '''' then Some (RuntimeError 400 ''control_plane_url is required'', p)
              else if attempt = '''' then work p
              else
                (case runtime_claim N C k (rrq_run_id rq) attempt runtime_id 600 p of
                   (Inl err, p1) \<Rightarrow> Some (RuntimeError 409 err, p1)
                 | (Inr r, p1) \<Rightarrow>
                     if is_terminal_run_status (run_status r)
                     then Some (RuntimeResult (plain_result (run_id r) (run_status r) ''''), p1)
                     else work p1)))"


end
