(* ===== verification/Skill_Limits.thy ===== *)
theory Skill_Limits
  imports Go_Text
begin

text \<open>
  The limiters of skill calls in the agent runtime: \<open>LocalSkillRateLimiter\<close>
  (agent-runtime/internal/tools/tool_bridge.go), a fixed window per key in the memory of one
  process, and \<open>RedisSkillRateLimiter\<close> (redis_rate_limiter.go), a counter per key and minute in
  Redis. The Redis client, the hash of a key and the clock are parameters.
\<close>

section \<open>In memory\<close>

record skill_window =
  skw_start :: gtime
  skw_count :: int

type_synonym skill_windows = "string \<rightharpoonup> skill_window"

definition local_allow :: "gtime \<Rightarrow> string \<Rightarrow> int \<Rightarrow> skill_windows \<Rightarrow> bool \<times> skill_windows" where
  "local_allow now key limit ws =
     (if limit \<le> 0 then (True, ws)
      else
        (let window = (case ws key of Some w \<Rightarrow> w | None \<Rightarrow> \<lparr>skw_start = 0, skw_count = 0\<rparr>)
         in if is_zero_time (skw_start window) \<or> time_minute \<le> time_sub now (skw_start window)
            then (True, ws(key \<mapsto> \<lparr>skw_start = now, skw_count = 1\<rparr>))
            else if limit \<le> skw_count window then (False, ws)
            else (True, ws(key \<mapsto> window\<lparr>skw_count := skw_count window + 1\<rparr>))))"

section \<open>In Redis\<close>

text \<open>\<open>rrl_incr\<close> also gives the count when it fails; \<open>rrl_hash\<close> is the hexadecimal text of the first eight
  bytes of the SHA-256.\<close>

record 'w redis_skill_limiter =
  rrl_incr :: "string \<Rightarrow> 'w \<Rightarrow> (int \<times> string option) \<times> 'w"
  rrl_expire :: "string \<Rightarrow> duration \<Rightarrow> 'w \<Rightarrow> string option \<times> 'w"
  rrl_hash :: "string \<Rightarrow> string"
  rrl_now :: "'w \<Rightarrow> gtime"
  rrl_prefix :: string

definition default_skill_rate_prefix :: string where
  "default_skill_rate_prefix = ''niceagent:skill-rate''"

definition skill_rate_prefix :: "string \<Rightarrow> string" where
  "skill_rate_prefix raw =
     (let p = trim_space raw; p = (if p = '''' then default_skill_rate_prefix else p)
      in rev (dropWhile (\<lambda>c. c = CHR '':'') (rev p)))"

text \<open>\<open>Truncate(time.Minute)\<close> rounds towards the zero time, and the layout is \<open>200601021504\<close>.\<close>

definition window_start :: "gtime \<Rightarrow> gtime" where
  "window_start now = now - now mod time_minute"

definition format_minute :: "gtime \<Rightarrow> string" where
  "format_minute t = format_hour t @ pad 2 (t mod time_hour div time_minute)"

definition skill_rate_key :: "'w redis_skill_limiter \<Rightarrow> string \<Rightarrow> gtime \<Rightarrow> string" where
  "skill_rate_key L key now =
     rrl_prefix L @ '':'' @ rrl_hash L (trim_space key) @ '':'' @ format_minute (window_start now)"

text \<open>\<open>windowTTL\<close> reads the clock twice; no time passes here between the two.\<close>

definition window_ttl :: "gtime \<Rightarrow> duration" where
  "window_ttl now =
     (let ttl = time_sub (window_start now + time_minute) now + time_minute
      in if ttl < time_minute then time_minute else ttl)"

definition redis_allow :: "'w redis_skill_limiter \<Rightarrow> string \<Rightarrow> int \<Rightarrow> 'w \<Rightarrow> bool \<times> 'w" where
  "redis_allow L key limit w =
     (if limit \<le> 0 then (True, w)
      else
        (let redis_key = skill_rate_key L key (rrl_now L w)
         in case rrl_incr L redis_key w of
              ((n, err), w1) \<Rightarrow>
                (let (err, w2) =
                   (if n = 1 \<and> err = None then rrl_expire L redis_key (window_ttl (rrl_now L w1)) w1
                    else (err, w1))
                 in if err \<noteq> None then (False, w2) else (n \<le> limit, w2))))"

section \<open>What they admit\<close>

text \<open>A run of calls, each with its time, key and limit, and the answers they get.\<close>

fun local_answers :: "(gtime \<times> string \<times> int) list \<Rightarrow> skill_windows \<Rightarrow> bool list" where
  "local_answers [] ws = []"
| "local_answers ((now, key, limit) # cs) ws =
     (case local_allow now key limit ws of (ok, ws1) \<Rightarrow> ok # local_answers cs ws1)"

text \<open>A window that has \<open>n\<close> calls since \<open>start\<close>.\<close>

definition window_has :: "string \<Rightarrow> gtime \<Rightarrow> int \<Rightarrow> skill_windows \<Rightarrow> bool" where
  "window_has key start n ws \<longleftrightarrow> ws key = Some \<lparr>skw_start = start, skw_count = n\<rparr>"

lemma within_minute: "t - start < time_minute \<Longrightarrow> \<not> time_minute \<le> time_sub t start"
  by (simp add: time_sub_def duration_defs min_def max_def)

lemma local_allow_same:
  assumes "window_has key start n ws" "start \<noteq> 0" "now - start < time_minute" "0 < limit"
  shows "fst (local_allow now key limit ws) = (n < limit)"
    and "window_has key start (if n < limit then n + 1 else n) (snd (local_allow now key limit ws))"
  using assms within_minute [OF assms(3)]
  by (simp_all add: local_allow_def window_has_def is_zero_time_def Let_def)

lemma local_allow_other:
  "key' \<noteq> key \<Longrightarrow> window_has key start n ws \<Longrightarrow>
     window_has key start n (snd (local_allow now key' limit ws))"
  by (simp add: local_allow_def window_has_def Let_def)

text \<open>The answers to the calls of one key.\<close>

definition answers_for :: "string \<Rightarrow> (gtime \<times> string \<times> int) list \<Rightarrow> skill_windows \<Rightarrow> bool list" where
  "answers_for key cs ws =
     map snd (filter (\<lambda>(c, ok). fst (snd c) = key) (zip cs (local_answers cs ws)))"

lemma answers_for_Cons:
  "answers_for key ((now, k, limit) # cs) ws =
     (if k = key then fst (local_allow now k limit ws) # answers_for key cs (snd (local_allow now k limit ws))
      else answers_for key cs (snd (local_allow now k limit ws)))"
  by (simp add: answers_for_def split: prod.split)

lemma answers_within_window:
  assumes "window_has key start n ws" "start \<noteq> 0" "0 < limit" "n \<le> limit"
    and "\<And>c. c \<in> set cs \<Longrightarrow> fst c - start < time_minute"
    and "\<And>now l. (now, key, l) \<in> set cs \<Longrightarrow> l = limit"
  shows "answers_for key cs ws =
     map (\<lambda>i. n + int i < limit) [0..<length (filter (\<lambda>c. fst (snd c) = key) cs)]"
  using assms
proof (induction cs arbitrary: n ws)
  case Nil
  then show ?case by (simp add: answers_for_def)
next
  case (Cons c cs)
  obtain now k l where c: "c = (now, k, l)" by (cases c)
  have later: "d \<in> set cs \<Longrightarrow> fst d - start < time_minute" "(u, key, m) \<in> set cs \<Longrightarrow> m = limit" for d u m
    using Cons.prems(5) [of d] Cons.prems(6) [of u m] by simp_all
  show ?case
  proof (cases "k = key")
    case False
    have h: "window_has key start n (snd (local_allow now k l ws))"
      using local_allow_other [OF False Cons.prems(1)] .
    have "answers_for key cs (snd (local_allow now k l ws)) =
        map (\<lambda>i. n + int i < limit) [0..<length (filter (\<lambda>c. fst (snd c) = key) cs)]"
      by (rule Cons.IH [OF h Cons.prems(2-4) later])
    then show ?thesis by (simp add: c answers_for_Cons False)
  next
    case True
    have l: "l = limit" and t: "now - start < time_minute" using Cons.prems(5,6) c True by force+
    note s = local_allow_same [OF Cons.prems(1,2) t Cons.prems(3)]
    let ?m = "if n < limit then n + 1 else n"
    have "?m \<le> limit" using Cons.prems(4) by simp
    have "answers_for key cs (snd (local_allow now key limit ws)) =
        map (\<lambda>i. ?m + int i < limit) [0..<length (filter (\<lambda>c. fst (snd c) = key) cs)]"
      by (rule Cons.IH [OF _ Cons.prems(2,3) \<open>?m \<le> limit\<close>]) (use s(2) later in simp_all)
    moreover have "[0..<Suc m] = 0 # map Suc [0..<m]" for m
      by (simp add: map_Suc_upt upt_conv_Cons del: upt_Suc)
    ultimately show ?thesis
      using Cons.prems(4) s(1) by (auto simp: c l True answers_for_Cons algebra_simps simp del: upt_Suc)
  qed
qed

text \<open>Of the calls of a key within a minute of the first one of a window exactly the first ones pass, as many
  as the limit, whatever calls of other keys come between them.\<close>

theorem skill_limiter_admits_first:
  assumes "opened \<noteq> 0" "0 < limit"
    and "ws key = None \<or> (\<exists>w. ws key = Some w \<and> time_minute \<le> time_sub opened (skw_start w))"
    and "\<And>c. c \<in> set cs \<Longrightarrow> fst c - opened < time_minute"
    and "\<And>now l. (now, key, l) \<in> set cs \<Longrightarrow> l = limit"
  shows "answers_for key ((opened, key, limit) # cs) ws =
     map (\<lambda>i. int i < limit) [0..<Suc (length (filter (\<lambda>c. fst (snd c) = key) cs))]"
proof -
  have s: "fst (local_allow opened key limit ws)" "window_has key opened 1 (snd (local_allow opened key limit ws))"
    using assms(2,3) by (auto simp: local_allow_def window_has_def is_zero_time_def)
  have "answers_for key cs (snd (local_allow opened key limit ws)) =
      map (\<lambda>i. 1 + int i < limit) [0..<length (filter (\<lambda>c. fst (snd c) = key) cs)]"
    using answers_within_window [OF s(2) assms(1,2) _ assms(4,5)] assms(2) by simp
  moreover have "[0..<Suc m] = 0 # map Suc [0..<m]" for m
    by (simp add: map_Suc_upt upt_conv_Cons del: upt_Suc)
  ultimately show ?thesis using s(1) assms(2) by (simp add: answers_for_Cons del: upt_Suc)
qed

theorem skill_limiter_admits_first_witness:
  "answers_for ''k'' [(1, ''k'', 2), (2, ''j'', 1), (3, ''k'', 2), (4, ''k'', 2)] Map.empty = [True, True, False]"
proof -
  have t: "fst c - 1 < time_minute" "(u, ''k'', l) = c \<Longrightarrow> l = 2"
    if "c \<in> set [(2, ''j'', 1), (3, ''k'', 2), (4, ''k'', 2)]" for c u and l :: int
    using that by (simp_all add: duration_defs) (elim disjE; simp)+
  show ?thesis
    using skill_limiter_admits_first [where opened = 1 and limit = 2 and key = "''k''" and ws = Map.empty
        and cs = "[(2, ''j'', 1), (3, ''k'', 2), (4, ''k'', 2)]", OF _ _ _ t(1) t(2) [OF _ refl]]
    by (simp add: upt_rec)
qed

text \<open>A call is refused when Redis cannot count it.\<close>

theorem redis_limiter_fails_closed:
  assumes "0 < limit" "fst (rrl_incr L (skill_rate_key L key (rrl_now L w)) w) = (n, Some err)"
  shows "\<not> fst (redis_allow L key limit w)"
  using assms by (auto simp: redis_allow_def Let_def split: prod.splits)

end
