(* ===== verification/Net_Guard_Properties.thy ===== *)
theory Net_Guard_Properties
  imports Net_Guard
begin

text \<open>
  The properties of the guards of the runtime's tools: which addresses count as public, that the dialer
  connects to no other, and that secret files lie below their roots.
\<close>

section \<open>Addresses\<close>

definition octets :: "nat \<Rightarrow> nat \<Rightarrow> nat \<Rightarrow> nat \<Rightarrow> nat" where
  "octets a b c d = ((a * 256 + b) * 256 + c) * 256 + d"

lemma digits_inject:
  fixes x x' y y' :: nat
  assumes "y < k" "y' < k"
  shows "x * k + y = x' * k + y' \<longleftrightarrow> x = x' \<and> y = y'"
proof -
  have "(x * k + y) div k = x" "(x * k + y) mod k = y" "(x' * k + y') div k = x'" "(x' * k + y') mod k = y'"
    using assms by simp_all
  then show ?thesis by metis
qed

lemma octets_inject:
  "b < 256 \<Longrightarrow> c < 256 \<Longrightarrow> d < 256 \<Longrightarrow> b' < 256 \<Longrightarrow> c' < 256 \<Longrightarrow> d' < 256 \<Longrightarrow>
   octets a b c d = octets a' b' c' d' \<longleftrightarrow> a = a' \<and> b = b' \<and> c = c' \<and> d = d'"
  by (simp only: octets_def digits_inject conj_assoc)

lemma quotient: "r < k \<Longrightarrow> n = x * k + r \<Longrightarrow> n div k = x" for n :: nat
  by simp

lemma octets_div:
  assumes "b < 256" "c < 256" "d < 256"
  shows "octets a b c d div 16777216 = a" "octets a b c d div 65536 = a * 256 + b"
    "octets a b c d div 1048576 = a * 16 + b div 16" "octets a b c d div 268435456 = a div 16"
proof -
  show "octets a b c d div 16777216 = a"
    by (rule quotient [where r = "b * 65536 + c * 256 + d"]) (use assms in \<open>auto simp: octets_def algebra_simps\<close>)
  show "octets a b c d div 65536 = a * 256 + b"
    by (rule quotient [where r = "c * 256 + d"]) (use assms in \<open>auto simp: octets_def algebra_simps\<close>)
  have b: "b = b div 16 * 16 + b mod 16" "b mod 16 < 16" by simp_all
  show "octets a b c d div 1048576 = a * 16 + b div 16"
  proof (rule quotient [where r = "b mod 16 * 65536 + c * 256 + d"])
    show "b mod 16 * 65536 + c * 256 + d < 1048576" using b(2) assms by simp
    have "octets a b c d = a * 16777216 + b * 65536 + c * 256 + d" by (simp add: octets_def)
    also have "\<dots> = a * 16777216 + (b div 16 * 16 + b mod 16) * 65536 + c * 256 + d" by simp
    also have "\<dots> = (a * 16 + b div 16) * 1048576 + (b mod 16 * 65536 + c * 256 + d)" by (simp only: algebra_simps)
    finally show "octets a b c d = (a * 16 + b div 16) * 1048576 + (b mod 16 * 65536 + c * 256 + d)" .
  qed
  have "octets a b c d div 268435456 = octets a b c d div 16777216 div 16"
    by (simp add: div_mult2_eq [symmetric])
  then show "octets a b c d div 268435456 = a div 16" using \<open>octets a b c d div 16777216 = a\<close> by simp
qed

lemma unat_octets:
  assumes "a < 256" "b < 256" "c < 256" "d < 256"
  shows "unat (word_of_nat (octets a b c d) :: 32 word) = octets a b c d"
proof -
  have "octets a b c d < 2 ^ 32" using assms by (simp add: octets_def)
  then show ?thesis by (subst unat_of_nat) simp
qed

lemma drop_bit_unat: "drop_bit n w = v \<longleftrightarrow> unat w div 2 ^ n = unat v" for w :: "'a::len word"
proof -
  have "unat (drop_bit n w) = unat w div 2 ^ n" unfolding unat_drop_bit_eq by (rule drop_bit_eq_div)
  then show ?thesis by (metis unsigned_word_eqI)
qed

text \<open>Over the four numbers of an address: not public are this host (127), the private networks 10,
  172.16 to 172.31 and 192.168, the link-local network 169.254, the multicast networks 224 to
  239, 0.0.0.0 and the metadata address 100.100.100.200; all others are public.\<close>

theorem public_ipv4_iff:
  assumes "a < 256" "b < 256" "c < 256" "d < 256"
  shows "is_public_addr (ipv4 a b c d) \<longleftrightarrow>
    \<not> (a = 127 \<or> a = 10 \<or> (a = 172 \<and> b div 16 = 1) \<or> (a = 192 \<and> b = 168) \<or> (a = 169 \<and> b = 254) \<or>
       a div 16 = 14 \<or> (a = 0 \<and> b = 0 \<and> c = 0 \<and> d = 0) \<or> (a = 100 \<and> b = 100 \<and> c = 100 \<and> d = 200))"
proof -
  let ?w = "word_of_nat (octets a b c d) :: 32 word"
  note n = unat_octets [OF assms]
  note q = octets_div [OF assms(2-4)]
  have w: "ipv4 a' b' c' d' = IPv4 (word_of_nat (octets a' b' c' d'))" for a' b' c' d'
    by (simp only: ipv4_def octets_def)
  have same: "ipv4 a b c d = ipv4 a' b' c' d' \<longleftrightarrow> a = a' \<and> b = b' \<and> c = c' \<and> d = d'"
    if "a' < 256" "b' < 256" "c' < 256" "d' < 256" for a' b' c' d'
    using n unat_octets [OF that] octets_inject [OF assms(2-4) that(2-4)]
    by (metis ip_addr.inject(1) w)
  have div16: "b div 16 < 16" using assms(2) by simp
  have "is_metadata_addr (ipv4 a b c d) \<longleftrightarrow>
      (a = 169 \<and> b = 254 \<and> c = 169 \<and> d = 254) \<or> (a = 100 \<and> b = 100 \<and> c = 100 \<and> d = 200)"
    using same [of 169 254 169 254] same [of 100 100 100 200]
    by (simp add: is_metadata_addr_def metadata_addrs_def w)
  moreover have "is_loopback (ipv4 a b c d) \<longleftrightarrow> a = 127"
    by (simp add: w drop_bit_unat n q)
  moreover have "is_link_local_unicast (ipv4 a b c d) \<longleftrightarrow> a = 169 \<and> b = 254"
    using digits_inject [OF assms(2), of 254 a 169] by (simp add: w drop_bit_unat n q)
  moreover have "is_private (ipv4 a b c d) \<longleftrightarrow> a = 10 \<or> (a = 172 \<and> b div 16 = 1) \<or> (a = 192 \<and> b = 168)"
    using digits_inject [OF assms(2), of 168 a 192] digits_inject [OF div16, of 1 a 172]
    by (simp add: w drop_bit_unat n q)
  moreover have "is_unspecified (ipv4 a b c d) \<longleftrightarrow> a = 0 \<and> b = 0 \<and> c = 0 \<and> d = 0"
  proof -
    have "is_unspecified (ipv4 a b c d) \<longleftrightarrow> octets a b c d = 0"
      using n by (simp add: w) (metis unsigned_0 unsigned_word_eqI)
    then show ?thesis by (auto simp: octets_def)
  qed
  moreover have "is_multicast (ipv4 a b c d) \<longleftrightarrow> a div 16 = 14"
    by (simp add: w drop_bit_unat n q)
  moreover have "unmap (ipv4 a b c d) = ipv4 a b c d" by (simp add: w)
  ultimately show ?thesis unfolding is_public_addr_def Let_def by metis
qed

theorem public_ipv4_iff_witness: "is_public_addr (ipv4 8 8 8 8) \<and> \<not> is_public_addr (ipv4 172 31 0 1)"
  using public_ipv4_iff [of 8 8 8 8] public_ipv4_iff [of 172 31 0 1] by simp

section \<open>The dialer\<close>

lemma picked_allowed: "pick_address allow_local rs blocked = Inr a \<Longrightarrow> address_allowed allow_local a"
  by (induction allow_local rs blocked rule: pick_address.induct)
    (auto simp: address_allowed_def split: option.splits if_splits)

text \<open>Whatever the URL, the resolver and the names that change while a request is under way: the
  dialer connects to allowed addresses only. It does the same with any two networks that agree on
  these.\<close>

theorem dialer_reaches_allowed_only:
  assumes "\<And>a. address_allowed allow_local a \<Longrightarrow> connect a = connect' a"
  shows "guarded_dial N allow_local connect address w = guarded_dial N allow_local connect' address w"
proof -
  have "connect a = connect' a" if "pick_address allow_local rs [] = Inr a" for rs a
    using assms picked_allowed [OF that] by simp
  moreover have "connect a = connect' a" if "\<not> is_metadata_addr a" "allow_local \<or> is_public_addr a" for a
    using assms that by (simp add: address_allowed_def)
  ultimately show ?thesis
    by (auto simp: guarded_dial_def Let_def split: sum.split prod.split option.split)
qed

text \<open>A resolver that gives a private address first and a public one next.\<close>

definition demo_net :: "unit net_lib" where
  "demo_net =
     \<lparr>nlb_hostname = Inr, nlb_parse_addr = (\<lambda>_. None),
      nlb_lookup = (\<lambda>host w. (Inr [(''10.0.0.1'', Some (ipv4 10 0 0 1)), (''8.8.8.8'', Some (ipv4 8 8 8 8))], w)),
      nlb_addr_text = (\<lambda>_. ''''), nlb_split_host_port = (\<lambda>a. Inr (a, ''443'')), nlb_quote = id\<rparr>"

definition any_network :: "ip_addr \<Rightarrow> string \<Rightarrow> unit \<Rightarrow> (guard_error + ip_addr) \<times> unit" where
  "any_network a port w = (Inr a, w)"

definition public_network :: "ip_addr \<Rightarrow> string \<Rightarrow> unit \<Rightarrow> (guard_error + ip_addr) \<times> unit" where
  "public_network a port w = (if is_public_addr a then Inr a else Inl (GuardError ''private''), w)"

theorem dialer_reaches_allowed_only_witness:
  "guarded_dial demo_net False any_network ''host'' () = guarded_dial demo_net False public_network ''host'' ()"
proof (rule dialer_reaches_allowed_only)
  show "any_network a = public_network a" if "address_allowed False a" for a
    using that by (intro ext) (simp add: address_allowed_def any_network_def public_network_def)
qed

text \<open>An unspecified address with a zone is not unspecified to \<open>netip\<close>, so that the guards let
  it through.\<close>

theorem zoned_unspecified_is_allowed: "address_allowed False (IPv6 0 ''lo'')"
  by (simp add: address_allowed_def is_public_addr_def is_metadata_addr_def metadata_addrs_def ipv4_def
      high16_def)

section \<open>Secret files\<close>

lemma common_prefix_take: "take (common_prefix as bs) as = take (common_prefix as bs) bs"
  by (induction as bs rule: common_prefix.induct) auto

lemma common_prefix_le: "common_prefix as bs \<le> length as" "common_prefix as bs \<le> length bs"
  by (induction as bs rule: common_prefix.induct) auto

lemma common_prefix_full: "take (length as) bs = as \<Longrightarrow> common_prefix as bs = length as"
  by (induction as bs rule: common_prefix.induct) auto

lemma rooted_step_no_dots: "''..'' \<notin> set out \<Longrightarrow> ''..'' \<notin> set (clean_step True out p)"
  by (cases out) (simp_all add: clean_step_def, metis)

lemma rooted_no_dots: "''..'' \<notin> set out \<Longrightarrow> ''..'' \<notin> set (foldl (clean_step True) out ps)"
  using rooted_step_no_dots by (induction ps arbitrary: out) (simp_all del: set_simps)

lemma elements_no_dots: "''..'' \<notin> set (clean_elements True p)"
  using rooted_no_dots [of "[]"] by (simp add: clean_elements_def)

lemma dots_prefix:
  assumes "element p" "\<forall>q \<in> set ps. element q"
  shows "join_with [slash] (p # ps) = ''..'' \<or> has_prefix (join_with [slash] (p # ps)) ''../'' \<longleftrightarrow> p = ''..''"
proof
  assume l: "join_with [slash] (p # ps) = ''..'' \<or> has_prefix (join_with [slash] (p # ps)) ''../''"
  have plain: "\<forall>q \<in> set (p # ps). slash \<notin> set q" using assms by (auto simp: element_def)
  have s: "split_on slash (join_with [slash] (p # ps)) = p # ps"
    using split_join [of "p # ps" slash] plain by simp
  from l show "p = ''..''"
  proof
    assume "join_with [slash] (p # ps) = ''..''"
    with s show ?thesis by (simp add: slash_def)
  next
    assume "has_prefix (join_with [slash] (p # ps)) ''../''"
    then obtain r where "join_with [slash] (p # ps) = ''..'' @ slash # r"
      by (auto simp: has_prefix_def starts_with_iff slash_def)
    with s have "split_on slash (''..'' @ slash # r) = p # ps" by simp
    then show ?thesis using split_on_append [of slash "''..''" r] by (simp add: slash_def)
  qed
next
  assume "p = ''..''"
  then show "join_with [slash] (p # ps) = ''..'' \<or> has_prefix (join_with [slash] (p # ps)) ''../''"
    by (cases ps) (simp_all add: has_prefix_def slash_def)
qed

lemma within_root_iff:
  "path_within_root path root \<longleftrightarrow>
     take (length (clean_elements True root)) (clean_elements True path) = clean_elements True root"
proof -
  let ?b = "clean_elements True root" and ?t = "clean_elements True path"
  let ?n = "common_prefix ?b ?t"
  let ?r = "replicate (length ?b - ?n) ''..'' @ drop ?n ?t"
  have el: "\<forall>q \<in> set ?r. element q"
    using elements_clean(1) by (auto simp: element_def slash_def dest: in_set_dropD)
  have dot: "''.'' \<notin> set ?r" using elements_clean(2) by (auto dest: in_set_dropD)
  have rel: "rel_path root path = (if ?r = [] then ''.'' else join_with [slash] ?r)"
    by (simp only: rel_path_def Let_def)
  have "path_within_root path root \<longleftrightarrow> ?r = [] \<or> hd ?r \<noteq> ''..''"
  proof (cases ?r)
    case Nil
    then have "rel_path root path = ''.''" using rel by simp
    with Nil show ?thesis by (simp only: path_within_root_def Let_def simp_thms)
  next
    case (Cons p ps)
    have "join_with [slash] (p # ps) \<noteq> ''.''"
    proof
      assume "join_with [slash] (p # ps) = ''.''"
      moreover have "split_on slash (join_with [slash] (p # ps)) = p # ps"
        using split_join [of "p # ps" slash] el Cons by (simp add: element_def)
      ultimately have "p = ''.''" by (simp add: slash_def)
      moreover have "p \<in> set ?r" unfolding Cons by simp
      ultimately show False using dot by blast
    qed
    moreover have "rel_path root path = join_with [slash] (p # ps)" using rel unfolding Cons by simp
    moreover have "element p" "\<forall>q \<in> set ps. element q" using el unfolding Cons by simp_all
    ultimately show ?thesis using dots_prefix [of p ps] unfolding Cons path_within_root_def Let_def by auto
  qed
  also have "\<dots> \<longleftrightarrow> ?n = length ?b"
  proof (cases "?n = length ?b")
    case True
    have "hd (drop ?n ?t) \<noteq> ''..''" if "drop ?n ?t \<noteq> []"
      using that elements_no_dots [of path] by (metis hd_in_set in_set_dropD)
    then show ?thesis using True by auto
  next
    case False
    then have "0 < length ?b - ?n" using common_prefix_le(1) [of ?b ?t] by simp
    then show ?thesis using False by (cases "length ?b - ?n") auto
  qed
  also have "\<dots> \<longleftrightarrow> take (length ?b) ?t = ?b"
    using common_prefix_take [of ?b ?t] common_prefix_full [of ?b ?t] by auto
  finally show ?thesis .
qed

text \<open>A secret that is read from a file comes from a path all of whose elements continue those of a
  configured root, by its name and with all symbolic links followed.\<close>

theorem secret_file_below_root:
  assumes "resolve_file_secret_ref S ref = Inr v"
  shows "\<exists>path root data. root \<in> set (secret_file_roots (slb_getenv S)) \<and>
    slb_read S path (max_secret_file_bytes + 1) = Inr data \<and> v = trim_space data \<and>
    take (length (clean_elements True root)) (clean_elements True path) = clean_elements True root \<and>
    take (length (clean_elements True (resolved_path S root))) (clean_elements True (resolved_path S path)) =
      clean_elements True (resolved_path S root)"
  using assms by (auto simp: resolve_file_secret_ref_def ensure_allowed_secret_file_def Let_def list_ex_iff
      within_root_iff split: if_splits sum.splits)

definition demo_secrets :: secret_lib where
  "demo_secrets =
     \<lparr>slb_getenv = (\<lambda>_. ''/run/secrets''), slb_eval = Some, slb_read = (\<lambda>_ _. Inr ''abc-123''), slb_quote = id\<rparr>"

theorem secret_file_below_root_witness:
  "\<exists>path root. root \<in> set (secret_file_roots (slb_getenv demo_secrets)) \<and>
     take (length (clean_elements True root)) (clean_elements True path) = clean_elements True root"
proof -
  have t: "trim_space ''/run/secrets'' = ''/run/secrets''" "trim_space ''/run/secrets/key'' = ''/run/secrets/key''"
    "trim_space ''abc-123'' = ''abc-123''" by (simp_all add: trim_graphic graphic_def)
  have "resolve_file_secret_ref demo_secrets ''file:///run/secrets/key'' = Inr ''abc-123''"
    by (simp add: resolve_file_secret_ref_def demo_secrets_def ensure_allowed_secret_file_def secret_file_roots_def
        path_within_root_def rel_path_def resolved_path_def clean_path_def clean_elements_def clean_step_def t
        is_abs_def has_prefix_def trim_prefix_def slash_def max_secret_file_bytes_def Let_def)
  from secret_file_below_root [OF this] show ?thesis by blast
qed


end
