(* ===== verification/Tool_Properties.thy ===== *)
theory Tool_Properties
  imports Tool_Bridge Skill_Limits Net_Guard_Properties
begin

text \<open>
  The properties of the tools: where a call may connect to, what the risk policy and the quota keep
  from running, how often a request is repeated, what a failed request shows of the token, and what
  the summary of a workspace says.
\<close>

section \<open>The network of a call\<close>

text \<open>\<open>rewired E c\<close> is the same surroundings with another network.\<close>

abbreviation rewired :: "('c, 'w) tool_env \<Rightarrow> (ip_addr \<Rightarrow> string \<Rightarrow> 'w \<Rightarrow> (guard_error + 'c) \<times> 'w) \<Rightarrow> ('c, 'w) tool_env" where
  "rewired E c \<equiv> E\<lparr>tbr_connect := c\<rparr>"

lemma skill_client_rewired:
  assumes "\<And>a. address_allowed (tbr_allow_local E) a \<Longrightarrow> tbr_connect E a = c a"
  shows "skill_client (rewired E c) = skill_client E"
proof -
  have "guarded_dial (tbr_net E) (tbr_allow_local E) c =
      guarded_dial (tbr_net E) (tbr_allow_local E) (tbr_connect E)"
    by (intro ext dialer_reaches_allowed_only) (use assms in auto)
  then show ?thesis by (simp add: skill_client_def)
qed

lemma fields_rewired:
  "tbr_net (rewired E c) = tbr_net E" "tbr_json (rewired E c) = tbr_json E"
  "tbr_allow_local (rewired E c) = tbr_allow_local E" "tbr_new_request (rewired E c) = tbr_new_request E"
  "tbr_query_escape (rewired E c) = tbr_query_escape E" "tbr_ctx (rewired E c) = tbr_ctx E"
  "tbr_wait (rewired E c) = tbr_wait E" "tbr_clock (rewired E c) = tbr_clock E"
  "tbr_parse_time (rewired E c) = tbr_parse_time E" "tbr_backoff (rewired E c) = tbr_backoff E"
  "tbr_allow (rewired E c) = tbr_allow E" "tbr_resolve (rewired E c) = tbr_resolve E"
  by simp_all

lemma surroundings_rewired:
  "http_retry_delay (rewired E c) = http_retry_delay E"
  "skill_sleep (rewired E c) = skill_sleep E"
  "build_skill_request (rewired E c) = build_skill_request E"
  "skill_gate (rewired E c) = skill_gate E"
  "skill_token (rewired E c) = skill_token E"
  "http_answer (rewired E c) = http_answer E"
  "mcp_answer (rewired E c) = mcp_answer E"
  unfolding fun_eq_iff http_retry_delay_def skill_retry_after_def skill_sleep_def build_skill_request_def
    skill_gate_def allow_skill_def skill_token_def http_answer_def mcp_answer_def mcp_decoded_def fields_rewired
  by (rule allI refl)+

lemma skill_request_loop_rewired:
  assumes "skill_client (rewired E c) = skill_client E"
  shows "skill_request_loop (rewired E c) cfg args token attempt left retries w =
    skill_request_loop E cfg args token attempt left retries w"
proof (induction left arbitrary: attempt retries w)
  case 0
  show ?case
    unfolding skill_request_loop.simps [of _ _ _ _ _ 0] surroundings_rewired fields_rewired assms simp_thms
      if_True
    by (rule TrueI)
next
  case (Suc left)
  show ?case
    unfolding skill_request_loop.simps [of _ _ _ _ _ "Suc left"] surroundings_rewired fields_rewired assms
      diff_Suc_1 Suc
    by (rule refl)
qed

lemma invoke_rewired:
  assumes "skill_client (rewired E c) = skill_client E"
  shows "invoke_http (rewired E c) = invoke_http E" "invoke_mcp (rewired E c) = invoke_mcp E"
  unfolding fun_eq_iff invoke_http_def invoke_mcp_def do_http_skill_request_def surroundings_rewired
    fields_rewired skill_request_loop_rewired [OF assms] assms
  by (rule allI refl)+


text \<open>An HTTP skill whose host resolves to a private and a public address, over a network that notes
  what it is asked for.\<close>

definition demo_tool_json :: tool_json where
  "demo_tool_json =
     \<lparr>tjs_decode = (\<lambda>s. Inr VNil), tjs_encode = (\<lambda>v. Some ''{}''), tjs_validate = (\<lambda>schema doc. None),
      tjs_http_config = (\<lambda>s. Inr
        \<lparr>hcf_type = ''http'', hcf_method = ''POST'', hcf_url = ''https://api'', hcf_timeout_seconds = 10,
         hcf_auth_type = ''bearer'',
         hcf_retry = \<lparr>rtc_max_attempts = 2, rtc_base_delay_ms = 100, rtc_max_delay_ms = 1000\<rparr>,
         hcf_requests_per_minute = 0\<rparr>),
      tjs_mcp_config = Inl, tjs_observation = (\<lambda>obs. hob_error_type obs),
      tjs_mcp_observation = (\<lambda>obs. hob_error_type obs), tjs_mcp_request = (\<lambda>rid name v. name),
      tjs_mcp_response = Inl, tjs_mcp_result = (\<lambda>r. VNil)\<rparr>"

definition noted_connect :: "ip_addr \<Rightarrow> string \<Rightarrow> ip_addr list \<Rightarrow> (guard_error + unit) \<times> ip_addr list" where
  "noted_connect a port w = (Inr (), w @ [a])"

definition allowed_connect :: "ip_addr \<Rightarrow> string \<Rightarrow> ip_addr list \<Rightarrow> (guard_error + unit) \<times> ip_addr list" where
  "allowed_connect a port w = (if address_allowed False a then (Inr (), w @ [a]) else (Inl (GuardError ''''), w))"

definition demo_client_error :: client_error where
  "demo_client_error =
     \<lparr>cle_unsafe = True, cle_timeout = False, cle_dns = False, cle_tls = False, cle_text = ''dial''\<rparr>"

definition demo_client :: "(string \<Rightarrow> ip_addr list \<Rightarrow> (guard_error + unit) \<times> ip_addr list) \<Rightarrow> skill_request \<Rightarrow>
    ip_addr list \<Rightarrow> (client_error + skill_response) \<times> ip_addr list" where
  "demo_client dial rq w =
     (case dial ''api'' w of
        (Inl err, w1) \<Rightarrow> (Inl demo_client_error, w1)
      | (Inr c, w1) \<Rightarrow>
          (Inr \<lparr>skr_status_code = 200, skr_retry_after = '''', skr_read = (\<lambda>n. Inr '''')\<rparr>, w1))"

definition demo_tool_env :: "(unit, ip_addr list) tool_env" where
  "demo_tool_env =
     \<lparr>tbr_net = \<lparr>nlb_hostname = Inr, nlb_parse_addr = (\<lambda>_. None),
         nlb_lookup = (\<lambda>host w. (Inr [(''10.0.0.1'', Some (ipv4 10 0 0 1)), (''8.8.8.8'', Some (ipv4 8 8 8 8))], w)),
         nlb_addr_text = (\<lambda>_. ''''), nlb_split_host_port = (\<lambda>a. Inr (a, ''443'')), nlb_quote = id\<rparr>,
      tbr_manifest = \<lparr>lib_parse_url = (\<lambda>_. None), lib_schema_error = (\<lambda>_. None), lib_compact = Some,
         lib_config_json = (\<lambda>_. '''')\<rparr>,
      tbr_json = demo_tool_json, tbr_allow_local = False, tbr_connect = noted_connect,
      tbr_client = demo_client, tbr_new_request = (\<lambda>m u. None), tbr_query_escape = id,
      tbr_ctx = (\<lambda>w. CtxAlive), tbr_wait = (\<lambda>d w. (None, w)), tbr_clock = (\<lambda>w. 0),
      tbr_parse_time = (\<lambda>s. None), tbr_backoff = (\<lambda>d n. d), tbr_allow = None,
      tbr_resolve = (\<lambda>m. Inr ''token'')\<rparr>"

definition demo_bridge_json :: bridge_json where
  "demo_bridge_json =
     \<lparr>bjs_report = (\<lambda>s. None), bjs_report_text = (\<lambda>r. None), bjs_object = (\<lambda>m. ''object''),
      bjs_command_args = (\<lambda>s. ([], s)), bjs_timeout_arg = (\<lambda>s. 0), bjs_workspace_args = (\<lambda>s. (s, '''', 0)),
      bjs_annotations = (\<lambda>s. []), bjs_schema = (\<lambda>s. None), bjs_summary = (\<lambda>r w s. ''''),
      bjs_listing = (\<lambda>as. ''''), bjs_artifact_text = (\<lambda>t. atx_content t), bjs_quote = id,
      bjs_rfc3339 = (\<lambda>t. ''time'')\<rparr>"

definition demo_bridge :: "(unit, ip_addr list) tool_bridge" where
  "demo_bridge =
     \<lparr>brg_env = demo_tool_env, brg_sandbox = None, brg_risk_policy = SkillRiskPolicyAllow,
      brg_json = demo_bridge_json\<rparr>"

definition silent_sink :: "'w run_sink" where
  "silent_sink =
     \<lparr>rsn_emit = (\<lambda>rid e m p w. (Inr (), w)), rsn_complete = (\<lambda>rid c as w. (Inr (), w)),
      rsn_fail = (\<lambda>rid m w. (Inr (), w)), rsn_is_canceled = (\<lambda>rid w. (False, w)),
      rsn_complete_with_usage = None, rsn_workspace = None, rsn_register = None, rsn_quota = None\<rparr>"

definition demo_http_skill :: runtime_skill where
  "demo_http_skill =
     (bare_skill ''search'')\<lparr>rsk_skill := (rsk_skill (bare_skill ''search''))\<lparr>skl_kind := SkillKindHTTP\<rparr>\<rparr>"

definition demo_tool :: "'w runtime_tool" where
  "demo_tool =
     \<lparr>rtl_run_id = ''run'', rtl_workspace_id = ''ws'', rtl_skill = demo_http_skill,
      rtl_risk_policy = SkillRiskPolicyAllow, rtl_sink = silent_sink\<rparr>"


section \<open>The gates of a call\<close>

text \<open>What a refused quota reservation answers.\<close>

definition quota_granted :: "string + tool_quota_answer \<Rightarrow> bool" where
  "quota_granted out \<longleftrightarrow> (\<exists>r. out = Inr r \<and> tqa_allowed r)"

lemma tell_keeps:
  "(\<And>e m p w. P w \<Longrightarrow> P (snd (rsn_emit S rid e m p w))) \<Longrightarrow> P w \<Longrightarrow> P (tell S rid e m p w)"
  by (simp add: tell_def)


text \<open>A sink without quota left.\<close>

definition spent_sink :: "'w run_sink" where
  "spent_sink =
     \<lparr>rsn_emit = (\<lambda>rid e m p w. (Inr (), w)), rsn_complete = (\<lambda>rid c as w. (Inr (), w)),
      rsn_fail = (\<lambda>rid m w. (Inr (), w)), rsn_is_canceled = (\<lambda>rid w. (False, w)),
      rsn_complete_with_usage = None, rsn_workspace = None, rsn_register = None,
      rsn_quota = Some (\<lambda>rid b w. (Inr \<lparr>tqa_allowed = False, tqa_message = '''', tqa_quota = '''',
        tqa_usage = zero_run_usage\<rparr>, w))\<rparr>"

definition cli_tool :: "'w run_sink \<Rightarrow> 'w runtime_tool" where
  "cli_tool S =
     \<lparr>rtl_run_id = ''run'', rtl_workspace_id = ''ws'', rtl_skill = bare_skill ''cli.exec'',
      rtl_risk_policy = SkillRiskPolicyAllow, rtl_sink = S\<rparr>"

definition empty_report :: sandbox_report where
  "empty_report =
     \<lparr>sbr_exit_code = 0, sbr_stdout = '''', sbr_stderr = '''', sbr_error = '''', sbr_artifacts = [],
      sbr_run_id = '''', sbr_duration = '''', sbr_truncated = False, sbr_approval_required = False,
      sbr_reason = '''', sbr_policy = '''', sbr_command = [], sbr_audit_id = '''', sbr_cpu_millis = 0,
      sbr_memory_max_bytes = 0, sbr_created = [], sbr_updated = [], sbr_deleted = []\<rparr>"

text \<open>A sandbox that counts its commands, on top of surroundings that do not matter here.\<close>

definition marking_bridge :: "('c, nat) tool_env \<Rightarrow> ('c, nat) tool_bridge" where
  "marking_bridge E =
     \<lparr>brg_env = E, brg_sandbox = Some (\<lambda>c w. (empty_report, Suc w)),
      brg_risk_policy = SkillRiskPolicyAllow, brg_json = demo_bridge_json\<rparr>"


text \<open>Which skills the policies let pass.\<close>

theorem policy_decides:
  "rdc_allowed (evaluate_skill_risk_policy J policy k) \<longleftrightarrow>
     (if policy = SkillRiskPolicyReadOnly
      then skl_risk k \<noteq> SkillRiskHigh \<and> \<not> anh_destructive (skill_annotations J k) \<and>
           anh_read_only (skill_annotations J k)
      else if policy = SkillRiskPolicyBlockDestructive then \<not> anh_destructive (skill_annotations J k)
      else policy \<noteq> SkillRiskPolicyBlockHigh \<or> skl_risk k \<noteq> SkillRiskHigh)"
  by (simp add: evaluate_skill_risk_policy_def risk_policy_names Let_def)

text \<open>A run cannot loosen the policy to one the runtime does not know.\<close>

lemma tool_policy_cases:
  "tool_risk_policy bridge_policy request \<in>
     {bridge_policy, SkillRiskPolicyAllow, SkillRiskPolicyBlockHigh, SkillRiskPolicyBlockDestructive,
      SkillRiskPolicyReadOnly}"
  by (simp add: tool_risk_policy_def normalize_skill_risk_policy_def Let_def)

section \<open>Repeated requests\<close>

text \<open>\<open>sent\<close> counts the requests of the client.\<close>

lemma skill_request_loop_sent:
  assumes "\<And>rq w. sent (snd (skill_client E rq w)) = Suc (sent w)" "\<And>d w. sent (snd (tbr_wait E d w)) = sent w"
    and "skill_request_loop E cfg args token attempt left retries w = (out, n, w')"
  shows "sent w' \<le> sent w + Suc left \<and> retries \<le> n \<and> n \<le> retries + int left"
  using assms(3)
proof (induction left arbitrary: attempt retries w)
  case 0
  have "skill_client E rq w = (o1, w1) \<Longrightarrow> sent w1 = Suc (sent w)" for rq o1 w1
    using assms(1) [of rq w] by simp
  with 0 show ?case by (subst (asm) skill_request_loop.simps) (fastforce split: sum.splits prod.splits)
next
  case (Suc left)
  show ?case
  proof (cases "build_skill_request E cfg args token")
    case (Inl err)
    with Suc.prems show ?thesis by (subst (asm) skill_request_loop.simps) auto
  next
    case (Inr rq)
    obtain o1 w1 where c: "skill_client E rq w = (o1, w1)" by (metis surj_pair)
    obtain r w2 where d: "skill_sleep E (http_retry_delay E (hcf_retry cfg) attempt o1 w1) w1 = (r, w2)"
      by (metis surj_pair)
    have s: "sent w1 = Suc (sent w)" "sent w2 = sent w1"
      using assms(1) [of rq w] assms(2) c d by (auto simp: skill_sleep_def split: if_splits) (metis snd_conv)
    show ?thesis
    proof (cases "\<not> should_retry_skill (tbr_ctx E w1) o1 \<or> r \<noteq> None")
      case True
      then show ?thesis
        using Suc.prems Inr c d s
        by (subst (asm) skill_request_loop.simps) (auto split: if_splits option.splits)
    next
      case False
      then have "skill_request_loop E cfg args token (attempt + 1) left (retries + 1) w2 = (out, n, w')"
        using Suc.prems Inr c d by (subst (asm) skill_request_loop.simps) auto
      from Suc.IH [OF this] s show ?thesis by simp
    qed
  qed
qed

text \<open>An HTTP skill sends at most as many requests as its retry configuration allows, and reports how often
  it repeated one.\<close>

theorem skill_requests_in_bounds:
  assumes "\<And>rq w. sent (snd (skill_client E rq w)) = Suc (sent w)" "\<And>d w. sent (snd (tbr_wait E d w)) = sent w"
    and "do_http_skill_request E cfg args token w = (out, n, w')"
  shows "int (sent w') \<le> int (sent w) + max 1 (rtc_max_attempts (hcf_retry cfg)) \<and>
    0 \<le> n \<and> n < max 1 (rtc_max_attempts (hcf_retry cfg))"
  using skill_request_loop_sent [of sent, OF assms(1,2) assms(3) [unfolded do_http_skill_request_def Let_def]]
  by (auto split: if_splits)

text \<open>A client that answers 503 and counts.\<close>

definition busy_env :: "(unit, nat) tool_env" where
  "busy_env =
     \<lparr>tbr_net = \<lparr>nlb_hostname = Inr, nlb_parse_addr = (\<lambda>_. None), nlb_lookup = (\<lambda>host w. (Inr [], w)),
         nlb_addr_text = (\<lambda>_. ''''), nlb_split_host_port = (\<lambda>a. Inr (a, ''443'')), nlb_quote = id\<rparr>,
      tbr_manifest = \<lparr>lib_parse_url = (\<lambda>_. None), lib_schema_error = (\<lambda>_. None), lib_compact = Some,
         lib_config_json = (\<lambda>_. '''')\<rparr>,
      tbr_json = demo_tool_json, tbr_allow_local = False, tbr_connect = (\<lambda>a p w. (Inr (), w)),
      tbr_client = (\<lambda>dial rq w. (Inr \<lparr>skr_status_code = 503, skr_retry_after = '''', skr_read = (\<lambda>n. Inr '''')\<rparr>, Suc w)),
      tbr_new_request = (\<lambda>m u. None), tbr_query_escape = id, tbr_ctx = (\<lambda>w. CtxAlive),
      tbr_wait = (\<lambda>d w. (None, w)), tbr_clock = (\<lambda>w. 0), tbr_parse_time = (\<lambda>s. None),
      tbr_backoff = (\<lambda>d n. d), tbr_allow = None, tbr_resolve = (\<lambda>m. Inr ''token'')\<rparr>"

definition busy_config :: http_config where
  "busy_config =
     \<lparr>hcf_type = ''http'', hcf_method = ''POST'', hcf_url = ''https://api'', hcf_timeout_seconds = 10,
      hcf_auth_type = ''none'',
      hcf_retry = \<lparr>rtc_max_attempts = 3, rtc_base_delay_ms = 100, rtc_max_delay_ms = 1000\<rparr>,
      hcf_requests_per_minute = 0\<rparr>"

theorem skill_requests_in_bounds_witness:
  "snd (snd (do_http_skill_request busy_env busy_config ''{}'' '''' 0)) \<le> 3"
proof -
  obtain out n w' where r: "do_http_skill_request busy_env busy_config ''{}'' '''' 0 = (out, n, w')"
    by (metis surj_pair)
  have "int (id w') \<le> int (id 0) + max 1 (rtc_max_attempts (hcf_retry busy_config))"
    by (rule skill_requests_in_bounds [THEN conjunct1, OF _ _ r]) (simp_all add: skill_client_def busy_env_def)
  then have "w' \<le> 3" by (simp add: busy_config_def)
  then show ?thesis by (simp add: r)
qed

section \<open>The token of a call\<close>

lemma redacted_stays: "clear_of ''redacted'' s \<Longrightarrow> \<not> contains v s \<Longrightarrow> \<not> contains (redact_text_secrets v secrets) s"
  by (induction v secrets rule: redact_text_secrets.induct)
    (simp_all add: hidden_stays_hidden [where mark = "''redacted''", simplified])

lemma redacted_hides:
  "clear_of ''redacted'' (trim_space s) \<Longrightarrow> 4 \<le> length (trim_space s) \<Longrightarrow> s \<in> set secrets \<Longrightarrow>
     \<not> contains (redact_text_secrets v secrets) (trim_space s)"
proof (induction v secrets rule: redact_text_secrets.induct)
  case (2 v secret secrets)
  show ?case
  proof (cases "s = secret")
    case True
    with 2(2,3) show ?thesis
      using replaced_is_hidden [where mark = "''redacted''" and s = "trim_space s" and v = v]
      by (simp add: redacted_stays)
  next
    case False
    with 2 show ?thesis by simp
  qed
qed simp

text \<open>The observation of a failed request does not show the bearer token.\<close>

theorem failed_call_hides_token:
  assumes "4 \<le> length (trim_space token)" "clear_of ''redacted'' (trim_space token)"
    and "http_answer B k [token] retries ctx (Inl err) = (obs, ok)"
  shows "\<exists>shown. hob_message obs = ''HTTP skill request failed: '' @ shown \<and>
    \<not> contains shown (trim_space token) \<and> hob_data obs = VNil \<and> \<not> ok"
  using assms(3) redacted_hides [OF assms(2,1), of "[token]"]
  by (auto simp: http_answer_def skill_observation_def)

theorem failed_call_hides_token_witness:
  "\<exists>shown. hob_message (fst (http_answer demo_tool_env (rsk_skill demo_http_skill) [''abc-123''] 0 CtxAlive
       (Inl demo_client_error))) = ''HTTP skill request failed: '' @ shown \<and> \<not> contains shown ''abc-123''"
proof -
  have t: "trim_space ''abc-123'' = ''abc-123''" by (rule trim_graphic) (simp_all add: graphic_def)
  obtain obs ok where r: "http_answer demo_tool_env (rsk_skill demo_http_skill) [''abc-123''] 0 CtxAlive
      (Inl demo_client_error) = (obs, ok)" by (metis surj_pair)
  from failed_call_hides_token [OF _ _ r] show ?thesis by (auto simp: r t clear_of_def)
qed

section \<open>The workspace tool\<close>

lemma summary_loop_facts:
  assumes "summary_loop J as latest s = s'"
    and "case asu_latest_artifact s of None \<Rightarrow> seen = [] | Some b \<Rightarrow>
      (\<exists>a \<in> set seen. b = brief_of J a \<and> art_created_at a = latest \<and> (\<forall>c \<in> set seen. art_created_at c \<le> latest))"
    and "asu_artifacts s = map (brief_of J) seen"
  shows "asu_artifacts s' = map (brief_of J) (seen @ as) \<and>
    (seen @ as \<noteq> [] \<longrightarrow> (\<exists>a \<in> set (seen @ as). asu_latest_artifact s' = Some (brief_of J a) \<and>
       (\<forall>c \<in> set (seen @ as). art_created_at c \<le> art_created_at a)))"
  using assms
proof (induction as arbitrary: latest s seen)
  case Nil
  then show ?case by (cases "asu_latest_artifact s") auto
next
  case (Cons a as)
  let ?newer = "asu_latest_artifact s = None \<or> after (art_created_at a) latest"
  let ?latest = "if ?newer then art_created_at a else latest"
  have "case (if ?newer then Some (brief_of J a) else asu_latest_artifact s) of None \<Rightarrow> seen @ [a] = []
    | Some b \<Rightarrow> (\<exists>d \<in> set (seen @ [a]). b = brief_of J d \<and> art_created_at d = ?latest \<and>
        (\<forall>c \<in> set (seen @ [a]). art_created_at c \<le> ?latest))"
  proof (cases "asu_latest_artifact s")
    case None
    with Cons.prems(2) show ?thesis by simp
  next
    case (Some b)
    with Cons.prems(2) obtain d where "d \<in> set seen" "b = brief_of J d" "art_created_at d = latest"
      "\<forall>c \<in> set seen. art_created_at c \<le> latest" by auto
    then show ?thesis using Some by (cases "after (art_created_at a) latest") (force simp: after_def)+
  qed
  with Cons.IH [OF Cons.prems(1) [unfolded summary_loop.simps Let_def], of "seen @ [a]"] Cons.prems(3)
  show ?case by simp
qed

text \<open>The summary of a workspace shows its newest artifact as the latest one.\<close>

theorem summary_shows_newest:
  assumes "as \<noteq> []"
  shows "\<exists>a \<in> set as. asu_latest_artifact (summarize_artifacts J as) = Some (brief_of J a) \<and>
    (\<forall>c \<in> set as. art_created_at c \<le> art_created_at a)"
  using summary_loop_facts [OF refl, where seen = "[]" and J = J and as = as and latest = 0] assms by (simp add: summarize_artifacts_def)

text \<open>The list of artifacts a call returns is read as the result of a sandbox, so that they are
  registered once more.\<close>

theorem listed_artifacts_are_registered_again:
  assumes "rsn_register (rtl_sink t) = Some register"
    and "bjs_report (brg_json B) (bjs_listing (brg_json B) as) = Some r" "sbr_artifacts r = as" "as \<noteq> []"
  shows "snd (register_artifacts_from_output B t (bjs_listing (brg_json B) as) w) =
    snd (register (rtl_run_id t) as w)"
  using assms by (auto simp: register_artifacts_from_output_def split: prod.split sum.split option.split)

definition demo_artifact :: "string \<Rightarrow> gtime \<Rightarrow> artifact" where
  "demo_artifact path created =
     \<lparr>art_id = '''', art_run_id = '''', art_chat_id = '''', art_user_id = '''', art_project_id = '''',
      art_workspace_id = '''', art_path = path, art_name = '''', art_mime_type = ''text/plain'',
      art_size_bytes = 1, art_sha256 = '''', art_storage_backend = '''', art_storage_key = '''',
      art_created_at = created, art_expires_at = None, art_deleted_at = None\<rparr>"

theorem summary_shows_newest_witness:
  "asu_latest_artifact (summarize_artifacts demo_bridge_json [demo_artifact ''a'' 5, demo_artifact ''b'' 9]) =
   Some (brief_of demo_bridge_json (demo_artifact ''b'' 9))"
proof -
  let ?as = "[demo_artifact ''a'' 5, demo_artifact ''b'' 9]"
  have "art_created_at (demo_artifact p c) = c" for p c by (simp add: demo_artifact_def)
  then show ?thesis using summary_shows_newest [of ?as demo_bridge_json] by simp
qed


end
