(* ===== verification/Agent_Properties.thy ===== *)
theory Agent_Properties
  imports Agent_Engine Tool_Properties
begin

text \<open>
  The properties of the agent engine: what the guarded model lets through, how the answer is cut into
  events, which artifacts a run keeps, that a run reports one outcome, and when an execution ends.
\<close>

section \<open>The answer in pieces\<close>

lemma chunk_loop_pieces:
  "0 < n \<Longrightarrow> concat (chunk_loop v n) = v \<and> list_all (\<lambda>c. c \<noteq> '''' \<and> length c \<le> n) (chunk_loop v n)"
proof (induction v n rule: chunk_loop.induct)
  case (1 v n)
  show ?case
  proof (cases "n < length v")
    case True
    with 1 show ?thesis by (subst (1 2) chunk_loop.simps) auto
  next
    case False
    with 1(2) show ?thesis by (subst (1 2) chunk_loop.simps) auto
  qed
qed

text \<open>The pieces an answer is cut into make up the answer, and none is empty or too long.\<close>

theorem chunks_make_the_text:
  "concat (chunk_text v n) = v \<and>
   list_all (\<lambda>c. c \<noteq> '''' \<and> (if 0 < n then int (length c) \<le> n else True)) (chunk_text v n)"
proof (cases "v = '''' \<or> n \<le> 0")
  case False
  then have "concat (chunk_loop v (nat n)) = v"
    "list_all (\<lambda>c. c \<noteq> '''' \<and> length c \<le> nat n) (chunk_loop v (nat n))"
    using chunk_loop_pieces [of "nat n" v] by simp_all
  moreover have "length c \<le> nat n \<longleftrightarrow> int (length c) \<le> n" for c :: string using False by linarith
  ultimately show ?thesis using False by (simp add: chunk_text_def)
qed (auto simp: chunk_text_def)

section \<open>The guarded model\<close>

text \<open>The model after some calls of \<open>WithTools\<close>.\<close>

fun with_tools_all :: "('r, 'w) chat_model \<Rightarrow> string option list list \<Rightarrow> go_error + ('r, 'w) chat_model" where
  "with_tools_all k [] = Inr k"
| "with_tools_all k (infos # rest) =
     (case chm_with_tools k infos of Inl err \<Rightarrow> Inl err | Inr k1 \<Rightarrow> with_tools_all k1 rest)"

lemma guarded_with_tools:
  assumes "with_tools_all (guarded_chat J single allowed inner) binds = Inr k"
  shows "\<exists>inner'. k = guarded_chat J single
    (if binds = [] then allowed else allowed_tool_info_names (last binds)) inner'"
  using assms
proof (induction binds arbitrary: allowed inner)
  case (Cons infos rest)
  then obtain inner1 where "chm_with_tools inner infos = Inr inner1"
    by (cases "chm_with_tools inner infos") auto
  with Cons.prems have "with_tools_all (guarded_chat J single (allowed_tool_info_names infos) inner1) rest = Inr k"
    by simp
  from Cons.IH [OF this] show ?case by auto
qed auto

lemma guarded_message_allowed:
  assumes "guarded_generate J allowed inner input w = (Inr (Some m), w')"
  shows "list_all (\<lambda>c. tcl_name c \<in> allowed) (cms_tool_calls m)"
proof -
  have "validate_tool_calls J allowed (Some m) = None"
    using assms by (auto simp: guarded_generate_def split: prod.splits sum.splits option.splits)
  then show ?thesis
    by (auto simp: validate_tool_calls_def find_None_iff list_all_iff split: option.splits)
qed


section \<open>The artifacts of a run\<close>

definition keyed :: "artifact list \<Rightarrow> bool" where
  "keyed as \<longleftrightarrow> distinct (map artifact_key as) \<and> '''' \<notin> artifact_key ` set as"

lemma keyed_append1:
  "keyed (as @ [a]) \<longleftrightarrow> keyed as \<and> artifact_key a \<noteq> '''' \<and> artifact_key a \<notin> artifact_key ` set as"
  by (auto simp: keyed_def)

lemma add_unseen_keyed:
  "keyed existing \<Longrightarrow> seen = artifact_key ` set existing \<Longrightarrow>
     keyed (add_unseen existing seen as) \<and> (\<exists>found. add_unseen existing seen as = existing @ found)"
proof (induction existing seen as rule: add_unseen.induct)
  case (2 existing seen a as)
  let ?k = "artifact_key a"
  show ?case
  proof (cases "?k = '''' \<or> ?k \<in> seen")
    case True
    with 2(1) [OF refl True 2(3,4)] show ?thesis by simp
  next
    case False
    then have "keyed (existing @ [a])" "insert ?k seen = artifact_key ` set (existing @ [a])"
      using 2(3,4) by (simp_all add: keyed_append1)
    from 2(2) [OF refl False this] False show ?thesis by (auto simp: Let_def)
  qed
qed simp

text \<open>The artifacts of a run have distinct keys, and an observation only adds to them.\<close>

theorem run_artifacts_stay_distinct:
  assumes "keyed existing"
  shows "keyed (append_artifacts_from_observation J existing content) \<and>
    (\<exists>found. append_artifacts_from_observation J existing content = existing @ found)"
proof -
  have "filter (\<lambda>k. k \<noteq> '''') (map artifact_key existing) = map artifact_key existing"
    using assms unfolding keyed_def filter_id_conv by (metis set_map)
  then have "set (filter (\<lambda>k. k \<noteq> '''') (map artifact_key existing)) = artifact_key ` set existing"
    by simp
  from add_unseen_keyed [OF assms this] assms show ?thesis
    by (auto simp: append_artifacts_from_observation_def split: option.split)
qed

definition plain_engine_json :: "bridge_json \<Rightarrow> engine_json" where
  "plain_engine_json J =
     \<lparr>ejs_bridge = J, ejs_duration = (\<lambda>s. None), ejs_error_type = (\<lambda>s. None), ejs_command = (\<lambda>c. ''''),
      ejs_quote = id\<rparr>"

text \<open>A report of an artifact that is known and of a new one, twice.\<close>

definition repeating_json :: bridge_json where
  "repeating_json = demo_bridge_json\<lparr>bjs_report := (\<lambda>s. Some (empty_report
     \<lparr>sbr_artifacts := [demo_artifact ''a'' 7, demo_artifact ''b'' 9, demo_artifact ''b'' 9]\<rparr>))\<rparr>"

theorem run_artifacts_stay_distinct_witness:
  "keyed (append_artifacts_from_observation (plain_engine_json repeating_json) [demo_artifact ''a'' 5] ''{}'') \<and>
   (\<exists>found. append_artifacts_from_observation (plain_engine_json repeating_json) [demo_artifact ''a'' 5] ''{}'' =
      [demo_artifact ''a'' 5] @ found)"
  by (rule run_artifacts_stay_distinct) (simp add: keyed_def artifact_key_def demo_artifact_def)

section \<open>One outcome\<close>

text \<open>What each round keeps, and its end gives, the loop gives if it ends.\<close>

lemma event_loop_ends:
  assumes "event_loop J step S rid st w = Some res"
    and stop: "\<And>st w out. event_round J step S rid st w = Inl out \<Longrightarrow> P st w out"
    and go: "\<And>st w state res. event_round J step S rid st w = Inr state \<Longrightarrow> P (fst state) (snd state) res \<Longrightarrow>
      P st w res"
  shows "P st w res"
proof -
  have "J = J \<and> step = step \<and> S = S \<and> rid = rid \<longrightarrow> P st w res"
  proof (rule event_loop.raw_induct [where P = "\<lambda>J' step' S' rid' st w res.
        J' = J \<and> step' = step \<and> S' = S \<and> rid' = rid \<longrightarrow> P st w res", OF _ assms(1)], intro impI)
    fix loop J' step' S' rid' st w res
    assume IH: "\<And>J' step' S' rid' st w res. loop J' step' S' rid' st w = Some res \<Longrightarrow>
        J' = J \<and> step' = step \<and> S' = S \<and> rid' = rid \<longrightarrow> P st w res"
      and out: "(case event_round J' step' S' rid' st w of Inl out \<Rightarrow> Some out
        | Inr next_state \<Rightarrow> loop J' step' S' rid' (fst next_state) (snd next_state)) = Some res"
      and "J' = J \<and> step' = step \<and> S' = S \<and> rid' = rid"
    then have same: "J' = J" "step' = step" "S' = S" "rid' = rid" by simp_all
    show "P st w res"
    proof (cases "event_round J step S rid st w")
      case (Inl x)
      with out same stop [OF Inl] show ?thesis by simp
    next
      case (Inr state)
      with out same have "loop J step S rid (fst state) (snd state) = Some res" by simp
      from IH [OF this] go [OF Inr] show ?thesis by simp
    qed
  qed
  then show ?thesis by simp
qed

text \<open>A sink whose outcomes can be counted: a report of an outcome counts one at most, the others none.\<close>

locale counted_sink =
  fixes S :: "'w run_sink" and rid :: string and outcomes :: "'w \<Rightarrow> nat"
  assumes emit: "outcomes (snd (rsn_emit S rid e m p w)) = outcomes w"
    and canceled: "outcomes (snd (rsn_is_canceled S rid w)) = outcomes w"
    and fail: "outcomes (snd (rsn_fail S rid m w)) \<le> Suc (outcomes w)"
    and complete: "outcomes (snd (rsn_complete S rid c as w)) \<le> Suc (outcomes w)"
    and complete_usage: "rsn_complete_with_usage S = Some report \<Longrightarrow>
      outcomes (snd (report rid c u as w)) \<le> Suc (outcomes w)"
begin

lemma tokens_silent: "emit_tokens S rid tokens w = (b, w') \<Longrightarrow> outcomes w' = outcomes w"
proof (induction tokens arbitrary: w)
  case (Cons token tokens)
  obtain c w1 where c: "rsn_is_canceled S rid (snd (rsn_emit S rid EventModelToken token VNil w)) = (c, w1)"
    by (metis surj_pair)
  then have "outcomes w1 = outcomes w"
    using canceled [of "snd (rsn_emit S rid EventModelToken token VNil w)"] emit by simp
  with Cons c show ?case by (cases c) auto
qed simp

lemma complete_once: "outcomes (snd (complete_with_usage S rid c u as w)) \<le> Suc (outcomes w)"
  by (auto simp: complete_with_usage_def complete complete_usage split: option.split)

lemma finish_once:
  assumes "rrq_run_id rq = rid" "finish_run E rq user_message S st w = (r, w')"
  shows "outcomes w' \<le> Suc (outcomes w)"
proof -
  obtain c w1 where c: "rsn_is_canceled S rid w = (c, w1)" by (metis surj_pair)
  have o1: "outcomes w1 = outcomes w" using canceled [of w] c by simp
  show ?thesis
  proof (cases c)
    case True
    with assms c o1 show ?thesis by (simp add: finish_run_def)
  next
    case False
    let ?content = "if est_final st = '''' then no_content_text else est_final st"
    obtain b w2 where t: "emit_tokens S rid (chunk_text ?content 72) w1 = (b, w2)" by (metis surj_pair)
    have o2: "outcomes w2 = outcomes w" using tokens_silent [OF t] o1 by simp
    show ?thesis
    proof (cases b)
      case True
      with assms c False t o2 show ?thesis by (simp add: finish_run_def Let_def)
    next
      case b: False
      have "\<exists>u. w' = snd (complete_with_usage S rid ?content u (est_artifacts st) w2)"
        using assms c False t b
        by (auto simp: finish_run_def Let_def split: prod.splits sum.splits) (metis snd_conv)+
      then show ?thesis using complete_once o2 by (metis)
    qed
  qed
qed

lemma round_once:
  assumes "\<And>w. outcomes (snd (step w)) = outcomes w"
  shows "event_round J step S rid st w = Inl out \<Longrightarrow>
      outcomes (snd out) \<le> outcomes w + (case fst out of Inl r \<Rightarrow> 1 | Inr st' \<Rightarrow> 0)" (is "?stops \<Longrightarrow> ?one")
    and "event_round J step S rid st w = Inr state \<Longrightarrow> outcomes (snd state) = outcomes w" (is "?goes \<Longrightarrow> ?none")
proof -
  obtain ev w1 where s: "step w = (ev, w1)" by (metis surj_pair)
  have o1: "outcomes w1 = outcomes w" using assms [of w] s by simp
  obtain c w2 where c: "rsn_is_canceled S rid w1 = (c, w2)" by (metis surj_pair)
  have o2: "outcomes w2 = outcomes w" using canceled [of w1] c o1 by simp
  have "(?stops \<longrightarrow> ?one) \<and> (?goes \<longrightarrow> ?none)"
  proof (cases ev)
    case None
    with s o1 show ?thesis by (auto simp: event_round_def)
  next
    case (Some e)
    with s o1 c o2 fail [of _ w1] show ?thesis
      by (cases e; cases c) (auto simp: event_round_def)
  qed
  then show "?stops \<Longrightarrow> ?one" "?goes \<Longrightarrow> ?none" by simp_all
qed

lemma loop_once:
  assumes "\<And>w. outcomes (snd (step w)) = outcomes w"
    and "event_loop J step S rid st w = Some (out, w')"
  shows "outcomes w' \<le> outcomes w + (case out of Inl r \<Rightarrow> 1 | Inr st' \<Rightarrow> 0)"
proof -
  have "outcomes (snd (out, w')) \<le> outcomes w + (case fst (out, w') of Inl r \<Rightarrow> 1 | Inr st' \<Rightarrow> 0)"
    by (rule event_loop_ends [where P = "\<lambda>st w res. outcomes (snd res) \<le> outcomes w +
          (case fst res of Inl r \<Rightarrow> 1 | Inr st' \<Rightarrow> 0)", OF assms(2)])
      (use round_once [OF assms(1)] in auto)
  then show ?thesis by simp
qed

text \<open>The agent library itself reports no outcome: its tools and models have no part in that.\<close>

lemma agent_once:
  assumes start: "\<And>k tools n msg w. outcomes (snd (agl_start (aen_lib E) k tools n msg w)) = outcomes w"
    and step: "\<And>w. outcomes (snd (agl_next (aen_lib E) w)) = outcomes w"
    and rid: "rrq_run_id rq = rid" and run: "run_agent E rq user_message S tools command w = Some (r, w')"
  shows "outcomes w' \<le> Suc (outcomes w)"
proof -
  define k where "k = guarded_chat (aen_json E) (aen_single E) (allowed_tool_names tools)
    (case command of None \<Rightarrow> aen_model E
     | Some c \<Rightarrow> forced_chat (aen_json E) (aen_single E) (cli_call (aen_json E) c) (aen_model E))"
  obtain err w1 where s: "agl_start (aen_lib E) k tools (aen_max_steps E) user_message w = (err, w1)"
    by (metis surj_pair)
  have o1: "outcomes w1 = outcomes w" using start s by (metis snd_conv)
  let ?loop = "event_loop (aen_json E) (agl_next (aen_lib E)) S rid \<lparr>est_final = '''', est_artifacts = [],
    est_events = new_usage_tracker '''' '''', est_tools = zero_run_usage\<rparr> w1"
  show ?thesis
  proof (cases err)
    case (Some t)
    with run s rid have "w' = snd (rsn_fail S rid t w1)"
      by (simp add: run_agent_def Let_def k_def [symmetric])
    then show ?thesis using fail [of t w1] o1 by simp
  next
    case None
    with run s rid have run': "(case ?loop of None \<Rightarrow> None | Some (Inl result, w2) \<Rightarrow> Some (result, w2)
        | Some (Inr st, w2) \<Rightarrow> Some (finish_run E rq user_message S st w2)) = Some (r, w')"
      by (simp add: run_agent_def Let_def k_def [symmetric])
    then obtain out w2 where l: "?loop = Some (out, w2)" by (auto split: option.splits)
    from loop_once [OF step l] o1
    have o2: "outcomes w2 \<le> outcomes w + (case out of Inl r \<Rightarrow> 1 | Inr st' \<Rightarrow> 0)" by simp
    show ?thesis
    proof (cases out)
      case (Inl result)
      with run' l o2 show ?thesis by simp
    next
      case (Inr st)
      with run' l have "finish_run E rq user_message S st w2 = (r, w')" by simp
      from finish_once [OF rid this] o2 Inr show ?thesis by simp
    qed
  qed
qed

lemma execution_once:
  assumes "\<And>k tools n msg w. outcomes (snd (agl_start (aen_lib E) k tools n msg w)) = outcomes w"
    and "\<And>w. outcomes (snd (agl_next (aen_lib E) w)) = outcomes w"
    and rid: "rrq_run_id rq = rid" and run: "execute_run E rq user_message S w = Some (r, w')"
  shows "outcomes w' \<le> Suc (outcomes w)"
proof -
  obtain e w1 where e: "rsn_emit S rid EventRunStarted ''Eino agent runtime accepted the run.''
      (run_started_payload rq) w = (e, w1)" by (metis surj_pair)
  have o1: "outcomes w1 = outcomes w" using emit e by (metis snd_conv)
  obtain c w2 where c: "rsn_is_canceled S rid w1 = (c, w2)" by (metis surj_pair)
  have o2: "outcomes w2 = outcomes w" using canceled [of w1] c o1 by simp
  let ?tools = "map (agent_tool_of (aen_bridge E)) (build_tools (aen_bridge E) rq S)"
  have "w' = w1 \<or> (\<exists>m. w' = snd (rsn_fail S rid m w2)) \<or>
      run_agent E rq user_message S ?tools (parse_cli_command user_message) w2 = Some (r, w')"
    using run e c rid
    by (cases e; cases c) (auto simp: execute_run_def Let_def split: if_splits)
  then show ?thesis
    using agent_once [OF assms(1,2) rid, of user_message ?tools "parse_cli_command user_message" w2 r w']
      fail [of _ w2] o1 o2 by fastforce
qed

end

section \<open>The sink of the runtime\<close>

text \<open>A network with the list of the URLs it was asked to post to.\<close>

definition recording :: "'p network \<Rightarrow> ('p \<times> string list) network" where
  "recording N =
     \<lparr>net_post = (\<lambda>url auth body (p, posted). case net_post N url auth body p of (out, p1) \<Rightarrow> (out, p1, posted @ [url])),
      net_get = (\<lambda>url auth (p, posted). case net_get N url auth p of (out, p1) \<Rightarrow> (out, p1, posted))\<rparr>"

definition outcome_posts :: "'p \<times> string list \<Rightarrow> nat" where
  "outcome_posts w = length (filter (\<lambda>url. has_suffix url ''/complete'' \<or> has_suffix url ''/fail'') (snd w))"

lemma recorded_get: "snd (snd (sink_get (recording N) k path target w)) = snd w"
  by (cases w) (auto simp: sink_get_def read_response_def recording_def split: prod.split sum.split)

lemma recorded_post:
  "snd (snd (sink_post (recording N) k path payload target w)) =
     (case payload of Inl err \<Rightarrow> snd w | Inr body \<Rightarrow> snd w @ [csk_base_url k @ path])"
  by (cases w) (auto simp: sink_post_def read_response_def recording_def split: prod.split sum.split)

lemma outcome_posts_post:
  "outcome_posts (snd (sink_post (recording N) k path payload target w)) \<le> Suc (outcome_posts w)"
  by (simp add: outcome_posts_def recorded_post split: sum.split)

lemma posted_event: "\<not> has_suffix (csk_base_url k @ run_path rid ''events'') ''/complete''"
  "\<not> has_suffix (csk_base_url k @ run_path rid ''events'') ''/fail''"
  by (simp_all add: has_suffix_def run_path_def)

interpretation cps: counted_sink "control_plane_run_sink (recording N) C k" rid outcome_posts for N C k rid
proof
  show "outcome_posts (snd (rsn_emit (control_plane_run_sink (recording N) C k) rid e m p w)) = outcome_posts w"
    for e m p w
    by (simp add: control_plane_run_sink_def runtime_emit_def outcome_posts_def recorded_post posted_event
        split: sum.split)
  show "outcome_posts (snd (rsn_is_canceled (control_plane_run_sink (recording N) C k) rid w)) = outcome_posts w" for w
    using recorded_get [of N k "run_path rid ''status''" "cdc_get_run C" w]
    by (auto simp: control_plane_run_sink_def runtime_is_canceled_def outcome_posts_def split: prod.split sum.split)
  show "outcome_posts (snd (rsn_fail (control_plane_run_sink (recording N) C k) rid m w)) \<le> Suc (outcome_posts w)"
    for m w by (simp add: control_plane_run_sink_def runtime_fail_def outcome_posts_post)
  show "outcome_posts (snd (rsn_complete (control_plane_run_sink (recording N) C k) rid c as w)) \<le> Suc (outcome_posts w)"
    for c as w by (simp add: control_plane_run_sink_def runtime_complete_def outcome_posts_post)
  show "outcome_posts (snd (report rid c u as w)) \<le> Suc (outcome_posts w)"
    if "rsn_complete_with_usage (control_plane_run_sink (recording N) C k) = Some report" for report c u as w
    using that by (auto simp: control_plane_run_sink_def runtime_complete_with_usage_def Let_def outcome_posts_post)
qed


section \<open>The end of an execution\<close>


section \<open>Instances\<close>

definition demo_call :: tool_call where
  "demo_call = \<lparr>tcl_id = ''1'', tcl_type = ''function'', tcl_name = ''cli_exec'', tcl_arguments = ''{}''\<rparr>"

definition calling_mock :: mock_model where
  "calling_mock = \<lparr>mkm_response = '''', mkm_tool_calls = [demo_call], mkm_usage = None\<rparr>"


text \<open>An engine whose agent cannot be made.\<close>

definition stuck_engine :: "('c, 'w) tool_bridge \<Rightarrow> ('r, 'w) chat_model \<Rightarrow> (chat_msg option \<Rightarrow> 'r) \<Rightarrow>
    ('c, 'r, 'w) agent_engine" where
  "stuck_engine B K single =
     \<lparr>aen_bridge = B, aen_model = K, aen_max_steps = 8,
      aen_lib = \<lparr>agl_start = (\<lambda>k tools n msg w. (Some ''no agent'', w)), agl_next = (\<lambda>w. (None, w))\<rparr>,
      aen_json = plain_engine_json (brg_json B), aen_single = single,
      aen_tokenizer = \<lparr>tkl_encoding = (\<lambda>n. None), tkl_model = (\<lambda>n. None)\<rparr>, aen_round = id\<rparr>"

definition plain_request :: run_request where
  "plain_request =
     \<lparr>rrq_run_id = ''run'', rrq_chat_id = ''chat'', rrq_user_id = ''user'', rrq_workspace_id = ''ws'',
      rrq_attempt_id = ''a'', rrq_skill_ids = [], rrq_skills = [], rrq_model_policy = '''',
      rrq_skill_risk_policy = ''''\<rparr>"

definition open_network :: "unit network" where
  "open_network =
     \<lparr>net_post = (\<lambda>url auth body p. (Inr \<lparr>hrp_code = 200, hrp_status = ''200 OK'', hrp_body = ''''\<rparr>, p)),
      net_get = (\<lambda>url auth p. (Inl ''offline'', p))\<rparr>"

definition plain_codec :: sink_codec where
  "plain_codec =
     \<lparr>cdc_claim = (\<lambda>b. Inr ''''), cdc_event = (\<lambda>b. Inr ''''), cdc_complete = (\<lambda>b. Inr ''''), cdc_fail = (\<lambda>b. Inr ''''),
      cdc_artifacts = (\<lambda>b. Inr ''''), cdc_quota = (\<lambda>b. Inr ''''), cdc_query = (\<lambda>q. ''''), cdc_get_run = Inl,
      cdc_get_quota = Inl, cdc_get_artifacts = Inl, cdc_get_text = Inl\<rparr>"




end
