(* ===== verification/Openapi_Import.thy ===== *)
theory Openapi_Import
  imports Skill_Config Go_Text
begin

text \<open>
  HTTP skills made from an OpenAPI document: packages/common/skillmanifest/openapi_import.go. A map of
  the document is the list of its entries, in the order a loop visits them; raw JSON is its text,
  empty when it is missing. The decoders of JSON and YAML and the encoder are parameters.
\<close>

record openapi_security_scheme =
  oss_type :: string
  oss_scheme :: string

record openapi_parameter =
  oap_name :: string
  oap_in :: string
  oap_required :: bool
  oap_description :: string
  oap_schema :: string

type_synonym openapi_content = "(string \<times> string) list"

record openapi_operation =
  oao_operation_id :: string
  oao_summary :: string
  oao_description :: string
  oao_parameters :: "openapi_parameter list"
  oao_request_content :: openapi_content
  oao_responses :: "(string \<times> openapi_content) list"
  oao_security :: "string list list option"

record openapi_document =
  oad_servers :: "string list"
  oad_paths :: "(string \<times> (string \<times> openapi_operation) list) list"
  oad_schemes :: "string \<rightharpoonup> openapi_security_scheme"
  oad_security :: "string list list option"

record openapi_candidate =
  oac_name :: string
  oac_description :: string
  oac_method :: string
  oac_url :: string
  oac_path :: string
  oac_operation_id :: string
  oac_input_schema :: string
  oac_output_schema :: string
  oac_auth_type :: string
  oac_requires_secret :: bool
  oac_security_scheme :: string
  oac_unsupported_auth :: bool

record openapi_import_input =
  oii_document :: string
  oii_base_url :: string
  oii_operation_id :: string
  oii_method :: string
  oii_path :: string
  oii_name :: string
  oii_description :: string
  oii_auth_type :: string
  oii_bearer_token :: string
  oii_bearer_token_secret_ref :: string
  oii_timeout_seconds :: int
  oii_retry_max_attempts :: int
  oii_rate_limit_per_minute :: int

record openapi_lib =
  olb_decode :: "string \<Rightarrow> string + openapi_document"
  olb_yaml :: "string \<Rightarrow> string + goval"
  olb_value :: "string \<Rightarrow> string + goval"
  olb_encode :: "goval \<Rightarrow> string + string"
  olb_quote :: "string \<Rightarrow> string"

section \<open>Text\<close>

text \<open>\<open>strings.EqualFold\<close> with a word in lower case without the letters k and s.\<close>

definition folds_to :: "string \<Rightarrow> string \<Rightarrow> bool" where
  "folds_to s word = (map lower_char s = word)"

section \<open>Documents\<close>

definition decode_openapi_document :: "openapi_lib \<Rightarrow> string \<Rightarrow> string + openapi_document" where
  "decode_openapi_document Q document =
     (case olb_decode Q document of
        Inr spec \<Rightarrow> Inr spec
      | Inl _ \<Rightarrow>
          (case olb_yaml Q document of
             Inl err \<Rightarrow> Inl (''invalid openapi document: '' @ err)
           | Inr raw \<Rightarrow>
               (case olb_encode Q raw of
                  Inl err \<Rightarrow> Inl (''invalid openapi yaml: '' @ err)
                | Inr data \<Rightarrow>
                    (case olb_decode Q data of
                       Inl err \<Rightarrow> Inl (''invalid openapi yaml: '' @ err)
                     | Inr spec \<Rightarrow> Inr spec))))"

definition openapi_base_url :: "manifest_lib \<Rightarrow> openapi_document \<Rightarrow> string \<Rightarrow> string + string" where
  "openapi_base_url lib spec override =
     (let base = trim_space override;
          base = (if base = '''' \<and> oad_servers spec \<noteq> [] then trim_space (hd (oad_servers spec)) else base)
      in if base = '''' then Inl ''base_url or OpenAPI servers[0].url is required''
         else
           (let base = trim_right_slash base in
            case lib_parse_url lib base of
              None \<Rightarrow> Inl ''valid https base_url is required''
            | Some parsed \<Rightarrow>
                if url_scheme parsed = '''' \<or> url_host parsed = ''''
                then Inl ''valid https base_url is required''
                else if url_scheme parsed \<noteq> ''https'' then Inl ''base_url scheme must be https''
                else if url_user parsed then Inl ''base_url must not include credentials''
                else Inr base))"

section \<open>Schemas\<close>

definition compact_raw_json :: "openapi_lib \<Rightarrow> string \<Rightarrow> string + string" where
  "compact_raw_json Q raw =
     (if raw = '''' then Inr ''''
      else case olb_value Q raw of Inl err \<Rightarrow> Inl err | Inr v \<Rightarrow> olb_encode Q v)"

definition schema_from_content :: "openapi_content \<Rightarrow> string" where
  "schema_from_content content =
     (let named = (\<lambda>media. case map_of content media of Some raw \<Rightarrow> raw | None \<Rightarrow> '''') in
      if named ''application/json'' \<noteq> '''' then named ''application/json''
      else if named ''application/*+json'' \<noteq> '''' then named ''application/*+json''
      else case List.find (\<lambda>(media, raw). contains media ''json'' \<and> raw \<noteq> '''') content of
        Some (media, raw) \<Rightarrow> raw
      | None \<Rightarrow> '''')"

text \<open>An assignment to a map, the entries in the order they came in.\<close>

fun put_field :: "string \<Rightarrow> goval \<Rightarrow> metadata \<Rightarrow> metadata" where
  "put_field k v [] = [(k, v)]"
| "put_field k v ((k', v') # m) = (if k' = k then (k, v) # m else (k', v') # put_field k v m)"

fun parameter_loop :: "openapi_lib \<Rightarrow> openapi_parameter list \<Rightarrow> metadata \<Rightarrow> string list \<Rightarrow>
    string + metadata \<times> string list" where
  "parameter_loop Q [] properties required = Inr (properties, required)"
| "parameter_loop Q (p # ps) properties required =
     (let name = trim_space (oap_name p) in
      if name = '''' then parameter_loop Q ps properties required
      else
        (case (if oap_schema p = '''' then Inr [] else
                 (case olb_value Q (oap_schema p) of
                    Inl err \<Rightarrow> Inl err
                  | Inr v \<Rightarrow> Inr (case v of VMap m \<Rightarrow> m | _ \<Rightarrow> []))) of
           Inl err \<Rightarrow> Inl (''invalid parameter schema for '' @ name @ '': '' @ err)
         | Inr property \<Rightarrow>
             (let property = (if oap_description p \<noteq> ''''
                    then put_field ''description'' (VStr (oap_description p)) property else property);
                  property = (if oap_in p \<noteq> '''' then put_field ''x-openapi-in'' (VStr (oap_in p)) property
                    else property);
                  property = (if property = [] then [(''type'', VStr ''string'')] else property)
              in parameter_loop Q ps (put_field name (VMap property) properties)
                   (if oap_required p then required @ [name] else required))))"

definition openapi_input_schema :: "openapi_lib \<Rightarrow> openapi_operation \<Rightarrow> string + string" where
  "openapi_input_schema Q op =
     (let raw = schema_from_content (oao_request_content op) in
      if raw \<noteq> '''' then
        (case compact_raw_json Q raw of
           Inl err \<Rightarrow> Inl (''invalid request schema: '' @ err)
         | Inr data \<Rightarrow> Inr data)
      else if oao_parameters op = [] then Inr open_schema
      else case parameter_loop Q (oao_parameters op) [] [] of
        Inl err \<Rightarrow> Inl err
      | Inr (properties, required) \<Rightarrow>
          (case olb_encode Q (VMap ([(''type'', VStr ''object''), (''properties'', VMap properties)] @
                  (if required = [] then [] else [(''required'', VList (map VStr required))]))) of
             Inl err \<Rightarrow> Inr ''''
           | Inr data \<Rightarrow> Inr data))"

definition openapi_output_schema :: "openapi_operation \<Rightarrow> string" where
  "openapi_output_schema op =
     (let codes = filter (\<lambda>code. has_prefix code ''2'')
            (sort_slice string_before (map fst (oao_responses op)));
          schema = (\<lambda>code. schema_from_content
            (case map_of (oao_responses op) code of Some content \<Rightarrow> content | None \<Rightarrow> []))
      in case List.find (\<lambda>code. schema code \<noteq> '''') codes of
           Some code \<Rightarrow> schema code
         | None \<Rightarrow> '''')"

section \<open>Operations\<close>

text \<open>The first scheme a requirement names decides; a requirement is the names of its map.\<close>

definition openapi_auth_hint :: "openapi_document \<Rightarrow> openapi_operation \<Rightarrow> string \<times> bool \<times> string \<times> bool" where
  "openapi_auth_hint spec op =
     (let security = (case oao_security op of Some sec \<Rightarrow> sec
            | None \<Rightarrow> (case oad_security spec of Some sec \<Rightarrow> sec | None \<Rightarrow> []));
          bearer = (\<lambda>name. case oad_schemes spec name of
              None \<Rightarrow> False
            | Some scheme \<Rightarrow> folds_to (oss_type scheme) ''http'' \<and> folds_to (oss_scheme scheme) ''bearer'')
      in case List.find (\<lambda>name. bearer name \<or> name \<noteq> '''') (concat security) of
           None \<Rightarrow> (''none'', False, '''', False)
         | Some name \<Rightarrow>
             if bearer name then (''bearer'', True, name, False) else (''none'', True, name, True))"

definition openapi_name :: "string \<Rightarrow> string \<Rightarrow> openapi_operation \<Rightarrow> string" where
  "openapi_name method path op =
     (if trim_space (oao_operation_id op) \<noteq> '''' then trim_space (oao_operation_id op)
      else if trim_space (oao_summary op) \<noteq> '''' then trim_space (oao_summary op)
      else method @ '' '' @ path)"

definition openapi_candidate_of :: "openapi_lib \<Rightarrow> openapi_document \<Rightarrow> string \<Rightarrow> string \<Rightarrow> string \<Rightarrow>
    openapi_operation \<Rightarrow> string + openapi_candidate" where
  "openapi_candidate_of Q spec base path method op =
     (let (auth, secret, scheme, unsupported) = openapi_auth_hint spec op in
      case openapi_input_schema Q op of
        Inl err \<Rightarrow> Inl err
      | Inr input_schema \<Rightarrow>
          (case compact_raw_json Q (openapi_output_schema op) of
             Inl err \<Rightarrow> Inl (''invalid output schema for '' @ method @ '' '' @ path @ '': '' @ err)
           | Inr output_schema \<Rightarrow>
               Inr \<lparr>oac_name = openapi_name method path op,
                    oac_description = first_non_blank [oao_summary op, oao_description op],
                    oac_method = method, oac_url = base @ path, oac_path = path,
                    oac_operation_id = trim_space (oao_operation_id op), oac_input_schema = input_schema,
                    oac_output_schema = (if output_schema = '''' then open_schema else output_schema),
                    oac_auth_type = auth, oac_requires_secret = secret, oac_security_scheme = scheme,
                    oac_unsupported_auth = unsupported\<rparr>))"

text \<open>The methods of a path, in upper case and sorted; two spellings of one method count twice, and
  both stand for the one visited last.\<close>

fun method_loop :: "openapi_lib \<Rightarrow> openapi_document \<Rightarrow> string \<Rightarrow> string \<Rightarrow> (string \<times> openapi_operation) list \<Rightarrow>
    string list \<Rightarrow> openapi_candidate list \<Rightarrow> string + openapi_candidate list" where
  "method_loop Q spec base path ops [] acc = Inr acc"
| "method_loop Q spec base path ops (method # ms) acc =
     (if method \<noteq> ''GET'' \<and> method \<noteq> ''POST'' then method_loop Q spec base path ops ms acc
      else case List.find (\<lambda>(name, op). to_upper name = method) (rev ops) of
        None \<Rightarrow> method_loop Q spec base path ops ms acc
      | Some (name, op) \<Rightarrow>
          (case openapi_candidate_of Q spec base path method op of
             Inl err \<Rightarrow> Inl err
           | Inr c \<Rightarrow> method_loop Q spec base path ops ms (acc @ [c])))"

fun path_loop :: "openapi_lib \<Rightarrow> openapi_document \<Rightarrow> string \<Rightarrow> string list \<Rightarrow> openapi_candidate list \<Rightarrow>
    string + openapi_candidate list" where
  "path_loop Q spec base [] acc = Inr acc"
| "path_loop Q spec base (path # paths) acc =
     (let ops = (case map_of (oad_paths spec) path of Some ops \<Rightarrow> ops | None \<Rightarrow> []) in
      case method_loop Q spec base path ops
          (sort_slice string_before (map (\<lambda>(name, op). to_upper name) ops)) acc of
        Inl err \<Rightarrow> Inl err
      | Inr acc \<Rightarrow> path_loop Q spec base paths acc)"

definition preview_openapi_http_skills :: "manifest_lib \<Rightarrow> openapi_lib \<Rightarrow> string \<Rightarrow> string \<Rightarrow>
    string + openapi_candidate list" where
  "preview_openapi_http_skills lib Q document base_url =
     (if trim_space document = '''' then Inl ''document is required''
      else case decode_openapi_document Q document of
        Inl err \<Rightarrow> Inl err
      | Inr spec \<Rightarrow>
          if oad_paths spec = [] then Inl ''openapi paths are required''
          else (case openapi_base_url lib spec base_url of
              Inl err \<Rightarrow> Inl err
            | Inr base \<Rightarrow>
                (case path_loop Q spec base (sort_slice string_before (map fst (oad_paths spec))) [] of
                   Inl err \<Rightarrow> Inl err
                 | Inr [] \<Rightarrow> Inl ''no supported GET or POST operations found''
                 | Inr candidates \<Rightarrow> Inr candidates)))"

definition select_openapi_candidate :: "openapi_candidate list \<Rightarrow> openapi_import_input \<Rightarrow>
    string + openapi_candidate" where
  "select_openapi_candidate candidates input =
     (let oid = trim_space (oii_operation_id input);
          method = to_upper (trim_space (oii_method input));
          path = trim_space (oii_path input)
      in case filter (\<lambda>c. (oid \<noteq> '''' \<and> oac_operation_id c = oid) \<or>
             (oid = '''' \<and> method \<noteq> '''' \<and> path \<noteq> '''' \<and> oac_method c = method \<and> oac_path c = path)) candidates of
           [] \<Rightarrow> Inl ''selected OpenAPI operation was not found''
         | [c] \<Rightarrow> Inr c
         | _ \<Rightarrow> Inl ''selected OpenAPI operation is ambiguous'')"

definition build_openapi_http_skill_input :: "manifest_lib \<Rightarrow> openapi_lib \<Rightarrow> openapi_import_input \<Rightarrow>
    string + http_skill_input \<times> openapi_candidate" where
  "build_openapi_http_skill_input lib Q input =
     (case preview_openapi_http_skills lib Q (oii_document input) (oii_base_url input) of
        Inl err \<Rightarrow> Inl err
      | Inr candidates \<Rightarrow>
          (case select_openapi_candidate candidates input of
             Inl err \<Rightarrow> Inl err
           | Inr c \<Rightarrow>
               if oac_unsupported_auth c \<and> trim_space (oii_auth_type input) = '''' then
                 Inl (''operation '' @ oac_method c @ '' '' @ oac_path c @
                   '' uses unsupported OpenAPI security scheme '' @ olb_quote Q (oac_security_scheme c))
               else
                 (let auth = first_non_blank [oii_auth_type input, oac_auth_type c];
                      auth = (if auth = '''' then ''none'' else auth) in
                  if oac_requires_secret c \<and> auth = ''bearer'' \<and>
                     trim_space (oii_bearer_token input) = '''' \<and> trim_space (oii_bearer_token_secret_ref input) = ''''
                  then Inl ''bearer_token or bearer_token_secret_ref is required for this OpenAPI operation''
                  else
                    (let skill_input =
                       \<lparr>hsi_name = first_non_blank [oii_name input, oac_name c],
                        hsi_description = first_non_blank [oii_description input, oac_description c],
                        hsi_method = oac_method c, hsi_url = oac_url c,
                        hsi_input_schema = oac_input_schema c, hsi_output_schema = oac_output_schema c,
                        hsi_timeout_seconds = oii_timeout_seconds input,
                        hsi_retry_max_attempts = oii_retry_max_attempts input,
                        hsi_rate_limit_per_minute = oii_rate_limit_per_minute input, hsi_auth_type = auth,
                        hsi_bearer_token = oii_bearer_token input,
                        hsi_bearer_token_secret_ref = oii_bearer_token_secret_ref input\<rparr>
                     in case validate_http_skill_input lib skill_input of
                          Some err \<Rightarrow> Inl err
                        | None \<Rightarrow> Inr (skill_input, c)))))"

end
