(* ===== verification/Import_Properties.thy ===== *)
theory Import_Properties
  imports Mcp_Import Openapi_Import
begin

text \<open>
  The properties of the imports of skills: what is written down for an MCP server is read back, and a
  skill that is imported has passed the checks of one that is entered by hand.
\<close>

section \<open>MCP servers\<close>

lemma default_mcp_config_idem [simp]: "default_mcp_config (default_mcp_config c) = default_mcp_config c"
  by (cases c) (simp add: default_mcp_config_def default_mcp_timeout_def)

lemma default_mcp_config_fields:
  "mcf_server_url (default_mcp_config c) = mcf_server_url c"
  "mcf_tool_name (default_mcp_config c) = mcf_tool_name c"
  "mcf_auth_type (default_mcp_config c) = (if mcf_auth_type c = '''' then ''none'' else mcf_auth_type c)"
  by (simp_all add: default_mcp_config_def)

lemma trim_none: "trim_space ''none'' = ''none''"
  by (rule trim_graphic) (simp_all add: graphic_def)

lemma new_mcp_config_Inr:
  assumes "new_mcp_config lib input candidate = Inr c"
  shows "validate_mcp_config lib c = None" and "default_mcp_config c = c"
    and "trim_space (mcf_server_url c) = mcf_server_url c" and "trim_space (mcf_tool_name c) = mcf_tool_name c"
    and "trim_space (mcf_auth_type c) = mcf_auth_type c"
proof -
  obtain x where x: "c = default_mcp_config x" "validate_mcp_config lib c = None"
      "trim_space (mcf_server_url x) = mcf_server_url x" "trim_space (mcf_tool_name x) = mcf_tool_name x"
      "trim_space (mcf_auth_type x) = mcf_auth_type x"
    using assms
    by (simp add: new_mcp_config_def Let_def split: option.splits) fastforce
  then show "validate_mcp_config lib c = None" "default_mcp_config c = c"
    "trim_space (mcf_server_url c) = mcf_server_url c" "trim_space (mcf_tool_name c) = mcf_tool_name c"
    "trim_space (mcf_auth_type c) = mcf_auth_type c"
    by (simp_all add: default_mcp_config_fields trim_none)
qed

text \<open>The configuration an imported MCP skill gets is read back as it is when the skill is called.\<close>

theorem mcp_config_round_trip:
  assumes "new_mcp_config lib input candidate = Inr c"
    and "decoded (mlb_config_json M c) = Inr c" "trim_space (mlb_config_json M c) \<noteq> ''''"
  shows "parse_mcp_config lib decoded (mlb_config_json M c) = Inr c"
  using new_mcp_config_Inr [OF assms(1)] assms(2,3) by (simp add: parse_mcp_config_def Let_def)

text \<open>An instance.\<close>

definition https_lib :: manifest_lib where
  "https_lib =
     \<lparr>lib_parse_url = (\<lambda>u. Some \<lparr>url_scheme = ''https'', url_host = u, url_user = False\<rparr>),
      lib_schema_error = (\<lambda>s. None), lib_compact = Some, lib_config_json = (\<lambda>c. '''')\<rparr>"

definition demo_candidate :: mcp_candidate where
  "demo_candidate =
     \<lparr>mcc_name = ''search'', mcc_description = '''', mcc_input_schema = '''', mcc_output_schema = '''',
      mcc_annotations = '''', mcc_read_only_hint = True, mcc_destructive = False, mcc_idempotent = False,
      mcc_open_world = False\<rparr>"

definition demo_mcp_input :: mcp_import_input where
  "demo_mcp_input =
     \<lparr>mci_document = '''', mci_tool_name = ''search'', mci_server_url = ''host'', mci_name = '''',
      mci_description = '''', mci_auth_type = '''', mci_bearer_token = '''', mci_bearer_token_secret_ref = '''',
      mci_timeout_seconds = 0, mci_retry_max_attempts = 0, mci_rate_limit_per_minute = 0\<rparr>"

definition demo_mcp_lib :: mcp_lib where
  "demo_mcp_lib =
     \<lparr>mlb_document = Inl, mlb_json = (\<lambda>m. Inl ''''), mlb_config_json = (\<lambda>c. ''x''), mlb_quote = id\<rparr>"

theorem mcp_config_round_trip_witness:
  "\<exists>c. new_mcp_config https_lib demo_mcp_input demo_candidate = Inr c \<and>
     parse_mcp_config https_lib (\<lambda>s. Inr c) (mlb_config_json demo_mcp_lib c) = Inr c"
proof -
  have t: "trim_space ''search'' = ''search''" "trim_space ''host'' = ''host''" "trim_space ''x'' = ''x''"
    by (rule trim_graphic; simp add: graphic_def)+
  have "\<exists>c. new_mcp_config https_lib demo_mcp_input demo_candidate = Inr c"
    by (simp add: new_mcp_config_def default_mcp_config_def validate_mcp_config_def https_lib_def
        demo_mcp_input_def demo_candidate_def default_mcp_timeout_def normalize_http_retry_config_def t
        http_limits Let_def)
  then obtain c where c: "new_mcp_config https_lib demo_mcp_input demo_candidate = Inr c" by blast
  have "parse_mcp_config https_lib (\<lambda>s. Inr c) (mlb_config_json demo_mcp_lib c) = Inr c"
    by (rule mcp_config_round_trip [OF c]) (simp_all add: demo_mcp_lib_def t)
  with c show ?thesis by blast
qed

text \<open>An imported MCP skill has a valid configuration, a secret if it needs one, of one kind only, and high
  risk exactly if its tool is destructive.\<close>

theorem imported_mcp_skill_checked:
  assumes "build_mcp_skill_input lib M input = Inr (k, candidate, secret, has_secret)"
  shows "\<exists>c. validate_mcp_config lib c = None \<and> skl_runtime_config k = mlb_config_json M c \<and>
      (mcf_auth_type c = ''bearer'' \<longrightarrow> has_secret) \<and> (skl_requires_auth k \<longleftrightarrow> mcf_auth_type c = ''bearer'')"
    and "skl_risk k = SkillRiskHigh \<longleftrightarrow> mcc_destructive candidate"
    and "sec_encrypted_value secret = '''' \<or> sec_secret_ref secret = ''''"
proof -
  from assms obtain c where c: "new_mcp_config lib input candidate = Inr c"
    and k: "k = imported_skill\<lparr>skl_name := first_non_blank [mci_name input, mcc_name candidate],
        skl_version := ''1.0.0'', skl_description := first_non_blank [mci_description input,
          mcc_description candidate, ''Imported MCP tool.''], skl_risk := mcp_risk candidate,
        skl_requires_auth := (mcf_auth_type c = ''bearer''), skl_input_schema := mcc_input_schema candidate,
        skl_output_schema := mcc_output_schema candidate, skl_annotations := mcc_annotations candidate,
        skl_runtime_config := mlb_config_json M c, skl_enabled := True\<rparr>"
    and secret: "secret = \<lparr>sec_encrypted_value = trim_space (mci_bearer_token input),
        sec_secret_ref = (if trim_space (mci_bearer_token input) = ''''
          then trim_space (mci_bearer_token_secret_ref input) else '''')\<rparr>"
    and has: "has_secret \<longleftrightarrow> sec_encrypted_value secret \<noteq> '''' \<or> sec_secret_ref secret \<noteq> ''''"
    and needed: "\<not> (mcf_auth_type c = ''bearer'' \<and> trim_space (mci_bearer_token input) = '''' \<and>
        trim_space (mci_bearer_token_secret_ref input) = '''')"
    unfolding build_mcp_skill_input_def Let_def
    by (auto split: sum.splits option.splits if_splits)
  show "\<exists>c. validate_mcp_config lib c = None \<and> skl_runtime_config k = mlb_config_json M c \<and>
      (mcf_auth_type c = ''bearer'' \<longrightarrow> has_secret) \<and> (skl_requires_auth k \<longleftrightarrow> mcf_auth_type c = ''bearer'')"
    using new_mcp_config_Inr(1) [OF c] needed by (intro exI [of _ c]) (auto simp: k secret has)
  show "skl_risk k = SkillRiskHigh \<longleftrightarrow> mcc_destructive candidate"
    by (simp add: k mcp_risk_def)
  show "sec_encrypted_value secret = '''' \<or> sec_secret_ref secret = ''''"
    by (simp add: secret)
qed

section \<open>OpenAPI documents\<close>

lemma method_loop_methods:
  assumes "method_loop Q spec base path ops ms acc = Inr out"
    and "list_all (\<lambda>c. oac_method c = ''GET'' \<or> oac_method c = ''POST'') acc"
  shows "list_all (\<lambda>c. oac_method c = ''GET'' \<or> oac_method c = ''POST'') out"
  using assms
proof (induction ms arbitrary: acc)
  case (Cons mth ms)
  show ?case
  proof (cases "\<not> (mth \<noteq> ''GET'' \<and> mth \<noteq> ''POST'') \<and> List.find (\<lambda>(name, op). to_upper name = mth) (rev ops) \<noteq> None")
    case False
    with Cons.prems have "method_loop Q spec base path ops ms acc = Inr out"
      by (cases "List.find (\<lambda>(name, op). to_upper name = mth) (rev ops)") (auto split: if_splits)
    with Cons show ?thesis by blast
  next
    case True
    then obtain name op where f: "List.find (\<lambda>(name, op). to_upper name = mth) (rev ops) = Some (name, op)" by auto
    with True Cons.prems(1) obtain c where c: "openapi_candidate_of Q spec base path mth op = Inr c"
      and rest: "method_loop Q spec base path ops ms (acc @ [c]) = Inr out"
      by (simp split: if_splits sum.splits)
    have "oac_method c = mth"
      using c by (auto simp: openapi_candidate_of_def Let_def split: prod.splits sum.splits)
    with Cons.IH [OF rest] Cons.prems(2) True show ?thesis by simp
  qed
qed simp

lemma path_loop_methods:
  assumes "path_loop Q spec base paths acc = Inr out"
    and "list_all (\<lambda>c. oac_method c = ''GET'' \<or> oac_method c = ''POST'') acc"
  shows "list_all (\<lambda>c. oac_method c = ''GET'' \<or> oac_method c = ''POST'') out"
  using assms
proof (induction paths arbitrary: acc)
  case (Cons path paths)
  then show ?case
    by (simp add: Let_def split: sum.splits) (blast dest: method_loop_methods)
qed simp

text \<open>A skill built from an OpenAPI document is valid as if entered by hand, and is a GET or POST of the
  selected operation.\<close>

theorem openapi_skill_checked:
  assumes "build_openapi_http_skill_input lib Q input = Inr (s, c)"
  shows "validate_http_skill_input lib s = None" and "hsi_url s = oac_url c"
    and "hsi_method s = ''GET'' \<or> hsi_method s = ''POST''"
proof -
  from assms obtain cs where p: "preview_openapi_http_skills lib Q (oii_document input) (oii_base_url input) = Inr cs"
    and sel: "select_openapi_candidate cs input = Inr c" and v: "validate_http_skill_input lib s = None"
    and s: "hsi_url s = oac_url c" "hsi_method s = oac_method c"
    unfolding build_openapi_http_skill_input_def Let_def
    by (auto split: sum.splits option.splits if_splits)
  show "validate_http_skill_input lib s = None" "hsi_url s = oac_url c" by (rule v, rule s)
  from p obtain spec base paths where "path_loop Q spec base paths [] = Inr cs"
    unfolding preview_openapi_http_skills_def
    by (auto split: if_splits sum.splits list.splits)
  from path_loop_methods [OF this]
  have all: "list_all (\<lambda>c. oac_method c = ''GET'' \<or> oac_method c = ''POST'') cs" by simp
  from sel have "c \<in> set cs"
    unfolding select_openapi_candidate_def Let_def
    by (auto split: list.splits simp: filter_eq_Cons_iff)
  with all show "hsi_method s = ''GET'' \<or> hsi_method s = ''POST''" by (simp add: s list_all_iff)
qed

end
