(* ===== verification/Public_Api.thy ===== *)
theory Public_Api
  imports Internal_Api
begin

text \<open>
  The interface of the control plane for its users: the handlers of server.go
  (services/control-plane/internal/httpapi) for chats, runs and artifacts and for the listings
  of skills, audit events and skill invocations. They act on the state of the control plane; an
  artifact's file is read from the disk. \<open>actor\<close> is what \<open>actorFromRequest\<close> finds in the
  context; the JSON decoder, \<open>os.IsNotExist\<close> (of the text of an error of \<open>os.Open\<close>) and the
  dispatcher are parameters. Metrics and logging are left out.
\<close>

section \<open>Answers\<close>

text \<open>A download: the arguments of the headers and of \<open>http.ServeContent\<close>.\<close>

record file_download =
  fdl_content_type :: string
  fdl_disposition :: string
  fdl_filename :: string
  fdl_contents :: string

record skill_groups =
  skg_system :: "skill list"
  skg_user :: "skill list"

datatype public_answer =
    ChatsShown "chat_session list"
  | ChatShown chat_session
  | ChatMessagesShown chat_session "message list"
  | MessageQueued message run
  | RunShown run
  | RunArtifactsShown "artifact list"
  | ArtifactShown artifact
  | ArtifactTextShown artifact_text
  | ArtifactFileShown file_download
  | SkillsShown "skill list" skill_groups
  | AuditEventsShown "audit_event list"
  | InvocationsShown "invocation_record list"

type_synonym public_answered = "reply + int \<times> public_answer"

text \<open>\<open>pbj_title\<close> is the title the body decodes to, empty when it does not; \<open>pbj_content\<close> is
  \<open>None\<close> when the body does not decode.\<close>

record public_lib =
  pbj_title :: "string \<Rightarrow> string"
  pbj_content :: "string \<Rightarrow> string option"
  pbj_not_exist :: "string \<Rightarrow> bool"

section \<open>Helpers\<close>

definition parse_bool :: "string \<Rightarrow> bool" where
  "parse_bool value \<longleftrightarrow> to_lower (trim_space value) \<in> set [''1'', ''true'', ''yes'', ''y'', ''on'']"

definition parse_limit :: "string \<Rightarrow> int \<Rightarrow> int" where
  "parse_limit value fallback =
     (if trim_space value = '''' then fallback
      else
        (case parse_int64 value of
           (limit, ok) \<Rightarrow> if \<not> ok \<or> limit \<le> 0 then fallback else if limit > 100 then 100 else limit))"

text \<open>A handler goes on unless its check has written a reply; a store error is answered.\<close>

definition unless_refused ::
  "reply option \<times> 's \<Rightarrow> ('s \<Rightarrow> (reply + 'a) \<times> 's) \<Rightarrow> (reply + 'a) \<times> 's" where
  "unless_refused checked k =
     (case checked of (Some rep, d) \<Rightarrow> (Inl rep, d) | (None, d) \<Rightarrow> k d)"

definition unless_store_err ::
  "'b result \<times> 's \<Rightarrow> ('b \<Rightarrow> 's \<Rightarrow> (reply + 'a) \<times> 's) \<Rightarrow> (reply + 'a) \<times> 's" where
  "unless_store_err res k =
     (case res of (Inl err, d) \<Rightarrow> (Inl (store_error_reply err), d) | (Inr x, d) \<Rightarrow> k x d)"

definition require_role ::
  "('c, 'b) server \<Rightarrow> env \<Rightarrow> api_call \<Rightarrow> actor_context \<Rightarrow> action_requirement \<Rightarrow> string \<Rightarrow> string
     \<Rightarrow> string \<Rightarrow> string \<Rightarrow> ('c, 'b) plane \<Rightarrow> reply option \<times> ('c, 'b) plane" where
  "require_role S e h actor fallback action rtype rid run d =
     on_store (require_action e (srv_action_policy S) (htr_api h) actor action rtype rid run fallback) d"

text \<open>A refusal that is answered as if the resource did not exist.\<close>

definition deny_hidden ::
  "env \<Rightarrow> api_call \<Rightarrow> actor_context \<Rightarrow> string \<Rightarrow> string \<Rightarrow> string \<Rightarrow> string \<Rightarrow> string \<Rightarrow> ('c, 'b) plane
     \<Rightarrow> (reply + 'a) \<times> ('c, 'b) plane" where
  "deny_hidden e h actor action rtype rid run reason d =
     (Inl (Reply 404 ''not found''),
      plane_audit e (htr_api h) actor action rtype rid run AuditDecisionDeny reason [] d)"

section \<open>Chats\<close>

definition serve_chats ::
  "('c, 'b) server \<Rightarrow> public_lib \<Rightarrow> (nat \<Rightarrow> env) \<Rightarrow> string list \<Rightarrow> api_call \<Rightarrow> actor_context
     \<Rightarrow> ('c, 'b) plane \<Rightarrow> public_answered \<times> ('c, 'b) plane" where
  "serve_chats S P es order h actor d =
     (if htr_method h = ''GET'' then
        (Inr (200, ChatsShown (list_chats order (act_user_id actor) (act_project_id actor)
            (htr_query h ''q'') (parse_bool (htr_query h ''include_archived'')) (plane_store d))), d)
      else if htr_method h = ''POST'' then
        unless_refused (require_role S (es 0) h actor require_write ''chat.create'' ''chat'' '''' '''' d)
          (\<lambda>d1. unless_store_err
             (on_store (create_chat (es 0) (act_user_id actor) (act_project_id actor)
                (pbj_title P (htr_body h))) d1)
             (\<lambda>chat d2. (Inr (201, ChatShown chat),
                plane_audit (es 1) (htr_api h) actor ''chat.create'' ''chat'' (cht_id chat) ''''
                  AuditDecisionAllow '''' [(''title'', VStr (cht_title chat))] d2)))
      else (Inl (Reply 405 ''method not allowed''), d))"

definition show_chat ::
  "env \<Rightarrow> api_call \<Rightarrow> actor_context \<Rightarrow> string \<Rightarrow> ('c, 'b) plane \<Rightarrow> public_answered \<times> ('c, 'b) plane" where
  "show_chat e h actor cid d =
     (case get_chat cid (plane_store d) of
        Inl err \<Rightarrow> (Inl (store_error_reply err), d)
      | Inr (chat, msgs) \<Rightarrow>
          if \<not> actor_can_read_chat actor chat then
            deny_hidden e h actor ''chat.read'' ''chat'' cid '''' ''actor cannot read chat'' d
          else (Inr (200, ChatMessagesShown chat msgs), d))"

definition archive_chat ::
  "('c, 'b) server \<Rightarrow> (nat \<Rightarrow> env) \<Rightarrow> api_call \<Rightarrow> actor_context \<Rightarrow> string \<Rightarrow> string \<Rightarrow> string \<Rightarrow> bool
     \<Rightarrow> ('c, 'b) plane \<Rightarrow> public_answered \<times> ('c, 'b) plane" where
  "archive_chat S es h actor cid action reason archived d =
     (if \<not> actor_can_read_chat_id actor cid (plane_store d) then
        deny_hidden (es 0) h actor action ''chat'' cid '''' reason d
      else
        unless_refused (require_role S (es 0) h actor require_write action ''chat'' cid '''' d)
          (\<lambda>d1. unless_store_err (on_store (set_chat_archived (es 0) cid (act_user_id actor) archived) d1)
             (\<lambda>chat d2. (Inr (200, ChatShown chat),
                plane_audit (es 1) (htr_api h) actor action ''chat'' (cht_id chat) ''''
                  AuditDecisionAllow '''' [] d2))))"

definition queued_answer :: "(reply + message \<times> run) \<times> 's \<Rightarrow> public_answered \<times> 's" where
  "queued_answer x =
     (case x of (Inl rep, d) \<Rightarrow> (Inl rep, d) | (Inr (msg, r), d) \<Rightarrow> (Inr (202, MessageQueued msg r), d))"

definition chat_subroutes ::
  "('c, 'b) server \<Rightarrow> public_lib \<Rightarrow> ('c, 'b) dispatcher \<Rightarrow> (nat \<Rightarrow> env) \<Rightarrow> (nat \<Rightarrow> string list) \<Rightarrow> api_call
     \<Rightarrow> actor_context \<Rightarrow> ('c, 'b) plane \<Rightarrow> public_answered \<times> ('c, 'b) plane" where
  "chat_subroutes S P dispatch es os h actor d =
     (let is_get = (htr_method h = ''GET''); is_post = (htr_method h = ''POST'')
      in case split_path (trim_prefix (arq_path (htr_api h)) ''/api/chats/'') of
           [cid] \<Rightarrow>
             if is_get then show_chat (es 0) h actor cid d
             else (Inl (Reply 404 ''chat route not found''), d)
         | [cid, what] \<Rightarrow>
             if what = ''messages'' \<and> is_post then
               queued_answer (create_message S dispatch es os (htr_api h) actor cid
                 (pbj_content P (htr_body h)) d)
             else if what = ''archive'' \<and> is_post then
               archive_chat S es h actor cid ''chat.archive'' ''actor cannot archive chat'' True d
             else if what = ''restore'' \<and> is_post then
               archive_chat S es h actor cid ''chat.restore'' ''actor cannot restore chat'' False d
             else (Inl (Reply 404 ''chat route not found''), d)
         | _ \<Rightarrow> (Inl (Reply 404 ''chat route not found''), d))"

section \<open>Runs\<close>

definition cancel_run ::
  "('c, 'b) server \<Rightarrow> (nat \<Rightarrow> env) \<Rightarrow> api_call \<Rightarrow> actor_context \<Rightarrow> string \<Rightarrow> ('c, 'b) plane
     \<Rightarrow> public_answered \<times> ('c, 'b) plane" where
  "cancel_run S es h actor rid d =
     (if \<not> actor_can_read_run actor rid (plane_store d) then
        deny_hidden (es 0) h actor ''run.cancel'' ''run'' rid rid ''actor cannot cancel run'' d
      else
        unless_refused (require_role S (es 0) h actor require_write ''run.cancel'' ''run'' rid rid d)
          (\<lambda>d1. unless_store_err (rep_update_run_status (plane_repository S) (es 0) rid RunCanceled '''' d1)
             (\<lambda>r d2.
                (let d3 = snd (rep_add_event (plane_repository S) (es 1) rid EventRunCanceled
                       ''Run canceled by user.'' VNil d2)
                 in (Inr (200, RunShown r),
                     plane_audit (es 2) (htr_api h) actor ''run.cancel'' ''run'' rid rid
                       AuditDecisionAllow '''' [] d3)))))"

text \<open>The route of the events answers a stream, which is modelled apart: it is \<open>None\<close> here once
  the actor may read the run.\<close>

definition run_subroutes ::
  "('c, 'b) server \<Rightarrow> (nat \<Rightarrow> env) \<Rightarrow> string list \<Rightarrow> api_call \<Rightarrow> actor_context \<Rightarrow> ('c, 'b) plane
     \<Rightarrow> public_answered option \<times> ('c, 'b) plane" where
  "run_subroutes S es order h actor d =
     (let is_get = (htr_method h = ''GET''); is_post = (htr_method h = ''POST'');
          answered = (\<lambda>(a, d'). (Some a, d'));
          readable = (\<lambda>rid. actor_can_read_run actor rid (plane_store d));
          no_route = (Some (Inl (Reply 404 ''run route not found'')), d)
      in case split_path (trim_prefix (arq_path (htr_api h)) ''/api/runs/'') of
           [rid] \<Rightarrow>
             if \<not> is_get then no_route
             else if \<not> readable rid then
               answered (deny_hidden (es 0) h actor ''run.read'' ''run'' rid rid ''actor cannot read run'' d)
             else
               (case rep_get_run (plane_repository S) rid d of
                  Inl err \<Rightarrow> (Some (Inl (store_error_reply err)), d)
                | Inr r \<Rightarrow> (Some (Inr (200, RunShown r)), d))
         | [rid, what] \<Rightarrow>
             if what = ''events'' \<and> is_get then
               (if \<not> readable rid then
                  answered (deny_hidden (es 0) h actor ''run.events.read'' ''run'' rid rid
                    ''actor cannot read run events'' d)
                else (None, d))
             else if what = ''artifacts'' \<and> is_get then
               (if \<not> readable rid then
                  answered (deny_hidden (es 0) h actor ''artifact.list'' ''run'' rid rid
                    ''actor cannot list run artifacts'' d)
                else
                  (Some (Inr (200, RunArtifactsShown (list_artifacts (es 0) order rid (plane_store d)))), d))
             else if what = ''cancel'' \<and> is_post then answered (cancel_run S es h actor rid d)
             else no_route
         | _ \<Rightarrow> no_route)"

section \<open>Artifacts\<close>

definition read_artifact_content ::
  "'f disk \<Rightarrow> (nat \<Rightarrow> env) \<Rightarrow> api_call \<Rightarrow> actor_context \<Rightarrow> string \<Rightarrow> ('c, 'b) plane \<times> 'f
     \<Rightarrow> public_answered \<times> ('c, 'b) plane" where
  "read_artifact_content D es h actor aid df =
     (case on_store (read_authorized_artifact es (htr_api h) actor aid) (fst df) of
        (Inl err, d) \<Rightarrow> (Inl (store_error_reply err), d)
      | (Inr a, d) \<Rightarrow>
          (case read_artifact_text D a
                  (parse_int_bounded (htr_query h ''max_bytes'') (32 * 1024) 1 (128 * 1024))
                  (plane_store d) (snd df) of
             Inl err \<Rightarrow> (Inl (Reply 400 err), d)
           | Inr txt \<Rightarrow>
               (Inr (200, ArtifactTextShown txt),
                plane_audit (es 2) (htr_api h) actor ''artifact.content.read'' ''artifact'' (art_id a)
                  (art_run_id a) AuditDecisionAllow ''''
                  [(''path'', VStr (art_path a)), (''bytes_read'', VInt (atx_bytes_read txt))] d)))"

text \<open>The headers the code computes; \<open>filename\<close> is the artifact's name or that of its file.
  The comparison of the disposition folds ASCII case; \<open>inline\<close> has no other folding.\<close>

definition download_of :: "'f disk \<Rightarrow> api_call \<Rightarrow> artifact \<Rightarrow> string \<Rightarrow> string \<Rightarrow> file_download" where
  "download_of D h a file_path contents =
     (let filename = (if art_name a = '''' then path_base file_path else art_name a);
          c0 = art_mime_type a;
          c1 = (if c0 = '''' then dsk_mime_type D (path_ext filename) else c0);
          c2 = (if c1 = '''' then ''application/octet-stream'' else c1)
      in \<lparr>fdl_content_type = c2,
          fdl_disposition = (if map lower_char (trim_space (htr_query h ''disposition'')) = ''inline''
                             then ''inline'' else ''attachment''),
          fdl_filename = filename, fdl_contents = contents\<rparr>)"

text \<open>An error while the contents are copied comes after the headers; the download is then cut off.\<close>

definition download_artifact ::
  "public_lib \<Rightarrow> 'f disk \<Rightarrow> (nat \<Rightarrow> env) \<Rightarrow> api_call \<Rightarrow> actor_context \<Rightarrow> string \<Rightarrow> ('c, 'b) plane \<times> 'f
     \<Rightarrow> public_answered \<times> ('c, 'b) plane" where
  "download_artifact P D es h actor aid df =
     (case on_store (read_authorized_artifact es (htr_api h) actor aid) (fst df) of
        (Inl err, d) \<Rightarrow> (Inl (store_error_reply err), d)
      | (Inr a, d) \<Rightarrow>
          (case artifact_workspace a (plane_store d) of
             Inl err \<Rightarrow> (Inl (store_error_reply err), d)
           | Inr w \<Rightarrow>
               (case resolve_artifact_download_path (dsk_view D (snd df)) w a of
                  Inl err \<Rightarrow> (Inl (Reply 400 err), d)
                | Inr file_path \<Rightarrow>
                    (case dsk_open D file_path (snd df) of
                       Inl err \<Rightarrow>
                         (Inl (if pbj_not_exist P err then Reply 404 ''artifact file not found''
                               else Reply 500 err), d)
                     | Inr (regular, contents) \<Rightarrow>
                         if \<not> regular then (Inl (Reply 400 ''artifact is not a regular file''), d)
                         else
                           (Inr (200, ArtifactFileShown (download_of D h a file_path
                               (case contents of Inl err \<Rightarrow> '''' | Inr body \<Rightarrow> body))),
                            plane_audit (es 2) (htr_api h) actor ''artifact.download'' ''artifact''
                              (art_id a) (art_run_id a) AuditDecisionAllow ''''
                              [(''path'', VStr (art_path a))] d)))))"

definition artifact_subroutes ::
  "public_lib \<Rightarrow> 'f disk \<Rightarrow> (nat \<Rightarrow> env) \<Rightarrow> api_call \<Rightarrow> actor_context \<Rightarrow> ('c, 'b) plane \<times> 'f
     \<Rightarrow> public_answered \<times> ('c, 'b) plane" where
  "artifact_subroutes P D es h actor df =
     (let is_get = (htr_method h = ''GET'');
          no_route = (Inl (Reply 404 ''artifact route not found''), fst df)
      in case split_path (trim_prefix (arq_path (htr_api h)) ''/api/artifacts/'') of
           [aid] \<Rightarrow>
             if is_get then
               unless_store_err (on_store (read_authorized_artifact es (htr_api h) actor aid) (fst df))
                 (\<lambda>a d. (Inr (200, ArtifactShown a), d))
             else no_route
         | [aid, what] \<Rightarrow>
             if what = ''download'' \<and> is_get then download_artifact P D es h actor aid df
             else if what = ''content'' \<and> is_get then read_artifact_content D es h actor aid df
             else no_route
         | _ \<Rightarrow> no_route)"

section \<open>Listings\<close>

definition group_skills :: "skill list \<Rightarrow> skill_groups" where
  "group_skills skills =
     \<lparr>skg_system = filter (\<lambda>k. skl_scope k \<noteq> SkillScopeUser) skills,
      skg_user = filter (\<lambda>k. skl_scope k = SkillScopeUser) skills\<rparr>"

definition serve_skills :: "actor_context \<Rightarrow> ('c, 'b) plane \<Rightarrow> public_answered" where
  "serve_skills actor d =
     (let skills = list_skills_for_user (act_user_id actor) (act_project_id actor) (plane_store d)
      in Inr (200, SkillsShown skills (group_skills skills)))"

definition serve_audit_events :: "api_call \<Rightarrow> actor_context \<Rightarrow> ('c, 'b) plane \<Rightarrow> public_answered" where
  "serve_audit_events h actor d =
     Inr (200, AuditEventsShown (list_audit_events actor
       \<lparr>alo_limit = parse_limit (htr_query h ''limit'') 100,
        alo_request_id = trim_space (htr_query h ''request_id''),
        alo_run_id = trim_space (htr_query h ''run_id''),
        alo_action = trim_space (htr_query h ''action''),
        alo_resource_id = trim_space (htr_query h ''resource_id'')\<rparr> (plane_store d)))"

definition serve_skill_invocations :: "api_call \<Rightarrow> actor_context \<Rightarrow> ('c, 'b) plane \<Rightarrow> public_answered" where
  "serve_skill_invocations h actor d =
     Inr (200, InvocationsShown (list_skill_invocations actor
       \<lparr>ilo_limit = parse_limit (htr_query h ''limit'') 100,
        ilo_run_id = trim_space (htr_query h ''run_id''),
        ilo_skill_id = trim_space (htr_query h ''skill_id''),
        ilo_status = trim_space (htr_query h ''status'')\<rparr> (plane_store d)))"


end
