(* ===== verification/Org_Api.thy ===== *)
theory Org_Api
  imports Public_Api
begin

text \<open>
  The administration of organizations and projects (services/control-plane/internal/httpapi/server.go):
  members, invitations and their mails, suppressions, quota and runtime policies, usage reports,
  and the acceptance of an invitation. The invitation mailer, the JSON decoder and the parser of
  RFC 3339 are parameters; \<open>es i\<close> is the environment and \<open>os i\<close> an iteration order of a map.
\<close>

section \<open>Answers and parameters\<close>

datatype admin_answer =
    InvitationsShown "invitation list"
  | InvitationShown invitation
  | DeliveryShown delivery
  | EmailEventsShown "email_event list"
  | EmailEventShown email_event
  | SuppressionsShown "suppression list"
  | SuppressionShown suppression
  | OrgMembersShown "organization_member list"
  | OrgMemberShown organization_member
  | ProjectMembersShown "project_member list"
  | ProjectMemberShown project_member
  | QuotaPolicyShown quota_policy
  | RuntimePolicyShown runtime_policy
  | UsageShown string string gtime "usage_bucket list" usage_bucket

type_synonym admin_answered = "reply + int \<times> admin_answer"

type_synonym ('c, 'b) inviter = "invitation \<Rightarrow> ('c, 'b) plane \<Rightarrow> app_error option \<times> ('c, 'b) plane"

text \<open>A decoder yields \<open>None\<close> when the body does not decode; \<open>adm_accept\<close> is the name of the
  acceptance, empty for an empty body.\<close>

record admin_lib =
  adm_accept :: "string \<Rightarrow> string option"
  adm_invitation :: "string \<Rightarrow> invitation_input option"
  adm_email_event :: "string \<Rightarrow> email_event_input option"
  adm_member :: "string \<Rightarrow> member_input option"
  adm_quota :: "string \<Rightarrow> quota_policy_input option"
  adm_runtime_policy :: "string \<Rightarrow> string option"
  adm_parse_time :: "string \<Rightarrow> gtime option"

section \<open>Path segments\<close>

definition hex_digit :: "char \<Rightarrow> nat option" where
  "hex_digit c =
     (let n = of_char c :: nat
      in if 48 \<le> n \<and> n \<le> 57 then Some (n - 48)
         else if 97 \<le> n \<and> n \<le> 102 then Some (n - 87)
         else if 65 \<le> n \<and> n \<le> 70 then Some (n - 55)
         else None)"

text \<open>\<open>url.PathUnescape\<close>; \<open>None\<close> is the error.\<close>

fun path_unescape :: "string \<Rightarrow> string option" where
  "path_unescape [] = Some []"
| "path_unescape (c # rest) =
     (if c \<noteq> CHR ''%'' then map_option (Cons c) (path_unescape rest)
      else
        (case rest of
           a # b # rest' \<Rightarrow>
             (case (hex_digit a, hex_digit b) of
                (Some x, Some y) \<Rightarrow> map_option (Cons (char_of (16 * x + y))) (path_unescape rest')
              | _ \<Rightarrow> None)
         | _ \<Rightarrow> None))"

definition path_segment :: "string \<Rightarrow> string option" where
  "path_segment value = map_option trim_space (path_unescape value)"

text \<open>A handler of a segment, or 400 when it is malformed or blank.\<close>

definition with_segment :: "string \<Rightarrow> string \<Rightarrow> (string \<Rightarrow> (reply + 'a) \<times> 's) \<Rightarrow> 's \<Rightarrow> (reply + 'a) \<times> 's" where
  "with_segment raw text k d =
     (case path_segment raw of
        None \<Rightarrow> (Inl (Reply 400 text), d)
      | Some v \<Rightarrow> if v = '''' then (Inl (Reply 400 text), d) else k v)"

section \<open>Invitations\<close>

definition invitation_meta :: "invitation \<Rightarrow> metadata" where
  "invitation_meta i =
     [(''organization_id'', VStr (inv_organization_id i)), (''project_id'', VStr (inv_project_id i))]"

definition no_email_message :: string where
  "no_email_message = bytes
     [230, 142, 165, 229, 143, 151, 233, 130, 128, 232, 175, 183, 233, 156, 128,
      232, 166, 129, 229, 143, 175, 228, 191, 161, 232, 186, 171, 228, 187, 189,
      228, 184, 173, 231, 154, 132, 233, 130, 174, 231, 174, 177, 227, 128, 130]"

definition accept_invitation_call ::
  "admin_lib \<Rightarrow> (nat \<Rightarrow> env) \<Rightarrow> api_call \<Rightarrow> actor_context \<Rightarrow> string \<Rightarrow> ('c, 'b) plane
     \<Rightarrow> admin_answered \<times> ('c, 'b) plane" where
  "accept_invitation_call A es h actor token d =
     (case adm_accept A (htr_body h) of
        None \<Rightarrow> (Inl (Reply 400 ''invalid json body''), d)
      | Some name \<Rightarrow>
          (let email = to_lower (trim_space (act_email actor))
           in if email = '''' then
                (Inl (Reply 400 no_email_message),
                 plane_audit (es 0) (htr_api h) actor ''invitation.accept'' ''invitation'' '''' ''''
                   AuditDecisionDeny ''actor email is required to accept invitation'' [] d)
              else
                unless_store_err
                  (on_store (accept_invitation (es 0) token (act_user_id actor) email
                     (first_non_empty [trim_space name, act_name actor])) d)
                  (\<lambda>i d1. (Inr (200, InvitationShown i),
                     plane_audit (es 1) (htr_api h) actor ''invitation.accept'' ''invitation'' (inv_id i) ''''
                       AuditDecisionAllow '''' (invitation_meta i @ [(''role'', VStr (inv_role i))]) d1))))"

definition invitation_subroutes ::
  "admin_lib \<Rightarrow> (nat \<Rightarrow> env) \<Rightarrow> api_call \<Rightarrow> actor_context \<Rightarrow> ('c, 'b) plane
     \<Rightarrow> admin_answered \<times> ('c, 'b) plane" where
  "invitation_subroutes A es h actor d =
     (let no_route = (Inl (Reply 404 ''invitation route not found''), d)
      in case split_path (trim_prefix (arq_path (htr_api h)) ''/api/invitations/'') of
           [raw, what] \<Rightarrow>
             if what = ''accept'' \<and> htr_method h = ''POST''
             then with_segment raw ''invalid invitation token'' (\<lambda>token. accept_invitation_call A es h actor token d) d
             else no_route
         | _ \<Rightarrow> no_route)"

text \<open>What becomes of the mail of a new invitation is only audited.\<close>

definition mail_new_invitation ::
  "('c, 'b) inviter option \<Rightarrow> (nat \<Rightarrow> env) \<Rightarrow> api_call \<Rightarrow> actor_context \<Rightarrow> invitation \<Rightarrow> ('c, 'b) plane
     \<Rightarrow> ('c, 'b) plane" where
  "mail_new_invitation mailer es h actor i d =
     (case mailer of
        None \<Rightarrow> d
      | Some send \<Rightarrow>
          if is_invitation_email_suppressed (inv_organization_id i) (inv_email i) (plane_store d) then
            plane_audit (es 0) (htr_api h) actor ''invitation.email.send'' ''invitation'' (inv_id i) ''''
              AuditDecisionDeny ''invitation email suppressed''
              (invitation_meta i @ [(''email'', VStr (inv_email i)), (''error_class'', VStr ''email_suppressed'')]) d
          else
            (case send i d of
               (Some err, d1) \<Rightarrow>
                 plane_audit (es 0) (htr_api h) actor ''invitation.email.send'' ''invitation'' (inv_id i) ''''
                   AuditDecisionDeny ''email send failed''
                   (invitation_meta i @ [(''error_class'', VStr ''smtp_send_failed'')]) d1
             | (None, d1) \<Rightarrow>
                 plane_audit (es 0) (htr_api h) actor ''invitation.email.send'' ''invitation'' (inv_id i) ''''
                   AuditDecisionAllow '''' (invitation_meta i) d1))"

definition create_invitation_call ::
  "('c, 'b) server \<Rightarrow> admin_lib \<Rightarrow> ('c, 'b) inviter option \<Rightarrow> (nat \<Rightarrow> env) \<Rightarrow> api_call \<Rightarrow> actor_context
     \<Rightarrow> string \<Rightarrow> ('c, 'b) plane \<Rightarrow> admin_answered \<times> ('c, 'b) plane" where
  "create_invitation_call S A mailer es h actor org d =
     unless_refused (require_role S (es 0) h actor require_organization_admin ''invitation.create''
         ''organization'' org '''' d)
       (\<lambda>d1.
          (case adm_invitation A (htr_body h) of
             None \<Rightarrow> (Inl (Reply 400 ''invalid json body''), d1)
           | Some input \<Rightarrow>
               unless_store_err (on_store (create_invitation (es 0) org (act_user_id actor) input) d1)
                 (\<lambda>i d2.
                    (Inr (201, InvitationShown i),
                     mail_new_invitation mailer (\<lambda>k. es (k + 2)) h actor i
                       (plane_audit (es 1) (htr_api h) actor ''invitation.create'' ''invitation'' (inv_id i) ''''
                          AuditDecisionAllow '''' (invitation_meta i @ [(''role'', VStr (inv_role i))]) d2)))))"

text \<open>The second look for the invitation cannot fail once the first has succeeded.\<close>

definition find_invitation_in_org :: "env \<Rightarrow> string list \<Rightarrow> string \<Rightarrow> string \<Rightarrow> store \<Rightarrow> invitation option" where
  "find_invitation_in_org e order org iid s = find (\<lambda>i. inv_id i = iid) (list_invitations e order org s)"

definition send_requeued ::
  "('c, 'b) inviter \<Rightarrow> (nat \<Rightarrow> env) \<Rightarrow> api_call \<Rightarrow> actor_context \<Rightarrow> string \<Rightarrow> string \<Rightarrow> delivery \<Rightarrow> ('c, 'b) plane
     \<Rightarrow> admin_answered \<times> ('c, 'b) plane" where
  "send_requeued send es h actor org iid dl d =
     (let meta = [(''organization_id'', VStr org), (''delivery_id'', VStr (dlv_id dl))]
      in case send (dlv_invitation dl) d of
           (Some err, d1) \<Rightarrow>
             (Inl (Reply 503 ''invitation email resend failed''),
              plane_audit (es 0) (htr_api h) actor ''invitation.email.resend'' ''invitation'' iid ''''
                AuditDecisionDeny ''email resend failed'' (meta @ [(''error_class'', VStr ''smtp_send_failed'')]) d1)
         | (None, d1) \<Rightarrow>
             (Inr (200, DeliveryShown (dl\<lparr>dlv_invitation := (dlv_invitation dl)\<lparr>inv_token := ''''\<rparr>\<rparr>)),
              plane_audit (es 0) (htr_api h) actor ''invitation.email.resend'' ''invitation'' iid ''''
                AuditDecisionAllow '''' meta d1))"

definition resend_invitation_email ::
  "('c, 'b) server \<Rightarrow> ('c, 'b) inviter option \<Rightarrow> (nat \<Rightarrow> env) \<Rightarrow> (nat \<Rightarrow> string list) \<Rightarrow> api_call \<Rightarrow> actor_context
     \<Rightarrow> string \<Rightarrow> string \<Rightarrow> ('c, 'b) plane \<Rightarrow> admin_answered \<times> ('c, 'b) plane" where
  "resend_invitation_email S mailer es os h actor org iid d =
     unless_refused (require_role S (es 0) h actor require_organization_admin ''invitation.email.resend''
         ''organization'' org '''' d)
       (\<lambda>d1.
          (case mailer of
             None \<Rightarrow>
               (Inl (Reply 503 ''invitation email sender is not configured''),
                plane_audit (es 0) (htr_api h) actor ''invitation.email.resend'' ''invitation'' iid ''''
                  AuditDecisionDeny ''invitation email sender is not configured''
                  [(''organization_id'', VStr org)] d1)
           | Some send \<Rightarrow>
               (case (find_invitation_in_org (es 0) (os 0) org iid (plane_store d1),
                      find_invitation_in_org (es 1) (os 1) org iid (plane_store d1)) of
                  (Some found, Some i) \<Rightarrow>
                    if is_invitation_email_suppressed (inv_organization_id i) (inv_email i) (plane_store d1) then
                      (Inl (Reply 409 ''invitation email is suppressed''),
                       plane_audit (es 2) (htr_api h) actor ''invitation.email.resend'' ''invitation'' iid ''''
                         AuditDecisionDeny ''invitation email suppressed''
                         [(''organization_id'', VStr org), (''email'', VStr (inv_email i)),
                          (''error_class'', VStr ''email_suppressed'')] d1)
                    else
                      unless_store_err
                        (on_store (requeue_invitation_email (es 2) (os 2) (os 3) org iid 1) d1)
                        (\<lambda>dl d2. send_requeued send (\<lambda>k. es (k + 3)) h actor org iid dl d2)
                | _ \<Rightarrow>
                    deny_hidden (es 2) h actor ''invitation.email.resend'' ''invitation'' iid ''''
                      ''invitation is outside actor organization'' d1)))"

section \<open>Mail events and suppressions\<close>

definition list_invitation_email_events_call ::
  "('c, 'b) server \<Rightarrow> (nat \<Rightarrow> env) \<Rightarrow> (nat \<Rightarrow> string list) \<Rightarrow> api_call \<Rightarrow> actor_context \<Rightarrow> string
     \<Rightarrow> ('c, 'b) plane \<Rightarrow> admin_answered \<times> ('c, 'b) plane" where
  "list_invitation_email_events_call S es os h actor org d =
     unless_refused (require_role S (es 0) h actor require_organization_admin ''invitation.email_event.list''
         ''organization'' org '''' d)
       (\<lambda>d1. (Inr (200, EmailEventsShown (list_invitation_email_events (os 0) org
          \<lparr>elo_invitation_id = trim_space (htr_query h ''invitation_id''),
           elo_delivery_id = trim_space (htr_query h ''delivery_id''),
           elo_limit = parse_limit (htr_query h ''limit'') 100\<rparr> (plane_store d1))), d1))"

definition list_invitation_email_suppressions_call ::
  "('c, 'b) server \<Rightarrow> (nat \<Rightarrow> env) \<Rightarrow> (nat \<Rightarrow> string list) \<Rightarrow> api_call \<Rightarrow> actor_context \<Rightarrow> string
     \<Rightarrow> ('c, 'b) plane \<Rightarrow> admin_answered \<times> ('c, 'b) plane" where
  "list_invitation_email_suppressions_call S es os h actor org d =
     unless_refused (require_role S (es 0) h actor require_organization_admin
         ''invitation.email_suppression.list'' ''organization'' org '''' d)
       (\<lambda>d1. (Inr (200, SuppressionsShown (list_email_suppressions (os 0) org
          (parse_limit (htr_query h ''limit'') 100) (plane_store d1))), d1))"

definition delete_invitation_email_suppression_call ::
  "('c, 'b) server \<Rightarrow> (nat \<Rightarrow> env) \<Rightarrow> (nat \<Rightarrow> string list) \<Rightarrow> api_call \<Rightarrow> actor_context \<Rightarrow> string \<Rightarrow> string
     \<Rightarrow> ('c, 'b) plane \<Rightarrow> admin_answered \<times> ('c, 'b) plane" where
  "delete_invitation_email_suppression_call S es os h actor org sid d =
     unless_refused (require_role S (es 0) h actor require_organization_admin
         ''invitation.email_suppression.delete'' ''organization'' org '''' d)
       (\<lambda>d1. unless_store_err (on_store (delete_email_suppression (os 0) org sid) d1)
          (\<lambda>p d2. (Inr (200, SuppressionShown p),
             plane_audit (es 1) (htr_api h) actor ''invitation.email_suppression.delete''
               ''invitation_email_suppression'' (sup_id p) '''' AuditDecisionAllow ''''
               [(''organization_id'', VStr (sup_organization_id p)), (''email'', VStr (sup_email p)),
                (''reason'', VStr (sup_reason p))] d2)))"

definition record_invitation_email_event_call ::
  "('c, 'b) server \<Rightarrow> admin_lib \<Rightarrow> (nat \<Rightarrow> env) \<Rightarrow> (nat \<Rightarrow> string list) \<Rightarrow> api_call \<Rightarrow> actor_context
     \<Rightarrow> string \<Rightarrow> ('c, 'b) plane \<Rightarrow> admin_answered \<times> ('c, 'b) plane" where
  "record_invitation_email_event_call S A es os h actor org d =
     unless_refused (require_role S (es 0) h actor require_organization_admin
         ''invitation.email_event.record'' ''organization'' org '''' d)
       (\<lambda>d1.
          (case adm_email_event A (htr_body h) of
             None \<Rightarrow> (Inl (Reply 400 ''invalid json body''), d1)
           | Some raw \<Rightarrow>
               (let iid = trim_space (emi_invitation_id raw)
                in if iid = '''' then (Inl (Reply 400 ''invitation_id is required''), d1)
                   else if find_invitation_in_org (es 0) (os 0) org iid (plane_store d1) = None then
                     deny_hidden (es 1) h actor ''invitation.email_event.record'' ''invitation'' iid ''''
                       ''event invitation is outside actor organization'' d1
                   else
                     unless_store_err
                       (on_store (record_invitation_email_event (es 1) (os 1)
                          (raw\<lparr>emi_invitation_id := iid\<rparr>)) d1)
                       (\<lambda>ev d2. (Inr (201, EmailEventShown ev),
                          plane_audit (es 2) (htr_api h) actor ''invitation.email_event.record'' ''invitation''
                            (eme_invitation_id ev) '''' AuditDecisionAllow ''''
                            [(''delivery_id'', VStr (eme_delivery_id ev)),
                             (''type'', VStr (email_event_type_string (eme_type ev))),
                             (''provider'', VStr (eme_provider ev))] d2)))))"

section \<open>Members\<close>

definition own_org_update_message :: string where
  "own_org_update_message = bytes
     [228, 184, 141, 232, 131, 189, 228, 191, 174, 230, 148, 185, 232, 135, 170,
      229, 183, 177, 231, 154, 132, 231, 187, 132, 231, 187, 135, 230, 136, 144,
      229, 145, 152, 232, 167, 146, 232, 137, 178, 227, 128, 130]"

definition own_org_remove_message :: string where
  "own_org_remove_message = bytes
     [228, 184, 141, 232, 131, 189, 231, 167, 187, 233, 153, 164, 232, 135, 170,
      229, 183, 177, 231, 154, 132, 231, 187, 132, 231, 187, 135, 230, 136, 144,
      229, 145, 152, 229, 133, 179, 231, 179, 187, 227, 128, 130]"

definition own_project_update_message :: string where
  "own_project_update_message = bytes
     [228, 184, 141, 232, 131, 189, 228, 191, 174, 230, 148, 185, 232, 135, 170,
      229, 183, 177, 231, 154, 132, 233, 161, 185, 231, 155, 174, 230, 136, 144,
      229, 145, 152, 232, 167, 146, 232, 137, 178, 227, 128, 130]"

definition own_project_remove_message :: string where
  "own_project_remove_message = bytes
     [228, 184, 141, 232, 131, 189, 231, 167, 187, 233, 153, 164, 232, 135, 170,
      229, 183, 177, 231, 154, 132, 233, 161, 185, 231, 155, 174, 230, 136, 144,
      229, 145, 152, 229, 133, 179, 231, 179, 187, 227, 128, 130]"

text \<open>The member a request names: the user of the path comes first, and the role is normalized.\<close>

definition requested_member :: "string \<Rightarrow> member_input \<Rightarrow> member_input" where
  "requested_member path_user raw =
     (let user = (if path_user \<noteq> '''' then path_user else min_user_id raw)
      in raw\<lparr>min_user_id := trim_space user, min_role := normalize_member_role (min_role raw)\<rparr>)"

definition upsert_organization_member_call ::
  "('c, 'b) server \<Rightarrow> admin_lib \<Rightarrow> (nat \<Rightarrow> env) \<Rightarrow> api_call \<Rightarrow> actor_context \<Rightarrow> string \<Rightarrow> string
     \<Rightarrow> ('c, 'b) plane \<Rightarrow> admin_answered \<times> ('c, 'b) plane" where
  "upsert_organization_member_call S A es h actor org path_user d =
     unless_refused (require_role S (es 0) h actor require_organization_admin ''organization.member.upsert''
         ''organization'' org '''' d)
       (\<lambda>d1.
          (case adm_member A (htr_body h) of
             None \<Rightarrow> (Inl (Reply 400 ''invalid json body''), d1)
           | Some raw \<Rightarrow>
               (let input = requested_member path_user raw
                in if min_user_id input = '''' \<or> min_role input = '''' then
                     (Inl (Reply 400 ''user_id and a supported role are required''), d1)
                   else if min_user_id input = act_user_id actor then
                     (Inl (Reply 400 own_org_update_message),
                      plane_audit (es 0) (htr_api h) actor ''organization.member.upsert''
                        ''organization_member'' (min_user_id input) '''' AuditDecisionDeny
                        ''actor cannot modify own organization membership'' [] d1)
                   else
                     unless_store_err (on_store (upsert_organization_member (es 0) org input) d1)
                       (\<lambda>m d2. (Inr (if htr_method h = ''POST'' then 201 else 200, OrgMemberShown m),
                          plane_audit (es 1) (htr_api h) actor ''organization.member.upsert''
                            ''organization_member'' (omb_user_id m) '''' AuditDecisionAllow ''''
                            [(''organization_id'', VStr org), (''role'', VStr (omb_role m))] d2)))))"

definition remove_organization_member_call ::
  "('c, 'b) server \<Rightarrow> (nat \<Rightarrow> env) \<Rightarrow> api_call \<Rightarrow> actor_context \<Rightarrow> string \<Rightarrow> string
     \<Rightarrow> ('c, 'b) plane \<Rightarrow> admin_answered \<times> ('c, 'b) plane" where
  "remove_organization_member_call S es h actor org user d =
     unless_refused (require_role S (es 0) h actor require_organization_admin ''organization.member.remove''
         ''organization'' org '''' d)
       (\<lambda>d1.
          if user = act_user_id actor then
            (Inl (Reply 400 own_org_remove_message),
             plane_audit (es 0) (htr_api h) actor ''organization.member.remove'' ''organization_member'' user ''''
               AuditDecisionDeny ''actor cannot remove own organization membership'' [] d1)
          else
            unless_store_err (on_store (remove_organization_member (es 0) org user) d1)
              (\<lambda>m d2. (Inr (200, OrgMemberShown m),
                 plane_audit (es 1) (htr_api h) actor ''organization.member.remove'' ''organization_member''
                   (omb_user_id m) '''' AuditDecisionAllow ''''
                   [(''organization_id'', VStr org), (''role'', VStr (omb_role m))] d2)))"

definition upsert_project_member_call ::
  "('c, 'b) server \<Rightarrow> admin_lib \<Rightarrow> (nat \<Rightarrow> env) \<Rightarrow> api_call \<Rightarrow> actor_context \<Rightarrow> string \<Rightarrow> string
     \<Rightarrow> ('c, 'b) plane \<Rightarrow> admin_answered \<times> ('c, 'b) plane" where
  "upsert_project_member_call S A es h actor project path_user d =
     unless_refused (require_role S (es 0) h actor require_project_admin ''project.member.upsert''
         ''project'' project '''' d)
       (\<lambda>d1.
          (case adm_member A (htr_body h) of
             None \<Rightarrow> (Inl (Reply 400 ''invalid json body''), d1)
           | Some raw \<Rightarrow>
               (let input = requested_member path_user raw
                in if min_user_id input = '''' \<or> min_role input = '''' then
                     (Inl (Reply 400 ''user_id and a supported role are required''), d1)
                   else if min_user_id input = act_user_id actor then
                     (Inl (Reply 400 own_project_update_message),
                      plane_audit (es 0) (htr_api h) actor ''project.member.upsert''
                        ''project_member'' (min_user_id input) '''' AuditDecisionDeny
                        ''actor cannot modify own project membership'' [] d1)
                   else
                     unless_store_err (on_store (upsert_project_member (es 0) project input) d1)
                       (\<lambda>m d2. (Inr (if htr_method h = ''POST'' then 201 else 200, ProjectMemberShown m),
                          plane_audit (es 1) (htr_api h) actor ''project.member.upsert''
                            ''project_member'' (pmb_user_id m) '''' AuditDecisionAllow ''''
                            [(''project_id'', VStr project), (''role'', VStr (pmb_role m))] d2)))))"

definition remove_project_member_call ::
  "('c, 'b) server \<Rightarrow> (nat \<Rightarrow> env) \<Rightarrow> api_call \<Rightarrow> actor_context \<Rightarrow> string \<Rightarrow> string
     \<Rightarrow> ('c, 'b) plane \<Rightarrow> admin_answered \<times> ('c, 'b) plane" where
  "remove_project_member_call S es h actor project user d =
     unless_refused (require_role S (es 0) h actor require_project_admin ''project.member.remove''
         ''project'' project '''' d)
       (\<lambda>d1.
          if user = act_user_id actor then
            (Inl (Reply 400 own_project_remove_message),
             plane_audit (es 0) (htr_api h) actor ''project.member.remove'' ''project_member'' user ''''
               AuditDecisionDeny ''actor cannot remove own project membership'' [] d1)
          else
            unless_store_err (on_store (remove_project_member (es 0) project user) d1)
              (\<lambda>m d2. (Inr (200, ProjectMemberShown m),
                 plane_audit (es 1) (htr_api h) actor ''project.member.remove'' ''project_member''
                   (pmb_user_id m) '''' AuditDecisionAllow ''''
                   [(''project_id'', VStr project), (''role'', VStr (pmb_role m))] d2)))"

section \<open>Policies and usage of a project\<close>

definition update_project_quota_policy ::
  "('c, 'b) server \<Rightarrow> admin_lib \<Rightarrow> (nat \<Rightarrow> env) \<Rightarrow> api_call \<Rightarrow> actor_context \<Rightarrow> string
     \<Rightarrow> ('c, 'b) plane \<Rightarrow> admin_answered \<times> ('c, 'b) plane" where
  "update_project_quota_policy S A es h actor project d =
     unless_refused (require_role S (es 0) h actor require_project_admin ''project.quota.update''
         ''project'' project '''' d)
       (\<lambda>d1.
          (case adm_quota A (htr_body h) of
             None \<Rightarrow> (Inl (Reply 400 ''invalid json body''), d1)
           | Some input \<Rightarrow>
               if qpi_max_concurrent_runs input < 0 \<or> qpi_max_runs_per_hour input < 0 \<or>
                  qpi_max_model_tokens_per_day input < 0
               then (Inl (Reply 400 ''quota values must be non-negative''), d1)
               else
                 unless_store_err (on_store (set_project_quota_policy (es 0) project input) d1)
                   (\<lambda>p d2. (Inr (200, QuotaPolicyShown p),
                      plane_audit (es 1) (htr_api h) actor ''project.quota.update'' ''project'' project ''''
                        AuditDecisionAllow ''''
                        [(''max_concurrent_runs'', VInt (qpl_max_concurrent_runs p)),
                         (''max_runs_per_hour'', VInt (qpl_max_runs_per_hour p)),
                         (''max_model_tokens_per_day'', VInt (qpl_max_model_tokens_per_day p))] d2))))"

definition update_project_runtime_policy ::
  "('c, 'b) server \<Rightarrow> admin_lib \<Rightarrow> (nat \<Rightarrow> env) \<Rightarrow> api_call \<Rightarrow> actor_context \<Rightarrow> string
     \<Rightarrow> ('c, 'b) plane \<Rightarrow> admin_answered \<times> ('c, 'b) plane" where
  "update_project_runtime_policy S A es h actor project d =
     unless_refused (require_role S (es 0) h actor require_project_admin ''project.runtime_policy.update''
         ''project'' project '''' d)
       (\<lambda>d1.
          (case adm_runtime_policy A (htr_body h) of
             None \<Rightarrow> (Inl (Reply 400 ''invalid json body''), d1)
           | Some raw \<Rightarrow>
               if normalize_skill_risk_policy (trim_space raw) = '''' then
                 (Inl (Reply 400 ''unsupported skill_risk_policy''), d1)
               else
                 unless_store_err (on_store (set_project_runtime_policy (es 0) project (trim_space raw)) d1)
                   (\<lambda>p d2. (Inr (200, RuntimePolicyShown p),
                      plane_audit (es 1) (htr_api h) actor ''project.runtime_policy.update'' ''project'' project ''''
                        AuditDecisionAllow '''' [(''skill_risk_policy'', VStr (rpl_skill_risk_policy p))] d2))))"

definition parse_usage_window :: "gtime \<Rightarrow> string \<Rightarrow> (string \<times> gtime) option" where
  "parse_usage_window now value =
     (let w0 = to_lower (trim_space value);
          window = (if w0 = '''' then ''24h'' else w0)
      in if window = ''24h'' then Some (window, now - 24 * time_hour)
         else if window = ''7d'' then Some (window, now - 7 * 24 * time_hour)
         else if window = ''30d'' then Some (window, now - 30 * 24 * time_hour)
         else None)"

definition zero_bucket :: usage_bucket where
  "zero_bucket = \<lparr>bkt_provider = '''', bkt_model = '''', bkt_currency = '''', bkt_estimated = False,
     bkt_token_estimator = '''', bkt_run_count = 0, bkt_input_tokens = 0, bkt_output_tokens = 0,
     bkt_reasoning_tokens = 0, bkt_cached_tokens = 0, bkt_total_tokens = 0, bkt_cost = 0,
     bkt_latency_millis = 0, bkt_retry_count = 0, bkt_tool_calls = 0, bkt_tool_errors = 0,
     bkt_sandbox_commands = 0, bkt_sandbox_duration_millis = 0, bkt_sandbox_output_bytes = 0,
     bkt_sandbox_cpu_millis = 0, bkt_sandbox_memory_max_bytes = 0, bkt_artifact_count = 0,
     bkt_artifact_bytes = 0\<rparr>"

definition add_bucket :: "(rat \<Rightarrow> rat) \<Rightarrow> usage_bucket \<Rightarrow> usage_bucket \<Rightarrow> usage_bucket" where
  "add_bucket rnd t b = t\<lparr>
     bkt_run_count := wrap64 (bkt_run_count t + bkt_run_count b),
     bkt_input_tokens := wrap64 (bkt_input_tokens t + bkt_input_tokens b),
     bkt_output_tokens := wrap64 (bkt_output_tokens t + bkt_output_tokens b),
     bkt_reasoning_tokens := wrap64 (bkt_reasoning_tokens t + bkt_reasoning_tokens b),
     bkt_cached_tokens := wrap64 (bkt_cached_tokens t + bkt_cached_tokens b),
     bkt_total_tokens := wrap64 (bkt_total_tokens t + bkt_total_tokens b),
     bkt_cost := rnd (bkt_cost t + bkt_cost b),
     bkt_latency_millis := wrap64 (bkt_latency_millis t + bkt_latency_millis b),
     bkt_retry_count := wrap64 (bkt_retry_count t + bkt_retry_count b),
     bkt_tool_calls := wrap64 (bkt_tool_calls t + bkt_tool_calls b),
     bkt_tool_errors := wrap64 (bkt_tool_errors t + bkt_tool_errors b),
     bkt_sandbox_commands := wrap64 (bkt_sandbox_commands t + bkt_sandbox_commands b),
     bkt_sandbox_duration_millis := wrap64 (bkt_sandbox_duration_millis t + bkt_sandbox_duration_millis b),
     bkt_sandbox_output_bytes := wrap64 (bkt_sandbox_output_bytes t + bkt_sandbox_output_bytes b),
     bkt_sandbox_cpu_millis := wrap64 (bkt_sandbox_cpu_millis t + bkt_sandbox_cpu_millis b),
     bkt_sandbox_memory_max_bytes :=
       (if bkt_sandbox_memory_max_bytes b > bkt_sandbox_memory_max_bytes t
        then bkt_sandbox_memory_max_bytes b else bkt_sandbox_memory_max_bytes t),
     bkt_artifact_count := wrap64 (bkt_artifact_count t + bkt_artifact_count b),
     bkt_artifact_bytes := wrap64 (bkt_artifact_bytes t + bkt_artifact_bytes b)\<rparr>"

definition total_usage_bucket :: "(rat \<Rightarrow> rat) \<Rightarrow> usage_bucket list \<Rightarrow> usage_bucket" where
  "total_usage_bucket rnd bs = foldl (add_bucket rnd) zero_bucket bs"

definition project_usage ::
  "('c, 'b) server \<Rightarrow> admin_lib \<Rightarrow> (nat \<Rightarrow> env) \<Rightarrow> (nat \<Rightarrow> string list) \<Rightarrow> api_call \<Rightarrow> actor_context
     \<Rightarrow> string \<Rightarrow> ('c, 'b) plane \<Rightarrow> admin_answered \<times> ('c, 'b) plane" where
  "project_usage S A es os h actor project d =
     unless_refused (require_role S (es 0) h actor require_project_admin ''project.usage.read''
         ''project'' project '''' d)
       (\<lambda>d1.
          (case parse_usage_window (e_now (es 0)) (htr_query h ''window'') of
             None \<Rightarrow> (Inl (Reply 400 ''window must be one of 24h, 7d, 30d''), d1)
           | Some preset \<Rightarrow>
               (let asked = trim_space (htr_query h ''since'')
                in case (if asked = '''' then Some preset
                         else map_option (\<lambda>t. (''custom'', t)) (adm_parse_time A asked)) of
                     None \<Rightarrow> (Inl (Reply 400 ''since must be an RFC3339 timestamp''), d1)
                   | Some (window, since) \<Rightarrow>
                       (let bs = list_run_usage_buckets_since (srv_round S) (os 0) (os 1) project since
                              (plane_store d1)
                        in (Inr (200, UsageShown project window since bs
                              (total_usage_bucket (srv_round S) bs)), d1)))))"

section \<open>The routes\<close>

text \<open>Below an organization: \<open>rest\<close> are the path segments after its id.\<close>

definition organization_route ::
  "('c, 'b) server \<Rightarrow> admin_lib \<Rightarrow> ('c, 'b) inviter option \<Rightarrow> (nat \<Rightarrow> env) \<Rightarrow> (nat \<Rightarrow> string list) \<Rightarrow> api_call
     \<Rightarrow> actor_context \<Rightarrow> string \<Rightarrow> string list \<Rightarrow> ('c, 'b) plane \<Rightarrow> admin_answered \<times> ('c, 'b) plane" where
  "organization_route S A mailer es os h actor org rest d =
     (let m = htr_method h; no_route = (Inl (Reply 404 ''organization route not found''), d)
      in case rest of
           [kind] \<Rightarrow>
             if kind = ''invitations'' \<and> m = ''GET'' then
               unless_refused (require_role S (es 0) h actor require_organization_admin ''invitation.list''
                   ''organization'' org '''' d)
                 (\<lambda>d1. (Inr (200, InvitationsShown (list_invitations (es 0) (os 0) org (plane_store d1))), d1))
             else if kind = ''invitations'' \<and> m = ''POST'' then
               create_invitation_call S A mailer es h actor org d
             else if kind = ''invitation-email-events'' \<and> m = ''GET'' then
               list_invitation_email_events_call S es os h actor org d
             else if kind = ''invitation-email-events'' \<and> m = ''POST'' then
               record_invitation_email_event_call S A es os h actor org d
             else if kind = ''invitation-email-suppressions'' \<and> m = ''GET'' then
               list_invitation_email_suppressions_call S es os h actor org d
             else if kind = ''members'' \<and> m = ''GET'' then
               (Inr (200, OrgMembersShown (list_organization_members (es 0) (os 0) org (plane_store d))), d)
             else if kind = ''members'' \<and> m = ''POST'' then
               upsert_organization_member_call S A es h actor org '''' d
             else no_route
         | [kind, raw] \<Rightarrow>
             if kind = ''invitation-email-suppressions'' \<and> m = ''DELETE'' then
               with_segment raw ''invalid suppression id''
                 (\<lambda>sid. delete_invitation_email_suppression_call S es os h actor org sid d) d
             else if kind = ''members'' \<and> m = ''PATCH'' then
               with_segment raw ''invalid user id'' (\<lambda>u. upsert_organization_member_call S A es h actor org u d) d
             else if kind = ''members'' \<and> m = ''DELETE'' then
               with_segment raw ''invalid user id'' (\<lambda>u. remove_organization_member_call S es h actor org u d) d
             else no_route
         | [kind, raw, what] \<Rightarrow>
             if kind = ''invitations'' \<and> what = ''resend'' \<and> m = ''POST'' then
               with_segment raw ''invalid invitation id''
                 (\<lambda>iid. resend_invitation_email S mailer es os h actor org iid d) d
             else no_route
         | _ \<Rightarrow> no_route)"

definition organization_subroutes ::
  "('c, 'b) server \<Rightarrow> admin_lib \<Rightarrow> ('c, 'b) inviter option \<Rightarrow> (nat \<Rightarrow> env) \<Rightarrow> (nat \<Rightarrow> string list) \<Rightarrow> api_call
     \<Rightarrow> actor_context \<Rightarrow> ('c, 'b) plane \<Rightarrow> admin_answered \<times> ('c, 'b) plane" where
  "organization_subroutes S A mailer es os h actor d =
     (case split_path (trim_prefix (arq_path (htr_api h)) ''/api/organizations/'') of
        raw # what # rest \<Rightarrow>
          with_segment raw ''invalid organization id''
            (\<lambda>org.
               if org \<noteq> act_org_id actor then
                 deny_hidden (es 0) h actor ''organization.member.read'' ''organization'' org ''''
                   ''actor cannot access organization'' d
               else organization_route S A mailer es os h actor org (what # rest) d) d
      | _ \<Rightarrow> (Inl (Reply 404 ''organization route not found''), d))"

definition project_route ::
  "('c, 'b) server \<Rightarrow> admin_lib \<Rightarrow> (nat \<Rightarrow> env) \<Rightarrow> (nat \<Rightarrow> string list) \<Rightarrow> api_call
     \<Rightarrow> actor_context \<Rightarrow> string \<Rightarrow> string list \<Rightarrow> ('c, 'b) plane \<Rightarrow> admin_answered \<times> ('c, 'b) plane" where
  "project_route S A es os h actor project rest d =
     (let m = htr_method h; no_route = (Inl (Reply 404 ''project route not found''), d)
      in case rest of
           [kind] \<Rightarrow>
             if kind = ''quota'' \<and> m = ''GET'' then
               (Inr (200, QuotaPolicyShown
                  (effective_quota_policy (srv_run_quota S) project (plane_store d))), d)
             else if kind = ''quota'' \<and> m = ''PATCH'' then
               update_project_quota_policy S A es h actor project d
             else if kind = ''runtime-policy'' \<and> m = ''GET'' then
               (Inr (200, RuntimePolicyShown (effective_runtime_policy project (plane_store d))), d)
             else if kind = ''runtime-policy'' \<and> m = ''PATCH'' then
               update_project_runtime_policy S A es h actor project d
             else if kind = ''usage'' \<and> m = ''GET'' then project_usage S A es os h actor project d
             else if kind = ''members'' \<and> m = ''GET'' then
               (Inr (200, ProjectMembersShown (list_project_members (es 0) (os 0) project (plane_store d))), d)
             else if kind = ''members'' \<and> m = ''POST'' then
               upsert_project_member_call S A es h actor project '''' d
             else no_route
         | [kind, raw] \<Rightarrow>
             if kind = ''members'' \<and> m = ''PATCH'' then
               with_segment raw ''invalid user id'' (\<lambda>u. upsert_project_member_call S A es h actor project u d) d
             else if kind = ''members'' \<and> m = ''DELETE'' then
               with_segment raw ''invalid user id'' (\<lambda>u. remove_project_member_call S es h actor project u d) d
             else no_route
         | _ \<Rightarrow> no_route)"

definition project_subroutes ::
  "('c, 'b) server \<Rightarrow> admin_lib \<Rightarrow> (nat \<Rightarrow> env) \<Rightarrow> (nat \<Rightarrow> string list) \<Rightarrow> api_call
     \<Rightarrow> actor_context \<Rightarrow> ('c, 'b) plane \<Rightarrow> admin_answered \<times> ('c, 'b) plane" where
  "project_subroutes S A es os h actor d =
     (case split_path (trim_prefix (arq_path (htr_api h)) ''/api/projects/'') of
        raw # what # rest \<Rightarrow>
          with_segment raw ''invalid project id''
            (\<lambda>project.
               if project \<noteq> act_project_id actor then
                 deny_hidden (es 0) h actor ''project.member.read'' ''project'' project ''''
                   ''actor cannot access project'' d
               else project_route S A es os h actor project (what # rest) d) d
      | _ \<Rightarrow> (Inl (Reply 404 ''project route not found''), d))"


end
