(* ===== verification/Skill_Api.thy ===== *)
theory Skill_Api
  imports Public_Api Mcp_Import Openapi_Import
begin

text \<open>
  The administration of a user's skills (services/control-plane/internal/httpapi/server.go): creating
  and changing HTTP skills, importing OpenAPI operations and MCP tools, switching a skill on or
  off. The JSON decoder is a parameter; the manifest checks are those of skillmanifest.
\<close>

section \<open>Answers and parameters\<close>

datatype skill_answer =
    SkillSaved skill
  | OpenapiPreview "openapi_candidate list"
  | McpPreview "mcp_candidate list"
  | SkillApproved string

type_synonym skill_answered = "reply + int \<times> skill_answer"

text \<open>Of a body, the struct it decodes to.\<close>

record skill_lib =
  skb_manifest :: manifest_lib
  skb_openapi :: openapi_lib
  skb_mcp :: mcp_lib
  skb_http_skill :: "string \<Rightarrow> http_skill_input option"
  skb_openapi_preview :: "string \<Rightarrow> (string \<times> string) option"
  skb_mcp_preview :: "string \<Rightarrow> string option"
  skb_openapi_create :: "string \<Rightarrow> openapi_import_input option"
  skb_mcp_create :: "string \<Rightarrow> mcp_import_input option"

fun skill_kind_string :: "skill_kind \<Rightarrow> string" where
  "skill_kind_string SkillKindBuiltin = ''builtin''"
| "skill_kind_string SkillKindHTTP = ''http''"
| "skill_kind_string SkillKindMCP = ''mcp''"

abbreviation invalid_json :: "reply + 'a" where "invalid_json \<equiv> Inl (Reply 400 ''invalid json body'')"

text \<open>The check for the write role that opens every handler.\<close>

abbreviation if_writer where
  "if_writer S e h actor action sid d k \<equiv>
     unless_refused (require_role S e h actor require_write action ''skill'' sid '''' d) k"

section \<open>Previews\<close>

definition preview_openapi_import ::
  "('c, 'b) server \<Rightarrow> skill_lib \<Rightarrow> (nat \<Rightarrow> env) \<Rightarrow> api_call \<Rightarrow> actor_context \<Rightarrow> ('c, 'b) plane
     \<Rightarrow> skill_answered \<times> ('c, 'b) plane" where
  "preview_openapi_import S K es h actor d =
     if_writer S (es 0) h actor ''skill.import.preview'' '''' d
       (\<lambda>d1.
          (case skb_openapi_preview K (htr_body h) of
             None \<Rightarrow> (invalid_json, d1)
           | Some (document, base_url) \<Rightarrow>
               (case preview_openapi_http_skills (skb_manifest K) (skb_openapi K) document base_url of
                  Inl err \<Rightarrow> (Inl (Reply 400 err), d1)
                | Inr candidates \<Rightarrow>
                    (Inr (200, OpenapiPreview candidates),
                     plane_audit (es 0) (htr_api h) actor ''skill.import.preview'' ''skill'' '''' ''''
                       AuditDecisionAllow '''' [(''candidate_count'', VInt (int (length candidates)))] d1))))"

definition preview_mcp_import ::
  "('c, 'b) server \<Rightarrow> skill_lib \<Rightarrow> (nat \<Rightarrow> env) \<Rightarrow> api_call \<Rightarrow> actor_context \<Rightarrow> ('c, 'b) plane
     \<Rightarrow> skill_answered \<times> ('c, 'b) plane" where
  "preview_mcp_import S K es h actor d =
     if_writer S (es 0) h actor ''skill.import.mcp.preview'' '''' d
       (\<lambda>d1.
          (case skb_mcp_preview K (htr_body h) of
             None \<Rightarrow> (invalid_json, d1)
           | Some document \<Rightarrow>
               (case preview_mcp_tools (skb_mcp K) document of
                  Inl err \<Rightarrow> (Inl (Reply 400 err), d1)
                | Inr candidates \<Rightarrow>
                    (Inr (200, McpPreview candidates),
                     plane_audit (es 0) (htr_api h) actor ''skill.import.mcp.preview'' ''skill'' '''' ''''
                       AuditDecisionAllow '''' [(''candidate_count'', VInt (int (length candidates)))] d1))))"

section \<open>Creating and changing skills\<close>

definition create_openapi_imported_skill ::
  "('c, 'b) server \<Rightarrow> skill_lib \<Rightarrow> (nat \<Rightarrow> env) \<Rightarrow> api_call \<Rightarrow> actor_context \<Rightarrow> ('c, 'b) plane
     \<Rightarrow> skill_answered \<times> ('c, 'b) plane" where
  "create_openapi_imported_skill S K es h actor d =
     if_writer S (es 0) h actor ''skill.import.create'' '''' d
       (\<lambda>d1.
          (case skb_openapi_create K (htr_body h) of
             None \<Rightarrow> (invalid_json, d1)
           | Some input \<Rightarrow>
               (case build_openapi_http_skill_input (skb_manifest K) (skb_openapi K) input of
                  Inl err \<Rightarrow> (Inl (Reply 400 err), d1)
                | Inr (skill_input, c) \<Rightarrow>
                    unless_store_err
                      (on_store (create_http_skill (skb_manifest K) (es 0) (act_user_id actor)
                         (act_project_id actor) skill_input) d1)
                      (\<lambda>k d2. (Inr (201, SkillSaved k),
                         plane_audit (es 1) (htr_api h) actor ''skill.import.create'' ''skill'' (skl_id k) ''''
                           AuditDecisionAllow ''''
                           [(''kind'', VStr (skill_kind_string (skl_kind k))), (''source'', VStr ''openapi''),
                            (''operation_id'', VStr (oac_operation_id c)), (''method'', VStr (oac_method c)),
                            (''path'', VStr (oac_path c)), (''auth_type'', VStr (hsi_auth_type skill_input)),
                            (''secret_bound'', VBool (hsi_bearer_token skill_input \<noteq> '''' \<or>
                               hsi_bearer_token_secret_ref skill_input \<noteq> '''')),
                            (''security_hint'', VStr (oac_security_scheme c))] d2)))))"

definition create_mcp_imported_skill ::
  "('c, 'b) server \<Rightarrow> skill_lib \<Rightarrow> (nat \<Rightarrow> env) \<Rightarrow> api_call \<Rightarrow> actor_context \<Rightarrow> ('c, 'b) plane
     \<Rightarrow> skill_answered \<times> ('c, 'b) plane" where
  "create_mcp_imported_skill S K es h actor d =
     if_writer S (es 0) h actor ''skill.import.mcp.create'' '''' d
       (\<lambda>d1.
          (case skb_mcp_create K (htr_body h) of
             None \<Rightarrow> (invalid_json, d1)
           | Some input \<Rightarrow>
               (case on_store (create_mcp_skill (es 0) (act_user_id actor) (act_project_id actor)
                        (map_sum id (\<lambda>(k, candidate, secret, bound). (k, secret, bound))
                          (build_mcp_skill_input (skb_manifest K) (skb_mcp K) input))) d1 of
                  (Inl err, d2) \<Rightarrow> (Inl (Reply 400 (error_text err)), d2)
                | (Inr k, d2) \<Rightarrow>
                    (Inr (201, SkillSaved k),
                     plane_audit (es 1) (htr_api h) actor ''skill.import.mcp.create'' ''skill'' (skl_id k) ''''
                       AuditDecisionAllow ''''
                       [(''kind'', VStr (skill_kind_string (skl_kind k))), (''source'', VStr ''mcp''),
                        (''tool_name'', VStr (trim_space (mci_tool_name input))),
                        (''auth_type'', VStr (mci_auth_type input)),
                        (''secret_bound'', VBool (mci_bearer_token input \<noteq> '''' \<or>
                           mci_bearer_token_secret_ref input \<noteq> ''''))] d2))))"

definition create_http_skill_call ::
  "('c, 'b) server \<Rightarrow> skill_lib \<Rightarrow> (nat \<Rightarrow> env) \<Rightarrow> api_call \<Rightarrow> actor_context \<Rightarrow> ('c, 'b) plane
     \<Rightarrow> skill_answered \<times> ('c, 'b) plane" where
  "create_http_skill_call S K es h actor d =
     if_writer S (es 0) h actor ''skill.create'' '''' d
       (\<lambda>d1.
          (case skb_http_skill K (htr_body h) of
             None \<Rightarrow> (invalid_json, d1)
           | Some input \<Rightarrow>
               (case validate_http_skill_input (skb_manifest K) input of
                  Some err \<Rightarrow> (Inl (Reply 400 err), d1)
                | None \<Rightarrow>
                    unless_store_err
                      (on_store (create_http_skill (skb_manifest K) (es 0) (act_user_id actor)
                         (act_project_id actor) input) d1)
                      (\<lambda>k d2. (Inr (201, SkillSaved k),
                         plane_audit (es 1) (htr_api h) actor ''skill.create'' ''skill'' (skl_id k) ''''
                           AuditDecisionAllow ''''
                           [(''kind'', VStr (skill_kind_string (skl_kind k))),
                            (''auth_type'', VStr (hsi_auth_type input))] d2)))))"

definition update_http_skill_call ::
  "('c, 'b) server \<Rightarrow> skill_lib \<Rightarrow> (nat \<Rightarrow> env) \<Rightarrow> api_call \<Rightarrow> actor_context \<Rightarrow> string \<Rightarrow> ('c, 'b) plane
     \<Rightarrow> skill_answered \<times> ('c, 'b) plane" where
  "update_http_skill_call S K es h actor sid d =
     if_writer S (es 0) h actor ''skill.update'' sid d
       (\<lambda>d1.
          (case skb_http_skill K (htr_body h) of
             None \<Rightarrow> (invalid_json, d1)
           | Some input \<Rightarrow>
               (case validate_http_skill_input (skb_manifest K) input of
                  Some err \<Rightarrow> (Inl (Reply 400 err), d1)
                | None \<Rightarrow>
                    unless_store_err
                      (on_store (update_http_skill (skb_manifest K) (es 0) (act_user_id actor) sid input) d1)
                      (\<lambda>k d2. (Inr (200, SkillSaved k),
                         plane_audit (es 1) (htr_api h) actor ''skill.update'' ''skill'' (skl_id k) ''''
                           AuditDecisionAllow ''''
                           [(''kind'', VStr (skill_kind_string (skl_kind k))),
                            (''auth_type'', VStr (hsi_auth_type input))] d2)))))"

definition switch_skill ::
  "('c, 'b) server \<Rightarrow> (nat \<Rightarrow> env) \<Rightarrow> api_call \<Rightarrow> actor_context \<Rightarrow> string \<Rightarrow> string \<Rightarrow> bool \<Rightarrow> ('c, 'b) plane
     \<Rightarrow> skill_answered \<times> ('c, 'b) plane" where
  "switch_skill S es h actor action sid enabled d =
     if_writer S (es 0) h actor action sid d
       (\<lambda>d1. unless_store_err (on_store (set_skill_enabled (act_user_id actor) sid enabled) d1)
          (\<lambda>k d2. (Inr (200, SkillSaved k),
             plane_audit (es 0) (htr_api h) actor action ''skill'' (skl_id k) '''' AuditDecisionAllow '''' [] d2)))"

section \<open>The routes\<close>

definition skill_subroutes ::
  "('c, 'b) server \<Rightarrow> skill_lib \<Rightarrow> (nat \<Rightarrow> env) \<Rightarrow> api_call \<Rightarrow> actor_context \<Rightarrow> ('c, 'b) plane
     \<Rightarrow> skill_answered \<times> ('c, 'b) plane" where
  "skill_subroutes S K es h actor d =
     (let parts = split_path (trim_prefix (arq_path (htr_api h)) ''/api/skills/'');
          is_post = (htr_method h = ''POST'')
      in if parts = [''http''] \<and> is_post then create_http_skill_call S K es h actor d
         else if parts = [''import'', ''openapi'', ''preview''] \<and> is_post then
           preview_openapi_import S K es h actor d
         else if parts = [''import'', ''mcp'', ''preview''] \<and> is_post then preview_mcp_import S K es h actor d
         else if parts = [''import'', ''openapi''] \<and> is_post then create_openapi_imported_skill S K es h actor d
         else if parts = [''import'', ''mcp''] \<and> is_post then create_mcp_imported_skill S K es h actor d
         else
           (case parts of
              [sid] \<Rightarrow>
                if htr_method h = ''PATCH'' then update_http_skill_call S K es h actor sid d
                else (Inl (Reply 404 ''skill route not found''), d)
            | [sid, what] \<Rightarrow>
                if what = ''enable'' \<and> is_post then switch_skill S es h actor ''skill.enable'' sid True d
                else if what = ''disable'' \<and> is_post then switch_skill S es h actor ''skill.disable'' sid False d
                else if what = ''approve'' \<and> is_post then
                  if_writer S (es 0) h actor ''skill.approve'' sid d (\<lambda>d1. (Inr (202, SkillApproved sid), d1))
                else (Inl (Reply 404 ''skill route not found''), d)
            | _ \<Rightarrow> (Inl (Reply 404 ''skill route not found''), d)))"

end
