(* ===== verification/Public_Routes.thy ===== *)
theory Public_Routes
  imports Org_Api Skill_Api
begin

text \<open>
  The table of routes below /api/ (\<open>Handler\<close> of services/control-plane/internal/httpapi/server.go)
  behind the middleware that finds the actor. \<open>http.ServeMux\<close> prefers the longest pattern and
  redirects a path that is not clean, so only clean paths are routed here; the static files, the
  metrics and the pages of the OIDC login are other handlers.
\<close>

datatype api_answer =
    PublicAnswer public_answer
  | AdminAnswer admin_answer
  | SkillAnswer skill_answer
  | EventStream string

type_synonym api_answered = "reply + int \<times> api_answer"

text \<open>What the routes need besides the server.\<close>

record ('c, 'b, 'f) api_world =
  apw_public :: public_lib
  apw_admin :: admin_lib
  apw_skills :: skill_lib
  apw_mailer :: "('c, 'b) inviter option"
  apw_dispatch :: "('c, 'b) dispatcher"
  apw_disk :: "'f disk"

definition answer_of :: "('a \<Rightarrow> api_answer) \<Rightarrow> (reply + int \<times> 'a) \<times> 's \<Rightarrow> api_answered \<times> 's" where
  "answer_of f x = (case x of (Inl rep, d) \<Rightarrow> (Inl rep, d) | (Inr (code, a), d) \<Rightarrow> (Inr (code, f a), d))"

definition only_get :: "api_call \<Rightarrow> public_answered \<Rightarrow> ('c, 'b) plane \<Rightarrow> api_answered \<times> ('c, 'b) plane" where
  "only_get h a d =
     (if htr_method h \<noteq> ''GET'' then (Inl (Reply 405 ''method not allowed''), d)
      else answer_of PublicAnswer (a, d))"

definition serve_runs ::
  "('c, 'b) server \<Rightarrow> (nat \<Rightarrow> env) \<Rightarrow> string list \<Rightarrow> api_call \<Rightarrow> actor_context \<Rightarrow> ('c, 'b) plane
     \<Rightarrow> api_answered \<times> ('c, 'b) plane" where
  "serve_runs S es order h actor d =
     (case run_subroutes S es order h actor d of
        (Some a, d1) \<Rightarrow> answer_of PublicAnswer (a, d1)
      | (None, d1) \<Rightarrow>
          (Inr (200, EventStream (hd (split_path (trim_prefix (arq_path (htr_api h)) ''/api/runs/'')))), d1))"

text \<open>\<open>None\<close> is a path another handler serves.\<close>

definition serve_api ::
  "('c, 'b) server \<Rightarrow> ('c, 'b, 'f) api_world \<Rightarrow> (nat \<Rightarrow> env) \<Rightarrow> (nat \<Rightarrow> string list) \<Rightarrow> api_call
     \<Rightarrow> actor_context \<Rightarrow> 'f \<Rightarrow> ('c, 'b) plane \<Rightarrow> (api_answered \<times> ('c, 'b) plane) option" where
  "serve_api S W es os h actor f d =
     (let path = arq_path (htr_api h)
      in if path = ''/api/chats'' then
           Some (answer_of PublicAnswer (serve_chats S (apw_public W) es (os 0) h actor d))
         else if has_prefix path ''/api/chats/'' then
           Some (answer_of PublicAnswer (chat_subroutes S (apw_public W) (apw_dispatch W) es os h actor d))
         else if has_prefix path ''/api/runs/'' then Some (serve_runs S es (os 0) h actor d)
         else if has_prefix path ''/api/artifacts/'' then
           Some (answer_of PublicAnswer (artifact_subroutes (apw_public W) (apw_disk W) es h actor (d, f)))
         else if has_prefix path ''/api/invitations/'' then
           Some (answer_of AdminAnswer (invitation_subroutes (apw_admin W) es h actor d))
         else if has_prefix path ''/api/organizations/'' then
           Some (answer_of AdminAnswer (organization_subroutes S (apw_admin W) (apw_mailer W) es os h actor d))
         else if has_prefix path ''/api/projects/'' then
           Some (answer_of AdminAnswer (project_subroutes S (apw_admin W) es os h actor d))
         else if path = ''/api/skills'' then Some (only_get h (serve_skills actor d) d)
         else if has_prefix path ''/api/skills/'' then
           Some (answer_of SkillAnswer (skill_subroutes S (apw_skills W) es h actor d))
         else if path = ''/api/audit/events'' then Some (only_get h (serve_audit_events h actor d) d)
         else if path = ''/api/skill-invocations'' then Some (only_get h (serve_skill_invocations h actor d) d)
         else None)"

text \<open>A request through the middleware of the server, in the mode \<open>mode\<close>.\<close>

definition api_request_served ::
  "('c, 'b) server \<Rightarrow> ('c, 'b, 'f) api_world \<Rightarrow> string \<Rightarrow> oidc_lib \<Rightarrow> (nat \<Rightarrow> env) \<Rightarrow> (nat \<Rightarrow> string list)
     \<Rightarrow> api_call \<Rightarrow> 'f \<Rightarrow> ('c, 'b) plane \<Rightarrow> (api_answered \<times> ('c, 'b) plane) option" where
  "api_request_served S W mode L es os h f d =
     (case on_store (with_actor mode L es (htr_api h)) d of
        (Inl rep, d1) \<Rightarrow> Some (Inl rep, d1)
      | (Inr ctx, d1) \<Rightarrow> serve_api S W (\<lambda>i. es (i + 4)) os h (actor_from_request ctx) f d1)"

end
