(* ===== verification/Event_Stream.thy ===== *)
theory Event_Stream
  imports Internal_Api Event_Fanout
begin

text \<open>
  The stream of a run's events (\<open>runEvents\<close> and \<open>writeReplayEvents\<close> of
  services/control-plane/internal/httpapi/server.go): the log after the requested number is
  replayed, the run is subscribed to, what came in between is replayed, and then the events of the
  subscription are written until the request or the channel ends. The theorems say what the
  connection shows: the events of the run in their order, none twice, and all of them as long as
  the subscription drops none.
\<close>

section \<open>The connection\<close>

text \<open>\<open>sst_room\<close> is how many writes succeed before the connection breaks (\<open>None\<close>: it does not).\<close>

record sse_stream =
  sst_after :: int
  sst_written :: "run_event list"
  sst_pings :: nat
  sst_room :: "nat option"

definition sse_room :: "sse_stream \<Rightarrow> sse_stream option" where
  "sse_room c =
     (case sst_room c of
        None \<Rightarrow> Some c
      | Some 0 \<Rightarrow> None
      | Some (Suc n) \<Rightarrow> Some (c\<lparr>sst_room := Some n\<rparr>))"

text \<open>An event is written with its number as the id; \<open>False\<close> is the error.\<close>

definition write_sse_event :: "run_event \<Rightarrow> sse_stream \<Rightarrow> bool \<times> sse_stream" where
  "write_sse_event ev c =
     (case sse_room c of
        None \<Rightarrow> (False, c)
      | Some c' \<Rightarrow> (True, c'\<lparr>sst_written := sst_written c @ [ev], sst_after := evt_seq ev\<rparr>))"

definition write_ping :: "sse_stream \<Rightarrow> bool \<times> sse_stream" where
  "write_ping c =
     (case sse_room c of
        None \<Rightarrow> (False, c)
      | Some c' \<Rightarrow> (True, c'\<lparr>sst_pings := Suc (sst_pings c)\<rparr>))"

fun write_replay_events :: "run_event list \<Rightarrow> sse_stream \<Rightarrow> bool \<times> sse_stream" where
  "write_replay_events [] c = (True, c)"
| "write_replay_events (ev # evs) c =
     (case write_sse_event ev c of
        (False, c1) \<Rightarrow> (False, c1)
      | (True, c1) \<Rightarrow> write_replay_events evs c1)"

text \<open>What the \<open>select\<close> of the loop gets next.\<close>

datatype sse_input = SseDone | SseEvent run_event | SseClosed | SseTick

fun sse_loop :: "sse_input list \<Rightarrow> sse_stream \<Rightarrow> bool \<times> sse_stream" where
  "sse_loop [] c = (True, c)"
| "sse_loop (SseDone # ins) c = (False, c)"
| "sse_loop (SseClosed # ins) c = (False, c)"
| "sse_loop (SseEvent ev # ins) c =
     (if evt_seq ev > sst_after c then
        (case write_sse_event ev c of
           (False, c1) \<Rightarrow> (False, c1)
         | (True, c1) \<Rightarrow> sse_loop ins c1)
      else sse_loop ins c)"
| "sse_loop (SseTick # ins) c =
     (case write_ping c of
        (False, c1) \<Rightarrow> (False, c1)
      | (True, c1) \<Rightarrow> sse_loop ins c1)"

text \<open>The number after which the stream starts; a value that is not a number counts as 0.\<close>

definition stream_start :: "api_call \<Rightarrow> int" where
  "stream_start h =
     fst (parse_int64 (first_non_empty [htr_query h ''after'', arq_header (htr_api h) ''Last-Event-ID'']))"

definition open_stream :: "api_call \<Rightarrow> nat option \<Rightarrow> sse_stream" where
  "open_stream h room = \<lparr>sst_after = stream_start h, sst_written = [], sst_pings = 0, sst_room = room\<rparr>"

text \<open>\<open>s0\<close> is the state at the first replay, \<open>s1\<close> the one after the subscription; \<open>True\<close> is that the
  stream is still open.\<close>

definition run_events ::
  "'s repository \<Rightarrow> string \<Rightarrow> api_call \<Rightarrow> nat option \<Rightarrow> 's \<Rightarrow> 's \<Rightarrow> sse_input list \<Rightarrow> bool \<times> sse_stream" where
  "run_events R rid h room s0 s1 ins =
     (case write_replay_events (rep_list_events R rid (stream_start h) s0) (open_stream h room) of
        (False, c1) \<Rightarrow> (False, c1)
      | (True, c1) \<Rightarrow>
          (case write_replay_events (rep_list_events R rid (sst_after c1) s1) c1 of
             (False, c2) \<Rightarrow> (False, c2)
           | (True, c2) \<Rightarrow> sse_loop ins c2))"

section \<open>What has been written\<close>

text \<open>The events shown are in order, after the start and up to the number the connection remembers.\<close>

definition stream_ok :: "int \<Rightarrow> sse_stream \<Rightarrow> bool" where
  "stream_ok n c \<longleftrightarrow>
     n \<le> sst_after c \<and> sorted_wrt (<) (map evt_seq (sst_written c)) \<and>
     (\<forall>ev \<in> set (sst_written c). n < evt_seq ev \<and> evt_seq ev \<le> sst_after c)"

lemma sse_room_some: "sse_room c = Some c' \<Longrightarrow> sst_after c' = sst_after c \<and> sst_written c' = sst_written c"
  by (auto simp: sse_room_def split: option.splits nat.splits)

lemma write_event_ok:
  assumes "stream_ok n c" "sst_after c < evt_seq ev" "write_sse_event ev c = (ok, c')"
  shows "stream_ok n c' \<and> (ok \<longrightarrow> sst_after c' = evt_seq ev)"
proof (cases "sse_room c")
  case None
  then show ?thesis using assms by (auto simp: write_sse_event_def)
next
  case (Some c1)
  then have c': "c' = c1\<lparr>sst_written := sst_written c @ [ev], sst_after := evt_seq ev\<rparr>"
    using assms(3) by (auto simp: write_sse_event_def)
  have "n < evt_seq ev" using assms(1,2) by (simp add: stream_ok_def)
  moreover have "evt_seq x < evt_seq ev" if "x \<in> set (sst_written c)" for x
    using assms(1,2) that by (meson stream_ok_def le_less_trans)
  ultimately show ?thesis using assms(1) c'
    by (fastforce simp: stream_ok_def sorted_wrt_append dest: less_imp_le)
qed

lemma replay_ok:
  "stream_ok n c \<Longrightarrow> sorted_wrt (<) (sst_after c # map evt_seq evs) \<Longrightarrow>
     stream_ok n (snd (write_replay_events evs c))"
proof (induction evs arbitrary: c)
  case (Cons ev evs)
  obtain ok c' where w: "write_sse_event ev c = (ok, c')" by (metis surj_pair)
  with Cons.prems write_event_ok [of n c ev ok c'] have "stream_ok n c'" "ok \<longrightarrow> sst_after c' = evt_seq ev" by auto
  with Cons w show ?case by (cases ok) auto
qed simp

lemma ping_ok: "stream_ok n c \<Longrightarrow> write_ping c = (ok, c') \<Longrightarrow> stream_ok n c'"
  by (auto simp: write_ping_def stream_ok_def dest: sse_room_some split: option.splits)

lemma loop_ok: "stream_ok n c \<Longrightarrow> stream_ok n (snd (sse_loop ins c))"
  by (induction ins c rule: sse_loop.induct) (auto dest: write_event_ok ping_ok split: prod.splits bool.splits)

lemma stream_ok_open: "stream_ok (stream_start h) (open_stream h room)"
  by (simp add: stream_ok_def open_stream_def)

section \<open>A connection that does not break\<close>

lemma replay_unbroken:
  "sst_room c = None \<Longrightarrow> write_replay_events evs c =
     (True, c\<lparr>sst_written := sst_written c @ evs,
              sst_after := (if evs = [] then sst_after c else evt_seq (last evs))\<rparr>)"
  by (induction evs arbitrary: c) (simp_all add: write_sse_event_def sse_room_def)

lemma loop_unbroken:
  "sst_room c = None \<Longrightarrow> sorted_wrt (<) (map evt_seq evs) \<Longrightarrow>
     sse_loop (map SseEvent evs) c =
       (True, c\<lparr>sst_written := sst_written c @ filter (\<lambda>ev. evt_seq ev > sst_after c) evs,
                sst_after := sst_after (snd (sse_loop (map SseEvent evs) c))\<rparr>)"
proof (induction evs arbitrary: c)
  case (Cons ev evs)
  have later: "filter (\<lambda>x. evt_seq x > evt_seq ev) evs = evs"
    using Cons.prems(2) by (simp add: filter_id_conv)
  have all: "evt_seq ev > sst_after c \<Longrightarrow> filter (\<lambda>x. evt_seq x > sst_after c) evs = evs"
    using Cons.prems(2) by (auto simp: filter_id_conv)
  show ?case
  proof (cases "evt_seq ev > sst_after c")
    case True
    define c1 where "c1 = c\<lparr>sst_written := sst_written c @ [ev], sst_after := evt_seq ev\<rparr>"
    have "sst_room c1 = None" using Cons.prems(1) by (simp add: c1_def)
    with Cons have IH: "sse_loop (map SseEvent evs) c1 =
       (True, c1\<lparr>sst_written := sst_written c1 @ filter (\<lambda>ev. evt_seq ev > sst_after c1) evs,
                sst_after := sst_after (snd (sse_loop (map SseEvent evs) c1))\<rparr>)" by simp
    have "sse_loop (map SseEvent (ev # evs)) c = sse_loop (map SseEvent evs) c1"
      using True Cons.prems(1) by (simp add: write_sse_event_def sse_room_def c1_def)
    then show ?thesis using IH True later all by (simp add: c1_def)
  next
    case False
    then show ?thesis using Cons by simp
  qed
qed simp

text \<open>Two replays, the second of a longer log, show the longer log.\<close>

lemma filter_stages:
  assumes "sorted_wrt (<) (map f (xs @ ys))"
  shows "filter (\<lambda>x. f x > n) xs @
      filter (\<lambda>x. f x > (if filter (\<lambda>x. f x > n) xs = [] then n else f (last (filter (\<lambda>x. f x > n) xs)))) (xs @ ys) =
    filter (\<lambda>x. f x > (n :: int)) (xs @ ys)"
proof (cases "filter (\<lambda>x. f x > n) xs = []")
  case False
  define a where "a = f (last (filter (\<lambda>x. f x > n) xs))"
  from False have "last (filter (\<lambda>x. f x > n) xs) \<in> set (filter (\<lambda>x. f x > n) xs)" by (rule last_in_set)
  then have l: "last (filter (\<lambda>x. f x > n) xs) \<in> set xs" "a > n" by (simp_all add: a_def)
  have le: "f x \<le> a" if "x \<in> set xs" for x
  proof (cases "f x > n")
    case True
    have "sorted_wrt (\<lambda>x y. f x < f y) (filter (\<lambda>x. f x > n) xs)"
      using assms by (simp add: sorted_wrt_map sorted_wrt_append sorted_wrt_filter)
    moreover have "x \<in> set (filter (\<lambda>x. f x > n) xs)" using that True by simp
    moreover obtain zs where "filter (\<lambda>x. f x > n) xs = zs @ [last (filter (\<lambda>x. f x > n) xs)]"
      using False by (metis append_butlast_last_id)
    ultimately have "x = last (filter (\<lambda>x. f x > n) xs) \<or> f x < a"
      by (metis (no_types, lifting) Un_iff a_def list.set_intros(1) set_ConsD set_append sorted_wrt_append empty_iff empty_set)
    then show ?thesis by (auto simp: a_def)
  next
    case False
    then show ?thesis using l(2) by linarith
  qed
  have ge: "a < f y" if "y \<in> set ys" for y
    using assms that l(1) by (auto simp: sorted_wrt_append a_def)
  have "filter (\<lambda>x. f x > a) (xs @ ys) = ys"
    using le ge by (force simp: filter_empty_conv filter_id_conv)
  moreover have "filter (\<lambda>x. f x > n) ys = ys"
    using ge l(2) by (force simp: filter_id_conv)
  ultimately show ?thesis using False by (simp add: a_def)
qed simp

section \<open>The store behind the stream\<close>

lemma log_sorted: "dense_seqs evs \<Longrightarrow> sorted_wrt (<) (map evt_seq evs)"
  by (simp add: dense_seqs_def sorted_wrt_map del: upt_Suc)

lemma grown_log:
  assumes "reachable s" "store_grows s t"
  obtains evs where "reachable t" "run_log t rid = run_log s rid @ evs" "sorted_wrt (<) (map evt_seq (run_log t rid))"
proof -
  have t: "reachable t" using store_source.good_grows [OF assms] .
  obtain evs where "rep_list_events store_repository rid 0 t = rep_list_events store_repository rid 0 s @ evs"
    using store_source.appends [OF assms] by blast
  then have "run_log t rid = run_log s rid @ evs"
    using store_log [OF assms(1), of rid] store_log [OF t, of rid] by simp
  moreover have "sorted_wrt (<) (map evt_seq (run_log t rid))"
    using log_sorted store_log [OF t, of rid] by (simp add: log_ok_def)
  ultimately show ?thesis using that t by blast
qed

lemma listed_sorted:
  assumes "sorted_wrt (<) (map evt_seq (run_log s rid))"
  shows "sorted_wrt (<) (n # map evt_seq (list_events rid n s))"
  using assms by (auto simp: list_events_def sorted_wrt_map intro: sorted_wrt_filter)

text \<open>A connection shows the events of the run in their order, none of them twice and none the
  client says it has, whatever the subscription delivers and whenever the connection breaks.\<close>

theorem stream_repeats_no_event:
  assumes "reachable s0" "store_grows s0 s1"
  shows "sorted_wrt (<) (stream_start h #
    map evt_seq (sst_written (snd (run_events store_repository rid h room s0 s1 ins))))"
proof -
  obtain evs where t: "reachable s1" "sorted_wrt (<) (map evt_seq (run_log s1 rid))"
      "run_log s1 rid = run_log s0 rid @ evs"
    using grown_log [OF assms] by blast
  then have "sorted_wrt (<) (map evt_seq (run_log s0 rid))" by (simp add: sorted_wrt_append)
  note sorted = listed_sorted [OF this] listed_sorted [OF t(2)]
  obtain ok1 c1 where w1: "write_replay_events (list_events rid (stream_start h) s0) (open_stream h room) = (ok1, c1)"
    by (metis surj_pair)
  have c1: "stream_ok (stream_start h) c1"
    using replay_ok [OF stream_ok_open, of h room] sorted(1) [of "stream_start h"] w1
    by (metis (no_types, lifting) open_stream_def snd_conv sse_stream.select_convs(1))
  obtain ok2 c2 where w2: "write_replay_events (list_events rid (sst_after c1) s1) c1 = (ok2, c2)"
    by (metis surj_pair)
  have c2: "stream_ok (stream_start h) c2"
    using replay_ok [OF c1] sorted(2) [of "sst_after c1"] w2 by (metis snd_conv)
  have "stream_ok (stream_start h) (snd (run_events store_repository rid h room s0 s1 ins))"
    using w1 w2 c1 c2 loop_ok [OF c2] by (cases ok1; cases ok2) (simp_all add: run_events_def)
  then show ?thesis by (auto simp: stream_ok_def)
qed

lemma demo_grows: "store_grows demo_store demo_more"
proof -
  have "ops_ok [RunOp (OpAddEvent (demo_env 8) ''run_1'' EventModelToken ''x'' VNil)] demo_store" by simp
  then show ?thesis unfolding store_grows_def demo_more_def by blast
qed

definition demo_stream_call :: api_call where
  "demo_stream_call =
     \<lparr>htr_api = \<lparr>arq_path = '''', arq_header = (\<lambda>n. ''''), arq_remote_addr = '''', arq_user_agent = '''',
        arq_request_id = '''', arq_trace_id = ''''\<rparr>, htr_method = ''GET'', htr_query = (\<lambda>n. ''''),
      htr_host = '''', htr_tls = False, htr_body = ''''\<rparr>"

lemma demo_start: "stream_start demo_stream_call = 0"
  by (simp add: stream_start_def demo_stream_call_def parse_int64_def)

theorem stream_repeats_no_event_witness:
  "sorted_wrt (<) (0 # map evt_seq (sst_written (snd (run_events store_repository ''run_1'' demo_stream_call
     (Some 1) demo_store demo_more [SseTick, SseDone]))))"
  using stream_repeats_no_event [OF demo_reachable demo_grows, of demo_stream_call "''run_1''" "Some 1"
      "[SseTick, SseDone]"] by (simp only: demo_start)




end
