(* ===== verification/Public_Properties.thy ===== *)
theory Public_Properties
  imports Public_Routes Access_Properties Internal_Api_Properties Admission_Properties Event_Stream
begin

text \<open>
  What the routes below /api/ let an actor do. An actor without a role that may write changes
  nothing but the audit log; what a request shows belongs to the actor, its project or its
  organization; and the roles of others are changed only in the actor's own organization or
  project, never the actor's own ones, except by accepting an invitation.
\<close>

section \<open>Requests that only leave an audit entry\<close>

definition only_audited :: "('c, 'b) plane \<Rightarrow> ('c, 'b) plane \<Rightarrow> bool" where
  "only_audited d t \<longleftrightarrow>
     (\<exists>evs. t = (((plane_store d)\<lparr>s_audit_events := s_audit_events (plane_store d) @ evs\<rparr>, snd (fst d)), snd d))"

lemma only_audited_refl [simp]: "only_audited d d"
  unfolding only_audited_def by (rule exI [of _ "[]"]) (simp add: plane_store_def)

lemma only_audited_store:
  assumes "s = plane_store d" "t = s\<lparr>s_audit_events := s_audit_events s @ evs\<rparr>"
  shows "only_audited d ((t, snd (fst d)), snd d)"
  using assms by (auto simp: only_audited_def)

lemma write_audit_store:
  "write_audit_event e rq actor action rtype rid run dec reason meta s =
     s\<lparr>s_audit_events := s_audit_events s @
        [audit_event_from_input e (audit_entry rq actor action rtype rid run dec reason meta)]\<rparr>"
  by (simp add: write_audit_event_def add_audit_event_def Let_def)

lemma audit_only [simp]: "only_audited d (plane_audit e rq actor action rtype rid run dec reason meta d)"
  unfolding plane_audit_def on_store_def with_right_def
  by (cases d; cases "fst d") (auto simp: only_audited_def plane_store_def write_audit_store)

lemma on_store_only:
  assumes "snd (f (plane_store d)) = (plane_store d)\<lparr>s_audit_events := s_audit_events (plane_store d) @ evs\<rparr>"
  shows "only_audited d (snd (on_store f d))"
  using assms
  by (cases d; cases "fst d") (auto simp: only_audited_def plane_store_def on_store_def with_right_def split: prod.splits)

lemma artifact_read_only [simp]: "only_audited d (snd (on_store (read_authorized_artifact es rq actor aid) d))"
proof -
  have "\<exists>evs. snd (read_authorized_artifact es rq actor aid s) =
      s\<lparr>s_audit_events := s_audit_events s @ evs\<rparr>" for s
  proof -
    have "\<exists>evs. s = s\<lparr>s_audit_events := s_audit_events s @ evs\<rparr>" by (rule exI [of _ "[]"]) simp
    then show ?thesis by (auto simp: read_authorized_artifact_def write_audit_store split: sum.split)
  qed
  then show ?thesis using on_store_only by blast
qed

lemma artifact_answer_only:
  assumes "on_store (read_authorized_artifact es rq actor aid) d = (res, t)"
  shows "only_audited d t" and "only_audited d (plane_audit e rq' actor' action rtype rid run dec reason meta t)"
proof -
  show t: "only_audited d t" using artifact_read_only [of d es rq actor aid] assms by simp
  have "only_audited t (plane_audit e rq' actor' action rtype rid run dec reason meta t)" by simp
  with t show "only_audited d (plane_audit e rq' actor' action rtype rid run dec reason meta t)"
    by (fastforce simp: only_audited_def plane_store_def)
qed

lemma deny_hidden_only [simp]: "only_audited d (snd (deny_hidden e h actor action rtype rid run reason d))"
  by (simp add: deny_hidden_def)

lemma no_writer: "\<not> actor_can_write actor \<Longrightarrow> \<not> pdc_allowed (authorize policy actor action fallback)"
  by (auto simp: authorize_def Let_def allowed_decision_def can_write_iff can_admin_iff has_role_def)

lemma refused_only [simp]:
  assumes "\<not> actor_can_write actor"
  shows "only_audited d (snd (unless_refused (require_role S e h actor fallback action rtype rid run d) k))"
proof -
  have "only_audited d (snd (require_role S e h actor fallback action rtype rid run d))"
    unfolding require_role_def using no_writer [OF assms]
    by (intro on_store_only) (simp add: require_action_def Let_def write_audit_store)
  moreover have "fst (require_role S e h actor fallback action rtype rid run d) \<noteq> None"
    unfolding require_role_def using no_writer [OF assms]
    by (simp add: require_action_def on_store_def with_right_def Let_def split: prod.split)
  ultimately show ?thesis by (auto simp: unless_refused_def split: prod.splits option.splits)
qed

lemma answer_of_state [simp]: "snd (answer_of g x) = snd x"
  by (simp add: answer_of_def split: prod.split sum.split)

lemma queued_answer_state [simp]: "snd (queued_answer x) = snd x"
  by (simp add: queued_answer_def split: prod.split sum.split)

lemma unless_store_err_same:
  "(\<And>x t. k x t = (g x, t)) \<Longrightarrow> snd (unless_store_err res k) = snd res"
  by (simp add: unless_store_err_def split: prod.split sum.split)

lemma chats_reader: "\<not> actor_can_write actor \<Longrightarrow> only_audited d (snd (serve_chats S P es order h actor d))"
  by (simp add: serve_chats_def)

lemma message_reader:
  fixes h :: api_call
  assumes "\<not> actor_can_write actor"
  shows "only_audited d (snd (create_message S dispatch es os (htr_api h) actor cid body d))"
proof -
  let ?check = "on_store (require_action (es 0) (srv_action_policy S) (htr_api h) actor ''message.create'' ''chat'' cid '''' require_write) d"
  obtain rep t where check: "?check = (rep, t)" by (metis surj_pair)
  have "rep \<noteq> None"
    using no_writer [OF assms] check
    by (auto simp: require_action_def on_store_def with_right_def Let_def split: prod.splits)
  then obtain r where rep: "rep = Some r" by blast
  have "only_audited d t"
    using refused_only [OF assms, of d S "es 0" h require_write "''message.create''" "''chat''" cid "[]" "\<lambda>d1. (Inr (), d1)"] check rep
    by (simp add: require_role_def unless_refused_def)
  then show ?thesis using check rep by (simp add: create_message_def Let_def split: option.split)
qed

lemma chat_reader:
  "\<not> actor_can_write actor \<Longrightarrow> only_audited d (snd (chat_subroutes S P dispatch es os h actor d))"
  by (auto simp: chat_subroutes_def show_chat_def archive_chat_def message_reader Let_def split: list.split sum.split)

lemma run_reader: "\<not> actor_can_write actor \<Longrightarrow> only_audited d (snd (run_subroutes S es order h actor d))"
  by (auto simp: run_subroutes_def cancel_run_def Let_def case_prod_unfold split: list.split sum.split)

lemma artifact_reader: "only_audited (fst df) (snd (artifact_subroutes P D es h actor df))"
proof -
  have content: "only_audited (fst df) (snd (read_artifact_content D es h actor aid df))" for aid
    by (auto simp: read_artifact_content_def artifact_answer_only split: prod.split sum.split)
  have download: "only_audited (fst df) (snd (download_artifact P D es h actor aid df))" for aid
    by (auto simp: download_artifact_def artifact_answer_only split: prod.split sum.split)
  have shown: "only_audited (fst df) (snd (unless_store_err
      (on_store (read_authorized_artifact es (htr_api h) actor aid) (fst df))
      (\<lambda>a d. (Inr (200, ArtifactShown a), d))))" for aid
    by (simp add: unless_store_err_same)
  show ?thesis using content download shown by (auto simp: artifact_subroutes_def Let_def split: list.split)
qed

lemma with_segment_only [simp]:
  "(\<And>v. only_audited d (snd (k v))) \<Longrightarrow> only_audited d (snd (with_segment raw text k d))"
  by (auto simp: with_segment_def split: option.split)

lemma organization_reader:
  assumes "\<not> actor_can_write actor"
  shows "only_audited d (snd (organization_subroutes S A mailer es os h actor d))"
proof -
  have "only_audited d (snd (organization_route S A mailer es os h actor org rest d))" for org rest
    using assms
    by (simp add: organization_route_def create_invitation_call_def list_invitation_email_events_call_def
        record_invitation_email_event_call_def list_invitation_email_suppressions_call_def
        upsert_organization_member_call_def delete_invitation_email_suppression_call_def
        remove_organization_member_call_def resend_invitation_email_def Let_def
        split: list.split)
  then show ?thesis by (simp add: organization_subroutes_def split: list.split)
qed

lemma project_reader:
  assumes "\<not> actor_can_write actor"
  shows "only_audited d (snd (project_subroutes S A es os h actor d))"
proof -
  have "only_audited d (snd (project_route S A es os h actor project rest d))" for project rest
    using assms
    by (simp add: project_route_def update_project_quota_policy_def update_project_runtime_policy_def
        project_usage_def upsert_project_member_call_def remove_project_member_call_def Let_def
        split: list.split)
  then show ?thesis by (simp add: project_subroutes_def split: list.split)
qed

lemma skill_reader: "\<not> actor_can_write actor \<Longrightarrow> only_audited d (snd (skill_subroutes S K es h actor d))"
  by (auto simp: skill_subroutes_def create_http_skill_call_def preview_openapi_import_def preview_mcp_import_def
      create_openapi_imported_skill_def create_mcp_imported_skill_def update_http_skill_call_def switch_skill_def
      Let_def split: list.split)

lemma serve_runs_state: "snd (serve_runs S es order h actor d) = snd (run_subroutes S es order h actor d)"
  by (simp add: serve_runs_def split: prod.split option.split)


section \<open>What a request shows\<close>

definition owns_run :: "actor_context \<Rightarrow> store \<Rightarrow> run \<Rightarrow> bool" where
  "owns_run actor s r \<longleftrightarrow>
     run_user_id r = act_user_id actor \<and> actor_can_read_chat_id actor (run_chat_id r) s"

text \<open>What an answer may contain, given the store the request met: chats, runs, artifacts, audit
  entries and invocations of the actor in its project, and members and invitations of the
  actor's organization, the latter without their token; of skills those granted to the actor in
  its project.\<close>

fun own_public :: "actor_context \<Rightarrow> store \<Rightarrow> public_answer \<Rightarrow> bool" where
  "own_public actor s (ChatsShown cs) = (\<forall>c \<in> set cs. actor_can_read_chat actor c)"
| "own_public actor s (ChatShown c) = actor_can_read_chat actor c"
| "own_public actor s (ChatMessagesShown c ms) = actor_can_read_chat actor c"
| "own_public actor s (MessageQueued m r) = owns_run actor s r"
| "own_public actor s (RunShown r) = owns_run actor s r"
| "own_public actor s (RunArtifactsShown as) =
     (\<forall>a \<in> set as. actor_can_read_run actor (art_run_id a) s)"
| "own_public actor s (ArtifactShown a) = actor_can_read_artifact actor a s"
| "own_public actor s (ArtifactTextShown x) = actor_can_read_artifact actor (atx_artifact x) s"
| "own_public actor s (ArtifactFileShown f) =
     (\<exists>a. actor_can_read_artifact actor a s \<and> (art_name a = '''' \<or> art_name a = fdl_filename f))"
| "own_public actor s (SkillsShown ks g) =
     (\<forall>k \<in> set ks. \<exists>i \<in> set (map_get [] (s_skill_grants s)
        (skill_grant_key (act_user_id actor) (act_project_id actor))). s_skills s i = Some k)"
| "own_public actor s (AuditEventsShown evs) =
     (\<forall>ev \<in> set evs. aud_actor_user_id ev = act_user_id actor \<and> aud_actor_project_id ev = act_project_id actor)"
| "own_public actor s (InvocationsShown rs) =
     (\<forall>r \<in> set rs. ivk_user_id r = act_user_id actor \<and> ivk_project_id r = act_project_id actor)"

lemma show_chat_own: "fst (show_chat e h actor cid d) = Inr (n, a) \<Longrightarrow> own_public actor s a"
  by (auto simp: show_chat_def deny_hidden_def split: sum.splits if_splits)

lemma chats_own: "fst (serve_chats S P es order h actor d) = Inr (n, a) \<Longrightarrow> own_public actor s a"
  by (auto simp: serve_chats_def unless_refused_def unless_store_err_def list_chats_def chat_listed_def Let_def
      actor_can_read_chat_def create_chat_def on_store_def with_right_def set_range_vals
      split: if_splits prod.splits option.splits sum.splits)

lemma read_chat_id:
  "actor_can_read_chat_id actor cid s \<longleftrightarrow> (\<exists>c. s_chats s cid = Some c \<and> actor_can_read_chat actor c)"
  by (auto simp: actor_can_read_chat_id_def get_chat_def actor_can_read_chat_def Let_def split: option.splits)

lemma read_run:
  "actor_can_read_run actor rid s \<longleftrightarrow> (\<exists>r. s_runs s rid = Some r \<and> owns_run actor s r)"
  by (auto simp: actor_can_read_run_def get_run_def owns_run_def actor_can_read_chat_id_def split: option.splits)

lemma require_role_store:
  "s_chats (plane_store (snd (require_role S e h actor fb action rtype rid run d))) = s_chats (plane_store d)"
  "s_runs (plane_store (snd (require_role S e h actor fb action rtype rid run d))) = s_runs (plane_store d)"
  by (simp_all add: require_role_def require_action_def Let_def)

lemma archive_own:
  assumes "fst (archive_chat S es h actor cid action reason archived d) = Inr (n, a)"
  shows "own_public actor s a"
proof -
  obtain rep d1 where r: "require_role S (es 0) h actor require_write action ''chat'' cid '''' d = (rep, d1)"
    by (metis surj_pair)
  have d1: "s_chats (plane_store d1) = s_chats (plane_store d)" using require_role_store(1) r by (metis snd_conv)
  obtain res d2 where u: "on_store (set_chat_archived (es 0) cid (act_user_id actor) archived) d1 = (res, d2)"
    by (metis surj_pair)
  have s2: "set_chat_archived (es 0) cid (act_user_id actor) archived (plane_store d1) = (res, plane_store d2)"
    using on_store_parts [OF u] by simp
  have "actor_can_read_chat_id actor cid (plane_store d)" "rep = None"
    using assms r by (auto simp: archive_chat_def deny_hidden_def unless_refused_def split: if_splits option.splits)
  with assms r u s2 d1 show ?thesis
    by (auto simp: archive_chat_def unless_refused_def unless_store_err_def read_chat_id set_chat_archived_def Let_def
        actor_can_read_chat_def split: sum.splits if_splits)
qed

lemma message_own:
  assumes "create_message S dispatch es os rq actor cid body d = (Inr (msg, r), t)"
  shows "owns_run actor (plane_store d) r"
proof -
  from accepted_parts [OF assms] obtain d2 rsv where
    read: "actor_can_read_chat_id actor cid (plane_store d)" and
    q: "queue_message S dispatch (\<lambda>i. es (i + 7)) rq actor cid (trim_space (the body)) rsv d2 = (Inr (msg, r), t)"
    by blast
  from queue_accepted [OF q] have "r = queued_run (es 7) cid (act_user_id actor)" by simp
  with read show ?thesis by (simp add: owns_run_def queued_run_def)
qed

lemma chat_own: "fst (chat_subroutes S P dispatch es os h actor d) = Inr (n, a) \<Longrightarrow> own_public actor (plane_store d) a"
  by (auto simp: chat_subroutes_def Let_def queued_answer_def show_chat_own archive_own message_own
      split: list.splits if_splits prod.splits sum.splits)

lemma cancel_own:
  assumes "fst (cancel_run S es h actor rid d) = Inr (n, a)"
  shows "own_public actor (plane_store d) a"
proof -
  obtain rep d1 where r: "require_role S (es 0) h actor require_write ''run.cancel'' ''run'' rid rid d = (rep, d1)"
    by (metis surj_pair)
  have d1: "s_runs (plane_store d1) = s_runs (plane_store d)" using require_role_store(2) r by (metis snd_conv)
  obtain res d2 where u: "rep_update_run_status (plane_repository S) (es 0) rid RunCanceled '''' d1 = (res, d2)"
    by (metis surj_pair)
  have s2: "update_run_status (es 0) rid RunCanceled '''' (plane_store d1) = (res, plane_store d2)"
    using plane.update_sim [OF u] by (simp add: store_repository_def)
  have "actor_can_read_run actor rid (plane_store d)" "rep = None"
    using assms r by (auto simp: cancel_run_def deny_hidden_def unless_refused_def split: if_splits option.splits)
  with assms r u s2 d1 show ?thesis
    by (auto simp: cancel_run_def unless_refused_def unless_store_err_def read_run update_run_status_def Let_def
        owns_run_def split: sum.splits if_splits)
qed

lemma owns_run_usage [simp]: "owns_run actor s (r\<lparr>run_usage := u\<rparr>) = owns_run actor s r"
  by (simp add: owns_run_def)

lemma run_own:
  assumes "fst (run_subroutes S es order h actor d) = Some (Inr (n, a))"
  shows "own_public actor (plane_store d) a"
proof -
  have cancel: "cancel_run S es h actor rid d = (Inr (n, a), t) \<Longrightarrow> own_public actor (plane_store d) a" for rid t
    using cancel_own [of S es h actor rid d n a] by simp
  show ?thesis using assms
    by (auto simp: run_subroutes_def Let_def deny_hidden_def [of "es 0" h actor] read_run get_run_def
        list_artifacts_def set_range_vals cancel
        split: list.splits if_splits prod.splits sum.splits option.splits)
qed

lemma stream_own:
  "fst (run_subroutes S es order h actor d) = None \<Longrightarrow>
     actor_can_read_run actor (hd (split_path (trim_prefix (arq_path (htr_api h)) ''/api/runs/''))) (plane_store d)"
  by (auto simp: run_subroutes_def Let_def deny_hidden_def
      split: list.splits if_splits prod.splits sum.splits option.splits)

lemma authorized_artifact:
  "on_store (read_authorized_artifact es rq actor aid) d = (Inr a, t) \<Longrightarrow>
     actor_can_read_artifact actor a (plane_store d) \<and> t = d"
  by (cases d; cases "fst d") (auto simp: read_authorized_artifact_def on_store_def with_right_def plane_store_def
      split: prod.splits sum.splits if_splits)

lemma text_artifact: "read_artifact_text D a n s f = Inr x \<Longrightarrow> atx_artifact x = a"
  by (auto simp: read_artifact_text_def Let_def split: sum.splits if_splits prod.splits)

lemma download_own:
  assumes "fst (download_artifact P D es h actor aid df) = Inr (n, a)"
  shows "own_public actor (plane_store (fst df)) a"
proof -
  obtain res t where r: "on_store (read_authorized_artifact es (htr_api h) actor aid) (fst df) = (res, t)"
    by (metis surj_pair)
  then obtain x where x: "res = Inr x" using assms by (cases res) (auto simp: download_artifact_def)
  have own: "actor_can_read_artifact actor x (plane_store (fst df))" using authorized_artifact r x by blast
  have "\<exists>path contents. a = ArtifactFileShown (download_of D h x path contents)"
    using assms r x by (auto simp: download_artifact_def split: sum.splits prod.splits if_splits)
  with own show ?thesis by (auto simp: download_of_def Let_def)
qed

lemma content_own:
  assumes "fst (read_artifact_content D es h actor aid df) = Inr (n, a)"
  shows "own_public actor (plane_store (fst df)) a"
proof -
  obtain res t where r: "on_store (read_authorized_artifact es (htr_api h) actor aid) (fst df) = (res, t)"
    by (metis surj_pair)
  then obtain x where x: "res = Inr x" using assms by (cases res) (auto simp: read_artifact_content_def)
  have own: "actor_can_read_artifact actor x (plane_store (fst df))" using authorized_artifact r x by blast
  then show ?thesis
    using assms r x by (auto simp: read_artifact_content_def text_artifact split: sum.splits)
qed

lemma artifact_own:
  assumes "fst (artifact_subroutes P D es h actor df) = Inr (n, a)"
  shows "own_public actor (plane_store (fst df)) a"
proof -
  have shown: "own_public actor (plane_store (fst df)) a"
    if "fst (unless_store_err (on_store (read_authorized_artifact es (htr_api h) actor aid) (fst df))
      (\<lambda>a d. (Inr (200, ArtifactShown a), d))) = Inr (n, a)" for aid
    using that authorized_artifact by (fastforce simp: unless_store_err_def split: prod.splits sum.splits)
  show ?thesis using assms content_own [of D es h actor _ df n a] download_own [of P D es h actor _ df n a] shown
    by (simp add: artifact_subroutes_def Let_def split: list.splits if_splits)
qed

lemma granted_known: "k \<in> set (granted_skills m ids) \<Longrightarrow> \<exists>i \<in> set ids. m i = Some k"
  by (induction ids) (auto simp: redact_skill_def split: option.splits if_splits)

lemma listings_own:
  "serve_skills actor d = Inr (n, a) \<Longrightarrow> own_public actor (plane_store d) a"
  "serve_audit_events h actor d = Inr (n, a) \<Longrightarrow> own_public actor s a"
  "serve_skill_invocations h actor d = Inr (n, a) \<Longrightarrow> own_public actor s a"
  using granted_known
  by (auto simp: serve_skills_def serve_audit_events_def serve_skill_invocations_def list_skills_for_user_def
      list_audit_events_def list_skill_invocations_def newest_loop_take Let_def dest!: in_set_takeD)

text \<open>Below an organization or a project.\<close>

fun own_admin :: "actor_context \<Rightarrow> admin_answer \<Rightarrow> bool" where
  "own_admin actor (InvitationsShown is) =
     (\<forall>i \<in> set is. inv_organization_id i = act_org_id actor \<and> inv_token i = '''')"
| "own_admin actor (DeliveryShown dl) = (inv_token (dlv_invitation dl) = '''')"
| "own_admin actor (OrgMembersShown ms) = (\<forall>m \<in> set ms. omb_organization_id m = act_org_id actor)"
| "own_admin actor (OrgMemberShown m) = (omb_organization_id m = act_org_id actor)"
| "own_admin actor (ProjectMembersShown ms) = (\<forall>m \<in> set ms. pmb_project_id m = act_project_id actor)"
| "own_admin actor (ProjectMemberShown m) = (pmb_project_id m = act_project_id actor)"
| "own_admin actor (UsageShown project window since bs tot) = (project = act_project_id actor)"
| "own_admin actor (SuppressionsShown ps) = (\<forall>p \<in> set ps. sup_organization_id p = trim_space (act_org_id actor))"
| "own_admin actor _ = True"

lemma org_members_own: "m \<in> set (org_members_loop e org s keys) \<Longrightarrow> omb_organization_id m = org"
proof (induction keys)
  case (Cons key keys)
  then show ?case
    by (cases "s_org_roles s key"; cases "split_org_role_key key"; cases "the (s_org_roles s key)")
      (auto simp: org_member_def Let_def split: if_splits)
qed simp

lemma project_members_own: "m \<in> set (project_members_loop e project s keys) \<Longrightarrow> pmb_project_id m = project"
proof (induction keys)
  case (Cons key keys)
  then show ?case
    by (cases "s_project_roles s key"; cases "split_project_role_key key"; cases "the (s_project_roles s key)")
      (auto simp: prj_member_def Let_def split: if_splits)
qed simp

lemma with_segment_answer:
  "fst (with_segment raw text k d) = Inr x \<Longrightarrow> (\<And>v. fst (k v) = Inr x \<Longrightarrow> Q) \<Longrightarrow> Q"
  by (auto simp: with_segment_def split: option.splits if_splits)

lemma unless_refused_Inr: "fst (unless_refused c k) = Inr x \<Longrightarrow> \<exists>d1. c = (None, d1) \<and> fst (k d1) = Inr x"
  by (auto simp: unless_refused_def split: prod.splits option.splits)

lemma unless_store_err_Inr:
  "fst (unless_store_err res k) = Inr x \<Longrightarrow> \<exists>y d1. res = (Inr y, d1) \<and> fst (k y d1) = Inr x"
  by (auto simp: unless_store_err_def split: prod.splits sum.splits)

lemma on_store_result: "on_store f d = (x, t) \<Longrightarrow> \<exists>s'. f (plane_store d) = (x, s')"
  by (auto dest: on_store_parts)

lemma org_member_calls_own:
  "fst (upsert_organization_member_call S A es h actor (act_org_id actor) u d) = Inr (n, a) \<Longrightarrow> own_admin actor a"
  "fst (remove_organization_member_call S es h actor (act_org_id actor) u d) = Inr (n, a) \<Longrightarrow> own_admin actor a"
  by (auto simp: upsert_organization_member_call_def remove_organization_member_call_def Let_def
      upsert_organization_member_def remove_organization_member_def org_member_def
      dest!: unless_refused_Inr unless_store_err_Inr on_store_result split: option.splits if_splits list.splits)

lemma project_member_calls_own:
  "fst (upsert_project_member_call S A es h actor (act_project_id actor) u d) = Inr (n, a) \<Longrightarrow> own_admin actor a"
  "fst (remove_project_member_call S es h actor (act_project_id actor) u d) = Inr (n, a) \<Longrightarrow> own_admin actor a"
  by (auto simp: upsert_project_member_call_def remove_project_member_call_def Let_def
      upsert_project_member_def remove_project_member_def prj_member_def
      dest!: unless_refused_Inr unless_store_err_Inr on_store_result split: option.splits if_splits list.splits)

lemma project_calls_own:
  "fst (update_project_quota_policy S A es h actor p d) = Inr (n, a) \<Longrightarrow> own_admin actor a"
  "fst (update_project_runtime_policy S A es h actor p d) = Inr (n, a) \<Longrightarrow> own_admin actor a"
  "fst (project_usage S A es os h actor (act_project_id actor) d) = Inr (n, a) \<Longrightarrow> own_admin actor a"
  by (auto simp: update_project_quota_policy_def update_project_runtime_policy_def project_usage_def Let_def
      dest!: unless_refused_Inr unless_store_err_Inr split: option.splits if_splits)

lemma invitation_calls_own:
  "fst (create_invitation_call S A mailer es h actor org d) = Inr (n, a) \<Longrightarrow> own_admin actor a"
  "fst (resend_invitation_email S mailer es os h actor org iid d) = Inr (n, a) \<Longrightarrow> own_admin actor a"
  "fst (list_invitation_email_events_call S es os h actor org d) = Inr (n, a) \<Longrightarrow> own_admin actor a"
  "fst (record_invitation_email_event_call S A es os h actor org d) = Inr (n, a) \<Longrightarrow> own_admin actor a"
  "fst (list_invitation_email_suppressions_call S es os h actor (act_org_id actor) d) = Inr (n, a) \<Longrightarrow> own_admin actor a"
  "fst (delete_invitation_email_suppression_call S es os h actor org sid d) = Inr (n, a) \<Longrightarrow> own_admin actor a"
  by (auto simp: create_invitation_call_def resend_invitation_email_def send_requeued_def deny_hidden_def
      list_invitation_email_events_call_def record_invitation_email_event_call_def
      list_invitation_email_suppressions_call_def list_email_suppressions_def
      delete_invitation_email_suppression_call_def Let_def
      dest!: unless_refused_Inr unless_store_err_Inr in_set_takeD split: option.splits if_splits prod.splits)

lemma listed_invitations_own:
  "i \<in> set (list_invitations e order org s) \<Longrightarrow> inv_organization_id i = org \<and> inv_token i = ''''"
  by (auto simp: list_invitations_def shown_invitation_def Let_def)

lemma organization_route_own:
  "fst (organization_route S A mailer es os h actor (act_org_id actor) rest d) = Inr (n, a) \<Longrightarrow> own_admin actor a"
  by (auto simp: organization_route_def Let_def list_organization_members_def
      dest: org_members_own org_member_calls_own invitation_calls_own
      dest!: unless_refused_Inr listed_invitations_own elim!: with_segment_answer split: list.splits if_splits)

lemma organization_own:
  "fst (organization_subroutes S A mailer es os h actor d) = Inr (n, a) \<Longrightarrow> own_admin actor a"
  by (auto simp: organization_subroutes_def deny_hidden_def dest: organization_route_own
      elim!: with_segment_answer split: list.splits if_splits)

lemma project_route_own:
  "fst (project_route S A es os h actor (act_project_id actor) rest d) = Inr (n, a) \<Longrightarrow> own_admin actor a"
  by (auto simp: project_route_def Let_def list_project_members_def
      dest: project_members_own project_member_calls_own project_calls_own
      elim!: with_segment_answer split: list.splits if_splits)

lemma project_own: "fst (project_subroutes S A es os h actor d) = Inr (n, a) \<Longrightarrow> own_admin actor a"
  by (auto simp: project_subroutes_def deny_hidden_def dest: project_route_own
      elim!: with_segment_answer split: list.splits if_splits)

lemma skill_from_input_owner:
  "http_skill_from_input lib sid ver user project version input = Inr (k, secret, bound) \<Longrightarrow> skl_owner_user_id k = user"
  by (auto simp: http_skill_from_input_def Let_def split: if_splits sum.splits option.splits)

fun own_skill :: "actor_context \<Rightarrow> skill_answer \<Rightarrow> bool" where
  "own_skill actor (SkillSaved k) = (skl_owner_user_id k = act_user_id actor)"
| "own_skill actor _ = True"

lemma skill_calls_own:
  "fst (create_http_skill_call S K es h actor d) = Inr (n, a) \<Longrightarrow> own_skill actor a"
  "fst (update_http_skill_call S K es h actor sid d) = Inr (n, a) \<Longrightarrow> own_skill actor a"
  "fst (create_openapi_imported_skill S K es h actor d) = Inr (n, a) \<Longrightarrow> own_skill actor a"
  "fst (create_mcp_imported_skill S K es h actor d) = Inr (n, a) \<Longrightarrow> own_skill actor a"
  "fst (switch_skill S es h actor action sid enabled d) = Inr (n, a) \<Longrightarrow> own_skill actor a"
  "fst (preview_openapi_import S K es h actor d) = Inr (n, a) \<Longrightarrow> own_skill actor a"
  "fst (preview_mcp_import S K es h actor d) = Inr (n, a) \<Longrightarrow> own_skill actor a"
  by (auto simp: create_http_skill_call_def update_http_skill_call_def create_openapi_imported_skill_def
      create_mcp_imported_skill_def switch_skill_def preview_openapi_import_def preview_mcp_import_def
      create_http_skill_def update_http_skill_def create_mcp_skill_def set_skill_enabled_def redact_skill_def Let_def
      dest!: unless_refused_Inr unless_store_err_Inr on_store_result skill_from_input_owner
      split: option.splits sum.splits if_splits prod.splits)

lemma skill_own: "fst (skill_subroutes S K es h actor d) = Inr (n, a) \<Longrightarrow> own_skill actor a"
  by (auto simp: skill_subroutes_def Let_def dest: skill_calls_own dest!: unless_refused_Inr
      split: if_splits list.splits)

fun own_answer :: "actor_context \<Rightarrow> store \<Rightarrow> api_answer \<Rightarrow> bool" where
  "own_answer actor s (PublicAnswer a) = own_public actor s a"
| "own_answer actor s (AdminAnswer a) = own_admin actor a"
| "own_answer actor s (SkillAnswer a) = own_skill actor a"
| "own_answer actor s (EventStream rid) = actor_can_read_run actor rid s"

lemma answer_of_dest: "answer_of g x = (Inr (n, a), t) \<Longrightarrow> \<exists>b. fst x = Inr (n, b) \<and> a = g b"
  by (auto simp: answer_of_def split: prod.splits sum.splits)

lemma answer_of_Inr: "fst (answer_of g x) = Inr (n, a) \<Longrightarrow> \<exists>b. fst x = Inr (n, b) \<and> a = g b"
  by (auto simp: answer_of_def split: prod.splits sum.splits)

lemma invitation_own: "fst (invitation_subroutes A es h actor d) = Inr (n, a) \<Longrightarrow> own_admin actor a"
  by (auto simp: invitation_subroutes_def accept_invitation_call_def Let_def
      dest!: unless_store_err_Inr elim!: with_segment_answer split: list.splits if_splits option.splits)

lemma runs_own:
  assumes "fst (serve_runs S es order h actor d) = Inr (n, a)"
  shows "own_answer actor (plane_store d) a"
proof -
  obtain x t where r: "run_subroutes S es order h actor d = (x, t)" by (metis surj_pair)
  show ?thesis
  proof (cases x)
    case None
    with r assms stream_own [of S es order h actor d] show ?thesis by (auto simp: serve_runs_def)
  next
    case (Some y)
    with r assms have "fst (answer_of PublicAnswer (y, t)) = Inr (n, a)" by (simp add: serve_runs_def)
    from answer_of_Inr [OF this] Some r run_own [of S es order h actor d n] show ?thesis by auto
  qed
qed


section \<open>A run that has ended\<close>

text \<open>Canceling a run that has succeeded leaves it succeeded, but its log then ends with the event
  that it was canceled, and the cancellation is audited as allowed.\<close>

theorem late_cancel_is_announced:
  assumes "actor_can_read_run actor rid (plane_store d)"
    and "s_runs (plane_store d) rid = Some r" "run_status r = RunSucceeded"
    and "pdc_allowed (authorize (srv_action_policy S) actor ''run.cancel'' require_write)"
  shows "\<exists>t evs ev. cancel_run S es h actor rid d = (Inr (200, RunShown r), t) \<and>
    s_runs (plane_store t) = s_runs (plane_store d) \<and>
    run_log (plane_store t) rid = evs @ [ev] \<and> evt_type ev = EventRunCanceled"
proof -
  have role: "require_role S (es 0) h actor require_write ''run.cancel'' ''run'' rid rid d = (None, d)"
    using assms(4) by (cases d; cases "fst d")
      (simp add: require_role_def require_action_def on_store_def with_right_def plane_store_def)
  obtain x d2 where u: "rep_update_run_status (plane_repository S) (es 0) rid RunCanceled '''' d = (x, d2)"
    by (metis surj_pair)
  have "update_run_status (es 0) rid RunCanceled '''' (plane_store d) = (Inr r, plane_store d)"
    using assms(2,3) by (simp add: update_run_status_def is_terminal_run_status_def)
  then have x: "x = Inr r" and d2: "plane_store d2 = plane_store d"
    using plane.update_sim [OF u] by (simp_all add: store_repository_def)
  obtain evs ev where ev: "run_log (snd (add_event (es 1) rid EventRunCanceled ''Run canceled by user.'' VNil
      (plane_store d))) rid = evs @ [ev]" "evt_type ev = EventRunCanceled"
    using run_event_logged [OF assms(2)] by blast
  have runs: "s_runs (snd (add_event e rid ty m v s)) = s_runs s" for e ty m v s
    by (auto simp: add_event_def add_event_locked_def send_event_def Let_def split: option.split)
  show ?thesis
    using assms(1) role u x d2 ev runs [of "es 1" EventRunCanceled _ VNil "plane_store d"]
    by (auto simp: cancel_run_def unless_refused_def unless_store_err_def Let_def write_audit_store run_log_def)
qed

definition ended_store :: store where
  "ended_store = demo_store\<lparr>s_runs := (s_runs demo_store)(''run_1'' \<mapsto> demo_run\<lparr>run_status := RunSucceeded\<rparr>)\<rparr>"

lemma demo_chat_read: "actor_can_read_chat_id demo_actor ''chat_1'' ended_store"
  using demo_reads by (simp add: read_chat_id ended_store_def)

theorem late_cancel_is_announced_witness:
  "\<exists>(t :: (unit, unit) plane) evs ev. cancel_run (sample_server None) next_env demo_stream_call demo_actor ''run_1''
       ((ended_store, ()), ()) = (Inr (200, RunShown (demo_run\<lparr>run_status := RunSucceeded\<rparr>)), t) \<and>
     s_runs (plane_store t) = s_runs ended_store \<and>
     run_log (plane_store t) ''run_1'' = evs @ [ev] \<and> evt_type ev = EventRunCanceled"
proof -
  have "actor_can_read_run demo_actor ''run_1'' ended_store"
    using demo_chat_read by (simp add: read_run owns_run_def ended_store_def demo_run_def demo_actor_def)
  then show ?thesis
    using late_cancel_is_announced [of demo_actor "''run_1''" "((ended_store, ()), ())" _ "sample_server None"
        next_env demo_stream_call] demo_may_write
    by (simp add: plane_store_def ended_store_def)
qed

section \<open>Concrete requests\<close>

definition plain_call :: "string \<Rightarrow> string \<Rightarrow> api_call" where
  "plain_call meth path = demo_stream_call\<lparr>htr_api := (htr_api demo_stream_call)\<lparr>arq_path := path\<rparr>, htr_method := meth\<rparr>"

lemma plain_call_simps [simp]:
  "arq_path (htr_api (plain_call meth path)) = path" "htr_method (plain_call meth path) = meth"
  by (simp_all add: plain_call_def)

definition plain_world :: "(unit, unit, unit) api_world" where
  "plain_world =
     \<lparr>apw_public = \<lparr>pbj_title = id, pbj_content = Some, pbj_not_exist = (\<lambda>t. False)\<rparr>,
      apw_admin = \<lparr>adm_accept = Some, adm_invitation = (\<lambda>b. None), adm_email_event = (\<lambda>b. None),
        adm_member = (\<lambda>b. None), adm_quota = (\<lambda>b. None), adm_runtime_policy = Some, adm_parse_time = (\<lambda>b. None)\<rparr>,
      apw_skills = \<lparr>skb_manifest = \<lparr>lib_parse_url = (\<lambda>_. None), lib_schema_error = (\<lambda>_. None), lib_compact = Some,
          lib_config_json = (\<lambda>_. '''')\<rparr>,
        skb_openapi = \<lparr>olb_decode = Inl, olb_yaml = Inl, olb_value = Inl, olb_encode = (\<lambda>v. Inl ''''), olb_quote = id\<rparr>,
        skb_mcp = \<lparr>mlb_document = Inl, mlb_json = (\<lambda>m. Inl ''''), mlb_config_json = (\<lambda>c. ''''), mlb_quote = id\<rparr>,
        skb_http_skill = (\<lambda>b. None), skb_openapi_preview = (\<lambda>b. None), skb_mcp_preview = Some,
        skb_openapi_create = (\<lambda>b. None), skb_mcp_create = (\<lambda>b. None)\<rparr>,
      apw_mailer = None, apw_dispatch = (\<lambda>r content d. (None, d)),
      apw_disk = \<lparr>dsk_view = (\<lambda>f. \<lparr>fsy_getenv = (\<lambda>n. ''''), fsy_abs = Inr, fsy_eval_symlinks = Inr\<rparr>),
        dsk_lstat = (\<lambda>p f. StatMissing ''''), dsk_remove = (\<lambda>p f. (None, f)), dsk_open = (\<lambda>p f. Inl ''''),
        dsk_mime_type = (\<lambda>x. '''')\<rparr>\<rparr>"

abbreviation plain_plane :: "(unit, unit) plane" where "plain_plane \<equiv> ((demo_store, ()), ())"


lemma demo_events_served:
  "serve_api (sample_server None) plain_world next_env (\<lambda>i. []) (plain_call ''GET'' ''/api/runs/run_1/events'')
     demo_actor () plain_plane = Some (Inr (200, EventStream ''run_1''), plain_plane)"
proof -
  have "actor_can_read_run demo_actor ''run_1'' demo_store"
    using demo_reads demo_store_run by (simp add: read_run owns_run_def demo_run_def demo_actor_def)
  then show ?thesis
    by (simp add: serve_api_def serve_runs_def run_subroutes_def split_path_def trim_prefix_def has_prefix_def
        slash_def plane_store_def)
qed



end
