(* ===== verification/Tenant_Properties.thy ===== *)
theory Tenant_Properties
  imports Public_Properties
begin

text \<open>
  Whose roles the routes below /api/ can change: those of other users, in the actor's own
  organization or project. The acceptance of an invitation is the one way to a role of one's own,
  and an administrator can write that invitation too.
\<close>

section \<open>Requests that keep all roles\<close>

definition roles_kept :: "('c, 'b) plane \<Rightarrow> ('c, 'b) plane \<Rightarrow> bool" where
  "roles_kept d t \<longleftrightarrow>
     s_org_roles (plane_store t) = s_org_roles (plane_store d) \<and>
     s_project_roles (plane_store t) = s_project_roles (plane_store d)"

lemma roles_kept_refl [simp]: "roles_kept d d" by (simp add: roles_kept_def)

lemma audit_roles [simp]:
  "s_org_roles (write_audit_event e rq actor action rtype rid run dec reason meta s) = s_org_roles s"
  "s_project_roles (write_audit_event e rq actor action rtype rid run dec reason meta s) = s_project_roles s"
  by (simp_all add: write_audit_store)

definition op_keeps_roles :: "(store \<Rightarrow> 'a \<times> store) \<Rightarrow> bool" where
  "op_keeps_roles f \<longleftrightarrow>
     (\<forall>s. s_org_roles (snd (f s)) = s_org_roles s \<and> s_project_roles (snd (f s)) = s_project_roles s)"

lemma kept_on_store [simp]: "op_keeps_roles f \<Longrightarrow> roles_kept d (snd (on_store f x)) = roles_kept d x"
  by (simp add: roles_kept_def op_keeps_roles_def)

lemma kept_refused:
  "roles_kept d (snd c) \<Longrightarrow> (\<And>x. roles_kept d x \<Longrightarrow> roles_kept d (snd (k x))) \<Longrightarrow>
     roles_kept d (snd (unless_refused c k))"
  by (cases c) (auto simp: unless_refused_def split: option.split)

lemma kept_store_err:
  "roles_kept d (snd res) \<Longrightarrow> (\<And>y x. roles_kept d x \<Longrightarrow> roles_kept d (snd (k y x))) \<Longrightarrow>
     roles_kept d (snd (unless_store_err res k))"
  by (cases res) (auto simp: unless_store_err_def split: sum.split)

lemma kept_segment:
  "roles_kept d x \<Longrightarrow> (\<And>v. roles_kept d (snd (k v))) \<Longrightarrow> roles_kept d (snd (with_segment raw text k x))"
  by (auto simp: with_segment_def split: option.split)

lemma require_keeps [simp]: "op_keeps_roles (require_action e policy rq actor action rtype rid run fb)"
  by (auto simp: op_keeps_roles_def require_action_def Let_def)

lemma kept_require [simp]:
  "roles_kept d (snd (require_role S e h actor fb action rtype rid run x)) = roles_kept d x"
  by (simp add: require_role_def)

lemma kept_audit [simp]:
  "roles_kept d (plane_audit e rq actor action rtype rid run dec reason meta x) = roles_kept d x"
  by (simp add: roles_kept_def)

lemma kept_hidden [simp]: "roles_kept d (snd (deny_hidden e h actor action rtype rid run reason x)) = roles_kept d x"
  by (simp add: deny_hidden_def)

lemma ops_keep_roles [simp]:
  "op_keeps_roles (create_chat e user project title)"
  "op_keeps_roles (set_chat_archived e cid user archived)"
  "op_keeps_roles (add_user_message e cid user content)"
  "op_keeps_roles (read_authorized_artifact es rq actor aid)"
  "op_keeps_roles (update_run_status e rid st err)"
  "op_keeps_roles (add_event e rid typ text v)"
  "op_keeps_roles (create_http_skill lib e user project input)"
  "op_keeps_roles (update_http_skill lib e user sid input)"
  "op_keeps_roles (create_mcp_skill e user project built)"
  "op_keeps_roles (set_skill_enabled user sid enabled)"
  "op_keeps_roles (create_invitation e org user ivi)"
  "op_keeps_roles (requeue_invitation_email e io ord org iid n)"
  "op_keeps_roles (record_invitation_email_event e io emi)"
  "op_keeps_roles (delete_email_suppression ord org sid)"
  "op_keeps_roles (set_project_quota_policy e project qpi)"
  "op_keeps_roles (set_project_runtime_policy e project pol)"
  unfolding op_keeps_roles_def
  by (auto simp: create_chat_def set_chat_archived_def add_user_message_def read_authorized_artifact_def
      update_run_status_def add_event_def add_event_locked_def send_event_def create_http_skill_def
      update_http_skill_def create_mcp_skill_def set_skill_enabled_def install_skill_def create_invitation_def
      requeue_invitation_email_def record_invitation_email_event_def delete_email_suppression_def
      set_project_quota_policy_def set_project_runtime_policy_def Let_def
      split: option.split sum.split prod.split)

lemma kept_update [simp]:
  "roles_kept d (snd (rep_update_run_status (plane_repository S) e rid st text x)) = roles_kept d x"
  using ops_keep_roles(5) by (simp add: roles_kept_def op_keeps_roles_def)

lemma kept_event [simp]:
  "roles_kept d (snd (rep_add_event (plane_repository S) e rid typ text v x)) = roles_kept d x"
  using ops_keep_roles(6) by (simp add: roles_kept_def op_keeps_roles_def)

section \<open>The routes that keep them\<close>

lemma roles_kept_trans: "roles_kept d x \<Longrightarrow> roles_kept x t \<Longrightarrow> roles_kept d t"
  by (simp add: roles_kept_def)

lemma same_store_kept: "plane_store t = plane_store x \<Longrightarrow> roles_kept d x \<Longrightarrow> roles_kept d t"
  by (simp add: roles_kept_def)

lemma undo_kept [simp]: "roles_kept d (undo_reservation S rsv x) = roles_kept d x"
  by (simp add: roles_kept_def undo_reservation_def on_counters_def plane_store_def split: option.split prod.split)

lemma fail_new_run_kept [simp]: "roles_kept d (fail_new_run S es rid text err x) = roles_kept d x"
  by (simp add: fail_new_run_def)

definition dispatch_keeps_roles :: "('c, 'b) dispatcher \<Rightarrow> bool" where
  "dispatch_keeps_roles dispatch \<longleftrightarrow> (\<forall>r content x. roles_kept x (snd (dispatch r content x)))"

lemma dispatch_kept:
  assumes "dispatch_keeps_roles dispatch" "roles_kept d x"
  shows "roles_kept d (snd (dispatch_message S dispatch es rq actor cid content rsv msg r x))"
proof -
  let ?x2 = "plane_audit (es 1) rq actor ''run.create'' ''run'' (run_id r) (run_id r) AuditDecisionAllow ''''
      [(''chat_id'', VStr cid), (''message_id'', VStr (msg_id msg))]
      (snd (rep_add_event (plane_repository S) (es 0) (run_id r) EventRunQueued
         ''Run queued by control plane.'' (VMap [(''message_id'', VStr (msg_id msg))]) x))"
  obtain e t where t: "dispatch r content ?x2 = (e, t)" by (metis surj_pair)
  have "roles_kept d ?x2" using assms(2) by simp
  moreover have "roles_kept ?x2 t" using assms(1) t unfolding dispatch_keeps_roles_def by (metis snd_conv)
  ultimately have "roles_kept d t" by (rule roles_kept_trans)
  then show ?thesis using t by (simp add: dispatch_message_def Let_def split: option.split)
qed

lemma queue_kept:
  assumes "dispatch_keeps_roles dispatch" "roles_kept d x"
  shows "roles_kept d (snd (queue_message S dispatch es rq actor cid content rsv x))"
proof -
  obtain res x1 where a: "on_store (add_user_message (es 0) cid (act_user_id actor) content) x = (res, x1)"
    by (metis surj_pair)
  have x1: "roles_kept d x1"
    using kept_on_store [OF ops_keep_roles(3), of d "es 0" cid "act_user_id actor" content x] assms(2) a by simp
  show ?thesis
  proof (cases res)
    case (Inr mr)
    obtain msg r where mr: "mr = (msg, r)" by (metis surj_pair)
    obtain err rsv1 x2 where c: "commit_reservation S rsv (run_id r) x1 = ((err, rsv1), x2)" by (metis surj_pair)
    have x2: "roles_kept d x2" using same_store_kept [OF commit_store [OF c] x1] .
    then show ?thesis using a Inr mr c dispatch_kept [OF assms(1) x2]
      by (cases err) (simp_all add: queue_message_def)
  qed (use a x1 in \<open>simp add: queue_message_def\<close>)
qed

lemma message_kept:
  assumes "dispatch_keeps_roles dispatch"
  shows "roles_kept d (snd (create_message S dispatch es os rq actor cid body d))"
proof (cases body)
  case (Some raw)
  obtain ans d1 where a: "on_store (require_action (es 0) (srv_action_policy S) rq actor ''message.create''
      ''chat'' cid '''' require_write) d = (ans, d1)" by (metis surj_pair)
  have d1: "roles_kept d d1" using kept_on_store [OF require_keeps] a by (metis roles_kept_refl snd_conv)
  obtain res d2 where q: "reserve_run_quota S (\<lambda>i. es (i + 1)) os actor (trim_space raw) d1 = (res, d2)"
    by (metis surj_pair)
  have d2: "roles_kept d d2" using same_store_kept [OF reserve_store [OF q] d1] .
  have queued: "roles_kept d (snd (queue_message S dispatch (\<lambda>i. es (i + 7)) rq actor cid (trim_space raw) rsv d2))" for rsv
    by (rule queue_kept [OF assms d2])
  show ?thesis
  proof (cases ans)
    case None
    then show ?thesis using Some a q d2 queued
      by (auto simp: create_message_def Let_def split: sum.split outcome.split)
  qed (use Some a d1 in \<open>simp add: create_message_def Let_def\<close>)
qed (simp add: create_message_def)

lemma chats_kept: "roles_kept d (snd (serve_chats S P es order h actor d))"
  by (auto simp: serve_chats_def intro!: kept_refused kept_store_err)

lemma chat_kept:
  assumes "dispatch_keeps_roles dispatch"
  shows "roles_kept d (snd (chat_subroutes S P dispatch es os h actor d))"
proof -
  have "roles_kept d (snd (archive_chat S es h actor cid action reason archived d))" for cid action reason archived
    by (auto simp: archive_chat_def intro!: kept_refused kept_store_err)
  then show ?thesis
    by (simp add: chat_subroutes_def show_chat_def message_kept [OF assms] Let_def split: list.split sum.split)
qed

lemma run_kept: "roles_kept d (snd (run_subroutes S es order h actor d))"
proof -
  have "roles_kept d (snd (cancel_run S es h actor rid d))" for rid
    by (auto simp: cancel_run_def Let_def intro!: kept_refused kept_store_err)
  then show ?thesis by (simp add: run_subroutes_def Let_def case_prod_unfold split: list.split sum.split)
qed

lemma only_audited_kept: "only_audited d t \<Longrightarrow> roles_kept d t"
  by (auto simp: only_audited_def roles_kept_def plane_store_def)

lemma skill_kept: "roles_kept d (snd (skill_subroutes S K es h actor d))"
proof -
  have "roles_kept d (snd (create_http_skill_call S K es h actor d))"
    "roles_kept d (snd (preview_openapi_import S K es h actor d))"
    "roles_kept d (snd (preview_mcp_import S K es h actor d))"
    "roles_kept d (snd (create_openapi_imported_skill S K es h actor d))"
    by (auto simp: create_http_skill_call_def preview_openapi_import_def preview_mcp_import_def
        create_openapi_imported_skill_def intro!: kept_refused kept_store_err
        split: option.split sum.split prod.split)
  moreover have "roles_kept d (snd (create_mcp_imported_skill S K es h actor d))"
    unfolding create_mcp_imported_skill_def
  proof (rule kept_refused, goal_cases)
    case (2 x)
    have "roles_kept d t" if "on_store (create_mcp_skill (es 0) (act_user_id actor) (act_project_id actor) built) x = (r, t)"
      for built r t using 2 kept_on_store [OF ops_keep_roles(9)] that by (metis snd_conv)
    with 2 show ?case by (auto split: option.split prod.split sum.split)
  qed simp
  moreover have "roles_kept d (snd (update_http_skill_call S K es h actor sid d))"
    "roles_kept d (snd (switch_skill S es h actor action sid enabled d))"
    "roles_kept d (snd (if_writer S (es 0) h actor ''skill.approve'' sid d (\<lambda>d1. (Inr (202 :: int, SkillApproved sid), d1))))"
    for sid action enabled
    by (auto simp: update_http_skill_call_def switch_skill_def intro!: kept_refused kept_store_err split: option.split)
  ultimately show ?thesis by (simp add: skill_subroutes_def Let_def split: list.split)
qed

section \<open>The routes that change them\<close>

definition mailer_keeps_roles :: "('c, 'b) inviter option \<Rightarrow> bool" where
  "mailer_keeps_roles mailer \<longleftrightarrow>
     (case mailer of None \<Rightarrow> True | Some send \<Rightarrow> (\<forall>i x. roles_kept x (snd (send i x))))"

text \<open>Nothing changes outside the actor's organization and project, nor for the actor itself. The
  keys of the role maps join user and tenant with a NUL byte, which no tenant may contain.\<close>

definition roles_within :: "actor_context \<Rightarrow> ('c, 'b) plane \<Rightarrow> ('c, 'b) plane \<Rightarrow> bool" where
  "roles_within actor d t \<longleftrightarrow>
     (\<forall>u org. nul \<notin> set org \<longrightarrow> org \<noteq> act_org_id actor \<or> u = act_user_id actor \<longrightarrow>
        list_organization_roles u org (plane_store t) = list_organization_roles u org (plane_store d)) \<and>
     (\<forall>u p. nul \<notin> set p \<longrightarrow> p \<noteq> act_project_id actor \<or> u = act_user_id actor \<longrightarrow>
        list_project_roles u p (plane_store t) = list_project_roles u p (plane_store d))"

lemma kept_within: "roles_kept d t \<Longrightarrow> roles_within actor d t"
  by (simp add: roles_kept_def roles_within_def list_organization_roles_def list_project_roles_def)

lemma joined_key:
  assumes "nul \<notin> set a" "nul \<notin> set b"
  shows "u @ nul # a = v @ nul # b \<longleftrightarrow> u = v \<and> a = b"
proof
  assume eq: "u @ nul # a = v @ nul # b"
  have tail: "takeWhile (\<lambda>c. c \<noteq> nul) (rev (w @ nul # x)) = rev x" if "nul \<notin> set x" for w x
    using that by (subst rev_append, simp) (subst takeWhile_append2, auto)
  have "rev a = rev b" using tail [OF assms(1), of u] tail [OF assms(2), of v] eq by simp
  with eq show "u = v \<and> a = b" by simp
qed simp

lemma within_refused:
  "(\<And>x. roles_kept d x \<Longrightarrow> roles_within actor d (snd (k x))) \<Longrightarrow>
     roles_within actor d (snd (unless_refused (require_role S e h actor fb action rtype rid run d) k))"
proof -
  assume k: "\<And>x. roles_kept d x \<Longrightarrow> roles_within actor d (snd (k x))"
  obtain r x where r: "require_role S e h actor fb action rtype rid run d = (r, x)" by (metis surj_pair)
  then have "roles_kept d x" using kept_require [of d S e h actor fb action rtype rid run d] by simp
  with k [of x] kept_within [of d x actor] r show ?thesis
    by (cases r) (simp_all add: unless_refused_def)
qed

lemma within_audit [simp]:
  "roles_within actor d (plane_audit e rq act action rtype rid run dec reason meta x) = roles_within actor d x"
  by (simp add: roles_within_def list_organization_roles_def list_project_roles_def)

lemma within_store_err:
  "roles_within actor d (snd (on_store f x)) \<Longrightarrow>
     (\<And>y t. roles_within actor d t \<Longrightarrow> roles_within actor d (snd (k y t))) \<Longrightarrow>
     roles_within actor d (snd (unless_store_err (on_store f x) k))"
  by (auto simp: unless_store_err_def split: prod.split sum.split)

lemma org_members_within:
  assumes "nul \<notin> set (act_org_id actor)" "roles_kept d x"
  shows "trim_space (min_user_id input) \<noteq> act_user_id actor \<Longrightarrow>
      roles_within actor d (snd (on_store (upsert_organization_member e (act_org_id actor) input) x))"
    and "user \<noteq> act_user_id actor \<Longrightarrow>
      roles_within actor d (snd (on_store (remove_organization_member e (act_org_id actor) user) x))"
  using assms
  by (auto simp: roles_within_def roles_kept_def upsert_organization_member_def remove_organization_member_def
      list_organization_roles_def list_project_roles_def org_role_key_def map_get_def joined_key Let_def
      split: list.split)

lemma project_members_within:
  assumes "nul \<notin> set (act_project_id actor)" "roles_kept d x"
  shows "trim_space (min_user_id input) \<noteq> act_user_id actor \<Longrightarrow>
      roles_within actor d (snd (on_store (upsert_project_member e (act_project_id actor) input) x))"
    and "user \<noteq> act_user_id actor \<Longrightarrow>
      roles_within actor d (snd (on_store (remove_project_member e (act_project_id actor) user) x))"
  using assms
  by (auto simp: roles_within_def roles_kept_def upsert_project_member_def remove_project_member_def
      list_organization_roles_def list_project_roles_def project_role_key_def map_get_def joined_key Let_def
      split: list.split)

lemma requested_user: "trim_space (min_user_id (requested_member u raw)) = min_user_id (requested_member u raw)"
  by (simp add: requested_member_def Let_def)

lemma upsert_org_within:
  assumes "nul \<notin> set (act_org_id actor)"
  shows "roles_within actor d (snd (upsert_organization_member_call S A es h actor (act_org_id actor) u d))"
  unfolding upsert_organization_member_call_def
proof (rule within_refused, goal_cases)
  case (1 x)
  note own = kept_within [OF 1, of actor] org_members_within(1) [OF assms 1]
  show ?case using own
    by (cases "adm_member A (htr_body h)") (simp_all add: Let_def requested_user within_store_err)
qed

lemma remove_org_within:
  assumes "nul \<notin> set (act_org_id actor)"
  shows "roles_within actor d (snd (remove_organization_member_call S es h actor (act_org_id actor) u d))"
  unfolding remove_organization_member_call_def
proof (rule within_refused, goal_cases)
  case (1 x)
  show ?case using kept_within [OF 1, of actor] org_members_within(2) [OF assms 1, of u]
    by (simp add: within_store_err)
qed

lemma upsert_project_within:
  assumes "nul \<notin> set (act_project_id actor)"
  shows "roles_within actor d (snd (upsert_project_member_call S A es h actor (act_project_id actor) u d))"
  unfolding upsert_project_member_call_def
proof (rule within_refused, goal_cases)
  case (1 x)
  note own = kept_within [OF 1, of actor] project_members_within(1) [OF assms 1]
  show ?case using own
    by (cases "adm_member A (htr_body h)") (simp_all add: Let_def requested_user within_store_err)
qed

lemma remove_project_within:
  assumes "nul \<notin> set (act_project_id actor)"
  shows "roles_within actor d (snd (remove_project_member_call S es h actor (act_project_id actor) u d))"
  unfolding remove_project_member_call_def
proof (rule within_refused, goal_cases)
  case (1 x)
  show ?case using kept_within [OF 1, of actor] project_members_within(2) [OF assms 1, of u]
    by (simp add: within_store_err)
qed

lemma send_kept:
  assumes "mailer_keeps_roles mailer" "mailer = Some send" "roles_kept d x" "send i x = (r, t)"
  shows "roles_kept d t"
proof -
  have "\<forall>i x. roles_kept x (snd (send i x))" using assms(1,2) by (simp add: mailer_keeps_roles_def)
  then have "roles_kept x (snd (send i x))" by blast
  with assms(4) have "roles_kept x t" by simp
  with assms(3) show ?thesis by (rule roles_kept_trans)
qed

lemma invitation_calls_kept:
  assumes "mailer_keeps_roles mailer"
  shows "roles_kept d (snd (create_invitation_call S A mailer es h actor org d))"
    and "roles_kept d (snd (resend_invitation_email S mailer es os h actor org iid d))"
    and "roles_kept d (snd (list_invitation_email_events_call S es os h actor org d))"
    and "roles_kept d (snd (record_invitation_email_event_call S A es os h actor org d))"
    and "roles_kept d (snd (list_invitation_email_suppressions_call S es os h actor org d))"
    and "roles_kept d (snd (delete_invitation_email_suppression_call S es os h actor org sid d))"
proof -
  have mailed: "roles_kept d (mail_new_invitation mailer es' h actor i x)" if "roles_kept d x" for es' i x
    using send_kept [OF assms _ that] that by (auto simp: mail_new_invitation_def split: option.split prod.split)
  show "roles_kept d (snd (create_invitation_call S A mailer es h actor org d))"
    by (auto simp: create_invitation_call_def intro!: kept_refused kept_store_err mailed split: option.split)
  have "roles_kept d (snd (send_requeued send es' h actor org iid dl x))" if "mailer = Some send" "roles_kept d x"
    for send es' dl x
    using send_kept [OF assms that] by (auto simp: send_requeued_def Let_def split: prod.split option.split)
  then show "roles_kept d (snd (resend_invitation_email S mailer es os h actor org iid d))"
    by (auto simp: resend_invitation_email_def intro!: kept_refused kept_store_err split: option.split)
qed (auto simp: list_invitation_email_events_call_def record_invitation_email_event_call_def Let_def
    list_invitation_email_suppressions_call_def delete_invitation_email_suppression_call_def
    intro!: kept_refused kept_store_err split: option.split)

lemma within_segment:
  "roles_within actor d d \<Longrightarrow> (\<And>v. roles_within actor d (snd (k v))) \<Longrightarrow>
     roles_within actor d (snd (with_segment raw problem k d))"
  by (auto simp: with_segment_def split: option.split)

lemma organization_within:
  assumes "mailer_keeps_roles mailer" "nul \<notin> set (act_org_id actor)"
  shows "roles_within actor d (snd (organization_subroutes S A mailer es os h actor d))"
proof -
  note calls = upsert_org_within [OF assms(2)] remove_org_within [OF assms(2)]
    invitation_calls_kept [OF assms(1), THEN kept_within]
  have same: "roles_within actor d d" by (rule kept_within) simp
  have listed: "roles_within actor d (snd (unless_refused (require_role S (es 0) h actor require_organization_admin
      ''invitation.list'' ''organization'' org '''' d)
      (\<lambda>d1. (Inr (200 :: int, InvitationsShown (list_invitations (es 0) (os 0) org (plane_store d1))), d1))))" for org
    by (rule within_refused) (simp add: kept_within)
  have "roles_within actor d (snd (organization_route S A mailer es os h actor (act_org_id actor) rest d))" for rest
    using same by (simp add: organization_route_def Let_def calls within_segment listed split: list.split)
  moreover have "roles_within actor d (snd (deny_hidden e h actor action rtype rid run reason d :: admin_answered \<times> ('a, 'b) plane))"
    for e action rtype rid run reason by (rule kept_within) simp
  ultimately show ?thesis using same by (simp add: organization_subroutes_def within_segment split: list.split)
qed

lemma project_within:
  assumes "nul \<notin> set (act_project_id actor)"
  shows "roles_within actor d (snd (project_subroutes S A es os h actor d))"
proof -
  note members = upsert_project_within [OF assms] remove_project_within [OF assms]
  have policies: "roles_kept d (snd (update_project_quota_policy S A es h actor project d))"
    "roles_kept d (snd (update_project_runtime_policy S A es h actor project d))"
    "roles_kept d (snd (project_usage S A es os h actor project d))" for project
    by (auto simp: update_project_quota_policy_def update_project_runtime_policy_def project_usage_def Let_def
        intro!: kept_refused kept_store_err split: option.split)
  have same: "roles_within actor d d" by (rule kept_within) simp
  have "roles_within actor d (snd (project_route S A es os h actor (act_project_id actor) rest d))" for rest
    using same by (simp add: project_route_def Let_def members policies [THEN kept_within] within_segment split: list.split)
  moreover have "roles_within actor d (snd (deny_hidden e h actor action rtype rid run reason d :: admin_answered \<times> ('a, 'b) plane))"
    for e action rtype rid run reason by (rule kept_within) simp
  ultimately show ?thesis using same by (simp add: project_subroutes_def within_segment split: list.split)
qed

text \<open>C20. A request other than the acceptance of an invitation changes roles only in the organization and
  the project of the actor, and never the actor's own, whatever the action policy; the dispatcher
  and the invitation mailer are assumed to leave the roles alone, as the ones the server is
  started with do.\<close>

theorem roles_change_within_tenant:
  assumes "serve_api S W es os h actor f d = Some (a, t)"
    and "\<not> has_prefix (arq_path (htr_api h)) ''/api/invitations/''"
    and "dispatch_keeps_roles (apw_dispatch W)" "mailer_keeps_roles (apw_mailer W)"
    and "nul \<notin> set (act_org_id actor)" "nul \<notin> set (act_project_id actor)"
  shows "roles_within actor d t"
proof -
  note kept = chats_kept chat_kept [OF assms(3)] run_kept skill_kept only_audited_kept [OF artifact_reader [of "(d, f)", simplified]]
  note within = kept [THEN kept_within] organization_within [OF assms(4,5)] project_within [OF assms(6)]
  have same: "roles_within actor d d" by (rule kept_within) simp
  have "roles_within actor d (snd x)" if "serve_api S W es os h actor f d = Some x" for x
    using that assms(2) same
    by (auto simp: serve_api_def Let_def only_get_def serve_runs_state within split: if_splits)
  from this [OF assms(1)] show ?thesis by simp
qed

theorem roles_change_within_tenant_witness:
  "\<exists>a t. serve_api (sample_server None) plain_world next_env (\<lambda>i. []) (plain_call ''DELETE'' ''/api/organizations/o/members/v'')
     sample_claim () plain_plane = Some (a, t) \<and> roles_within sample_claim plain_plane t"
proof -
  obtain a t where s: "serve_api (sample_server None) plain_world next_env (\<lambda>i. [])
      (plain_call ''DELETE'' ''/api/organizations/o/members/v'') sample_claim () plain_plane = Some (a, t)"
    unfolding serve_api_def by (simp add: has_prefix_def) (metis surj_pair)
  have "nul \<notin> set (act_org_id sample_claim)" "nul \<notin> set (act_project_id sample_claim)"
    by (simp_all add: nul_def char_of_def)
  moreover have "dispatch_keeps_roles (apw_dispatch plain_world)" "mailer_keeps_roles (apw_mailer plain_world)"
    by (simp_all add: dispatch_keeps_roles_def mailer_keeps_roles_def plain_world_def)
  ultimately have "roles_within sample_claim plain_plane t"
    by (intro roles_change_within_tenant [OF s]) (simp_all add: has_prefix_def)
  with s show ?thesis by blast
qed

section \<open>One's own role\<close>

lemma created_invitation:
  "create_invitation e org user input s = (Inr i, s') \<Longrightarrow>
     s_invitations s' (inv_token i) = Some i \<and> inv_status i = InvitationPending \<and>
     inv_organization_id i = org \<and> inv_email i \<noteq> ''''"
  by (auto simp: create_invitation_def Let_def split: if_splits)

text \<open>The handlers refuse to change the actor's own membership, but an organization administrator who
  invites its own e-mail address and accepts gets the role of the invitation.\<close>

theorem administrator_changes_own_role:
  assumes "create_invitation_call S A None es h actor org d = (Inr (n, InvitationShown i), t)"
    and "inv_email i = to_lower (trim_space (act_email actor))" "inv_project_id i = ''''"
    and "trim_space (act_user_id actor) = act_user_id actor" "act_user_id actor \<noteq> ''''"
    and "trim_space (inv_token i) = inv_token i" "inv_token i \<noteq> ''''"
    and "adm_accept A (htr_body h') = Some name" "after (inv_expires_at i) (e_now (es' 0))"
  shows "\<exists>j t'. accept_invitation_call A es' h' actor (inv_token i) t = (Inr (200, InvitationShown j), t') \<and>
    list_organization_roles (act_user_id actor) org (plane_store t') = [inv_role i]"
proof -
  let ?email = "to_lower (trim_space (act_email actor))"
  obtain r x where r: "require_role S (es 0) h actor require_organization_admin ''invitation.create''
      ''organization'' org '''' d = (r, x)" by (metis surj_pair)
  obtain input where i: "r = None" "adm_invitation A (htr_body h) = Some input"
    using assms(1) r by (auto simp: create_invitation_call_def unless_refused_def split: option.splits)
  obtain res y where c: "on_store (create_invitation (es 0) org (act_user_id actor) input) x = (res, y)"
    by (metis surj_pair)
  have res: "res = Inr i" and t: "plane_store t = plane_store (plane_audit (es 1) (htr_api h) actor ''invitation.create''
      ''invitation'' (inv_id i) '''' AuditDecisionAllow '''' (invitation_meta i @ [(''role'', VStr (inv_role i))]) y)"
    using assms(1) r i c
    by (auto simp: create_invitation_call_def unless_refused_def unless_store_err_def mail_new_invitation_def
        split: sum.splits)
  have made: "create_invitation (es 0) org (act_user_id actor) input (plane_store x) = (Inr i, plane_store y)"
    using on_store_parts [OF c] res by simp
  then have y: "s_invitations (plane_store y) (inv_token i) = Some i" "inv_status i = InvitationPending"
      "inv_organization_id i = org" "?email \<noteq> ''''"
    using created_invitation [OF made] assms(2) by simp_all
  have pending: "s_invitations (plane_store t) (inv_token i) = Some i"
    using y(1) t by (simp add: write_audit_store)
  define s' where "s' = snd (accept_invitation (es' 0) (inv_token i) (act_user_id actor) ?email
      (first_non_empty [trim_space name, act_name actor]) (plane_store t))"
  have idem: "to_lower (trim_space ?email) = ?email"
    by simp
  have "\<exists>j. accept_invitation (es' 0) (inv_token i) (act_user_id actor) ?email
      (first_non_empty [trim_space name, act_name actor]) (plane_store t) = (Inr j, s')"
    using pending y assms(2,4-7,9) idem by (simp add: accept_invitation_def s'_def Let_def)
  then obtain j where acc: "accept_invitation (es' 0) (inv_token i) (act_user_id actor) ?email
      (first_non_empty [trim_space name, act_name actor]) (plane_store t) = (Inr j, s')" by blast
  have role: "list_organization_roles (act_user_id actor) org s' = [inv_role i]"
    using acc pending y assms(2-7,9) idem
    by (auto simp: accept_invitation_def grant_invited_role_def list_organization_roles_def map_get_def Let_def
        split: if_splits)
  obtain z where z: "on_store (accept_invitation (es' 0) (inv_token i) (act_user_id actor) ?email
      (first_non_empty [trim_space name, act_name actor])) t = (Inr j, z)" "plane_store z = s'"
    using acc on_store_fst [of "accept_invitation (es' 0) (inv_token i) (act_user_id actor) ?email
      (first_non_empty [trim_space name, act_name actor])" t] on_store_parts by (metis prod.collapse prod.inject)
  show ?thesis
    using z role y(4) assms(8)
    by (simp add: accept_invitation_call_def unless_store_err_def write_audit_store list_organization_roles_def)
qed

definition self_inviter :: actor_context where "self_inviter = demo_actor\<lparr>act_email := ''a@b''\<rparr>"

definition self_lib :: admin_lib where
  "self_lib = (apw_admin plain_world)
     \<lparr>adm_invitation := (\<lambda>b. Some \<lparr>ivi_email = ''a@b'', ivi_role = ''owner'', ivi_project_id = '''',
        ivi_expires_in_hours = 0\<rparr>)\<rparr>"

lemma self_words: "to_lower (trim_space ''a@b'') = ''a@b''" "trim_space ''demo-user'' = ''demo-user''"
  "trim_space ''invite_token_2'' = ''invite_token_2''"
  by (simp_all add: trim_graphic graphic_def)
    (subst to_lower_ascii; simp add: bytes_def char_of_def lower_char_def)+

lemma unit_plane_eq: "\<exists>a. (x :: (unit, unit) plane) = ((a, ()), ())"
  by (cases x) auto

lemma self_invitation:
  "\<exists>i t. create_invitation_call (sample_server None) self_lib None next_env (plain_call ''POST'' '''') self_inviter ''o''
     plain_plane = (Inr (201, InvitationShown i), t) \<and> inv_email i = ''a@b'' \<and> inv_project_id i = '''' \<and>
     inv_role i = ''owner'' \<and> inv_token i = ''invite_token_2'' \<and> after (inv_expires_at i) 10"
proof -
  have "require_role (sample_server None) (next_env 0) (plain_call ''POST'' '''') self_inviter
      require_organization_admin ''invitation.create'' ''organization'' ''o'' '''' plain_plane = (None, plain_plane)"
    using sample_owner
    by (simp add: require_role_def require_action_def on_store_def with_right_def authorize_def allowed_decision_def
        self_inviter_def demo_actor_def actor_can_admin_def require_write_def require_project_admin_def
        require_organization_admin_def)
  then show ?thesis
    using sample_owner self_words
    by (simp add: create_invitation_call_def unless_refused_def unless_store_err_def self_lib_def
        create_invitation_def on_store_def with_right_def plane_store_def normalize_member_role_def
        mail_new_invitation_def after_def time_hour_def time_minute_def time_second_def unit_plane_eq Let_def)
qed

theorem administrator_changes_own_role_witness:
  "\<exists>i t j t'. create_invitation_call (sample_server None) self_lib None next_env (plain_call ''POST'' '''')
       self_inviter ''o'' plain_plane = (Inr (201, InvitationShown i), t) \<and>
     accept_invitation_call self_lib next_env (plain_call ''POST'' '''') self_inviter (inv_token i) t =
       (Inr (200, InvitationShown j), t') \<and>
     list_organization_roles ''demo-user'' ''o'' (plane_store t') = [''owner'']"
proof -
  obtain i t where c: "create_invitation_call (sample_server None) self_lib None next_env (plain_call ''POST'' '''')
      self_inviter ''o'' plain_plane = (Inr (201, InvitationShown i), t)" "inv_email i = ''a@b''"
      "inv_project_id i = ''''" "inv_role i = ''owner''" "inv_token i = ''invite_token_2''" "after (inv_expires_at i) 10"
    using self_invitation by blast
  have user: "act_user_id self_inviter = ''demo-user''" "act_email self_inviter = ''a@b''"
    by (simp_all add: self_inviter_def demo_actor_def)
  have "adm_accept self_lib (htr_body (plain_call ''POST'' '''')) = Some (htr_body (plain_call ''POST'' ''''))"
    by (simp add: self_lib_def plain_world_def)
  from administrator_changes_own_role [OF c(1) _ c(3) _ _ _ _ this, of next_env] c user self_words
  show ?thesis by simp
qed


end
