(* ===== verification/Webhook_Events.thy ===== *)
theory Webhook_Events
  imports Invitation_Store Go_Text
begin

text \<open>
  What a mail provider reports about the invitation mails, as the control plane reads it
  (services/control-plane/internal/httpapi/invitation_email_webhook.go): the events of SendGrid, of
  SES, plain or in an SNS envelope, and of Mailgun are brought into the form of
  \<open>InvitationEmailEventInput\<close>. The JSON decoder, the text of numbers and the layouts of times are
  parameters. The reading of a value is a partial function, because an envelope holds another
  document as a text; the theorems say that it returns, what it keeps of an event, and which
  provider wins.
\<close>

section \<open>Values\<close>

text \<open>A \<open>float64\<close>.\<close>

datatype gofloat = Finite rat | NegInf | PosInf | NotANumber

text \<open>\<open>wbj_input\<close> and \<open>wbj_value\<close> are \<open>json.Unmarshal\<close> into the input and into any value,
  \<open>wbj_int64\<close> is the conversion to \<open>int64\<close> and \<open>wbj_nanos\<close> the nanoseconds after a second, as
  \<open>float64\<close> computes them.\<close>

record webhook_json =
  wbj_input :: "string \<Rightarrow> email_event_input option"
  wbj_value :: "string \<Rightarrow> goval option"
  wbj_sprint :: "goval \<Rightarrow> string"
  wbj_float :: "rat \<Rightarrow> string"
  wbj_parse_float :: "string \<Rightarrow> gofloat option"
  wbj_int64 :: "gofloat \<Rightarrow> int"
  wbj_nanos :: "gofloat \<Rightarrow> int \<Rightarrow> int"
  wbj_time :: "string \<Rightarrow> string \<Rightarrow> gtime option"

fun first_non_empty_trimmed :: "string list \<Rightarrow> string" where
  "first_non_empty_trimmed [] = ''''"
| "first_non_empty_trimmed (v # vs) =
     (if trim_space v \<noteq> '''' then trim_space v else first_non_empty_trimmed vs)"

fun value_to_string :: "webhook_json \<Rightarrow> goval \<Rightarrow> string" where
  "value_to_string J VNil = ''''"
| "value_to_string J (VStr s) = trim_space s"
| "value_to_string J (VFloat q) = trim_space (wbj_float J q)"
| "value_to_string J (VInt i) = itoa i"
| "value_to_string J (VBool b) = (if b then ''true'' else ''false'')"
| "value_to_string J v = trim_space (wbj_sprint J v)"

fun value_at :: "string list \<Rightarrow> goval \<Rightarrow> goval" where
  "value_at [] v = v"
| "value_at (p # ps) (VMap kvs) =
     value_at ps (case map_of kvs p of None \<Rightarrow> VNil | Some v \<Rightarrow> v)"
| "value_at (p # ps) v = VNil"

definition value_from_path :: "metadata \<Rightarrow> string \<Rightarrow> goval" where
  "value_from_path payload path = value_at (split_on CHR ''.'' path) (VMap payload)"

definition string_from_path :: "webhook_json \<Rightarrow> metadata \<Rightarrow> string \<Rightarrow> string" where
  "string_from_path J payload path = value_to_string J (value_from_path payload path)"

definition map_from_path :: "metadata \<Rightarrow> string \<Rightarrow> metadata option" where
  "map_from_path payload path =
     (case value_from_path payload path of VMap kvs \<Rightarrow> Some kvs | _ \<Rightarrow> None)"

definition metadata_value :: "webhook_json \<Rightarrow> metadata \<Rightarrow> string \<Rightarrow> string" where
  "metadata_value J payload key =
     first_non_empty (map (string_from_path J payload)
       [key, ''custom_args.'' @ key, ''unique_args.'' @ key, ''metadata.'' @ key,
        ''user-variables.'' @ key, ''user_variables.'' @ key, ''variables.'' @ key, ''v:'' @ key])"

definition ses_tag_value :: "webhook_json \<Rightarrow> metadata \<Rightarrow> string \<Rightarrow> string" where
  "ses_tag_value J payload key =
     (case value_from_path payload (''mail.tags.'' @ key) of
        VList [] \<Rightarrow> ''''
      | VList (v # vs) \<Rightarrow> value_to_string J v
      | v \<Rightarrow> value_to_string J v)"

definition first_recipient_field :: "webhook_json \<Rightarrow> metadata \<Rightarrow> string \<Rightarrow> string \<Rightarrow> string" where
  "first_recipient_field J payload path field =
     (case value_from_path payload path of
        VList (VMap recipient # vs) \<Rightarrow> string_from_path J recipient field
      | _ \<Rightarrow> '''')"

section \<open>Times\<close>

text \<open>The second 0 of \<open>time.Unix\<close>.\<close>

definition unix_epoch :: gtime where "unix_epoch = 62135596800 * time_second"

definition unix_time :: "webhook_json \<Rightarrow> gofloat \<Rightarrow> gtime option" where
  "unix_time J seconds =
     (if (case seconds of Finite q \<Rightarrow> q \<le> 0 | NegInf \<Rightarrow> True | _ \<Rightarrow> False) then None
      else
        (let sec = wbj_int64 J seconds
         in Some (unix_epoch + sec * time_second + wbj_nanos J seconds sec)))"

definition time_from_any :: "webhook_json \<Rightarrow> string \<Rightarrow> gtime option" where
  "time_from_any J raw0 =
     (let raw = trim_space raw0
      in if raw = '''' then None
         else
           (case wbj_time J ''2006-01-02T15:04:05.999999999Z07:00'' raw of
              Some t \<Rightarrow> Some t
            | None \<Rightarrow> wbj_time J ''2006-01-02T15:04:05Z07:00'' raw))"

definition unix_time_from_path :: "webhook_json \<Rightarrow> metadata \<Rightarrow> string \<Rightarrow> gtime option" where
  "unix_time_from_path J payload path =
     (case value_from_path payload path of
        VFloat q \<Rightarrow> unix_time J (Finite q)
      | VStr s \<Rightarrow>
          (case wbj_parse_float J (trim_space s) of
             Some seconds \<Rightarrow> unix_time J seconds
           | None \<Rightarrow> time_from_any J s)
      | _ \<Rightarrow> None)"

section \<open>The events of the providers\<close>

definition map_provider_email_event_type :: "string \<Rightarrow> email_event_type option" where
  "map_provider_email_event_type raw =
     (let t = to_lower (trim_space raw)
      in if t \<in> set [''delivered'', ''delivery'', ''processed''] then Some EmailEventDelivered
         else if t \<in> set [''bounce'', ''bounced'', ''blocked'', ''deferred'', ''failed'', ''failure'',
             ''permanent_fail'', ''reject'', ''rendering failure''] then Some EmailEventBounced
         else if t \<in> set [''complaint'', ''complained'', ''spamreport'', ''spam_report'']
           then Some EmailEventComplaint
         else if t \<in> set [''dropped'', ''drop'', ''suppressed'', ''unsubscribe'', ''group_unsubscribe'',
             ''group-resubscribe''] then Some EmailEventDropped
         else None)"

definition base_email_event_input :: "webhook_json \<Rightarrow> string \<Rightarrow> metadata \<Rightarrow> goval \<Rightarrow> email_event_input" where
  "base_email_event_input J provider payload full =
     \<lparr>emi_invitation_id = trim_space (first_non_empty_trimmed
        [string_from_path J payload ''invitation_id'', metadata_value J payload ''invitation_id'']),
      emi_delivery_id = trim_space (first_non_empty_trimmed
        [string_from_path J payload ''delivery_id'', metadata_value J payload ''delivery_id'']),
      emi_provider = trim_space (first_non_empty_trimmed
        [string_from_path J payload ''provider'', provider]),
      emi_provider_message_id = '''', emi_type = '''',
      emi_reason = trim_space (string_from_path J payload ''reason''),
      emi_payload = [(''provider_payload'', full)], emi_occurred_at = None\<rparr>"

definition normalize_sendgrid_event ::
  "webhook_json \<Rightarrow> metadata \<Rightarrow> goval \<Rightarrow> email_event_input option" where
  "normalize_sendgrid_event J payload full =
     (case map_provider_email_event_type (to_lower (trim_space (string_from_path J payload ''event''))) of
        None \<Rightarrow> None
      | Some t \<Rightarrow>
          (let input = base_email_event_input J ''sendgrid'' payload full
           in Some (input
             \<lparr>emi_type := email_event_type_string t,
              emi_provider_message_id := first_non_empty_trimmed (map (string_from_path J payload)
                [''sg_message_id'', ''smtp-id'', ''message_id'']),
              emi_reason := first_non_empty_trimmed (map (string_from_path J payload)
                [''reason'', ''response'', ''status'']),
              emi_occurred_at := unix_time_from_path J payload ''timestamp'',
              emi_invitation_id := first_non_empty_trimmed
                [emi_invitation_id input, metadata_value J payload ''invitation_id''],
              emi_delivery_id := first_non_empty_trimmed
                [emi_delivery_id input, metadata_value J payload ''delivery_id'']\<rparr>)))"

definition ses_reason :: "webhook_json \<Rightarrow> metadata \<Rightarrow> string" where
  "ses_reason J payload =
     (let reason = first_non_empty_trimmed (map (string_from_path J payload)
            [''bounce.bounceType'', ''complaint.complaintFeedbackType'', ''delivery.smtpResponse'']);
          diagnostic = first_recipient_field J payload ''bounce.bouncedRecipients'' ''diagnosticCode''
      in if diagnostic \<noteq> '''' then first_non_empty_trimmed [diagnostic, reason] else reason)"

definition normalize_ses_event ::
  "webhook_json \<Rightarrow> metadata \<Rightarrow> goval \<Rightarrow> email_event_input option" where
  "normalize_ses_event J payload full =
     (case map_provider_email_event_type (first_non_empty_trimmed (map (string_from_path J payload)
             [''notificationType'', ''eventType''])) of
        None \<Rightarrow> None
      | Some t \<Rightarrow>
          (let input = base_email_event_input J ''ses'' payload full
           in Some (input
             \<lparr>emi_type := email_event_type_string t,
              emi_provider_message_id := first_non_empty_trimmed (map (string_from_path J payload)
                [''mail.messageId'', ''mail.commonHeaders.messageId'']),
              emi_occurred_at := time_from_any J (first_non_empty_trimmed (map (string_from_path J payload)
                [''bounce.timestamp'', ''complaint.timestamp'', ''delivery.timestamp'', ''mail.timestamp''])),
              emi_reason := ses_reason J payload,
              emi_invitation_id := first_non_empty_trimmed [emi_invitation_id input,
                ses_tag_value J payload ''niceagent_invitation_id'', ses_tag_value J payload ''invitation_id''],
              emi_delivery_id := first_non_empty_trimmed [emi_delivery_id input,
                ses_tag_value J payload ''niceagent_delivery_id'', ses_tag_value J payload ''delivery_id'']\<rparr>)))"

definition mailgun_event_data :: "metadata \<Rightarrow> metadata" where
  "mailgun_event_data payload =
     (case map_from_path payload ''event-data'' of None \<Rightarrow> payload | Some kvs \<Rightarrow> kvs)"

definition normalize_mailgun_event ::
  "webhook_json \<Rightarrow> metadata \<Rightarrow> goval \<Rightarrow> email_event_input option" where
  "normalize_mailgun_event J payload full =
     (let ev = mailgun_event_data payload
      in case map_provider_email_event_type (first_non_empty_trimmed
                [string_from_path J ev ''event'', string_from_path J payload ''event'']) of
           None \<Rightarrow> None
         | Some t \<Rightarrow>
             (let input = base_email_event_input J ''mailgun'' ev full
              in Some (input
                \<lparr>emi_type := email_event_type_string t,
                 emi_provider_message_id := first_non_empty_trimmed
                   [string_from_path J ev ''message.headers.message-id'', string_from_path J ev ''message-id'',
                    string_from_path J payload ''Message-Id''],
                 emi_reason := first_non_empty_trimmed (map (string_from_path J ev)
                   [''reason'', ''delivery-status.message'', ''severity'']),
                 emi_occurred_at := unix_time_from_path J ev ''timestamp'',
                 emi_invitation_id := first_non_empty_trimmed
                   [emi_invitation_id input, metadata_value J ev ''invitation_id''],
                 emi_delivery_id := first_non_empty_trimmed
                   [emi_delivery_id input, metadata_value J ev ''delivery_id'']\<rparr>)))"

text \<open>The first provider whose event it is.\<close>

definition provider_event :: "webhook_json \<Rightarrow> metadata \<Rightarrow> goval \<Rightarrow> email_event_input list" where
  "provider_event J payload full =
     (case normalize_sendgrid_event J payload full of
        Some ev \<Rightarrow> [ev]
      | None \<Rightarrow>
          (case normalize_ses_event J payload full of
             Some ev \<Rightarrow> [ev]
           | None \<Rightarrow> (case normalize_mailgun_event J payload full of Some ev \<Rightarrow> [ev] | None \<Rightarrow> [])))"

section \<open>A document\<close>

text \<open>The text an SNS envelope holds, when it decodes.\<close>

definition sns_message :: "webhook_json \<Rightarrow> metadata \<Rightarrow> goval option" where
  "sns_message J payload =
     (let text = trim_space (string_from_path J payload ''Message'')
      in if text \<noteq> '''' \<and> has_prefix text ''{'' then wbj_value J text else None)"

text \<open>The events of all items, or \<open>None\<close> when the reading of one does not return.\<close>

primrec collect_all :: "('a \<Rightarrow> 'b list option) \<Rightarrow> 'a list \<Rightarrow> 'b list option" where
  "collect_all f [] = Some []"
| "collect_all f (x # xs) = Option.bind (f x) (\<lambda>ys. Option.bind (collect_all f xs) (\<lambda>zs. Some (ys @ zs)))"

lemma collect_all_mono [partial_function_mono]:
  assumes "\<And>x. mono_option (\<lambda>f. g f x)"
  shows "mono_option (\<lambda>f. collect_all (g f) xs)"
proof (induction xs)
  case Nil
  then show ?case by (simp add: monotone_def flat_ord_def)
next
  case (Cons x xs)
  note part = assms [of x] Cons
  show ?case unfolding collect_all.simps
    by (intro bind_mono part) (simp add: monotone_def flat_ord_def)
qed

partial_function (option) normalize_webhook_value ::
  "webhook_json \<Rightarrow> goval \<Rightarrow> goval \<Rightarrow> email_event_input list option" where
  "normalize_webhook_value J value full =
     (case value of
        VList items \<Rightarrow> collect_all (\<lambda>item. normalize_webhook_value J item item) items
      | VMap kvs \<Rightarrow>
          (case sns_message J kvs of
             Some nested \<Rightarrow> normalize_webhook_value J nested (VMap kvs)
           | None \<Rightarrow> Some (provider_event J kvs full))
      | _ \<Rightarrow> Some [])"

text \<open>The inputs of a body; the left component is an error.\<close>

definition normalize_webhook_inputs ::
  "webhook_json \<Rightarrow> string \<Rightarrow> (string + email_event_input list) option" where
  "normalize_webhook_inputs J body =
     (case (case wbj_input J body of
              Some neutral \<Rightarrow>
                if trim_space (emi_type neutral) \<noteq> '''' \<and>
                   (trim_space (emi_invitation_id neutral) \<noteq> '''' \<or> trim_space (emi_delivery_id neutral) \<noteq> '''')
                then Some neutral else None
            | None \<Rightarrow> None) of
        Some neutral \<Rightarrow> Some (Inr [neutral])
      | None \<Rightarrow>
          (case wbj_value J body of
             None \<Rightarrow> Some (Inl ''invalid json'')
           | Some raw \<Rightarrow>
               map_option (\<lambda>evs. if evs = [] then Inl ''no invitation email event found'' else Inr evs)
                 (normalize_webhook_value J raw raw)))"

section \<open>What is kept of an event\<close>

text \<open>The types of the providers are types the store knows.\<close>

lemma type_words:
  "to_lower (trim_space ''delivered'') = ''delivered''" "to_lower (trim_space ''bounced'') = ''bounced''"
  "to_lower (trim_space ''complaint'') = ''complaint''" "to_lower (trim_space ''dropped'') = ''dropped''"
  by (simp_all add: trim_graphic graphic_def)
    (subst to_lower_ascii; simp add: bytes_def char_of_def lower_char_def)+

lemma normalize_type_string [simp]: "normalize_email_event_type (email_event_type_string t) = Some t"
  by (cases t) (simp_all add: normalize_email_event_type_def email_event_type_string_def type_words Let_def)

lemmas normalize_event_defs = normalize_sendgrid_event_def normalize_ses_event_def normalize_mailgun_event_def

definition well_typed_event :: "email_event_input \<Rightarrow> bool" where
  "well_typed_event ev \<longleftrightarrow> normalize_email_event_type (emi_type ev) \<noteq> None"

lemma provider_event_typed: "ev \<in> set (provider_event J kvs full) \<Longrightarrow> well_typed_event ev"
  by (auto simp: provider_event_def normalize_event_defs well_typed_event_def Let_def split: option.splits)

lemma collect_all_set: "collect_all f xs = Some ys \<Longrightarrow> y \<in> set ys \<Longrightarrow> \<exists>x \<in> set xs. \<exists>zs. f x = Some zs \<and> y \<in> set zs"
  by (induction xs arbitrary: ys) (auto simp: bind_eq_Some_conv)

lemma collect_all_not_None: "(\<And>x. x \<in> set xs \<Longrightarrow> f x \<noteq> None) \<Longrightarrow> collect_all f xs \<noteq> None"
  by (induction xs) (auto simp: bind_eq_None_conv)

text \<open>A fact of every event a provider's map gives, whatever the payload it comes with, holds of all
  events of a document.\<close>

lemma normalized_events:
  assumes kept: "\<And>kvs full ev. ev \<in> set (provider_event J kvs full) \<Longrightarrow> P ev"
    and "normalize_webhook_value J value full = Some evs"
  shows "\<forall>ev \<in> set evs. P ev"
proof -
  have "J' = J \<longrightarrow> (\<forall>ev \<in> set evs'. P ev)" if "normalize_webhook_value J' v f = Some evs'" for J' v f evs'
    using _ that
  proof (rule normalize_webhook_value.raw_induct
      [where P = "\<lambda>J' v f evs'. J' = J \<longrightarrow> (\<forall>ev \<in> set evs'. P ev)"], goal_cases)
    case (1 rec J' v f out)
    show ?case
    proof (cases v)
      case (VList items)
      with 1(2) have "collect_all (\<lambda>item. rec J' item item) items = Some out" by simp
      then show ?thesis using 1(1) by (blast dest: collect_all_set)
    next
      case (VMap kvs)
      with 1 show ?thesis by (cases "sns_message J' kvs") (auto dest: kept)
    qed (use 1(2) in auto)
  qed
  then show ?thesis using assms(2) by blast
qed

lemma normalized_typed:
  "normalize_webhook_value J value full = Some evs \<Longrightarrow> \<forall>ev \<in> set evs. well_typed_event ev"
  by (rule normalized_events [where P = well_typed_event]) (rule provider_event_typed)

text \<open>The whole payload only goes into the payload of the event.\<close>

abbreviation with_payload :: "goval \<Rightarrow> email_event_input \<Rightarrow> email_event_input" where
  "with_payload full ev \<equiv> ev\<lparr>emi_payload := [(''provider_payload'', full)]\<rparr>"

lemma base_payload:
  "base_email_event_input J provider kvs full = with_payload full (base_email_event_input J provider kvs other)"
  by (simp add: base_email_event_input_def)

lemma sendgrid_payload:
  "normalize_sendgrid_event J kvs full = map_option (with_payload full) (normalize_sendgrid_event J kvs other)"
  unfolding normalize_sendgrid_event_def base_payload [of J "''sendgrid''" kvs full other]
  by (simp add: Let_def option.map_comp split: option.split)

lemma ses_payload:
  "normalize_ses_event J kvs full = map_option (with_payload full) (normalize_ses_event J kvs other)"
  unfolding normalize_ses_event_def base_payload [of J "''ses''" kvs full other]
  by (simp add: Let_def split: option.split)

lemma mailgun_payload:
  "normalize_mailgun_event J kvs full = map_option (with_payload full) (normalize_mailgun_event J kvs other)"
  unfolding normalize_mailgun_event_def base_payload [of J "''mailgun''" "mailgun_event_data kvs" full other] Let_def
  by (simp split: option.split)

lemma payload_only:
  "provider_event J kvs full = map (with_payload full) (provider_event J kvs other)"
  unfolding provider_event_def sendgrid_payload [of J kvs full other] ses_payload [of J kvs full other]
    mailgun_payload [of J kvs full other]
  by (simp split: option.split)

text \<open>So the events of an SNS notification are those of the message it holds.\<close>

lemma sns_events:
  assumes "sns_message J env = Some (VMap kvs)" "sns_message J kvs = None"
  shows "normalize_webhook_value J (VMap env) full =
    map_option (map (with_payload (VMap env)))
      (normalize_webhook_value J (VMap kvs) (VMap kvs))"
  using assms payload_only [of J kvs "VMap env" "VMap kvs"]
  by (simp add: normalize_webhook_value.simps [of J "VMap env"] normalize_webhook_value.simps [of J "VMap kvs"])

text \<open>A map without event data is never an event of Mailgun: one that says what happened counts as
  one of SendGrid.\<close>

lemma first_trimmed_same: "first_non_empty_trimmed [s, s] = trim_space s"
  by simp

lemma mailgun_needs_event_data:
  assumes "map_from_path kvs ''event-data'' = None" "normalize_mailgun_event J kvs full \<noteq> None"
  shows "normalize_sendgrid_event J kvs full \<noteq> None"
proof -
  have "map_provider_email_event_type (to_lower (trim_space s)) = map_provider_email_event_type (trim_space s)" for s
    by (simp add: map_provider_email_event_type_def trimmed_to_lower)
  then show ?thesis using assms
    by (auto simp: normalize_mailgun_event_def normalize_sendgrid_event_def mailgun_event_data_def first_trimmed_same
        Let_def simp del: first_non_empty_trimmed.simps split: option.splits)
qed

section \<open>The reading returns\<close>

fun subvalues :: "goval \<Rightarrow> goval list" where
  "subvalues (VList vs) = VList vs # concat (map subvalues vs)"
| "subvalues (VMap kvs) = VMap kvs # concat (map (\<lambda>kv. subvalues (snd kv)) kvs)"
| "subvalues v = [v]"

definition value_texts :: "webhook_json \<Rightarrow> goval \<Rightarrow> string set" where
  "value_texts J v = (\<lambda>u. trim_space (value_to_string J u)) ` set (subvalues v)"

text \<open>What the decoder promises: a text inside a decoded document, the text of a document itself, is
  smaller in some measure than the document.\<close>

definition decoder_nests :: "webhook_json \<Rightarrow> (string \<Rightarrow> nat) \<Rightarrow> bool" where
  "decoder_nests J m \<longleftrightarrow>
     (\<forall>s v t. wbj_value J s = Some v \<longrightarrow> t \<in> value_texts J v \<longrightarrow> has_prefix t ''{'' \<longrightarrow> m t < m s)"

definition nests_below :: "webhook_json \<Rightarrow> (string \<Rightarrow> nat) \<Rightarrow> nat \<Rightarrow> goval \<Rightarrow> bool" where
  "nests_below J m n v \<longleftrightarrow> (\<forall>t \<in> value_texts J v. has_prefix t ''{'' \<longrightarrow> m t < n)"

lemma self_subvalue [simp]: "v \<in> set (subvalues v)"
  by (cases v) simp_all

lemma nests_below_item: "nests_below J m n (VList vs) \<Longrightarrow> v \<in> set vs \<Longrightarrow> nests_below J m n v"
  by (auto simp: nests_below_def value_texts_def)

lemma nests_below_message:
  assumes "nests_below J m n (VMap kvs)" "sns_message J kvs = Some v" "decoder_nests J m"
  shows "\<exists>k < n. nests_below J m k v"
proof -
  define u where "u = (case map_of kvs ''Message'' of None \<Rightarrow> VNil | Some v \<Rightarrow> v)"
  have u: "string_from_path J kvs ''Message'' = value_to_string J u"
    by (simp add: string_from_path_def value_from_path_def u_def)
  define t where "t = trim_space (value_to_string J u)"
  have t: "has_prefix t ''{''" "wbj_value J t = Some v"
    using assms(2) by (auto simp: sns_message_def u t_def Let_def split: if_splits)
  then have "u \<noteq> VNil" by (auto simp: t_def has_prefix_def)
  then obtain k where "(k, u) \<in> set kvs" by (auto simp: u_def split: option.splits dest: map_of_SomeD)
  then have "t \<in> value_texts J (VMap kvs)" by (force simp: value_texts_def t_def)
  then have "m t < n" using assms(1) t(1) by (simp add: nests_below_def)
  moreover have "nests_below J m (m t) v" using assms(3) t(2) by (auto simp: decoder_nests_def nests_below_def)
  ultimately show ?thesis by blast
qed

lemma normalize_returns_below:
  "decoder_nests J m \<Longrightarrow> nests_below J m n v \<Longrightarrow> normalize_webhook_value J v full \<noteq> None"
proof (induction n arbitrary: v full rule: less_induct)
  case (less n)
  from less.prems(2) show ?case
  proof (induction v arbitrary: full)
    case (VList vs)
    then show ?case
      by (subst normalize_webhook_value.simps) (simp del: not_None_eq add: collect_all_not_None nests_below_item)
  next
    case (VMap kvs)
    then show ?case
      using less.IH [OF _ less.prems(1)] nests_below_message [OF VMap.prems _ less.prems(1)]
      by (subst normalize_webhook_value.simps) (auto split: option.split)
  qed (subst normalize_webhook_value.simps, simp)+
qed

lemma inputs_returned:
  assumes "decoder_nests J m"
  shows "normalize_webhook_inputs J body \<noteq> None"
proof -
  have "normalize_webhook_value J v v \<noteq> None" if "wbj_value J body = Some v" for v
    using assms that by (intro normalize_returns_below [of J m "m body"]) (auto simp: decoder_nests_def nests_below_def)
  then show ?thesis by (auto simp: normalize_webhook_inputs_def split: option.splits)
qed

end
