(* ===== verification/Webhook_Api.thy ===== *)
theory Webhook_Api
  imports Org_Api Webhook_Events
begin

text \<open>
  The entrance for mail providers (\<open>invitationEmailWebhook\<close> of
  services/control-plane/internal/httpapi/server.go). A call has no actor: it is let in by one of
  four signatures, its body is read as events of invitation mails, and the store records them one
  after the other. Digests, keys, signatures and certificates are a parameter, and so are base64,
  the PEM form and the fetching of a certificate.
\<close>

section \<open>Signatures\<close>

record webhook_verification =
  whv_shared_secret :: string
  whv_sendgrid_public_key :: string
  whv_mailgun_signing_key :: string
  whv_sns_signature_verification :: bool
  whv_sns_topic_arn :: string
  whv_sns_certificate_provider :: "(string \<Rightarrow> string + string) option"

definition normalize_webhook_verification :: "webhook_verification \<Rightarrow> string \<Rightarrow> webhook_verification" where
  "normalize_webhook_verification input legacy =
     input\<lparr>whv_shared_secret := trim_space (first_non_empty_trimmed [whv_shared_secret input, legacy]),
           whv_sendgrid_public_key := trim_space (whv_sendgrid_public_key input),
           whv_mailgun_signing_key := trim_space (whv_mailgun_signing_key input),
           whv_sns_topic_arn := trim_space (whv_sns_topic_arn input)\<rparr>"

definition webhook_configured :: "webhook_verification \<Rightarrow> bool" where
  "webhook_configured v \<longleftrightarrow>
     trim_space (whv_shared_secret v) \<noteq> '''' \<or> trim_space (whv_sendgrid_public_key v) \<noteq> '''' \<or>
     trim_space (whv_mailgun_signing_key v) \<noteq> '''' \<or> whv_sns_signature_verification v"

datatype public_key = EcdsaKey string | RsaKey string | OtherKey

record sns_envelope =
  sne_type :: string
  sne_message_id :: string
  sne_token :: string
  sne_topic_arn :: string
  sne_message :: string
  sne_subscribe_url :: string
  sne_subject :: string
  sne_timestamp :: string
  sne_signature_version :: string
  sne_signature :: string
  sne_signing_cert_url :: string

text \<open>
  \<open>cry_pem\<close> are the bytes of the first PEM block, \<open>cry_certificate\<close> is the public key of a
  certificate that parses and \<open>cry_trusted\<close> whether its chain verifies; \<open>cry_url\<close> is
  \<open>url.Parse\<close> as the scheme, the host name and the escaped path; \<open>cry_get\<close> is a GET request, its
  status and its body, which may fail to be read.
\<close>

record crypto_lib =
  cry_hmac_sha256 :: "string \<Rightarrow> string \<Rightarrow> string"
  cry_sha1 :: "string \<Rightarrow> string"
  cry_sha256 :: "string \<Rightarrow> string"
  cry_base64_decode :: "string \<Rightarrow> string option"
  cry_base64_encode :: "string \<Rightarrow> string"
  cry_pem :: "string \<Rightarrow> string option"
  cry_pkix_key :: "string \<Rightarrow> public_key option"
  cry_verify_asn1 :: "string \<Rightarrow> string \<Rightarrow> string \<Rightarrow> bool"
  cry_verify_pkcs1 :: "string \<Rightarrow> string \<Rightarrow> string \<Rightarrow> string \<Rightarrow> bool"
  cry_certificate :: "string \<Rightarrow> public_key option"
  cry_trusted :: "string \<Rightarrow> bool"
  cry_url :: "string \<Rightarrow> (string \<times> string \<times> string) option"
  cry_get :: "string \<Rightarrow> (string + int \<times> (string + string))"
  cry_envelope :: "string \<Rightarrow> sns_envelope option"

text \<open>\<open>hex.DecodeString\<close>.\<close>

fun hex_decode :: "string \<Rightarrow> string option" where
  "hex_decode [] = Some []"
| "hex_decode [c] = None"
| "hex_decode (a # b # s) =
     (case (hex_digit a, hex_digit b) of
        (Some x, Some y) \<Rightarrow> map_option (Cons (char_of (16 * x + y))) (hex_decode s)
      | _ \<Rightarrow> None)"

definition verify_webhook_signature :: "crypto_lib \<Rightarrow> string \<Rightarrow> string \<Rightarrow> string \<Rightarrow> bool" where
  "verify_webhook_signature C secret0 body header0 =
     (let secret = trim_space secret0; header = trim_space header0
      in if secret = '''' \<or> header = '''' then False
         else
           (case hex_decode (trim_prefix header ''sha256='') of
              None \<Rightarrow> False
            | Some got \<Rightarrow> got = cry_hmac_sha256 C secret body))"

definition parse_ecdsa_public_key :: "crypto_lib \<Rightarrow> string \<Rightarrow> string option" where
  "parse_ecdsa_public_key C value =
     (let raw0 = trim_space value;
          raw = (case cry_pem C raw0 of Some block \<Rightarrow> cry_base64_encode C block | None \<Rightarrow> raw0)
      in case cry_base64_decode C raw of
           None \<Rightarrow> None
         | Some der \<Rightarrow> (case cry_pkix_key C der of Some (EcdsaKey k) \<Rightarrow> Some k | _ \<Rightarrow> None))"

definition verify_sendgrid_signature :: "crypto_lib \<Rightarrow> string \<Rightarrow> string \<Rightarrow> string \<Rightarrow> string \<Rightarrow> bool" where
  "verify_sendgrid_signature C key0 body timestamp0 signature0 =
     (let key = trim_space key0; timestamp = trim_space timestamp0; header = trim_space signature0
      in if key = '''' \<or> timestamp = '''' \<or> header = '''' then False
         else
           (case parse_ecdsa_public_key C key of
              None \<Rightarrow> False
            | Some k \<Rightarrow>
                (case cry_base64_decode C header of
                   None \<Rightarrow> False
                 | Some signature \<Rightarrow> cry_verify_asn1 C k (cry_sha256 C (timestamp @ body)) signature)))"

text \<open>The timestamp, the token and the signature; a \<open>null\<close> decodes into a map without keys.\<close>

definition mailgun_signature_fields :: "webhook_json \<Rightarrow> string \<Rightarrow> string \<times> string \<times> string" where
  "mailgun_signature_fields J body =
     (case (case wbj_value J body of
              Some (VMap kvs) \<Rightarrow> Some kvs | Some VNil \<Rightarrow> Some [] | _ \<Rightarrow> None) of
        None \<Rightarrow> ('''', '''', '''')
      | Some payload \<Rightarrow>
          (let p = (case map_from_path payload ''signature'' of None \<Rightarrow> payload | Some kvs \<Rightarrow> kvs);
               field = (\<lambda>k. trim_space (string_from_path J p k))
           in (field ''timestamp'', field ''token'', field ''signature'')))"

definition verify_mailgun_signature :: "crypto_lib \<Rightarrow> webhook_json \<Rightarrow> string \<Rightarrow> string \<Rightarrow> bool" where
  "verify_mailgun_signature C J key0 body =
     (let key = trim_space key0
      in if key = '''' then False
         else
           (case mailgun_signature_fields J body of
              (timestamp, token, signature) \<Rightarrow>
                if timestamp = '''' \<or> token = '''' \<or> signature = '''' then False
                else
                  (case hex_decode signature of
                     None \<Rightarrow> False
                   | Some got \<Rightarrow> got = cry_hmac_sha256 C key (timestamp @ token))))"

definition sns_field :: "string \<Rightarrow> string \<Rightarrow> string" where
  "sns_field key value = key @ bytes [10] @ value @ bytes [10]"

definition sns_string_to_sign :: "sns_envelope \<Rightarrow> string" where
  "sns_string_to_sign n =
     (let typ = trim_space (sne_type n)
      in if typ = ''Notification'' then
           sns_field ''Message'' (sne_message n) @ sns_field ''MessageId'' (sne_message_id n) @
           (if trim_space (sne_subject n) \<noteq> '''' then sns_field ''Subject'' (sne_subject n) else '''') @
           sns_field ''Timestamp'' (sne_timestamp n) @ sns_field ''TopicArn'' (sne_topic_arn n) @
           sns_field ''Type'' (sne_type n)
         else if typ \<in> set [''SubscriptionConfirmation'', ''UnsubscribeConfirmation''] then
           sns_field ''Message'' (sne_message n) @ sns_field ''MessageId'' (sne_message_id n) @
           sns_field ''SubscribeURL'' (sne_subscribe_url n) @ sns_field ''Timestamp'' (sne_timestamp n) @
           sns_field ''Token'' (sne_token n) @ sns_field ''TopicArn'' (sne_topic_arn n) @
           sns_field ''Type'' (sne_type n)
         else '''')"

definition verify_sns_message_signature :: "crypto_lib \<Rightarrow> sns_envelope \<Rightarrow> string \<Rightarrow> bool" where
  "verify_sns_message_signature C n cert_pem =
     (let text = sns_string_to_sign n
      in if text = '''' then False
         else
           (case (cry_base64_decode C (trim_space (sne_signature n)), Option.bind (cry_pem C cert_pem) (cry_certificate C)) of
              (Some signature, Some (RsaKey k)) \<Rightarrow>
                if trim_space (sne_signature_version n) = ''1'' then
                  cry_verify_pkcs1 C k ''SHA1'' (cry_sha1 C text) signature
                else if trim_space (sne_signature_version n) = ''2'' then
                  cry_verify_pkcs1 C k ''SHA256'' (cry_sha256 C text) signature
                else False
            | _ \<Rightarrow> False))"

definition is_trusted_sns_cert_url :: "crypto_lib \<Rightarrow> string \<Rightarrow> bool" where
  "is_trusted_sns_cert_url C value =
     (case cry_url C (trim_space value) of
        None \<Rightarrow> False
      | Some (scheme, name, path) \<Rightarrow>
          (let host = to_lower name
           in scheme = ''https'' \<and> has_prefix host ''sns.'' \<and>
              (has_suffix host ''.amazonaws.com'' \<or> has_suffix host ''.amazonaws.com.cn'') \<and>
              has_prefix path ''/SimpleNotificationService-'' \<and> has_suffix path ''.pem''))"

definition fetch_sns_certificate :: "crypto_lib \<Rightarrow> string \<Rightarrow> string + string" where
  "fetch_sns_certificate C url =
     (case cry_get C url of
        Inl err \<Rightarrow> Inl err
      | Inr (status, content) \<Rightarrow>
          if status < 200 \<or> status > 299 then
            Inl (''sns certificate fetch returned status '' @ itoa status)
          else
            (case content of
               Inl err \<Rightarrow> Inl err
             | Inr text \<Rightarrow>
                 (let pem = take (128 * 1024) text
                  in case cry_pem C pem of
                       None \<Rightarrow> Inl ''sns certificate is not pem encoded''
                     | Some block \<Rightarrow>
                         if cry_certificate C block = None then Inl ''x509: malformed certificate''
                         else if \<not> cry_trusted C block then Inl ''x509: certificate signed by unknown authority''
                         else Inr pem)))"

definition verify_sns_signature :: "crypto_lib \<Rightarrow> webhook_verification \<Rightarrow> string \<Rightarrow> bool" where
  "verify_sns_signature C v body =
     (if \<not> whv_sns_signature_verification v then False
      else
        (case cry_envelope C body of
           None \<Rightarrow> False
         | Some n \<Rightarrow>
             if whv_sns_topic_arn v \<noteq> '''' \<and> trim_space (sne_topic_arn n) \<noteq> whv_sns_topic_arn v then False
             else
               (let url = trim_space (sne_signing_cert_url n)
                in if \<not> is_trusted_sns_cert_url C url then False
                   else
                     (case (case whv_sns_certificate_provider v of
                              None \<Rightarrow> fetch_sns_certificate C | Some p \<Rightarrow> p) url of
                        Inl err \<Rightarrow> False
                      | Inr cert_pem \<Rightarrow> verify_sns_message_signature C n cert_pem))))"

text \<open>The provider whose signature the request carries.\<close>

definition verify_webhook_request ::
  "crypto_lib \<Rightarrow> webhook_json \<Rightarrow> webhook_verification \<Rightarrow> string \<Rightarrow> (string \<Rightarrow> string) \<Rightarrow> string option" where
  "verify_webhook_request C J v body header =
     (if verify_webhook_signature C (whv_shared_secret v) body (header ''X-NiceAgent-Webhook-Signature'')
      then Some ''niceagent''
      else if verify_sendgrid_signature C (whv_sendgrid_public_key v) body
          (header ''X-Twilio-Email-Event-Webhook-Timestamp'') (header ''X-Twilio-Email-Event-Webhook-Signature'')
      then Some ''sendgrid''
      else if verify_mailgun_signature C J (whv_mailgun_signing_key v) body then Some ''mailgun''
      else if verify_sns_signature C v body then Some ''sns''
      else None)"

section \<open>The handler\<close>

datatype webhook_answer = OneEvent email_event | ManyEvents "email_event list"

text \<open>The empty \<open>app.ActorContext\<close> the entries of the audit log get.\<close>

definition no_actor :: actor_context where
  "no_actor = \<lparr>act_user_id = '''', act_email = '''', act_name = '''', act_identity_provider = '''',
     act_identity_issuer = '''', act_identity_subject = '''', act_project_id = '''', act_org_id = '''',
     act_roles = []\<rparr>"

definition webhook_event_meta :: "string \<Rightarrow> email_event \<Rightarrow> metadata" where
  "webhook_event_meta provider ev =
     [(''delivery_id'', VStr (eme_delivery_id ev)), (''type'', VStr (email_event_type_string (eme_type ev))),
      (''provider'', VStr (eme_provider ev)), (''signature_provider'', VStr provider)]"

fun record_webhook_events ::
  "api_call \<Rightarrow> string \<Rightarrow> (nat \<Rightarrow> env) \<Rightarrow> (nat \<Rightarrow> string list) \<Rightarrow> email_event_input list \<Rightarrow> email_event list
     \<Rightarrow> ('c, 'b) plane \<Rightarrow> (reply + email_event list) \<times> ('c, 'b) plane" where
  "record_webhook_events h provider es os [] events d = (Inr events, d)"
| "record_webhook_events h provider es os (raw # inputs) events d =
     (let iid = trim_space (emi_invitation_id raw)
      in if iid = '''' then (Inl (Reply 400 ''invitation_id is required''), d)
         else
           unless_store_err
             (on_store (record_invitation_email_event (es 0) (os 0) (raw\<lparr>emi_invitation_id := iid\<rparr>)) d)
             (\<lambda>ev d1. record_webhook_events h provider (\<lambda>i. es (i + 2)) (\<lambda>i. os (i + 1)) inputs (events @ [ev])
                (plane_audit (es 1) (htr_api h) no_actor ''invitation.email_webhook.record'' ''invitation''
                   (eme_invitation_id ev) '''' AuditDecisionAllow '''' (webhook_event_meta provider ev) d1)))"

text \<open>\<open>None\<close> is that the handler does not return.\<close>

definition invitation_email_webhook ::
  "crypto_lib \<Rightarrow> webhook_json \<Rightarrow> webhook_verification \<Rightarrow> (nat \<Rightarrow> env) \<Rightarrow> (nat \<Rightarrow> string list) \<Rightarrow> api_call
     \<Rightarrow> ('c, 'b) plane \<Rightarrow> ((reply + int \<times> webhook_answer) \<times> ('c, 'b) plane) option" where
  "invitation_email_webhook C J v es os h d =
     (let body = htr_body h
      in if \<not> webhook_configured v then Some (Inl (Reply 404 ''webhook not configured''), d)
         else if length body > 1048576 then Some (Inl (Reply 400 ''invalid webhook body''), d)
         else
           (case verify_webhook_request C J v body (arq_header (htr_api h)) of
              None \<Rightarrow>
                Some (Inl (Reply 401 ''invalid webhook signature''),
                  plane_audit (es 0) (htr_api h) no_actor ''invitation.email_webhook.verify'' ''webhook''
                    ''invitation-email-events'' '''' AuditDecisionDeny ''invalid webhook signature'' [] d)
            | Some provider \<Rightarrow>
                (case normalize_webhook_inputs J body of
                   None \<Rightarrow> None
                 | Some (Inl err) \<Rightarrow> Some (Inl (Reply 400 ''invalid json body''), d)
                 | Some (Inr inputs) \<Rightarrow>
                     (case record_webhook_events h provider es os inputs [] d of
                        (Inl rep, d1) \<Rightarrow> Some (Inl rep, d1)
                      | (Inr [ev], d1) \<Rightarrow> Some (Inr (202, OneEvent ev), d1)
                      | (Inr events, d1) \<Rightarrow> Some (Inr (202, ManyEvents events), d1)))))"

text \<open>The route of the table, for POST only.\<close>

definition serve_webhook ::
  "crypto_lib \<Rightarrow> webhook_json \<Rightarrow> webhook_verification \<Rightarrow> (nat \<Rightarrow> env) \<Rightarrow> (nat \<Rightarrow> string list) \<Rightarrow> api_call
     \<Rightarrow> ('c, 'b) plane \<Rightarrow> ((reply + int \<times> webhook_answer) \<times> ('c, 'b) plane) option" where
  "serve_webhook C J v es os h d =
     (if htr_method h \<noteq> ''POST'' then Some (Inl (Reply 405 ''method not allowed''), d)
      else invitation_email_webhook C J v es os h d)"

end
