(* ===== verification/Webhook_Properties.thy ===== *)
theory Webhook_Properties
  imports Webhook_Api Internal_Api_Properties
begin

text \<open>
  What a call of the entrance for mail providers does to the control plane: it records the events of
  a prefix of its inputs, of all of them when it answers so, and touches nothing but the events, the
  deliveries and suppressions they are about and the audit log; without a signature it records
  nothing; and it returns.
\<close>

section \<open>The effect of recorded events\<close>

text \<open>\<open>evs\<close> have been added to the log of mail events.\<close>

definition mail_effect :: "('c, 'b) plane \<Rightarrow> email_event list \<Rightarrow> ('c, 'b) plane \<Rightarrow> bool" where
  "mail_effect d evs t \<longleftrightarrow>
     (\<exists>ds ss as. t = (((plane_store d)
          \<lparr>s_email_events := s_email_events (plane_store d) @ evs, s_email_deliveries := ds,
           s_email_suppressions := ss, s_audit_events := s_audit_events (plane_store d) @ as\<rparr>,
          snd (fst d)), snd d) \<and>
       (\<forall>k. k \<notin> eme_delivery_id ` set evs \<longrightarrow> ds k = s_email_deliveries (plane_store d) k) \<and>
       (list_all (\<lambda>ev. \<not> suppresses_invitation_email (eme_type ev)) evs \<longrightarrow>
          ss = s_email_suppressions (plane_store d)))"

lemma mail_effect_refl [simp]: "mail_effect d [] d"
  unfolding mail_effect_def
  by (rule exI [of _ "s_email_deliveries (plane_store d)"], rule exI [of _ "s_email_suppressions (plane_store d)"],
      rule exI [of _ "[]"]) (simp add: plane_store_def)

lemma mail_effect_trans:
  assumes "mail_effect d evs t" "mail_effect t evs' u"
  shows "mail_effect d (evs @ evs') u"
proof -
  from assms(1) obtain ds ss as where t: "t = (((plane_store d)
          \<lparr>s_email_events := s_email_events (plane_store d) @ evs, s_email_deliveries := ds,
           s_email_suppressions := ss, s_audit_events := s_audit_events (plane_store d) @ as\<rparr>,
          snd (fst d)), snd d)"
      and ds: "\<And>k. k \<notin> eme_delivery_id ` set evs \<Longrightarrow> ds k = s_email_deliveries (plane_store d) k"
      and ss: "list_all (\<lambda>ev. \<not> suppresses_invitation_email (eme_type ev)) evs \<Longrightarrow>
          ss = s_email_suppressions (plane_store d)"
    unfolding mail_effect_def by blast
  from assms(2) obtain ds' ss' as' where u: "u = (((plane_store t)
          \<lparr>s_email_events := s_email_events (plane_store t) @ evs', s_email_deliveries := ds',
           s_email_suppressions := ss', s_audit_events := s_audit_events (plane_store t) @ as'\<rparr>,
          snd (fst t)), snd t)"
      and ds': "\<And>k. k \<notin> eme_delivery_id ` set evs' \<Longrightarrow> ds' k = s_email_deliveries (plane_store t) k"
      and ss': "list_all (\<lambda>ev. \<not> suppresses_invitation_email (eme_type ev)) evs' \<Longrightarrow>
          ss' = s_email_suppressions (plane_store t)"
    unfolding mail_effect_def by blast
  show ?thesis
    unfolding mail_effect_def
    by (rule exI [of _ ds'], rule exI [of _ ss'], rule exI [of _ "as @ as'"])
      (simp add: t u ds ds' ss ss' plane_store_def image_Un)
qed

text \<open>An input and the event that has been recorded for it.\<close>

definition records_input :: "email_event_input \<Rightarrow> email_event \<Rightarrow> bool" where
  "records_input input ev \<longleftrightarrow>
     eme_invitation_id ev = trim_space (emi_invitation_id input) \<and> eme_invitation_id ev \<noteq> '''' \<and>
     eme_delivery_id ev = trim_space (emi_delivery_id input) \<and>
     eme_provider ev = trim_space (emi_provider input) \<and>
     normalize_email_event_type (emi_type input) = Some (eme_type ev) \<and>
     eme_payload ev = emi_payload input"

lemma record_event_store:
  assumes "record_invitation_email_event e order (raw\<lparr>emi_invitation_id := trim_space (emi_invitation_id raw)\<rparr>) s = (Inr ev, s')"
    and "trim_space (emi_invitation_id raw) \<noteq> ''''"
  shows "records_input raw ev"
    and "s' = s\<lparr>s_email_events := s_email_events s @ [ev], s_email_deliveries := s_email_deliveries s',
                s_email_suppressions := s_email_suppressions s'\<rparr>"
    and "k \<noteq> eme_delivery_id ev \<Longrightarrow> s_email_deliveries s' k = s_email_deliveries s k"
    and "\<not> suppresses_invitation_email (eme_type ev) \<Longrightarrow> s_email_suppressions s' = s_email_suppressions s"
  using assms
  by (simp_all add: record_invitation_email_event_def records_input_def Let_def split: option.splits if_splits)
    (auto split: option.splits if_splits)

lemma record_event_error: "record_invitation_email_event e order input s = (Inl err, s') \<Longrightarrow> s' = s"
  by (auto simp: record_invitation_email_event_def Let_def split: option.splits if_splits)

lemma recorded_effect:
  assumes "on_store (record_invitation_email_event e order (raw\<lparr>emi_invitation_id := trim_space (emi_invitation_id raw)\<rparr>)) d = (Inr ev, t)"
    and "trim_space (emi_invitation_id raw) \<noteq> ''''"
  shows "mail_effect d [ev] t \<and> records_input raw ev"
proof -
  obtain s' where r: "record_invitation_email_event e order (raw\<lparr>emi_invitation_id := trim_space (emi_invitation_id raw)\<rparr>)
        (plane_store d) = (Inr ev, s')" and t: "t = ((s', snd (fst d)), snd d)"
    using assms(1) by (cases d; cases "fst d") (auto simp: on_store_def with_right_def plane_store_def split: prod.splits)
  note facts = record_event_store [OF r assms(2)]
  have same: "s_audit_events s' = s_audit_events (plane_store d)" by (subst facts(2)) simp
  have "mail_effect d [ev] t"
    unfolding mail_effect_def
    by (rule exI [of _ "s_email_deliveries s'"], rule exI [of _ "s_email_suppressions s'"], rule exI [of _ "[]"])
      (use facts in \<open>simp add: t same [symmetric]\<close>)
  then show ?thesis using facts(1) by simp
qed

lemma audit_effect [simp]: "mail_effect d [] (plane_audit e rq actor action rtype rid run dec reason meta d)"
  unfolding mail_effect_def plane_audit_def on_store_def with_right_def
  by (rule exI [of _ "s_email_deliveries (plane_store d)"], rule exI [of _ "s_email_suppressions (plane_store d)"],
      rule exI [of _ "[audit_event_from_input e (audit_entry rq actor action rtype rid run dec reason meta)]"],
      cases d; cases "fst d")
    (simp add: plane_store_def write_audit_event_def add_audit_event_def Let_def)

lemma record_loop_effect:
  assumes "record_webhook_events h provider es os inputs acc d = (res, t)"
  shows "\<exists>evs k. mail_effect d evs t \<and> list_all2 records_input (take k inputs) evs \<and>
    (case res of Inl rep \<Rightarrow> True | Inr events \<Rightarrow> events = acc @ evs \<and> length evs = length inputs)"
  using assms
proof (induction inputs arbitrary: es os acc d)
  case Nil
  then show ?case by (auto intro!: exI [of _ "[]"])
next
  case (Cons raw inputs)
  let ?iid = "trim_space (emi_invitation_id raw)"
  obtain x d1 where r: "on_store (record_invitation_email_event (es 0) (os 0) (raw\<lparr>emi_invitation_id := ?iid\<rparr>)) d = (x, d1)"
    by (metis surj_pair)
  show ?case
  proof (cases "?iid = ''''")
    case True
    with Cons.prems have "t = d \<and> (\<exists>rep. res = Inl rep)" by auto
    then show ?thesis by (auto intro!: exI [of _ "[]"] exI [of _ 0])
  next
    case False
    show ?thesis
    proof (cases x)
      case (Inl err)
      with r have "d1 = d"
        by (cases d; cases "fst d") (auto simp: on_store_def with_right_def split: prod.splits dest: record_event_error)
      with Cons.prems False r Inl have "t = d \<and> (\<exists>rep. res = Inl rep)" by (auto simp: unless_store_err_def)
      then show ?thesis by (auto intro!: exI [of _ "[]"] exI [of _ 0])
    next
      case (Inr ev)
      let ?d2 = "plane_audit (es 1) (htr_api h) no_actor ''invitation.email_webhook.record'' ''invitation''
        (eme_invitation_id ev) '''' AuditDecisionAllow '''' (webhook_event_meta provider ev) d1"
      have one: "mail_effect d [ev] d1" "records_input raw ev" using recorded_effect r Inr False by blast+
      have "record_webhook_events h provider (\<lambda>i. es (i + 2)) (\<lambda>i. os (i + 1)) inputs (acc @ [ev]) ?d2 = (res, t)"
        using Cons.prems False r Inr by (simp add: unless_store_err_def)
      from Cons.IH [OF this] obtain evs k where rest: "mail_effect ?d2 evs t" "list_all2 records_input (take k inputs) evs"
          "case res of Inl rep \<Rightarrow> True | Inr events \<Rightarrow> events = (acc @ [ev]) @ evs \<and> length evs = length inputs"
        by blast
      have "mail_effect d ([ev] @ [] @ evs) t"
        using mail_effect_trans [OF one(1) mail_effect_trans [OF audit_effect rest(1)]] by simp
      then show ?thesis using rest(2,3) one(2)
        by (intro exI [of _ "ev # evs"] exI [of _ "Suc k"]) (auto split: sum.splits)
    qed
  qed
qed

section \<open>A call\<close>

fun shown_events :: "(reply + int \<times> webhook_answer) \<Rightarrow> email_event list option" where
  "shown_events (Inl rep) = None"
| "shown_events (Inr (code, OneEvent ev)) = Some [ev]"
| "shown_events (Inr (code, ManyEvents evs)) = Some evs"

definition accounted :: "crypto_lib \<Rightarrow> webhook_json \<Rightarrow> webhook_verification \<Rightarrow> api_call
    \<Rightarrow> (reply + int \<times> webhook_answer) \<Rightarrow> email_event list \<Rightarrow> bool" where
  "accounted C J v h a evs \<longleftrightarrow>
     (if verify_webhook_request C J v (htr_body h) (arq_header (htr_api h)) = None
      then evs = [] \<and> shown_events a = None
      else
        (case normalize_webhook_inputs J (htr_body h) of
           Some (Inr inputs) \<Rightarrow>
             (\<exists>k. list_all2 records_input (take k inputs) evs) \<and>
             (case shown_events a of None \<Rightarrow> True | Some shown \<Rightarrow> shown = evs \<and> length evs = length inputs)
         | _ \<Rightarrow> evs = [] \<and> shown_events a = None))"

lemma refused_accounted: "accounted C J v h (Inl rep) []"
  by (auto simp: accounted_def split: option.split sum.split intro!: exI [of _ 0])

text \<open>C21. A call of a mail provider records no event without a signature, else the events of a prefix of
  the inputs of its body, and of all of them when the answer is no refusal, which then shows them.
  It changes nothing but the log of mail events, the deliveries of the events, the suppressions when
  an event suppresses, and the audit log.\<close>

theorem webhook_accounts_for_events:
  assumes "serve_webhook C J v es os h d = Some (a, t)"
  shows "\<exists>evs. mail_effect d evs t \<and> accounted C J v h a evs"
proof -
  let ?body = "htr_body h"
  let ?signed = "verify_webhook_request C J v ?body (arq_header (htr_api h))"
  show ?thesis
  proof (cases "\<exists>provider inputs. htr_method h = ''POST'' \<and> webhook_configured v \<and> length ?body \<le> 1048576 \<and>
      ?signed = Some provider \<and> normalize_webhook_inputs J ?body = Some (Inr inputs)")
    case True
    then obtain provider inputs where go: "htr_method h = ''POST''" "webhook_configured v" "length ?body \<le> 1048576"
        "?signed = Some provider" "normalize_webhook_inputs J ?body = Some (Inr inputs)" by blast
    obtain res t1 where r: "record_webhook_events h provider es os inputs [] d = (res, t1)" by (metis surj_pair)
    from record_loop_effect [OF r, unfolded append_Nil] obtain evs k where e: "mail_effect d evs t1" "list_all2 records_input (take k inputs) evs"
        "case res of Inl rep \<Rightarrow> True | Inr events \<Rightarrow> events = evs \<and> length evs = length inputs"
      by blast
    have "t = t1 \<and> shown_events a = (case res of Inl rep \<Rightarrow> None | Inr events \<Rightarrow> Some events)"
      using assms go r
      by (auto simp: serve_webhook_def invitation_email_webhook_def Let_def split: sum.splits list.splits)
    then show ?thesis using e go
      by (intro exI [of _ evs]) (auto simp: accounted_def split: sum.splits)
  next
    case False
    with assms have "(t = d \<or> (\<exists>e. t = plane_audit e (htr_api h) no_actor ''invitation.email_webhook.verify'' ''webhook''
        ''invitation-email-events'' '''' AuditDecisionDeny ''invalid webhook signature'' [] d)) \<and> (\<exists>rep. a = Inl rep)"
      by (auto simp: serve_webhook_def invitation_email_webhook_def Let_def split: if_splits option.splits sum.splits)
    then obtain rep where "mail_effect d [] t" "a = Inl rep" by auto
    then show ?thesis using refused_accounted by blast
  qed
qed

section \<open>A call returns\<close>

text \<open>C22. A call returns, whatever the documents of its body nest, if a text inside a decoded document is
  smaller, in some measure, than the document.\<close>

theorem webhook_returns:
  assumes "decoder_nests J m"
  shows "\<exists>a t. serve_webhook C J v es os h d = Some (a, t)"
proof -
  have "serve_webhook C J v es os h d \<noteq> None"
  proof
    assume "serve_webhook C J v es os h d = None"
    then have "normalize_webhook_inputs J (htr_body h) = None"
      by (simp add: serve_webhook_def invitation_email_webhook_def Let_def
          split: if_splits option.splits sum.splits list.splits prod.splits)
    then show False using inputs_returned [OF assms] by simp
  qed
  then show ?thesis by (metis not_None_eq surj_pair)
qed

text \<open>The signature of Mailgun is one of a timestamp and a token and says nothing of the event: who has
  seen one can sign any body with it, at any time.\<close>

lemma mailgun_signature_fits_any_event:
  "verify_mailgun_signature C J key body \<Longrightarrow> mailgun_signature_fields J other = mailgun_signature_fields J body \<Longrightarrow>
     verify_mailgun_signature C J key other"
  unfolding verify_mailgun_signature_def by metis

section \<open>An example\<close>

definition reported_invitation :: invitation where
  "reported_invitation = \<lparr>inv_id = ''inv_1'', inv_token = ''tok'', inv_organization_id = ''demo-org'',
     inv_project_id = '''', inv_email = ''a@b'', inv_role = ''member'', inv_status = InvitationPending,
     inv_invited_by_user_id = '''', inv_accepted_by_user_id = '''', inv_created_at = 1,
     inv_expires_at = 100, inv_accepted_at = None\<rparr>"

definition reported_input :: email_event_input where
  "reported_input = \<lparr>emi_invitation_id = ''inv_1'', emi_delivery_id = '''', emi_provider = ''p'',
     emi_provider_message_id = '''', emi_type = ''bounced'', emi_reason = '''', emi_payload = [],
     emi_occurred_at = None\<rparr>"

definition sample_webhook_json :: webhook_json where
  "sample_webhook_json = \<lparr>wbj_input = (\<lambda>s. if s = ''b'' then Some reported_input else None),
     wbj_value = (\<lambda>s. if s = ''m'' then Some (VMap [(''Message'', VStr ''{'')])
       else if s = ''{'' then Some (VList []) else None),
     wbj_sprint = (\<lambda>v. ''''), wbj_float = (\<lambda>q. ''''), wbj_parse_float = (\<lambda>s. None), wbj_int64 = (\<lambda>q. 0),
     wbj_nanos = (\<lambda>q n. 0), wbj_time = (\<lambda>l s. None)\<rparr>"

definition sample_crypto :: crypto_lib where
  "sample_crypto = \<lparr>cry_hmac_sha256 = (\<lambda>k s. ''''), cry_sha1 = id, cry_sha256 = id,
     cry_base64_decode = Some, cry_base64_encode = id, cry_pem = (\<lambda>s. None), cry_pkix_key = (\<lambda>s. None),
     cry_verify_asn1 = (\<lambda>k s g. False), cry_verify_pkcs1 = (\<lambda>k a s g. False), cry_certificate = (\<lambda>s. None),
     cry_trusted = (\<lambda>s. False), cry_url = (\<lambda>s. None), cry_get = Inl, cry_envelope = (\<lambda>s. None)\<rparr>"

definition sample_verification :: webhook_verification where
  "sample_verification = \<lparr>whv_shared_secret = ''s'', whv_sendgrid_public_key = '''',
     whv_mailgun_signing_key = '''', whv_sns_signature_verification = False, whv_sns_topic_arn = '''',
     whv_sns_certificate_provider = None\<rparr>"

definition webhook_call :: "string \<Rightarrow> api_call" where
  "webhook_call body =
     \<lparr>htr_api = \<lparr>arq_path = '''', arq_header = (\<lambda>n. ''sha256=''), arq_remote_addr = '''', arq_user_agent = '''',
        arq_request_id = '''', arq_trace_id = ''''\<rparr>, htr_method = ''POST'', htr_query = (\<lambda>n. ''''),
      htr_host = '''', htr_tls = False, htr_body = body\<rparr>"

abbreviation reported_plane :: "(unit, unit) plane" where
  "reported_plane \<equiv> ((demo_store\<lparr>s_invitations := [''tok'' \<mapsto> reported_invitation]\<rparr>, ()), ())"

lemma webhook_words:
  "trim_space ''s'' = ''s''" "trim_space ''sha256='' = ''sha256=''" "trim_space ''inv_1'' = ''inv_1''"
  "trim_space ''bounced'' = ''bounced''" "trim_space ''p'' = ''p''" "trim_space ''{'' = ''{''"
  by (simp_all add: trim_graphic graphic_def)

lemma signed_call:
  "verify_webhook_request sample_crypto J sample_verification body (arq_header (htr_api (webhook_call other))) = Some ''niceagent''"
  by (simp add: verify_webhook_request_def verify_webhook_signature_def sample_crypto_def sample_verification_def
      webhook_call_def webhook_words trim_prefix_def has_prefix_def)

lemma reported_event:
  "\<exists>ev (t :: (unit, unit) plane). serve_webhook sample_crypto sample_webhook_json sample_verification next_env
     (\<lambda>i. [''tok'']) (webhook_call ''b'') reported_plane = Some (Inr (202, OneEvent ev), t)"
proof -
  have "normalize_webhook_inputs sample_webhook_json ''b'' = Some (Inr [reported_input])"
    by (simp add: normalize_webhook_inputs_def sample_webhook_json_def reported_input_def webhook_words)
  moreover have "webhook_configured sample_verification"
    by (simp add: webhook_configured_def sample_verification_def webhook_words)
  moreover have "htr_method (webhook_call ''b'') = ''POST''" "htr_body (webhook_call ''b'') = ''b''"
    by (simp_all add: webhook_call_def)
  moreover have "normalize_email_event_type ''bounced'' = Some EmailEventBounced"
    by (simp add: normalize_email_event_type_def type_words Let_def)
  moreover have "invitation_by_id [''tok''] [''tok'' \<mapsto> reported_invitation] ''inv_1'' = Some reported_invitation"
    by (simp add: invitation_by_id_def reported_invitation_def)
  ultimately show ?thesis
    by (simp add: serve_webhook_def invitation_email_webhook_def signed_call reported_input_def webhook_words
        unless_store_err_def on_store_def with_right_def record_invitation_email_event_def unit_plane Let_def)
qed

theorem webhook_accounts_for_events_witness:
  "\<exists>ev (t :: (unit, unit) plane) evs. mail_effect reported_plane evs t \<and>
     accounted sample_crypto sample_webhook_json sample_verification (webhook_call ''b'') (Inr (202, OneEvent ev)) evs"
proof -
  from reported_event obtain ev and t :: "(unit, unit) plane"
    where s: "serve_webhook sample_crypto sample_webhook_json sample_verification next_env
      (\<lambda>i. [''tok'']) (webhook_call ''b'') reported_plane = Some (Inr (202, OneEvent ev), t)" by blast
  show ?thesis using webhook_accounts_for_events [OF s] by blast
qed

theorem webhook_returns_witness:
  "\<exists>a t. serve_webhook sample_crypto sample_webhook_json sample_verification next_env
     (\<lambda>i. [''tok'']) (webhook_call ''m'') reported_plane = Some (a, t)"
  by (rule webhook_returns [where m = "\<lambda>s. if s = ''m'' then 1 else 0"])
    (auto simp: decoder_nests_def sample_webhook_json_def value_texts_def webhook_words has_prefix_def split: if_splits)

end
