(* ===== verification/Spec2Isabelle.thy ===== *)
theory Spec2Isabelle
  imports Part_Invariants Outbox_Invariants Sink_Properties Decorator_Properties Event_Fanout Dispatch Mailer Access_Properties Worker_Properties
    Model_Provider_Properties Agent_Properties Import_Properties Tenant_Properties Webhook_Properties
begin

text \<open>
  NiceAgent is a platform for running agents: a control plane (services/control-plane) keeps
  users, chats, runs, skills and artifacts, an agent runtime (services/agent-runtime) works on
  the runs, a sandbox executor runs their commands, and packages/common holds what they share.
  This development models the core of the control plane and of the agent runtime and proves that
  they do what they are meant to do.

  How the parts interact. A message enters through the HTTP interface (\<open>Access\<close>, \<open>Admission\<close>):
  the actor is authenticated and authorized, a quota is reserved, the store queues a run, the
  reservation is committed under a marker of the run, and a dispatcher passes the run on
  (\<open>Dispatch\<close>), in memory, over a stream or over HTTP. A worker (\<open>Run_Worker\<close>) claims the run under
  a lease and starts the engine (\<open>Agent_Engine\<close>), which lets a model (\<open>Model_Provider\<close>) call tools
  (\<open>Tool_Bridge\<close>) and reports events and an outcome over HTTP (\<open>Runtime_Sink\<close>, \<open>Internal_Api\<close>)
  to the sink of the control plane (\<open>Repository\<close>). The store (\<open>Store_State\<close> to
  \<open>Store_Machine\<close>) is the only shared state; it is wrapped by a repository that releases the
  quota of a run that ends and by one that publishes a nudge for every event (\<open>Decorators\<close>).
  Subscribers follow a run through the fan-out (\<open>Event_Fanout\<close>, \<open>Event_Stream\<close>). Invitations are sent by the
  mailers that drain the store's outbox (\<open>Mailer\<close>).

  Theories and the code they model (paths under src/).
  \<^item> \<open>Prelude\<close>, \<open>Go_Text\<close>, \<open>Go_Path\<close>: what the code uses of Go and its standard library: times
    in nanoseconds, 64-bit wrap-around, strings as bytes, \<open>TrimSpace\<close>, \<open>ToLower\<close>, \<open>Split\<close>,
    \<open>ParseInt\<close>, the UTC calendar, \<open>filepath.Clean\<close>, maps read in an arbitrary order, stable sorting.
  \<^item> \<open>Protocol\<close>: the structs and enumerations of packages/common/protocol, the error values and
    option structs of control-plane/internal/app, and the metadata redaction of
    packages/common/platform/redact.go.
  \<^item> \<open>Store_State\<close>, \<open>Chat_Store\<close>, \<open>Run_Store\<close>, \<open>Usage_Store\<close>, \<open>Identity_Store\<close>,
    \<open>Invitation_Store\<close>, \<open>Artifact_Store\<close>, \<open>Skill_Store\<close>: the in-memory store of
    control-plane/internal/repository/store.go; the record \<open>store\<close> has the fields of the struct
    and every method is a function of the same name. \<open>Skill_Config\<close> is
    packages/common/skillmanifest/http_config.go.
  \<^item> \<open>Store_Machine\<close>, \<open>Store_Invariants\<close>: every writing method as one constructor of
    \<open>store_op\<close>, the frame of each group of operations, reachability, and the locales in which an
    invariant or a lasting fact of one part is lifted to every execution.
    \<open>Run_Invariants\<close>, \<open>Part_Invariants\<close>, \<open>Outbox_Invariants\<close> interpret them.
  \<^item> \<open>Repository\<close>: the interface \<open>app.Repository\<close> as a record of functions, \<open>RepositorySink\<close> and
    the helpers of control-plane/internal/app/runs.go; the locale \<open>run_repository\<close> states the
    laws a repository keeps and proves the sink against the abstract board of runs.
    \<open>Sink_Properties\<close> rests on its interpretation on the store.
  \<^item> \<open>Quota_Limiter\<close>: control-plane/internal/quota/redis_limiter.go over the interface
    \<open>CounterStore\<close>. \<open>Quota_Laws\<close> states the laws of a counter store and derives the effect of
    every operation, \<open>Quota_System\<close> interleaves any number of requests and releases,
    \<open>Quota_Properties\<close> proves the properties.
  \<^item> \<open>Decorators\<close>, \<open>Decorator_Properties\<close>: quota/releasing_repository.go and the
    \<open>FanoutRepository\<close> of events/eventbus.go; a transparent wrapper keeps the laws of what it wraps.
  \<^item> \<open>Event_Fanout\<close>: the buses of events/eventbus.go, the nudges, and the loop that merges
    local events with nudges as a step relation.
  \<^item> \<open>Dispatch\<close>: control-plane/internal/dispatch: memory queue, Redis stream queue, local and
    HTTP dispatcher.
  \<^item> \<open>Mailer\<close>: control-plane/internal/mailer: outbox worker, queued mailer, SMTP message.
  \<^item> \<open>Access\<close>, \<open>Access_Properties\<close>: httpapi/action_policy.go and, of httpapi/server.go, the
    actor of a request, its roles, the audit entries, the read checks and the artifact paths.
  \<^item> \<open>Admission\<close>, \<open>Admission_Properties\<close>: of httpapi/server.go, the quota checks and
    \<open>createMessage\<close>, over the state of the whole control plane: the store, the counters and the
    bus.
  \<^item> \<open>Sample_Execution\<close>: the concrete execution the witnesses start from.
  \<^item> \<open>Artifact_Files\<close>: of httpapi/server.go, the text an artifact's file is read for and the
    deletion of a run's files, over the disk as a parameter.
  \<^item> \<open>Internal_Api\<close>, \<open>Internal_Api_Properties\<close>: the handlers of httpapi/server.go a runtime
    calls: claim, execution context, events, completion, failure, artifacts, tool quota, cleanup,
    and the routes to them. The locale \<open>store_property\<close> carries a fact about the store through
    any sequence of calls.
  \<^item> \<open>Runtime_Sink\<close>: agent-runtime/internal/sink/control_plane_sink.go: the sink that reports over
    HTTP, with the network as a parameter.
  \<^item> \<open>Run_Worker\<close>, \<open>Worker_Properties\<close>: agent-runtime/internal/runqueue/worker.go: reading and
    reclaiming messages, the execution context, the lease, acknowledgements and dead letters.
    The properties run the worker against the handlers of \<open>Internal_Api\<close> over a network that may
    lose requests and replies.
  \<^item> \<open>Text_Replace\<close>: \<open>strings.ReplaceAll\<close>, and why a replaced text no longer shows a secret.
  \<^item> \<open>Provider_Errors\<close>, \<open>Model_Usage\<close>, \<open>Model_Transport\<close>, \<open>Model_Provider\<close>,
    \<open>Model_Provider_Properties\<close>: agent-runtime/internal/modelprovider: error classes and redaction,
    prices and the usage tracker, the transport that repeats requests, the rate limiter, and the
    operational, fallback and mock models. A model is a codatatype, since \<open>WithTools\<close> gives another
    model; what the code shares by a pointer is a \<open>cell\<close> of the world, with the laws of the locale
    \<open>shared_cell\<close>.
  \<^item> \<open>Net_Guard\<close>, \<open>Net_Guard_Properties\<close>: of agent-runtime/internal/tools/http_skill.go, the
    guards of URLs, addresses and secret files, and the dialer that checks again.
  \<^item> \<open>Http_Skill\<close>, \<open>Skill_Limits\<close>: the rest of http_skill.go, mcp_skill.go, and the limiters of
    tool_bridge.go and redis_rate_limiter.go: the calls of HTTP and MCP skills.
  \<^item> \<open>Tool_Bridge\<close>, \<open>Tool_Properties\<close>: tool_bridge.go: the tools of a run, the risk policy, the
    quota, the built-in tools and the artifacts of a call. \<open>run_sink\<close> is the sink of a run with its
    optional interfaces.
  \<^item> \<open>Token_Estimator\<close>: packages/common/platform/token_estimator.go.
  \<^item> \<open>Agent_Engine\<close>, \<open>Agent_Properties\<close>: agent-runtime/internal/engine and the handler of
    agent-runtime/internal/httpapi that runs it: an execution from its first event to its outcome,
    and the models that force and guard tool calls. The locale \<open>counted_sink\<close> counts the outcomes
    an execution reports; it is interpreted on the sink of \<open>Runtime_Sink\<close>.
  \<^item> \<open>Mcp_Import\<close>, \<open>Openapi_Import\<close>, \<open>Import_Properties\<close>:
    packages/common/skillmanifest/mcp_import.go and openapi_import.go: skills made of documents.
  \<^item> \<open>Public_Api\<close>, \<open>Org_Api\<close>, \<open>Skill_Api\<close>, \<open>Public_Routes\<close>: the handlers of httpapi/server.go below
    /api/: chats, runs, artifacts and listings; invitations, members, policies and usage; skills and
    their imports; the table of routes and the middleware in front of it. \<open>Public_Properties\<close> says
    what a caller may change and see, \<open>Tenant_Properties\<close> which roles a request can change.
  \<^item> \<open>Event_Stream\<close>: the stream of a run's events over a connection that may break.
  \<^item> \<open>Webhook_Events\<close>, \<open>Webhook_Api\<close>, \<open>Webhook_Properties\<close>: httpapi/invitation_email_webhook.go and
    the handler of server.go in front of it: what mail providers report about invitations, the
    signatures that let a report in, and its recording.

  Conventions. A method that holds the store's mutex is one step; \<open>op_ok\<close> is that the
  identifiers it draws are fresh and its environment is sound. \<open>NewID\<close> and \<open>time.Now\<close> are the
  fields of \<open>env\<close>; an operation made of several calls takes a sequence of environments. A Go map is
  a partial function, and a loop over one takes the order it visits the keys in, so a theorem
  that does not fix the order holds for all. Errors are the left component of a sum. Times are
  integers, 0 the zero time; a pointer to a time is an option. Sums and counters of numbers that
  come from outside wrap at 64 bits; sequence numbers and attempt counts that start at 0 and grow
  by 1 are unbounded. \<open>float64\<close> is a rational number with the rounding of an addition as a
  parameter. Libraries and services that are not in the repository, the Redis clients, the JSON
  decoder, URL parsing, templates, SMTP, HTTP, the file system, the OIDC verifier, the client of a
  model, the agent library, tokenizers, the sandbox, are parameters,
  collected in records; where a property needs one to behave it says so, and its witness uses a
  concrete one, mostly the fake of the package's own tests.

  Loops. \<open>poll_loop\<close> (the stream queue) is a partial function: \<open>None\<close> is that it never returns,
  and \<open>dequeue_returns\<close> proves that it returns once its context is done. \<open>rounds\<close> iterates the
  outbox worker a given number of times; \<open>failing_mail_gives_up\<close> gives the number that is enough,
  the attempts allowed. \<open>event_loop\<close> (the engine) is a partial function too, and \<open>execution_ends\<close>
  proves that it returns when the iterator of the agent library ends. \<open>normalize_webhook_value\<close> reads
  documents inside documents; \<open>webhook_returns\<close> proves that the call returns. All other loops are
  structural or come with a termination proof.

  What the properties show. First the store, for every execution by any number of clients: ended
  runs stay ended, leases exclude, event logs have no gap, invitations are used once, mail is
  claimed by one worker. Then the admission of messages and the access checks, the internal
  interface and the worker under its lease, the reports on runs and their order, the quota under
  every interleaving, the wrapped repositories, the fan-out, the dispatchers, the calls to a model,
  and the tools and the engine of the runtime: where a tool may connect to, what the gates keep from
  running, which calls of a model pass, and that a run has one outcome and an end; and of the
  public interface what a caller without a writing role changes (nothing but the audit), what an
  answer shows (the caller's own), whose roles a request can change, and what the report of a mail
  provider records. Each property is
  preceded by a text with its number; its witness applies it to a concrete input.

  Not modelled: the PostgreSQL store (its behaviour is that of the SQL engine), OIDC token
  verification, start-up and configuration, metrics, tracing and logging, the background loop
  around the probe of a model, the health answers, and the processes and containers of the sandbox.
  Expiry of Redis keys is not modelled: a counter lives until it is settled.
\<close>

section \<open>Runs\<close>

text \<open>C1. A run that has succeeded, failed or been canceled keeps that status: no sequence of
  operations of the store, by any number of workers and requests, changes it.\<close>

theorem terminal_status_final:
  assumes "reachable s" "ops_ok ops s"
    and "s_runs s rid = Some r" "is_terminal_run_status (run_status r)"
  shows "\<exists>r'. s_runs (run_ops ops s) rid = Some r' \<and> run_status r' = run_status r"
proof -
  have "run_kept s (run_ops ops s) rid"
    using runs.lasting_reachable [OF assms(1,2)] by (simp add: runs_last_def)
  then show ?thesis using assms(3,4) by (auto simp: run_kept_def)
qed

theorem terminal_status_final_witness:
  "\<exists>r'. s_runs (run_ops [RunOp (OpUpdateRunStatus (demo_env 6) ''run_1'' RunSucceeded ''''),
           RunOp (OpClaimRunAttempt (demo_env 7) ''run_1'' ''b'' ''v'' 300)] demo_done) ''run_1'' = Some r' \<and>
        run_status r' = RunCanceled"
  using terminal_status_final
    [OF demo_done_reachable, of "[RunOp (OpUpdateRunStatus (demo_env 6) ''run_1'' RunSucceeded ''''),
      RunOp (OpClaimRunAttempt (demo_env 7) ''run_1'' ''b'' ''v'' 300)]" "''run_1''"]
  by (simp add: demo_done_run del: run_ops.simps)

text \<open>C2. Lease exclusion. After a worker has claimed attempt \<open>a\<close> of a run until \<open>l\<close>, and
  whatever the store does next as long as the claims of that run happen before \<open>l\<close> and the
  holder does not shorten its lease: \<open>CheckRunAttempt\<close> accepts attempt \<open>a\<close> and refuses every
  other attempt, and a claim of another attempt before \<open>l\<close> changes nothing.\<close>

theorem lease_excludes_other_attempts:
  assumes "claim_run_attempt e rid a w l s = (Inr r, t)" "\<not> is_terminal_run_status (run_status r)"
    and "ops_ok ops t" "\<forall>op \<in> set ops. claims_before rid a l op" and "b \<noteq> a" "e_now f < l"
  shows "(\<exists>q. check_run_attempt rid a (run_ops ops t) = Inr q) \<and>
    check_run_attempt rid b (run_ops ops t) = Inl ErrAttemptMismatch \<and>
    snd (claim_run_attempt f rid b v k (run_ops ops t)) = run_ops ops t"
proof -
  have "a \<noteq> ''''" using assms(1,2) by (cases rule: claim_Inr_cases) auto
  with assms(1-4) have holds: "holds_lease rid a l (run_ops ops t)"
    using claim_holds_lease holds_lease_ops by blast
  then have "snd (claim_run_attempt f rid b v k (run_ops ops t)) = run_ops ops t"
    using assms(5,6) \<open>a \<noteq> ''''\<close>
    by (auto simp: holds_lease_def claim_run_attempt_def lease_blocks_def after_def)
  with holds_lease_fences [OF holds] assms(5) show ?thesis by blast
qed

theorem lease_excludes_other_attempts_witness:
  "(\<exists>q. check_run_attempt ''run_1'' ''a'' (run_ops [RunOp (OpSaveRunUsage ''run_1'' zero_run_usage)] demo_store)
        = Inr q) \<and>
   check_run_attempt ''run_1'' ''b'' (run_ops [RunOp (OpSaveRunUsage ''run_1'' zero_run_usage)] demo_store)
     = Inl ErrAttemptMismatch \<and>
   snd (claim_run_attempt (demo_env 9) ''run_1'' ''b'' ''v'' 300
      (run_ops [RunOp (OpSaveRunUsage ''run_1'' zero_run_usage)] demo_store)) =
      run_ops [RunOp (OpSaveRunUsage ''run_1'' zero_run_usage)] demo_store"
proof -
  have "claim_run_attempt (demo_env 3) ''run_1'' ''a'' ''w'' 100 demo_store = (Inr demo_run, demo_store)"
    using demo_store_run by (simp add: claim_run_attempt_def demo_run_def Let_def map_upd_triv)
  then show ?thesis
    by (rule lease_excludes_other_attempts) (simp_all add: demo_run_def)
qed

text \<open>C3. The event log of a run has no gap and no duplicate: in every reachable store the
  events are numbered 1, 2, 3, ... in the order they were added, the counter is their
  number, and \<open>ListEvents(run, n)\<close> is the log without its first \<open>n\<close> events.\<close>

theorem event_log_has_no_gap:
  assumes "reachable s"
  shows "map evt_seq (run_log s rid) = map int [1..<length (run_log s rid) + 1] \<and>
    set (map evt_run_id (run_log s rid)) \<subseteq> {rid} \<and>
    map_get 0 (s_seq s) rid = int (length (run_log s rid)) \<and>
    list_events rid (int n) s = drop n (run_log s rid)"
proof -
  have "log_ok s rid" using run_states.reach [OF assms] run_invD(3) by blast
  then show ?thesis
    by (auto simp: log_ok_def dense_seqs_def list_events_dense)
qed

theorem event_log_has_no_gap_witness:
  "map evt_seq (run_log demo_store ''run_1'') = [1] \<and>
    map_get 0 (s_seq demo_store) ''run_1'' = 1 \<and>
    list_events ''run_1'' (int 1) demo_store = []"
proof -
  have "length (run_log demo_store ''run_1'') = 1"
    by (simp add: demo_store_def demo_steps new_store_def run_log_def map_get_def)
  then show ?thesis
    using event_log_has_no_gap [OF demo_reachable, of "''run_1''" 1] by simp
qed

text \<open>A reader can resume: what it has listed up to the counter's value, followed by what
  it lists later from that sequence number, is what it would list later from the start, whatever
  happened in between.\<close>

theorem event_log_resumes:
  assumes "reachable s" "ops_ok ops s"
  shows "list_events rid 0 (run_ops ops s) =
    list_events rid 0 s @ list_events rid (map_get 0 (s_seq s) rid) (run_ops ops s)"
proof -
  have p: "prefix (run_log s rid) (run_log (run_ops ops s) rid)"
    using runs.lasting_reachable [OF assms] by (simp add: runs_last_def)
  have "log_ok s rid" "log_ok (run_ops ops s) rid"
    using run_states.reach run_invD(3) reachable_ops assms by blast+
  then have after: "list_events rid (int n) (run_ops ops s) = drop n (run_log (run_ops ops s) rid)"
    and first: "list_events rid (int n) s = drop n (run_log s rid)"
    and last: "map_get 0 (s_seq s) rid = int (length (run_log s rid))" for n
    by (simp_all add: log_ok_def list_events_dense)
  obtain tail where "run_log (run_ops ops s) rid = run_log s rid @ tail"
    using p by (auto simp: prefix_def)
  then show ?thesis using after [of 0] first [of 0] after [of "length (run_log s rid)"] last by simp
qed

theorem event_log_resumes_witness:
  "list_events ''run_1'' 0 (run_ops [RunOp (OpAddEvent (demo_env 8) ''run_1'' EventModelToken ''x'' VNil)] demo_store) =
    list_events ''run_1'' 0 demo_store @ list_events ''run_1'' (map_get 0 (s_seq demo_store) ''run_1'')
      (run_ops [RunOp (OpAddEvent (demo_env 8) ''run_1'' EventModelToken ''x'' VNil)] demo_store)"
  by (rule event_log_resumes [OF demo_reachable]) simp

text \<open>C4. In every reachable store the runs are well-formed: filed under their own id, owned by
  the user of an existing chat, started when running, finished exactly when terminal, with an
  attempt exactly when they have a lease; the logs and the usages belong to runs, and the user
  messages of a chat match its runs one to one.\<close>

theorem reachable_runs_well_formed:
  assumes "reachable s" "s_runs s rid = Some r"
  shows "run_ok s rid r \<and> log_ok s rid \<and> messages_ok s (run_chat_id r) \<and>
    run_id ` {q. run_chat_id q = run_chat_id r \<and> q \<in> ran (s_runs s)} =
      msg_run_id ` set (user_messages s (run_chat_id r))"
proof -
  have inv: "run_inv s" by (rule run_states.reach [OF assms(1)])
  have ok: "run_ok s rid r" "log_ok s rid" "messages_ok s (run_chat_id r)"
    using inv assms(2) run_invD by blast+
  have "run_id v = q" if "s_runs s q = Some v" for q v
    using run_invD(2) [OF inv that] by (simp add: run_ok_def)
  then have "run_id ` {q. run_chat_id q = run_chat_id r \<and> q \<in> ran (s_runs s)} =
      {q. \<exists>v. s_runs s q = Some v \<and> run_chat_id v = run_chat_id r}"
    by (force simp: ran_def)
  with ok show ?thesis by (simp add: messages_ok_def)
qed

theorem reachable_runs_well_formed_witness:
  "run_ok demo_store ''run_1'' demo_run \<and> log_ok demo_store ''run_1'' \<and>
   messages_ok demo_store (run_chat_id demo_run) \<and>
   run_id ` {q. run_chat_id q = run_chat_id demo_run \<and> q \<in> ran (s_runs demo_store)} =
     msg_run_id ` set (user_messages demo_store (run_chat_id demo_run))"
  by (rule reachable_runs_well_formed [OF demo_reachable demo_store_run])



section \<open>Invitations and their e-mail\<close>

text \<open>C6. An invitation is accepted at most once: after a successful acceptance, whatever
  happens next, every further acceptance with the same token fails.\<close>

theorem invitation_accepted_once:
  assumes "reachable s" "accept_invitation e token user email name s = (Inr i, t)"
    and "ops_ok ops t" "trim_space token' = trim_space token"
  shows "\<exists>err. fst (accept_invitation e' token' user' email' name' (run_ops ops t)) = Inl err"
proof -
  have t: "t = op_effect (InvitationOp (OpAcceptInvitation e token user email name)) s"
    using assms(2) by simp
  have "reachable t" unfolding t by (rule reach_op [OF assms(1)]) simp
  then have last: "invitations_last t (run_ops ops t)"
    using invitations.lasting_reachable assms(3) by blast
  obtain j where "s_invitations t (trim_space token) = Some j" "inv_status j = InvitationAccepted"
    using assms(2) by (elim accept_Inr) simp
  then obtain k where "s_invitations (run_ops ops t) (trim_space token) = Some k" "invitation_kept j k"
    using last unfolding invitations_last_def by blast
  then have "s_invitations (run_ops ops t) (trim_space token) = Some j"
    using \<open>inv_status j = InvitationAccepted\<close> by (simp add: invitation_kept_def)
  then show ?thesis
    using \<open>inv_status j = InvitationAccepted\<close> assms(4)
    by (simp add: accept_invitation_def Let_def)
qed

definition demo_invite :: invitation_input where
  "demo_invite = \<lparr>ivi_email = ''Bob@x.io'', ivi_role = ''admin'', ivi_project_id = '''',
     ivi_expires_in_hours = 0\<rparr>"

lemma demo_texts:
  "to_lower (trim_space ''Bob@x.io'') = ''bob@x.io''"
  "to_lower (trim_space ''BOB@x.io'') = ''bob@x.io''"
  "trim_space ''bob'' = ''bob''" "trim_space '''' = ''''" "trim_space ''inv_1'' = ''inv_1''"
  "trim_space ''invite_token_1'' = ''invite_token_1''" "trim_space ''demo-org'' = ''demo-org''"
  "normalize_member_role ''admin'' = ''admin''" "contains ''bob@x.io'' ''@''"
  "trim_space ''bob@x.io'' = ''bob@x.io''" "to_lower ''bob@x.io'' = ''bob@x.io''"
  by (simp_all add: trim_space_visible visible_char_def to_lower_map ascii_def lower_char_def char_of_def bit_0
      normalize_member_role_def)

definition demo_invited :: store where
  "demo_invited = snd (create_invitation (demo_env 10) ''demo-org'' ''demo-user'' demo_invite demo_store)"

definition demo_invitation :: invitation where
  "demo_invitation = \<lparr>inv_id = ''inv_1'', inv_token = ''invite_token_1'',
     inv_organization_id = ''demo-org'', inv_project_id = '''', inv_email = ''bob@x.io'',
     inv_role = ''admin'', inv_status = InvitationPending, inv_invited_by_user_id = ''demo-user'',
     inv_accepted_by_user_id = '''', inv_created_at = 10, inv_expires_at = 10 + 168 * time_hour,
     inv_accepted_at = None\<rparr>"

lemma demo_store_frames [simp]:
  "s_invitations demo_store = Map.empty" "s_email_deliveries demo_store = Map.empty"
  "s_email_suppressions demo_store = Map.empty" "s_identities demo_store = Map.empty"
  "s_user_identities demo_store = Map.empty" "s_users demo_store = s_users (new_store 0)"
  by (simp_all add: demo_store_def demo_steps new_store_def)

lemma demo_invited_eq: "demo_invited = demo_store\<lparr>s_invitations := [''invite_token_1'' \<mapsto> demo_invitation]\<rparr>"
  by (simp add: demo_invited_def create_invitation_def demo_invite_def demo_invitation_def demo_texts Let_def)

lemma demo_invited_reachable: "reachable demo_invited"
  using reach_op [OF demo_reachable, of "InvitationOp (OpCreateInvitation (demo_env 10) ''demo-org'' ''demo-user'' demo_invite)"]
  by (simp add: demo_invited_def)

lemma demo_accept:
  "\<exists>i t. accept_invitation (demo_env 11) ''invite_token_1'' ''bob'' ''BOB@x.io'' ''Bob'' demo_invited = (Inr i, t)"
  by (simp add: demo_invited_eq accept_invitation_def demo_texts demo_invitation_def after_def
      duration_defs Let_def)

theorem invitation_accepted_once_witness:
  "\<exists>t err. fst (accept_invitation (demo_env 12) ''invite_token_1'' ''eve'' ''BOB@x.io'' '''' t) = Inl err \<and>
     t = snd (accept_invitation (demo_env 11) ''invite_token_1'' ''bob'' ''BOB@x.io'' ''Bob'' demo_invited)"
proof -
  obtain i t where a: "accept_invitation (demo_env 11) ''invite_token_1'' ''bob'' ''BOB@x.io'' ''Bob'' demo_invited = (Inr i, t)"
    using demo_accept by blast
  then show ?thesis
    using invitation_accepted_once [OF demo_invited_reachable a, of "[]" "''invite_token_1''" "demo_env 12" "''eve''" "''BOB@x.io''" "''''"]
    by simp
qed

text \<open>Accepting an invitation takes its token, before its expiry, while it is pending, by the
  invited e-mail address (compared trimmed and in lower case); it gives the user exactly the
  invited role in the invited project or organization, and hides the token.\<close>

theorem acceptance_grants_invited_role:
  assumes "accept_invitation e token user email name s = (Inr j, t)"
  shows "\<exists>i. s_invitations s (trim_space token) = Some i \<and> inv_status i = InvitationPending \<and>
    e_now e < inv_expires_at i \<and> inv_email i = to_lower (trim_space email) \<and> inv_token j = '''' \<and>
    (if inv_project_id i = ''''
     then org_role_of t (trim_space user) (inv_organization_id i) = Some (inv_role i) \<and>
          s_project_roles t = s_project_roles s
     else project_role_of t (trim_space user) (inv_project_id i) = Some (inv_role i) \<and>
          s_org_roles t = s_org_roles s)"
  using assms
proof (elim accept_Inr)
  fix i assume "s_invitations s (trim_space token) = Some i" "inv_status i = InvitationPending"
    "e_now e < inv_expires_at i" "inv_email i = to_lower (trim_space email)" "inv_token j = ''''"
    "s_org_roles t = (if inv_project_id i = ''''
       then (s_org_roles s)(org_role_key (trim_space user) (inv_organization_id i) \<mapsto> [inv_role i])
       else s_org_roles s)"
    "s_project_roles t = (if inv_project_id i \<noteq> ''''
       then (s_project_roles s)(project_role_key (trim_space user) (inv_project_id i) \<mapsto> [inv_role i])
       else s_project_roles s)"
  then show ?thesis by (intro exI [of _ i]) (simp add: org_role_of_iff project_role_of_iff)
qed

theorem acceptance_grants_invited_role_witness:
  "\<exists>t. org_role_of t ''bob'' ''demo-org'' = Some ''admin''"
proof -
  obtain i t where a: "accept_invitation (demo_env 11) ''invite_token_1'' ''bob'' ''BOB@x.io'' ''Bob'' demo_invited = (Inr i, t)"
    using demo_accept by blast
  show ?thesis
    using acceptance_grants_invited_role [OF a]
    by (auto simp: demo_texts demo_invited_eq demo_invitation_def)
qed

text \<open>C7. No invitation e-mail is sent twice by two workers: a delivery that a claim hands out is
  stored as being sent by that worker, and until its lock ends no other claim hands it out, as
  long as nobody reports on it or requeues it.\<close>

theorem claimed_email_is_exclusive:
  assumes "reachable s" "enumerates order (s_email_deliveries s)"
    and "claim_due_invitation_emails e io order n w u s = (out, t)" "d \<in> set out"
    and "ops_ok ops t" "\<forall>op \<in> set ops. leaves_delivery (dlv_id d) (claim_until e u) op"
    and "enumerates order' (s_email_deliveries (run_ops ops t))" "e_now e' < claim_until e u"
  shows "s_email_deliveries t (dlv_id d) = Some d \<and> dlv_locked_by d = claim_worker w \<and>
    dlv_id d \<notin> dlv_id ` set (fst (claim_due_invitation_emails e' io' order' n' w' u' (run_ops ops t)))"
proof -
  have ok: "outbox_ok s" by (rule outbox.reach [OF assms(1)])
  have d: "distinct order" "distinct order'" using assms(2,7) by (simp_all add: enumerates_def)
  have t: "outbox_ok t" using outbox_ok_claim [OF ok d(1), of e io n w u] assms(3) by simp
  have "d \<in> set (fst (claim_due_invitation_emails e io order n w u s))" using assms(3,4) by simp
  note c = claimed_holds [OF ok d(1) this]
  have "holds_delivery (dlv_id d) (claim_until e u) (run_ops ops t)"
    using holds_delivery_ops [OF _ t assms(5,6)] c(1) assms(3) by simp
  then have "dlv_id d \<notin> dlv_id ` set (fst (claim_due_invitation_emails e' io' order' n' w' u' (run_ops ops t)))"
    using claim_due_locked(1) assms(8) d(2) outbox.run [OF t assms(5)] by blast
  with c(2,4) assms(3) show ?thesis by simp
qed

definition demo_mail :: store where
  "demo_mail = snd (enqueue_invitation_email (demo_env 20) [] demo_invitation 3 demo_invited)"

definition demo_delivery :: delivery where
  "demo_delivery = \<lparr>dlv_id = ''invmail_1'', dlv_invitation_id = ''inv_1'',
     dlv_invitation = demo_invitation, dlv_status = InvitationEmailPending, dlv_attempts = 0,
     dlv_max_attempts = 3, dlv_next_attempt_at = 20, dlv_locked_by = '''',
     dlv_locked_until = None, dlv_last_error = '''', dlv_sent_at = None, dlv_created_at = 20,
     dlv_updated_at = 20\<rparr>"

lemma demo_mail_eq: "demo_mail = demo_invited\<lparr>s_email_deliveries := [''invmail_1'' \<mapsto> demo_delivery]\<rparr>"
  by (simp add: demo_mail_def enqueue_invitation_email_def demo_delivery_def demo_invitation_def
      demo_texts is_suppressed_locked_def demo_invited_eq Let_def)

lemma demo_mail_reachable: "reachable demo_mail"
  using reach_op [OF demo_invited_reachable, of "OutboxOp (OpEnqueueInvitationEmail (demo_env 20) [] demo_invitation 3)"]
  by (simp add: demo_mail_def demo_invited_eq enumerates_def)

definition demo_claimed :: delivery where
  "demo_claimed = demo_delivery\<lparr>dlv_status := InvitationEmailSending, dlv_attempts := 1,
     dlv_locked_by := ''control-plane'', dlv_locked_until := Some (30 + time_minute), dlv_updated_at := 30\<rparr>"

lemma demo_claim:
  "claim_due_invitation_emails (demo_env 30) [''invite_token_1''] [''invmail_1''] 5 '''' 0 demo_mail =
     ([demo_claimed], demo_mail\<lparr>s_email_deliveries := [''invmail_1'' \<mapsto> demo_claimed]\<rparr>)"
  by (simp add: claim_due_invitation_emails_def demo_mail_eq demo_invited_eq demo_claimed_def demo_texts
      claim_delivery_def demo_delivery_def demo_invitation_def invitation_by_id_def
      is_suppressed_locked_def suppression_key_def after_def Let_def)

lemma demo_claimed_reachable: "reachable (demo_mail\<lparr>s_email_deliveries := [''invmail_1'' \<mapsto> demo_claimed]\<rparr>)"
  using reach_op [OF demo_mail_reachable, of "OutboxOp (OpClaimDueInvitationEmails (demo_env 30)
      [''invite_token_1''] [''invmail_1''] 5 '''' 0)"]
  by (simp add: demo_claim) (simp add: demo_mail_eq demo_invited_eq enumerates_def)

theorem claimed_email_is_exclusive_witness:
  "s_email_deliveries (demo_mail\<lparr>s_email_deliveries := [''invmail_1'' \<mapsto> demo_claimed]\<rparr>)
      (dlv_id demo_claimed) = Some demo_claimed \<and>
   dlv_locked_by demo_claimed = claim_worker '''' \<and>
   dlv_id demo_claimed \<notin> dlv_id ` set (fst (claim_due_invitation_emails (demo_env 40) [] [''invmail_1''] 5 ''w2'' 0
      (run_ops [] (demo_mail\<lparr>s_email_deliveries := [''invmail_1'' \<mapsto> demo_claimed]\<rparr>))))"
  by (rule claimed_email_is_exclusive [OF demo_mail_reachable _ demo_claim])
    (simp_all add: demo_mail_eq enumerates_def claim_until_def after_def duration_defs)

text \<open>In every reachable store the outbox keeps its bounds: a delivery is filed under its
  own id, was attempted at most as often as its limit allows, is locked while it is being sent,
  and is the only one of its invitation.\<close>

theorem outbox_keeps_bounds:
  assumes "reachable s" "s_email_deliveries s k = Some d"
  shows "dlv_id d = k \<and> 0 \<le> dlv_attempts d \<and> dlv_attempts d \<le> dlv_max_attempts d \<and>
    (dlv_status d = InvitationEmailSending \<longrightarrow> dlv_locked_until d \<noteq> None) \<and>
    (\<forall>l d'. s_email_deliveries s l = Some d' \<longrightarrow> dlv_invitation_id d' = dlv_invitation_id d \<longrightarrow> l = k)"
proof -
  have ok: "outbox_ok s" by (rule outbox.reach [OF assms(1)])
  have "\<forall>l d'. s_email_deliveries s l = Some d' \<longrightarrow> dlv_invitation_id d' = dlv_invitation_id d \<longrightarrow> l = k"
    using ok assms(2) unfolding outbox_ok_def by metis
  with outbox_okD [OF ok assms(2)] show ?thesis by (simp add: delivery_ok_def)
qed

theorem outbox_keeps_bounds_witness:
  "dlv_id demo_claimed = ''invmail_1'' \<and> dlv_attempts demo_claimed \<le> 3 \<and>
   dlv_locked_until demo_claimed \<noteq> None"
  using outbox_keeps_bounds [OF demo_claimed_reachable, of "''invmail_1''" demo_claimed]
  by (simp add: demo_claimed_def demo_delivery_def)

text \<open>A bounce, complaint or drop reported by the provider stops the mail to that address in
  that organization: the address is suppressed, and enqueueing any invitation to it fails.\<close>

theorem bounced_address_gets_no_mail:
  assumes "record_invitation_email_event e io inp s = (Inr ev, t)"
    and "suppresses_invitation_email (eme_type ev)"
    and "invitation_by_id io (s_invitations s) (eme_invitation_id ev) = Some i"
    and "trim_space (inv_organization_id i) \<noteq> ''''" "trim_space (inv_email i) \<noteq> ''''"
    and "inv_organization_id j = inv_organization_id i" "inv_email j = inv_email i"
  shows "is_invitation_email_suppressed (inv_organization_id i) (inv_email i) t \<and>
    enqueue_invitation_email e' order j n t = (Inl ErrInvalidInput, t)"
proof -
  obtain sups where "s_email_suppressions t =
      record_suppression_locked e (inv_organization_id i) (inv_email i) ev sups"
    using record_event_suppresses [OF assms(1-3)] by blast
  then have "is_suppressed_locked (s_email_suppressions t) (inv_organization_id i) (inv_email i)"
    using suppression_recorded assms(4,5) by simp
  then show ?thesis
    using assms(6,7) by (simp add: is_invitation_email_suppressed_def enqueue_invitation_email_def Let_def)
qed

definition demo_bounce :: email_event_input where
  "demo_bounce = \<lparr>emi_invitation_id = ''inv_1'', emi_delivery_id = '''', emi_provider = '''',
     emi_provider_message_id = '''', emi_type = ''bounced'', emi_reason = '''', emi_payload = [],
     emi_occurred_at = None\<rparr>"

lemma demo_bounced:
  "\<exists>ev t. record_invitation_email_event (demo_env 50) [''invite_token_1''] demo_bounce demo_mail = (Inr ev, t) \<and>
     eme_type ev = EmailEventBounced \<and> eme_invitation_id ev = ''inv_1''"
proof -
  have "normalize_email_event_type ''bounced'' = Some EmailEventBounced" 
    by (simp add: normalize_email_event_type_def trim_space_visible visible_char_def to_lower_map
        ascii_def lower_char_def char_of_def bit_0)
  then show ?thesis
    by (simp add: record_invitation_email_event_def demo_bounce_def demo_texts demo_mail_eq
        demo_invited_eq invitation_by_id_def demo_invitation_def Let_def)
qed

theorem bounced_address_gets_no_mail_witness:
  "\<exists>t. is_invitation_email_suppressed ''demo-org'' ''bob@x.io'' t \<and>
     enqueue_invitation_email (demo_env 60) [] demo_invitation 1 t = (Inl ErrInvalidInput, t)"
proof -
  obtain ev t where r: "record_invitation_email_event (demo_env 50) [''invite_token_1''] demo_bounce demo_mail = (Inr ev, t)"
    and ty: "eme_type ev = EmailEventBounced" "eme_invitation_id ev = ''inv_1''"
    using demo_bounced by blast
  have "is_invitation_email_suppressed (inv_organization_id demo_invitation) (inv_email demo_invitation) t \<and>
      enqueue_invitation_email (demo_env 60) [] demo_invitation 1 t = (Inl ErrInvalidInput, t)"
    by (rule bounced_address_gets_no_mail [OF r])
      (simp_all add: ty suppresses_invitation_email_def demo_mail_eq demo_invited_eq
        invitation_by_id_def demo_invitation_def demo_texts)
  then show ?thesis by (auto simp: demo_invitation_def)
qed

end
